(* ===== verification/GoPrelude.thy ===== *)
theory GoPrelude
  imports Main "HOL-Library.Word" "HOL-Library.Sublist"
begin

text \<open>
  Shared ground of the development: the pieces of Go and of its standard library that the
  modelled source uses.  A Go string is an Isabelle string whose characters are its bytes,
  a byte slice is a list of 8-bit words, \<open>uint64\<close> is a 64-bit word, an \<open>error\<close> result is
  the left side of a sum.  The theory also declares the collections of facts that the
  component proofs share.
\<close>

named_theorems go_string \<open>facts about the Go string functions\<close>
named_theorems go_defs \<open>definitions a component's proofs unfold\<close>

section \<open>Results\<close>

text \<open>A Go function returning \<open>(T, error)\<close> returns a value of the sum \<open>error + T\<close>.\<close>

definition is_ok :: "'e + 'a \<Rightarrow> bool" where
  "is_ok r \<longleftrightarrow> (case r of Inl _ \<Rightarrow> False | Inr _ \<Rightarrow> True)"

lemma is_ok_simps [simp]: "\<not> is_ok (Inl e)" "is_ok (Inr x)"
  by (simp_all add: is_ok_def)

lemma is_ok_iff: "is_ok r \<longleftrightarrow> (\<exists>x. r = Inr x)"
  by (cases r) auto

text \<open>
  A floating point number: not a number, an infinity (\<open>True\<close> the positive one), or the finite
  number \<open>m * 2 ^ e\<close>.
\<close>

datatype goFloat =
    FNaN
  | FInf bool
  | FNum int int

text \<open>
  A value of type \<open>any\<close>, as it comes out of the JSON decoder or is built by a caller.  The integer
  types of Go are one constructor; their width is a bound on the integer.  \<open>VFloat\<close> is a \<open>float64\<close>.
\<close>

datatype goValue =
    VNil
  | VBool bool
  | VInt int
  | VFloat goFloat
  | VFloat32 goFloat
  | VString string
  | VList "goValue list"
  | VMap "(string \<times> goValue) list"

section \<open>strings.TrimSpace\<close>

text \<open>
  The UTF-8 encodings of the code points for which \<open>unicode.IsSpace\<close> holds: the ASCII
  spaces, U+0085, U+00A0, U+1680, U+2000 to U+200A, U+2028, U+2029, U+202F, U+205F and U+3000.
\<close>

definition go_spaces :: "string list" where
  "go_spaces =
     [[CHR 0x20], [CHR 0x09], [CHR 0x0A], [CHR 0x0B], [CHR 0x0C], [CHR 0x0D],
      [CHR 0xC2, CHR 0x85], [CHR 0xC2, CHR 0xA0], [CHR 0xE1, CHR 0x9A, CHR 0x80],
      [CHR 0xE2, CHR 0x80, CHR 0x80], [CHR 0xE2, CHR 0x80, CHR 0x81],
      [CHR 0xE2, CHR 0x80, CHR 0x82], [CHR 0xE2, CHR 0x80, CHR 0x83],
      [CHR 0xE2, CHR 0x80, CHR 0x84], [CHR 0xE2, CHR 0x80, CHR 0x85],
      [CHR 0xE2, CHR 0x80, CHR 0x86], [CHR 0xE2, CHR 0x80, CHR 0x87],
      [CHR 0xE2, CHR 0x80, CHR 0x88], [CHR 0xE2, CHR 0x80, CHR 0x89],
      [CHR 0xE2, CHR 0x80, CHR 0x8A], [CHR 0xE2, CHR 0x80, CHR 0xA8],
      [CHR 0xE2, CHR 0x80, CHR 0xA9], [CHR 0xE2, CHR 0x80, CHR 0xAF],
      [CHR 0xE2, CHR 0x81, CHR 0x9F], [CHR 0xE3, CHR 0x80, CHR 0x80]]"

text \<open>Cuts the words of a table off the front of a string for as long as one is a prefix.\<close>

function strip_left :: "string list \<Rightarrow> string \<Rightarrow> string" where
  "strip_left ws s =
     (case find (\<lambda>w. w \<noteq> [] \<and> prefix w s) ws of
        None \<Rightarrow> s
      | Some w \<Rightarrow> strip_left ws (drop (length w) s))"
  by pat_completeness auto
termination
proof (relation "measure (\<lambda>(ws, s). length s)")
  show "wf (measure (\<lambda>(ws :: string list, s :: string). length s))" by simp
next
  fix ws :: "string list" and s w
  assume "find (\<lambda>w. w \<noteq> [] \<and> prefix w s) ws = Some w"
  then have "w \<noteq> []" "prefix w s" by (auto simp: find_Some_iff)
  then have "0 < length w" "length w \<le> length s" by (auto simp: prefix_length_le)
  then have "length s - length w < length s" by linarith
  then show "((ws, drop (length w) s), ws, s) \<in> measure (\<lambda>(ws, s). length s)" by simp
qed

declare strip_left.simps [simp del]

definition TrimSpace :: "string \<Rightarrow> string" where
  "TrimSpace s = rev (strip_left (map rev go_spaces) (rev (strip_left go_spaces s)))"

lemma strip_left_id:
  assumes "\<And>w. w \<in> set ws \<Longrightarrow> w \<noteq> [] \<Longrightarrow> \<not> prefix w s"
  shows "strip_left ws s = s"
proof -
  from assms have "find (\<lambda>w. w \<noteq> [] \<and> prefix w s) ws = None" by (auto simp: find_None_iff)
  then show ?thesis by (simp add: strip_left.simps)
qed

lemma strip_left_Nil [simp]: "strip_left ws [] = []"
  by (rule strip_left_id) auto

lemma strip_left_no_prefix:
  "w \<in> set ws \<Longrightarrow> w \<noteq> [] \<Longrightarrow> \<not> prefix w (strip_left ws s)"
proof (induction ws s rule: strip_left.induct)
  case (1 ws s)
  show ?case
  proof (cases "find (\<lambda>w. w \<noteq> [] \<and> prefix w s) ws")
    case None
    then have "strip_left ws s = s" by (simp add: strip_left.simps [of ws s])
    with None "1.prems" show ?thesis by (auto simp: find_None_iff)
  next
    case (Some v)
    with "1.IH" "1.prems" show ?thesis by (simp add: strip_left.simps [of ws s])
  qed
qed

lemma strip_left_suffix: "suffix (strip_left ws s) s"
proof (induction ws s rule: strip_left.induct)
  case (1 ws s)
  show ?case
  proof (cases "find (\<lambda>w. w \<noteq> [] \<and> prefix w s) ws")
    case None
    then show ?thesis by (simp add: strip_left.simps [of ws s])
  next
    case (Some v)
    with "1.IH" have "suffix (strip_left ws (drop (length v) s)) (drop (length v) s)" by simp
    then have "suffix (strip_left ws (drop (length v) s)) s"
      using suffix_drop suffix_order.trans by blast
    with Some show ?thesis by (simp add: strip_left.simps [of ws s])
  qed
qed

text \<open>A character that is in no word of the table stays.\<close>

lemma strip_left_keeps:
  "x \<in> set s \<Longrightarrow> \<forall>w\<in>set ws. x \<notin> set w \<Longrightarrow> x \<in> set (strip_left ws s)"
proof (induction ws s rule: strip_left.induct)
  case (1 ws s)
  show ?case
  proof (cases "find (\<lambda>w. w \<noteq> [] \<and> prefix w s) ws")
    case None
    with "1.prems" show ?thesis by (simp add: strip_left.simps [of ws s])
  next
    case (Some v)
    then have "v \<in> set ws" "prefix v s" by (auto simp: find_Some_iff)
    then have "x \<in> set (drop (length v) s)" using "1.prems" by (auto simp: prefix_def)
    with Some "1.IH" "1.prems" show ?thesis by (simp add: strip_left.simps [of ws s])
  qed
qed

lemma TrimSpace_keeps:
  assumes "x \<in> set s" "\<forall>w\<in>set go_spaces. x \<notin> set w"
  shows "TrimSpace s \<noteq> []"
proof -
  have "x \<in> set (strip_left (map rev go_spaces) (rev (strip_left go_spaces s)))"
    using assms by (intro strip_left_keeps) (auto intro: strip_left_keeps)
  then show ?thesis by (auto simp: TrimSpace_def)
qed

lemma TrimSpace_Nil [simp, go_string]: "TrimSpace [] = []"
  by (simp add: TrimSpace_def)

text \<open>A trimmed string neither starts nor ends with the encoding of a space.\<close>

lemma TrimSpace_ends:
  assumes "w \<in> set go_spaces" "w \<noteq> []"
  shows "\<not> prefix w (TrimSpace s)" and "\<not> suffix w (TrimSpace s)"
proof -
  let ?l = "strip_left go_spaces s"
  have "suffix (strip_left (map rev go_spaces) (rev ?l)) (rev ?l)" by (rule strip_left_suffix)
  then have "prefix (TrimSpace s) ?l" by (simp add: TrimSpace_def suffix_to_prefix)
  moreover have "\<not> prefix w ?l" using assms by (rule strip_left_no_prefix)
  ultimately show "\<not> prefix w (TrimSpace s)" using prefix_order.trans by blast
  have "\<not> prefix (rev w) (strip_left (map rev go_spaces) (rev ?l))"
    using assms by (intro strip_left_no_prefix) auto
  then show "\<not> suffix w (TrimSpace s)" by (simp add: TrimSpace_def suffix_to_prefix)
qed

lemma TrimSpace_id:
  assumes "\<And>w. w \<in> set go_spaces \<Longrightarrow> w \<noteq> [] \<Longrightarrow> \<not> prefix w s \<and> \<not> suffix w s"
  shows "TrimSpace s = s"
proof -
  have "strip_left go_spaces s = s" using assms by (intro strip_left_id) auto
  moreover have "strip_left (map rev go_spaces) (rev s) = rev s"
    using assms by (intro strip_left_id) (auto simp: suffix_to_prefix)
  ultimately show ?thesis by (simp add: TrimSpace_def)
qed

text \<open>A text without a character of a space is as it is.\<close>

lemma TrimSpace_plain:
  assumes "set s \<inter> \<Union> (set ` set go_spaces) = {}"
  shows "TrimSpace s = s"
proof (rule TrimSpace_id)
  fix w :: string
  assume w: "w \<in> set go_spaces" "w \<noteq> []"
  then obtain x where x: "x \<in> set w" "x \<notin> set s" using assms by (metis Int_iff UN_I empty_iff last_in_set)
  then show "\<not> prefix w s \<and> \<not> suffix w s"
    using set_mono_prefix [of w s] set_mono_suffix [of w s] by blast
qed

lemma TrimSpace_idem [simp, go_string]: "TrimSpace (TrimSpace s) = TrimSpace s"
  using TrimSpace_ends by (intro TrimSpace_id) blast

section \<open>Byte order: encoding/binary.BigEndian\<close>

type_synonym byte = "8 word"

text \<open>\<open>be_enc k n\<close> writes the lowest \<open>k\<close> bytes of \<open>n\<close>, most significant byte first.\<close>

primrec be_enc :: "nat \<Rightarrow> nat \<Rightarrow> byte list" where
  "be_enc 0 n = []"
| "be_enc (Suc k) n = be_enc k (n div 256) @ [of_nat n]"

definition be_dec :: "byte list \<Rightarrow> nat" where
  "be_dec bs = foldl (\<lambda>acc b. acc * 256 + unat b) 0 bs"

definition AppendUint64 :: "byte list \<Rightarrow> 64 word \<Rightarrow> byte list" where
  "AppendUint64 bs v = bs @ be_enc 8 (unat v)"

text \<open>\<open>BigEndian.Uint64(b)\<close> on a slice of eight bytes.\<close>

definition Uint64 :: "byte list \<Rightarrow> 64 word" where
  "Uint64 bs = of_nat (be_dec bs)"

lemma length_be_enc [simp]: "length (be_enc k n) = k"
  by (induction k arbitrary: n) auto

lemma be_dec_snoc [simp]: "be_dec (bs @ [b]) = be_dec bs * 256 + unat b"
  by (simp add: be_dec_def)

lemma be_dec_enc: "be_dec (be_enc k n) = n mod 256 ^ k"
proof (induction k arbitrary: n)
  case 0
  then show ?case by (simp add: be_dec_def)
next
  case (Suc k)
  have "n mod (256 * 256 ^ k) = 256 * (n div 256 mod 256 ^ k) + n mod 256"
    by (rule mod_mult2_eq)
  with Suc show ?case by (simp add: unat_of_nat mult.commute)
qed

lemma be_enc_dec: "be_enc (length bs) (be_dec bs) = bs"
proof (induction bs rule: rev_induct)
  case Nil
  then show ?case by simp
next
  case (snoc b bs)
  have "unat b < 256" using unsigned_less [of b, where 'a = nat] by simp
  then have "(be_dec bs * 256 + unat b) div 256 = be_dec bs" by simp
  moreover have "unat (of_nat (be_dec bs * 256 + unat b) :: byte) = unat b"
    by (simp only: unat_of_nat) (use \<open>unat b < 256\<close> in simp)
  then have "(of_nat (be_dec bs * 256 + unat b) :: byte) = b"
    by (simp only: word_unat_eq_iff)
  ultimately show ?case using snoc by simp
qed

lemma Uint64_enc [simp]: "Uint64 (be_enc 8 (unat v)) = v"
proof -
  have "unat v < 2 ^ 64" using unsigned_less [of v, where 'a = nat] by simp
  then have "unat v mod 256 ^ 8 = unat v" by simp
  then show ?thesis by (simp add: Uint64_def be_dec_enc)
qed

lemma be_dec_bound: "be_dec bs < 256 ^ length bs"
proof (induction bs rule: rev_induct)
  case Nil
  then show ?case by (simp add: be_dec_def)
next
  case (snoc b bs)
  have "unat b < 256" using unsigned_less [of b, where 'a = nat] by simp
  with snoc show ?case by simp
qed

lemma enc_Uint64 [simp]: "length bs = 8 \<Longrightarrow> be_enc 8 (unat (Uint64 bs)) = bs"
  using be_enc_dec [of bs] be_dec_bound [of bs] by (simp add: Uint64_def unat_of_nat)

section \<open>Conversions between strings and byte slices\<close>

definition bytes_of :: "string \<Rightarrow> byte list" where
  "bytes_of s = map (\<lambda>c. of_nat (of_char c)) s"

definition string_of :: "byte list \<Rightarrow> string" where
  "string_of bs = map (\<lambda>b. char_of (unat b)) bs"

lemma string_of_bytes_of [simp]: "string_of (bytes_of s) = s"
proof -
  have "char_of (unat (of_nat (of_char c) :: byte)) = c" for c :: char
  proof -
    have "(of_char c :: nat) < 256" by simp
    then show ?thesis by (simp add: unat_of_nat)
  qed
  then show ?thesis by (induction s) (simp_all add: string_of_def bytes_of_def)
qed

lemma bytes_of_string_of [simp]: "bytes_of (string_of bs) = bs"
proof -
  have "of_nat (of_char (char_of (unat b) :: char)) = b" for b :: byte
  proof -
    have "unat b < 256" using unsigned_less [of b, where 'a = nat] by simp
    then show ?thesis by simp
  qed
  then show ?thesis by (induction bs) (simp_all add: string_of_def bytes_of_def)
qed

lemma length_bytes_of [simp]: "length (bytes_of s) = length s"
  by (simp add: bytes_of_def)

section \<open>Decimal rendering: the verb \<open>%d\<close> of fmt on a non-negative number\<close>

definition digit_char :: "nat \<Rightarrow> char" where
  "digit_char d = char_of (48 + d)"

fun itoa :: "nat \<Rightarrow> string" where
  "itoa n = (if n < 10 then [digit_char n] else itoa (n div 10) @ [digit_char (n mod 10)])"

declare itoa.simps [simp del]

lemma itoa_nonempty [simp]: "itoa n \<noteq> []"
  by (subst itoa.simps) simp

section \<open>The verb \<open>%q\<close> of fmt on a string of ASCII characters\<close>

definition goEscape :: "char \<Rightarrow> string" where
  "goEscape c =
     (let n = (of_char c :: nat) in
      if c = CHR 0x22 \<or> c = CHR 0x5C then [CHR 0x5C, c]
      else if n = 7 then [CHR 0x5C, CHR ''a'']
      else if n = 8 then [CHR 0x5C, CHR ''b'']
      else if n = 9 then [CHR 0x5C, CHR ''t'']
      else if n = 10 then [CHR 0x5C, CHR ''n'']
      else if n = 11 then [CHR 0x5C, CHR ''v'']
      else if n = 12 then [CHR 0x5C, CHR ''f'']
      else if n = 13 then [CHR 0x5C, CHR ''r'']
      else if n < 32 \<or> n = 127
      then [CHR 0x5C, CHR ''x'', char_of (if n div 16 < 10 then 48 + n div 16 else 87 + n div 16),
            char_of (if n mod 16 < 10 then 48 + n mod 16 else 87 + n mod 16)]
      else [c])"

definition goQuote :: "string \<Rightarrow> string" where
  "goQuote s = CHR 0x22 # concat (map goEscape s) @ [CHR 0x22]"

end
