(* ===== verification/OverlayFrame.thy ===== *)
theory OverlayFrame
  imports GoPrelude
begin

text \<open>
  The overlay frame codec and the endpoint over a connection
  (\<^verbatim>\<open>internal/overlay/types.go\<close>).  A frame kind is the byte the code keeps, an adapter kind the
  string it keeps, so every value the Go types admit is a value here, unknown kinds included.
  The facts about the codec are proved once in the locale \<open>frame_codec\<close>, which states what a
  user of the wire format relies on, and are obtained for the model by interpretation.
\<close>

section \<open>Adapters\<close>

type_synonym adapter_kind = string

definition AdapterUDP :: adapter_kind where "AdapterUDP = ''udp''"
definition AdapterTCP :: adapter_kind where "AdapterTCP = ''tcp''"

definition DefaultDatagramBufferSize :: nat where "DefaultDatagramBufferSize = 1600"
definition StreamChunkSize :: nat where "StreamChunkSize = 1024"
definition maxFrameSize :: nat where "maxFrameSize = 64 * 1024"

datatype overlay_error =
    UnsupportedAdapter string adapter_kind
  | UnsupportedOverlayAdapter adapter_kind
  | UnsupportedAdapterCode byte
  | UnsupportedFrameKind byte
  | FrameEmpty
  | FrameMalformed byte
  | FrameTooLarge nat
  | ConnReadFailed
  | SetWriteDeadlineFailed byte
  | ConnWriteFailed byte

definition NormalizeAdapter :: "adapter_kind \<Rightarrow> adapter_kind" where
  "NormalizeAdapter kind =
     (let t = TrimSpace kind in
      if t = [] \<or> t = AdapterUDP then AdapterUDP
      else if t = AdapterTCP then AdapterTCP
      else kind)"

definition ValidateAdapter :: "adapter_kind \<Rightarrow> string \<Rightarrow> overlay_error + unit" where
  "ValidateAdapter kind role =
     (let n = NormalizeAdapter kind in
      if n = AdapterUDP \<or> n = AdapterTCP then Inr () else Inl (UnsupportedAdapter role kind))"

definition SupportedPair :: "adapter_kind \<Rightarrow> adapter_kind \<Rightarrow> bool" where
  "SupportedPair ingress egress =
     (let i = NormalizeAdapter ingress; e = NormalizeAdapter egress in
      (i = AdapterUDP \<and> e = AdapterUDP) \<or> (i = AdapterTCP \<and> e = AdapterTCP))"

lemma adapters_distinct [simp]:
  "AdapterUDP \<noteq> AdapterTCP" "AdapterTCP \<noteq> AdapterUDP" "AdapterUDP \<noteq> []" "AdapterTCP \<noteq> []"
  by (simp_all add: AdapterUDP_def AdapterTCP_def)

lemma TrimSpace_adapters [simp]:
  "TrimSpace AdapterUDP = AdapterUDP" "TrimSpace AdapterTCP = AdapterTCP"
  by code_simp+

lemma NormalizeAdapter_known [simp]:
  "NormalizeAdapter AdapterUDP = AdapterUDP" "NormalizeAdapter AdapterTCP = AdapterTCP"
  "NormalizeAdapter [] = AdapterUDP"
  by (simp_all add: NormalizeAdapter_def)

lemma NormalizeAdapter_idem [simp]: "NormalizeAdapter (NormalizeAdapter k) = NormalizeAdapter k"
  by (auto simp: NormalizeAdapter_def Let_def)

lemma ValidateAdapter_ok_iff:
  "ValidateAdapter k role = Inr () \<longleftrightarrow> NormalizeAdapter k \<in> {AdapterUDP, AdapterTCP}"
  by (auto simp: ValidateAdapter_def Let_def)

lemma SupportedPair_iff:
  "SupportedPair i e \<longleftrightarrow>
     NormalizeAdapter i = NormalizeAdapter e \<and> NormalizeAdapter i \<in> {AdapterUDP, AdapterTCP}"
  by (auto simp: SupportedPair_def Let_def)

section \<open>Frames\<close>

definition FrameHello :: byte where "FrameHello = 1"
definition FrameHelloAck :: byte where "FrameHelloAck = 2"
definition FrameHelloReject :: byte where "FrameHelloReject = 3"
definition FrameDatagram :: byte where "FrameDatagram = 4"
definition FrameStreamOpen :: byte where "FrameStreamOpen = 5"
definition FrameStreamData :: byte where "FrameStreamData = 6"
definition FrameStreamClose :: byte where "FrameStreamClose = 7"

lemmas frame_kind_defs =
  FrameHello_def FrameHelloAck_def FrameHelloReject_def FrameDatagram_def FrameStreamOpen_def
  FrameStreamData_def FrameStreamClose_def

lemma frame_kinds_distinct [simp]:
  "FrameHello \<noteq> FrameHelloAck" "FrameHello \<noteq> FrameHelloReject" "FrameHello \<noteq> FrameDatagram" "FrameHello \<noteq> FrameStreamOpen" "FrameHello \<noteq> FrameStreamData" "FrameHello \<noteq> FrameStreamClose"
  "FrameHelloAck \<noteq> FrameHello" "FrameHelloAck \<noteq> FrameHelloReject" "FrameHelloAck \<noteq> FrameDatagram" "FrameHelloAck \<noteq> FrameStreamOpen" "FrameHelloAck \<noteq> FrameStreamData" "FrameHelloAck \<noteq> FrameStreamClose"
  "FrameHelloReject \<noteq> FrameHello" "FrameHelloReject \<noteq> FrameHelloAck" "FrameHelloReject \<noteq> FrameDatagram" "FrameHelloReject \<noteq> FrameStreamOpen" "FrameHelloReject \<noteq> FrameStreamData" "FrameHelloReject \<noteq> FrameStreamClose"
  "FrameDatagram \<noteq> FrameHello" "FrameDatagram \<noteq> FrameHelloAck" "FrameDatagram \<noteq> FrameHelloReject" "FrameDatagram \<noteq> FrameStreamOpen" "FrameDatagram \<noteq> FrameStreamData" "FrameDatagram \<noteq> FrameStreamClose"
  "FrameStreamOpen \<noteq> FrameHello" "FrameStreamOpen \<noteq> FrameHelloAck" "FrameStreamOpen \<noteq> FrameHelloReject" "FrameStreamOpen \<noteq> FrameDatagram" "FrameStreamOpen \<noteq> FrameStreamData" "FrameStreamOpen \<noteq> FrameStreamClose"
  "FrameStreamData \<noteq> FrameHello" "FrameStreamData \<noteq> FrameHelloAck" "FrameStreamData \<noteq> FrameHelloReject" "FrameStreamData \<noteq> FrameDatagram" "FrameStreamData \<noteq> FrameStreamOpen" "FrameStreamData \<noteq> FrameStreamClose"
  "FrameStreamClose \<noteq> FrameHello" "FrameStreamClose \<noteq> FrameHelloAck" "FrameStreamClose \<noteq> FrameHelloReject" "FrameStreamClose \<noteq> FrameDatagram" "FrameStreamClose \<noteq> FrameStreamOpen" "FrameStreamClose \<noteq> FrameStreamData"
  by (simp_all add: frame_kind_defs)

definition kindString :: "byte \<Rightarrow> string" where
  "kindString k =
     (if k = FrameHello then ''hello''
      else if k = FrameHelloAck then ''hello_ack''
      else if k = FrameHelloReject then ''hello_reject''
      else if k = FrameDatagram then ''datagram''
      else if k = FrameStreamOpen then ''stream_open''
      else if k = FrameStreamData then ''stream_data''
      else if k = FrameStreamClose then ''stream_close''
      else ''frame_kind_'' @ itoa (unat k))"

record frame =
  Kind :: byte
  Adapter :: adapter_kind
  RouteID :: "64 word"
  StreamID :: "64 word"
  Sequence :: "64 word"
  Payload :: "byte list"
  Reason :: string

text \<open>The zero value \<open>Frame{}\<close> with its kind set.\<close>

definition frameOfKind :: "byte \<Rightarrow> frame" where
  "frameOfKind k =
     \<lparr>Kind = k, Adapter = [], RouteID = 0, StreamID = 0, Sequence = 0, Payload = [], Reason = []\<rparr>"

definition adapterCode :: "adapter_kind \<Rightarrow> overlay_error + byte" where
  "adapterCode kind =
     (let n = NormalizeAdapter kind in
      if n = AdapterUDP then Inr 1
      else if n = AdapterTCP then Inr 2
      else Inl (UnsupportedOverlayAdapter kind))"

definition adapterFromCode :: "byte \<Rightarrow> overlay_error + adapter_kind" where
  "adapterFromCode code =
     (if code = 1 then Inr AdapterUDP
      else if code = 2 then Inr AdapterTCP
      else Inl (UnsupportedAdapterCode code))"

definition MarshalBinary :: "frame \<Rightarrow> overlay_error + byte list" where
  "MarshalBinary f =
     (let k = Kind f; out = [k] in
      if k = FrameHello \<or> k = FrameHelloAck then
        (case adapterCode (Adapter f) of Inl e \<Rightarrow> Inl e | Inr code \<Rightarrow> Inr (out @ [code]))
      else if k = FrameHelloReject then Inr (out @ bytes_of (Reason f))
      else if k = FrameDatagram then Inr (AppendUint64 out (RouteID f) @ Payload f)
      else if k = FrameStreamOpen \<or> k = FrameStreamClose then Inr (AppendUint64 out (StreamID f))
      else if k = FrameStreamData then
        Inr (AppendUint64 (AppendUint64 out (StreamID f)) (Sequence f) @ Payload f)
      else Inl (UnsupportedFrameKind k))"

definition UnmarshalFrame :: "byte list \<Rightarrow> overlay_error + frame" where
  "UnmarshalFrame data =
     (case data of
        [] \<Rightarrow> Inl FrameEmpty
      | k # payload \<Rightarrow>
          let frame = frameOfKind k in
          if k = FrameHello \<or> k = FrameHelloAck then
            (case payload of
               [code] \<Rightarrow>
                 (case adapterFromCode code of
                    Inl e \<Rightarrow> Inl e
                  | Inr a \<Rightarrow> Inr (frame\<lparr>Adapter := a\<rparr>))
             | _ \<Rightarrow> Inl (FrameMalformed k))
          else if k = FrameHelloReject then Inr (frame\<lparr>Reason := string_of payload\<rparr>)
          else if k = FrameDatagram then
            (if length payload < 8 then Inl (FrameMalformed k)
             else Inr (frame\<lparr>RouteID := Uint64 (take 8 payload), Payload := drop 8 payload\<rparr>))
          else if k = FrameStreamOpen \<or> k = FrameStreamClose then
            (if length payload \<noteq> 8 then Inl (FrameMalformed k)
             else Inr (frame\<lparr>StreamID := Uint64 (take 8 payload)\<rparr>))
          else if k = FrameStreamData then
            (if length payload < 16 then Inl (FrameMalformed k)
             else Inr (frame\<lparr>StreamID := Uint64 (take 8 payload),
                              Sequence := Uint64 (take 8 (drop 8 payload)),
                              Payload := drop 16 payload\<rparr>))
          else Inl (UnsupportedFrameKind k))"

text \<open>
  The part of a frame its kind puts on the wire.  The other fields travel as their zero
  values, and an adapter travels normalised.
\<close>

definition canonFrame :: "frame \<Rightarrow> frame" where
  "canonFrame f =
     (let k = Kind f; z = frameOfKind k in
      if k = FrameHello \<or> k = FrameHelloAck then z\<lparr>Adapter := NormalizeAdapter (Adapter f)\<rparr>
      else if k = FrameHelloReject then z\<lparr>Reason := Reason f\<rparr>
      else if k = FrameDatagram then z\<lparr>RouteID := RouteID f, Payload := Payload f\<rparr>
      else if k = FrameStreamOpen \<or> k = FrameStreamClose then z\<lparr>StreamID := StreamID f\<rparr>
      else z\<lparr>StreamID := StreamID f, Sequence := Sequence f, Payload := Payload f\<rparr>)"

text \<open>The byte strings that are frames.\<close>

definition frameShape :: "byte list \<Rightarrow> bool" where
  "frameShape bs \<longleftrightarrow>
     (case bs of
        [] \<Rightarrow> False
      | k # p \<Rightarrow>
          (k \<in> {FrameHello, FrameHelloAck} \<and> p \<in> {[1], [2]})
          \<or> k = FrameHelloReject
          \<or> (k = FrameDatagram \<and> 8 \<le> length p)
          \<or> (k \<in> {FrameStreamOpen, FrameStreamClose} \<and> length p = 8)
          \<or> (k = FrameStreamData \<and> 16 \<le> length p))"

section \<open>What users of the wire format rely on\<close>

locale frame_codec =
  fixes enc :: "'f \<Rightarrow> 'e + byte list"
    and dec :: "byte list \<Rightarrow> 'e + 'f"
    and canon :: "'f \<Rightarrow> 'f"
  assumes enc_dec: "enc f = Inr bs \<Longrightarrow> dec bs = Inr (canon f)"
    and dec_enc: "dec bs = Inr f \<Longrightarrow> enc f = Inr bs"
begin

lemma dec_inj: "dec bs = Inr f \<Longrightarrow> dec cs = Inr f \<Longrightarrow> bs = cs"
  by (metis dec_enc sum.inject(2))

lemma enc_determines: "enc f = Inr bs \<Longrightarrow> enc g = Inr bs \<Longrightarrow> canon f = canon g"
  by (metis enc_dec sum.inject(2))

lemma dec_canonical: "dec bs = Inr f \<Longrightarrow> canon f = f"
  by (metis dec_enc enc_dec sum.inject(2))

text \<open>A batch of packets written by one side is read by the other as the frames sent.\<close>

lemma batch:
  "map enc fs = map Inr bss \<Longrightarrow> map dec bss = map (\<lambda>f. Inr (canon f)) fs"
  by (induction fs arbitrary: bss) (auto simp: Cons_eq_map_conv dest: enc_dec)

end

lemma adapterCode_ok:
  "adapterCode a = Inr c \<longleftrightarrow>
     (NormalizeAdapter a = AdapterUDP \<and> c = 1) \<or> (NormalizeAdapter a = AdapterTCP \<and> c = 2)"
  by (auto simp: adapterCode_def Let_def)

lemma adapterFromCode_ok:
  "adapterFromCode c = Inr a \<longleftrightarrow> (c = 1 \<and> a = AdapterUDP) \<or> (c = 2 \<and> a = AdapterTCP)"
  by (auto simp: adapterFromCode_def)

lemma adapterFromCode_code:
  "adapterCode a = Inr c \<Longrightarrow> adapterFromCode c = Inr (NormalizeAdapter a)"
  by (auto simp: adapterCode_ok adapterFromCode_def)

lemma adapterCode_fromCode: "adapterFromCode c = Inr a \<Longrightarrow> adapterCode a = Inr c"
  by (auto simp: adapterFromCode_ok adapterCode_def)

lemma take_take_drop: "take 8 xs @ take 8 (drop 8 xs) @ drop 16 xs = xs"
proof -
  have "drop 16 xs = drop 8 (drop 8 xs)" by simp
  then show ?thesis by (simp only: append_take_drop_id)
qed

text \<open>The cases of the switch statements over a frame kind.\<close>

lemma frame_kind_cases:
  obtains (hello) "k = FrameHello \<or> k = FrameHelloAck"
    | (reject) "k = FrameHelloReject"
    | (datagram) "k = FrameDatagram"
    | (control) "k = FrameStreamOpen \<or> k = FrameStreamClose"
    | (stream_data) "k = FrameStreamData"
    | (unknown) "k \<notin> {FrameHello, FrameHelloAck, FrameHelloReject, FrameDatagram, FrameStreamOpen,
        FrameStreamData, FrameStreamClose}"
  by auto

lemma marshal_then_unmarshal:
  assumes "MarshalBinary f = Inr bs"
  shows "UnmarshalFrame bs = Inr (canonFrame f)"
proof (cases "Kind f" rule: frame_kind_cases)
  case hello
  with assms obtain c where "bs = [Kind f, c]" "adapterCode (Adapter f) = Inr c"
    by (auto simp: MarshalBinary_def split: sum.splits)
  with hello show ?thesis
    by (simp add: UnmarshalFrame_def canonFrame_def adapterFromCode_code)
next
  case control
  with assms have "bs = Kind f # be_enc 8 (unat (StreamID f))"
    by (auto simp: MarshalBinary_def AppendUint64_def)
  with control show ?thesis by (auto simp: UnmarshalFrame_def canonFrame_def)
qed (use assms in \<open>auto simp: MarshalBinary_def UnmarshalFrame_def canonFrame_def AppendUint64_def\<close>)

lemma unmarshal_then_marshal:
  assumes "UnmarshalFrame bs = Inr f"
  shows "MarshalBinary f = Inr bs"
proof (cases bs)
  case Nil
  with assms show ?thesis by (simp add: UnmarshalFrame_def)
next
  case (Cons k p)
  show ?thesis
  proof (cases k rule: frame_kind_cases)
    case hello
    with assms Cons obtain c a where "p = [c]" "adapterFromCode c = Inr a"
      "f = (frameOfKind k)\<lparr>Adapter := a\<rparr>"
      by (auto simp: UnmarshalFrame_def Let_def split: list.splits sum.splits)
    with hello Cons show ?thesis
      by (simp add: MarshalBinary_def frameOfKind_def adapterCode_fromCode)
  next
    case stream_data
    with assms Cons show ?thesis
      by (simp add: UnmarshalFrame_def MarshalBinary_def frameOfKind_def AppendUint64_def Let_def
          take_take_drop split: if_splits) (auto simp: take_take_drop)
  qed (use assms Cons in \<open>auto simp: UnmarshalFrame_def MarshalBinary_def frameOfKind_def
        AppendUint64_def Let_def split: if_splits\<close>)
qed

interpretation codec: frame_codec MarshalBinary UnmarshalFrame canonFrame
  by unfold_locales (fact marshal_then_unmarshal unmarshal_then_marshal)+

lemma Kind_canonFrame [simp]: "Kind (canonFrame f) = Kind f"
  by (simp add: canonFrame_def frameOfKind_def Let_def)

lemma UnmarshalFrame_Kind: "UnmarshalFrame (k # p) = Inr f \<Longrightarrow> Kind f = k"
  by (auto simp: UnmarshalFrame_def frameOfKind_def Let_def split: if_splits list.splits sum.splits)

lemma UnmarshalFrame_ok_shape: "is_ok (UnmarshalFrame bs) = frameShape bs"
proof (cases bs)
  case Nil
  then show ?thesis by (simp add: UnmarshalFrame_def frameShape_def)
next
  case (Cons k p)
  show ?thesis
    by (cases k rule: frame_kind_cases)
      (auto simp: Cons UnmarshalFrame_def frameShape_def adapterFromCode_def Let_def
        split: list.splits)
qed

lemma MarshalBinary_Kind: "MarshalBinary f = Inr bs \<Longrightarrow> \<exists>p. bs = Kind f # p"
  by (auto simp: MarshalBinary_def AppendUint64_def Let_def split: if_splits sum.splits)

text \<open>The number of bytes a frame takes on the wire, by its kind.\<close>

definition frameSize :: "frame \<Rightarrow> nat" where
  "frameSize f =
     (let k = Kind f in
      if k = FrameHello \<or> k = FrameHelloAck then 2
      else if k = FrameHelloReject then 1 + length (Reason f)
      else if k = FrameDatagram then 9 + length (Payload f)
      else if k = FrameStreamOpen \<or> k = FrameStreamClose then 9
      else 17 + length (Payload f))"

lemma length_MarshalBinary: "MarshalBinary f = Inr bs \<Longrightarrow> length bs = frameSize f"
  by (cases "Kind f" rule: frame_kind_cases)
    (auto simp: MarshalBinary_def frameSize_def AppendUint64_def split: sum.splits)

section \<open>The endpoint\<close>

text \<open>
  What the connection does is an argument: the bytes a \<open>Read\<close> returned, and whether setting the
  write deadline or writing fails.  A write leaves the trace of the calls made on the connection;
  \<open>SetWriteDeadline True\<close> arms a deadline and \<open>SetWriteDeadline False\<close> clears it.
\<close>

datatype conn_call = SetWriteDeadline bool | Write "byte list"

record write_env =
  deadlineFails :: bool
  writeFails :: bool

definition ReadFrame :: "(overlay_error + byte list) \<Rightarrow> overlay_error + frame" where
  "ReadFrame r =
     (case r of
        Inl e \<Rightarrow> Inl e
      | Inr data \<Rightarrow>
          if length data = maxFrameSize then Inl (FrameTooLarge maxFrameSize)
          else UnmarshalFrame data)"

definition writeFrame ::
    "write_env \<Rightarrow> frame \<Rightarrow> bool \<Rightarrow> (overlay_error + unit) \<times> conn_call list" where
  "writeFrame env frame deadlineSet =
     (case MarshalBinary frame of
        Inl e \<Rightarrow> (Inl e, [])
      | Inr payload \<Rightarrow>
          if deadlineSet \<and> deadlineFails env then
            (Inl (SetWriteDeadlineFailed (Kind frame)), [SetWriteDeadline True])
          else
            let armed = (if deadlineSet then [SetWriteDeadline True] else []);
                cleared = (if deadlineSet then [SetWriteDeadline False] else []);
                result = (if writeFails env then Inl (ConnWriteFailed (Kind frame)) else Inr ())
            in (result, armed @ [Write payload] @ cleared))"

definition WriteFrame :: "write_env \<Rightarrow> frame \<Rightarrow> (overlay_error + unit) \<times> conn_call list" where
  "WriteFrame env frame = writeFrame env frame False"

definition WriteFrameWithDeadline ::
    "write_env \<Rightarrow> frame \<Rightarrow> int \<Rightarrow> (overlay_error + unit) \<times> conn_call list" where
  "WriteFrameWithDeadline env frame timeout = writeFrame env frame (0 < timeout)"

text \<open>The packets a trace puts on the wire.\<close>

fun packets :: "conn_call list \<Rightarrow> byte list list" where
  "packets [] = []"
| "packets (Write bs # cs) = bs # packets cs"
| "packets (SetWriteDeadline b # cs) = packets cs"

lemma packets_append [simp]: "packets (xs @ ys) = packets xs @ packets ys"
  by (induction xs rule: packets.induct) auto

lemma WriteFrame_ok:
  "fst (WriteFrame env f) = Inr () \<Longrightarrow>
     \<exists>bs. MarshalBinary f = Inr bs \<and> packets (snd (WriteFrame env f)) = [bs] \<and> \<not> writeFails env"
  by (auto simp: WriteFrame_def writeFrame_def Let_def split: sum.splits if_splits)

lemma WriteFrame_packets:
  "packets (snd (WriteFrame env f)) =
     (case MarshalBinary f of Inl _ \<Rightarrow> [] | Inr bs \<Rightarrow> [bs])"
  by (auto simp: WriteFrame_def writeFrame_def Let_def split: sum.splits)

lemma ReadFrame_packet:
  assumes "MarshalBinary f = Inr bs" "frameSize f \<noteq> maxFrameSize"
  shows "ReadFrame (Inr bs) = Inr (canonFrame f)"
  using assms codec.enc_dec [OF assms(1)] length_MarshalBinary [OF assms(1)]
  by (simp add: ReadFrame_def)

section \<open>Properties\<close>

text \<open>
  C1: Encoding then decoding gives back what the frame's kind puts on the wire: for every frame
  that \<open>MarshalBinary\<close> accepts, \<open>UnmarshalFrame\<close> reads its bytes as that frame with the fields
  its kind does not carry zeroed and its adapter normalised.
\<close>

theorem frame_roundtrip:
  "MarshalBinary f = Inr bs \<Longrightarrow> UnmarshalFrame bs = Inr (canonFrame f)"
  by (rule codec.enc_dec)

theorem frame_roundtrip_witness:
  "UnmarshalFrame (6 # be_enc 8 258 @ be_enc 8 7 @ [1, 2, 3]) =
     Inr ((frameOfKind FrameStreamData)\<lparr>StreamID := 258, Sequence := 7, Payload := [1, 2, 3]\<rparr>)"
proof -
  let ?f = "(frameOfKind FrameStreamData)\<lparr>StreamID := 258, Sequence := 7, Payload := [1, 2, 3]\<rparr>"
  have "MarshalBinary ?f = Inr (6 # be_enc 8 258 @ be_enc 8 7 @ [1, 2, 3])"
    by (simp add: MarshalBinary_def frameOfKind_def AppendUint64_def FrameStreamData_def
        FrameHello_def FrameHelloAck_def FrameHelloReject_def FrameDatagram_def
        FrameStreamOpen_def FrameStreamClose_def)
  from frame_roundtrip [OF this] show ?thesis by (simp add: canonFrame_def frameOfKind_def)
qed

text \<open>
  C2: The wire format has one encoding per frame: whatever bytes \<open>UnmarshalFrame\<close> accepts are
  the bytes \<open>MarshalBinary\<close> writes for the frame it returns, and that frame is canonical.
\<close>

theorem frame_decode_unique:
  "UnmarshalFrame bs = Inr f \<Longrightarrow> MarshalBinary f = Inr bs \<and> canonFrame f = f"
  using codec.dec_enc codec.dec_canonical by blast

theorem frame_decode_unique_witness:
  "MarshalBinary ((frameOfKind FrameHello)\<lparr>Adapter := AdapterTCP\<rparr>) = Inr [1, 2]"
proof -
  have "UnmarshalFrame [1, 2] = Inr ((frameOfKind FrameHello)\<lparr>Adapter := AdapterTCP\<rparr>)"
    by (simp add: UnmarshalFrame_def FrameHello_def adapterFromCode_def)
  from frame_decode_unique [OF this] show ?thesis by simp
qed

text \<open>
  \<open>UnmarshalFrame\<close> accepts exactly the well-shaped byte strings: a handshake frame is a kind
  byte and the code 1 or 2, a rejection any text, a datagram carries at least the eight bytes of
  its route, open and close exactly the eight bytes of the stream, stream data at least stream
  and sequence.  Everything else, the empty packet included, is an error.
\<close>

theorem frame_accepts_exactly: "is_ok (UnmarshalFrame bs) = frameShape bs"
  by (rule UnmarshalFrame_ok_shape)

text \<open>
  A frame written to an endpoint is the frame the other endpoint reads.  A successful
  \<open>WriteFrame\<close> puts exactly one packet on the connection, and reading that packet gives the
  canonical frame, for every datagram frame made from a buffer of \<open>DefaultDatagramBufferSize\<close>
  and every stream frame made from a chunk of \<open>StreamChunkSize\<close>: no such frame reaches the
  limit at which \<open>ReadFrame\<close> gives up.
\<close>

theorem endpoint_transfer:
  assumes "fst (WriteFrame env f) = Inr ()"
    and "Kind f \<noteq> FrameHelloReject"
    and "length (Payload f) \<le> max DefaultDatagramBufferSize StreamChunkSize"
  shows "\<exists>bs. packets (snd (WriteFrame env f)) = [bs] \<and> length bs < maxFrameSize
           \<and> ReadFrame (Inr bs) = Inr (canonFrame f)"
proof -
  obtain bs where bs: "MarshalBinary f = Inr bs" "packets (snd (WriteFrame env f)) = [bs]"
    using WriteFrame_ok [OF assms(1)] by blast
  have "frameSize f < maxFrameSize"
    using assms(2,3) by (auto simp: frameSize_def Let_def maxFrameSize_def
        DefaultDatagramBufferSize_def StreamChunkSize_def)
  with bs show ?thesis
    using ReadFrame_packet [OF bs(1)] length_MarshalBinary [OF bs(1)] by auto
qed

theorem endpoint_transfer_witness:
  "\<exists>bs. packets (snd (WriteFrame \<lparr>deadlineFails = False, writeFails = False\<rparr>
           ((frameOfKind FrameDatagram)\<lparr>RouteID := 3, Payload := [9]\<rparr>))) = [bs]
        \<and> length bs < maxFrameSize
        \<and> ReadFrame (Inr bs) = Inr ((frameOfKind FrameDatagram)\<lparr>RouteID := 3, Payload := [9]\<rparr>)"
proof -
  let ?f = "(frameOfKind FrameDatagram)\<lparr>RouteID := 3, Payload := [9]\<rparr>"
  let ?env = "\<lparr>deadlineFails = False, writeFails = False\<rparr>"
  have "fst (WriteFrame ?env ?f) = Inr ()"
    by (simp add: WriteFrame_def writeFrame_def MarshalBinary_def frameOfKind_def)
  from endpoint_transfer [OF this] show ?thesis
    by (simp add: canonFrame_def frameOfKind_def DefaultDatagramBufferSize_def)
qed

end
