(* ===== verification/OverlayWorkers.thy ===== *)
theory OverlayWorkers
  imports OverlayFrame
begin

text \<open>
  The set of ready workers an ingress hands its traffic to (\<^verbatim>\<open>internal/overlay/workers.go\<close>).
  A worker is its index and the channel of its outbound frames; the channel type is a
  parameter of the model.  The locale \<open>worker_registry\<close> is the interface through which the
  session supervisor and the ingress loops see such a set.
\<close>

record 'c workerRoute =
  wIndex :: int
  wOutbound :: 'c

record 'c workerSet =
  workers :: "'c workerRoute list"
  nextIdx :: nat

definition emptyWorkers :: "'c workerSet" where
  "emptyWorkers = \<lparr>workers = [], nextIdx = 0\<rparr>"

text \<open>The loop of \<open>removeLocked\<close>: the list without the first worker of the index, if there is one.\<close>

fun removeFirst :: "int \<Rightarrow> 'c workerRoute list \<Rightarrow> 'c workerRoute list option" where
  "removeFirst i [] = None"
| "removeFirst i (w # ws) =
     (if wIndex w \<noteq> i then map_option ((#) w) (removeFirst i ws) else Some ws)"

definition removeLocked :: "int \<Rightarrow> 'c workerSet \<Rightarrow> 'c workerSet" where
  "removeLocked i s =
     (case removeFirst i (workers s) of
        None \<Rightarrow> s
      | Some ws \<Rightarrow>
          s\<lparr>workers := ws, nextIdx := (if ws = [] \<or> length ws \<le> nextIdx s then 0 else nextIdx s)\<rparr>)"

definition SetReady :: "int \<Rightarrow> 'c \<Rightarrow> 'c workerSet \<Rightarrow> 'c workerSet" where
  "SetReady i c s =
     (let s1 = removeLocked i s;
          ws = workers s1 @ [\<lparr>wIndex = i, wOutbound = c\<rparr>]
      in s1\<lparr>workers := ws, nextIdx := (if length ws \<le> nextIdx s1 then 0 else nextIdx s1)\<rparr>)"

definition Remove :: "int \<Rightarrow> 'c workerSet \<Rightarrow> 'c workerSet" where
  "Remove i s = removeLocked i s"

definition Next :: "'c workerSet \<Rightarrow> 'c workerRoute option \<times> 'c workerSet" where
  "Next s =
     (if workers s = [] then (None, s)
      else (Some (workers s ! (nextIdx s mod length (workers s))),
            s\<lparr>nextIdx := (nextIdx s + 1) mod length (workers s)\<rparr>))"

definition routeIDForWorker :: "int \<Rightarrow> 64 word" where
  "routeIDForWorker index = of_int index + 1"

section \<open>The interface of a set of ready workers\<close>

locale worker_registry =
  fixes inv :: "'s \<Rightarrow> bool"
    and routes :: "'s \<Rightarrow> int \<rightharpoonup> 'c"
    and set_ready :: "int \<Rightarrow> 'c \<Rightarrow> 's \<Rightarrow> 's"
    and remove :: "int \<Rightarrow> 's \<Rightarrow> 's"
  assumes set_ready_inv: "inv s \<Longrightarrow> inv (set_ready i c s)"
    and remove_inv: "inv s \<Longrightarrow> inv (remove i s)"
    and set_ready_routes: "inv s \<Longrightarrow> routes (set_ready i c s) = (routes s)(i \<mapsto> c)"
    and remove_routes: "inv s \<Longrightarrow> routes (remove i s) = (routes s)(i := None)"
begin

lemma dom_set_ready: "inv s \<Longrightarrow> dom (routes (set_ready i c s)) = insert i (dom (routes s))"
  by (simp add: set_ready_routes)

lemma dom_remove: "inv s \<Longrightarrow> dom (routes (remove i s)) = dom (routes s) - {i}"
  by (simp add: remove_routes)

text \<open>A worker that comes back under its index replaces its old channel.\<close>

lemma reregister:
  "inv s \<Longrightarrow> routes (set_ready i c (remove i s)) = routes (set_ready i c s)"
  by (simp add: set_ready_routes remove_routes remove_inv)

end

text \<open>A registry that also deals the workers out.\<close>

locale worker_dispatch = worker_registry inv routes set_ready remove
  for inv :: "'s \<Rightarrow> bool" and routes :: "'s \<Rightarrow> int \<rightharpoonup> 'c"
    and set_ready :: "int \<Rightarrow> 'c \<Rightarrow> 's \<Rightarrow> 's" and remove :: "int \<Rightarrow> 's \<Rightarrow> 's" +
  fixes pick :: "'s \<Rightarrow> 'c workerRoute option \<times> 's"
  assumes pick_inv: "inv s \<Longrightarrow> inv (snd (pick s))"
    and pick_routes: "inv s \<Longrightarrow> routes (snd (pick s)) = routes s"
    and pick_Some: "inv s \<Longrightarrow> fst (pick s) = Some w \<Longrightarrow> routes s (wIndex w) = Some (wOutbound w)"
    and pick_None: "inv s \<Longrightarrow> fst (pick s) = None \<longleftrightarrow> routes s = Map.empty"
begin

lemma pick_ready: "inv s \<Longrightarrow> fst (pick s) = Some w \<Longrightarrow> wIndex w \<in> dom (routes s)"
  using pick_Some by blast

lemma pick_after_set_ready: "inv s \<Longrightarrow> fst (pick (set_ready i c s)) \<noteq> None"
  using pick_None [of "set_ready i c s"] by (auto simp: set_ready_routes set_ready_inv)

lemma pick_never_removed:
  "inv s \<Longrightarrow> fst (pick (remove i s)) = Some w \<Longrightarrow> wIndex w \<noteq> i"
  using pick_Some [of "remove i s" w] by (auto simp: remove_routes remove_inv split: if_splits)

end

section \<open>The worker set keeps its invariant\<close>

definition workersInv :: "'c workerSet \<Rightarrow> bool" where
  "workersInv s \<longleftrightarrow>
     distinct (map wIndex (workers s)) \<and>
     (if workers s = [] then nextIdx s = 0 else nextIdx s < length (workers s))"

definition workerRoutes :: "'c workerSet \<Rightarrow> int \<rightharpoonup> 'c" where
  "workerRoutes s = map_of (map (\<lambda>w. (wIndex w, wOutbound w)) (workers s))"

lemma removeFirst_None: "removeFirst i ws = None \<longleftrightarrow> i \<notin> wIndex ` set ws"
  by (induction ws) auto

lemma removeFirst_Some:
  assumes "removeFirst i ws = Some vs" "distinct (map wIndex ws)"
  shows "vs = filter (\<lambda>w. wIndex w \<noteq> i) ws" "length ws = Suc (length vs)"
proof -
  have "vs = filter (\<lambda>w. wIndex w \<noteq> i) ws \<and> length ws = Suc (length vs)"
    using assms
  proof (induction ws arbitrary: vs)
    case Nil
    then show ?case by simp
  next
    case (Cons w ws)
    show ?case
    proof (cases "wIndex w = i")
      case True
      with Cons.prems have "\<forall>v\<in>set ws. wIndex v \<noteq> i" by (auto simp: image_iff)
      with True Cons.prems show ?thesis by (simp add: filter_id_conv [THEN iffD2])
    qed (use Cons in auto)
  qed
  then show "vs = filter (\<lambda>w. wIndex w \<noteq> i) ws" "length ws = Suc (length vs)" by auto
qed

lemma map_of_filter_index:
  "map_of (map (\<lambda>w. (wIndex w, wOutbound w)) (filter (\<lambda>w. wIndex w \<noteq> i) ws)) =
     (map_of (map (\<lambda>w. (wIndex w, wOutbound w)) ws))(i := None)"
  by (induction ws) (auto simp: fun_eq_iff)

lemma removeLocked_spec:
  assumes "workersInv s"
  shows "workersInv (removeLocked i s)"
    and "workerRoutes (removeLocked i s) = (workerRoutes s)(i := None)"
    and "workers (removeLocked i s) = filter (\<lambda>w. wIndex w \<noteq> i) (workers s)"
proof -
  have "workersInv (removeLocked i s)
    \<and> workerRoutes (removeLocked i s) = (workerRoutes s)(i := None)
    \<and> workers (removeLocked i s) = filter (\<lambda>w. wIndex w \<noteq> i) (workers s)"
  proof (cases "removeFirst i (workers s)")
    case None
    then have *: "i \<notin> wIndex ` set (workers s)" by (simp add: removeFirst_None)
    then have "workerRoutes s i = None"
      by (auto simp: workerRoutes_def map_of_eq_None_iff image_iff)
    moreover have "filter (\<lambda>w. wIndex w \<noteq> i) (workers s) = workers s"
      using * by (auto simp: filter_id_conv)
    ultimately show ?thesis using None assms by (auto simp: removeLocked_def)
  next
    case (Some ws)
    with assms have "ws = filter (\<lambda>w. wIndex w \<noteq> i) (workers s)"
      by (intro removeFirst_Some) (auto simp: workersInv_def)
    with Some assms show ?thesis
      by (auto simp: removeLocked_def workersInv_def workerRoutes_def map_of_filter_index
          distinct_map_filter)
  qed
  then show "workersInv (removeLocked i s)"
    "workerRoutes (removeLocked i s) = (workerRoutes s)(i := None)"
    "workers (removeLocked i s) = filter (\<lambda>w. wIndex w \<noteq> i) (workers s)" by auto
qed

lemma SetReady_spec:
  assumes "workersInv s"
  shows "workersInv (SetReady i c s)"
    and "workerRoutes (SetReady i c s) = (workerRoutes s)(i \<mapsto> c)"
proof -
  let ?r = "removeLocked i s"
  have ws: "workers ?r = filter (\<lambda>w. wIndex w \<noteq> i) (workers s)" and inv: "workersInv ?r"
    and routes: "workerRoutes ?r = (workerRoutes s)(i := None)"
    using removeLocked_spec [OF assms] by auto
  from inv ws show "workersInv (SetReady i c s)"
    by (auto simp: SetReady_def workersInv_def Let_def split: if_splits)
  have "workerRoutes (SetReady i c s) = [i \<mapsto> c] ++ workerRoutes ?r"
    by (simp add: SetReady_def workerRoutes_def Let_def)
  also have "\<dots> = (workerRoutes s)(i \<mapsto> c)"
    by (auto simp: routes fun_eq_iff map_add_def split: option.splits)
  finally show "workerRoutes (SetReady i c s) = (workerRoutes s)(i \<mapsto> c)" .
qed

lemma Next_spec:
  assumes "workersInv s"
  shows "workersInv (snd (Next s))" and "workerRoutes (snd (Next s)) = workerRoutes s"
    and "fst (Next s) = Some w \<Longrightarrow> workerRoutes s (wIndex w) = Some (wOutbound w)"
    and "fst (Next s) = None \<longleftrightarrow> workerRoutes s = Map.empty"
proof -
  show "workersInv (snd (Next s))" "workerRoutes (snd (Next s)) = workerRoutes s"
    using assms by (auto simp: Next_def workersInv_def workerRoutes_def)
  show "fst (Next s) = None \<longleftrightarrow> workerRoutes s = Map.empty"
    by (auto simp: Next_def workerRoutes_def)
  assume "fst (Next s) = Some w"
  then have "w \<in> set (workers s)" by (auto simp: Next_def split: if_splits)
  with assms show "workerRoutes s (wIndex w) = Some (wOutbound w)"
    by (auto simp: workersInv_def workerRoutes_def comp_def intro!: map_of_is_SomeI)
qed

interpretation ws: worker_dispatch workersInv workerRoutes SetReady Remove Next
  by unfold_locales (simp_all add: Remove_def removeLocked_spec SetReady_spec Next_spec)

lemma emptyWorkers_inv [simp]: "workersInv emptyWorkers" "workerRoutes emptyWorkers = Map.empty"
  by (simp_all add: workersInv_def workerRoutes_def emptyWorkers_def)

section \<open>Round robin\<close>

text \<open>\<open>deal k s\<close>: the workers of \<open>k\<close> calls of \<open>Next\<close> and the set after them.\<close>

fun deal :: "nat \<Rightarrow> 'c workerSet \<Rightarrow> 'c workerRoute list \<times> 'c workerSet" where
  "deal 0 s = ([], s)"
| "deal (Suc k) s =
     (case Next s of
        (None, s') \<Rightarrow> deal k s'
      | (Some w, s') \<Rightarrow> (let (ws, s'') = deal k s' in (w # ws, s'')))"

lemma deal_nth:
  assumes "workers s \<noteq> []" "nextIdx s < length (workers s)"
  shows "fst (deal k s) =
           map (\<lambda>i. workers s ! ((nextIdx s + i) mod length (workers s))) [0..<k]"
    and "snd (deal k s) = s\<lparr>nextIdx := (nextIdx s + k) mod length (workers s)\<rparr>"
proof -
  have "fst (deal k s) = map (\<lambda>i. workers s ! ((nextIdx s + i) mod length (workers s))) [0..<k]
    \<and> snd (deal k s) = s\<lparr>nextIdx := (nextIdx s + k) mod length (workers s)\<rparr>"
    using assms
  proof (induction k arbitrary: s)
    case 0
    then show ?case by simp
  next
    case (Suc k)
    let ?n = "length (workers s)"
    let ?s = "s\<lparr>nextIdx := (nextIdx s + 1) mod ?n\<rparr>"
    have "0 < ?n" using Suc.prems by auto
    then have idx: "((nextIdx s + 1) mod ?n + i) mod ?n = (nextIdx s + Suc i) mod ?n" for i
      using mod_add_left_eq [of "nextIdx s + 1" ?n i] by simp
    have "fst (deal k ?s) = map (\<lambda>i. workers s ! ((nextIdx s + Suc i) mod ?n)) [0..<k]
      \<and> snd (deal k ?s) = s\<lparr>nextIdx := (nextIdx s + Suc k) mod ?n\<rparr>"
      using Suc.IH [of ?s] Suc.prems idx by simp
    moreover have "[0..<Suc k] = 0 # map Suc [0..<k]" by (simp add: upt_conv_Cons map_Suc_upt del: upt_Suc)
    ultimately show ?case
      using Suc.prems by (auto simp: Next_def comp_def split: prod.splits)
  qed
  then show "fst (deal k s) =
           map (\<lambda>i. workers s ! ((nextIdx s + i) mod length (workers s))) [0..<k]"
    "snd (deal k s) = s\<lparr>nextIdx := (nextIdx s + k) mod length (workers s)\<rparr>" by auto
qed

lemma deal_round:
  assumes "workersInv s"
  shows "deal (length (workers s)) s = (rotate (nextIdx s) (workers s), s)"
proof (cases "workers s = []")
  case True
  then show ?thesis by simp
next
  case False
  with assms have lt: "nextIdx s < length (workers s)" by (simp add: workersInv_def)
  have "rotate (nextIdx s) (workers s) =
      map (\<lambda>i. workers s ! ((nextIdx s + i) mod length (workers s))) [0..<length (workers s)]"
    by (rule nth_equalityI) (simp_all add: nth_rotate)
  moreover have "(nextIdx s + length (workers s)) mod length (workers s) = nextIdx s"
    using lt by simp
  ultimately show ?thesis
    using deal_nth [OF False lt, of "length (workers s)"] by (simp add: prod_eq_iff)
qed

section \<open>Properties\<close>

text \<open>
  C10: The worker set is a map from worker index to channel, whatever the sequence of calls:
  \<open>SetReady\<close> binds the index (replacing an older channel of that worker), \<open>Remove\<close> unbinds it,
  \<open>Next\<close> changes no binding, returns a bound worker, and returns none exactly when the set is
  empty.  Every operation keeps the indices distinct and the cursor inside the list.
\<close>

theorem worker_set_refines_map:
  assumes "workersInv s"
  shows "workersInv (SetReady i c s) \<and> workerRoutes (SetReady i c s) = (workerRoutes s)(i \<mapsto> c)
    \<and> workersInv (Remove i s) \<and> workerRoutes (Remove i s) = (workerRoutes s)(i := None)
    \<and> workersInv (snd (Next s)) \<and> workerRoutes (snd (Next s)) = workerRoutes s
    \<and> (case fst (Next s) of
         None \<Rightarrow> workerRoutes s = Map.empty
       | Some w \<Rightarrow> workerRoutes s (wIndex w) = Some (wOutbound w))"
  using assms ws.pick_None [OF assms] ws.pick_Some [OF assms]
  by (auto simp: ws.set_ready_inv ws.set_ready_routes ws.remove_inv ws.remove_routes ws.pick_inv
      ws.pick_routes split: option.splits)

theorem worker_set_refines_map_witness:
  "workerRoutes (SetReady 1 ''b'' (SetReady 0 ''a'' emptyWorkers)) = [0 \<mapsto> ''a'', 1 \<mapsto> ''b'']"
proof -
  have "workersInv (SetReady 0 ''a'' emptyWorkers)"
    using worker_set_refines_map [of emptyWorkers 0 "''a''"] by simp
  from worker_set_refines_map [OF this, of 1 "''b''"]
    worker_set_refines_map [of emptyWorkers 0 "''a''"] show ?thesis by simp
qed

text \<open>
  Traffic is dealt fairly: one round of calls to \<open>Next\<close>, as many as there are workers,
  returns every ready worker exactly once, in the order of the list started at the cursor, and
  leaves the set as it was.
\<close>

theorem round_robin_fair:
  assumes "workersInv s"
  shows "deal (length (workers s)) s = (rotate (nextIdx s) (workers s), s)
    \<and> set (fst (deal (length (workers s)) s)) = set (workers s)
    \<and> distinct (map wIndex (fst (deal (length (workers s)) s)))"
  using assms deal_round [OF assms] by (simp add: workersInv_def rotate_map [symmetric])

theorem round_robin_fair_witness:
  "fst (deal 3 \<lparr>workers = map (\<lambda>i. \<lparr>wIndex = i, wOutbound = ()\<rparr>) [4, 0, 7], nextIdx = 1\<rparr>) =
     map (\<lambda>i. \<lparr>wIndex = i, wOutbound = ()\<rparr>) [0, 7, 4]"
proof -
  let ?s = "\<lparr>workers = map (\<lambda>i. \<lparr>wIndex = i, wOutbound = ()\<rparr>) [4, 0, 7], nextIdx = 1\<rparr>"
  have "workersInv ?s" by (simp add: workersInv_def)
  then have "deal (length (workers ?s)) ?s = (rotate (nextIdx ?s) (workers ?s), ?s)"
    using round_robin_fair [of ?s] by blast
  then show ?thesis by (simp add: numeral_3_eq_3 del: deal.simps)
qed

end
