(* ===== verification/GoChannels.thy ===== *)
theory GoChannels
  imports OverlayFrame
begin

text \<open>
  Buffered channels of frames.  A channel is known by a number; the contents of all channels
  are a function from these numbers to queues.  A send succeeds while the buffer has room; the
  \<open>select\<close> statements of the source choose between a send and something else, so the model
  keeps the test for room and the send apart.
\<close>

type_synonym chan = nat
type_synonym chans = "chan \<Rightarrow> frame list"

definition hasRoom :: "nat \<Rightarrow> chan \<Rightarrow> chans \<Rightarrow> bool" where
  "hasRoom cap c q \<longleftrightarrow> length (q c) < cap"

definition enqueue :: "chan \<Rightarrow> frame \<Rightarrow> chans \<Rightarrow> chans" where
  "enqueue c f q = q(c := q c @ [f])"

text \<open>\<open>select { case c <- f: default: }\<close>: the send if there is room, nothing otherwise.\<close>

definition trySend :: "nat \<Rightarrow> chan \<Rightarrow> frame \<Rightarrow> chans \<Rightarrow> chans" where
  "trySend cap c f q = (if hasRoom cap c q then enqueue c f q else q)"

lemma enqueue_same [simp]: "enqueue c f q c = q c @ [f]"
  by (simp add: enqueue_def)

lemma enqueue_other [simp]: "d \<noteq> c \<Longrightarrow> enqueue c f q d = q d"
  by (simp add: enqueue_def)

lemma enqueue_apply: "enqueue c f q d = (if d = c then q c @ [f] else q d)"
  by (simp add: enqueue_def)

text \<open>No send overfills a channel.\<close>

lemma trySend_bound: "(\<And>d. length (q d) \<le> cap) \<Longrightarrow> length (trySend cap c f q d) \<le> cap"
  by (auto simp: trySend_def hasRoom_def enqueue_apply)

lemma trySend_prefix: "prefix (q d) (trySend cap c f q d)"
  by (simp add: trySend_def enqueue_apply)

lemma set_trySend: "set (trySend cap c f q d) \<subseteq> insert f (set (q d))"
  by (auto simp: trySend_def enqueue_apply)

end
