(* ===== verification/UdpIngress.thy ===== *)
theory UdpIngress
  imports OverlayWorkers GoChannels
begin

text \<open>
  The UDP ingress (\<^verbatim>\<open>internal/overlay/udp_ingress.go\<close>): one local socket whose datagrams are dealt
  to the ready workers and whose replies go back to the sender a worker last served.  The state
  is the worker set, the table of routes, the outbound channels and the datagrams written to the
  local socket.  One step of \<open>Run\<close> is one datagram read from the socket; \<open>SetReady\<close>, \<open>Remove\<close> and
  \<open>Deliver\<close> happen between two such steps.
\<close>

record 'a udpIngress =
  uWorkers :: "chan workerSet"
  uRoutes :: "64 word \<rightharpoonup> 'a"
  uChans :: chans
  uWritten :: "(byte list \<times> 'a) list"

datatype ingress_error =
    IngressReadFailed
  | IngressCannotDeliver byte
  | IngressWriteFailed

definition storeRoute :: "64 word \<Rightarrow> 'a \<Rightarrow> 'a udpIngress \<Rightarrow> 'a udpIngress" where
  "storeRoute routeID addr u = u\<lparr>uRoutes := (uRoutes u)(routeID \<mapsto> addr)\<rparr>"

definition loadRoute :: "64 word \<Rightarrow> 'a udpIngress \<Rightarrow> 'a option" where
  "loadRoute routeID u = uRoutes u routeID"

definition deleteRoute :: "64 word \<Rightarrow> 'a udpIngress \<Rightarrow> 'a udpIngress" where
  "deleteRoute routeID u = u\<lparr>uRoutes := (uRoutes u)(routeID := None)\<rparr>"

text \<open>
  The body of the loop of \<open>Run\<close> for the datagram \<open>data\<close> from \<open>addr\<close>: the read buffer holds at
  most \<open>DefaultDatagramBufferSize\<close> bytes.
\<close>

definition udpDatagram :: "nat \<Rightarrow> byte list \<times> 'a \<Rightarrow> 'a udpIngress \<Rightarrow> 'a udpIngress" where
  "udpDatagram cap d u =
     (let buf = take DefaultDatagramBufferSize (fst d); addr = snd d in
      case Next (uWorkers u) of
        (None, ws) \<Rightarrow> u\<lparr>uWorkers := ws\<rparr>
      | (Some w, ws) \<Rightarrow>
          let routeID = routeIDForWorker (wIndex w);
              u1 = storeRoute routeID addr (u\<lparr>uWorkers := ws\<rparr>);
              frame = (frameOfKind FrameDatagram)\<lparr>RouteID := routeID, Payload := buf\<rparr>
          in u1\<lparr>uChans := trySend cap (wOutbound w) frame (uChans u1)\<rparr>)"

text \<open>
  What the socket delivers to \<open>Run\<close>: datagrams, then an error, which ends the loop without an
  error of its own when the context was cancelled.  \<open>None\<close> is a loop that still waits.
\<close>

datatype 'a udp_read = UdpRead "byte list" 'a | UdpReadError bool

fun udpRun :: "nat \<Rightarrow> 'a udp_read list \<Rightarrow> 'a udpIngress \<Rightarrow>
    (ingress_error + unit) option \<times> 'a udpIngress" where
  "udpRun cap [] u = (None, u)"
| "udpRun cap (UdpReadError cancelled # rs) u =
     (Some (if cancelled then Inr () else Inl IngressReadFailed), u)"
| "udpRun cap (UdpRead data addr # rs) u = udpRun cap rs (udpDatagram cap (data, addr) u)"

definition udpDeliver ::
    "bool \<Rightarrow> frame \<Rightarrow> 'a udpIngress \<Rightarrow> (ingress_error + unit) \<times> 'a udpIngress" where
  "udpDeliver writeErr frame u =
     (if Kind frame \<noteq> FrameDatagram then (Inl (IngressCannotDeliver (Kind frame)), u)
      else case loadRoute (RouteID frame) u of
        None \<Rightarrow> (Inr (), u)
      | Some addr \<Rightarrow>
          if writeErr then (Inl IngressWriteFailed, u)
          else (Inr (), u\<lparr>uWritten := uWritten u @ [(Payload frame, addr)]\<rparr>))"

definition udpSetReady :: "int \<Rightarrow> chan \<Rightarrow> 'a udpIngress \<Rightarrow> 'a udpIngress" where
  "udpSetReady index outbound u = u\<lparr>uWorkers := SetReady index outbound (uWorkers u)\<rparr>"

definition udpRemove :: "int \<Rightarrow> 'a udpIngress \<Rightarrow> 'a udpIngress" where
  "udpRemove index u =
     deleteRoute (routeIDForWorker index) (u\<lparr>uWorkers := Remove index (uWorkers u)\<rparr>)"

definition newUDPIngress :: "chans \<Rightarrow> 'a udpIngress" where
  "newUDPIngress q = \<lparr>uWorkers = emptyWorkers, uRoutes = Map.empty, uChans = q, uWritten = []\<rparr>"

interpretation udp: worker_registry
    "\<lambda>u. workersInv (uWorkers u)" "\<lambda>u. workerRoutes (uWorkers u)" udpSetReady udpRemove
  by unfold_locales
    (simp_all add: udpSetReady_def udpRemove_def deleteRoute_def ws.set_ready_inv ws.remove_inv
      ws.set_ready_routes ws.remove_routes)

section \<open>Runs of datagrams\<close>

lemma udpRun_reads:
  "udpRun cap (map (\<lambda>d. UdpRead (fst d) (snd d)) ds @ rs) u =
     udpRun cap rs (fold (udpDatagram cap) ds u)"
  by (induction ds arbitrary: u) auto

text \<open>Dealing datagrams: worker set and routes after a batch of datagrams.\<close>

lemma fold_udpDatagram:
  assumes "workersInv (uWorkers u)" "workers (uWorkers u) \<noteq> []"
  shows "uWorkers (fold (udpDatagram cap) ds u) = snd (deal (length ds) (uWorkers u))"
    and "uRoutes (fold (udpDatagram cap) ds u) =
       uRoutes u ++ map_of (rev (zip
         (map (\<lambda>w. routeIDForWorker (wIndex w)) (fst (deal (length ds) (uWorkers u))))
         (map snd ds)))"
proof -
  have "uWorkers (fold (udpDatagram cap) ds u) = snd (deal (length ds) (uWorkers u))
    \<and> uRoutes (fold (udpDatagram cap) ds u) =
       uRoutes u ++ map_of (rev (zip
         (map (\<lambda>w. routeIDForWorker (wIndex w)) (fst (deal (length ds) (uWorkers u))))
         (map snd ds)))"
    using assms
  proof (induction ds arbitrary: u)
    case Nil
    then show ?case by simp
  next
    case (Cons d ds)
    obtain w where w: "fst (Next (uWorkers u)) = Some w"
      using Cons.prems by (auto simp: Next_def)
    let ?u = "udpDatagram cap d u"
    have u: "uWorkers ?u = snd (Next (uWorkers u))"
      "uRoutes ?u = (uRoutes u)(routeIDForWorker (wIndex w) \<mapsto> snd d)"
      using w by (auto simp: udpDatagram_def storeRoute_def Let_def split: prod.splits)
    have "workersInv (uWorkers ?u)" "workers (uWorkers ?u) \<noteq> []"
      using Cons.prems Next_spec(1) [of "uWorkers u"] by (auto simp: u Next_def)
    from Cons.IH [OF this] show ?case
      using w by (auto simp: u split: prod.splits simp del: fun_upd_apply)
  qed
  then show "uWorkers (fold (udpDatagram cap) ds u) = snd (deal (length ds) (uWorkers u))"
    "uRoutes (fold (udpDatagram cap) ds u) =
       uRoutes u ++ map_of (rev (zip
         (map (\<lambda>w. routeIDForWorker (wIndex w)) (fst (deal (length ds) (uWorkers u))))
         (map snd ds)))" by auto
qed

text \<open>Route identifiers of distinct workers are distinct, as long as indices fit the word.\<close>

lemma routeIDForWorker_inj:
  assumes "routeIDForWorker i = routeIDForWorker j" "0 \<le> i" "0 \<le> j" "i < 2 ^ 64" "j < 2 ^ 64"
  shows "i = j"
proof -
  from assms(1) have "(of_int i :: 64 word) = of_int j" by (simp add: routeIDForWorker_def)
  then have "uint (of_int i :: 64 word) = uint (of_int j :: 64 word)" by simp
  with assms(2-) show ?thesis by (simp add: uint_word_of_int)
qed

lemma udpRemove_drops:
  "Kind f = FrameDatagram \<Longrightarrow> RouteID f = routeIDForWorker i \<Longrightarrow>
     udpDeliver b f (udpRemove i u) = (Inr (), udpRemove i u)"
  by (simp add: udpDeliver_def udpRemove_def deleteRoute_def loadRoute_def)

section \<open>Properties\<close>

text \<open>
  The UDP ingress sends replies back to the last sender of the worker.  While workers are
  ready, a batch of datagrams read by \<open>Run\<close> is dealt round robin, and afterwards the route of a
  worker is the source address of the last datagram dealt to it: a datagram frame delivered
  under that route is written to that address, and routes of workers that got nothing are as
  before.
\<close>

theorem udp_replies_to_last_sender:
  assumes "workersInv (uWorkers u)" "workers (uWorkers u) \<noteq> []"
    and "udpRun cap (map (\<lambda>d. UdpRead (fst d) (snd d)) ds) u = (r, u')"
    and "Kind f = FrameDatagram"
    and "(uRoutes u ++ map_of (rev (zip
            (map (\<lambda>w. routeIDForWorker (wIndex w)) (fst (deal (length ds) (uWorkers u))))
            (map snd ds)))) (RouteID f) = Some addr"
  shows "r = None \<and> uWorkers u' = snd (deal (length ds) (uWorkers u))
    \<and> udpDeliver False f u' = (Inr (), u'\<lparr>uWritten := uWritten u' @ [(Payload f, addr)]\<rparr>)"
proof -
  have "u' = fold (udpDatagram cap) ds u" "r = None"
    using assms(3) udpRun_reads [of cap ds "[]" u] by auto
  with fold_udpDatagram [OF assms(1,2), of cap ds] assms(4,5) show ?thesis
    by (simp add: udpDeliver_def loadRoute_def)
qed

theorem udp_replies_to_last_sender_witness:
  "\<exists>u'. udpRun 64 [UdpRead [1] ''a'', UdpRead [2] ''b'', UdpRead [3] ''c'']
           (udpSetReady 1 11 (udpSetReady 0 10 (newUDPIngress (\<lambda>_. [])))) = (None, u')
        \<and> udpDeliver False ((frameOfKind FrameDatagram)\<lparr>RouteID := 1, Payload := [7]\<rparr>) u' =
            (Inr (), u'\<lparr>uWritten := uWritten u' @ [([7], ''c'')]\<rparr>)"
proof -
  let ?u = "udpSetReady 1 11 (udpSetReady 0 10 (newUDPIngress (\<lambda>_. []))) :: string udpIngress"
  let ?ds = "[([1], ''a''), ([2], ''b''), ([3], ''c'')] :: (byte list \<times> string) list"
  let ?f = "(frameOfKind FrameDatagram)\<lparr>RouteID := 1, Payload := [7]\<rparr>"
  obtain r u' where run: "udpRun 64 (map (\<lambda>d. UdpRead (fst d) (snd d)) ?ds) ?u = (r, u')"
    by (meson surj_pair)
  have ws: "uWorkers ?u = \<lparr>workers = [\<lparr>wIndex = 0, wOutbound = 10\<rparr>, \<lparr>wIndex = 1, wOutbound = 11\<rparr>],
      nextIdx = 0\<rparr>"
    by (simp add: udpSetReady_def newUDPIngress_def emptyWorkers_def SetReady_def removeLocked_def)
  have inv: "workersInv (uWorkers ?u)" and ne: "workers (uWorkers ?u) \<noteq> []"
    by (simp_all add: ws workersInv_def)
  have kind: "Kind ?f = FrameDatagram" by (simp add: frameOfKind_def)
  have route: "(uRoutes ?u ++ map_of (rev (zip
      (map (\<lambda>w. routeIDForWorker (wIndex w)) (fst (deal (length ?ds) (uWorkers ?u))))
      (map snd ?ds)))) (RouteID ?f) = Some ''c''"
    by (simp add: ws Next_def routeIDForWorker_def)
  show ?thesis using udp_replies_to_last_sender [OF inv ne run kind route] run by simp
qed

text \<open>
  A worker that is removed gets no more replies: after \<open>Remove\<close>, a datagram frame with the
  worker's route is dropped without an error and without a write, and no further datagram is
  dealt to the worker.
\<close>

theorem udp_removed_worker_silent:
  assumes "workersInv (uWorkers u)" "Kind f = FrameDatagram" "RouteID f = routeIDForWorker i"
  shows "udpDeliver b f (udpRemove i u) = (Inr (), udpRemove i u)
    \<and> i \<notin> wIndex ` set (workers (uWorkers (udpRemove i u)))"
  using udpRemove_drops [OF assms(2,3)] removeLocked_spec(3) [OF assms(1), of i]
  by (auto simp: udpRemove_def deleteRoute_def Remove_def)

theorem udp_removed_worker_silent_witness:
  "udpDeliver False ((frameOfKind FrameDatagram)\<lparr>RouteID := 1\<rparr>)
       (udpRemove 0 (udpDatagram 64 ([1], ''a'') (udpSetReady 0 10 (newUDPIngress (\<lambda>_. []))))) =
     (Inr (), udpRemove 0 (udpDatagram 64 ([1], ''a'') (udpSetReady 0 10 (newUDPIngress (\<lambda>_. [])))))"
proof -
  let ?u = "udpDatagram 64 ([1], ''a'') (udpSetReady 0 10 (newUDPIngress (\<lambda>_. [])))"
  have "workersInv (uWorkers ?u)"
    by (simp add: udpDatagram_def udpSetReady_def newUDPIngress_def emptyWorkers_def SetReady_def
        removeLocked_def Next_def storeRoute_def workersInv_def Let_def)
  then show ?thesis
    using udp_removed_worker_silent [of ?u "(frameOfKind FrameDatagram)\<lparr>RouteID := 1\<rparr>" 0 False]
    by (simp add: frameOfKind_def routeIDForWorker_def)
qed

end
