(* ===== verification/TcpIngress.thy ===== *)
theory TcpIngress
  imports OverlayWorkers GoChannels
begin

text \<open>
  The TCP ingress (\<^verbatim>\<open>internal/overlay/tcp_ingress.go\<close>): an accept loop, a reader and a writer
  goroutine per accepted connection, and the calls \<open>Deliver\<close>, \<open>SetReady\<close>, \<open>Remove\<close> and \<open>Close\<close>
  that the session makes.  The model is a step machine: one event is one blocking operation, one
  critical section or one commit of a \<open>select\<close>, and any order of the enabled events is a
  schedule.  Streams live in a heap (the pointers the goroutines hold) beside the map from
  stream identifiers to live streams.

  The fields \<open>sRead\<close>, \<open>sSent\<close>, \<open>sTaken\<close>, \<open>sWritten\<close> and \<open>tDelivered\<close> record what passed over
  the connection, the outbound channel and \<open>Deliver\<close>; the program does not read them.
\<close>

definition inboundQueueSize :: nat where "inboundQueueSize = 8"

datatype readerPc =
    ReaderNotStarted
  | ReaderReading
  | ReaderSending frame bool
  | ReaderFailed
  | ReaderNotify
  | ReaderClosing
  | ReaderDone

datatype writerPc =
    WriterNotStarted
  | WriterSelect
  | WriterWrite frame
  | WriterNotify
  | WriterClosing
  | WriterDone

record tcpLocalStream =
  sId :: "64 word"
  sWorkerIndex :: int
  sOutbound :: chan
  sInbound :: "frame list"
  sendSequence :: "64 word"
  recvSequence :: "64 word"
  sDone :: bool
  sNotified :: bool
  sReader :: readerPc
  sWriter :: writerPc
  sRead :: "byte list list"
  sSent :: "frame list"
  sTaken :: "frame list"
  sWritten :: "byte list"

datatype acceptPc =
    AcceptWait
  | AcceptPicked "chan workerRoute"
  | AcceptOpening nat
  | AcceptReturned "ingress_result"
and ingress_result = RunNil | RunAcceptError

text \<open>The calls in progress on other goroutines, by what they still have to do.\<close>

datatype tcpCall =
    CallQueue nat frame
  | CallNotify nat
  | CallClose "64 word list"

record tcpIngress =
  tWorkers :: "chan workerSet"
  nextStreamID :: "64 word"
  streams :: "64 word \<rightharpoonup> nat"
  heap :: "tcpLocalStream list"
  tChans :: chans
  tAccept :: acceptPc
  tCalls :: "tcpCall list"
  tCancelled :: bool
  tDelivered :: "frame list"

definition newTCPIngress :: "chans \<Rightarrow> tcpIngress" where
  "newTCPIngress q = \<lparr>tWorkers = emptyWorkers, nextStreamID = 0, streams = Map.empty, heap = [],
     tChans = q, tAccept = AcceptWait, tCalls = [], tCancelled = False, tDelivered = []\<rparr>"

section \<open>The stream table\<close>

definition stream :: "nat \<Rightarrow> tcpIngress \<Rightarrow> tcpLocalStream" where
  "stream p t = heap t ! p"

definition setStream :: "nat \<Rightarrow> tcpLocalStream \<Rightarrow> tcpIngress \<Rightarrow> tcpIngress" where
  "setStream p st t = t\<lparr>heap := (heap t)[p := st]\<rparr>"

definition lookupStream :: "64 word \<Rightarrow> tcpIngress \<Rightarrow> nat option" where
  "lookupStream streamID t = streams t streamID"

definition closeStream :: "64 word \<Rightarrow> tcpIngress \<Rightarrow> tcpIngress" where
  "closeStream streamID t =
     (case streams t streamID of
        None \<Rightarrow> t
      | Some p \<Rightarrow>
          setStream p ((stream p t)\<lparr>sDone := True\<rparr>)
            (t\<lparr>streams := (streams t)(streamID := None)\<rparr>))"

text \<open>The identifiers \<open>closeWorkerStreams\<close> and \<open>closeAllStreams\<close> collect under the lock.\<close>

definition liveIds :: "tcpIngress \<Rightarrow> 64 word list" where
  "liveIds t = filter (\<lambda>sid. streams t sid \<noteq> None) (remdups (map sId (heap t)))"

definition workerStreamIds :: "int \<Rightarrow> tcpIngress \<Rightarrow> 64 word list" where
  "workerStreamIds index t =
     filter (\<lambda>sid. case streams t sid of
         None \<Rightarrow> False | Some p \<Rightarrow> sWorkerIndex (stream p t) = index) (liveIds t)"

section \<open>Sends\<close>

datatype sendChoice = SendQueued | SendTimeout | SendCancelled

text \<open>
  \<open>sendStreamFrame\<close> on the channel of stream \<open>p\<close>: the case its \<open>select\<close> commits to, \<open>None\<close> when
  that case is not ready.  The result says whether the frame went out.
\<close>

definition sendStreamFrame ::
    "nat \<Rightarrow> sendChoice \<Rightarrow> nat \<Rightarrow> frame \<Rightarrow> tcpIngress \<Rightarrow> (bool \<times> tcpIngress) option" where
  "sendStreamFrame cap ch p f t =
     (case ch of
        SendCancelled \<Rightarrow> if tCancelled t then Some (False, t) else None
      | SendTimeout \<Rightarrow> Some (False, t)
      | SendQueued \<Rightarrow>
          if hasRoom cap (sOutbound (stream p t)) (tChans t)
          then Some (True, setStream p ((stream p t)\<lparr>sSent := sSent (stream p t) @ [f]\<rparr>)
                 (t\<lparr>tChans := enqueue (sOutbound (stream p t)) f (tChans t)\<rparr>))
          else None)"

datatype notifyChoice = NotifyDone | NotifyQueued | NotifyTimeout

definition closeFrame :: "64 word \<Rightarrow> frame" where
  "closeFrame sid = (frameOfKind FrameStreamClose)\<lparr>StreamID := sid\<rparr>"

definition openFrame :: "64 word \<Rightarrow> frame" where
  "openFrame sid = (frameOfKind FrameStreamOpen)\<lparr>StreamID := sid\<rparr>"

definition dataFrame :: "64 word \<Rightarrow> 64 word \<Rightarrow> byte list \<Rightarrow> frame" where
  "dataFrame sid sequence payload =
     (frameOfKind FrameStreamData)\<lparr>StreamID := sid, Sequence := sequence, Payload := payload\<rparr>"

definition notifyRemoteClose ::
    "nat \<Rightarrow> notifyChoice \<Rightarrow> nat \<Rightarrow> tcpIngress \<Rightarrow> tcpIngress option" where
  "notifyRemoteClose cap ch p t =
     (let st = stream p t in
      if sNotified st then Some t
      else case ch of
        NotifyDone \<Rightarrow>
          if sDone st then Some (setStream p (st\<lparr>sNotified := True\<rparr>) t) else None
      | NotifyTimeout \<Rightarrow> Some (setStream p (st\<lparr>sNotified := True\<rparr>) t)
      | NotifyQueued \<Rightarrow>
          if hasRoom cap (sOutbound st) (tChans t)
          then Some (setStream p (st\<lparr>sNotified := True, sSent := sSent st @ [closeFrame (sId st)]\<rparr>)
                 (t\<lparr>tChans := enqueue (sOutbound st) (closeFrame (sId st)) (tChans t)\<rparr>))
          else None)"

section \<open>The accept loop\<close>

definition tcpAccept :: "tcpIngress \<Rightarrow> tcpIngress option" where
  "tcpAccept t =
     (if tAccept t = AcceptWait then
        case Next (tWorkers t) of
          (None, ws) \<Rightarrow> Some (t\<lparr>tWorkers := ws\<rparr>)
        | (Some w, ws) \<Rightarrow> Some (t\<lparr>tWorkers := ws, tAccept := AcceptPicked w\<rparr>)
      else None)"

definition tcpAcceptError :: "bool \<Rightarrow> tcpIngress \<Rightarrow> tcpIngress option" where
  "tcpAcceptError netErrClosed t =
     (if tAccept t = AcceptWait then
        Some (t\<lparr>tAccept := AcceptReturned
          (if tCancelled t then RunNil else if netErrClosed then RunNil else RunAcceptError)\<rparr>)
      else None)"

definition newStream :: "64 word \<Rightarrow> chan workerRoute \<Rightarrow> tcpLocalStream" where
  "newStream sid w = \<lparr>sId = sid, sWorkerIndex = wIndex w, sOutbound = wOutbound w, sInbound = [],
     sendSequence = 0, recvSequence = 0, sDone = False, sNotified = False,
     sReader = ReaderNotStarted, sWriter = WriterNotStarted,
     sRead = [], sSent = [], sTaken = [], sWritten = []\<rparr>"

text \<open>\<open>nextStreamID.Add(1)\<close> and \<open>storeStream\<close>.\<close>

definition tcpStore :: "tcpIngress \<Rightarrow> tcpIngress option" where
  "tcpStore t =
     (case tAccept t of
        AcceptPicked w \<Rightarrow>
          (let sid = nextStreamID t + 1; p = length (heap t) in
           Some (t\<lparr>nextStreamID := sid, heap := heap t @ [newStream sid w],
                   streams := (streams t)(sid \<mapsto> p), tAccept := AcceptOpening p\<rparr>))
      | _ \<Rightarrow> None)"

definition tcpOpen :: "nat \<Rightarrow> sendChoice \<Rightarrow> tcpIngress \<Rightarrow> tcpIngress option" where
  "tcpOpen cap ch t =
     (case tAccept t of
        AcceptOpening p \<Rightarrow>
          (case sendStreamFrame cap ch p (openFrame (sId (stream p t))) t of
             None \<Rightarrow> None
           | Some (False, t1) \<Rightarrow>
               Some (closeStream (sId (stream p t)) (t1\<lparr>tAccept := AcceptWait\<rparr>))
           | Some (True, t1) \<Rightarrow>
               Some (setStream p
                 ((stream p t1)\<lparr>sReader := ReaderReading, sWriter := WriterSelect\<rparr>)
                 (t1\<lparr>tAccept := AcceptWait\<rparr>)))
      | _ \<Rightarrow> None)"

section \<open>The reader goroutine\<close>

definition setReader :: "nat \<Rightarrow> readerPc \<Rightarrow> tcpIngress \<Rightarrow> tcpIngress" where
  "setReader p pc t = setStream p ((stream p t)\<lparr>sReader := pc\<rparr>) t"

text \<open>\<open>conn.Read\<close> returned the bytes \<open>bs\<close> and an error or none.\<close>

definition tcpRead :: "nat \<Rightarrow> byte list \<Rightarrow> bool \<Rightarrow> tcpIngress \<Rightarrow> tcpIngress option" where
  "tcpRead p bs failed t =
     (let st = stream p t in
      if sReader st = ReaderReading \<and> length bs \<le> StreamChunkSize then
        (if bs \<noteq> [] then
           (if lookupStream (sId st) t = None then Some (setReader p ReaderClosing t)
            else Some (setStream p
              (st\<lparr>sendSequence := sendSequence st + 1, sRead := sRead st @ [bs],
                  sReader := ReaderSending (dataFrame (sId st) (sendSequence st) bs) failed\<rparr>) t))
         else if failed then Some (setReader p ReaderFailed t)
         else Some t)
      else None)"

definition tcpReadSend :: "nat \<Rightarrow> sendChoice \<Rightarrow> nat \<Rightarrow> tcpIngress \<Rightarrow> tcpIngress option" where
  "tcpReadSend cap ch p t =
     (case sReader (stream p t) of
        ReaderSending f failed \<Rightarrow>
          (case sendStreamFrame cap ch p f t of
             None \<Rightarrow> None
           | Some (True, t1) \<Rightarrow> Some (setReader p (if failed then ReaderFailed else ReaderReading) t1)
           | Some (False, t1) \<Rightarrow>
               Some (setReader p (if tCancelled t then ReaderClosing else ReaderNotify) t1))
      | _ \<Rightarrow> None)"

text \<open>The branch \<open>err != nil\<close> after a read.\<close>

definition tcpReadFailed :: "nat \<Rightarrow> tcpIngress \<Rightarrow> tcpIngress option" where
  "tcpReadFailed p t =
     (if sReader (stream p t) = ReaderFailed then
        Some (setReader p
          (if lookupStream (sId (stream p t)) t = None then ReaderClosing else ReaderNotify) t)
      else None)"

definition tcpReadNotify :: "nat \<Rightarrow> notifyChoice \<Rightarrow> nat \<Rightarrow> tcpIngress \<Rightarrow> tcpIngress option" where
  "tcpReadNotify cap ch p t =
     (if sReader (stream p t) = ReaderNotify
      then map_option (setReader p ReaderClosing) (notifyRemoteClose cap ch p t) else None)"

text \<open>The deferred \<open>closeStream\<close>.\<close>

definition tcpReadClose :: "nat \<Rightarrow> tcpIngress \<Rightarrow> tcpIngress option" where
  "tcpReadClose p t =
     (if sReader (stream p t) = ReaderClosing
      then Some (closeStream (sId (stream p t)) (setReader p ReaderDone t)) else None)"

section \<open>The writer goroutine\<close>

definition setWriter :: "nat \<Rightarrow> writerPc \<Rightarrow> tcpIngress \<Rightarrow> tcpIngress" where
  "setWriter p pc t = setStream p ((stream p t)\<lparr>sWriter := pc\<rparr>) t"

datatype writerChoice = WriterCtxDone | WriterStreamDone | WriterInbound

definition tcpSelect :: "writerChoice \<Rightarrow> nat \<Rightarrow> tcpIngress \<Rightarrow> tcpIngress option" where
  "tcpSelect ch p t =
     (let st = stream p t in
      if sWriter st \<noteq> WriterSelect then None
      else case ch of
        WriterCtxDone \<Rightarrow> if tCancelled t then Some (setWriter p WriterDone t) else None
      | WriterStreamDone \<Rightarrow> if sDone st then Some (setWriter p WriterDone t) else None
      | WriterInbound \<Rightarrow>
          (case sInbound st of
             [] \<Rightarrow> None
           | f # fs \<Rightarrow>
               if Kind f \<noteq> FrameStreamData then Some (setStream p (st\<lparr>sInbound := fs\<rparr>) t)
               else if Sequence f \<noteq> recvSequence st
               then Some (setStream p (st\<lparr>sInbound := fs, sWriter := WriterNotify\<rparr>) t)
               else Some (setStream p
                 (st\<lparr>sInbound := fs, recvSequence := recvSequence st + 1,
                     sTaken := sTaken st @ [f], sWriter := WriterWrite f\<rparr>) t)))"

text \<open>A failed write may have put some bytes on the connection.\<close>

datatype writeResult = WriteDone | DeadlineFailed | WriteFailed nat

definition tcpWrite :: "writeResult \<Rightarrow> nat \<Rightarrow> tcpIngress \<Rightarrow> tcpIngress option" where
  "tcpWrite res p t =
     (let st = stream p t in
      case sWriter st of
        WriterWrite f \<Rightarrow>
          (case res of
             DeadlineFailed \<Rightarrow> Some (setWriter p WriterNotify t)
           | WriteFailed n \<Rightarrow>
               Some (setStream p
                 (st\<lparr>sWritten := sWritten st @ take n (Payload f), sWriter := WriterNotify\<rparr>) t)
           | WriteDone \<Rightarrow>
               Some (setStream p
                 (st\<lparr>sWritten := sWritten st @ Payload f, sWriter := WriterSelect\<rparr>) t))
      | _ \<Rightarrow> None)"

definition tcpWriteNotify :: "nat \<Rightarrow> notifyChoice \<Rightarrow> nat \<Rightarrow> tcpIngress \<Rightarrow> tcpIngress option" where
  "tcpWriteNotify cap ch p t =
     (if sWriter (stream p t) = WriterNotify
      then map_option (setWriter p WriterClosing) (notifyRemoteClose cap ch p t) else None)"

definition tcpWriteClose :: "nat \<Rightarrow> tcpIngress \<Rightarrow> tcpIngress option" where
  "tcpWriteClose p t =
     (if sWriter (stream p t) = WriterClosing
      then Some (closeStream (sId (stream p t)) (setWriter p WriterDone t)) else None)"

section \<open>Calls of the session\<close>

text \<open>\<open>Deliver\<close> up to its first blocking point; what remains is a call in progress.\<close>

definition tcpDeliver :: "frame \<Rightarrow> tcpIngress \<Rightarrow> (byte + unit) \<times> tcpIngress" where
  "tcpDeliver f t =
     (if Kind f = FrameStreamData then
        (case lookupStream (StreamID f) t of
           None \<Rightarrow> (Inr (), t)
         | Some p \<Rightarrow>
             (Inr (), t\<lparr>tDelivered := tDelivered t @ [f], tCalls := tCalls t @ [CallQueue p f]\<rparr>))
      else if Kind f = FrameStreamClose then (Inr (), closeStream (StreamID f) t)
      else (Inl (Kind f), t))"

datatype queueChoice = QueueDone | QueueInbound | QueueDefault

text \<open>
  \<open>queueInboundFrame\<close>: the default case is taken when no other is ready.  The second argument is
  the list of what remains of the call.
\<close>

definition queueInboundFrame ::
    "queueChoice \<Rightarrow> nat \<Rightarrow> frame \<Rightarrow> tcpIngress \<Rightarrow> (tcpCall list \<times> tcpIngress) option" where
  "queueInboundFrame ch p f t =
     (let st = stream p t; room = length (sInbound st) < inboundQueueSize in
      case ch of
        QueueDone \<Rightarrow> if sDone st then Some ([], t) else None
      | QueueInbound \<Rightarrow>
          if room then Some ([], setStream p (st\<lparr>sInbound := sInbound st @ [f]\<rparr>) t) else None
      | QueueDefault \<Rightarrow> if sDone st \<or> room then None else Some ([CallNotify p], t))"

definition tcpCallStep ::
    "nat \<Rightarrow> queueChoice \<Rightarrow> notifyChoice \<Rightarrow> tcpCall \<Rightarrow> tcpIngress \<Rightarrow>
       (tcpCall list \<times> tcpIngress) option" where
  "tcpCallStep cap qch nch c t =
     (case c of
        CallQueue p f \<Rightarrow> queueInboundFrame qch p f t
      | CallNotify p \<Rightarrow>
          map_option (\<lambda>t1. ([CallClose [sId (stream p t)]], t1)) (notifyRemoteClose cap nch p t)
      | CallClose ids \<Rightarrow>
          (case ids of
             [] \<Rightarrow> Some ([], t)
           | sid # rest \<Rightarrow> Some ([CallClose rest], closeStream sid t)))"

definition tcpCall :: "nat \<Rightarrow> queueChoice \<Rightarrow> notifyChoice \<Rightarrow> nat \<Rightarrow> tcpIngress \<Rightarrow> tcpIngress option" where
  "tcpCall cap qch nch k t =
     (if k < length (tCalls t) then
        case tcpCallStep cap qch nch (tCalls t ! k) t of
          None \<Rightarrow> None
        | Some (rest, t1) \<Rightarrow>
            Some (t1\<lparr>tCalls := take k (tCalls t) @ rest @ drop (Suc k) (tCalls t)\<rparr>)
      else None)"

definition tcpSetReady :: "int \<Rightarrow> chan \<Rightarrow> tcpIngress \<Rightarrow> tcpIngress" where
  "tcpSetReady index outbound t = t\<lparr>tWorkers := SetReady index outbound (tWorkers t)\<rparr>"

text \<open>\<open>Remove\<close> takes the worker out, then closes the streams found at that moment.\<close>

definition tcpRemoveWorker :: "int \<Rightarrow> tcpIngress \<Rightarrow> tcpIngress" where
  "tcpRemoveWorker index t = t\<lparr>tWorkers := Remove index (tWorkers t)\<rparr>"

definition closeWorkerStreams :: "int \<Rightarrow> tcpIngress \<Rightarrow> tcpIngress" where
  "closeWorkerStreams index t = t\<lparr>tCalls := tCalls t @ [CallClose (workerStreamIds index t)]\<rparr>"

definition closeAllStreams :: "tcpIngress \<Rightarrow> tcpIngress" where
  "closeAllStreams t = t\<lparr>tCalls := tCalls t @ [CallClose (liveIds t)]\<rparr>"

section \<open>The machine\<close>

datatype tcpEvent =
    EvAccept
  | EvAcceptError bool
  | EvStore
  | EvOpen sendChoice
  | EvRead nat "byte list" bool
  | EvReadSend nat sendChoice
  | EvReadFailed nat
  | EvReadNotify nat notifyChoice
  | EvReadClose nat
  | EvSelect nat writerChoice
  | EvWrite nat writeResult
  | EvWriteNotify nat notifyChoice
  | EvWriteClose nat
  | EvDeliver frame
  | EvCall nat queueChoice notifyChoice
  | EvSetReady int chan
  | EvRemove int
  | EvCloseWorkerStreams int
  | EvCloseAll
  | EvCancel
  | EvTake chan

fun tcpStep :: "nat \<Rightarrow> tcpEvent \<Rightarrow> tcpIngress \<Rightarrow> tcpIngress option" where
  "tcpStep cap EvAccept t = tcpAccept t"
| "tcpStep cap (EvAcceptError c) t = tcpAcceptError c t"
| "tcpStep cap EvStore t = tcpStore t"
| "tcpStep cap (EvOpen ch) t = tcpOpen cap ch t"
| "tcpStep cap (EvRead p bs e) t = (if p < length (heap t) then tcpRead p bs e t else None)"
| "tcpStep cap (EvReadSend p ch) t = (if p < length (heap t) then tcpReadSend cap ch p t else None)"
| "tcpStep cap (EvReadFailed p) t = (if p < length (heap t) then tcpReadFailed p t else None)"
| "tcpStep cap (EvReadNotify p ch) t =
     (if p < length (heap t) then tcpReadNotify cap ch p t else None)"
| "tcpStep cap (EvReadClose p) t = (if p < length (heap t) then tcpReadClose p t else None)"
| "tcpStep cap (EvSelect p ch) t = (if p < length (heap t) then tcpSelect ch p t else None)"
| "tcpStep cap (EvWrite p r) t = (if p < length (heap t) then tcpWrite r p t else None)"
| "tcpStep cap (EvWriteNotify p ch) t =
     (if p < length (heap t) then tcpWriteNotify cap ch p t else None)"
| "tcpStep cap (EvWriteClose p) t = (if p < length (heap t) then tcpWriteClose p t else None)"
| "tcpStep cap (EvDeliver f) t = Some (snd (tcpDeliver f t))"
| "tcpStep cap (EvCall k q n) t = tcpCall cap q n k t"
| "tcpStep cap (EvSetReady i c) t = Some (tcpSetReady i c t)"
| "tcpStep cap (EvRemove i) t = Some (tcpRemoveWorker i t)"
| "tcpStep cap (EvCloseWorkerStreams i) t = Some (closeWorkerStreams i t)"
| "tcpStep cap EvCloseAll t = Some (closeAllStreams t)"
| "tcpStep cap EvCancel t = Some (t\<lparr>tCancelled := True\<rparr>)"
| "tcpStep cap (EvTake c) t = Some (t\<lparr>tChans := (tChans t)(c := tl (tChans t c))\<rparr>)"

fun tcpRun :: "nat \<Rightarrow> tcpEvent list \<Rightarrow> tcpIngress \<Rightarrow> tcpIngress option" where
  "tcpRun cap [] t = Some t"
| "tcpRun cap (e # es) t = (case tcpStep cap e t of None \<Rightarrow> None | Some t' \<Rightarrow> tcpRun cap es t')"

inductive tcpReachable :: "nat \<Rightarrow> tcpIngress \<Rightarrow> bool" for cap where
  start: "tcpReachable cap (newTCPIngress (\<lambda>_. []))"
| event: "tcpReachable cap t \<Longrightarrow> tcpStep cap e t = Some t' \<Longrightarrow> tcpReachable cap t'"

inductive_cases tcpReachableE: "tcpReachable cap t"

end
