(* ===== verification/TcpIngressInv.thy ===== *)
theory TcpIngressInv
  imports TcpIngress
begin

text \<open>
  The invariant of the TCP ingress machine and what it says about every reachable state: what
  the goroutines of a stream put on the outbound channel, what they write to the local
  connection, and that a stream that was closed stays closed.
\<close>

section \<open>Numbered data frames\<close>

definition streamFrames :: "64 word \<Rightarrow> byte list list \<Rightarrow> frame list" where
  "streamFrames sid cs = map (\<lambda>(k, c). dataFrame sid (of_nat k) c) (enumerate 0 cs)"

lemma streamFrames_snoc [simp]:
  "streamFrames sid (cs @ [c]) = streamFrames sid cs @ [dataFrame sid (of_nat (length cs)) c]"
  by (simp add: streamFrames_def enumerate_append_eq)

lemma streamFrames_Nil [simp]: "streamFrames sid [] = []"
  by (simp add: streamFrames_def)

lemma length_streamFrames [simp]: "length (streamFrames sid cs) = length cs"
  by (simp add: streamFrames_def)

lemma nth_streamFrames:
  "k < length cs \<Longrightarrow> streamFrames sid cs ! k = dataFrame sid (of_nat k) (cs ! k)"
  by (simp add: streamFrames_def nth_enumerate_eq)

lemma set_streamFrames:
  "f \<in> set (streamFrames sid cs) \<longleftrightarrow> (\<exists>k<length cs. f = dataFrame sid (of_nat k) (cs ! k))"
  by (metis in_set_conv_nth length_streamFrames nth_streamFrames)

lemma frame_fields [simp]:
  "Kind (dataFrame sid s c) = FrameStreamData" "StreamID (dataFrame sid s c) = sid"
  "Sequence (dataFrame sid s c) = s" "Payload (dataFrame sid s c) = c"
  "Kind (openFrame sid) = FrameStreamOpen" "StreamID (openFrame sid) = sid"
  "Kind (closeFrame sid) = FrameStreamClose" "StreamID (closeFrame sid) = sid"
  by (simp_all add: dataFrame_def openFrame_def closeFrame_def frameOfKind_def)

section \<open>The invariant of one stream\<close>

abbreviation nonClose :: "frame list \<Rightarrow> frame list" where
  "nonClose fs \<equiv> filter (\<lambda>f. Kind f \<noteq> FrameStreamClose) fs"

text \<open>
  What the reader at a program counter has put on the channel: the open frame, then the chunks
  read so far, all of them or all but the last.
\<close>

definition sentUpTo :: "64 word \<Rightarrow> byte list list \<Rightarrow> nat \<Rightarrow> frame list \<Rightarrow> bool" where
  "sentUpTo sid cs n fs \<longleftrightarrow> fs = openFrame sid # streamFrames sid (take n cs)"

fun readerOk :: "64 word \<Rightarrow> readerPc \<Rightarrow> byte list list \<Rightarrow> frame list \<Rightarrow> bool" where
  "readerOk sid ReaderNotStarted cs fs \<longleftrightarrow> cs = [] \<and> fs = []"
| "readerOk sid ReaderReading cs fs \<longleftrightarrow> sentUpTo sid cs (length cs) fs"
| "readerOk sid (ReaderSending f e) cs fs \<longleftrightarrow>
     (\<exists>ds c. cs = ds @ [c] \<and> f = dataFrame sid (of_nat (length ds)) c \<and>
        sentUpTo sid cs (length ds) fs)"
| "readerOk sid pc cs fs \<longleftrightarrow> (\<exists>n. length cs \<le> Suc n \<and> sentUpTo sid cs n fs)"

fun writerOk :: "writerPc \<Rightarrow> frame list \<Rightarrow> byte list \<Rightarrow> bool" where
  "writerOk WriterNotStarted fs bs \<longleftrightarrow> fs = [] \<and> bs = []"
| "writerOk WriterSelect fs bs \<longleftrightarrow> bs = concat (map Payload fs)"
| "writerOk (WriterWrite f) fs bs \<longleftrightarrow> (\<exists>gs. fs = gs @ [f] \<and> bs = concat (map Payload gs))"
| "writerOk pc fs bs \<longleftrightarrow> prefix bs (concat (map Payload fs))"

text \<open>The frames a writer took, and those that wait for it.\<close>

definition takenOk :: "64 word \<Rightarrow> frame list \<Rightarrow> frame list \<Rightarrow> bool" where
  "takenOk sid taken inb \<longleftrightarrow>
     (\<forall>k<length taken. Sequence (taken ! k) = of_nat k) \<and>
     (\<forall>f\<in>set inb \<union> set taken. Kind f = FrameStreamData \<and> StreamID f = sid) \<and>
     length inb \<le> inboundQueueSize"

definition closesOk :: "64 word \<Rightarrow> bool \<Rightarrow> frame list \<Rightarrow> bool" where
  "closesOk sid notified fs \<longleftrightarrow>
     length (filter (\<lambda>f. Kind f = FrameStreamClose) fs) \<le> (if notified then 1 else 0) \<and>
     (\<forall>f\<in>set fs. StreamID f = sid)"

definition streamInv :: "nat \<Rightarrow> tcpLocalStream \<Rightarrow> bool" where
  "streamInv p st \<longleftrightarrow>
     sId st = of_nat (Suc p) \<and>
     sendSequence st = of_nat (length (sRead st)) \<and>
     recvSequence st = of_nat (length (sTaken st)) \<and>
     (\<forall>c\<in>set (sRead st). c \<noteq> [] \<and> length c \<le> StreamChunkSize) \<and>
     readerOk (sId st) (sReader st) (sRead st) (nonClose (sSent st)) \<and>
     writerOk (sWriter st) (sTaken st) (sWritten st) \<and>
     takenOk (sId st) (sTaken st) (sInbound st) \<and>
     closesOk (sId st) (sNotified st) (sSent st)"

lemma readerOk_sent:
  "readerOk sid pc cs fs \<Longrightarrow> pc \<noteq> ReaderNotStarted \<Longrightarrow> \<exists>n. length cs \<le> Suc n \<and> sentUpTo sid cs n fs"
  by (cases pc) (auto intro: exI [of _ "length cs"])

lemma readerOk_stop:
  assumes "readerOk sid pc cs fs" "pc \<noteq> ReaderNotStarted"
    "pc' \<in> {ReaderFailed, ReaderNotify, ReaderClosing, ReaderDone}"
  shows "readerOk sid pc' cs fs"
  using readerOk_sent [OF assms(1,2)] assms(3) by auto

lemma writerOk_prefix: "writerOk pc fs bs \<Longrightarrow> prefix bs (concat (map Payload fs))"
  by (cases pc) auto

lemma writerOk_stop:
  assumes "writerOk pc fs bs" "pc' \<in> {WriterNotify, WriterClosing, WriterDone}"
  shows "writerOk pc' fs bs"
  using writerOk_prefix [OF assms(1)] assms(2) by auto

lemmas stream_inv_defs = streamInv_def takenOk_def closesOk_def

lemma newStream_inv: "streamInv p (newStream (of_nat (Suc p)) w)"
  by (simp add: stream_inv_defs newStream_def)

text \<open>The changes a goroutine makes to a stream.\<close>

lemma stream_opened:
  "streamInv p st \<Longrightarrow> sReader st = ReaderNotStarted \<Longrightarrow> sWriter st = WriterNotStarted \<Longrightarrow>
     streamInv p (st\<lparr>sSent := sSent st @ [openFrame (sId st)], sReader := ReaderReading,
       sWriter := WriterSelect\<rparr>)"
  by (auto simp: stream_inv_defs sentUpTo_def)

lemma stream_read:
  assumes "streamInv p st" "sReader st = ReaderReading" "bs \<noteq> []" "length bs \<le> StreamChunkSize"
  shows "streamInv p (st\<lparr>sendSequence := sendSequence st + 1, sRead := sRead st @ [bs],
      sReader := ReaderSending (dataFrame (sId st) (sendSequence st) bs) e\<rparr>)"
  using assms by (auto simp: stream_inv_defs sentUpTo_def)

lemma stream_sent:
  assumes "streamInv p st" "sReader st = ReaderSending f e" "pc \<in> {ReaderReading, ReaderFailed}"
  shows "streamInv p (st\<lparr>sSent := sSent st @ [f], sReader := pc\<rparr>)"
  using assms
  by (auto simp: stream_inv_defs sentUpTo_def intro!: exI [of _ "length (sRead st)"])

lemma stream_reader_stops:
  assumes "streamInv p st" "sReader st \<noteq> ReaderNotStarted"
    "pc \<in> {ReaderFailed, ReaderNotify, ReaderClosing, ReaderDone}"
  shows "streamInv p (st\<lparr>sReader := pc\<rparr>)"
  using assms(1) readerOk_stop [OF _ assms(2,3)] by (auto simp: streamInv_def)

lemma stream_writer_stops:
  assumes "streamInv p st" "pc \<in> {WriterNotify, WriterClosing, WriterDone}"
  shows "streamInv p (st\<lparr>sWriter := pc\<rparr>)"
  using assms(1) writerOk_stop [OF _ assms(2)] by (auto simp: streamInv_def)

lemma stream_dropped:
  assumes "streamInv p st" "sInbound st = f # fs"
  shows "streamInv p (st\<lparr>sInbound := fs\<rparr>)"
  using assms by (auto simp: stream_inv_defs)

lemma stream_taken:
  assumes "streamInv p st" "sInbound st = f # fs" "sWriter st = WriterSelect"
    "Sequence f = recvSequence st"
  shows "streamInv p (st\<lparr>sInbound := fs, recvSequence := recvSequence st + 1,
      sTaken := sTaken st @ [f], sWriter := WriterWrite f\<rparr>)"
  using assms by (auto simp: stream_inv_defs nth_append less_Suc_eq)

lemma stream_written:
  assumes "streamInv p st" "sWriter st = WriterWrite f"
  shows "streamInv p (st\<lparr>sWritten := sWritten st @ Payload f, sWriter := WriterSelect\<rparr>)"
    and "streamInv p (st\<lparr>sWritten := sWritten st @ take n (Payload f), sWriter := WriterNotify\<rparr>)"
  using assms by (auto simp: streamInv_def take_is_prefix)

lemma stream_notified:
  assumes "streamInv p st" "\<not> sNotified st"
  shows "streamInv p (st\<lparr>sNotified := True\<rparr>)"
    and "streamInv p (st\<lparr>sNotified := True, sSent := sSent st @ [closeFrame (sId st)]\<rparr>)"
  using assms by (auto simp: stream_inv_defs)

lemma stream_queued:
  assumes "streamInv p st" "length (sInbound st) < inboundQueueSize"
    "Kind f = FrameStreamData" "StreamID f = sId st"
  shows "streamInv p (st\<lparr>sInbound := sInbound st @ [f]\<rparr>)"
  using assms by (auto simp: stream_inv_defs)

lemma stream_done: "streamInv p st \<Longrightarrow> streamInv p (st\<lparr>sDone := True\<rparr>)"
  by (auto simp: streamInv_def)

section \<open>The invariant of the ingress\<close>

definition streamsInv :: "tcpIngress \<Rightarrow> bool" where
  "streamsInv t \<longleftrightarrow> (\<forall>p<length (heap t). streamInv p (stream p t) \<and>
     set (sInbound (stream p t)) \<union> set (sTaken (stream p t)) \<subseteq> set (tDelivered t))"

definition tableInv :: "tcpIngress \<Rightarrow> bool" where
  "tableInv t \<longleftrightarrow> (\<forall>sid p. streams t sid = Some p \<longrightarrow>
     p < length (heap t) \<and> sid = of_nat (Suc p) \<and> \<not> sDone (stream p t))"

fun callOk :: "tcpIngress \<Rightarrow> tcpCall \<Rightarrow> bool" where
  "callOk t (CallQueue p f) \<longleftrightarrow>
     p < length (heap t) \<and> Kind f = FrameStreamData \<and> StreamID f = of_nat (Suc p) \<and>
     f \<in> set (tDelivered t)"
| "callOk t (CallNotify p) \<longleftrightarrow> p < length (heap t)"
| "callOk t (CallClose sids) \<longleftrightarrow> True"

fun acceptOk :: "tcpIngress \<Rightarrow> acceptPc \<Rightarrow> bool" where
  "acceptOk t (AcceptOpening p) \<longleftrightarrow> p < length (heap t) \<and>
     sReader (stream p t) = ReaderNotStarted \<and> sWriter (stream p t) = WriterNotStarted"
| "acceptOk t pc \<longleftrightarrow> True"

definition tcpInv :: "tcpIngress \<Rightarrow> bool" where
  "tcpInv t \<longleftrightarrow> nextStreamID t = of_nat (length (heap t)) \<and> streamsInv t \<and> tableInv t \<and>
     acceptOk t (tAccept t) \<and> (\<forall>c\<in>set (tCalls t). callOk t c)"

lemmas tcp_inv_defs = tcpInv_def streamsInv_def tableInv_def

lemma tableInvD:
  "tableInv t \<Longrightarrow> streams t sid = Some p \<Longrightarrow>
     p < length (heap t) \<and> sid = of_nat (Suc p) \<and> \<not> sDone (stream p t)"
  unfolding tableInv_def by blast

text \<open>Reading the heap after an update.\<close>

lemma stream_setStream [simp]:
  "p < length (heap t) \<Longrightarrow> stream q (setStream p st t) = (if q = p then st else stream q t)"
  by (simp add: stream_def setStream_def)

lemma setStream_fields [simp]:
  "length (heap (setStream p st t)) = length (heap t)"
  "streams (setStream p st t) = streams t" "tAccept (setStream p st t) = tAccept t"
  "tCalls (setStream p st t) = tCalls t" "nextStreamID (setStream p st t) = nextStreamID t"
  "tDelivered (setStream p st t) = tDelivered t" "tCancelled (setStream p st t) = tCancelled t"
  by (simp_all add: setStream_def)

lemma stream_update [simp]:
  "stream p (t\<lparr>tChans := q\<rparr>) = stream p t" "stream p (t\<lparr>tWorkers := w\<rparr>) = stream p t"
  "stream p (t\<lparr>tAccept := a\<rparr>) = stream p t" "stream p (t\<lparr>tCalls := cs\<rparr>) = stream p t"
  "stream p (t\<lparr>streams := m\<rparr>) = stream p t" "stream p (t\<lparr>tCancelled := b\<rparr>) = stream p t"
  "stream p (t\<lparr>tDelivered := d\<rparr>) = stream p t"
  by (simp_all add: stream_def)

lemma callOk_cong:
  "length (heap t') = length (heap t) \<Longrightarrow> set (tDelivered t) \<subseteq> set (tDelivered t') \<Longrightarrow>
     callOk t c \<Longrightarrow> callOk t' c"
  by (cases c) auto

text \<open>A state that differs only in channels, workers, the cancel flag, or has fewer live streams.\<close>

lemma tcpInv_same:
  assumes "tcpInv t" "heap t' = heap t" "nextStreamID t' = nextStreamID t"
    "streams t' \<subseteq>\<^sub>m streams t" "tAccept t' = tAccept t \<or> acceptOk t' (tAccept t')"
    "set (tCalls t') \<subseteq> set (tCalls t)" "set (tDelivered t) \<subseteq> set (tDelivered t')"
  shows "tcpInv t'"
proof -
  have st: "stream p t' = stream p t" for p using assms(2) by (simp add: stream_def)
  have "streams t' sid = Some p \<Longrightarrow> streams t sid = Some p" for sid p
    using assms(4) by (metis domI map_le_def)
  then have "tableInv t'" using assms(1,2) by (auto simp: tcpInv_def tableInv_def st)
  moreover have "streamsInv t'" using assms(1,2,7) by (auto simp: tcpInv_def streamsInv_def st)
  moreover have "acceptOk t' (tAccept t')" using assms(1,2,5)
    by (cases "tAccept t") (auto simp: tcpInv_def st)
  moreover have "callOk t' c" if "c \<in> set (tCalls t')" for c
    using that assms callOk_cong [of t' t c] by (auto simp: tcpInv_def)
  ultimately show ?thesis using assms(1-3) by (simp add: tcpInv_def)
qed

text \<open>A goroutine changed its stream.\<close>

lemma tcpInv_setStream:
  assumes "tcpInv t" "p < length (heap t)" "streamInv p st" "sDone st = sDone (stream p t)"
    "set (sInbound st) \<union> set (sTaken st) \<subseteq> set (tDelivered t)"
    "sReader (stream p t) = ReaderNotStarted \<Longrightarrow> sWriter (stream p t) = WriterNotStarted \<Longrightarrow>
       tAccept t = AcceptOpening p \<Longrightarrow> sReader st = ReaderNotStarted \<and> sWriter st = WriterNotStarted"
  shows "tcpInv (setStream p st t)"
proof -
  have "acceptOk (setStream p st t) (tAccept t)" using assms
    by (cases "tAccept t") (auto simp: tcpInv_def)
  moreover have "callOk (setStream p st t) c" if "c \<in> set (tCalls t)" for c
    using that assms(1) callOk_cong [of "setStream p st t" t c] by (auto simp: tcpInv_def)
  ultimately show ?thesis using assms(1-5) by (auto simp: tcp_inv_defs)
qed

lemma tcpInv_closeStream:
  assumes "tcpInv t" shows "tcpInv (closeStream sid t)"
proof (cases "streams t sid")
  case None
  with assms show ?thesis by (simp add: closeStream_def)
next
  case (Some p)
  define t2 where "t2 = closeStream sid t"
  have p: "p < length (heap t)" using assms Some by (auto simp: tcp_inv_defs)
  then have t2: "stream q t2 = (if q = p then (stream p t)\<lparr>sDone := True\<rparr> else stream q t)"
    "length (heap t2) = length (heap t)" "streams t2 = (streams t)(sid := None)"
    "tAccept t2 = tAccept t" "tCalls t2 = tCalls t" "nextStreamID t2 = nextStreamID t"
    "tDelivered t2 = tDelivered t" for q
    using Some by (simp_all add: t2_def closeStream_def)
  have only: "q \<noteq> p" if "streams t s = Some q" "s \<noteq> sid" for s q
    using that Some assms tableInvD [of t] by (metis tcpInv_def)
  have "streamsInv t2" using assms stream_done by (auto simp: t2 tcp_inv_defs)
  moreover have "tableInv t2" using assms only by (auto simp: t2 tcp_inv_defs)
  moreover have "acceptOk t2 (tAccept t)" using assms by (cases "tAccept t") (auto simp: t2 tcpInv_def)
  moreover have "callOk t2 c" if "c \<in> set (tCalls t)" for c
    using that assms callOk_cong [of t2 t c] by (auto simp: t2 tcpInv_def)
  ultimately have "tcpInv t2" using assms by (simp add: tcpInv_def t2)
  then show ?thesis by (simp add: t2_def)
qed

section \<open>Every event keeps the invariant\<close>

lemma setStream_twice [simp]: "setStream p b (setStream p a t) = setStream p b t"
  by (simp add: setStream_def)

lemma setStream_update:
  "setStream p st (t\<lparr>tChans := q\<rparr>) = (setStream p st t)\<lparr>tChans := q\<rparr>"
  "setStream p st (t\<lparr>tAccept := a\<rparr>) = (setStream p st t)\<lparr>tAccept := a\<rparr>"
  by (simp_all add: setStream_def)

lemma tcpInv_chans [simp]:
  "tcpInv (t\<lparr>tChans := q\<rparr>) = tcpInv t" "tcpInv (t\<lparr>tWorkers := w\<rparr>) = tcpInv t"
  "tcpInv (t\<lparr>tCancelled := b\<rparr>) = tcpInv t"
proof -
  have same: "tcpInv t1 \<Longrightarrow> tcpInv t2"
    if "heap t1 = heap t2" "nextStreamID t1 = nextStreamID t2" "streams t1 = streams t2"
      "tAccept t1 = tAccept t2" "tCalls t1 = tCalls t2" "tDelivered t1 = tDelivered t2" for t1 t2
    using that by (intro tcpInv_same [of t1 t2]) auto
  show "tcpInv (t\<lparr>tChans := q\<rparr>) = tcpInv t" "tcpInv (t\<lparr>tWorkers := w\<rparr>) = tcpInv t"
    "tcpInv (t\<lparr>tCancelled := b\<rparr>) = tcpInv t"
    by (rule iffI; erule same [rotated -1]; simp)+
qed

lemma tcpInv_chans_accept [simp]:
  "tcpInv (t\<lparr>tChans := q, tAccept := a\<rparr>) = tcpInv (t\<lparr>tAccept := a\<rparr>)"
proof -
  have "t\<lparr>tChans := q, tAccept := a\<rparr> = (t\<lparr>tAccept := a\<rparr>)\<lparr>tChans := q\<rparr>" by simp
  then show ?thesis by (simp only: tcpInv_chans)
qed

lemma tcpInv_wait: "tcpInv t \<Longrightarrow> tcpInv (t\<lparr>tAccept := AcceptWait\<rparr>)"
  by (rule tcpInv_same) auto

lemma tcpInv_stream:
  assumes "tcpInv t" "p < length (heap t)"
  shows "streamInv p (stream p t)"
    and "set (sInbound (stream p t)) \<subseteq> set (tDelivered t)"
    and "set (sTaken (stream p t)) \<subseteq> set (tDelivered t)"
  using assms by (auto simp: tcpInv_def streamsInv_def)

text \<open>A started stream changes: the accept loop is elsewhere.\<close>

lemma tcpInv_started:
  assumes "tcpInv t" "p < length (heap t)" "streamInv p st" "sDone st = sDone (stream p t)"
    "set (sInbound st) \<subseteq> set (tDelivered t)" "set (sTaken st) \<subseteq> set (tDelivered t)"
    "sReader (stream p t) \<noteq> ReaderNotStarted \<or> sWriter (stream p t) \<noteq> WriterNotStarted
      \<or> sReader st = sReader (stream p t) \<and> sWriter st = sWriter (stream p t)"
  shows "tcpInv (setStream p st t)"
  using assms by (intro tcpInv_setStream) auto

lemma tcpInv_setReader:
  assumes "tcpInv t" "p < length (heap t)" "sReader (stream p t) \<noteq> ReaderNotStarted"
    "pc \<in> {ReaderFailed, ReaderNotify, ReaderClosing, ReaderDone}"
  shows "tcpInv (setReader p pc t)"
  unfolding setReader_def using assms tcpInv_stream [OF assms(1,2)]
  by (intro tcpInv_started stream_reader_stops) auto

lemma tcpInv_setWriter:
  assumes "tcpInv t" "p < length (heap t)" "sWriter (stream p t) \<noteq> WriterNotStarted"
    "pc \<in> {WriterNotify, WriterClosing, WriterDone}"
  shows "tcpInv (setWriter p pc t)"
  unfolding setWriter_def using assms tcpInv_stream [OF assms(1,2)]
  by (intro tcpInv_started stream_writer_stops) auto

lemma notify_inv:
  assumes "notifyRemoteClose cap ch p t = Some t'" "tcpInv t" "p < length (heap t)"
  shows "tcpInv t'" and "length (heap t') = length (heap t)"
    and "sReader (stream p t') = sReader (stream p t)"
    and "sWriter (stream p t') = sWriter (stream p t)"
    and "tCalls t' = tCalls t" and "tDelivered t' = tDelivered t" and "nextStreamID t' = nextStreamID t"
proof -
  note st = tcpInv_stream [OF assms(2,3)]
  have "tcpInv (setStream p ((stream p t)\<lparr>sNotified := True\<rparr>) t)" if "\<not> sNotified (stream p t)"
    using assms st stream_notified [OF st(1) that] by (intro tcpInv_started) auto
  moreover have "tcpInv (setStream p ((stream p t)\<lparr>sNotified := True,
      sSent := sSent (stream p t) @ [closeFrame (sId (stream p t))]\<rparr>) t)" if "\<not> sNotified (stream p t)"
    using assms st stream_notified [OF st(1) that] by (intro tcpInv_started) auto
  ultimately show "tcpInv t'"
    using assms(1,2) by (auto simp: notifyRemoteClose_def Let_def setStream_update
        split: if_splits notifyChoice.splits)
  show "length (heap t') = length (heap t)" "sReader (stream p t') = sReader (stream p t)"
    "sWriter (stream p t') = sWriter (stream p t)" "tCalls t' = tCalls t"
    "tDelivered t' = tDelivered t" "nextStreamID t' = nextStreamID t"
    using assms(1,3) by (auto simp: notifyRemoteClose_def Let_def split: if_splits notifyChoice.splits)
qed

lemma tcpInv_accept: "tcpInv t \<Longrightarrow> acceptOk t pc \<Longrightarrow> tcpInv (t\<lparr>tAccept := pc\<rparr>)"
  by (rule tcpInv_same [of t]) (cases pc; auto)+

lemma accept_inv: "tcpAccept t = Some t' \<Longrightarrow> tcpInv t \<Longrightarrow> tcpInv t'"
  using tcpInv_accept [of "t\<lparr>tWorkers := w\<rparr>" for w]
  by (auto simp: tcpAccept_def split: if_splits prod.splits option.splits)

lemma accept_error_inv: "tcpAcceptError c t = Some t' \<Longrightarrow> tcpInv t \<Longrightarrow> tcpInv t'"
  using tcpInv_accept by (auto simp: tcpAcceptError_def split: if_splits)

lemma store_inv:
  assumes "tcpStore t = Some t'" "tcpInv t"
  shows "tcpInv t'"
proof -
  obtain w where w: "tAccept t = AcceptPicked w" using assms(1)
    by (auto simp: tcpStore_def split: acceptPc.splits)
  let ?n = "length (heap t)"
  have nextid: "nextStreamID t + 1 = of_nat (Suc ?n)" using assms(2) by (simp add: tcpInv_def)
  have t': "stream q t' = (if q = ?n then newStream (of_nat (Suc ?n)) w else stream q t)"
    if "q \<le> ?n" for q
    using assms(1) w nextid that
    by (auto simp: tcpStore_def Let_def stream_def nth_append)
  have f: "length (heap t') = Suc ?n" "streams t' = (streams t)(of_nat (Suc ?n) \<mapsto> ?n)"
    "tAccept t' = AcceptOpening ?n" "tCalls t' = tCalls t" "tDelivered t' = tDelivered t"
    "nextStreamID t' = of_nat (Suc ?n)"
    using assms(1) w nextid by (auto simp: tcpStore_def Let_def)
  have "streamsInv t'"
    using assms(2) newStream_inv [of ?n w]
    by (auto simp: streamsInv_def tcpInv_def f t' less_Suc_eq_le newStream_def)
  moreover have "tableInv t'"
    using assms(2) unfolding tableInv_def f
    by (auto simp: t' newStream_def tcpInv_def dest!: tableInvD)
  moreover have "callOk t' c" if "callOk t c" for c
    using that by (cases c) (auto simp: f)
  ultimately show ?thesis using assms(2) by (auto simp: tcpInv_def f t' newStream_def)
qed

lemma open_inv:
  assumes "tcpOpen cap ch t = Some t'" "tcpInv t"
  shows "tcpInv t'"
proof -
  obtain p where p: "tAccept t = AcceptOpening p" using assms(1)
    by (auto simp: tcpOpen_def split: acceptPc.splits)
  then have st: "p < length (heap t)" "sReader (stream p t) = ReaderNotStarted"
    "sWriter (stream p t) = WriterNotStarted" using assms(2) by (auto simp: tcpInv_def)
  let ?t = "t\<lparr>tAccept := AcceptWait\<rparr>"
  have inv: "tcpInv ?t" using assms(2) by (rule tcpInv_wait)
  note s = tcpInv_stream [OF assms(2) st(1)]
  have "tcpInv (setStream p ((stream p t)\<lparr>sSent := sSent (stream p t) @ [openFrame (sId (stream p t))],
      sReader := ReaderReading, sWriter := WriterSelect\<rparr>) ?t)"
    using inv st s by (intro tcpInv_setStream stream_opened) auto
  then show ?thesis
    using assms(1) p st inv tcpInv_closeStream [of ?t]
    by (auto simp: tcpOpen_def sendStreamFrame_def setStream_update split: sendChoice.splits if_splits)
qed

lemma read_inv:
  assumes "tcpRead p bs e t = Some t'" "tcpInv t" "p < length (heap t)"
  shows "tcpInv t'"
proof -
  note s = tcpInv_stream [OF assms(2,3)]
  have "tcpInv (setStream p ((stream p t)\<lparr>sendSequence := sendSequence (stream p t) + 1,
      sRead := sRead (stream p t) @ [bs],
      sReader := ReaderSending (dataFrame (sId (stream p t)) (sendSequence (stream p t)) bs) e\<rparr>) t)"
    if "sReader (stream p t) = ReaderReading" "bs \<noteq> []" "length bs \<le> StreamChunkSize"
    using assms s that by (intro tcpInv_started stream_read) auto
  with assms tcpInv_setReader [OF assms(2,3)] show ?thesis
    by (auto simp: tcpRead_def Let_def split: if_splits)
qed

lemma read_send_inv:
  assumes "tcpReadSend cap ch p t = Some t'" "tcpInv t" "p < length (heap t)"
  shows "tcpInv t'"
proof -
  note s = tcpInv_stream [OF assms(2,3)]
  obtain f e where pc: "sReader (stream p t) = ReaderSending f e"
    using assms(1) by (auto simp: tcpReadSend_def split: readerPc.splits)
  have "tcpInv (setStream p ((stream p t)\<lparr>sSent := sSent (stream p t) @ [f],
      sReader := pc'\<rparr>) t)" if "pc' \<in> {ReaderReading, ReaderFailed}" for pc'
    using assms s pc that stream_sent [OF s(1) pc that] by (intro tcpInv_started) auto
  then show ?thesis
    using assms pc tcpInv_setReader [OF assms(2,3)]
    by (auto simp: tcpReadSend_def sendStreamFrame_def setReader_def setStream_update
        split: sendChoice.splits if_splits)
qed

lemma read_failed_inv:
  "tcpReadFailed p t = Some t' \<Longrightarrow> tcpInv t \<Longrightarrow> p < length (heap t) \<Longrightarrow> tcpInv t'"
  by (auto simp: tcpReadFailed_def intro: tcpInv_setReader split: if_splits)

lemma read_notify_inv:
  assumes "tcpReadNotify cap ch p t = Some t'" "tcpInv t" "p < length (heap t)"
  shows "tcpInv t'"
  using assms notify_inv [OF _ assms(2,3)]
  by (auto simp: tcpReadNotify_def intro!: tcpInv_setReader split: if_splits)

lemma read_close_inv:
  "tcpReadClose p t = Some t' \<Longrightarrow> tcpInv t \<Longrightarrow> p < length (heap t) \<Longrightarrow> tcpInv t'"
  by (auto simp: tcpReadClose_def intro!: tcpInv_closeStream tcpInv_setReader split: if_splits)

lemma select_inv:
  assumes "tcpSelect ch p t = Some t'" "tcpInv t" "p < length (heap t)"
  shows "tcpInv t'"
proof -
  note s = tcpInv_stream [OF assms(2,3)]
  show ?thesis
  proof (cases ch)
    case WriterInbound
    with assms(1) obtain f fs where f: "sInbound (stream p t) = f # fs"
      and pc: "sWriter (stream p t) = WriterSelect"
      by (auto simp: tcpSelect_def Let_def split: list.splits if_splits)
    note d = stream_dropped [OF s(1) f]
    have "tcpInv (setStream p ((stream p t)\<lparr>sInbound := fs\<rparr>) t)"
      "tcpInv (setStream p ((stream p t)\<lparr>sInbound := fs, sWriter := WriterNotify\<rparr>) t)"
      "Sequence f = recvSequence (stream p t) \<Longrightarrow> tcpInv (setStream p
         ((stream p t)\<lparr>sInbound := fs, recvSequence := recvSequence (stream p t) + 1,
            sTaken := sTaken (stream p t) @ [f], sWriter := WriterWrite f\<rparr>) t)"
      using assms s f pc d stream_writer_stops [OF d] stream_taken [OF s(1) f pc]
      by (auto intro!: tcpInv_started)
    with WriterInbound assms(1) f pc show ?thesis
      by (auto simp: tcpSelect_def Let_def split: if_splits)
  qed (use assms tcpInv_setWriter [OF assms(2,3)] in
      \<open>auto simp: tcpSelect_def Let_def split: if_splits\<close>)
qed

lemma write_inv:
  assumes "tcpWrite r p t = Some t'" "tcpInv t" "p < length (heap t)"
  shows "tcpInv t'"
proof -
  note s = tcpInv_stream [OF assms(2,3)]
  obtain f where pc: "sWriter (stream p t) = WriterWrite f"
    using assms(1) by (auto simp: tcpWrite_def Let_def split: writerPc.splits)
  have "tcpInv (setStream p ((stream p t)\<lparr>sWritten := sWritten (stream p t) @ Payload f,
      sWriter := WriterSelect\<rparr>) t)"
    "tcpInv (setStream p ((stream p t)\<lparr>sWritten := sWritten (stream p t) @ take n (Payload f),
      sWriter := WriterNotify\<rparr>) t)" for n
    using assms s pc stream_written [OF s(1) pc] by (auto intro!: tcpInv_started)
  with assms pc tcpInv_setWriter [OF assms(2,3)] show ?thesis
    by (auto simp: tcpWrite_def Let_def split: writeResult.splits)
qed

lemma write_notify_inv:
  assumes "tcpWriteNotify cap ch p t = Some t'" "tcpInv t" "p < length (heap t)"
  shows "tcpInv t'"
  using assms notify_inv [OF _ assms(2,3)]
  by (auto simp: tcpWriteNotify_def intro!: tcpInv_setWriter split: if_splits)

lemma write_close_inv:
  "tcpWriteClose p t = Some t' \<Longrightarrow> tcpInv t \<Longrightarrow> p < length (heap t) \<Longrightarrow> tcpInv t'"
  by (auto simp: tcpWriteClose_def intro!: tcpInv_closeStream tcpInv_setWriter split: if_splits)

lemma tcpInv_calls:
  assumes "tcpInv t" "\<forall>c\<in>set cs. callOk t c"
  shows "tcpInv (t\<lparr>tCalls := cs\<rparr>)"
proof -
  have "acceptOk (t\<lparr>tCalls := cs\<rparr>) (tAccept t)" using assms by (cases "tAccept t") (auto simp: tcpInv_def)
  moreover have "\<forall>c\<in>set cs. callOk (t\<lparr>tCalls := cs\<rparr>) c"
    using assms(2) callOk_cong [of "t\<lparr>tCalls := cs\<rparr>" t] by auto
  ultimately show ?thesis using assms by (auto simp: tcp_inv_defs)
qed

lemma deliver_inv:
  assumes "tcpInv t" shows "tcpInv (snd (tcpDeliver f t))"
proof -
  let ?t = "t\<lparr>tDelivered := tDelivered t @ [f]\<rparr>"
  have inv: "tcpInv ?t" using assms by (rule tcpInv_same) auto
  have "tcpInv (?t\<lparr>tCalls := tCalls t @ [CallQueue p f]\<rparr>)"
    if "streams t (StreamID f) = Some p" "Kind f = FrameStreamData" for p
  proof (rule tcpInv_calls [OF inv])
    have "p < length (heap t)" "StreamID f = of_nat (Suc p)"
      using assms that(1) tableInvD [of t] by (auto simp: tcpInv_def)
    then show "\<forall>c\<in>set (tCalls t @ [CallQueue p f]). callOk ?t c"
      using inv that by (auto simp: tcpInv_def)
  qed
  with assms show ?thesis
    by (auto simp: tcpDeliver_def lookupStream_def tcpInv_closeStream split: option.splits)
qed

lemma closeStream_fields [simp]:
  "tCalls (closeStream sid t) = tCalls t" "length (heap (closeStream sid t)) = length (heap t)"
  "tDelivered (closeStream sid t) = tDelivered t" "nextStreamID (closeStream sid t) = nextStreamID t"
  by (simp_all add: closeStream_def split: option.splits)

lemma call_step_inv:
  assumes "tcpCallStep cap q n c t = Some (rest, t')" "tcpInv t" "callOk t c"
  shows "tcpInv t' \<and> tCalls t' = tCalls t \<and> length (heap t') = length (heap t)
    \<and> tDelivered t' = tDelivered t \<and> (\<forall>c\<in>set rest. callOk t' c)"
proof (cases c)
  case (CallQueue p f)
  with assms(3) have p: "p < length (heap t)" and f: "Kind f = FrameStreamData"
    "StreamID f = of_nat (Suc p)" "f \<in> set (tDelivered t)" by auto
  note s = tcpInv_stream [OF assms(2) p]
  have "tcpInv (setStream p ((stream p t)\<lparr>sInbound := sInbound (stream p t) @ [f]\<rparr>) t)"
    if "length (sInbound (stream p t)) < inboundQueueSize"
    using assms(2) p s f stream_queued [OF s(1) that]
    by (intro tcpInv_started) (auto simp: streamInv_def)
  with assms(1,2) CallQueue p show ?thesis
    by (auto simp: tcpCallStep_def queueInboundFrame_def Let_def split: queueChoice.splits if_splits)
next
  case (CallNotify p)
  with assms notify_inv [OF _ assms(2)] show ?thesis by (auto simp: tcpCallStep_def)
next
  case (CallClose sids)
  with assms(1,2) show ?thesis
    by (cases sids) (auto simp: tcpCallStep_def tcpInv_closeStream)
qed

lemma call_inv:
  assumes "tcpCall cap q n k t = Some t'" "tcpInv t"
  shows "tcpInv t'"
proof -
  from assms(1) obtain rest t1 where k: "k < length (tCalls t)"
    and st: "tcpCallStep cap q n (tCalls t ! k) t = Some (rest, t1)"
    and t': "t' = t1\<lparr>tCalls := take k (tCalls t) @ rest @ drop (Suc k) (tCalls t)\<rparr>"
    by (auto simp: tcpCall_def split: if_splits option.splits)
  have ok: "callOk t c" if "c \<in> set (tCalls t)" for c using that assms(2) by (simp add: tcpInv_def)
  from call_step_inv [OF st assms(2)] k ok have t1: "tcpInv t1" "length (heap t1) = length (heap t)"
    "tDelivered t1 = tDelivered t" "\<forall>c\<in>set rest. callOk t1 c" by auto
  have "callOk t1 c" if "c \<in> set (tCalls t)" for c
    using callOk_cong [of t1 t c] t1 ok that by simp
  with t1 show ?thesis unfolding t'
    by (intro tcpInv_calls) (auto dest: in_set_takeD in_set_dropD)
qed

lemma calls_added: "tcpInv t \<Longrightarrow> tcpInv (t\<lparr>tCalls := tCalls t @ [CallClose sids]\<rparr>)"
  by (rule tcpInv_calls) (auto simp: tcpInv_def)

lemma tcp_step_inv: "tcpStep cap e t = Some t' \<Longrightarrow> tcpInv t \<Longrightarrow> tcpInv t'"
proof (cases e)
  case (EvSelect p ch)
  then show "tcpStep cap e t = Some t' \<Longrightarrow> tcpInv t \<Longrightarrow> tcpInv t'"
    by (simp add: select_inv split: if_splits)
qed (simp_all add: tcpSetReady_def tcpRemoveWorker_def closeWorkerStreams_def closeAllStreams_def
      accept_inv accept_error_inv store_inv open_inv read_inv read_send_inv read_failed_inv
      read_notify_inv read_close_inv write_inv write_notify_inv write_close_inv
      call_inv calls_added deliver_inv split: if_splits, auto simp: calls_added deliver_inv)

lemma tcp_init_inv [simp]: "tcpInv (newTCPIngress q)"
  by (simp add: newTCPIngress_def tcp_inv_defs)

lemma tcp_reachable_inv: "tcpReachable cap t \<Longrightarrow> tcpInv t"
  by (induction rule: tcpReachable.induct) (auto intro: tcp_step_inv)

section \<open>Closed streams\<close>

definition doneMono :: "tcpIngress \<Rightarrow> tcpIngress \<Rightarrow> bool" where
  "doneMono t t' \<longleftrightarrow> length (heap t) \<le> length (heap t') \<and>
     (\<forall>p<length (heap t). sDone (stream p t) \<longrightarrow> sDone (stream p t'))"

lemma doneMono_refl [simp]: "doneMono t t"
  by (simp add: doneMono_def)

lemma doneMono_length: "doneMono t t1 \<Longrightarrow> p < length (heap t) \<Longrightarrow> p < length (heap t1)"
  by (simp add: doneMono_def)

lemma doneMono_trans: "doneMono t t1 \<Longrightarrow> doneMono t1 t2 \<Longrightarrow> doneMono t t2"
  by (auto simp: doneMono_def)

lemma doneMono_fields [simp]:
  "doneMono t (t1\<lparr>tChans := q\<rparr>) = doneMono t t1" "doneMono t (t1\<lparr>tWorkers := w\<rparr>) = doneMono t t1"
  "doneMono t (t1\<lparr>tAccept := a\<rparr>) = doneMono t t1" "doneMono t (t1\<lparr>tCalls := cs\<rparr>) = doneMono t t1"
  "doneMono t (t1\<lparr>streams := m\<rparr>) = doneMono t t1" "doneMono t (t1\<lparr>tCancelled := b\<rparr>) = doneMono t t1"
  "doneMono t (t1\<lparr>tDelivered := d\<rparr>) = doneMono t t1"
  by (simp_all add: doneMono_def)

lemma doneMono_setStream [simp]:
  "p < length (heap t) \<Longrightarrow> doneMono t1 t \<Longrightarrow> sDone (stream p t) \<longrightarrow> sDone st \<Longrightarrow>
     doneMono t1 (setStream p st t)"
  by (auto simp: doneMono_def)

lemma doneMono_closeStream:
  assumes "tcpInv t" shows "doneMono t (closeStream sid t)"
  using assms tableInvD [of t sid] by (auto simp: tcpInv_def closeStream_def split: option.splits)

lemma doneMono_notify:
  "notifyRemoteClose cap ch p t = Some t' \<Longrightarrow> p < length (heap t) \<Longrightarrow> doneMono t t'"
  by (auto simp: notifyRemoteClose_def Let_def split: if_splits notifyChoice.splits)

lemma done_open:
  assumes "tcpOpen cap ch t = Some t'" "tcpInv t" shows "doneMono t t'"
proof -
  have "doneMono t (closeStream sid (t\<lparr>tAccept := AcceptWait\<rparr>))" for sid
    using doneMono_closeStream [OF tcpInv_wait [OF assms(2)], of sid]
    by (auto simp: doneMono_def)
  with assms show ?thesis
    by (auto simp: tcpOpen_def sendStreamFrame_def tcpInv_def
        split: acceptPc.splits sendChoice.splits if_splits)
qed

lemma done_reader:
  assumes "p < length (heap t)"
  shows "tcpRead p bs e t = Some t' \<Longrightarrow> doneMono t t'"
    and "tcpReadSend cap ch p t = Some t' \<Longrightarrow> doneMono t t'"
    and "tcpReadFailed p t = Some t' \<Longrightarrow> doneMono t t'"
    and "tcpReadNotify cap nch p t = Some t' \<Longrightarrow> doneMono t t'"
    and "tcpReadClose p t = Some t' \<Longrightarrow> tcpInv t \<Longrightarrow> doneMono t t'"
proof -
  show "tcpRead p bs e t = Some t' \<Longrightarrow> doneMono t t'"
    using assms by (auto simp: tcpRead_def setReader_def Let_def split: if_splits)
  show "tcpReadSend cap ch p t = Some t' \<Longrightarrow> doneMono t t'"
    using assms by (auto simp: tcpReadSend_def sendStreamFrame_def setReader_def
        split: readerPc.splits sendChoice.splits if_splits)
  show "tcpReadFailed p t = Some t' \<Longrightarrow> doneMono t t'"
    using assms by (auto simp: tcpReadFailed_def setReader_def split: if_splits)
  show "tcpReadNotify cap nch p t = Some t' \<Longrightarrow> doneMono t t'"
    using assms by (auto simp: tcpReadNotify_def setReader_def dest!: doneMono_notify
        split: if_splits intro!: doneMono_setStream intro: doneMono_length)
  show "tcpReadClose p t = Some t' \<Longrightarrow> tcpInv t \<Longrightarrow> doneMono t t'"
  proof -
    assume a: "tcpReadClose p t = Some t'" "tcpInv t"
    then have pc: "sReader (stream p t) = ReaderClosing"
      and t': "t' = closeStream (sId (stream p t)) (setReader p ReaderDone t)"
      by (auto simp: tcpReadClose_def split: if_splits)
    have "doneMono t (setReader p ReaderDone t)" using assms by (simp add: setReader_def)
    moreover have "tcpInv (setReader p ReaderDone t)" using a(2) assms pc by (intro tcpInv_setReader) auto
    ultimately show ?thesis unfolding t' by (metis doneMono_trans doneMono_closeStream)
  qed
qed

lemma done_writer:
  assumes "p < length (heap t)"
  shows "tcpSelect wch p t = Some t' \<Longrightarrow> doneMono t t'"
    and "tcpWrite r p t = Some t' \<Longrightarrow> doneMono t t'"
    and "tcpWriteNotify cap nch p t = Some t' \<Longrightarrow> doneMono t t'"
    and "tcpWriteClose p t = Some t' \<Longrightarrow> tcpInv t \<Longrightarrow> doneMono t t'"
proof -
  show "tcpSelect wch p t = Some t' \<Longrightarrow> doneMono t t'"
    using assms by (auto simp: tcpSelect_def setWriter_def Let_def
        split: writerChoice.splits list.splits if_splits)
  show "tcpWrite r p t = Some t' \<Longrightarrow> doneMono t t'"
    using assms by (auto simp: tcpWrite_def setWriter_def Let_def
        split: writerPc.splits writeResult.splits)
  show "tcpWriteNotify cap nch p t = Some t' \<Longrightarrow> doneMono t t'"
    using assms by (auto simp: tcpWriteNotify_def setWriter_def dest!: doneMono_notify
        split: if_splits intro!: doneMono_setStream intro: doneMono_length)
  show "tcpWriteClose p t = Some t' \<Longrightarrow> tcpInv t \<Longrightarrow> doneMono t t'"
  proof -
    assume a: "tcpWriteClose p t = Some t'" "tcpInv t"
    then have pc: "sWriter (stream p t) = WriterClosing"
      and t': "t' = closeStream (sId (stream p t)) (setWriter p WriterDone t)"
      by (auto simp: tcpWriteClose_def split: if_splits)
    have "doneMono t (setWriter p WriterDone t)" using assms by (simp add: setWriter_def)
    moreover have "tcpInv (setWriter p WriterDone t)" using a(2) assms pc by (intro tcpInv_setWriter) auto
    ultimately show ?thesis unfolding t' by (metis doneMono_trans doneMono_closeStream)
  qed
qed

lemma done_call:
  assumes "tcpCall cap q n k t = Some t'" "tcpInv t" shows "doneMono t t'"
proof -
  have "doneMono t t1" if "tcpCallStep cap q n c t = Some (rest, t1)" "callOk t c" for c rest t1
    using that assms(2)
    by (cases c)
      (auto simp: tcpCallStep_def queueInboundFrame_def Let_def dest: doneMono_notify
        intro: doneMono_closeStream split: queueChoice.splits if_splits list.splits)
  with assms show ?thesis by (auto simp: tcpCall_def tcpInv_def split: if_splits option.splits)
qed

lemma done_step: "tcpStep cap e t = Some t' \<Longrightarrow> tcpInv t \<Longrightarrow> doneMono t t'"
proof (cases e)
  case (EvSelect p ch)
  then show "tcpStep cap e t = Some t' \<Longrightarrow> tcpInv t \<Longrightarrow> doneMono t t'"
    by (simp add: done_writer split: if_splits)
next
  case EvStore
  then show "tcpStep cap e t = Some t' \<Longrightarrow> tcpInv t \<Longrightarrow> doneMono t t'"
    by (auto simp: tcpStore_def Let_def doneMono_def stream_def nth_append split: acceptPc.splits)
next
  case (EvDeliver f)
  then show "tcpStep cap e t = Some t' \<Longrightarrow> tcpInv t \<Longrightarrow> doneMono t t'"
    by (auto simp: tcpDeliver_def doneMono_closeStream split: option.splits if_splits)
qed (auto simp: tcpSetReady_def tcpRemoveWorker_def closeWorkerStreams_def closeAllStreams_def
      tcpAccept_def tcpAcceptError_def done_open done_reader done_writer done_call
      split: if_splits prod.splits option.splits)

section \<open>Runs\<close>

lemma tcpRun_reachable:
  "tcpReachable cap t \<Longrightarrow> tcpRun cap es t = Some t' \<Longrightarrow> tcpReachable cap t'"
  by (induction es arbitrary: t) (auto split: option.splits intro: tcpReachable.event)

text \<open>A run in which one connection is accepted, sends \<open>ab\<close> and is delivered \<open>c\<close>.\<close>

definition sampleEvents :: "tcpEvent list" where
  "sampleEvents =
     [EvSetReady 0 7, EvAccept, EvStore, EvOpen SendQueued,
      EvRead 0 [97] False, EvReadSend 0 SendQueued, EvRead 0 [98] False, EvReadSend 0 SendQueued,
      EvDeliver (dataFrame 1 0 [99]), EvCall 0 QueueInbound NotifyTimeout]"

definition sampleRun :: "tcpEvent list \<Rightarrow> tcpIngress option" where
  "sampleRun es = tcpRun 64 (sampleEvents @ es) (newTCPIngress (\<lambda>_. []))"

lemma sampleRun_reachable: "sampleRun es = Some t \<Longrightarrow> tcpReachable 64 t"
  unfolding sampleRun_def by (rule tcpRun_reachable [OF tcpReachable.start])

lemma sampleRun_written:
  "map_option (\<lambda>t. (length (heap t), sWritten (stream 0 t), map Payload (sSent (stream 0 t))))
     (sampleRun [EvSelect 0 WriterInbound, EvWrite 0 WriteDone]) =
   Some (1, [99], [[], [97], [98]])"
  by code_simp

text \<open>
  A close frame that overtakes the writer discards what waits in the inbound queue: the frame
  \<open>c\<close> was delivered in order and before the close frame, the session was not cancelled and no
  write failed, yet the writer ends without writing it.
\<close>

lemma sampleRun_discards:
  "map_option (\<lambda>t. (tCancelled t, tDelivered t = [dataFrame 1 0 [99]], sWriter (stream 0 t),
       sTaken (stream 0 t), sWritten (stream 0 t)))
     (sampleRun [EvDeliver (closeFrame 1), EvSelect 0 WriterStreamDone]) =
   Some (False, True, WriterDone, [], [])"
  by code_simp

theorem close_discards_delivered_data:
  "\<exists>t. tcpReachable 64 t \<and> \<not> tCancelled t \<and> tDelivered t = [dataFrame 1 0 [99]]
     \<and> sWriter (stream 0 t) = WriterDone \<and> sWritten (stream 0 t) = []"
  using sampleRun_discards sampleRun_reachable by (auto simp: map_option_eq_Some)

text \<open>The frames a writer took are numbered, and it wrote a prefix of their payloads.\<close>

lemma ingress_writes_numbered:
  assumes "tcpReachable cap t" "p < length (heap t)"
  shows "\<exists>fs. prefix (sWritten (stream p t)) (concat (map Payload fs)) \<and> set fs \<subseteq> set (tDelivered t)
    \<and> (\<forall>k<length fs. Kind (fs ! k) = FrameStreamData \<and> StreamID (fs ! k) = sId (stream p t)
         \<and> Sequence (fs ! k) = of_nat k)"
proof (intro exI conjI allI impI)
  note s = tcpInv_stream [OF tcp_reachable_inv [OF assms(1)] assms(2)]
  show "prefix (sWritten (stream p t)) (concat (map Payload (sTaken (stream p t))))"
    using s(1) writerOk_prefix by (auto simp: streamInv_def)
  show "set (sTaken (stream p t)) \<subseteq> set (tDelivered t)" by (rule s(3))
  fix k assume "k < length (sTaken (stream p t))"
  then show "Kind (sTaken (stream p t) ! k) = FrameStreamData"
    "StreamID (sTaken (stream p t) ! k) = sId (stream p t)"
    "Sequence (sTaken (stream p t) ! k) = of_nat k"
    using s(1) by (auto simp: stream_inv_defs)
qed

section \<open>Properties\<close>

text \<open>
  C9: What a stream puts on its worker's channel, in every reachable state: besides at most one
  close frame, the open frame first, and then the chunks read from the local connection, in the
  order read and numbered from zero.  At most the last chunk read is missing, every chunk has
  between 1 and \<open>StreamChunkSize\<close> bytes, and every frame carries the stream's own identifier.
\<close>

theorem tcp_stream_frames:
  assumes "tcpReachable cap t" "p < length (heap t)"
  shows "sId (stream p t) = of_nat (Suc p)
    \<and> (\<forall>f\<in>set (sSent (stream p t)). StreamID f = sId (stream p t))
    \<and> length (filter (\<lambda>f. Kind f = FrameStreamClose) (sSent (stream p t))) \<le> 1
    \<and> (\<forall>c\<in>set (sRead (stream p t)). 0 < length c \<and> length c \<le> StreamChunkSize)
    \<and> (nonClose (sSent (stream p t)) = [] \<and> sRead (stream p t) = [] \<or>
       (\<exists>n. length (sRead (stream p t)) \<le> Suc n \<and>
          nonClose (sSent (stream p t)) =
            openFrame (sId (stream p t)) #
            streamFrames (sId (stream p t)) (take n (sRead (stream p t)))))"
proof -
  have inv: "streamInv p (stream p t)"
    using tcp_reachable_inv [OF assms(1)] assms(2) by (rule tcpInv_stream)
  have "nonClose (sSent (stream p t)) = [] \<and> sRead (stream p t) = [] \<or>
     (\<exists>n. length (sRead (stream p t)) \<le> Suc n \<and>
        sentUpTo (sId (stream p t)) (sRead (stream p t)) n (nonClose (sSent (stream p t))))"
    using inv readerOk_sent [of "sId (stream p t)" "sReader (stream p t)"]
    by (cases "sReader (stream p t) = ReaderNotStarted") (auto simp: streamInv_def)
  with inv show ?thesis
    by (auto simp: streamInv_def closesOk_def sentUpTo_def split: if_splits)
qed

theorem tcp_stream_frames_witness:
  "\<exists>t. sampleRun [EvSelect 0 WriterInbound, EvWrite 0 WriteDone] = Some t
     \<and> length (filter (\<lambda>f. Kind f = FrameStreamClose) (sSent (stream 0 t))) \<le> 1
     \<and> sId (stream 0 t) = 1 \<and> map Payload (sSent (stream 0 t)) = [[], [97], [98]]"
proof -
  from sampleRun_written obtain t
    where t: "sampleRun [EvSelect 0 WriterInbound, EvWrite 0 WriteDone] = Some t"
      "length (heap t) = 1" "map Payload (sSent (stream 0 t)) = [[], [97], [98]]"
    by (auto simp: map_option_eq_Some)
  from tcp_stream_frames [OF sampleRun_reachable [OF t(1)], of 0] t show ?thesis by auto
qed

text \<open>
  What reaches the local connection of a stream, in every reachable state: the bytes
  written are a prefix of the payloads of a sequence of delivered frames of this very stream
  that are numbered 0, 1, 2, and so on.  Frames that come out of order, twice, or for another
  stream contribute nothing, and no more than \<open>inboundQueueSize\<close> frames wait.
\<close>

theorem tcp_local_writes:
  assumes "tcpReachable cap t" "p < length (heap t)"
  shows "\<exists>fs. prefix (sWritten (stream p t)) (concat (map Payload fs))
    \<and> set fs \<subseteq> set (tDelivered t)
    \<and> (\<forall>k<length fs. Kind (fs ! k) = FrameStreamData \<and> StreamID (fs ! k) = of_nat (Suc p)
         \<and> Sequence (fs ! k) = of_nat k)
    \<and> length (sInbound (stream p t)) \<le> inboundQueueSize"
proof -
  note s = tcpInv_stream(1) [OF tcp_reachable_inv [OF assms(1)] assms(2)]
  have "length (sInbound (stream p t)) \<le> inboundQueueSize" "sId (stream p t) = of_nat (Suc p)"
    using s by (simp_all add: stream_inv_defs)
  with ingress_writes_numbered [OF assms] show ?thesis by auto
qed

theorem tcp_local_writes_witness:
  "\<exists>t (fs :: frame list). sampleRun [EvSelect 0 WriterInbound, EvWrite 0 WriteDone] = Some t
     \<and> sWritten (stream 0 t) = [99] \<and> prefix [99] (concat (map Payload fs))
     \<and> (\<forall>k<length fs. Sequence (fs ! k) = of_nat k)"
proof -
  from sampleRun_written obtain t
    where t: "sampleRun [EvSelect 0 WriterInbound, EvWrite 0 WriteDone] = Some t"
      "length (heap t) = 1" "sWritten (stream 0 t) = [99]"
    by (auto simp: map_option_eq_Some)
  from tcp_local_writes [OF sampleRun_reachable [OF t(1)], of 0] t(2)
  obtain fs :: "frame list" where "prefix (sWritten (stream 0 t)) (concat (map Payload fs))"
    "\<forall>k<length fs. Sequence (fs ! k) = of_nat k" by auto
  with t show ?thesis by auto
qed

text \<open>
  The life of a stream: identifiers of the first \<open>2 ^ 64 - 1\<close> streams differ, an
  identifier in the table belongs to exactly the stream stored under it and that stream is open,
  and a stream that was closed is closed after any further event and never in the table again.
\<close>

theorem tcp_stream_lifecycle:
  assumes "tcpReachable cap t" "tcpStep cap e t = Some t'"
  shows "(\<forall>p q. p < length (heap t) \<longrightarrow> q < length (heap t) \<longrightarrow> length (heap t) < 2 ^ 64 \<longrightarrow>
        sId (stream p t) = sId (stream q t) \<longrightarrow> p = q)
    \<and> (\<forall>sid p. lookupStream sid t = Some p \<longrightarrow>
        p < length (heap t) \<and> sId (stream p t) = sid \<and> \<not> sDone (stream p t))
    \<and> (\<forall>p. p < length (heap t) \<longrightarrow> sDone (stream p t) \<longrightarrow>
        sDone (stream p t') \<and> lookupStream (sId (stream p t')) t' \<noteq> Some p)"
proof (intro conjI allI impI)
  note inv = tcp_reachable_inv [OF assms(1)]
  have sid: "sId (stream p t) = of_nat (Suc p)" if "p < length (heap t)" for p
    using tcpInv_stream(1) [OF inv that] by (simp add: streamInv_def)
  { fix p q assume a: "p < length (heap t)" "q < length (heap t)" "length (heap t) < 2 ^ 64"
      "sId (stream p t) = sId (stream q t)"
    then have "unat (of_nat (Suc p) :: 64 word) = unat (of_nat (Suc q) :: 64 word)" using sid by simp
    moreover have "Suc p < 2 ^ 64" "Suc q < 2 ^ 64" using a by linarith+
    ultimately show "p = q" by (simp add: unat_of_nat del: of_nat_Suc)
  }
  { fix s p assume "lookupStream s t = Some p"
    then show "p < length (heap t)" "sId (stream p t) = s" "\<not> sDone (stream p t)"
      using inv sid tableInvD [of t s p] by (auto simp: lookupStream_def tcpInv_def) }
  { fix p assume "p < length (heap t)" "sDone (stream p t)"
    then show d: "sDone (stream p t')" using done_step [OF assms(2) inv] by (auto simp: doneMono_def)
    show "lookupStream (sId (stream p t')) t' \<noteq> Some p"
      using tcp_step_inv [OF assms(2) inv] d tableInvD [of t' "sId (stream p t')" p]
      by (auto simp: lookupStream_def tcpInv_def) }
qed

theorem tcp_stream_lifecycle_witness:
  "\<exists>t t'. tcpReachable 64 t \<and> tcpStep 64 EvCancel t = Some t' \<and> sDone (stream 0 t)
     \<and> lookupStream (sId (stream 0 t')) t' \<noteq> Some 0"
proof -
  have "map_option (\<lambda>t. (length (heap t), sDone (stream 0 t))) (sampleRun [EvDeliver (closeFrame 1)])
      = Some (1, True)" by code_simp
  then obtain t where t: "sampleRun [EvDeliver (closeFrame 1)] = Some t" "length (heap t) = 1"
    "sDone (stream 0 t)" by (auto simp: map_option_eq_Some)
  have step: "tcpStep 64 EvCancel t = Some (t\<lparr>tCancelled := True\<rparr>)" by simp
  from tcp_stream_lifecycle [OF sampleRun_reachable [OF t(1)] step] t
  have "lookupStream (sId (stream 0 (t\<lparr>tCancelled := True\<rparr>))) (t\<lparr>tCancelled := True\<rparr>) \<noteq> Some 0"
    by simp
  with t(3) step sampleRun_reachable [OF t(1)] show ?thesis by blast
qed

interpretation tcp: worker_registry
    "\<lambda>t. workersInv (tWorkers t)" "\<lambda>t. workerRoutes (tWorkers t)" tcpSetReady tcpRemoveWorker
  by unfold_locales
    (simp_all add: tcpSetReady_def tcpRemoveWorker_def ws.set_ready_inv ws.remove_inv
      ws.set_ready_routes ws.remove_routes)

end
