(* ===== verification/RunStage.thy ===== *)
theory RunStage
  imports GoPrelude
begin

text \<open>
  Errors of the runtime and the stages they are attributed to
  (\<^verbatim>\<open>internal/runstage/stage.go\<close>).  An error is a tree: a leaf, \<open>fmt.Errorf\<close> with \<open>%w\<close>,
  \<open>errors.Join\<close>, or a \<open>runstage.Error\<close>.  A nil error is \<open>None\<close>.
\<close>

datatype stage =
    PolicyValidate
  | ProviderResolve
  | SessionSupervise
  | LocalBind
  | TURNDial
  | TURNAllocate
  | PeerSetup
  | DTLSHandshake
  | ForwardingLoop

primrec stageName :: "stage \<Rightarrow> string" where
  "stageName PolicyValidate = ''policy_validate''"
| "stageName ProviderResolve = ''provider_resolve''"
| "stageName SessionSupervise = ''session_supervision''"
| "stageName LocalBind = ''local_bind''"
| "stageName TURNDial = ''turn_dial''"
| "stageName TURNAllocate = ''turn_allocate''"
| "stageName PeerSetup = ''peer_setup''"
| "stageName DTLSHandshake = ''dtls_handshake''"
| "stageName ForwardingLoop = ''forwarding_loop''"

lemma stageName_inj [simp]: "stageName s = stageName s' \<longleftrightarrow> s = s'"
  by (cases s; cases s') simp_all

text \<open>The order in which a client goes through the stages.\<close>

primrec stageRank :: "stage \<Rightarrow> nat" where
  "stageRank PolicyValidate = 0"
| "stageRank ProviderResolve = 1"
| "stageRank LocalBind = 2"
| "stageRank SessionSupervise = 3"
| "stageRank TURNDial = 4"
| "stageRank TURNAllocate = 5"
| "stageRank PeerSetup = 6"
| "stageRank DTLSHandshake = 7"
| "stageRank ForwardingLoop = 8"

lemma stageRank_inj [simp]: "stageRank s = stageRank s' \<longleftrightarrow> s = s'"
  by (cases s; cases s') simp_all

instantiation stage :: linorder
begin

definition less_eq_stage :: "stage \<Rightarrow> stage \<Rightarrow> bool" where
  "less_eq_stage s s' \<longleftrightarrow> stageRank s \<le> stageRank s'"

definition less_stage :: "stage \<Rightarrow> stage \<Rightarrow> bool" where
  "less_stage s s' \<longleftrightarrow> stageRank s < stageRank s'"

instance
  by (intro_classes; simp add: less_eq_stage_def less_stage_def)
    (auto simp: less_eq_stage_def less_stage_def)

end

datatype goError =
    ErrText string
  | ErrWrap string goError
  | ErrJoin "goError list"
  | ErrStage stage "goError option"

text \<open>\<open>errors.As\<close> with a target of type \<open>*runstage.Error\<close>: depth first, in order.\<close>

fun asStage :: "goError \<Rightarrow> (stage \<times> goError option) option" where
  "asStage (ErrText m) = None"
| "asStage (ErrWrap m e) = asStage e"
| "asStage (ErrJoin es) =
     fold (\<lambda>e r. case r of Some x \<Rightarrow> Some x | None \<Rightarrow> asStage e) es None"
| "asStage (ErrStage s e) = Some (s, e)"

fun errorText :: "goError \<Rightarrow> string" where
  "errorText (ErrText m) = m"
| "errorText (ErrWrap m e) = m @ errorText e"
| "errorText (ErrJoin es) = concat (case map errorText es of
     [] \<Rightarrow> [] | t # ts \<Rightarrow> t # map (\<lambda>u. CHR 0x0A # u) ts)"
| "errorText (ErrStage s None) = ''stage '' @ stageName s @ '' failed''"
| "errorText (ErrStage s (Some e)) = ''stage '' @ stageName s @ '' failed: '' @ errorText e"

definition Unwrap :: "goError \<Rightarrow> goError option" where
  "Unwrap e = (case e of ErrWrap m e' \<Rightarrow> Some e' | ErrStage s e' \<Rightarrow> e' | _ \<Rightarrow> None)"

definition Wrap :: "stage \<Rightarrow> goError option \<Rightarrow> goError option" where
  "Wrap s err =
     (case err of
        None \<Rightarrow> None
      | Some e \<Rightarrow> (case asStage e of Some _ \<Rightarrow> Some e | None \<Rightarrow> Some (ErrStage s (Some e))))"

definition FromError :: "goError option \<Rightarrow> stage option" where
  "FromError err = (case err of None \<Rightarrow> None | Some e \<Rightarrow> map_option fst (asStage e))"

text \<open>\<open>errors.Join\<close>: nil errors are left out, and a join of nothing is nil.\<close>

definition Join :: "goError option list \<Rightarrow> goError option" where
  "Join es = (case List.map_filter (\<lambda>e. e) es of [] \<Rightarrow> None | fs \<Rightarrow> Some (ErrJoin fs))"

lemma fold_asStage_Some [simp]:
  "fold (\<lambda>e r. case r of Some x \<Rightarrow> Some x | None \<Rightarrow> asStage e) es (Some y) = Some y"
  by (induction es) auto

lemma asStage_Join_Cons [simp]:
  "asStage (ErrJoin (e # es)) =
     (case asStage e of Some x \<Rightarrow> Some x | None \<Rightarrow> asStage (ErrJoin es))"
  by (cases "asStage e") auto

lemma asStage_Join_Nil [simp]: "asStage (ErrJoin []) = None"
  by simp

declare asStage.simps(3) [simp del]

lemma asStage_Join_None: "asStage (ErrJoin es) = None \<longleftrightarrow> (\<forall>e\<in>set es. asStage e = None)"
  by (induction es) (auto split: option.splits)

section \<open>Properties\<close>

text \<open>
  An error keeps the stage it was first attributed to: \<open>Wrap\<close> leaves nil alone, attributes
  an error that has no stage anywhere in its tree to the given stage and keeps the error below
  it, and returns an error that has a stage as it is, so wrapping again on the way up never
  changes the attribution.
\<close>

theorem wrap_keeps_first_stage:
  "Wrap s None = None
   \<and> FromError (Wrap s (Some e)) = Some (case FromError (Some e) of Some s' \<Rightarrow> s' | None \<Rightarrow> s)
   \<and> Wrap s' (Wrap s err) = Wrap s err
   \<and> (case FromError (Some e) of
        Some _ \<Rightarrow> Wrap s (Some e) = Some e
      | None \<Rightarrow> Unwrap (the (Wrap s (Some e))) = Some e)"
  by (auto simp: Wrap_def FromError_def Unwrap_def split: option.splits)

end
