(* ===== verification/SessionSupervisor.thy ===== *)
theory SessionSupervisor
  imports RunStage OverlayWorkers GoChannels "HOL-Library.Multiset"
begin

text \<open>
  The supervised session (\<^verbatim>\<open>internal/session/supervisor.go\<close>).  The main goroutine is a loop over a
  \<open>select\<close>; the workers, the restart timers and the ingress run beside it and talk to it through
  channels only.  An event of the model is one commit of the loop's \<open>select\<close> together with the
  body of the case, or one move of another goroutine.  What the session tells its ingress and its
  observer is a trace of actions.  The channel a \<open>startWorker\<close> call makes is identified by the
  worker and its generation.
\<close>

definition workerQueueSize :: nat where "workerQueueSize = 64"

record workerReadyEvent =
  reIndex :: nat
  reGeneration :: nat
  reOutbound :: chan

record workerResult =
  wrIndex :: nat
  wrGeneration :: nat
  wrErr :: "goError option"

record workerState =
  generation :: nat
  restarts :: nat
  ready :: bool

record supPlan =
  Connections :: nat
  MaxWorkerRestarts :: nat

datatype supAction =
    IngressSetReady nat chan
  | IngressRemove nat
  | SetActiveWorkers int
  | RecordSessionStart
  | RecordTransportFailure string
  | RecordSessionFailure string bool
  | EmitEvent string string string

text \<open>
  \<open>supStates\<close>, \<open>supReadyWorkers\<close> and \<open>supSessionReady\<close> are the loop's variables; \<open>supRunning\<close> are
  the workers between their start and their exit (index, generation, and whether the runner has
  called its ready hook, which it does once), \<open>supTimers\<close> the restart timers, then the
  contents of the four channels.  \<open>supCancelled\<close> says whether the parent context is cancelled,
  \<open>supExit\<close> is \<open>None\<close> while the loop runs and then the session error.
\<close>

record supervisor =
  supStates :: "workerState list"
  supReadyWorkers :: int
  supSessionReady :: bool
  supRunning :: "(nat \<times> nat \<times> bool) multiset"
  supTimers :: "nat multiset"
  supReadyCh :: "workerReadyEvent list"
  supResultCh :: "workerResult list"
  supRestartCh :: "nat list"
  supIngressCh :: "goError option list"
  supIngressRunning :: bool
  supCancelled :: bool
  supExit :: "goError option option"
  supTrace :: "supAction list"

definition chanOf :: "supPlan \<Rightarrow> nat \<Rightarrow> nat \<Rightarrow> chan" where
  "chanOf plan index gen = gen * Connections plan + index"

definition act :: "supAction list \<Rightarrow> supervisor \<Rightarrow> supervisor" where
  "act as s = s\<lparr>supTrace := supTrace s @ as\<rparr>"

definition setState :: "nat \<Rightarrow> workerState \<Rightarrow> supervisor \<Rightarrow> supervisor" where
  "setState i st s = s\<lparr>supStates := (supStates s)[i := st]\<rparr>"

definition startWorker :: "nat \<Rightarrow> supervisor \<Rightarrow> supervisor" where
  "startWorker index s =
     (let st = supStates s ! index; gen = generation st + 1 in
      (setState index (st\<lparr>generation := gen\<rparr>) s)
        \<lparr>supRunning := supRunning s + {#(index, gen, False)#}\<rparr>)"

definition supStart :: "supPlan \<Rightarrow> supervisor" where
  "supStart plan = fold startWorker [0..<Connections plan]
     \<lparr>supStates = replicate (Connections plan) \<lparr>generation = 0, restarts = 0, ready = False\<rparr>,
      supReadyWorkers = 0, supSessionReady = False, supRunning = {#}, supTimers = {#},
      supReadyCh = [], supResultCh = [], supRestartCh = [], supIngressCh = [],
      supIngressRunning = True, supCancelled = False, supExit = None, supTrace = []\<rparr>"

definition stageString :: "goError option \<Rightarrow> string" where
  "stageString err = (case FromError err of None \<Rightarrow> ''runtime'' | Some s \<Rightarrow> stageName s)"

section \<open>The cases of the loop\<close>

definition handleReady :: "supPlan \<Rightarrow> workerReadyEvent \<Rightarrow> supervisor \<Rightarrow> supervisor" where
  "handleReady plan r s =
     (let st = supStates s ! reIndex r in
      if generation st \<noteq> reGeneration r \<or> ready st then s
      else
        let n = supReadyWorkers s + 1;
            s1 = act [IngressSetReady (reIndex r) (reOutbound r), SetActiveWorkers n,
                      EmitEvent ''worker_ready'' (stageName SessionSupervise) ''ready'']
                   ((setState (reIndex r) (st\<lparr>ready := True\<rparr>) s)\<lparr>supReadyWorkers := n\<rparr>)
        in if \<not> supSessionReady s \<and> n = int (Connections plan)
           then act [RecordSessionStart,
                     EmitEvent ''runtime_ready'' (stageName SessionSupervise) ''succeeded'']
                  (s1\<lparr>supSessionReady := True\<rparr>)
           else s1)"

definition fails :: "string \<Rightarrow> bool \<Rightarrow> goError option \<Rightarrow> supervisor \<Rightarrow> supervisor" where
  "fails stage startup err s =
     (act [RecordTransportFailure stage, RecordSessionFailure stage startup,
           EmitEvent ''runtime_failure'' stage ''failed''] s)\<lparr>supExit := Some err\<rparr>"

definition stoppedError :: "nat \<Rightarrow> goError" where
  "stoppedError index =
     ErrText (''worker '' @ itoa index @ '' stopped without error'')"

definition exhaustedError :: "nat \<Rightarrow> nat \<Rightarrow> goError \<Rightarrow> goError" where
  "exhaustedError index n e =
     ErrWrap (''worker '' @ itoa index @ '' exhausted restart budget after '' @ itoa n @ '' restart(s): '') e"

text \<open>A worker is no longer ready.\<close>

definition retire :: "nat \<Rightarrow> supervisor \<Rightarrow> supervisor" where
  "retire index s =
     (let n = supReadyWorkers s - 1 in
      act [IngressRemove index, SetActiveWorkers n]
        ((setState index ((supStates s ! index)\<lparr>ready := False\<rparr>) s)\<lparr>supReadyWorkers := n\<rparr>))"

definition handleResult :: "supPlan \<Rightarrow> workerResult \<Rightarrow> supervisor \<Rightarrow> supervisor" where
  "handleResult plan r s =
     (let index = wrIndex r; st = supStates s ! index in
      if generation st \<noteq> wrGeneration r then s
      else
        let wasReady = ready st;
            s1 = (if wasReady then retire index s else s);
            st1 = supStates s1 ! index
        in if supCancelled s then s1
           else case wrErr r of
             None \<Rightarrow>
               fails (stageName SessionSupervise) (\<not> supSessionReady s)
                 (Some (ErrStage SessionSupervise (Some (stoppedError index)))) s1
           | Some e \<Rightarrow>
               if \<not> wasReady then fails (stageString (Some e)) True (Some e) s1
               else if restarts st1 < MaxWorkerRestarts plan then
                 act [RecordTransportFailure (stageString (Some e)),
                      EmitEvent ''worker_restart_scheduled'' (stageString (Some e)) ''retrying'']
                   ((setState index (st1\<lparr>restarts := restarts st1 + 1\<rparr>) s1)
                      \<lparr>supTimers := supTimers s1 + {#index#}\<rparr>)
               else fails (stageName SessionSupervise) False
                 (Some (ErrStage SessionSupervise (Some (exhaustedError index (restarts st1) e)))) s1)"

definition handleRestart :: "nat \<Rightarrow> supervisor \<Rightarrow> supervisor" where
  "handleRestart index s = (if supCancelled s then s else startWorker index s)"

definition handleIngress :: "goError option \<Rightarrow> supervisor \<Rightarrow> supervisor" where
  "handleIngress err s =
     (if err \<noteq> None \<and> \<not> supCancelled s
      then fails (stageName ForwardingLoop) (\<not> supSessionReady s) (Wrap ForwardingLoop err) s
      else s\<lparr>supExit := Some None\<rparr>)"

section \<open>The machine\<close>

datatype supEvent =
    WorkerReady nat nat
  | WorkerExit nat nat bool "goError option"
  | WorkerExitDropped nat nat bool
  | TimerFires nat
  | TimerDropped nat
  | IngressExit "goError option"
  | ParentCancel
  | LoopReady
  | LoopResult
  | LoopRestart
  | LoopIngress
  | LoopDone

definition supRoom :: "supPlan \<Rightarrow> 'a list \<Rightarrow> bool" where
  "supRoom plan xs \<longleftrightarrow> length xs < Connections plan * 2"

text \<open>
  One event; \<open>None\<close> when it is not enabled.  \<open>WorkerExitDropped\<close> and \<open>TimerDropped\<close> are the cases
  \<open><-supervisorCtx.Done()\<close> of the worker and timer goroutines.
\<close>

fun supStep :: "supPlan \<Rightarrow> supEvent \<Rightarrow> supervisor \<Rightarrow> supervisor option" where
  "supStep plan (WorkerReady i g) s =
     (if (i, g, False) \<in># supRunning s \<and> supRoom plan (supReadyCh s)
      then Some (s\<lparr>supRunning := supRunning s - {#(i, g, False)#} + {#(i, g, True)#},
        supReadyCh := supReadyCh s @
          [\<lparr>reIndex = i, reGeneration = g, reOutbound = chanOf plan i g\<rparr>]\<rparr>)
      else None)"
| "supStep plan (WorkerExit i g a err) s =
     (if (i, g, a) \<in># supRunning s \<and> supRoom plan (supResultCh s)
      then Some (s\<lparr>supRunning := supRunning s - {#(i, g, a)#},
        supResultCh := supResultCh s @ [\<lparr>wrIndex = i, wrGeneration = g, wrErr = err\<rparr>]\<rparr>)
      else None)"
| "supStep plan (WorkerExitDropped i g a) s =
     (if (i, g, a) \<in># supRunning s \<and> (supCancelled s \<or> supExit s \<noteq> None)
      then Some (s\<lparr>supRunning := supRunning s - {#(i, g, a)#}\<rparr>) else None)"
| "supStep plan (TimerFires i) s =
     (if i \<in># supTimers s \<and> supRoom plan (supRestartCh s)
      then Some (s\<lparr>supTimers := supTimers s - {#i#}, supRestartCh := supRestartCh s @ [i]\<rparr>)
      else None)"
| "supStep plan (TimerDropped i) s =
     (if i \<in># supTimers s \<and> (supCancelled s \<or> supExit s \<noteq> None)
      then Some (s\<lparr>supTimers := supTimers s - {#i#}\<rparr>) else None)"
| "supStep plan (IngressExit err) s =
     (if supIngressRunning s
      then Some (s\<lparr>supIngressRunning := False, supIngressCh := supIngressCh s @ [err]\<rparr>) else None)"
| "supStep plan ParentCancel s = Some (s\<lparr>supCancelled := True\<rparr>)"
| "supStep plan LoopReady s =
     (case (supExit s, supReadyCh s) of
        (None, r # rs) \<Rightarrow> Some (handleReady plan r (s\<lparr>supReadyCh := rs\<rparr>))
      | _ \<Rightarrow> None)"
| "supStep plan LoopResult s =
     (case (supExit s, supResultCh s) of
        (None, r # rs) \<Rightarrow> Some (handleResult plan r (s\<lparr>supResultCh := rs\<rparr>))
      | _ \<Rightarrow> None)"
| "supStep plan LoopRestart s =
     (case (supExit s, supRestartCh s) of
        (None, i # is) \<Rightarrow> Some (handleRestart i (s\<lparr>supRestartCh := is\<rparr>))
      | _ \<Rightarrow> None)"
| "supStep plan LoopIngress s =
     (case (supExit s, supIngressCh s) of
        (None, e # es) \<Rightarrow> Some (handleIngress e (s\<lparr>supIngressCh := es\<rparr>))
      | _ \<Rightarrow> None)"
| "supStep plan LoopDone s =
     (if supExit s = None \<and> supCancelled s then Some (s\<lparr>supExit := Some None\<rparr>) else None)"

text \<open>What \<open>runSupervisedSession\<close> returns once the loop is left and the goroutines are gone.\<close>

definition supFinish :: "supervisor \<Rightarrow> goError option option \<times> supervisor" where
  "supFinish s =
     (case supExit s of
        None \<Rightarrow> (None, s)
      | Some sessionErr \<Rightarrow>
          (Some (if sessionErr \<noteq> None then sessionErr
                 else if supCancelled s then None
                 else case supIngressCh s of [] \<Rightarrow> None | err # _ \<Rightarrow> Wrap ForwardingLoop err),
           act [SetActiveWorkers 0] s))"

fun supRun :: "supPlan \<Rightarrow> supEvent list \<Rightarrow> supervisor \<Rightarrow> supervisor option" where
  "supRun plan [] s = Some s"
| "supRun plan (e # es) s = (case supStep plan e s of None \<Rightarrow> None | Some s' \<Rightarrow> supRun plan es s')"

inductive supReachable :: "supPlan \<Rightarrow> supervisor \<Rightarrow> bool" for plan where
  start: "supReachable plan (supStart plan)"
| event: "supReachable plan s \<Longrightarrow> supStep plan e s = Some s' \<Longrightarrow> supReachable plan s'"

inductive_cases supReachableE: "supReachable plan s"

lemma supRun_reachable:
  "supReachable plan s \<Longrightarrow> supRun plan es s = Some s' \<Longrightarrow> supReachable plan s'"
  by (induction es arbitrary: s) (auto split: option.splits intro: supReachable.event)

end
