(* ===== verification/SessionSupervisorInv.thy ===== *)
theory SessionSupervisorInv
  imports SessionSupervisor UdpIngress TcpIngressInv
begin

text \<open>
  The invariant of the supervised session.  Every worker slot is in one of four places: a worker
  runs, its result waits to be read, a restart timer runs, or the restart waits to be read.  The
  ready flags, the gauge and the ingress agree, and generations are bounded by the restart
  budget.
\<close>

definition waiting :: "supervisor \<Rightarrow> nat multiset" where
  "waiting s = supTimers s + mset (supRestartCh s)"

definition slots :: "supervisor \<Rightarrow> nat multiset" where
  "slots s = image_mset fst (supRunning s) + image_mset wrIndex (mset (supResultCh s)) + waiting s"

definition live :: "supervisor \<Rightarrow> bool" where
  "live s \<longleftrightarrow> \<not> supCancelled s \<and> supExit s = None"

text \<open>What a trace did to the ingress and to the gauge.\<close>

fun ingressAct :: "supAction \<Rightarrow> (nat \<rightharpoonup> chan) \<Rightarrow> (nat \<rightharpoonup> chan)" where
  "ingressAct (IngressSetReady i c) m = m(i \<mapsto> c)"
| "ingressAct (IngressRemove i) m = m(i := None)"
| "ingressAct _ m = m"

fun gaugeAct :: "supAction \<Rightarrow> int \<Rightarrow> int" where
  "gaugeAct (SetActiveWorkers k) n = k"
| "gaugeAct _ n = n"

definition ingressMap :: "supAction list \<Rightarrow> nat \<rightharpoonup> chan" where
  "ingressMap as = fold ingressAct as Map.empty"

definition activeGauge :: "supAction list \<Rightarrow> int" where
  "activeGauge as = fold gaugeAct as 0"

definition startsRecorded :: "supAction list \<Rightarrow> nat" where
  "startsRecorded as = length (filter (\<lambda>a. a = RecordSessionStart) as)"

definition readyCount :: "workerState list \<Rightarrow> nat" where
  "readyCount sts = length (filter ready sts)"

section \<open>The invariant\<close>

definition slotInv :: "supPlan \<Rightarrow> supervisor \<Rightarrow> bool" where
  "slotInv plan s \<longleftrightarrow> length (supStates s) = Connections plan \<and>
     slots s \<subseteq># mset_set {..<Connections plan} \<and>
     (live s \<longrightarrow> slots s = mset_set {..<Connections plan})"

text \<open>
  What can still make worker \<open>i\<close> ready, or has: a runner that has not called its hook, a ready
  event in the channel, the ready flag, or a restart to come.
\<close>

definition readiness :: "supervisor \<Rightarrow> nat \<Rightarrow> nat" where
  "readiness s i =
     count (image_mset fst (filter_mset (\<lambda>(_, _, a). \<not> a) (supRunning s))) i +
     count (image_mset reIndex (mset (supReadyCh s))) i +
     (if ready (supStates s ! i) then 1 else 0) + count (waiting s) i"

definition genInv :: "supPlan \<Rightarrow> supervisor \<Rightarrow> bool" where
  "genInv plan s \<longleftrightarrow>
     (\<forall>(i, g, a)\<in>#supRunning s. g = generation (supStates s ! i)) \<and>
     (\<forall>r\<in>set (supResultCh s). wrGeneration r = generation (supStates s ! wrIndex r)) \<and>
     (\<forall>r\<in>set (supReadyCh s). reIndex r < Connections plan \<and>
        reGeneration r = generation (supStates s ! reIndex r) \<and>
        reOutbound r = chanOf plan (reIndex r) (reGeneration r)) \<and>
     (\<forall>i<Connections plan. readiness s i \<le> 1 \<and>
        generation (supStates s ! i) + count (waiting s) i \<le> Suc (restarts (supStates s ! i)) \<and>
        1 \<le> generation (supStates s ! i) \<and>
        restarts (supStates s ! i) \<le> MaxWorkerRestarts plan)"

definition readyInv :: "supPlan \<Rightarrow> supervisor \<Rightarrow> bool" where
  "readyInv plan s \<longleftrightarrow>
     supReadyWorkers s = int (readyCount (supStates s)) \<and>
     activeGauge (supTrace s) = supReadyWorkers s \<and>
     startsRecorded (supTrace s) = (if supSessionReady s then 1 else 0) \<and>
     (\<forall>i. ingressMap (supTrace s) i =
        (if i < Connections plan \<and> ready (supStates s ! i)
         then Some (chanOf plan i (generation (supStates s ! i))) else None))"

definition supInv :: "supPlan \<Rightarrow> supervisor \<Rightarrow> bool" where
  "supInv plan s \<longleftrightarrow> slotInv plan s \<and> genInv plan s \<and> readyInv plan s"

section \<open>Helpers\<close>

lemma readyCount_update:
  "i < length sts \<Longrightarrow> readyCount (sts[i := st]) + (if ready (sts ! i) then 1 else 0) =
     readyCount sts + (if ready st then 1 else 0)"
proof (induction sts arbitrary: i)
  case (Cons a sts)
  then show ?case by (cases i) (auto simp: readyCount_def split: if_splits)
qed simp

lemma act_fields [simp]:
  "supStates (act as s) = supStates s" "supReadyWorkers (act as s) = supReadyWorkers s"
  "supSessionReady (act as s) = supSessionReady s" "supRunning (act as s) = supRunning s"
  "supTimers (act as s) = supTimers s" "supReadyCh (act as s) = supReadyCh s"
  "supResultCh (act as s) = supResultCh s" "supRestartCh (act as s) = supRestartCh s"
  "supIngressCh (act as s) = supIngressCh s" "supCancelled (act as s) = supCancelled s"
  "supExit (act as s) = supExit s" "supTrace (act as s) = supTrace s @ as"
  by (simp_all add: act_def)

lemma setState_fields [simp]:
  "supStates (setState i st s) = (supStates s)[i := st]"
  "supReadyWorkers (setState i st s) = supReadyWorkers s"
  "supSessionReady (setState i st s) = supSessionReady s" "supRunning (setState i st s) = supRunning s"
  "supTimers (setState i st s) = supTimers s" "supReadyCh (setState i st s) = supReadyCh s"
  "supResultCh (setState i st s) = supResultCh s" "supRestartCh (setState i st s) = supRestartCh s"
  "supCancelled (setState i st s) = supCancelled s" "supExit (setState i st s) = supExit s"
  "supTrace (setState i st s) = supTrace s"
  by (simp_all add: setState_def)

lemma fails_fields [simp]:
  "supStates (fails g b e s) = supStates s" "supReadyWorkers (fails g b e s) = supReadyWorkers s"
  "supSessionReady (fails g b e s) = supSessionReady s" "supRunning (fails g b e s) = supRunning s"
  "supTimers (fails g b e s) = supTimers s" "supReadyCh (fails g b e s) = supReadyCh s"
  "supResultCh (fails g b e s) = supResultCh s" "supRestartCh (fails g b e s) = supRestartCh s"
  "supCancelled (fails g b e s) = supCancelled s" "supExit (fails g b e s) = Some e"
  "supTrace (fails g b e s) = supTrace s @
     [RecordTransportFailure g, RecordSessionFailure g b, EmitEvent ''runtime_failure'' g ''failed'']"
  by (simp_all add: fails_def)

lemma trace_funs [simp]:
  "ingressMap [] = Map.empty" "activeGauge [] = 0" "startsRecorded [] = 0"
  "startsRecorded (as @ bs) = startsRecorded as + startsRecorded bs"
  "startsRecorded (a # as) = (if a = RecordSessionStart then 1 else 0) + startsRecorded as"
  "ingressMap (as @ bs) = fold ingressAct bs (ingressMap as)"
  "activeGauge (as @ bs) = fold gaugeAct bs (activeGauge as)"
  by (simp_all add: ingressMap_def activeGauge_def startsRecorded_def)

lemma slot_once:
  assumes "add_mset i m \<subseteq># mset_set {..<n::nat}"
  shows "i < n" and "count m i = 0"
proof -
  have "count (add_mset i m) i \<le> count (mset_set {..<n}) i" using assms by (rule mset_subset_eq_count)
  then show "i < n" "count m i = 0" by (auto simp: count_mset_set' split: if_splits)
qed

lemma slots_shrink: "add_mset i m \<subseteq># M \<Longrightarrow> m \<subseteq># M"
  by (metis mset_subset_eq_insertD subset_mset.less_imp_le)

lemmas sup_inv_defs = slotInv_def genInv_def readyInv_def live_def slots_def waiting_def

section \<open>The goroutines beside the loop\<close>

lemma running_split:
  assumes "r \<in># supRunning s"
  obtains R where "supRunning s = add_mset r R"
  using assms by (auto dest: multi_member_split)

lemma readiness_mono:
  assumes "genInv plan s" "i < Connections plan" "readiness s' i \<le> readiness s i"
  shows "readiness s' i \<le> 1"
  using assms unfolding genInv_def by (meson order_trans)

lemma worker_ready_inv:
  assumes "supStep plan (WorkerReady i g) s = Some s'" "supInv plan s"
  shows "supInv plan s'"
proof -
  from assms(1) have r: "(i, g, False) \<in># supRunning s"
    and s': "s' = s\<lparr>supRunning := supRunning s - {#(i, g, False)#} + {#(i, g, True)#},
        supReadyCh := supReadyCh s @
          [\<lparr>reIndex = i, reGeneration = g, reOutbound = chanOf plan i g\<rparr>]\<rparr>"
    by (auto split: if_splits)
  obtain R where R: "supRunning s = add_mset (i, g, False) R" using r by (rule running_split)
  then have "add_mset i (image_mset fst R + image_mset wrIndex (mset (supResultCh s)) + waiting s)
      \<subseteq># mset_set {..<Connections plan}"
    using assms(2) by (simp add: supInv_def slotInv_def slots_def)
  then have i: "i < Connections plan" by (rule slot_once)
  have "slots s' = slots s" by (simp add: s' R slots_def waiting_def)
  with assms(2) have "slotInv plan s'" by (simp add: s' supInv_def slotInv_def live_def)
  moreover have "readiness s' j = readiness s j" for j
    by (simp add: s' R readiness_def waiting_def)
  with assms(2) i R have "genInv plan s'" by (auto simp: s' supInv_def genInv_def waiting_def)
  moreover have "readyInv plan s'" using assms(2) by (simp add: s' supInv_def readyInv_def)
  ultimately show ?thesis by (simp add: supInv_def)
qed

lemma worker_exit_inv:
  assumes "supStep plan (WorkerExit i g a err) s = Some s'" "supInv plan s"
  shows "supInv plan s'"
proof -
  from assms(1) have r: "(i, g, a) \<in># supRunning s"
    and s': "s' = s\<lparr>supRunning := supRunning s - {#(i, g, a)#},
        supResultCh := supResultCh s @ [\<lparr>wrIndex = i, wrGeneration = g, wrErr = err\<rparr>]\<rparr>"
    by (auto split: if_splits)
  obtain R where R: "supRunning s = add_mset (i, g, a) R" using r by (rule running_split)
  with assms(2) have "slots s' = slots s" by (simp add: s' slots_def waiting_def)
  with assms(2) have "slotInv plan s'" by (simp add: s' supInv_def slotInv_def live_def)
  moreover have "readiness s' j \<le> readiness s j" for j
    by (simp add: s' R readiness_def waiting_def)
  with assms(2) R readiness_mono [of plan s _ s'] have "genInv plan s'"
    by (auto simp: s' supInv_def genInv_def waiting_def)
  moreover have "readyInv plan s'" using assms(2) by (simp add: s' supInv_def readyInv_def)
  ultimately show ?thesis by (simp add: supInv_def)
qed

lemma worker_dropped_inv:
  assumes "supStep plan (WorkerExitDropped i g a) s = Some s'" "supInv plan s"
  shows "supInv plan s'"
proof -
  from assms(1) have r: "(i, g, a) \<in># supRunning s" "\<not> live s"
    and s': "s' = s\<lparr>supRunning := supRunning s - {#(i, g, a)#}\<rparr>"
    by (auto simp: live_def split: if_splits)
  obtain R where R: "supRunning s = add_mset (i, g, a) R" using r(1) by (rule running_split)
  then have "slots s = add_mset i (slots s')" by (simp add: s' slots_def waiting_def)
  with assms(2) have "slots s' \<subseteq># mset_set {..<Connections plan}"
    by (auto simp: supInv_def slotInv_def intro: slots_shrink)
  moreover have "\<not> live s'" using r(2) by (simp add: s' live_def)
  ultimately have "slotInv plan s'" using assms(2) by (simp add: s' supInv_def slotInv_def)
  moreover have "readiness s' j \<le> readiness s j" for j
    by (simp add: s' R readiness_def waiting_def)
  with assms(2) R readiness_mono [of plan s _ s'] have "genInv plan s'"
    by (auto simp: s' supInv_def genInv_def waiting_def)
  moreover have "readyInv plan s'" using assms(2) by (simp add: s' supInv_def readyInv_def)
  ultimately show ?thesis by (simp add: supInv_def)
qed

lemma timer_fires_inv:
  assumes "supStep plan (TimerFires i) s = Some s'" "supInv plan s"
  shows "supInv plan s'"
proof -
  from assms(1) have r: "i \<in># supTimers s"
    and s': "s' = s\<lparr>supTimers := supTimers s - {#i#}, supRestartCh := supRestartCh s @ [i]\<rparr>"
    by (auto split: if_splits)
  then have w: "waiting s' = waiting s" by (auto simp: waiting_def dest: multi_member_split)
  then have "slots s' = slots s" "readiness s' = readiness s"
    by (simp_all add: s' slots_def readiness_def fun_eq_iff)
  with assms(2) w show ?thesis by (simp add: s' supInv_def slotInv_def genInv_def readyInv_def live_def)
qed

lemma timer_dropped_inv:
  assumes "supStep plan (TimerDropped i) s = Some s'" "supInv plan s"
  shows "supInv plan s'"
proof -
  from assms(1) have r: "i \<in># supTimers s" "\<not> live s"
    and s': "s' = s\<lparr>supTimers := supTimers s - {#i#}\<rparr>"
    by (auto simp: live_def split: if_splits)
  then have w: "waiting s = add_mset i (waiting s')" by (auto simp: waiting_def dest: multi_member_split)
  then have "slots s = add_mset i (slots s')" by (simp add: s' slots_def)
  with assms(2) have "slots s' \<subseteq># mset_set {..<Connections plan}"
    by (auto simp: supInv_def slotInv_def intro: slots_shrink)
  moreover have "\<not> live s'" using r(2) by (simp add: s' live_def)
  ultimately have "slotInv plan s'" using assms(2) by (simp add: s' supInv_def slotInv_def)
  moreover have "readiness s' j \<le> readiness s j" for j
    using w by (simp add: s' readiness_def)
  with assms(2) readiness_mono [of plan s _ s'] have "genInv plan s'"
    by (auto simp: s' supInv_def genInv_def w split: if_splits dest: le_SucI)
  moreover have "readyInv plan s'" using assms(2) by (simp add: s' supInv_def readyInv_def)
  ultimately show ?thesis by (simp add: supInv_def)
qed

section \<open>The loop\<close>

text \<open>The invariant without the claim that no slot is lost.\<close>

definition supSafe :: "supPlan \<Rightarrow> supervisor \<Rightarrow> bool" where
  "supSafe plan s \<longleftrightarrow> length (supStates s) = Connections plan \<and>
     slots s \<subseteq># mset_set {..<Connections plan} \<and> genInv plan s \<and> readyInv plan s"

lemma supInv_iff:
  "supInv plan s \<longleftrightarrow> supSafe plan s \<and> (live s \<longrightarrow> slots s = mset_set {..<Connections plan})"
  by (auto simp: supInv_def supSafe_def slotInv_def)

text \<open>What the parts of the invariant depend on.\<close>

definition sameWorkers :: "supervisor \<Rightarrow> supervisor \<Rightarrow> bool" where
  "sameWorkers s s' \<longleftrightarrow> supStates s' = supStates s \<and> supRunning s' = supRunning s \<and>
     supTimers s' = supTimers s \<and> supReadyCh s' = supReadyCh s \<and>
     supResultCh s' = supResultCh s \<and> supRestartCh s' = supRestartCh s"

lemma sameWorkersD:
  assumes "sameWorkers s s'"
  shows "supStates s' = supStates s" "supRunning s' = supRunning s" "waiting s' = waiting s"
    "slots s' = slots s" "readiness s' = readiness s" "genInv plan s' = genInv plan s"
proof -
  from assms have eq: "supStates s' = supStates s" "supRunning s' = supRunning s"
    "supTimers s' = supTimers s" "supReadyCh s' = supReadyCh s"
    "supResultCh s' = supResultCh s" "supRestartCh s' = supRestartCh s"
    by (simp_all add: sameWorkers_def)
  show "supStates s' = supStates s" "supRunning s' = supRunning s" by (fact eq)+
  show w: "waiting s' = waiting s" by (simp add: waiting_def eq)
  show "slots s' = slots s" by (simp add: slots_def w eq)
  show r: "readiness s' = readiness s" by (simp add: readiness_def fun_eq_iff w eq)
  show "genInv plan s' = genInv plan s" unfolding genInv_def w r eq ..
qed

lemma readyInv_cong:
  "supStates s' = supStates s \<Longrightarrow> supReadyWorkers s' = supReadyWorkers s \<Longrightarrow>
     supSessionReady s' = supSessionReady s \<Longrightarrow> supTrace s' = supTrace s \<Longrightarrow>
     readyInv plan s' = readyInv plan s"
  unfolding readyInv_def by simp

text \<open>Actions that neither touch the ingress nor the gauge nor record a session start.\<close>

fun quiet :: "supAction \<Rightarrow> bool" where
  "quiet (IngressSetReady i c) = False"
| "quiet (IngressRemove i) = False"
| "quiet (SetActiveWorkers n) = False"
| "quiet RecordSessionStart = False"
| "quiet _ = True"

lemma quiet_trace:
  assumes "list_all quiet as"
  shows "ingressMap (tr @ as) = ingressMap tr" "activeGauge (tr @ as) = activeGauge tr"
    "startsRecorded (tr @ as) = startsRecorded tr"
proof -
  have "fold ingressAct as m = m \<and> fold gaugeAct as n = n \<and> startsRecorded as = 0" for m n
    using assms
  proof (induction as)
    case (Cons a as)
    then show ?case by (cases a) auto
  qed simp
  then show "ingressMap (tr @ as) = ingressMap tr" "activeGauge (tr @ as) = activeGauge tr"
    "startsRecorded (tr @ as) = startsRecorded tr" by auto
qed

lemma readyInv_quiet:
  assumes "list_all quiet as" "supStates s' = supStates s"
    "supReadyWorkers s' = supReadyWorkers s" "supSessionReady s' = supSessionReady s"
    "supTrace s' = supTrace s @ as"
  shows "readyInv plan s' = readyInv plan s"
  unfolding readyInv_def assms(2-5) quiet_trace [OF assms(1)] ..

lemma fails_inv:
  assumes "supSafe plan s" shows "supInv plan (fails g b e s)"
proof -
  have "sameWorkers s (fails g b e s)" by (simp add: sameWorkers_def)
  moreover have "readyInv plan (fails g b e s) = readyInv plan s"
    by (rule readyInv_quiet [where as = "[RecordTransportFailure g, RecordSessionFailure g b,
      EmitEvent ''runtime_failure'' g ''failed'']"]) simp_all
  ultimately show ?thesis
    using assms sameWorkersD [of s "fails g b e s"] by (simp add: supInv_iff supSafe_def live_def)
qed

lemma exit_inv:
  assumes "supSafe plan s" shows "supInv plan (s\<lparr>supExit := Some e\<rparr>)"
proof -
  have "sameWorkers s (s\<lparr>supExit := Some e\<rparr>)" by (simp add: sameWorkers_def)
  from sameWorkersD [OF this] readyInv_cong [of "s\<lparr>supExit := Some e\<rparr>" s plan] assms
  show ?thesis by (simp add: supInv_iff supSafe_def live_def)
qed

lemma readiness_ready:
  assumes "genInv plan s" "i < Connections plan"
  shows "ready (supStates s ! i) \<Longrightarrow> i \<notin># waiting s \<and> i \<notin> reIndex ` set (supReadyCh s)"
    and "i \<in># waiting s \<Longrightarrow> \<not> ready (supStates s ! i) \<and> i \<notin> reIndex ` set (supReadyCh s)"
    and "i \<in> reIndex ` set (supReadyCh s) \<Longrightarrow> \<not> ready (supStates s ! i) \<and> i \<notin># waiting s"
proof -
  define c where "c = count (image_mset reIndex (mset (supReadyCh s))) i"
  have c: "c = 0 \<longleftrightarrow> i \<notin> reIndex ` set (supReadyCh s)"
    by (auto simp: c_def count_eq_zero_iff)
  have w: "count (waiting s) i = 0 \<longleftrightarrow> i \<notin># waiting s" by (simp add: count_eq_zero_iff)
  have le: "c + (if ready (supStates s ! i) then 1 else 0) + count (waiting s) i \<le> 1"
    using assms unfolding genInv_def readiness_def c_def by fastforce
  show "ready (supStates s ! i) \<Longrightarrow> i \<notin># waiting s \<and> i \<notin> reIndex ` set (supReadyCh s)"
    using le by (simp add: c [symmetric] w [symmetric])
  show "i \<in># waiting s \<Longrightarrow> \<not> ready (supStates s ! i) \<and> i \<notin> reIndex ` set (supReadyCh s)"
    using le c w by (cases "ready (supStates s ! i)"; cases c; cases "count (waiting s) i") auto
  show "i \<in> reIndex ` set (supReadyCh s) \<Longrightarrow> \<not> ready (supStates s ! i) \<and> i \<notin># waiting s"
    using le c w by (cases "ready (supStates s ! i)"; cases c; cases "count (waiting s) i") auto
qed

lemma loop_ready_inv:
  assumes "supReadyCh s = r # rs" "supInv plan s"
  shows "supInv plan (handleReady plan r (s\<lparr>supReadyCh := rs\<rparr>))"
proof -
  let ?i = "reIndex r" and ?n = "Connections plan"
  let ?st = "supStates s ! ?i"
  define s1 where "s1 = (setState ?i (?st\<lparr>ready := True\<rparr>) (s\<lparr>supReadyCh := rs\<rparr>))
      \<lparr>supReadyWorkers := supReadyWorkers s + 1\<rparr>"
  have len: "length (supStates s) = ?n" and gi: "genInv plan s" and ri: "readyInv plan s"
    using assms(2) by (auto simp: supInv_def slotInv_def)
  have i: "?i < ?n" and g: "reGeneration r = generation ?st"
    and out: "reOutbound r = chanOf plan ?i (generation ?st)"
    using assms(1) gi by (auto simp: genInv_def)
  have nr: "\<not> ready ?st" using assms(1) readiness_ready(3) [OF gi i] by simp
  have f: "supStates s1 = (supStates s)[?i := ?st\<lparr>ready := True\<rparr>]" "supRunning s1 = supRunning s"
    "supResultCh s1 = supResultCh s" "supReadyCh s1 = rs" "supTrace s1 = supTrace s"
    "supSessionReady s1 = supSessionReady s" "supReadyWorkers s1 = supReadyWorkers s + 1"
    "waiting s1 = waiting s" "live s1 = live s" "slots s1 = slots s"
    by (simp_all add: s1_def waiting_def live_def slots_def)
  have rd: "readiness s1 j = readiness s j" for j
    using nr i len by (cases "j = ?i") (auto simp: readiness_def f assms(1))
  have upd: "generation (supStates s1 ! j) = generation (supStates s ! j)"
    "restarts (supStates s1 ! j) = restarts (supStates s ! j)" for j
    using i len by (auto simp: f nth_list_update)
  have gen: "genInv plan s1"
    using gi unfolding genInv_def rd upd f(2-) assms(1) by auto
  have cnt: "int (readyCount (supStates s1)) = supReadyWorkers s + 1"
    using readyCount_update [of ?i "supStates s" "?st\<lparr>ready := True\<rparr>"] i len nr ri
    by (simp add: f readyInv_def)
  let ?as = "[IngressSetReady ?i (reOutbound r), SetActiveWorkers (supReadyWorkers s + 1),
      EmitEvent ''worker_ready'' (stageName SessionSupervise) ''ready'']"
  define s2 where "s2 = act ?as s1"
  have same: "sameWorkers s1 s2" by (simp add: s2_def sameWorkers_def)
  have r2: "readyInv plan s2"
    using ri cnt i len out by (auto simp: s2_def f readyInv_def nth_list_update)
  have live2: "live s2 = live s1" by (simp add: s2_def live_def)
  have inv2: "supInv plan s2"
    using sameWorkersD [OF same] gen r2 len assms(2) f(9) live2 by (simp add: supInv_def slotInv_def f(1,10))
  define s3 where "s3 = act [RecordSessionStart,
      EmitEvent ''runtime_ready'' (stageName SessionSupervise) ''succeeded'']
      (s2\<lparr>supSessionReady := True\<rparr>)"
  have same3: "sameWorkers s2 s3" by (simp add: s3_def sameWorkers_def)
  have "readyInv plan s3" if "\<not> supSessionReady s"
    using r2 that by (simp add: s3_def readyInv_def) (simp add: s2_def f)
  then have "supInv plan s3" if "\<not> supSessionReady s"
    using that sameWorkersD [OF same3] inv2
    by (simp add: supInv_def slotInv_def) (simp add: s3_def live_def)
  with inv2 show ?thesis
    using nr g by (auto simp: handleReady_def Let_def s1_def s2_def s3_def)
qed

text \<open>A result leaves its channel: its slot is empty, and nothing else holds it.\<close>

lemma take_result:
  assumes "supResultCh s = r # rs" "supInv plan s"
  defines "s0 \<equiv> s\<lparr>supResultCh := rs\<rparr>"
  shows "supSafe plan s0" and "wrIndex r < Connections plan"
    and "slots s = add_mset (wrIndex r) (slots s0)"
    and "wrGeneration r = generation (supStates s ! wrIndex r)"
    and "wrIndex r \<notin># waiting s0"
proof -
  have sl: "slots s = add_mset (wrIndex r) (slots s0)" by (simp add: s0_def slots_def assms(1) waiting_def)
  show "slots s = add_mset (wrIndex r) (slots s0)" by (fact sl)
  have sub: "add_mset (wrIndex r) (slots s0) \<subseteq># mset_set {..<Connections plan}"
    using assms(2) sl by (simp add: supInv_def slotInv_def)
  show "wrIndex r < Connections plan" using sub by (rule slot_once)
  have "count (slots s0) (wrIndex r) = 0" using sub by (rule slot_once)
  then show "wrIndex r \<notin># waiting s0" by (simp add: slots_def count_eq_zero_iff)
  show "wrGeneration r = generation (supStates s ! wrIndex r)"
    using assms(1,2) by (simp add: supInv_def genInv_def)
  have rd: "readiness s0 = readiness s" "waiting s0 = waiting s"
    by (simp_all add: s0_def readiness_def waiting_def fun_eq_iff)
  have "genInv plan s0" using assms(1,2) unfolding supInv_def genInv_def rd by (auto simp: s0_def)
  moreover have "readyInv plan s0" using assms(2) readyInv_cong [of s0 s plan]
    by (simp add: s0_def supInv_def)
  ultimately show "supSafe plan s0"
    using assms(2) slots_shrink [OF sub] by (simp add: supSafe_def supInv_def slotInv_def s0_def)
qed

lemma retire_safe:
  assumes "supSafe plan s" "i < Connections plan" "ready (supStates s ! i)"
  shows "supSafe plan (retire i s)"
    and "slots (retire i s) = slots s" and "supStates (retire i s) = (supStates s)[i := (supStates s ! i)\<lparr>ready := False\<rparr>]"
    and "live (retire i s) = live s" and "supSessionReady (retire i s) = supSessionReady s"
    and "readiness (retire i s) i = 0" and "waiting (retire i s) = waiting s"
proof -
  have len: "length (supStates s) = Connections plan" and gi: "genInv plan s" and ri: "readyInv plan s"
    using assms(1) by (auto simp: supSafe_def)
  define s1 where "s1 = retire i s"
  have f: "supStates s1 = (supStates s)[i := (supStates s ! i)\<lparr>ready := False\<rparr>]"
    "supRunning s1 = supRunning s" "supResultCh s1 = supResultCh s" "supReadyCh s1 = supReadyCh s"
    "supTrace s1 = supTrace s @ [IngressRemove i, SetActiveWorkers (supReadyWorkers s - 1)]"
    "supSessionReady s1 = supSessionReady s" "supReadyWorkers s1 = supReadyWorkers s - 1"
    "waiting s1 = waiting s" "live s1 = live s" "slots s1 = slots s"
    by (simp_all add: s1_def retire_def Let_def waiting_def live_def slots_def)
  show "slots (retire i s) = slots s" "live (retire i s) = live s"
    "supSessionReady (retire i s) = supSessionReady s" "waiting (retire i s) = waiting s"
    "supStates (retire i s) = (supStates s)[i := (supStates s ! i)\<lparr>ready := False\<rparr>]"
    using f by (simp_all add: s1_def)
  have rd: "readiness s1 j + (if j = i then 1 else 0) = readiness s j" for j
    using assms(2,3) len by (auto simp: readiness_def f)
  moreover have "readiness s i \<le> 1" using gi assms(2) by (simp add: genInv_def)
  ultimately have "readiness s1 i = 0" using rd [of i] by simp
  then show "readiness (retire i s) i = 0" by (simp add: s1_def)
  have upd: "generation (supStates s1 ! j) = generation (supStates s ! j)"
    "restarts (supStates s1 ! j) = restarts (supStates s ! j)" for j
    using assms(2) len by (auto simp: f nth_list_update)
  have "readiness s1 j \<le> 1" if "j < Connections plan" for j
    using readiness_mono [OF gi that, of s1] rd [of j] by simp
  then have "genInv plan s1" using gi unfolding genInv_def upd f(2-) by auto
  moreover have "int (readyCount (supStates s1)) = supReadyWorkers s - 1"
    using readyCount_update [of i "supStates s" "(supStates s ! i)\<lparr>ready := False\<rparr>"] assms len ri
    by (simp add: f readyInv_def)
  then have "readyInv plan s1"
    using ri assms(2) len by (auto simp: f readyInv_def nth_list_update)
  ultimately show "supSafe plan (retire i s)"
    using assms(1) by (simp add: supSafe_def f s1_def [symmetric])
qed

lemma reschedule_inv:
  assumes "supSafe plan s" "i < Connections plan" "readiness s i = 0"
    "restarts (supStates s ! i) < MaxWorkerRestarts plan"
    "add_mset i (slots s) \<subseteq># mset_set {..<Connections plan}"
    "live s \<Longrightarrow> add_mset i (slots s) = mset_set {..<Connections plan}" "list_all quiet as"
  defines "s' \<equiv> act as ((setState i ((supStates s ! i)\<lparr>restarts := restarts (supStates s ! i) + 1\<rparr>) s)
      \<lparr>supTimers := supTimers s + {#i#}\<rparr>)"
  shows "supInv plan s'"
proof -
  let ?st = "(supStates s ! i)\<lparr>restarts := restarts (supStates s ! i) + 1\<rparr>"
  have len: "length (supStates s) = Connections plan" and gi: "genInv plan s" and ri: "readyInv plan s"
    using assms(1) by (auto simp: supSafe_def)
  have f: "supStates s' = (supStates s)[i := ?st]" "supRunning s' = supRunning s"
    "supResultCh s' = supResultCh s" "supReadyCh s' = supReadyCh s"
    "supTrace s' = supTrace s @ as" "supSessionReady s' = supSessionReady s"
    "supReadyWorkers s' = supReadyWorkers s" "waiting s' = add_mset i (waiting s)"
    "live s' = live s" "slots s' = add_mset i (slots s)"
    by (simp_all add: s'_def waiting_def live_def slots_def)
  have upd: "generation (supStates s' ! j) = generation (supStates s ! j)"
    "ready (supStates s' ! j) = ready (supStates s ! j)"
    "restarts (supStates s' ! j) = restarts (supStates s ! j) + (if j = i then 1 else 0)" for j
    using assms(2) len by (auto simp: f nth_list_update)
  have "readiness s' j = readiness s j + (if j = i then 1 else 0)" for j
    by (simp add: readiness_def upd f(2-4,8))
  then have "readiness s' j \<le> 1" if "j < Connections plan" for j
    using that assms(3) gi by (auto simp: genInv_def)
  then have "genInv plan s'" using gi assms(4) unfolding genInv_def upd f(2-)
    by (auto split: if_splits)
  moreover have "readyCount (supStates s') = readyCount (supStates s)"
    using readyCount_update [of i "supStates s" ?st] assms(2) len by (simp add: f)
  then have "readyInv plan s'"
    using ri quiet_trace [OF assms(7)] unfolding readyInv_def upd f(5-7)
    by (simp del: trace_funs)
  ultimately show ?thesis using assms(5,6) len by (simp add: supInv_def slotInv_def f(1,9,10))
qed

lemma loop_result_inv:
  assumes "supResultCh s = r # rs" "supInv plan s"
  shows "supInv plan (handleResult plan r (s\<lparr>supResultCh := rs\<rparr>))"
proof -
  define s0 where "s0 = s\<lparr>supResultCh := rs\<rparr>"
  let ?i = "wrIndex r" and ?M = "mset_set {..<Connections plan}"
  note t = take_result [OF assms, folded s0_def]
  have st: "supStates s0 = supStates s" "live s0 = live s" by (simp_all add: s0_def live_def)
  have full: "add_mset ?i (slots s0) \<subseteq># ?M" "live s \<Longrightarrow> add_mset ?i (slots s0) = ?M"
    using assms(2) t(3) by (auto simp: supInv_def slotInv_def)
  define s1 where "s1 = (if ready (supStates s0 ! ?i) then retire ?i s0 else s0)"
  have s1: "supSafe plan s1" "slots s1 = slots s0" "live s1 = live s" "waiting s1 = waiting s0"
    using t(1,2) retire_safe [OF t(1,2)] st by (auto simp: s1_def)
  have dead: "supInv plan s1" if "supCancelled s0"
  proof -
    have "\<not> live s1" using that s1(3) by (simp add: s0_def live_def)
    with s1(1) show ?thesis by (simp add: supInv_iff)
  qed
  have again: "supInv plan (act as ((setState ?i ((supStates s1 ! ?i)
      \<lparr>restarts := restarts (supStates s1 ! ?i) + 1\<rparr>) s1)\<lparr>supTimers := supTimers s1 + {#?i#}\<rparr>))"
    if "ready (supStates s0 ! ?i)" "restarts (supStates s1 ! ?i) < MaxWorkerRestarts plan"
      "list_all quiet as" for as
  proof -
    have "readiness s1 ?i = 0" using that(1) retire_safe(6) [OF t(1,2)] by (simp add: s1_def)
    then show ?thesis
      using reschedule_inv [OF s1(1) t(2) _ that(2), of as] full s1(2,3) that(3) by simp
  qed
  show ?thesis
    unfolding s0_def [symmetric] handleResult_def Let_def s1_def [symmetric]
    using t(4) st(1) dead again fails_inv [OF s1(1)] by (auto split: option.splits)
qed

lemma startWorker_fields [simp]:
  "supStates (startWorker i s) = (supStates s)[i := (supStates s ! i)\<lparr>generation := generation (supStates s ! i) + 1\<rparr>]"
  "supRunning (startWorker i s) = add_mset (i, generation (supStates s ! i) + 1, False) (supRunning s)"
  "supResultCh (startWorker i s) = supResultCh s" "supReadyCh (startWorker i s) = supReadyCh s"
  "supTrace (startWorker i s) = supTrace s" "supSessionReady (startWorker i s) = supSessionReady s"
  "supReadyWorkers (startWorker i s) = supReadyWorkers s" "waiting (startWorker i s) = waiting s"
  "live (startWorker i s) = live s" "slots (startWorker i s) = add_mset i (slots s)"
  by (simp_all add: startWorker_def Let_def waiting_def live_def slots_def)

text \<open>A worker starts in a slot that nothing holds.\<close>

lemma startWorker_inv:
  assumes "length (supStates s) = Connections plan" "i < Connections plan" "count (slots s) i = 0"
    "slots s \<subseteq># mset_set {..<Connections plan}" "live s \<Longrightarrow> add_mset i (slots s) = mset_set {..<Connections plan}"
    "genInv plan s" "generation (supStates s ! i) \<le> restarts (supStates s ! i)"
    "readiness s i = 0" "readyInv plan s"
  shows "supInv plan (startWorker i s)"
proof -
  have "i \<notin> fst ` set_mset (supRunning s)" "i \<notin> wrIndex ` set (supResultCh s)"
    and waiting: "i \<notin># waiting s"
    using assms(3) by (auto simp: slots_def count_eq_zero_iff)
  then have free: "(i, g, a) \<notin># supRunning s" "r \<in> set (supResultCh s) \<Longrightarrow> wrIndex r \<noteq> i" for g a r
    by force+
  have noready: "r \<in> set (supReadyCh s) \<Longrightarrow> reIndex r \<noteq> i" "\<not> ready (supStates s ! i)" for r
    using assms(8) by (auto simp: readiness_def count_eq_zero_iff split: if_splits)
  have upd: "ready (supStates (startWorker i s) ! j) = ready (supStates s ! j)"
    "restarts (supStates (startWorker i s) ! j) = restarts (supStates s ! j)"
    "generation (supStates (startWorker i s) ! j) =
       generation (supStates s ! j) + (if j = i then 1 else 0)" for j
    using assms(1,2) by (auto simp: nth_list_update)
  have rd: "readiness (startWorker i s) j = readiness s j + (if j = i then 1 else 0)" for j
    by (simp add: readiness_def upd del: startWorker_fields(1))
  have old: "\<And>j g a. (j, g, a) \<in># supRunning s \<Longrightarrow> g = generation (supStates s ! j)"
    "\<And>r. r \<in> set (supResultCh s) \<Longrightarrow> wrGeneration r = generation (supStates s ! wrIndex r)"
    "\<And>r. r \<in> set (supReadyCh s) \<Longrightarrow> reIndex r < Connections plan \<and>
        reGeneration r = generation (supStates s ! reIndex r) \<and>
        reOutbound r = chanOf plan (reIndex r) (reGeneration r)"
    "\<And>j. j < Connections plan \<Longrightarrow> readiness s j \<le> 1 \<and>
        generation (supStates s ! j) + count (waiting s) j \<le> Suc (restarts (supStates s ! j)) \<and>
        1 \<le> generation (supStates s ! j) \<and> restarts (supStates s ! j) \<le> MaxWorkerRestarts plan"
    using assms(6) unfolding genInv_def by auto
  have "genInv plan (startWorker i s)"
    unfolding genInv_def upd rd startWorker_fields(2-)
  proof (intro conjI ballI allI impI)
    fix x assume "x \<in># add_mset (i, generation (supStates s ! i) + 1, False) (supRunning s)"
    then show "case x of (j, g, a) \<Rightarrow> g = generation (supStates s ! j) + (if j = i then 1 else 0)"
      using old(1) free(1) by (cases x) (auto split: if_splits)
  qed (use old(2-) free(2) noready(1) assms(7,8) waiting in
      \<open>auto simp: not_in_iff split: if_splits\<close>)
  moreover have "readyCount (supStates (startWorker i s)) = readyCount (supStates s)"
    using readyCount_update [of i "supStates s" "(supStates s ! i)\<lparr>generation := generation (supStates s ! i) + 1\<rparr>"]
      assms(1,2) by simp
  then have "readyInv plan (startWorker i s)"
    using assms(9) noready(2) unfolding readyInv_def upd startWorker_fields(5-7) by auto
  moreover have "add_mset i (slots s) \<subseteq># mset_set {..<Connections plan}"
    using assms(2-4) by (auto simp: subseteq_mset_def count_mset_set' not_in_iff split: if_splits)
  ultimately show ?thesis using assms(1,5) by (simp add: supInv_def slotInv_def)
qed

lemma loop_restart_inv:
  assumes "supRestartCh s = i # is" "supInv plan s"
  shows "supInv plan (handleRestart i (s\<lparr>supRestartCh := is\<rparr>))"
proof -
  define s0 where "s0 = s\<lparr>supRestartCh := is\<rparr>"
  have w: "waiting s = add_mset i (waiting s0)" by (simp add: s0_def waiting_def assms(1))
  have sl: "slots s = add_mset i (slots s0)" by (simp add: s0_def slots_def w [unfolded s0_def])
  have f: "supStates s0 = supStates s" "live s0 = live s" "supCancelled s0 = supCancelled s"
    "supRunning s0 = supRunning s" "supResultCh s0 = supResultCh s" "supReadyCh s0 = supReadyCh s"
    by (simp_all add: s0_def live_def)
  have len: "length (supStates s) = Connections plan" and gi: "genInv plan s"
    and sub: "add_mset i (slots s0) \<subseteq># mset_set {..<Connections plan}"
    using assms(2) sl by (auto simp: supInv_def slotInv_def)
  have i: "i < Connections plan" and free: "count (slots s0) i = 0" using slot_once [OF sub] by auto
  have rd: "readiness s j = readiness s0 j + (if j = i then 1 else 0)" for j
    by (simp add: readiness_def f w)
  have "readiness s i \<le> 1" using gi i by (simp add: genInv_def)
  then have r0: "readiness s0 i = 0" using rd [of i] by simp
  have "readiness s0 j \<le> 1" if "j < Connections plan" for j
    using readiness_mono [OF gi that, of s0] rd [of j] by simp
  then have g0: "genInv plan s0"
    using gi unfolding genInv_def f w by (auto split: if_splits dest: le_SucI Suc_leD)
  have ri: "readyInv plan s0" using assms(2) readyInv_cong [of s0 s plan] by (simp add: s0_def supInv_def)
  have gen: "generation (supStates s0 ! i) \<le> restarts (supStates s0 ! i)"
    using gi i w f(1) by (auto simp: genInv_def)
  have "supInv plan (startWorker i s0)"
    using startWorker_inv [OF _ i free slots_shrink [OF sub] _ g0 gen r0 ri] len f assms(2) sl
    by (simp add: supInv_def slotInv_def)
  moreover have "supInv plan s0" if "supCancelled s"
    using g0 ri len f that slots_shrink [OF sub]
    by (simp add: supInv_def slotInv_def) (simp add: s0_def live_def)
  ultimately show ?thesis using f(3) by (simp add: handleRestart_def s0_def)
qed

lemma supSafe_I: "supInv plan s \<Longrightarrow> supSafe plan s"
  by (simp add: supInv_iff)

text \<open>Changes to the ingress channel and the cancel flag.\<close>

lemma other_inv:
  assumes "supInv plan s" "sameWorkers s s'" "supReadyWorkers s' = supReadyWorkers s"
    "supSessionReady s' = supSessionReady s" "supTrace s' = supTrace s" "live s' \<Longrightarrow> live s"
  shows "supInv plan s'"
  using assms sameWorkersD [OF assms(2)] readyInv_cong [of s' s plan]
  by (auto simp: supInv_iff supSafe_def)

lemma start_workers:
  assumes "k \<le> length (supStates s)"
  shows "fold startWorker [0..<k] s = s\<lparr>
     supStates := map (\<lambda>st. st\<lparr>generation := generation st + 1\<rparr>) (take k (supStates s)) @ drop k (supStates s),
     supRunning := supRunning s + mset (map (\<lambda>i. (i, generation (supStates s ! i) + 1, False)) [0..<k])\<rparr>"
  using assms
proof (induction k)
  case 0
  then show ?case by simp
next
  case (Suc k)
  let ?g = "\<lambda>st. st\<lparr>generation := generation st + 1\<rparr>"
  obtain sts where sts: "supStates s = sts" by blast
  have k: "k < length sts" using Suc.prems sts by simp
  have a: "(map ?g (take k sts) @ drop k sts) ! k = sts ! k" using k by (simp add: nth_append)
  have b: "(map ?g (take k sts) @ drop k sts)[k := ?g (sts ! k)] =
      map ?g (take (Suc k) sts) @ drop (Suc k) sts"
    using k by (simp add: list_update_append take_Suc_conv_app_nth Cons_nth_drop_Suc [symmetric])
  have ih: "fold startWorker [0..<k] s = s\<lparr>supStates := map ?g (take k sts) @ drop k sts,
     supRunning := supRunning s + mset (map (\<lambda>i. (i, generation (supStates s ! i) + 1, False)) [0..<k])\<rparr>"
    using Suc.IH Suc.prems sts by simp
  have "fold startWorker [0..<Suc k] s = startWorker k (fold startWorker [0..<k] s)" by simp
  also have "\<dots> = s\<lparr>supStates := map ?g (take (Suc k) sts) @ drop (Suc k) sts,
     supRunning := supRunning s + mset (map (\<lambda>i. (i, generation (supStates s ! i) + 1, False)) [0..<Suc k])\<rparr>"
    unfolding ih using b a sts by (simp add: startWorker_def setState_def Let_def)
  finally show ?case by (simp add: sts)
qed

lemma start_inv: "supInv plan (supStart plan)"
proof -
  let ?n = "Connections plan"
  have st: "supStates (supStart plan) = replicate ?n \<lparr>generation = 1, restarts = 0, ready = False\<rparr>"
    by (simp add: supStart_def start_workers)
  have f: "supRunning (supStart plan) = mset (map (\<lambda>i. (i, 1, False)) [0..<?n])"
    "supResultCh (supStart plan) = []" "supReadyCh (supStart plan) = []"
    "waiting (supStart plan) = {#}" "supTrace (supStart plan) = []"
    "supReadyWorkers (supStart plan) = 0" "supSessionReady (supStart plan) = False"
    by (simp_all add: supStart_def start_workers waiting_def)
      (auto intro!: image_mset_cong)
  have img: "image_mset fst (supRunning (supStart plan)) = mset_set {..<?n}"
    by (simp add: f comp_def atLeast0LessThan [symmetric] flip: mset_map)
  have "readiness (supStart plan) i \<le> 1" for i
  proof -
    have "filter_mset (\<lambda>(_, _, a). \<not> a) (supRunning (supStart plan)) = supRunning (supStart plan)"
      by (auto simp: f filter_mset_eq_conv)
    then show ?thesis
      using img by (auto simp: readiness_def f st count_mset_set' nth_replicate)
  qed
  then have "genInv plan (supStart plan)" by (auto simp: genInv_def f st)
  moreover have "readyInv plan (supStart plan)" by (simp add: readyInv_def f st readyCount_def)
  ultimately show ?thesis using img by (simp add: supInv_def slotInv_def slots_def f st)
qed

lemma sup_step_inv:
  assumes "supStep plan e s = Some s'" "supInv plan s"
  shows "supInv plan s'"
proof (cases e)
  case (IngressExit err)
  with assms show ?thesis
    by (auto intro!: other_inv [of plan s] simp: sameWorkers_def live_def split: if_splits)
next
  case ParentCancel
  with assms show ?thesis
    by (auto intro!: other_inv [of plan s] simp: sameWorkers_def live_def)
next
  case LoopIngress
  with assms obtain r es where s': "s' = handleIngress r (s\<lparr>supIngressCh := es\<rparr>)"
    by (auto split: option.splits list.splits)
  have "supInv plan (s\<lparr>supIngressCh := es\<rparr>)"
    using assms(2) by (auto intro!: other_inv [of plan s] simp: sameWorkers_def live_def)
  then show ?thesis by (simp add: s' handleIngress_def fails_inv exit_inv supSafe_I)
next
  case LoopDone
  with assms show ?thesis by (auto intro: exit_inv supSafe_I split: if_splits)
next
  case LoopReady
  with assms show ?thesis by (auto split: option.splits list.splits intro: loop_ready_inv)
next
  case LoopResult
  with assms show ?thesis by (auto split: option.splits list.splits intro: loop_result_inv)
next
  case LoopRestart
  with assms show ?thesis by (auto split: option.splits list.splits intro: loop_restart_inv)
next
  case (WorkerReady i g)
  show ?thesis using assms unfolding WorkerReady by (rule worker_ready_inv)
next
  case (WorkerExit i g a err)
  show ?thesis using assms unfolding WorkerExit by (rule worker_exit_inv)
next
  case (WorkerExitDropped i g a)
  show ?thesis using assms unfolding WorkerExitDropped by (rule worker_dropped_inv)
next
  case (TimerFires i)
  show ?thesis using assms unfolding TimerFires by (rule timer_fires_inv)
next
  case (TimerDropped i)
  show ?thesis using assms unfolding TimerDropped by (rule timer_dropped_inv)
qed

lemma sup_reachable_inv: "supReachable plan s \<Longrightarrow> supInv plan s"
  by (induction rule: supReachable.induct) (auto intro: start_inv sup_step_inv)

section \<open>The ingress follows the session\<close>

definition ingressRun ::
    "(int \<Rightarrow> chan \<Rightarrow> 's \<Rightarrow> 's) \<Rightarrow> (int \<Rightarrow> 's \<Rightarrow> 's) \<Rightarrow> supAction list \<Rightarrow> 's \<Rightarrow> 's" where
  "ingressRun setReady rem as u = fold (\<lambda>a u. case a of
       IngressSetReady i c \<Rightarrow> setReady (int i) c u
     | IngressRemove i \<Rightarrow> rem (int i) u
     | _ \<Rightarrow> u) as u"

text \<open>A registry of frame channels, as the supervisor drives it.\<close>

locale session_ingress = worker_registry inv routes set_ready remove
  for inv :: "'s \<Rightarrow> bool" and routes :: "'s \<Rightarrow> int \<rightharpoonup> chan"
    and set_ready :: "int \<Rightarrow> chan \<Rightarrow> 's \<Rightarrow> 's" and remove :: "int \<Rightarrow> 's \<Rightarrow> 's" +
  fixes initial :: 's
  assumes initial_inv: "inv initial" and initial_routes: "routes initial = Map.empty"
begin

lemma run_follows:
  "inv (ingressRun set_ready remove as initial) \<and>
   (\<forall>i. routes (ingressRun set_ready remove as initial) (int i) = ingressMap as i)"
proof (induction as rule: rev_induct)
  case Nil
  then show ?case by (simp add: ingressRun_def initial_inv initial_routes)
next
  case (snoc a as)
  then show ?case
    by (cases a) (auto simp: ingressRun_def set_ready_inv remove_inv set_ready_routes remove_routes)
qed

end

interpretation udp_session: session_ingress
    "\<lambda>u. workersInv (uWorkers u)" "\<lambda>u. workerRoutes (uWorkers u)" udpSetReady udpRemove
    "newUDPIngress q"
  by unfold_locales (simp_all add: newUDPIngress_def)

interpretation tcp_session: session_ingress
    "\<lambda>t. workersInv (tWorkers t)" "\<lambda>t. workerRoutes (tWorkers t)" tcpSetReady tcpRemoveWorker
    "newTCPIngress q"
  by unfold_locales (simp_all add: newTCPIngress_def)

section \<open>Runs\<close>

abbreviation samplePlan :: supPlan where
  "samplePlan \<equiv> \<lparr>Connections = 2, MaxWorkerRestarts = 2\<rparr>"

definition supSample :: "supEvent list \<Rightarrow> supervisor option" where
  "supSample es = supRun samplePlan
     ([WorkerReady 0 1, LoopReady, WorkerReady 1 1, LoopReady] @ es) (supStart samplePlan)"

lemma supSample_reachable: "supSample es = Some s \<Longrightarrow> supReachable samplePlan s"
  unfolding supSample_def by (rule supRun_reachable [OF supReachable.start])

text \<open>
  A worker restarts once; its second generation fails before it is ready.  The session ends with
  a failure recorded as a startup failure, although it was ready and the worker has a restart
  left.
\<close>

theorem restarted_worker_ends_ready_session:
  "map_option (\<lambda>s. (supSessionReady s, restarts (supStates s ! 0), supExit s,
       filter (\<lambda>a. a = RecordSessionStart \<or> a = RecordSessionFailure ''turn_dial'' True) (supTrace s)))
     (supSample [WorkerExit 0 1 True (Some (ErrText ''lost'')), LoopResult, TimerFires 0, LoopRestart,
        WorkerExit 0 2 False (Some (ErrStage TURNDial None)), LoopResult]) =
   Some (True, 1, Some (Some (ErrStage TURNDial None)),
     [RecordSessionStart, RecordSessionFailure ''turn_dial'' True])"
  by code_simp

text \<open>
  A worker that announced itself and then failed, when the loop reads the failure first: the
  session ends as if the worker had never been ready.
\<close>

theorem announced_worker_ends_session:
  "map_option (\<lambda>s. (supExit s, map reIndex (supReadyCh s)))
     (supRun samplePlan [WorkerReady 0 1, WorkerExit 0 1 True (Some (ErrText ''lost'')), LoopResult]
        (supStart samplePlan)) =
   Some (Some (Some (ErrText ''lost'')), [0])"
  by code_simp

section \<open>Properties\<close>

text \<open>
  C5: No worker slot is lost or doubled.  In every reachable state of a session whose loop runs
  and whose context is not cancelled, each of the \<open>Connections\<close> slots is in exactly one place:
  its worker runs, its result waits, its restart timer runs, or its restart waits.  Every running
  worker and every waiting result is of the current generation, and generations, one more than
  the restarts that happened, stay within the restart budget.
\<close>

theorem supervisor_slots:
  assumes "supReachable plan s"
  shows "(live s \<longrightarrow> (\<forall>i. count (slots s) i = (if i < Connections plan then 1 else 0)))
    \<and> (\<forall>i g a. (i, g, a) \<in># supRunning s \<longrightarrow> g = generation (supStates s ! i))
    \<and> (\<forall>r\<in>set (supResultCh s). wrGeneration r = generation (supStates s ! wrIndex r))
    \<and> (\<forall>i<Connections plan.
        generation (supStates s ! i) + count (waiting s) i \<le> Suc (restarts (supStates s ! i)) \<and>
        restarts (supStates s ! i) \<le> MaxWorkerRestarts plan)"
  using sup_reachable_inv [OF assms]
  by (auto simp: supInv_def slotInv_def genInv_def count_mset_set')

theorem supervisor_slots_witness:
  "\<exists>s. supSample [WorkerExit 0 1 True (Some (ErrText ''lost'')), LoopResult] = Some s
     \<and> count (slots s) 0 = 1 \<and> count (slots s) 1 = 1 \<and> supTimers s = {#0#}"
proof -
  have "map_option (\<lambda>s. (supCancelled s, supExit s, supTimers s))
      (supSample [WorkerExit 0 1 True (Some (ErrText ''lost'')), LoopResult]) =
    Some (False, None, {#0#})" by code_simp
  then obtain s where s: "supSample [WorkerExit 0 1 True (Some (ErrText ''lost'')), LoopResult] = Some s"
    "live s" "supTimers s = {#0#}" by (auto simp: map_option_eq_Some live_def)
  from supervisor_slots [OF supSample_reachable [OF s(1)]] s show ?thesis by auto
qed

text \<open>
  What the session reports agrees with what it does: in every reachable state the counter of
  ready workers and the last gauge value are the number of workers flagged ready, and the session
  start has been recorded once if the session became ready and not at all otherwise.
\<close>

theorem supervisor_reports:
  assumes "supReachable plan s"
  shows "supReadyWorkers s = int (card {i. i < Connections plan \<and> ready (supStates s ! i)})
    \<and> activeGauge (supTrace s) = supReadyWorkers s
    \<and> startsRecorded (supTrace s) = (if supSessionReady s then 1 else 0)"
  using sup_reachable_inv [OF assms]
  by (simp add: supInv_def readyInv_def slotInv_def readyCount_def length_filter_conv_card)

theorem supervisor_reports_witness:
  "\<exists>s. supSample [WorkerExit 1 1 True (Some (ErrText ''lost'')), LoopResult] = Some s
     \<and> activeGauge (supTrace s) = 1 \<and> startsRecorded (supTrace s) = 1"
proof -
  have "map_option (\<lambda>s. (supReadyWorkers s, supSessionReady s))
      (supSample [WorkerExit 1 1 True (Some (ErrText ''lost'')), LoopResult]) = Some (1, True)"
    by code_simp
  then obtain s where s: "supSample [WorkerExit 1 1 True (Some (ErrText ''lost'')), LoopResult] = Some s"
    "supReadyWorkers s = 1" "supSessionReady s" by (auto simp: map_option_eq_Some)
  from supervisor_reports [OF supSample_reachable [OF s(1)]] s show ?thesis by auto
qed

text \<open>
  C6: The local ingress deals traffic exactly to the workers that are ready: when the calls a
  session has made are applied to a UDP or a TCP ingress, its worker table binds worker \<open>i\<close>
  exactly if \<open>i\<close> is flagged ready, and then to the channel of the worker's current generation,
  never to the channel of a generation that ended.
\<close>

theorem supervisor_drives_ingress:
  assumes "supReachable plan s"
  shows "workerRoutes (uWorkers (ingressRun udpSetReady udpRemove (supTrace s) (newUDPIngress q))) (int i)
      = (if i < Connections plan \<and> ready (supStates s ! i)
         then Some (chanOf plan i (generation (supStates s ! i))) else None)
    \<and> workerRoutes (tWorkers (ingressRun tcpSetReady tcpRemoveWorker (supTrace s) (newTCPIngress q))) (int i)
      = (if i < Connections plan \<and> ready (supStates s ! i)
         then Some (chanOf plan i (generation (supStates s ! i))) else None)"
  using sup_reachable_inv [OF assms]
  by (simp add: udp_session.run_follows tcp_session.run_follows supInv_def readyInv_def)

theorem supervisor_drives_ingress_witness:
  "\<exists>s. supSample [WorkerExit 1 1 True (Some (ErrText ''lost'')), LoopResult] = Some s
     \<and> workerRoutes (uWorkers (ingressRun udpSetReady udpRemove (supTrace s) (newUDPIngress (\<lambda>_. [])))) 0 = Some 2
     \<and> workerRoutes (uWorkers (ingressRun udpSetReady udpRemove (supTrace s) (newUDPIngress (\<lambda>_. [])))) 1 = None"
proof -
  have "map_option (\<lambda>s. map (\<lambda>st. (ready st, generation st)) (supStates s))
      (supSample [WorkerExit 1 1 True (Some (ErrText ''lost'')), LoopResult]) = Some [(True, 1), (False, 1)]"
    by code_simp
  then obtain s where s: "supSample [WorkerExit 1 1 True (Some (ErrText ''lost'')), LoopResult] = Some s"
    "map (\<lambda>st. (ready st, generation st)) (supStates s) = [(True, 1), (False, 1)]"
    by (auto simp: map_option_eq_Some)
  from supervisor_drives_ingress [OF supSample_reachable [OF s(1)], of "\<lambda>_. []" 0]
    supervisor_drives_ingress [OF supSample_reachable [OF s(1)], of "\<lambda>_. []" 1] s
  show ?thesis by (auto simp: chanOf_def map_eq_Cons_conv)
qed

text \<open>
  The channels between the goroutines of a session are large enough: in every reachable
  state at most \<open>Connections\<close> messages wait in each of the three channels of capacity
  \<open>2 * Connections\<close>, so a worker that announces itself or exits and a timer that fires never
  wait for the loop.
\<close>

theorem supervisor_channels_have_room:
  assumes "supReachable plan s" "0 < Connections plan"
  shows "supRoom plan (supReadyCh s) \<and> supRoom plan (supResultCh s) \<and> supRoom plan (supRestartCh s)
    \<and> length (supReadyCh s) \<le> Connections plan"
proof -
  note inv = sup_reachable_inv [OF assms(1)]
  have le: "size m \<le> Connections plan" if "m \<subseteq># mset_set {..<Connections plan}" for m
    using size_mset_mono [OF that] by simp
  have sub: "slots s \<subseteq># mset_set {..<Connections plan}" using inv by (simp add: supInv_def slotInv_def)
  have "length (supResultCh s) + length (supRestartCh s) \<le> Connections plan"
    using le [OF sub] by (simp add: slots_def waiting_def)
  moreover have "image_mset reIndex (mset (supReadyCh s)) \<subseteq># mset_set {..<Connections plan}"
  proof (rule mset_subset_eqI)
    fix i
    show "count (image_mset reIndex (mset (supReadyCh s))) i \<le> count (mset_set {..<Connections plan}) i"
    proof (cases "i < Connections plan")
      case True
      then have "readiness s i \<le> 1" using inv by (simp add: supInv_def genInv_def)
      with True show ?thesis by (simp add: readiness_def count_mset_set')
    next
      case False
      with inv have "i \<notin># image_mset reIndex (mset (supReadyCh s))" by (auto simp: supInv_def genInv_def)
      then show ?thesis by (simp add: count_eq_zero_iff [THEN iffD2])
    qed
  qed
  then have "length (supReadyCh s) \<le> Connections plan" using le by fastforce
  ultimately show ?thesis using assms(2) by (simp add: supRoom_def)
qed

theorem supervisor_channels_have_room_witness:
  "\<exists>s. supSample [WorkerExit 1 1 True None] = Some s \<and> supRoom samplePlan (supResultCh s)"
proof -
  have "map_option (\<lambda>s. 0::nat) (supSample [WorkerExit 1 1 True None]) = Some 0" by code_simp
  then obtain s where s: "supSample [WorkerExit 1 1 True None] = Some s" by auto
  from supervisor_channels_have_room [OF supSample_reachable [OF s]] s show ?thesis by simp
qed

text \<open>
  What becomes of a session when a worker ends.  When the loop of a live session reads a
  result, the session goes on exactly if the worker ended with an error, had become ready and has
  restarts left: then the worker leaves the ingress, one restart is booked and one timer started.
  Otherwise the session ends with an error: the worker's own if it never became ready, and an
  error of stage \<open>session_supervision\<close>, unless the cause has its own stage below it, if it
  stopped without an error or used up its restarts.
\<close>

theorem supervisor_result_outcome:
  assumes "supReachable plan s" "live s" "supStep plan LoopResult s = Some s'"
    "supResultCh s = r # rs"
  shows "let i = wrIndex r; st = supStates s ! i in
    (case wrErr r of
       None \<Rightarrow> supExit s' = Some (Some (ErrStage SessionSupervise (Some (stoppedError i))))
     | Some e \<Rightarrow>
         if \<not> ready st then supExit s' = Some (Some e)
         else if restarts st < MaxWorkerRestarts plan then
           supExit s' = None \<and> supTimers s' = add_mset i (supTimers s) \<and>
           restarts (supStates s' ! i) = Suc (restarts st) \<and> \<not> ready (supStates s' ! i) \<and>
           ingressMap (supTrace s') i = None
         else supExit s' = Some (Some (ErrStage SessionSupervise
           (Some (exhaustedError i (restarts st) e)))))"
proof -
  have s': "s' = handleResult plan r (s\<lparr>supResultCh := rs\<rparr>)" using assms(2-4) by (simp add: live_def)
  note t = take_result [OF assms(4) sup_reachable_inv [OF assms(1)]]
  have len: "wrIndex r < length (supStates s)" using t(1,2) by (simp add: supSafe_def)
  show ?thesis
    unfolding s' using t(4) len assms(2)
    by (auto simp: Let_def handleResult_def retire_def live_def setState_def act_def
        split: option.splits)
qed

theorem supervisor_result_outcome_witness:
  "\<exists>s s'. supSample [WorkerExit 0 1 True None] = Some s \<and> supStep samplePlan LoopResult s = Some s'
     \<and> supExit s' = Some (Some (ErrStage SessionSupervise (Some (stoppedError 0))))"
proof -
  let ?r = "\<lparr>wrIndex = 0, wrGeneration = 1, wrErr = None\<rparr>"
  have "map_option (\<lambda>s. (supCancelled s, supExit s, supResultCh s))
      (supSample [WorkerExit 0 1 True None]) = Some (False, None, [?r])" by code_simp
  then obtain s where s: "supSample [WorkerExit 0 1 True None] = Some s" "live s"
    "supResultCh s = [?r]" by (auto simp: map_option_eq_Some live_def)
  then obtain s' where s': "supStep samplePlan LoopResult s = Some s'" by (simp add: live_def)
  from supervisor_result_outcome [OF supSample_reachable [OF s(1)] s(2) s' s(3)]
  have "supExit s' = Some (Some (ErrStage SessionSupervise (Some (stoppedError 0))))"
    by (simp add: Let_def)
  with s(1) s' show ?thesis by blast
qed

end
