(* ===== verification/GoNet.thy ===== *)
theory GoNet
  imports GoPrelude
begin

text \<open>
  The parts of Go's package \<open>net\<close> that the source uses on addresses: \<open>SplitHostPort\<close>,
  \<open>JoinHostPort\<close>, \<open>ParseIP\<close> and the methods of \<open>net.IP\<close>.  A \<open>net.IP\<close> is its byte slice; the nil
  slice is the empty list.
\<close>

section \<open>Host and port\<close>

datatype addr_error =
    AddrMissingPort
  | AddrTooManyColons
  | AddrMissingBracket
  | AddrUnexpectedBracket

text \<open>The string before and after the last occurrence of a character.\<close>

definition splitLast :: "char \<Rightarrow> string \<Rightarrow> (string \<times> string) option" where
  "splitLast c s =
     (case dropWhile (\<lambda>d. d \<noteq> c) (rev s) of
        [] \<Rightarrow> None
      | _ # r \<Rightarrow> Some (rev r, rev (takeWhile (\<lambda>d. d \<noteq> c) (rev s))))"

definition SplitHostPort :: "string \<Rightarrow> addr_error + string \<times> string" where
  "SplitHostPort s =
     (case splitLast (CHR '':'') s of
        None \<Rightarrow> Inl AddrMissingPort
      | Some (front, port) \<Rightarrow>
          if hd s = CHR ''['' then
            (if CHR '']'' \<notin> set s then Inl AddrMissingBracket
             else
               let host = takeWhile (\<lambda>c. c \<noteq> CHR '']'') (tl s);
                   rest = drop (length host + 2) s
               in if rest = [] then Inl AddrMissingPort
                  else if length front \<noteq> length host + 2 then
                    (if hd rest = CHR '':'' then Inl AddrTooManyColons else Inl AddrMissingPort)
                  else if CHR ''['' \<in> set (tl s) \<or> CHR '']'' \<in> set rest
                  then Inl AddrUnexpectedBracket
                  else Inr (host, port))
          else if CHR '':'' \<in> set front then Inl AddrTooManyColons
          else if CHR ''['' \<in> set s \<or> CHR '']'' \<in> set s then Inl AddrUnexpectedBracket
          else Inr (front, port))"

definition JoinHostPort :: "string \<Rightarrow> string \<Rightarrow> string" where
  "JoinHostPort host port =
     (if CHR '':'' \<in> set host then ''['' @ host @ '']:'' @ port else host @ '':'' @ port)"

lemma splitLast_append:
  "c \<notin> set p \<Longrightarrow> splitLast c (h @ c # p) = Some (h, p)"
proof -
  assume p: "c \<notin> set p"
  then have "dropWhile (\<lambda>d. d \<noteq> c) (rev p @ c # rev h) = c # rev h"
    "takeWhile (\<lambda>d. d \<noteq> c) (rev p @ c # rev h) = rev p"
    by (auto simp: dropWhile_append takeWhile_append)
  then show ?thesis by (simp add: splitLast_def)
qed

lemma splitLast_Some:
  assumes "splitLast c s = Some (h, p)" shows "s = h @ c # p" and "c \<notin> set p"
proof -
  from assms obtain d r where r: "dropWhile (\<lambda>d. d \<noteq> c) (rev s) = d # r" "h = rev r"
    "p = rev (takeWhile (\<lambda>d. d \<noteq> c) (rev s))"
    by (auto simp: splitLast_def split: list.splits)
  then have "d = c" by (auto simp: dropWhile_eq_Cons_conv)
  then have "rev s = takeWhile (\<lambda>d. d \<noteq> c) (rev s) @ c # r"
    using r(1) by (metis takeWhile_dropWhile_id)
  then have "rev s = rev p @ c # rev h" using r by simp
  then have "rev (rev s) = rev (rev p @ c # rev h)" by (rule arg_cong)
  then show "s = h @ c # p" by simp
  show "c \<notin> set p" using r(3) by (auto dest: set_takeWhileD)
qed

definition bracketFree :: "string \<Rightarrow> bool" where
  "bracketFree s \<longleftrightarrow> CHR ''['' \<notin> set s \<and> CHR '']'' \<notin> set s"

lemma Split_Join:
  assumes "bracketFree host" "bracketFree port" "CHR '':'' \<notin> set port"
  shows "SplitHostPort (JoinHostPort host port) = Inr (host, port)"
proof (cases "CHR '':'' \<in> set host")
  case True
  let ?s = "(''['' @ host @ '']'') @ CHR '':'' # port"
  have tw: "takeWhile (\<lambda>c. c \<noteq> CHR '']'') (host @ CHR '']'' # CHR '':'' # port) = host"
    using assms(1) by (subst takeWhile_append2) (auto simp: bracketFree_def)
  have "splitLast (CHR '':'') ?s = Some (''['' @ host @ '']'', port)"
    using assms(3) by (rule splitLast_append)
  then have "SplitHostPort ?s = Inr (host, port)"
    using assms tw by (auto simp: SplitHostPort_def bracketFree_def Let_def)
  with True show ?thesis by (simp add: JoinHostPort_def)
next
  case False
  have "splitLast (CHR '':'') (host @ CHR '':'' # port) = Some (host, port)"
    using assms(3) by (rule splitLast_append)
  moreover have "hd (host @ CHR '':'' # port) \<noteq> CHR ''[''"
    using assms(1) by (cases host) (auto simp: bracketFree_def)
  ultimately show ?thesis
    using False assms by (simp add: SplitHostPort_def JoinHostPort_def bracketFree_def)
qed

lemma Split_ok:
  assumes "SplitHostPort s = Inr (host, port)"
  shows "bracketFree host" "bracketFree port" "CHR '':'' \<notin> set port"
proof -
  from assms obtain front where b: "splitLast (CHR '':'') s = Some (front, port)"
    by (auto simp: SplitHostPort_def split: option.splits prod.splits if_splits)
      (auto simp: Let_def split: if_splits)
  note s = splitLast_Some [OF b]
  show "CHR '':'' \<notin> set port" by (rule s(2))
  have "bracketFree host \<and> bracketFree port"
  proof (cases "hd s = CHR ''[''")
    case True
    let ?h = "takeWhile (\<lambda>c. c \<noteq> CHR '']'') (tl s)"
    from assms True b have h: "host = ?h" "length front = length ?h + 2"
      "CHR ''['' \<notin> set (tl s)" "CHR '']'' \<notin> set (drop (length ?h + 2) s)"
      by (auto simp: SplitHostPort_def Let_def split: if_splits)
    then have "drop (length ?h + 2) s = CHR '':'' # port" using s(1) by (metis append_eq_conv_conj)
    moreover have "front \<noteq> []" using h(2) by auto
    then have "set port \<subseteq> set (tl s)" using s(1) by (cases front) auto
    ultimately show ?thesis using h by (auto simp: bracketFree_def dest: set_takeWhileD)
  next
    case False
    with assms b s(1) show ?thesis
      by (auto simp: SplitHostPort_def bracketFree_def split: if_splits)
  qed
  then show "bracketFree host" "bracketFree port" by auto
qed

section \<open>IP addresses\<close>

type_synonym ip = "byte list"

fun splitOn :: "char \<Rightarrow> string \<Rightarrow> string list" where
  "splitOn c [] = [[]]"
| "splitOn c (x # xs) =
     (if x = c then [] # splitOn c xs
      else (case splitOn c xs of [] \<Rightarrow> [[x]] | y # ys \<Rightarrow> (x # y) # ys))"

definition isDigit :: "char \<Rightarrow> bool" where
  "isDigit c \<longleftrightarrow> 48 \<le> (of_char c :: nat) \<and> (of_char c :: nat) \<le> 57"

definition digitVal :: "char \<Rightarrow> nat" where
  "digitVal c = of_char c - 48"

definition decimalVal :: "string \<Rightarrow> nat" where
  "decimalVal s = foldl (\<lambda>n c. n * 10 + digitVal c) 0 s"

definition hexVal :: "char \<Rightarrow> nat option" where
  "hexVal c =
     (let n = (of_char c :: nat) in
      if 48 \<le> n \<and> n \<le> 57 then Some (n - 48)
      else if 97 \<le> n \<and> n \<le> 102 then Some (n - 87)
      else if 65 \<le> n \<and> n \<le> 70 then Some (n - 55)
      else None)"

definition ipv4Field :: "string \<Rightarrow> byte option" where
  "ipv4Field s =
     (if s \<noteq> [] \<and> list_all isDigit s \<and> (length s = 1 \<or> hd s \<noteq> CHR ''0'') \<and> decimalVal s \<le> 255
      then Some (of_nat (decimalVal s)) else None)"

definition parseIPv4 :: "string \<Rightarrow> byte list option" where
  "parseIPv4 s =
     (case map ipv4Field (splitOn (CHR ''.'') s) of
        [Some a, Some b, Some c, Some d] \<Rightarrow> Some [a, b, c, d]
      | _ \<Rightarrow> None)"

text \<open>
  The loop of the IPv6 parser: the bytes so far, the position of the ellipsis, what is left of
  the string.  The result is the bytes and the ellipsis once the string is used up.  The first
  argument counts the groups that still fit.
\<close>

fun parseGroups :: "nat \<Rightarrow> byte list \<Rightarrow> nat option \<Rightarrow> string \<Rightarrow> (byte list \<times> nat option) option" where
  "parseGroups 0 bs ell s = (if s = [] then Some (bs, ell) else None)"
| "parseGroups (Suc k) bs ell s =
     (let ds = takeWhile (\<lambda>c. hexVal c \<noteq> None) s; rest = drop (length ds) s in
      if ds = [] \<or> 4 < length ds then None
      else if rest \<noteq> [] \<and> hd rest = CHR ''.'' then
        (if (ell = None \<and> length bs \<noteq> 12) \<or> 16 < length bs + 4 then None
         else map_option (\<lambda>v4. (bs @ v4, ell)) (parseIPv4 s))
      else
        let v = foldl (\<lambda>n c. n * 16 + the (hexVal c)) 0 ds;
            bs' = bs @ [of_nat (v div 256), of_nat v]
        in (case rest of
              [] \<Rightarrow> Some (bs', ell)
            | c # r \<Rightarrow>
                if c \<noteq> CHR '':'' \<or> r = [] then None
                else if hd r = CHR '':'' then
                  (if ell \<noteq> None then None
                   else if tl r = [] then Some (bs', Some (length bs'))
                   else parseGroups k bs' (Some (length bs')) (tl r))
                else parseGroups k bs' ell r))"

definition parseIPv6 :: "string \<Rightarrow> byte list option" where
  "parseIPv6 s =
     (let start = (if prefix ''::'' s then (Some 0, drop 2 s) else (None, s)) in
      if fst start = Some 0 \<and> snd start = [] then Some (replicate 16 0)
      else case parseGroups 8 [] (fst start) (snd start) of
        None \<Rightarrow> None
      | Some (bs, ell) \<Rightarrow>
          if length bs < 16 then
            (case ell of
               None \<Rightarrow> None
             | Some e \<Rightarrow> Some (take e bs @ replicate (16 - length bs) 0 @ drop e bs))
          else if ell = None then Some bs else None)"

text \<open>\<open>net.ParseIP\<close>: the first dot or colon decides; an address with a zone is refused.\<close>

definition ParseIP :: "string \<Rightarrow> ip" where
  "ParseIP s =
     (case find (\<lambda>c. c \<in> {CHR ''.'', CHR '':'', CHR ''%''}) s of
        None \<Rightarrow> []
      | Some c \<Rightarrow>
          if c = CHR ''.'' then
            (case parseIPv4 s of None \<Rightarrow> [] | Some v4 \<Rightarrow> replicate 10 0 @ [255, 255] @ v4)
          else if c = CHR '':'' \<and> CHR ''%'' \<notin> set s then
            (case parseIPv6 s of None \<Rightarrow> [] | Some v6 \<Rightarrow> v6)
          else [])"

definition To4 :: "ip \<Rightarrow> byte list option" where
  "To4 i =
     (if length i = 4 then Some i
      else if length i = 16 \<and> take 12 i = replicate 10 0 @ [255, 255] then Some (drop 12 i)
      else None)"

definition IsUnspecified :: "ip \<Rightarrow> bool" where
  "IsUnspecified i \<longleftrightarrow> To4 i = Some [0, 0, 0, 0] \<or> i = replicate 16 0"

definition hexDigit :: "nat \<Rightarrow> char" where
  "hexDigit n = char_of (if n < 10 then 48 + n else 87 + n)"

fun hexString :: "nat \<Rightarrow> string" where
  "hexString n = (if n < 16 then [hexDigit n] else hexString (n div 16) @ [hexDigit (n mod 16)])"

declare hexString.simps [simp del]

definition ipGroups :: "ip \<Rightarrow> nat list" where
  "ipGroups i = map (\<lambda>k. unat (i ! (2 * k)) * 256 + unat (i ! (2 * k + 1))) [0..<8]"

text \<open>The first longest run of at least two zero groups: its start and end.\<close>

definition zeroRun :: "nat list \<Rightarrow> nat \<times> nat" where
  "zeroRun gs = foldl (\<lambda>best k.
       let n = length (takeWhile (\<lambda>g. g = 0) (drop k gs)) in
       if 2 \<le> n \<and> snd best - fst best < n then (k, k + n) else best) (255, 255) [0..<length gs]"

definition joinWith :: "string \<Rightarrow> string list \<Rightarrow> string" where
  "joinWith sep ss = (case ss of [] \<Rightarrow> [] | t # ts \<Rightarrow> t @ concat (map (\<lambda>u. sep @ u) ts))"

definition IPString :: "ip \<Rightarrow> string" where
  "IPString i =
     (if i = [] then ''<nil>''
      else case To4 i of
        Some v4 \<Rightarrow> joinWith ''.'' (map (\<lambda>b. itoa (unat b)) v4)
      | None \<Rightarrow>
          if length i \<noteq> 16
          then CHR ''?'' # concat (map (\<lambda>b. [hexDigit (unat b div 16), hexDigit (unat b mod 16)]) i)
          else
            let gs = ipGroups i; (a, e) = zeroRun gs in
            if a = 255 then joinWith '':'' (map hexString gs)
            else joinWith '':'' (map hexString (take a gs)) @ ''::'' @
                 joinWith '':'' (map hexString (drop e gs)))"

lemma itoa_bracketFree [simp]: "CHR ''['' \<notin> set (itoa n)" "CHR '']'' \<notin> set (itoa n)"
  "CHR '':'' \<notin> set (itoa n)"
proof -
  have "isDigit c" if "c \<in> set (itoa n)" for c
    using that
  proof (induction n rule: itoa.induct)
    case (1 n)
    have dig: "isDigit (digit_char d)" if "d < 10" for d
      using that by (simp add: isDigit_def digit_char_def)
    from 1 dig [of n] dig [of "n mod 10"] show ?case
      by (subst (asm) (2) itoa.simps) (auto split: if_splits)
  qed
  then show "CHR ''['' \<notin> set (itoa n)" "CHR '']'' \<notin> set (itoa n)" "CHR '':'' \<notin> set (itoa n)"
    by (force simp: isDigit_def)+
qed

end
