(* ===== verification/RuntimeConfig.thy ===== *)
theory RuntimeConfig
  imports GoNet OverlayFrame RunStage
begin

text \<open>
  Client and server configuration (\<^verbatim>\<open>internal/config/config.go\<close>), the session plan
  (\<^verbatim>\<open>internal/session/plan.go\<close>) and the TURN address overrides (\<^verbatim>\<open>policy.go\<close>, \<^verbatim>\<open>netaddr.go\<close>).
  Durations are integers in nanoseconds.
\<close>

datatype config_error =
    MissingAddress string
  | MissingField string
  | AdapterRefused overlay_error
  | UnsupportedServerPeerMode string
  | UnsupportedTransportMode string
  | UnsupportedBindInterface string
  | TCPIngressNeedsDTLS
  | DurationNotPositive string
  | DurationNegative string
  | ConnectionsNotPositive

definition TransportModeAuto :: string where "TransportModeAuto = ''auto''"
definition TransportModeTCP :: string where "TransportModeTCP = ''tcp''"
definition TransportModeUDP :: string where "TransportModeUDP = ''udp''"

record serverConfig =
  scListenAddr :: string
  scUpstreamAddr :: string
  scEgress :: adapter_kind
  scPeerMode :: string
  scHandshakeTimeout :: int
  scIdleTimeout :: int

record clientConfig =
  ccProvider :: string
  ccLink :: string
  ccProviderSettings :: "(string \<times> goValue) list"
  ccListenAddr :: string
  ccPeerAddr :: string
  ccIngress :: adapter_kind
  ccConnections :: int
  ccTURNServer :: string
  ccTURNPort :: string
  ccBindInterface :: string
  ccHandshakeTimeout :: int
  ccMode :: string
  ccUseDTLS :: bool

record probeConfig =
  pcProvider :: string
  pcLink :: string
  pcOutputDir :: string
  pcListProviders :: bool

definition second :: int where "second = 10 ^ 9"

definition DefaultServerConfig :: serverConfig where
  "DefaultServerConfig = \<lparr>scListenAddr = ''0.0.0.0:56000'', scUpstreamAddr = [],
     scEgress = AdapterUDP, scPeerMode = ''dtls'', scHandshakeTimeout = 30 * second,
     scIdleTimeout = 30 * 60 * second\<rparr>"

definition DefaultClientConfig :: clientConfig where
  "DefaultClientConfig = \<lparr>ccProvider = [], ccLink = [], ccProviderSettings = [],
     ccListenAddr = ''127.0.0.1:9000'', ccPeerAddr = [], ccIngress = AdapterUDP,
     ccConnections = 1, ccTURNServer = [], ccTURNPort = [], ccBindInterface = [],
     ccHandshakeTimeout = 0, ccMode = TransportModeAuto, ccUseDTLS = True\<rparr>"

definition DefaultProbeConfig :: probeConfig where
  "DefaultProbeConfig = \<lparr>pcProvider = [], pcLink = [], pcOutputDir = ''artifacts'', pcListProviders = False\<rparr>"

definition requireAddr :: "string \<Rightarrow> string \<Rightarrow> config_error option" where
  "requireAddr name value = (if TrimSpace value = [] then Some (MissingAddress name) else None)"

text \<open>\<open>normalizeAdapterKind\<close> is the function \<open>NormalizeAdapter\<close> of the overlay once more.\<close>

definition normalizeAdapterKind :: "adapter_kind \<Rightarrow> adapter_kind" where
  "normalizeAdapterKind kind =
     (let t = TrimSpace kind in
      if t = [] \<or> t = AdapterUDP then AdapterUDP
      else if t = AdapterTCP then AdapterTCP
      else kind)"

definition adapterError :: "adapter_kind \<Rightarrow> string \<Rightarrow> config_error option" where
  "adapterError kind role =
     (case ValidateAdapter kind role of Inl e \<Rightarrow> Some (AdapterRefused e) | Inr _ \<Rightarrow> None)"

text \<open>The first error of a list of checks.\<close>

definition firstError :: "config_error option list \<Rightarrow> config_error option" where
  "firstError cs = (case List.map_filter (\<lambda>c. c) cs of [] \<Rightarrow> None | e # _ \<Rightarrow> Some e)"

definition serverValidate :: "serverConfig \<Rightarrow> config_error option" where
  "serverValidate c = firstError
     [requireAddr ''listen'' (scListenAddr c),
      requireAddr ''upstream'' (scUpstreamAddr c),
      adapterError (normalizeAdapterKind (scEgress c)) ''server egress'',
      (if scPeerMode c \<in> {[], ''dtls'', ''plain''} then None
       else Some (UnsupportedServerPeerMode (scPeerMode c))),
      (if scHandshakeTimeout c \<le> 0 then Some (DurationNotPositive ''handshake timeout'') else None),
      (if scIdleTimeout c \<le> 0 then Some (DurationNotPositive ''idle timeout'') else None)]"

definition clientValidate :: "clientConfig \<Rightarrow> config_error option" where
  "clientValidate c = firstError
     [(if TrimSpace (ccProvider c) = [] then Some (MissingField ''provider'') else None),
      (if TrimSpace (ccLink c) = [] then Some (MissingField ''link'') else None),
      requireAddr ''listen'' (ccListenAddr c),
      requireAddr ''peer'' (ccPeerAddr c),
      adapterError (normalizeAdapterKind (ccIngress c)) ''client ingress'',
      (if ccConnections c \<le> 0 then Some ConnectionsNotPositive else None),
      (if ccMode c \<noteq> TransportModeAuto \<and> ccMode c \<noteq> TransportModeTCP \<and> ccMode c \<noteq> TransportModeUDP
       then Some (UnsupportedTransportMode (ccMode c)) else None),
      (if ccHandshakeTimeout c < 0 then Some (DurationNegative ''handshake timeout'') else None)]"

definition probeValidate :: "probeConfig \<Rightarrow> config_error option" where
  "probeValidate c =
     (if pcListProviders c then None
      else firstError
        [(if TrimSpace (pcProvider c) = [] then Some (MissingField ''provider'') else None),
         (if TrimSpace (pcLink c) = [] then Some (MissingField ''link'') else None),
         (if TrimSpace (pcOutputDir c) = [] then Some (MissingField ''output dir'') else None)])"

section \<open>The session plan\<close>

datatype turnMode = TURNModeUDP | TURNModeTCP
datatype peerMode = PeerModeDTLS | PeerModePlain

record transportPlan =
  tpIngress :: adapter_kind
  tpMode :: string
  tpTURNMode :: turnMode
  tpPeerMode :: peerMode
  tpBindIP :: ip

record sessionPlan =
  spConnections :: int
  spRestartBackoff :: int
  spMaxWorkerRestarts :: int
  spTransport :: transportPlan

definition defaultWorkerRestartBackoff :: int where "defaultWorkerRestartBackoff = 200 * 10 ^ 6"
definition defaultMaxWorkerRestarts :: int where "defaultMaxWorkerRestarts = 1"

definition turnModeOf :: "string \<Rightarrow> turnMode option" where
  "turnModeOf m =
     (if m = TransportModeUDP then Some TURNModeUDP
      else if m = TransportModeTCP then Some TURNModeTCP else None)"

definition buildTransportPlan :: "clientConfig \<Rightarrow> config_error + transportPlan" where
  "buildTransportPlan cfg =
     (let ingress = NormalizeAdapter (ccIngress cfg);
          mode = (if ccMode cfg = TransportModeAuto then TransportModeUDP else ccMode cfg);
          peer = (if ccUseDTLS cfg then PeerModeDTLS else PeerModePlain)
      in case ValidateAdapter ingress ''client ingress'' of
        Inl e \<Rightarrow> Inl (AdapterRefused e)
      | Inr _ \<Rightarrow>
          (case turnModeOf mode of
             None \<Rightarrow> Inl (UnsupportedTransportMode mode)
           | Some tm \<Rightarrow>
               if ingress = AdapterTCP \<and> peer \<noteq> PeerModeDTLS then Inl TCPIngressNeedsDTLS
               else
                 let trimmed = TrimSpace (ccBindInterface cfg); bind = ParseIP trimmed in
                 if trimmed \<noteq> [] \<and> bind = [] then Inl (UnsupportedBindInterface (ccBindInterface cfg))
                 else Inr \<lparr>tpIngress = ingress, tpMode = mode, tpTURNMode = tm, tpPeerMode = peer,
                   tpBindIP = (if trimmed = [] then [] else bind)\<rparr>))"

text \<open>\<open>Dependencies\<close> contributes a restart backoff and a restart budget, when positive.\<close>

definition buildSessionPlan :: "clientConfig \<Rightarrow> int \<Rightarrow> int \<Rightarrow> config_error + sessionPlan" where
  "buildSessionPlan cfg depsBackoff depsRestarts =
     (case buildTransportPlan cfg of
        Inl e \<Rightarrow> Inl e
      | Inr t \<Rightarrow> Inr \<lparr>spConnections = ccConnections cfg,
         spRestartBackoff = (if depsBackoff > 0 then depsBackoff else defaultWorkerRestartBackoff),
         spMaxWorkerRestarts = (if depsRestarts > 0 then depsRestarts else defaultMaxWorkerRestarts),
         spTransport = t\<rparr>)"

definition ValidatePolicy :: "clientConfig \<Rightarrow> config_error option" where
  "ValidatePolicy cfg =
     (case clientValidate cfg of
        Some e \<Rightarrow> Some e
      | None \<Rightarrow> (case buildSessionPlan cfg 0 0 of Inl e \<Rightarrow> Some e | Inr _ \<Rightarrow> None))"

section \<open>TURN address overrides\<close>

datatype override_error = BadTurnAddress addr_error | MissingHost | MissingPort

definition netJoinHostPort :: "string \<Rightarrow> string \<Rightarrow> override_error + string" where
  "netJoinHostPort host port =
     (if host = [] then Inl MissingHost
      else if port = [] then Inl MissingPort
      else Inr (JoinHostPort host port))"

definition applyTURNOverrides :: "string \<Rightarrow> string \<Rightarrow> string \<Rightarrow> override_error + string" where
  "applyTURNOverrides creds hostOverride portOverride =
     (case SplitHostPort creds of
        Inl e \<Rightarrow> Inl (BadTurnAddress e)
      | Inr (host, port) \<Rightarrow>
          netJoinHostPort
            (if TrimSpace hostOverride \<noteq> [] then TrimSpace hostOverride else host)
            (if TrimSpace portOverride \<noteq> [] then TrimSpace portOverride else port))"

section \<open>Lemmas\<close>

lemma firstError_None [simp]: "firstError cs = None \<longleftrightarrow> (\<forall>c\<in>set cs. c = None)"
proof -
  have "List.map_filter (\<lambda>c. c) cs = [] \<longleftrightarrow> (\<forall>c\<in>set cs. c = None)"
    by (induction cs) (auto simp: List.map_filter_simps split: option.splits)
  then show ?thesis by (auto simp: firstError_def split: list.splits)
qed

lemma normalizeAdapterKind_eq: "normalizeAdapterKind = NormalizeAdapter"
  by (rule ext) (simp add: normalizeAdapterKind_def NormalizeAdapter_def)

lemma adapterError_None:
  "adapterError k role = None \<longleftrightarrow> NormalizeAdapter k \<in> {AdapterUDP, AdapterTCP}"
  using ValidateAdapter_ok_iff [of k role]
  by (auto simp: adapterError_def split: sum.splits)

lemma buildTransportPlan_ok:
  "buildTransportPlan cfg = Inr t \<longleftrightarrow>
     NormalizeAdapter (ccIngress cfg) \<in> {AdapterUDP, AdapterTCP} \<and>
     turnModeOf (if ccMode cfg = TransportModeAuto then TransportModeUDP else ccMode cfg) = Some (tpTURNMode t) \<and>
     (NormalizeAdapter (ccIngress cfg) = AdapterTCP \<longrightarrow> ccUseDTLS cfg) \<and>
     (TrimSpace (ccBindInterface cfg) \<noteq> [] \<longrightarrow> ParseIP (TrimSpace (ccBindInterface cfg)) \<noteq> []) \<and>
     t = \<lparr>tpIngress = NormalizeAdapter (ccIngress cfg),
          tpMode = (if ccMode cfg = TransportModeAuto then TransportModeUDP else ccMode cfg),
          tpTURNMode = tpTURNMode t,
          tpPeerMode = (if ccUseDTLS cfg then PeerModeDTLS else PeerModePlain),
          tpBindIP = ParseIP (TrimSpace (ccBindInterface cfg))\<rparr>"
proof -
  have v: "(\<exists>u. ValidateAdapter (NormalizeAdapter k) r = Inr u) \<longleftrightarrow> NormalizeAdapter k \<in> {AdapterUDP, AdapterTCP}"
    for k r using ValidateAdapter_ok_iff [of "NormalizeAdapter k" r] by auto
  have p: "ParseIP [] = []" by (simp add: ParseIP_def)
  show ?thesis
    using v [of "ccIngress cfg" "''client ingress''"] p
    by (cases t) (auto simp: buildTransportPlan_def Let_def split: sum.splits option.splits)
qed

section \<open>Properties\<close>

text \<open>
  The session policy accepts a client configuration exactly if the required fields are
  present, the ingress adapter is known, there is at least one connection, the mode is one of
  the three, the handshake timeout is not negative, a TCP ingress comes with DTLS, and the bind
  interface, if given, is a literal IP address.  The plan of an accepted configuration never
  carries the mode \<open>auto\<close>, has a TURN mode that agrees with its mode, and a positive restart
  budget and backoff.
\<close>

theorem policy_accepts_exactly:
  "(ValidatePolicy cfg = None \<longleftrightarrow>
      TrimSpace (ccProvider cfg) \<noteq> [] \<and> TrimSpace (ccLink cfg) \<noteq> [] \<and>
      TrimSpace (ccListenAddr cfg) \<noteq> [] \<and> TrimSpace (ccPeerAddr cfg) \<noteq> [] \<and>
      NormalizeAdapter (ccIngress cfg) \<in> {AdapterUDP, AdapterTCP} \<and>
      0 < ccConnections cfg \<and>
      ccMode cfg \<in> {TransportModeAuto, TransportModeTCP, TransportModeUDP} \<and>
      0 \<le> ccHandshakeTimeout cfg \<and>
      (NormalizeAdapter (ccIngress cfg) = AdapterTCP \<longrightarrow> ccUseDTLS cfg) \<and>
      (TrimSpace (ccBindInterface cfg) \<noteq> [] \<longrightarrow> ParseIP (TrimSpace (ccBindInterface cfg)) \<noteq> []))
   \<and> (ValidatePolicy cfg = None \<longrightarrow>
      (\<exists>p. buildSessionPlan cfg b r = Inr p \<and> tpMode (spTransport p) \<noteq> TransportModeAuto \<and>
         turnModeOf (tpMode (spTransport p)) = Some (tpTURNMode (spTransport p)) \<and>
         tpIngress (spTransport p) = NormalizeAdapter (ccIngress cfg) \<and>
         0 < spMaxWorkerRestarts p \<and> 0 < spRestartBackoff p))"
proof -
  have modes: "TransportModeAuto \<noteq> TransportModeUDP" "TransportModeAuto \<noteq> TransportModeTCP"
    "TransportModeTCP \<noteq> TransportModeUDP"
    by (simp_all add: TransportModeAuto_def TransportModeUDP_def TransportModeTCP_def)
  have tm: "(\<exists>t. turnModeOf m = Some t) \<longleftrightarrow> m = TransportModeUDP \<or> m = TransportModeTCP" for m
    by (auto simp: turnModeOf_def)
  have plan: "(\<exists>t. buildTransportPlan cfg = Inr t) \<longleftrightarrow>
      NormalizeAdapter (ccIngress cfg) \<in> {AdapterUDP, AdapterTCP} \<and>
      (ccMode cfg = TransportModeAuto \<or> ccMode cfg = TransportModeUDP \<or> ccMode cfg = TransportModeTCP) \<and>
      (NormalizeAdapter (ccIngress cfg) = AdapterTCP \<longrightarrow> ccUseDTLS cfg) \<and>
      (TrimSpace (ccBindInterface cfg) \<noteq> [] \<longrightarrow> ParseIP (TrimSpace (ccBindInterface cfg)) \<noteq> [])"
    (is "?L \<longleftrightarrow> ?R")
  proof
    assume ?L then show ?R using tm by (auto simp: buildTransportPlan_ok split: if_splits)
  next
    assume R: ?R
    let ?m = "if ccMode cfg = TransportModeAuto then TransportModeUDP else ccMode cfg"
    have "?m = TransportModeUDP \<or> ?m = TransportModeTCP" using R by auto
    then obtain m where "turnModeOf ?m = Some m" using tm [of ?m] by blast
    with R show ?L
      by (intro exI [of _ "\<lparr>tpIngress = NormalizeAdapter (ccIngress cfg),
          tpMode = (if ccMode cfg = TransportModeAuto then TransportModeUDP else ccMode cfg),
          tpTURNMode = m, tpPeerMode = (if ccUseDTLS cfg then PeerModeDTLS else PeerModePlain),
          tpBindIP = ParseIP (TrimSpace (ccBindInterface cfg))\<rparr>"])
        (simp add: buildTransportPlan_ok)
  qed
  have valid: "ValidatePolicy cfg = None \<longleftrightarrow> clientValidate cfg = None \<and> (\<exists>t. buildTransportPlan cfg = Inr t)"
    by (auto simp: ValidatePolicy_def buildSessionPlan_def split: option.splits sum.splits)
  have client: "clientValidate cfg = None \<longleftrightarrow>
      TrimSpace (ccProvider cfg) \<noteq> [] \<and> TrimSpace (ccLink cfg) \<noteq> [] \<and>
      TrimSpace (ccListenAddr cfg) \<noteq> [] \<and> TrimSpace (ccPeerAddr cfg) \<noteq> [] \<and>
      NormalizeAdapter (ccIngress cfg) \<in> {AdapterUDP, AdapterTCP} \<and> 0 < ccConnections cfg \<and>
      ccMode cfg \<in> {TransportModeAuto, TransportModeTCP, TransportModeUDP} \<and> 0 \<le> ccHandshakeTimeout cfg"
    by (auto simp: clientValidate_def requireAddr_def adapterError_None normalizeAdapterKind_eq)
  have built: "\<exists>p. buildSessionPlan cfg b r = Inr p \<and> tpMode (spTransport p) \<noteq> TransportModeAuto \<and>
         turnModeOf (tpMode (spTransport p)) = Some (tpTURNMode (spTransport p)) \<and>
         tpIngress (spTransport p) = NormalizeAdapter (ccIngress cfg) \<and>
         0 < spMaxWorkerRestarts p \<and> 0 < spRestartBackoff p" if "buildTransportPlan cfg = Inr t" for t
  proof -
    let ?m = "if ccMode cfg = TransportModeAuto then TransportModeUDP else ccMode cfg"
    from that [unfolded buildTransportPlan_ok]
    have t: "turnModeOf ?m = Some (tpTURNMode t)"
      and rec: "t = \<lparr>tpIngress = NormalizeAdapter (ccIngress cfg), tpMode = ?m, tpTURNMode = tpTURNMode t,
        tpPeerMode = (if ccUseDTLS cfg then PeerModeDTLS else PeerModePlain),
        tpBindIP = ParseIP (TrimSpace (ccBindInterface cfg))\<rparr>" by blast+
    have "tpMode t = ?m" "tpIngress t = NormalizeAdapter (ccIngress cfg)" by (subst rec, simp)+
    moreover have "?m \<noteq> TransportModeAuto" using modes by auto
    ultimately show ?thesis
      using t that by (simp add: buildSessionPlan_def defaultMaxWorkerRestarts_def defaultWorkerRestartBackoff_def)
  qed
  show ?thesis
  proof (intro conjI impI)
    assume "ValidatePolicy cfg = None"
    then show "\<exists>p. buildSessionPlan cfg b r = Inr p \<and> tpMode (spTransport p) \<noteq> TransportModeAuto \<and>
         turnModeOf (tpMode (spTransport p)) = Some (tpTURNMode (spTransport p)) \<and>
         tpIngress (spTransport p) = NormalizeAdapter (ccIngress cfg) \<and>
         0 < spMaxWorkerRestarts p \<and> 0 < spRestartBackoff p"
      using valid built by blast
  qed (unfold valid client plan, blast)
qed

theorem policy_accepts_exactly_witness:
  "let cfg = DefaultClientConfig\<lparr>ccProvider := ''vk'', ccLink := ''l'', ccPeerAddr := ''192.0.2.1:56000'',
       ccIngress := '' tcp '', ccBindInterface := ''192.0.2.7''\<rparr>
   in ValidatePolicy cfg = None \<and> (\<exists>p. buildSessionPlan cfg 0 0 = Inr p \<and> 0 < spMaxWorkerRestarts p)"
proof -
  let ?cfg = "DefaultClientConfig\<lparr>ccProvider := ''vk'', ccLink := ''l'',
    ccPeerAddr := ''192.0.2.1:56000'', ccIngress := '' tcp '', ccBindInterface := ''192.0.2.7''\<rparr>"
  have "ValidatePolicy ?cfg = None" by code_simp
  with policy_accepts_exactly [of ?cfg 0 0] show ?thesis by (auto simp: Let_def)
qed

text \<open>
  Overriding the TURN address replaces what is overridden and nothing else: if the result
  is an address, the credential address splits into a host and a port, and the result splits
  again into the trimmed host override if there is one and that host otherwise, and the same for
  the port, provided the overrides themselves are free of brackets and the port of colons.
\<close>

theorem turn_overrides_split:
  assumes "applyTURNOverrides creds ho po = Inr addr" "bracketFree ho" "bracketFree po"
    "CHR '':'' \<notin> set po"
  shows "\<exists>h p. SplitHostPort creds = Inr (h, p) \<and>
    SplitHostPort addr = Inr (if TrimSpace ho = [] then h else TrimSpace ho,
                              if TrimSpace po = [] then p else TrimSpace po)"
proof -
  have sub: "set (TrimSpace s) \<subseteq> set s" for s
    by (metis TrimSpace_def order_trans set_mono_suffix set_rev strip_left_suffix)
  from assms(1) obtain h p where hp: "SplitHostPort creds = Inr (h, p)"
    and addr: "addr = JoinHostPort (if TrimSpace ho = [] then h else TrimSpace ho)
        (if TrimSpace po = [] then p else TrimSpace po)"
    by (auto simp: applyTURNOverrides_def netJoinHostPort_def split: sum.splits prod.splits if_splits)
  have ok: "bracketFree (if TrimSpace ho = [] then h else TrimSpace ho)"
    "bracketFree (if TrimSpace po = [] then p else TrimSpace po)"
    "CHR '':'' \<notin> set (if TrimSpace po = [] then p else TrimSpace po)"
    using Split_ok [OF hp] assms(2-4) sub [of ho] sub [of po] by (auto simp: bracketFree_def)
  have "SplitHostPort addr = Inr (if TrimSpace ho = [] then h else TrimSpace ho,
      if TrimSpace po = [] then p else TrimSpace po)"
    unfolding addr using ok by (rule Split_Join)
  with hp show ?thesis by blast
qed

theorem turn_overrides_split_witness:
  "\<exists>addr. applyTURNOverrides ''turn.example:3478'' '' 2001:db8::1'' ''443'' = Inr addr
      \<and> SplitHostPort addr = Inr (''2001:db8::1'', ''443'')"
proof -
  have r: "applyTURNOverrides ''turn.example:3478'' '' 2001:db8::1'' ''443'' = Inr ''[2001:db8::1]:443''"
    by code_simp
  have t: "TrimSpace '' 2001:db8::1'' = ''2001:db8::1''" "TrimSpace ''443'' = ''443''" by code_simp+
  from turn_overrides_split [OF r] show ?thesis using r t by (auto simp: bracketFree_def)
qed

end
