(* ===== verification/Providers.thy ===== *)
theory Providers
  imports GoPrelude "HOL-Library.Char_ord" "HOL-Library.List_Lexorder"
begin

text \<open>
  The provider registry (\<^verbatim>\<open>internal/provider/provider.go\<close>).  An adapter is its name and its
  \<open>Resolve\<close> method; the registry is a map keyed by the lower-case name.  \<open>strings.ToLower\<close> is
  modelled on ASCII letters; the bytes of other letters stay as they are.
\<close>

definition toLowerChar :: "char \<Rightarrow> char" where
  "toLowerChar c =
     (let n = (of_char c :: nat) in if 65 \<le> n \<and> n \<le> 90 then char_of (n + 32) else c)"

definition ToLower :: "string \<Rightarrow> string" where
  "ToLower s = List.map toLowerChar s"

record credentials =
  crUsername :: string
  crPassword :: string
  crAddress :: string
  crTTL :: int

record resolution =
  reCredentials :: credentials
  reMetadata :: "string \<rightharpoonup> string"

record 'e adapter =
  adName :: string
  adResolve :: "(string \<times> goValue) list \<Rightarrow> string \<Rightarrow> 'e + resolution"

type_synonym 'e registry = "(string \<times> 'e adapter) list"

text \<open>The map of the registry as an association list with distinct keys.\<close>

definition regLookup :: "'e registry \<Rightarrow> string \<Rightarrow> 'e adapter option" where
  "regLookup r k = map_of r k"

definition Register :: "'e adapter \<Rightarrow> 'e registry \<Rightarrow> 'e registry" where
  "Register a r = (ToLower (adName a), a) # filter (\<lambda>(k, _). k \<noteq> ToLower (adName a)) r"

definition NewRegistry :: "'e adapter list \<Rightarrow> 'e registry" where
  "NewRegistry as = fold Register as []"

definition registryGet :: "string \<Rightarrow> 'e registry \<Rightarrow> 'e adapter option" where
  "registryGet name r = regLookup r (ToLower (TrimSpace name))"

definition Names :: "'e registry \<Rightarrow> string list" where
  "Names r = sort (List.map fst r)"

lemma toLowerChar_idem [simp]: "toLowerChar (toLowerChar c) = toLowerChar c"
proof (cases "65 \<le> (of_char c :: nat) \<and> (of_char c :: nat) \<le> 90")
  case True
  then have "(of_char (char_of (of_char c + 32 :: nat) :: char) :: nat) = of_char c + 32" by simp
  with True show ?thesis by (simp add: toLowerChar_def)
next
  case False
  then have "toLowerChar c = c" by (auto simp: toLowerChar_def)
  then show ?thesis by simp
qed

lemma ToLower_idem [simp]: "ToLower (ToLower s) = ToLower s"
  by (simp add: ToLower_def comp_def)

lemma map_of_filter_key:
  "map_of (filter (\<lambda>(k, _). k \<noteq> x) r) k = (if k = x then None else map_of r k)"
  by (induction r) auto

lemma Register_lookup:
  "regLookup (Register a r) k = (if k = ToLower (adName a) then Some a else regLookup r k)"
  by (auto simp: regLookup_def Register_def map_of_filter_key)

lemma Register_distinct: "distinct (List.map fst r) \<Longrightarrow> distinct (List.map fst (Register a r))"
  by (auto simp: Register_def distinct_map_filter)

lemma NewRegistry_distinct: "distinct (List.map fst (NewRegistry as))"
proof -
  have "distinct (List.map fst r) \<Longrightarrow> distinct (List.map fst (fold Register as r))" for r :: "'a registry"
    by (induction as arbitrary: r) (auto intro: Register_distinct)
  then show ?thesis by (simp add: NewRegistry_def)
qed

lemma NewRegistry_lookup:
  "regLookup (NewRegistry as) k = find (\<lambda>a. ToLower (adName a) = k) (rev as)"
proof (induction as rule: rev_induct)
  case Nil
  then show ?case by (simp add: NewRegistry_def regLookup_def)
next
  case (snoc a as)
  then show ?case by (auto simp: NewRegistry_def Register_lookup)
qed

section \<open>Properties\<close>

text \<open>
  The registry finds providers by name, whatever the case and the spaces around: a lookup
  returns the adapter registered last under that name, the names listed are sorted and
  distinct, and they are the lower-case names of the adapters registered.
\<close>

theorem registry_lookup:
  "registryGet name (NewRegistry as) =
     find (\<lambda>a. ToLower (adName a) = ToLower (TrimSpace name)) (rev as)
   \<and> sorted (Names (NewRegistry as)) \<and> distinct (Names (NewRegistry as))
   \<and> set (Names (NewRegistry as)) = ToLower ` adName ` set as"
proof -
  have "set (List.map fst (fold Register as r)) = set (List.map fst r) \<union> ToLower ` adName ` set as" for r
    by (induction as arbitrary: r) (auto simp: Register_def image_iff)
  from this [of "[]"] show ?thesis
    using NewRegistry_distinct [of as]
    by (simp add: registryGet_def NewRegistry_lookup Names_def) (simp add: NewRegistry_def)
qed

end
