(* ===== verification/SessionRun.thy ===== *)
theory SessionRun
  imports RuntimeConfig Providers SessionSupervisor
begin

text \<open>
  The entry of a client session (\<^verbatim>\<open>internal/session/runtime.go\<close>): validate, plan, find the
  provider, resolve, override the TURN address, bind the local ingress, run the supervised
  session, stop.  What happens outside is an argument: the registry, the outcome of the local
  bind, the outcome of the supervised session, and the texts of the validation errors.  The
  result is the error returned and the trace of what was done and reported.
\<close>

datatype sessAction =
    Obs supAction
  | Resolved string bool
  | IngressOpened adapter_kind string
  | IngressClosed
  | Supervised

record sessEnv =
  seRegistry :: "goError registry option"
  sePolicyText :: "config_error \<Rightarrow> string"
  seOverrideText :: "override_error \<Rightarrow> string"
  seUnknownText :: "string \<Rightarrow> string"
  seListen :: "adapter_kind \<Rightarrow> string \<Rightarrow> goError option"
  seSupervise :: "sessionPlan \<Rightarrow> string \<Rightarrow> goError option \<times> supAction list"

definition startupFailure :: "stage \<Rightarrow> sessAction list" where
  "startupFailure s = [Obs (RecordSessionFailure (stageName s) True),
     Obs (EmitEvent ''runtime_failure'' (stageName s) ''failed'')]"

text \<open>The part of \<open>Run\<close> after the provider has resolved.\<close>

definition runResolved ::
    "sessEnv \<Rightarrow> clientConfig \<Rightarrow> sessionPlan \<Rightarrow> string \<Rightarrow> goError option \<times> sessAction list" where
  "runResolved env cfg plan turnAddr =
     (let ok = [Obs (EmitEvent ''provider_resolution'' (stageName ProviderResolve) ''succeeded'')];
          kind = tpIngress (spTransport plan)
      in case seListen env kind (ccListenAddr cfg) of
        Some e \<Rightarrow>
          (Wrap LocalBind (Some e),
           ok @ Obs (RecordTransportFailure (stageName LocalBind)) # startupFailure LocalBind)
      | None \<Rightarrow>
          (case seSupervise env plan turnAddr of
             (err, tr) \<Rightarrow>
               (err, ok @ [IngressOpened kind (ccListenAddr cfg), Supervised] @ List.map Obs tr @
                  (if err = None
                   then [Obs (SetActiveWorkers 0), Obs (EmitEvent ''runtime_stop'' ''shutdown'' ''stopped'')]
                   else []) @ [IngressClosed])))"

definition runPlanned ::
    "sessEnv \<Rightarrow> goError registry \<Rightarrow> clientConfig \<Rightarrow> sessionPlan \<Rightarrow> goError option \<times> sessAction list" where
  "runPlanned env reg cfg plan =
     (case registryGet (ccProvider cfg) reg of
        None \<Rightarrow> (Wrap ProviderResolve (Some (ErrText (seUnknownText env (ccProvider cfg)))),
                 startupFailure ProviderResolve)
      | Some ad \<Rightarrow>
          (let tr = [Obs (EmitEvent ''runtime_startup'' ''bootstrap'' ''started''),
                     Resolved (ccLink cfg) (ccProviderSettings cfg \<noteq> [])]
           in case adResolve ad (ccProviderSettings cfg) (ccLink cfg) of
             Inl e \<Rightarrow> (Wrap ProviderResolve (Some e), tr @ startupFailure ProviderResolve)
           | Inr res \<Rightarrow>
               (case applyTURNOverrides (crAddress (reCredentials res)) (ccTURNServer cfg) (ccTURNPort cfg) of
                  Inl e \<Rightarrow> (Wrap ProviderResolve (Some (ErrText (seOverrideText env e))),
                            tr @ startupFailure ProviderResolve)
                | Inr turnAddr \<Rightarrow> map_prod (\<lambda>e. e) (\<lambda>t. tr @ t) (runResolved env cfg plan turnAddr))))"

definition sessionRun ::
    "sessEnv \<Rightarrow> int \<Rightarrow> int \<Rightarrow> clientConfig \<Rightarrow> goError option \<times> sessAction list" where
  "sessionRun env backoff maxRestarts cfg =
     (case seRegistry env of
        None \<Rightarrow> (Wrap ProviderResolve (Some (ErrText ''provider registry is required'')), [])
      | Some reg \<Rightarrow>
          (case clientValidate cfg of
             Some e \<Rightarrow> (Wrap PolicyValidate (Some (ErrText (sePolicyText env e))), startupFailure PolicyValidate)
           | None \<Rightarrow>
               (case buildSessionPlan cfg backoff maxRestarts of
                  Inl e \<Rightarrow> (Wrap PolicyValidate (Some (ErrText (sePolicyText env e))),
                            startupFailure PolicyValidate)
                | Inr plan \<Rightarrow> runPlanned env reg (cfg\<lparr>ccMode := tpMode (spTransport plan)\<rparr>) plan)))"

section \<open>Which stage fails\<close>

text \<open>What goes wrong at a stage before the supervised session, looked at on its own.\<close>

fun stageFails :: "sessEnv \<Rightarrow> goError registry \<Rightarrow> clientConfig \<Rightarrow> stage \<Rightarrow> bool" where
  "stageFails env reg cfg PolicyValidate \<longleftrightarrow> ValidatePolicy cfg \<noteq> None"
| "stageFails env reg cfg ProviderResolve \<longleftrightarrow>
     (case registryGet (ccProvider cfg) reg of
        None \<Rightarrow> True
      | Some ad \<Rightarrow>
          (case adResolve ad (ccProviderSettings cfg) (ccLink cfg) of
             Inl _ \<Rightarrow> True
           | Inr res \<Rightarrow> \<not> is_ok (applyTURNOverrides (crAddress (reCredentials res)) (ccTURNServer cfg) (ccTURNPort cfg))))"
| "stageFails env reg cfg LocalBind \<longleftrightarrow>
     seListen env (NormalizeAdapter (ccIngress cfg)) (ccListenAddr cfg) \<noteq> None"
| "stageFails env reg cfg _ \<longleftrightarrow> False"

definition failedStages :: "sessAction list \<Rightarrow> string list" where
  "failedStages tr = List.map_filter
     (\<lambda>a. case a of Obs (RecordSessionFailure s True) \<Rightarrow> Some s | _ \<Rightarrow> None) tr"

lemma failedStages_append [simp]: "failedStages (xs @ ys) = failedStages xs @ failedStages ys"
  by (simp add: failedStages_def List.map_filter_def)

lemma failedStages_simps [simp]:
  "failedStages [] = []"
  "failedStages (a # as) =
     (case a of Obs (RecordSessionFailure s True) \<Rightarrow> [s] | _ \<Rightarrow> []) @ failedStages as"
  "failedStages (startupFailure s) = [stageName s]"
  by (auto simp: failedStages_def startupFailure_def List.map_filter_simps
      split: sessAction.splits supAction.splits bool.splits)

lemma plan_policy:
  "(\<exists>p. clientValidate cfg = None \<and> buildSessionPlan cfg b r = Inr p) \<longleftrightarrow> ValidatePolicy cfg = None"
  by (auto simp: ValidatePolicy_def buildSessionPlan_def split: option.splits sum.splits)

lemma plan_ingress: "buildSessionPlan cfg b r = Inr p \<Longrightarrow> tpIngress (spTransport p) = NormalizeAdapter (ccIngress cfg)"
  by (auto simp: buildSessionPlan_def buildTransportPlan_def Let_def split: sum.splits option.splits if_splits)

section \<open>Properties\<close>

text \<open>
  A session that does not get as far as the supervised session reports the first stage that
  fails, in the order of the stages: if policy, provider resolution or local bind fails, exactly
  one startup failure is recorded, for the least such stage, no ingress is left open, and the
  returned error is attributed to that stage, or to the stage the provider's own error already
  carried.  If none fails, the supervised session runs on an open ingress, its error is returned
  unchanged, and the ingress is closed exactly once, at the end.
\<close>

theorem session_run_first_failure:
  assumes "seRegistry env = Some reg"
  shows "let (err, tr) = sessionRun env b r cfg in
    if \<exists>s. stageFails env reg cfg s
    then \<exists>s e. stageFails env reg cfg s \<and> (\<forall>s'. stageFails env reg cfg s' \<longrightarrow> s \<le> s') \<and>
         failedStages tr = [stageName s] \<and> Supervised \<notin> set tr \<and> err = Wrap s (Some e)
    else \<exists>plan turnAddr pre post. err = fst (seSupervise env plan turnAddr) \<and>
         tr = pre @ IngressOpened (tpIngress (spTransport plan)) (ccListenAddr cfg) # Supervised # post @ [IngressClosed]
         \<and> IngressClosed \<notin> set (pre @ post)"
proof -
  obtain err tr where run: "sessionRun env b r cfg = (err, tr)" by fastforce
  have le: "PolicyValidate \<le> s" "s \<noteq> PolicyValidate \<Longrightarrow> ProviderResolve \<le> s"
    "s \<noteq> PolicyValidate \<Longrightarrow> s \<noteq> ProviderResolve \<Longrightarrow> LocalBind \<le> s" for s
    by (cases s; simp add: less_eq_stage_def)+
  have only: "stageFails env reg cfg s \<Longrightarrow> s \<in> {PolicyValidate, ProviderResolve, LocalBind}" for s
    by (cases s) auto
  have first: ?thesis if "stageFails env reg cfg s" "\<And>s'. stageFails env reg cfg s' \<Longrightarrow> s \<le> s'"
    "(\<exists>e. err = Wrap s (Some e)) \<and> failedStages tr = [stageName s] \<and> Supervised \<notin> set tr" for s
  proof -
    have ex: "\<exists>s. stageFails env reg cfg s" using that(1) by blast
    show ?thesis unfolding run Let_def prod.case if_P [OF ex] using that by blast
  qed
  show ?thesis
  proof (cases "ValidatePolicy cfg")
    case (Some e)
    then have "(\<exists>e. err = Wrap PolicyValidate (Some e)) \<and> tr = startupFailure PolicyValidate"
      using run assms plan_policy [of cfg b r]
      by (auto simp: sessionRun_def split: option.splits sum.splits)
    then show ?thesis using Some le(1) by (intro first [of PolicyValidate]) (auto simp: startupFailure_def)
  next
    case None
    then obtain p where p: "clientValidate cfg = None" "buildSessionPlan cfg b r = Inr p"
      using plan_policy [of cfg b r] by auto
    let ?cfg = "cfg\<lparr>ccMode := tpMode (spTransport p)\<rparr>"
    have planned: "runPlanned env reg ?cfg p = (err, tr)" using run p assms by (simp add: sessionRun_def)
    show ?thesis
    proof (cases "stageFails env reg cfg ProviderResolve")
      case True
      then have "(\<exists>e. err = Wrap ProviderResolve (Some e)) \<and> failedStages tr = [stageName ProviderResolve]
          \<and> Supervised \<notin> set tr"
        using planned
        by (auto simp: runPlanned_def Let_def startupFailure_def is_ok_def split: option.splits sum.splits)
      moreover have "ProviderResolve \<le> s'" if "stageFails env reg cfg s'" for s'
        using that None le(2) [of s'] by (cases "s' = PolicyValidate") auto
      ultimately show ?thesis using True first by blast
    next
      case False
      then obtain turnAddr pre where res: "runPlanned env reg ?cfg p =
          map_prod (\<lambda>e. e) (\<lambda>t. pre @ t) (runResolved env ?cfg p turnAddr)"
        "IngressClosed \<notin> set pre" "Supervised \<notin> set pre" "failedStages pre = []"
        by (auto simp: runPlanned_def Let_def is_ok_def split: option.splits sum.splits)
      show ?thesis
      proof (cases "seListen env (NormalizeAdapter (ccIngress cfg)) (ccListenAddr cfg)")
        case (Some e)
        then have "(\<exists>e. err = Wrap LocalBind (Some e)) \<and> failedStages tr = [stageName LocalBind]
            \<and> Supervised \<notin> set tr"
          using planned res plan_ingress [OF p(2)]
          by (auto simp: runResolved_def Let_def startupFailure_def)
        moreover have "LocalBind \<le> s'" if "stageFails env reg cfg s'" for s'
          using that None False le(3) [of s']
          by (cases "s' = PolicyValidate"; cases "s' = ProviderResolve") (auto simp del: stageFails.simps(2))
        moreover have "stageFails env reg cfg LocalBind" using Some by simp
        ultimately show ?thesis using first by blast
      next
        case None': None
        obtain e t where s: "seSupervise env p turnAddr = (e, t)" by fastforce
        have "err = e" using planned res None' plan_ingress [OF p(2)] s
          by (simp add: runResolved_def Let_def)
        define pre' where "pre' = pre @ [Obs (EmitEvent ''provider_resolution'' (stageName ProviderResolve) ''succeeded'')]"
        define post where "post = List.map Obs t @ (if e = None
                then [Obs (SetActiveWorkers 0), Obs (EmitEvent ''runtime_stop'' ''shutdown'' ''stopped'')]
                else [])"
        have "tr = pre' @ IngressOpened (tpIngress (spTransport p)) (ccListenAddr cfg) # Supervised #
            post @ [IngressClosed]"
          using planned res None' plan_ingress [OF p(2)] s
          by (auto simp: runResolved_def Let_def pre'_def post_def)
        moreover have none: "\<not> (\<exists>s. stageFails env reg cfg s)"
        proof
          assume "\<exists>s. stageFails env reg cfg s"
          then obtain s where s: "stageFails env reg cfg s" by blast
          from only [OF s] s None False None' show False by (auto simp del: stageFails.simps(2))
        qed
        moreover have "IngressClosed \<notin> set (pre' @ post)"
          using res(2) by (auto simp: pre'_def post_def)
        moreover have "err = fst (seSupervise env p turnAddr)" using \<open>err = e\<close> s by simp
        ultimately show ?thesis unfolding run Let_def prod.case if_not_P [OF none] by blast
      qed
    qed
  qed
qed

theorem session_run_first_failure_witness:
  "\<exists>e. fst (sessionRun \<lparr>seRegistry = Some [], sePolicyText = (\<lambda>_. []), seOverrideText = (\<lambda>_. []),
      seUnknownText = (\<lambda>_. []), seListen = (\<lambda>_ _. Some (ErrText ''busy'')),
      seSupervise = (\<lambda>_ _. (None, []))\<rparr> 0 0
     (DefaultClientConfig\<lparr>ccProvider := ''vk'', ccLink := ''l'', ccPeerAddr := ''p''\<rparr>)) =
   Wrap ProviderResolve (Some e)"
proof -
  let ?env = "\<lparr>seRegistry = Some [], sePolicyText = (\<lambda>_. []), seOverrideText = (\<lambda>_. []),
      seUnknownText = (\<lambda>_. []), seListen = (\<lambda>_ _. Some (ErrText ''busy'')),
      seSupervise = (\<lambda>_ _. (None, []))\<rparr>"
  let ?cfg = "DefaultClientConfig\<lparr>ccProvider := ''vk'', ccLink := ''l'', ccPeerAddr := ''p''\<rparr>"
  have pol: "ValidatePolicy ?cfg = None" by code_simp
  have res: "stageFails ?env [] ?cfg ProviderResolve" by (simp add: registryGet_def regLookup_def)
  obtain err tr where run: "sessionRun ?env 0 0 ?cfg = (err, tr)" by fastforce
  have reg: "seRegistry ?env = Some []" by simp
  have ex: "\<exists>s. stageFails ?env [] ?cfg s" using res by blast
  have "\<exists>s e. stageFails ?env [] ?cfg s \<and> (\<forall>s'. stageFails ?env [] ?cfg s' \<longrightarrow> s \<le> s') \<and>
      fst (sessionRun ?env 0 0 ?cfg) = Wrap s (Some e)"
    using session_run_first_failure [OF reg, of 0 0 ?cfg] unfolding run Let_def prod.case if_P [OF ex] fst_conv
    by blast
  then obtain s e where s: "stageFails ?env [] ?cfg s" "s \<le> ProviderResolve"
    "fst (sessionRun ?env 0 0 ?cfg) = Wrap s (Some e)" using res by blast
  then have "s = ProviderResolve" using pol by (cases s) (auto simp: less_eq_stage_def)
  with s(3) show ?thesis by blast
qed

end
