(* ===== verification/TurnSockets.thy ===== *)
theory TurnSockets
  imports RuntimeConfig
begin

text \<open>
  The sockets towards the TURN server (\<^verbatim>\<open>internal/transport/base.go\<close>, \<^verbatim>\<open>turnnet.go\<close>): which
  network and which local address a socket gets for a bind address and a remote address, and the
  rewriting of the addresses that the TURN library asks to listen on.  Name resolution and the
  socket calls themselves are arguments; the calls the code makes are values.
\<close>

datatype addrFamilyError =
    ResolveFailed string goError
  | FamilyMismatch string string
  | BindFailed goError
  | DialFailed goError

datatype socketCall =
    ListenPacket string string
  | DialStream string "ip option" ip string

definition validateIPFamily :: "ip \<Rightarrow> ip \<Rightarrow> addrFamilyError option" where
  "validateIPFamily bindIP remoteIP =
     (if bindIP = [] \<or> remoteIP = [] then None
      else if (To4 bindIP \<noteq> None) = (To4 remoteIP \<noteq> None) then None
      else Some (FamilyMismatch (IPString bindIP) (IPString remoteIP)))"

definition packetListenConfig :: "ip \<Rightarrow> ip \<Rightarrow> string \<times> string" where
  "packetListenConfig bindIP remoteIP =
     (if bindIP \<noteq> [] then
        (if To4 bindIP \<noteq> None then (''udp4'', JoinHostPort (IPString bindIP) ''0'')
         else (''udp6'', JoinHostPort (IPString bindIP) ''0''))
      else if remoteIP \<noteq> [] \<and> To4 remoteIP = None then (''udp6'', ''[::]:0'')
      else (''udp4'', ''0.0.0.0:0''))"

text \<open>A resolved address is an IP and a port; \<open>resolve\<close> is the resolver of the network.\<close>

definition listenTURNPacketConn ::
    "(string \<Rightarrow> goError + ip \<times> string) \<Rightarrow> (socketCall \<Rightarrow> goError option) \<Rightarrow> string \<Rightarrow> ip \<Rightarrow>
       addrFamilyError + socketCall" where
  "listenTURNPacketConn resolve sock turnAddr bindIP =
     (case resolve turnAddr of
        Inl e \<Rightarrow> Inl (ResolveFailed turnAddr e)
      | Inr (remoteIP, _) \<Rightarrow>
          (case validateIPFamily bindIP remoteIP of
             Some e \<Rightarrow> Inl e
           | None \<Rightarrow>
               (let call = (case packetListenConfig bindIP remoteIP of (n, a) \<Rightarrow> ListenPacket n a) in
                case sock call of Some e \<Rightarrow> Inl (BindFailed e) | None \<Rightarrow> Inr call)))"

definition dialTURNStream ::
    "(string \<Rightarrow> goError + ip \<times> string) \<Rightarrow> (socketCall \<Rightarrow> goError option) \<Rightarrow> string \<Rightarrow> ip \<Rightarrow>
       addrFamilyError + socketCall" where
  "dialTURNStream resolve sock turnAddr bindIP =
     (case resolve turnAddr of
        Inl e \<Rightarrow> Inl (ResolveFailed turnAddr e)
      | Inr (remoteIP, port) \<Rightarrow>
          (case validateIPFamily bindIP remoteIP of
             Some e \<Rightarrow> Inl e
           | None \<Rightarrow>
               (let network = (if To4 remoteIP \<noteq> None then ''tcp4''
                               else if remoteIP \<noteq> [] then ''tcp6'' else ''tcp'');
                    call = DialStream network (if bindIP = [] then None else Some bindIP) remoteIP port
                in case sock call of Some e \<Rightarrow> Inl (DialFailed e) | None \<Rightarrow> Inr call)))"

definition openTURNBaseConn ::
    "(string \<Rightarrow> goError + ip \<times> string) \<Rightarrow> (socketCall \<Rightarrow> goError option) \<Rightarrow> turnMode \<Rightarrow> string \<Rightarrow> ip \<Rightarrow>
       addrFamilyError + socketCall" where
  "openTURNBaseConn resolve sock mode turnAddr bindIP =
     (case mode of
        TURNModeUDP \<Rightarrow> listenTURNPacketConn resolve sock turnAddr bindIP
      | TURNModeTCP \<Rightarrow> dialTURNStream resolve sock turnAddr bindIP)"

section \<open>The network handed to the TURN library\<close>

definition isSocketNetwork :: "string \<Rightarrow> bool" where
  "isSocketNetwork network \<longleftrightarrow> prefix ''tcp'' network \<or> prefix ''udp'' network"

definition rewriteBindAddress :: "string \<Rightarrow> string \<Rightarrow> ip \<Rightarrow> string" where
  "rewriteBindAddress network address bindIP =
     (if bindIP = [] \<or> \<not> isSocketNetwork network then address
      else case SplitHostPort address of
        Inl _ \<Rightarrow> address
      | Inr (host, port) \<Rightarrow>
          if host \<noteq> [] \<and> ParseIP host \<noteq> [] \<and> \<not> IsUnspecified (ParseIP host) then address
          else JoinHostPort (IPString bindIP) port)"

datatype localAddr = TCPAddr ip | UDPAddr ip

definition localTCPAddr :: "ip \<Rightarrow> localAddr option" where
  "localTCPAddr bindIP = (if bindIP = [] then None else Some (TCPAddr bindIP))"

definition localUDPAddr :: "ip \<Rightarrow> localAddr option" where
  "localUDPAddr bindIP = (if bindIP = [] then None else Some (UDPAddr bindIP))"

definition localAddrForNetwork :: "string \<Rightarrow> ip \<Rightarrow> localAddr option" where
  "localAddrForNetwork network bindIP =
     (if bindIP = [] then None
      else if prefix ''tcp'' network then localTCPAddr bindIP
      else if prefix ''udp'' network then localUDPAddr bindIP
      else None)"

text \<open>The local address \<open>DialTCP\<close> and \<open>DialUDP\<close> of the network pass on.\<close>

definition turnNetDialTCP :: "ip \<Rightarrow> localAddr option \<Rightarrow> localAddr option" where
  "turnNetDialTCP bindIP laddr = (if laddr = None then localTCPAddr bindIP else laddr)"

definition turnNetDialUDP :: "ip \<Rightarrow> localAddr option \<Rightarrow> localAddr option" where
  "turnNetDialUDP bindIP laddr = (if laddr = None then localUDPAddr bindIP else laddr)"

text \<open>A dialer keeps the local address of its first call.\<close>

record turnDialer =
  tdBindIP :: ip
  tdLocalAddr :: "localAddr option"

definition CreateDialer :: "ip \<Rightarrow> localAddr option \<Rightarrow> turnDialer" where
  "CreateDialer bindIP laddr = \<lparr>tdBindIP = bindIP, tdLocalAddr = laddr\<rparr>"

definition turnDial :: "string \<Rightarrow> turnDialer \<Rightarrow> localAddr option \<times> turnDialer" where
  "turnDial network d =
     (let d1 = (if tdLocalAddr d = None
                then d\<lparr>tdLocalAddr := localAddrForNetwork network (tdBindIP d)\<rparr> else d)
      in (tdLocalAddr d1, d1))"

section \<open>Lemmas\<close>

text \<open>Strings of IP addresses have no brackets.\<close>

lemma hexString_chars: "c \<in> set (hexString n) \<Longrightarrow> c \<in> set (map hexDigit [0..<16])"
proof (induction n rule: hexString.induct)
  case (1 n)
  from 1 show ?case by (subst (asm) (2) hexString.simps) (auto split: if_splits)
qed

lemma hexString_bracketFree [simp]: "CHR ''['' \<notin> set (hexString n)" "CHR '']'' \<notin> set (hexString n)"
proof -
  have "CHR ''['' \<notin> set (map hexDigit [0..<16])" "CHR '']'' \<notin> set (map hexDigit [0..<16])"
    by code_simp+
  then show "CHR ''['' \<notin> set (hexString n)" "CHR '']'' \<notin> set (hexString n)"
    using hexString_chars by blast+
qed

lemma hexDigit_bracketFree [simp]:
  "n < 16 \<Longrightarrow> hexDigit n \<noteq> CHR ''[''" "n < 16 \<Longrightarrow> hexDigit n \<noteq> CHR '']''"
  "n < 16 \<Longrightarrow> CHR ''['' \<noteq> hexDigit n" "n < 16 \<Longrightarrow> CHR '']'' \<noteq> hexDigit n"
proof -
  have "\<forall>n\<in>set [0..<16]. hexDigit n \<noteq> CHR ''['' \<and> hexDigit n \<noteq> CHR '']''" by code_simp
  then show "n < 16 \<Longrightarrow> hexDigit n \<noteq> CHR ''[''" "n < 16 \<Longrightarrow> hexDigit n \<noteq> CHR '']''"
    "n < 16 \<Longrightarrow> CHR ''['' \<noteq> hexDigit n" "n < 16 \<Longrightarrow> CHR '']'' \<noteq> hexDigit n"
    by (metis atLeastLessThan_iff atLeast_upt lessThan_iff)+
qed

lemma set_joinWith: "set (joinWith sep ss) \<subseteq> set sep \<union> (\<Union>s\<in>set ss. set s)"
  by (auto simp: joinWith_def split: list.splits)

lemma IPString_bracketFree: "bracketFree (IPString i)"
proof -
  have q: "CHR ''['' \<notin> set (joinWith '':'' (map hexString gs))"
    "CHR '']'' \<notin> set (joinWith '':'' (map hexString gs))"
    "CHR ''['' \<notin> set (joinWith ''.'' (map (\<lambda>b. itoa (unat b)) v))"
    "CHR '']'' \<notin> set (joinWith ''.'' (map (\<lambda>b. itoa (unat b)) v))" for gs and v :: "byte list"
    using set_joinWith [of "'':''" "map hexString gs"]
      set_joinWith [of "''.''" "map (\<lambda>b. itoa (unat b)) v"] by auto
  have h: "unat b div 16 < 16" "unat b mod 16 < 16" for b :: byte
    using unsigned_less [of b, where 'a = nat] by auto
  show ?thesis using q h
    by (auto simp: bracketFree_def IPString_def Let_def split: option.splits prod.splits)
qed

section \<open>Properties\<close>

text \<open>
  A socket towards the TURN server is opened in the address family of the server: if the
  base connection is opened, the server's name resolved, the network of the call is an IPv4
  network exactly if the resolved address is an IPv4 address (or unknown, with no IPv6 bind
  address, for a packet socket), and a bind address, if configured, is the local address of the
  call and belongs to the same family.
\<close>

theorem turn_socket_family:
  assumes "openTURNBaseConn resolve sock mode addr bindIP = Inr call" "resolve addr = Inr (remote, port)"
  shows "sock call = None \<and> (bindIP \<noteq> [] \<longrightarrow> remote \<noteq> [] \<longrightarrow> (To4 bindIP \<noteq> None) = (To4 remote \<noteq> None)) \<and>
    (case call of
       ListenPacket network local \<Rightarrow> mode = TURNModeUDP \<and>
         (remote \<noteq> [] \<longrightarrow> network = (if To4 remote \<noteq> None then ''udp4'' else ''udp6'')) \<and>
         (bindIP \<noteq> [] \<longrightarrow> SplitHostPort local = Inr (IPString bindIP, ''0''))
     | DialStream network local ip p \<Rightarrow> mode = TURNModeTCP \<and> ip = remote \<and> p = port \<and>
         (remote \<noteq> [] \<longrightarrow> network = (if To4 remote \<noteq> None then ''tcp4'' else ''tcp6'')) \<and>
         local = (if bindIP = [] then None else Some bindIP))"
proof -
  have j: "SplitHostPort (JoinHostPort (IPString bindIP) ''0'') = Inr (IPString bindIP, ''0'')"
    by (rule Split_Join) (simp_all add: IPString_bracketFree, simp add: bracketFree_def)
  show ?thesis
    using assms j
    by (cases mode)
      (auto simp: openTURNBaseConn_def listenTURNPacketConn_def dialTURNStream_def Let_def
        validateIPFamily_def packetListenConfig_def split: option.splits if_splits prod.splits)
qed

theorem turn_socket_family_witness:
  "openTURNBaseConn (\<lambda>_. Inr ([192, 0, 2, 1], ''3478'')) (\<lambda>_. None) TURNModeUDP ''t:3478'' [198, 51, 100, 7]
     = Inr (ListenPacket ''udp4'' ''198.51.100.7:0'')
   \<and> SplitHostPort ''198.51.100.7:0'' = Inr (IPString [198, 51, 100, 7], ''0'')"
proof -
  have r: "openTURNBaseConn (\<lambda>_. Inr ([192, 0, 2, 1], ''3478'')) (\<lambda>_. None) TURNModeUDP ''t:3478'' [198, 51, 100, 7]
     = Inr (ListenPacket ''udp4'' ''198.51.100.7:0'')" by code_simp
  from turn_socket_family [OF r] r show ?thesis by simp
qed

text \<open>
  A wildcard listen address asked for by the TURN library is bound to the configured
  address, and nothing else is rewritten: on a TCP or UDP network, an address whose host is
  empty, unspecified or not an IP literal keeps its port and gets the bind address as host; an
  address with a specific IP, an address that does not parse, another network and the absence of
  a bind address leave it as it is.
\<close>

theorem rewrite_bind_address:
  "(case SplitHostPort address of
      Inl _ \<Rightarrow> rewriteBindAddress network address bindIP = address
    | Inr (host, port) \<Rightarrow>
        (if bindIP \<noteq> [] \<and> isSocketNetwork network \<and>
            (host = [] \<or> ParseIP host = [] \<or> IsUnspecified (ParseIP host))
         then SplitHostPort (rewriteBindAddress network address bindIP) = Inr (IPString bindIP, port)
         else rewriteBindAddress network address bindIP = address))"
proof (cases "SplitHostPort address")
  case (Inr hp)
  obtain h p where hp: "hp = (h, p)" by fastforce
  note ok = Split_ok [OF Inr [unfolded hp]]
  have "SplitHostPort (JoinHostPort (IPString bindIP) p) = Inr (IPString bindIP, p)"
    using IPString_bracketFree ok(2,3) by (rule Split_Join)
  then show ?thesis using Inr hp by (auto simp: rewriteBindAddress_def)
qed (auto simp: rewriteBindAddress_def)

text \<open>A dialer that dialled TCP first offers a TCP address to a UDP dial.\<close>

theorem dialer_keeps_first_network:
  "fst (turnDial ''udp'' (snd (turnDial ''tcp'' (CreateDialer [192, 0, 2, 1] None)))) =
     Some (TCPAddr [192, 0, 2, 1])"
  by code_simp

end
