(* ===== verification/RelayTransport.thy ===== *)
theory RelayTransport
  imports RuntimeConfig GoChannels
begin

text \<open>
  The transport of one worker (\<^verbatim>\<open>internal/transport/client.go\<close>, \<^verbatim>\<open>relay.go\<close>, \<^verbatim>\<open>forwarders.go\<close>):
  the startup sequence with its deferred closes, the overlay handshake, and the forwarding
  loops.  The TURN and DTLS libraries, name resolution and the connections are arguments: the
  outcome of each call.  A loop reads a list of what its \<open>select\<close> or its read returns; a list
  that is used up is a loop that still waits.
\<close>

section \<open>Messages of overlay errors\<close>

primrec overlayErrorText :: "overlay_error \<Rightarrow> string" where
  "overlayErrorText (UnsupportedAdapter role kind) =
     ''unsupported '' @ role @ '' adapter '' @ goQuote kind"
| "overlayErrorText (UnsupportedOverlayAdapter kind) = ''unsupported overlay adapter '' @ goQuote kind"
| "overlayErrorText (UnsupportedAdapterCode c) = ''unsupported overlay adapter code '' @ itoa (unat c)"
| "overlayErrorText (UnsupportedFrameKind k) = ''unsupported frame kind '' @ goQuote (kindString k)"
| "overlayErrorText FrameEmpty = ''overlay frame is empty''"
| "overlayErrorText (FrameMalformed k) = ''overlay '' @ kindString k @ '' frame is malformed''"
| "overlayErrorText (FrameTooLarge n) = ''overlay frame exceeded '' @ itoa n @ '' bytes''"
| "overlayErrorText ConnReadFailed = ''read''"
| "overlayErrorText (SetWriteDeadlineFailed k) = ''set overlay '' @ kindString k @ '' write deadline: ''"
| "overlayErrorText (ConnWriteFailed k) = ''write overlay '' @ kindString k @ '' frame: ''"

definition overlayErr :: "overlay_error \<Rightarrow> goError" where
  "overlayErr e = ErrText (overlayErrorText e)"

section \<open>The client side of the overlay handshake\<close>

text \<open>
  \<open>deadlineOk\<close>: the deadline could be set.  The result is the error, and the calls made on the
  connection besides the deadline.
\<close>

definition handshakeReply :: "adapter_kind \<Rightarrow> frame \<Rightarrow> goError option" where
  "handshakeReply ingress frame =
     (if Kind frame = FrameHelloAck then
        (if SupportedPair (NormalizeAdapter ingress) (Adapter frame) then None
         else Some (ErrText (''unsupported overlay adapter pair '' @ ingress @ '' -> '' @ Adapter frame)))
      else if Kind frame = FrameHelloReject then
        Some (ErrText (if Reason frame = [] then ''overlay pairing rejected'' else Reason frame))
      else Some (ErrText (''unexpected overlay handshake frame '' @ kindString (Kind frame))))"

definition helloFrame :: "adapter_kind \<Rightarrow> frame" where
  "helloFrame ingress = (frameOfKind FrameHello)\<lparr>Adapter := NormalizeAdapter ingress\<rparr>"

definition performClientOverlayHandshake ::
    "bool \<Rightarrow> write_env \<Rightarrow> (overlay_error + byte list) \<Rightarrow> adapter_kind \<Rightarrow> goError option \<times> conn_call list" where
  "performClientOverlayHandshake deadlineOk env reply ingress =
     (if \<not> deadlineOk then (Some (ErrWrap ''set overlay handshake deadline: '' (ErrText [])), [])
      else case WriteFrame env (helloFrame ingress) of
        (Inl e, calls) \<Rightarrow> (Some (ErrWrap ''write overlay hello: '' (overlayErr e)), calls)
      | (Inr _, calls) \<Rightarrow>
          (case ReadFrame reply of
             Inl e \<Rightarrow> (Some (ErrWrap ''read overlay hello response: '' (overlayErr e)), calls)
           | Inr frame \<Rightarrow> (handshakeReply ingress frame, calls)))"

section \<open>The forwarding loops\<close>

definition countsAsTraffic :: "frame \<Rightarrow> bool" where
  "countsAsTraffic f \<longleftrightarrow> Kind f = FrameDatagram \<or> Kind f = FrameStreamData"

text \<open>\<open>recordOverlayTraffic\<close>: what is reported for a frame, the direction and the payload length.\<close>

definition recordOverlayTraffic :: "frame \<Rightarrow> string \<Rightarrow> (string \<times> nat) list" where
  "recordOverlayTraffic f direction =
     (if countsAsTraffic f then [(direction, length (Payload f))] else [])"

definition LocalToRelay :: string where "LocalToRelay = ''local_to_relay''"
definition RelayToLocal :: string where "RelayToLocal = ''relay_to_local''"

text \<open>
  What the \<open>select\<close> over the context and the outbound channel yields: cancellation, the channel
  closed, or a frame with the outcome of its write.  The flag is \<open>ctx.Err() != nil\<close> at the check
  after a failure.
\<close>

datatype outboundIn = OutDone | OutClosed bool | OutFrame frame write_env bool

type_synonym loopResult = "goError option option"

fun frameChannelToEndpoint ::
    "outboundIn list \<Rightarrow> loopResult \<times> conn_call list \<times> (string \<times> nat) list" where
  "frameChannelToEndpoint [] = (None, [], [])"
| "frameChannelToEndpoint (OutDone # xs) = (Some None, [], [])"
| "frameChannelToEndpoint (OutClosed cancelled # xs) =
     (Some (if cancelled then None else Some (ErrText ''worker outbound channel closed'')), [], [])"
| "frameChannelToEndpoint (OutFrame f env cancelled # xs) =
     (case WriteFrame env f of
        (Inl e, calls) \<Rightarrow> (Some (if cancelled then None else Some (overlayErr e)), calls, [])
      | (Inr _, calls) \<Rightarrow>
          (case frameChannelToEndpoint xs of
             (r, calls', tr) \<Rightarrow> (r, calls @ calls', recordOverlayTraffic f LocalToRelay @ tr)))"

text \<open>
  The frames a client takes from the relay, and what the loop does with each: the state of the
  inbound handler is threaded through.
\<close>

definition clientAccepts :: "frame \<Rightarrow> bool" where
  "clientAccepts f \<longleftrightarrow> Kind f = FrameDatagram \<or> Kind f = FrameStreamData \<or> Kind f = FrameStreamClose"

fun endpointToFrameHandler ::
    "(frame \<Rightarrow> 's \<Rightarrow> goError option \<times> 's) \<Rightarrow> ((overlay_error + byte list) \<times> bool) list \<Rightarrow> 's \<Rightarrow>
       loopResult \<times> 's \<times> (string \<times> nat) list" where
  "endpointToFrameHandler inbound [] s = (None, s, [])"
| "endpointToFrameHandler inbound ((r, cancelled) # xs) s =
     (case ReadFrame r of
        Inl e \<Rightarrow>
          (Some (if cancelled then None else Some (ErrWrap ''read overlay frame: '' (overlayErr e))), s, [])
      | Inr f \<Rightarrow>
          if \<not> clientAccepts f then endpointToFrameHandler inbound xs s
          else case inbound f s of
            (Some e, s') \<Rightarrow> (Some (if cancelled then None else Some e), s', [])
          | (None, s') \<Rightarrow>
              (case endpointToFrameHandler inbound xs s' of
                 (res, s'', tr) \<Rightarrow> (res, s'', recordOverlayTraffic f RelayToLocal @ tr)))"

section \<open>Datagrams without an overlay\<close>

type_synonym lastRouteID = "64 word option"

definition routeStore :: "64 word \<Rightarrow> lastRouteID \<Rightarrow> lastRouteID" where
  "routeStore routeID p = Some routeID"

definition routeLoad :: "lastRouteID \<Rightarrow> 64 word option" where
  "routeLoad p = p"

datatype datagramIn = DatagramOut frame bool bool | DatagramBack "byte list" bool | DatagramBackError bool
  | DatagramDone | DatagramClosed bool

text \<open>
  One step of \<open>datagramChannelToRelay\<close>: the result ends the loop, \<open>None\<close> goes on.  The datagrams
  written to the relay are the second component.
\<close>

definition datagramToRelay ::
    "frame \<Rightarrow> bool \<Rightarrow> bool \<Rightarrow> lastRouteID \<Rightarrow> loopResult \<times> byte list list \<times> lastRouteID" where
  "datagramToRelay f writeErr cancelled p =
     (if Kind f \<noteq> FrameDatagram
      then (Some (Some (ErrText (''plain peer path does not support overlay '' @ kindString (Kind f) @ '' frames''))), [], p)
      else
        let p' = routeStore (RouteID f) p in
        if writeErr
        then (Some (if cancelled then None else Some (ErrWrap ''write relay datagram: '' (ErrText []))), [], p')
        else (None, [Payload f], p'))"

definition relayDatagram :: "64 word \<Rightarrow> byte list \<Rightarrow> frame" where
  "relayDatagram routeID bs =
     (frameOfKind FrameDatagram)\<lparr>RouteID := routeID, Payload := take DefaultDatagramBufferSize bs\<rparr>"

text \<open>One step of \<open>relayToDatagramHandler\<close>.\<close>

definition relayToHandler ::
    "(frame \<Rightarrow> 's \<Rightarrow> goError option \<times> 's) \<Rightarrow> byte list \<Rightarrow> bool \<Rightarrow> lastRouteID \<Rightarrow> 's \<Rightarrow> loopResult \<times> 's" where
  "relayToHandler inbound bs cancelled p s =
     (case routeLoad p of
        None \<Rightarrow> (None, s)
      | Some routeID \<Rightarrow>
          (case inbound (relayDatagram routeID bs) s of
             (Some e, s') \<Rightarrow> (Some (if cancelled then None else Some e), s')
           | (None, s') \<Rightarrow> (None, s')))"

text \<open>
  The two loops share the last route, so a run is a sequence of the steps of both.  A loop that
  has returned takes no further step.
\<close>

record 's directState =
  dsTarget :: lastRouteID
  dsHandler :: 's
  dsSent :: "byte list list"
  dsOut :: loopResult
  dsBack :: loopResult

fun directStep :: "(frame \<Rightarrow> 's \<Rightarrow> goError option \<times> 's) \<Rightarrow> datagramIn \<Rightarrow> 's directState \<Rightarrow> 's directState" where
  "directStep inbound (DatagramOut f writeErr cancelled) d =
     (if dsOut d \<noteq> None then d
      else case datagramToRelay f writeErr cancelled (dsTarget d) of
        (r, sent, p) \<Rightarrow> d\<lparr>dsOut := r, dsSent := dsSent d @ sent, dsTarget := p\<rparr>)"
| "directStep inbound DatagramDone d = (if dsOut d \<noteq> None then d else d\<lparr>dsOut := Some None\<rparr>)"
| "directStep inbound (DatagramClosed cancelled) d =
     (if dsOut d \<noteq> None then d
      else d\<lparr>dsOut := Some (if cancelled then None else Some (ErrText ''worker outbound channel closed''))\<rparr>)"
| "directStep inbound (DatagramBack bs cancelled) d =
     (if dsBack d \<noteq> None then d
      else case relayToHandler inbound bs cancelled (dsTarget d) (dsHandler d) of
        (r, s) \<Rightarrow> d\<lparr>dsBack := r, dsHandler := s\<rparr>)"
| "directStep inbound (DatagramBackError cancelled) d =
     (if dsBack d \<noteq> None then d
      else d\<lparr>dsBack := Some (if cancelled then None
        else Some (ErrWrap ''read relay datagram: '' (ErrText [])))\<rparr>)"

text \<open>
  \<open>waitForwarderErrors\<close> on the results of the loops in the order they return: the error, and
  whether the loop context is cancelled on the way.
\<close>

definition waitForwarderErrors :: "bool \<Rightarrow> goError option list \<Rightarrow> goError option \<times> bool" where
  "waitForwarderErrors ctxDone results =
     ((if ctxDone then None else Join results), \<exists>r\<in>set results. r \<noteq> None)"

section \<open>The run of a worker\<close>

datatype resource = ResIngress | ResBase | ResClient | ResRelay | ResPeer

datatype clientAction =
    Acquired resource
  | Released resource
  | HookLocalBind
  | HookBaseBind
  | HookRelayAllocate
  | HookReady
  | Handshaken
  | IngressStarted
  | Forwarding

text \<open>
  The outcome of each call of the startup sequence.  \<open>ctOutbound\<close> and \<open>ctInbound\<close> say whether the
  configuration brings the hooks of a supervised worker.
\<close>

record clientEnv =
  ctOutbound :: bool
  ctInbound :: bool
  ctIngress :: adapter_kind
  ctPeerMode :: peerMode
  ctOpenIngress :: "goError option"
  ctOpenBase :: "goError option"
  ctNewNet :: "goError option"
  ctNewClient :: "goError option"
  ctListen :: "goError option"
  ctAllocate :: "goError option"
  ctResolvePeer :: "goError option"
  ctDTLSClient :: "goError option"
  ctDTLSHandshake :: "goError option"
  ctOverlayHandshake :: "goError option"
  ctForward :: "goError option"

definition openIngress :: "clientEnv \<Rightarrow> goError + bool" where
  "openIngress env =
     (if ctOutbound env \<or> ctInbound env then
        (if \<not> ctOutbound env \<or> \<not> ctInbound env
         then Inl (ErrText ''supervised worker transport requires both outbound and inbound hooks'')
         else Inr False)
      else case ctOpenIngress env of
        Some e \<Rightarrow> Inl (the (Wrap LocalBind (Some e)))
      | None \<Rightarrow> Inr True)"

definition openPeerRelay :: "clientEnv \<Rightarrow> goError option" where
  "openPeerRelay env =
     (case ctResolvePeer env of
        Some e \<Rightarrow> Wrap PeerSetup (Some (ErrWrap ''resolve peer addr: '' e))
      | None \<Rightarrow>
          (case ctPeerMode env of
             PeerModePlain \<Rightarrow> None
           | PeerModeDTLS \<Rightarrow>
               (case ctDTLSClient env of
                  Some e \<Rightarrow> Wrap DTLSHandshake (Some (ErrWrap ''create dtls client: '' e))
                | None \<Rightarrow>
                    (case ctDTLSHandshake env of
                       Some e \<Rightarrow> Wrap DTLSHandshake (Some (ErrWrap ''dtls handshake: '' e))
                     | None \<Rightarrow> None))))"

definition runForwarders :: "clientEnv \<Rightarrow> bool \<Rightarrow> goError option" where
  "runForwarders env ownIngress =
     (if \<not> (ownIngress \<or> ctOutbound env \<and> ctInbound env)
      then Some (ErrText ''transport forwarders require outbound and inbound hooks'')
      else if ctPeerMode env = PeerModeDTLS then ctForward env
      else if NormalizeAdapter (ctIngress env) = AdapterUDP then ctForward env
      else Some (ErrText (''unsupported overlay runtime for peer_mode=\"plain\" ingress='' @ goQuote (ctIngress env))))"

text \<open>
  A step of the sequence: what fails it, with the stage and message prefix its error gets, and
  what its success does.  The deferred closes run in reverse order of the resources acquired.
\<close>

fun runSteps :: "(goError option \<times> clientAction list) list \<Rightarrow> goError option \<times> clientAction list" where
  "runSteps [] = (None, [])"
| "runSteps ((r, acts) # steps) =
     (case r of
        Some e \<Rightarrow> (Some e, [])
      | None \<Rightarrow> (case runSteps steps of (r', tr) \<Rightarrow> (r', acts @ tr)))"

definition startupSteps :: "clientEnv \<Rightarrow> bool \<Rightarrow> (goError option \<times> clientAction list) list" where
  "startupSteps env ownIngress =
     [(None, if ownIngress then [Acquired ResIngress, HookLocalBind] else []),
      (Wrap TURNDial (ctOpenBase env), [Acquired ResBase, HookBaseBind]),
      (Wrap TURNDial (map_option (ErrWrap ''create turn network: '') (ctNewNet env)), []),
      (Wrap TURNDial (map_option (ErrWrap ''create turn client: '') (ctNewClient env)), [Acquired ResClient]),
      (Wrap TURNDial (map_option (ErrWrap ''listen turn client: '') (ctListen env)), []),
      (Wrap TURNAllocate (map_option (ErrWrap ''allocate turn relay: '') (ctAllocate env)),
       [Acquired ResRelay, HookRelayAllocate]),
      (openPeerRelay env, [Acquired ResPeer]),
      (if ctPeerMode env = PeerModeDTLS then Wrap PeerSetup (ctOverlayHandshake env) else None,
       if ctPeerMode env = PeerModeDTLS then [Handshaken] else []),
      (None, if ownIngress then [IngressStarted] else [])]"

definition clientSteps :: "clientEnv \<Rightarrow> bool \<Rightarrow> (goError option \<times> clientAction list) list" where
  "clientSteps env ownIngress = startupSteps env ownIngress @
     [(None, [HookReady, Forwarding]), (Wrap ForwardingLoop (runForwarders env ownIngress), [])]"

definition acquired :: "clientAction list \<Rightarrow> resource list" where
  "acquired tr = List.map_filter (\<lambda>a. case a of Acquired r \<Rightarrow> Some r | _ \<Rightarrow> None) tr"

definition clientRun :: "clientEnv \<Rightarrow> goError option \<times> clientAction list" where
  "clientRun env =
     (case openIngress env of
        Inl e \<Rightarrow> (Some e, [])
      | Inr ownIngress \<Rightarrow>
          (case runSteps (clientSteps env ownIngress) of
             (r, tr) \<Rightarrow> (r, tr @ List.map Released (rev (acquired tr)))))"

section \<open>Lemmas\<close>

text \<open>The startup of a worker succeeds.\<close>

definition startupOk :: "clientEnv \<Rightarrow> bool" where
  "startupOk env \<longleftrightarrow>
     (case openIngress env of Inl _ \<Rightarrow> False
      | Inr own \<Rightarrow> list_all (\<lambda>s. fst s = None) (startupSteps env own))"

lemma runSteps_ok:
  "list_all (\<lambda>s. fst s = None) steps \<Longrightarrow>
     runSteps (steps @ rest) = (case runSteps rest of (r, tr) \<Rightarrow> (r, concat (map snd steps) @ tr))"
  by (induction steps) (auto split: prod.splits)

lemma runSteps_failed:
  "\<not> list_all (\<lambda>s. fst s = None) steps \<Longrightarrow>
     fst (runSteps (steps @ rest)) \<noteq> None \<and> set (snd (runSteps (steps @ rest))) \<subseteq> set (concat (map snd steps))"
proof (induction steps)
  case (Cons s steps)
  then show ?case by (cases s; cases "fst s") (fastforce split: prod.splits)+
qed simp

lemma startup_actions:
  "HookReady \<notin> set (concat (map snd (startupSteps env own)))"
  "Released q \<notin> set (concat (map snd (startupSteps env own)))"
  by (auto simp: startupSteps_def split: if_splits)

lemma count_Released [simp]: "count_list (map Released rs) HookReady = 0"
  by (induction rs) auto

section \<open>Properties\<close>

text \<open>
  A worker releases what it acquired: whatever step fails, the trace of a run is what the
  steps before it did, followed by the release of exactly the acquired resources in reverse
  order.  The ready hook is called at most once, and exactly if the whole startup succeeded; the
  error is then the one of the forwarding loop.
\<close>

theorem client_run_releases:
  "let (r, tr) = clientRun env in
    (\<exists>acts. tr = acts @ map Released (rev (acquired acts)) \<and> (\<forall>q. Released q \<notin> set acts))
    \<and> count_list tr HookReady = (if startupOk env then 1 else 0)
    \<and> (if startupOk env
       then \<exists>own. openIngress env = Inr own \<and> r = Wrap ForwardingLoop (runForwarders env own)
       else r \<noteq> None)"
proof (cases "openIngress env")
  case (Inl e)
  then show ?thesis by (simp add: clientRun_def startupOk_def acquired_def List.map_filter_simps)
next
  case (Inr own)
  obtain r acts where run: "runSteps (clientSteps env own) = (r, acts)" by fastforce
  have tr: "clientRun env = (r, acts @ map Released (rev (acquired acts)))"
    using Inr run by (simp add: clientRun_def)
  have acts: "HookReady \<notin> set (concat (map snd (startupSteps env own)))"
    "\<And>q. Released q \<notin> set (concat (map snd (startupSteps env own)))" by (rule startup_actions)+
  show ?thesis
  proof (cases "startupOk env")
    case True
    then have ok: "list_all (\<lambda>s. fst s = None) (startupSteps env own)" using Inr by (simp add: startupOk_def)
    have "acts = concat (map snd (startupSteps env own)) @ [HookReady, Forwarding]"
      "r = Wrap ForwardingLoop (runForwarders env own)"
      using run runSteps_ok [OF ok, of "[(None, [HookReady, Forwarding]), (Wrap ForwardingLoop (runForwarders env own), [])]"]
      by (auto simp: clientSteps_def split: option.splits prod.splits)
    note eq = this
    have "\<forall>q. Released q \<notin> set acts" using eq(1) acts(2) by auto
    moreover have "count_list (acts @ map Released (rev (acquired acts))) HookReady = 1"
      using eq(1) acts(1) by (simp add: count_list_0_iff)
    ultimately show ?thesis using True Inr eq(2) by (simp only: tr Let_def prod.case if_True simp_thms) blast
  next
    case False
    then have bad: "\<not> list_all (\<lambda>s. fst s = None) (startupSteps env own)" using Inr by (simp add: startupOk_def)
    have "set acts \<subseteq> set (concat (map snd (startupSteps env own)))" "r \<noteq> None"
      using run runSteps_failed [OF bad, of "[(None, [HookReady, Forwarding]), (Wrap ForwardingLoop (runForwarders env own), [])]"]
      by (auto simp: clientSteps_def)
    moreover from this acts have "HookReady \<notin> set acts" "\<And>q. Released q \<notin> set acts" by blast+
    moreover from this have "count_list (acts @ map Released (rev (acquired acts))) HookReady = 0"
      by (simp add: count_list_0_iff)
    ultimately show ?thesis using False by (simp only: tr Let_def prod.case if_False simp_thms) blast
  qed
qed

text \<open>
  Without an overlay, replies go where the traffic came from: after a sequence of datagrams
  was written to the relay in order, a datagram that comes back is handed to the local ingress
  under the route of the last one, and before any was written it is dropped.
\<close>

theorem direct_reply_route:
  assumes "list_all (\<lambda>f. Kind f = FrameDatagram) fs" "dsOut d = None" "dsBack d = None"
  shows "let d' = fold (directStep inbound) (map (\<lambda>f. DatagramOut f False False) fs) d;
             route = (if fs = [] then dsTarget d else Some (RouteID (last fs)))
    in dsSent d' = dsSent d @ map Payload fs \<and> dsTarget d' = route \<and>
       directStep inbound (DatagramBack bs c) d' =
         (case route of
            None \<Rightarrow> d'
          | Some r \<Rightarrow>
              (case inbound (relayDatagram r bs) (dsHandler d) of
                 (Some e, s) \<Rightarrow> d'\<lparr>dsBack := Some (if c then None else Some e), dsHandler := s\<rparr>
               | (None, s) \<Rightarrow> d'\<lparr>dsHandler := s\<rparr>))"
proof -
  have "fold (directStep inbound) (map (\<lambda>f. DatagramOut f False False) fs) d =
      d\<lparr>dsSent := dsSent d @ map Payload fs,
        dsTarget := (if fs = [] then dsTarget d else Some (RouteID (last fs)))\<rparr>"
    using assms(1,2)
  proof (induction fs arbitrary: d)
    case Nil
    then show ?case by simp
  next
    case (Cons f fs)
    then show ?case by (auto simp: datagramToRelay_def routeStore_def Let_def)
  qed
  with assms(2,3) show ?thesis
    by (auto simp: Let_def relayToHandler_def routeLoad_def split: option.splits prod.splits)
qed

theorem direct_reply_route_witness:
  "dsHandler (fold (directStep (\<lambda>f s. (None, s @ [f])))
     [DatagramOut ((frameOfKind FrameDatagram)\<lparr>RouteID := 3, Payload := [1]\<rparr>) False False, DatagramBack [9] False]
     \<lparr>dsTarget = None, dsHandler = [], dsSent = [], dsOut = None, dsBack = None\<rparr>) = [relayDatagram 3 [9]]"
  using direct_reply_route [of "[(frameOfKind FrameDatagram)\<lparr>RouteID := 3, Payload := [1]\<rparr>]"
    "\<lparr>dsTarget = None, dsHandler = [], dsSent = [], dsOut = None, dsBack = None\<rparr>"
    "\<lambda>f s. (None, s @ [f])" "[9]" False]
  by (simp add: frameOfKind_def Let_def)

end
