(* ===== verification/ServerOverlay.thy ===== *)
theory ServerOverlay
  imports RelayTransport UdpIngress
begin

text \<open>
  The overlay session of the server (\<^verbatim>\<open>internal/tunnelserver/overlay_session.go\<close>): the server side
  of the handshake, the loop over the client's frames, the wait for both loops, and the UDP
  egress.  The TCP egress is in the theory \<open>TcpEgress\<close>.
\<close>

section \<open>The handshake\<close>

record sessionInitError =
  initStage :: string
  initErr :: goError

definition initErrorStage :: "sessionInitError \<Rightarrow> string" where
  "initErrorStage e = (if initStage e \<noteq> [] then initStage e else ''peer_setup'')"

definition peerSetupError :: "goError \<Rightarrow> sessionInitError" where
  "peerSetupError e = \<lparr>initStage = ''peer_setup'', initErr = e\<rparr>"

text \<open>\<open>newEgressAdapter\<close>: \<open>dial\<close> is the outcome of dialling the UDP upstream.\<close>

definition newEgressAdapter :: "serverConfig \<Rightarrow> goError option \<Rightarrow> sessionInitError + adapter_kind" where
  "newEgressAdapter cfg dial =
     (let kind = NormalizeAdapter (scEgress cfg) in
      if kind = AdapterUDP then
        (case dial of
           Some e \<Rightarrow> Inl \<lparr>initStage = ''upstream_dial'', initErr = ErrWrap ''dial upstream: '' e\<rparr>
         | None \<Rightarrow> Inr AdapterUDP)
      else if kind = AdapterTCP then Inr AdapterTCP
      else Inl (peerSetupError (ErrText (''unsupported server egress adapter '' @ goQuote (scEgress cfg)))))"

definition rejectFrame :: "string \<Rightarrow> frame" where
  "rejectFrame reason = (frameOfKind FrameHelloReject)\<lparr>Reason := reason\<rparr>"

definition ackFrame :: "adapter_kind \<Rightarrow> frame" where
  "ackFrame egress = (frameOfKind FrameHelloAck)\<lparr>Adapter := egress\<rparr>"

definition pairText :: "adapter_kind \<Rightarrow> adapter_kind \<Rightarrow> string" where
  "pairText ingress egress = ''unsupported overlay adapter pair '' @ ingress @ '' -> '' @ egress"

definition newServerOverlaySession ::
    "serverConfig \<Rightarrow> bool \<Rightarrow> (overlay_error + byte list) \<Rightarrow> goError option \<Rightarrow> write_env \<Rightarrow>
       (sessionInitError + adapter_kind) \<times> conn_call list" where
  "newServerOverlaySession cfg deadlineOk hello dial env =
     (if \<not> deadlineOk
      then (Inl (peerSetupError (ErrWrap ''set overlay handshake deadline: '' (ErrText []))), [])
      else case ReadFrame hello of
        Inl e \<Rightarrow> (Inl (peerSetupError (ErrWrap ''read overlay hello: '' (overlayErr e))), [])
      | Inr frame \<Rightarrow>
          if Kind frame \<noteq> FrameHello
          then (Inl (peerSetupError (ErrText (''expected overlay hello frame, got '' @ kindString (Kind frame)))), [])
          else
            let ingress = NormalizeAdapter (Adapter frame); egress = NormalizeAdapter (scEgress cfg) in
            if \<not> SupportedPair ingress egress
            then (Inl (peerSetupError (ErrText (pairText ingress egress))),
                  snd (WriteFrame env (rejectFrame (pairText ingress egress))))
            else case newEgressAdapter cfg dial of
              Inl e \<Rightarrow> (Inl e, snd (WriteFrame env (rejectFrame (errorText (initErr e)))))
            | Inr adapter \<Rightarrow>
                (case WriteFrame env (ackFrame egress) of
                   (Inl e, calls) \<Rightarrow>
                     (Inl (peerSetupError (ErrWrap ''write overlay hello ack: '' (overlayErr e))), calls)
                 | (Inr _, calls) \<Rightarrow> (Inr adapter, calls)))"

section \<open>The loops of a session\<close>

definition serverAccepts :: "frame \<Rightarrow> bool" where
  "serverAccepts f \<longleftrightarrow> Kind f = FrameDatagram \<or> Kind f = FrameStreamOpen \<or>
     Kind f = FrameStreamData \<or> Kind f = FrameStreamClose"

text \<open>A round of \<open>runClientFrames\<close>: deadline, read, and \<open>ctx.Err() != nil\<close> at the check after a failure.\<close>

record frameRound =
  frDeadlineOk :: bool
  frRead :: "overlay_error + byte list"
  frCancelled :: bool

fun runClientFrames ::
    "(frame \<Rightarrow> 's \<Rightarrow> goError option \<times> 's) \<Rightarrow> frameRound list \<Rightarrow> 's \<Rightarrow> loopResult \<times> 's" where
  "runClientFrames handle [] s = (None, s)"
| "runClientFrames handle (r # rs) s =
     (if \<not> frDeadlineOk r
      then (Some (Some (ErrWrap ''set overlay read deadline: '' (ErrText []))), s)
      else case ReadFrame (frRead r) of
        Inl e \<Rightarrow>
          (Some (if frCancelled r then None else Some (ErrWrap ''read overlay frame: '' (overlayErr e))), s)
      | Inr f \<Rightarrow>
          if \<not> serverAccepts f then runClientFrames handle rs s
          else case handle f s of
            (Some e, s') \<Rightarrow> (Some (if frCancelled r then None else Some e), s')
          | (None, s') \<Rightarrow> runClientFrames handle rs s')"

text \<open>The wait for both loops is that of the client's forwarders.\<close>

definition serverSessionRun :: "bool \<Rightarrow> goError option list \<Rightarrow> goError option \<times> bool" where
  "serverSessionRun ctxDone results =
     ((if ctxDone then None else Join results), \<exists>r\<in>set results. r \<noteq> None)"

section \<open>The UDP egress\<close>

record udpEgress =
  ueRoute :: "64 word"
  ueRouteReady :: bool
  ueUpstream :: "byte list list"
  ueForwarded :: "(string \<times> nat) list"

definition newUDPEgress :: udpEgress where
  "newUDPEgress = \<lparr>ueRoute = 0, ueRouteReady = False, ueUpstream = [], ueForwarded = []\<rparr>"

definition ueStoreRoute :: "64 word \<Rightarrow> udpEgress \<Rightarrow> udpEgress" where
  "ueStoreRoute routeID a = a\<lparr>ueRoute := routeID, ueRouteReady := True\<rparr>"

definition ueLoadRoute :: "udpEgress \<Rightarrow> 64 word option" where
  "ueLoadRoute a = (if ueRouteReady a then Some (ueRoute a) else None)"

definition udpHandleFrame :: "bool \<Rightarrow> frame \<Rightarrow> udpEgress \<Rightarrow> goError option \<times> udpEgress" where
  "udpHandleFrame writeErr frame a =
     (if Kind frame \<noteq> FrameDatagram
      then (Some (ErrText (''udp egress cannot handle overlay '' @ kindString (Kind frame) @ '' frames'')), a)
      else
        let a1 = ueStoreRoute (RouteID frame) a in
        if writeErr then (Some (ErrWrap ''write udp upstream: '' (ErrText [])), a1)
        else (None, a1\<lparr>ueUpstream := ueUpstream a1 @ [Payload frame],
               ueForwarded := ueForwarded a1 @ [(''client_to_upstream'', length (Payload frame))]\<rparr>))"

datatype upstreamRead = UpData "byte list" write_env | UpTimeout | UpError

text \<open>A round of the UDP egress loop: the result that ends it, and the calls on the endpoint.\<close>

definition udpEgressRound ::
    "upstreamRead \<Rightarrow> bool \<Rightarrow> udpEgress \<Rightarrow> loopResult \<times> conn_call list \<times> udpEgress" where
  "udpEgressRound r cancelled a =
     (case r of
        UpError \<Rightarrow> (Some (if cancelled then None else Some (ErrWrap ''read udp upstream: '' (ErrText []))), [], a)
      | UpTimeout \<Rightarrow> (if cancelled then Some None else None, [], a)
      | UpData bs env \<Rightarrow>
          (case ueLoadRoute a of
             None \<Rightarrow> (None, [], a)
           | Some routeID \<Rightarrow>
               (let frame = relayDatagram routeID bs in
                case WriteFrame env frame of
                  (Inl e, calls) \<Rightarrow> (Some (Some (overlayErr e)), calls, a)
                | (Inr _, calls) \<Rightarrow>
                    (None, calls, a\<lparr>ueForwarded := ueForwarded a @
                       [(''upstream_to_client'', length (Payload frame))]\<rparr>))))"

section \<open>Frames through the tunnel\<close>

definition okEnv :: write_env where
  "okEnv = \<lparr>deadlineFails = False, writeFails = False\<rparr>"

definition okRound :: "byte list \<Rightarrow> frameRound" where
  "okRound bs = \<lparr>frDeadlineOk = True, frRead = Inr bs, frCancelled = False\<rparr>"

definition fits :: "frame \<Rightarrow> bool" where
  "fits f \<longleftrightarrow> is_ok (MarshalBinary f) \<and> frameSize f \<noteq> maxFrameSize"

text \<open>A handler applied to frames in order, for as long as it succeeds.\<close>

fun handleAll :: "(frame \<Rightarrow> 's \<Rightarrow> goError option \<times> 's) \<Rightarrow> frame list \<Rightarrow> 's \<Rightarrow> loopResult \<times> 's" where
  "handleAll h [] s = (None, s)"
| "handleAll h (f # fs) s =
     (case h f s of (Some e, s') \<Rightarrow> (Some (Some e), s') | (None, s') \<Rightarrow> handleAll h fs s')"

lemma fits_packet:
  "fits f \<Longrightarrow> \<exists>bs. WriteFrame okEnv f = (Inr (), [Write bs]) \<and> ReadFrame (Inr bs) = Inr (canonFrame f)"
  using ReadFrame_packet [of f]
  by (auto simp: fits_def is_ok_iff WriteFrame_def writeFrame_def okEnv_def)

lemma client_sends_all:
  assumes "list_all fits fs"
  shows "fst (frameChannelToEndpoint (map (\<lambda>f. OutFrame f okEnv False) fs)) = None"
    and "map (\<lambda>bs. ReadFrame (Inr bs))
        (packets (fst (snd (frameChannelToEndpoint (map (\<lambda>f. OutFrame f okEnv False) fs))))) =
      map (\<lambda>f. Inr (canonFrame f)) fs"
proof -
  have "fst (frameChannelToEndpoint (map (\<lambda>f. OutFrame f okEnv False) fs)) = None \<and>
    map (\<lambda>bs. ReadFrame (Inr bs))
        (packets (fst (snd (frameChannelToEndpoint (map (\<lambda>f. OutFrame f okEnv False) fs))))) =
      map (\<lambda>f. Inr (canonFrame f)) fs"
    using assms
  proof (induction fs)
    case (Cons f fs)
    then obtain bs where "WriteFrame okEnv f = (Inr (), [Write bs])" "ReadFrame (Inr bs) = Inr (canonFrame f)"
      using fits_packet [of f] by auto
    with Cons show ?case by (auto split: prod.splits)
  qed simp
  then show "fst (frameChannelToEndpoint (map (\<lambda>f. OutFrame f okEnv False) fs)) = None"
    "map (\<lambda>bs. ReadFrame (Inr bs))
        (packets (fst (snd (frameChannelToEndpoint (map (\<lambda>f. OutFrame f okEnv False) fs))))) =
      map (\<lambda>f. Inr (canonFrame f)) fs" by auto
qed

lemma server_handles_all:
  "map (\<lambda>bs. ReadFrame (Inr bs)) ps = map Inr fs \<Longrightarrow>
     runClientFrames h (map okRound ps) s = handleAll h (filter serverAccepts fs) s"
proof (induction ps arbitrary: fs s)
  case (Cons p ps)
  then obtain f fs' where "fs = f # fs'" by (cases fs) auto
  with Cons show ?case by (auto simp: okRound_def split: prod.splits option.splits)
qed simp

lemma client_handles_all:
  "map (\<lambda>bs. ReadFrame (Inr bs)) ps = map Inr fs \<Longrightarrow>
     endpointToFrameHandler h (map (\<lambda>bs. (Inr bs, False)) ps) s = (r, s', tr) \<Longrightarrow>
     handleAll h (filter clientAccepts fs) s = (r, s')"
proof (induction ps arbitrary: fs s r s' tr)
  case (Cons p ps)
  then obtain f fs' where fs: "fs = f # fs'" "ReadFrame (Inr p) = Inr f"
    "map (\<lambda>bs. ReadFrame (Inr bs)) ps = map Inr fs'" by (cases fs) auto
  show ?case
  proof (cases "clientAccepts f")
    case True
    with Cons.prems(2) fs Cons.IH [OF fs(3)] show ?thesis
      by (auto split: prod.splits option.splits)
  next
    case False
    with Cons.prems(2) fs Cons.IH [OF fs(3)] show ?thesis by simp
  qed
qed simp

text \<open>The handshake frames travel unchanged.\<close>

lemma hello_sent:
  assumes "packets (snd (WriteFrame okEnv (helloFrame ingress))) = [h]"
  shows "ReadFrame (Inr h) = Inr (helloFrame ingress)"
    and "NormalizeAdapter ingress \<in> {AdapterUDP, AdapterTCP}"
    and "WriteFrame okEnv (helloFrame ingress) = (Inr (), [Write h])"
proof -
  obtain k where k: "NormalizeAdapter ingress = k" "NormalizeAdapter k = k" by auto
  have m: "MarshalBinary (helloFrame ingress) = Inr h"
    using assms by (auto simp: WriteFrame_packets split: sum.splits)
  then show n: "NormalizeAdapter ingress \<in> {AdapterUDP, AdapterTCP}"
    by (auto simp: MarshalBinary_def helloFrame_def frameOfKind_def adapterCode_def Let_def
        split: if_splits)
  have c: "canonFrame (helloFrame ingress) = helloFrame ingress"
    by (simp add: canonFrame_def helloFrame_def frameOfKind_def)
  have "frameSize (helloFrame ingress) \<noteq> maxFrameSize"
    by (simp add: frameSize_def helloFrame_def frameOfKind_def maxFrameSize_def)
  from ReadFrame_packet [OF m this] c show "ReadFrame (Inr h) = Inr (helloFrame ingress)" by simp
  show "WriteFrame okEnv (helloFrame ingress) = (Inr (), [Write h])"
    using m by (simp add: WriteFrame_def writeFrame_def okEnv_def)
qed

lemma ack_sent:
  assumes "k \<in> {AdapterUDP, AdapterTCP}"
  shows "\<exists>bs. WriteFrame okEnv (ackFrame k) = (Inr (), [Write bs]) \<and> ReadFrame (Inr bs) = Inr (ackFrame k)"
proof -
  have n: "NormalizeAdapter k = k" using assms by auto
  obtain bs where m: "MarshalBinary (ackFrame k) = Inr bs"
    using assms by (auto simp: MarshalBinary_def ackFrame_def frameOfKind_def adapterCode_def Let_def)
  have "canonFrame (ackFrame k) = ackFrame k"
    using n by (simp add: canonFrame_def ackFrame_def frameOfKind_def)
  moreover have "frameSize (ackFrame k) \<noteq> maxFrameSize"
    by (simp add: frameSize_def ackFrame_def frameOfKind_def maxFrameSize_def)
  ultimately have "ReadFrame (Inr bs) = Inr (ackFrame k)" using ReadFrame_packet [OF m] by simp
  with m show ?thesis by (simp add: WriteFrame_def writeFrame_def okEnv_def)
qed

lemma reject_sent:
  assumes "packets (snd (WriteFrame okEnv (rejectFrame t))) = [bs]" "length bs \<noteq> maxFrameSize"
  shows "ReadFrame (Inr bs) = Inr (rejectFrame t)"
proof -
  have m: "MarshalBinary (rejectFrame t) = Inr bs"
    using assms(1) by (auto simp: WriteFrame_packets split: sum.splits)
  have "canonFrame (rejectFrame t) = rejectFrame t"
    by (simp add: canonFrame_def rejectFrame_def frameOfKind_def)
  moreover have "frameSize (rejectFrame t) \<noteq> maxFrameSize"
    using length_MarshalBinary [OF m] assms(2) by simp
  ultimately show ?thesis using ReadFrame_packet [OF m] by simp
qed

lemma init_error_text: "newEgressAdapter cfg dial = Inl e \<Longrightarrow> errorText (initErr e) \<noteq> []"
  by (auto simp: newEgressAdapter_def Let_def peerSetupError_def split: if_splits option.splits)

section \<open>Properties\<close>

text \<open>
  C8: Client and server agree on the handshake.  When the server reads the client's hello and
  the client reads the server's answer, and no call on a connection fails, both sides succeed or
  both fail; they succeed exactly if the pair of adapters is supported and the server's egress
  opens, and when the server rejects the client, the client's error is the server's reason.
\<close>

theorem handshake_agreement:
  assumes "performClientOverlayHandshake True okEnv reply ingress = (clientErr, clientCalls)"
    and "newServerOverlaySession cfg True hello dial okEnv = (serverRes, serverCalls)"
    and "packets clientCalls = [h]" "hello = Inr h"
    and "packets serverCalls = [r]" "reply = Inr r" "length r \<noteq> maxFrameSize"
  shows "(clientErr = None \<longleftrightarrow> is_ok serverRes)
    \<and> (is_ok serverRes \<longleftrightarrow> SupportedPair ingress (scEgress cfg) \<and> is_ok (newEgressAdapter cfg dial))
    \<and> (case serverRes of
         Inr adapter \<Rightarrow> adapter = NormalizeAdapter (scEgress cfg)
       | Inl e \<Rightarrow> clientErr = Some (ErrText (errorText (initErr e))))"
proof -
  have w: "packets (snd (WriteFrame okEnv (helloFrame ingress))) = [h]"
    using assms(1,3) by (auto simp: performClientOverlayHandshake_def split: prod.splits sum.splits)
  note hello = hello_sent [OF w]
  let ?e = "NormalizeAdapter (scEgress cfg)" and ?i = "NormalizeAdapter ingress"
  have client: "clientErr = (case ReadFrame reply of
      Inl e \<Rightarrow> Some (ErrWrap ''read overlay hello response: '' (overlayErr e))
    | Inr frame \<Rightarrow> handshakeReply ingress frame)"
    using assms(1) hello(3) by (auto simp: performClientOverlayHandshake_def split: sum.splits)
  have kind: "Kind (helloFrame ingress) = FrameHello" "Adapter (helloFrame ingress) = ?i"
    by (simp_all add: helloFrame_def frameOfKind_def)
  have pair: "SupportedPair ingress (scEgress cfg) = SupportedPair ?i ?e" by (simp add: SupportedPair_def)
  show ?thesis
  proof (cases "SupportedPair ?i ?e")
    case False
    then have "serverRes = Inl (peerSetupError (ErrText (pairText ?i ?e)))"
      "serverCalls = snd (WriteFrame okEnv (rejectFrame (pairText ?i ?e)))"
      using assms(2,4) hello(1) kind by (auto simp: newServerOverlaySession_def Let_def)
    moreover from this reject_sent [of "pairText ?i ?e" r] assms(5-7)
    have "ReadFrame reply = Inr (rejectFrame (pairText ?i ?e))" by simp
    ultimately show ?thesis
      using False client pair
      by (simp add: handshakeReply_def rejectFrame_def frameOfKind_def pairText_def peerSetupError_def)
  next
    case True
    show ?thesis
    proof (cases "newEgressAdapter cfg dial")
      case (Inl e)
      then have "serverRes = Inl e" "serverCalls = snd (WriteFrame okEnv (rejectFrame (errorText (initErr e))))"
        using assms(2,4) hello(1) kind True by (auto simp: newServerOverlaySession_def Let_def)
      moreover from this reject_sent [of "errorText (initErr e)" r] assms(5-7)
      have "ReadFrame reply = Inr (rejectFrame (errorText (initErr e)))" by simp
      ultimately show ?thesis
        using Inl client pair init_error_text [OF Inl]
        by (simp add: handshakeReply_def rejectFrame_def frameOfKind_def)
    next
      case (Inr adapter)
      have e: "?e \<in> {AdapterUDP, AdapterTCP}" using True by (auto simp: SupportedPair_iff)
      obtain bs where bs: "WriteFrame okEnv (ackFrame ?e) = (Inr (), [Write bs])"
        "ReadFrame (Inr bs) = Inr (ackFrame ?e)" using ack_sent [OF e] by blast
      then have "serverRes = Inr adapter" "serverCalls = [Write bs]"
        using assms(2,4) hello(1) kind True Inr by (auto simp: newServerOverlaySession_def Let_def)
      moreover from this assms(5,6) bs have "ReadFrame reply = Inr (ackFrame ?e)" by simp
      moreover have "adapter = ?e"
        using Inr by (auto simp: newEgressAdapter_def Let_def split: if_splits option.splits)
      ultimately show ?thesis
        using Inr client pair True by (simp add: handshakeReply_def ackFrame_def frameOfKind_def)
    qed
  qed
qed

theorem handshake_agreement_witness:
  "\<exists>reply serverCalls. performClientOverlayHandshake True okEnv reply ''udp'' = (None, [Write [1, 1]]) \<and>
     newServerOverlaySession (DefaultServerConfig\<lparr>scUpstreamAddr := ''u''\<rparr>) True (Inr [1, 1]) None okEnv
       = (Inr ''udp'', serverCalls) \<and> reply = Inr [2, 1]"
proof -
  have n: "NormalizeAdapter ''udp'' = AdapterUDP" using NormalizeAdapter_known(1) by (simp add: AdapterUDP_def)
  have hello1: "WriteFrame okEnv (helloFrame ''udp'') = (Inr (), [Write [1, 1]])" by code_simp
  have ack2: "WriteFrame okEnv (ackFrame AdapterUDP) = (Inr (), [Write [2, 1]])" by code_simp
  have hello2: "ReadFrame (Inr [1, 1]) = Inr (helloFrame ''udp'')"
    using hello_sent(1) [of "''udp''" "[1, 1]"] hello1 by simp
  have ack1: "ReadFrame (Inr [2, 1]) = Inr (ackFrame AdapterUDP)"
    using ack_sent [of AdapterUDP] ack2 by auto
  have c: "performClientOverlayHandshake True okEnv (Inr [2, 1]) ''udp'' = (None, [Write [1, 1]])"
    using hello1 ack1 n by (simp add: ackFrame_def frameOfKind_def performClientOverlayHandshake_def handshakeReply_def SupportedPair_def
        AdapterUDP_def [symmetric])
  have s: "newServerOverlaySession (DefaultServerConfig\<lparr>scUpstreamAddr := ''u''\<rparr>) True (Inr [1, 1]) None okEnv
      = (Inr ''udp'', [Write [2, 1]])"
    using hello2 ack2 n by (simp add: helloFrame_def frameOfKind_def newServerOverlaySession_def Let_def DefaultServerConfig_def
        SupportedPair_def newEgressAdapter_def AdapterUDP_def [symmetric])
  have "is_ok (Inr ''udp'' :: sessionInitError + adapter_kind)"
    using handshake_agreement [OF c s _ refl _ refl] by (simp add: maxFrameSize_def)
  with c s show ?thesis by blast
qed

text \<open>
  C7: What goes into the tunnel comes out of it, in order.  If the frames of a worker's channel
  fit into packets and no call fails, the frames the client's loop writes are handed to the
  server's egress as they are on the wire, those of a kind the server accepts, in the order of
  the channel; and frames that the server's egress writes are handed to the client's ingress in
  the same way.  The frames after one that its receiver refuses are not handled.
\<close>

theorem tunnel_in_order:
  assumes "list_all fits fs"
  shows "fst (frameChannelToEndpoint (map (\<lambda>f. OutFrame f okEnv False) fs)) = None \<and>
    runClientFrames egress
        (map okRound (packets (fst (snd (frameChannelToEndpoint (map (\<lambda>f. OutFrame f okEnv False) fs)))))) s =
      handleAll egress (filter serverAccepts (map canonFrame fs)) s
    \<and> (\<exists>traffic. endpointToFrameHandler ingress
          (map (\<lambda>bs. (Inr bs, False)) (concat (map (\<lambda>f. packets (snd (WriteFrame okEnv f))) fs))) u =
        (fst (handleAll ingress (filter clientAccepts (map canonFrame fs)) u),
         snd (handleAll ingress (filter clientAccepts (map canonFrame fs)) u), traffic))"
proof (intro conjI)
  note sent = client_sends_all [OF assms]
  show "fst (frameChannelToEndpoint (map (\<lambda>f. OutFrame f okEnv False) fs)) = None" by (rule sent)
  show "runClientFrames egress
        (map okRound (packets (fst (snd (frameChannelToEndpoint (map (\<lambda>f. OutFrame f okEnv False) fs)))))) s =
      handleAll egress (filter serverAccepts (map canonFrame fs)) s"
    using sent(2) by (intro server_handles_all) (simp add: comp_def)
  let ?ps = "concat (map (\<lambda>f. packets (snd (WriteFrame okEnv f))) fs)"
  have ps: "map (\<lambda>bs. ReadFrame (Inr bs)) ?ps = map Inr (map canonFrame fs)"
    using assms
  proof (induction fs)
    case (Cons f fs)
    then obtain bs where "WriteFrame okEnv f = (Inr (), [Write bs])" "ReadFrame (Inr bs) = Inr (canonFrame f)"
      using fits_packet [of f] by auto
    with Cons show ?case by simp
  qed simp
  obtain r u' tr where e: "endpointToFrameHandler ingress (map (\<lambda>bs. (Inr bs, False)) ?ps) u = (r, u', tr)"
    by (metis prod_cases3)
  from client_handles_all [OF ps e] e show "\<exists>traffic. endpointToFrameHandler ingress
          (map (\<lambda>bs. (Inr bs, False)) ?ps) u =
        (fst (handleAll ingress (filter clientAccepts (map canonFrame fs)) u),
         snd (handleAll ingress (filter clientAccepts (map canonFrame fs)) u), traffic)"
    by auto
qed

theorem tunnel_in_order_witness:
  "runClientFrames (\<lambda>f s. (None, s @ [Payload f]))
     (map okRound (packets (fst (snd (frameChannelToEndpoint
        (map (\<lambda>f. OutFrame f okEnv False) [relayDatagram 5 [1, 2], relayDatagram 6 [3]])))))) [] =
   (None, [[1, 2], [3]])"
proof -
  let ?fs = "[relayDatagram 5 [1, 2], relayDatagram 6 [3]]"
  have "list_all fits ?fs"
    by (simp add: fits_def MarshalBinary_def frameSize_def relayDatagram_def frameOfKind_def maxFrameSize_def
        DefaultDatagramBufferSize_def)
  note t = tunnel_in_order [OF this, of "\<lambda>f s. (None, s @ [Payload f])" "[]" "\<lambda>f s. (None, s)" "()"]
  have "handleAll (\<lambda>f s. (None, s @ [Payload f])) (filter serverAccepts (map canonFrame ?fs)) [] =
      (None, [[1, 2], [3]])"
    by (simp add: serverAccepts_def canonFrame_def relayDatagram_def frameOfKind_def DefaultDatagramBufferSize_def)
  with t show ?thesis by metis
qed

end
