(* ===== verification/TcpEgress.thy ===== *)
theory TcpEgress
  imports TcpIngress
begin

text \<open>
  The TCP egress of the server (\<^verbatim>\<open>internal/tunnelserver/overlay_session.go\<close>): for every stream the
  client opens, a goroutine that dials the upstream and then runs a reader and a writer, beside
  the calls of \<open>HandleFrame\<close>.  As for the TCP ingress, an event is one blocking operation, one
  critical section or one commit of a \<open>select\<close>.  The fields \<open>uRead\<close>, \<open>uSent\<close>, \<open>uTaken\<close>,
  \<open>uWritten\<close>, \<open>egHandled\<close> and \<open>egEndpoint\<close> are traces the program does not read.
\<close>

definition egressQueueSize :: nat where "egressQueueSize = 8"

datatype connState = ConnNone | ConnOpen | ConnClosed

text \<open>The goroutine \<open>runStream\<close>: dialling, the wait for both loops, the deferred close, the end.\<close>

datatype runPc = RunDialing | RunLoops | RunClosing | RunDone

datatype egReaderPc =
    EgReaderNotStarted
  | EgReaderReading
  | EgReaderSending frame bool
  | EgReaderDone

datatype egWriterPc =
    EgWriterNotStarted
  | EgWriterSelect
  | EgWriterWrite frame
  | EgWriterDone

text \<open>
  \<open>uConn\<close> is the connection of the stream: none before the dial, open, or closed.  \<open>uHeld\<close> says
  whether the field \<open>conn\<close> of the stream still points to it: \<open>closeConn\<close> closes what it finds
  there and clears the field.
\<close>

record tcpUpstreamStream =
  uId :: "64 word"
  uConn :: connState
  uHeld :: bool
  uInbound :: "frame list"
  uSendSequence :: "64 word"
  uRecvSequence :: "64 word"
  uDone :: bool
  uCancelled :: bool
  uLoopCancelled :: bool
  uNotified :: bool
  uRun :: runPc
  uReader :: egReaderPc
  uWriter :: egWriterPc
  uRead :: "byte list list"
  uSent :: "frame list"
  uTaken :: "frame list"
  uWritten :: "byte list"

text \<open>Calls in progress: a close that another goroutine makes, or a notification to be written.\<close>

datatype egCall = EgCloseStream "64 word" bool | EgNotify nat

record tcpEgress =
  egStreams :: "64 word \<rightharpoonup> nat"
  egHeap :: "tcpUpstreamStream list"
  egCalls :: "egCall list"
  egCtxDone :: bool
  egHandled :: "frame list"
  egEndpoint :: "frame list"

definition newTCPEgress :: tcpEgress where
  "newTCPEgress = \<lparr>egStreams = Map.empty, egHeap = [], egCalls = [], egCtxDone = False,
     egHandled = [], egEndpoint = []\<rparr>"

definition ustream :: "nat \<Rightarrow> tcpEgress \<Rightarrow> tcpUpstreamStream" where
  "ustream p a = egHeap a ! p"

definition setUstream :: "nat \<Rightarrow> tcpUpstreamStream \<Rightarrow> tcpEgress \<Rightarrow> tcpEgress" where
  "setUstream p u a = a\<lparr>egHeap := (egHeap a)[p := u]\<rparr>"

section \<open>Opening and closing\<close>

definition newUpstream :: "64 word \<Rightarrow> tcpUpstreamStream" where
  "newUpstream sid = \<lparr>uId = sid, uConn = ConnNone, uHeld = False, uInbound = [], uSendSequence = 0,
     uRecvSequence = 0, uDone = False, uCancelled = False, uLoopCancelled = False, uNotified = False,
     uRun = RunDialing, uReader = EgReaderNotStarted, uWriter = EgWriterNotStarted,
     uRead = [], uSent = [], uTaken = [], uWritten = []\<rparr>"

definition egStoreStream :: "64 word \<Rightarrow> tcpEgress \<Rightarrow> tcpEgress option" where
  "egStoreStream sid a =
     (if egStreams a sid \<noteq> None then None
      else Some (a\<lparr>egStreams := (egStreams a)(sid \<mapsto> length (egHeap a)),
                   egHeap := egHeap a @ [newUpstream sid]\<rparr>))"

definition closeConn :: "tcpUpstreamStream \<Rightarrow> tcpUpstreamStream" where
  "closeConn u = (if uHeld u then u\<lparr>uConn := ConnClosed, uHeld := False\<rparr> else u)"

definition setConn :: "tcpUpstreamStream \<Rightarrow> tcpUpstreamStream" where
  "setConn u = u\<lparr>uConn := ConnOpen, uHeld := True\<rparr>"

text \<open>
  \<open>closeStream\<close>: whoever takes the stream out of the table runs the body of \<open>closeOnce\<close>; the
  notification is written afterwards.
\<close>

definition egCloseStream :: "64 word \<Rightarrow> bool \<Rightarrow> tcpEgress \<Rightarrow> tcpEgress" where
  "egCloseStream sid notify a =
     (case egStreams a sid of
        None \<Rightarrow> a
      | Some p \<Rightarrow>
          let a1 = setUstream p (closeConn ((ustream p a)\<lparr>uCancelled := True, uDone := True\<rparr>))
                     (a\<lparr>egStreams := (egStreams a)(sid := None)\<rparr>)
          in if notify then a1\<lparr>egCalls := egCalls a1 @ [EgNotify p]\<rparr> else a1)"

text \<open>Putting a frame of stream \<open>p\<close> on the endpoint.\<close>

definition egWriteFrame :: "nat \<Rightarrow> frame \<Rightarrow> tcpEgress \<Rightarrow> tcpEgress" where
  "egWriteFrame p f a = setUstream p ((ustream p a)\<lparr>uSent := uSent (ustream p a) @ [f]\<rparr>)
     (a\<lparr>egEndpoint := egEndpoint a @ [f]\<rparr>)"

definition egNotifyRemoteClose :: "bool \<Rightarrow> nat \<Rightarrow> tcpEgress \<Rightarrow> tcpEgress" where
  "egNotifyRemoteClose writeOk p a =
     (let u = ustream p a in
      if uNotified u then a
      else
        let a1 = setUstream p (u\<lparr>uNotified := True\<rparr>) a in
        if writeOk then egWriteFrame p (closeFrame (uId u)) a1 else a1)"

section \<open>Frames from the client\<close>

datatype egQueueChoice = EgQueueDone | EgQueueInbound | EgQueueDefault

definition egQueueInbound :: "egQueueChoice \<Rightarrow> nat \<Rightarrow> frame \<Rightarrow> tcpEgress \<Rightarrow> tcpEgress option" where
  "egQueueInbound ch p f a =
     (let u = ustream p a; room = length (uInbound u) < egressQueueSize in
      case ch of
        EgQueueDone \<Rightarrow> if uDone u then Some a else None
      | EgQueueInbound \<Rightarrow>
          if room then Some (setUstream p (u\<lparr>uInbound := uInbound u @ [f]\<rparr>) a) else None
      | EgQueueDefault \<Rightarrow>
          if uDone u \<or> room then None
          else Some (a\<lparr>egCalls := egCalls a @ [EgCloseStream (uId u) True]\<rparr>))"

text \<open>
  \<open>HandleFrame\<close>.  The stream found by the lookup is used at once: between the lookup and the
  \<open>select\<close> only \<open>uDone\<close> can change, and then the choice \<open>EgQueueInbound\<close> is the same step taken
  earlier.
\<close>

definition egHandleFrame ::
    "egQueueChoice \<Rightarrow> frame \<Rightarrow> tcpEgress \<Rightarrow> (string option \<times> tcpEgress) option" where
  "egHandleFrame ch f a =
     (let a0 = a\<lparr>egHandled := egHandled a @ [f]\<rparr> in
      if Kind f = FrameStreamOpen then
        (case egStoreStream (StreamID f) a0 of
           None \<Rightarrow> Some (Some (''overlay stream '' @ itoa (unat (StreamID f)) @ '' is already open''), a0)
         | Some a1 \<Rightarrow> Some (None, a1))
      else if Kind f = FrameStreamData then
        (case egStreams a0 (StreamID f) of
           None \<Rightarrow> Some (None, a0)
         | Some p \<Rightarrow> map_option (\<lambda>a1. (None, a1)) (egQueueInbound ch p f a0))
      else if Kind f = FrameStreamClose then Some (None, egCloseStream (StreamID f) False a0)
      else Some (Some (''tcp egress cannot handle overlay '' @ kindString (Kind f) @ '' frames''), a0))"

section \<open>The goroutines of a stream\<close>

definition egSetRun :: "nat \<Rightarrow> runPc \<Rightarrow> tcpEgress \<Rightarrow> tcpEgress" where
  "egSetRun p pc a = setUstream p ((ustream p a)\<lparr>uRun := pc\<rparr>) a"

text \<open>The dial returned: with a connection, the loops start; with an error, the stream is closed.\<close>

definition egDial :: "bool \<Rightarrow> nat \<Rightarrow> tcpEgress \<Rightarrow> tcpEgress option" where
  "egDial dialOk p a =
     (let u = ustream p a in
      if uRun u \<noteq> RunDialing then None
      else if \<not> dialOk then Some (egSetRun p RunClosing a)
      else Some (setUstream p ((setConn u)\<lparr>uRun := RunLoops, uReader := EgReaderReading,
        uWriter := EgWriterSelect\<rparr>) a))"

definition egLoopDone :: "tcpUpstreamStream \<Rightarrow> tcpEgress \<Rightarrow> bool" where
  "egLoopDone u a \<longleftrightarrow> uLoopCancelled u \<or> uCancelled u \<or> egCtxDone a"

definition egSetReader :: "nat \<Rightarrow> egReaderPc \<Rightarrow> tcpEgress \<Rightarrow> tcpEgress" where
  "egSetReader p pc a = setUstream p ((ustream p a)\<lparr>uReader := pc,
     uLoopCancelled := (uLoopCancelled (ustream p a) \<or> pc = EgReaderDone)\<rparr>) a"

definition egSetWriter :: "nat \<Rightarrow> egWriterPc \<Rightarrow> tcpEgress \<Rightarrow> tcpEgress" where
  "egSetWriter p pc a = setUstream p ((ustream p a)\<lparr>uWriter := pc,
     uLoopCancelled := (uLoopCancelled (ustream p a) \<or> pc = EgWriterDone)\<rparr>) a"

text \<open>
  A round of the reader, whose first look at the field \<open>conn\<close> may already find it cleared: that is
  a read that fails at once.  The deadline could not be set (\<open>deadlineOk\<close> false), or the read returned
  \<open>bs\<close> and an error or none.
\<close>

definition egRead :: "bool \<Rightarrow> nat \<Rightarrow> byte list \<Rightarrow> bool \<Rightarrow> tcpEgress \<Rightarrow> tcpEgress option" where
  "egRead deadlineOk p bs failed a =
     (let u = ustream p a in
      if uReader u \<noteq> EgReaderReading \<or> StreamChunkSize < length bs then None
      else if \<not> deadlineOk then Some (egSetReader p EgReaderDone a)
      else if bs \<noteq> [] then
        Some (setUstream p (u\<lparr>uSendSequence := uSendSequence u + 1, uRead := uRead u @ [bs],
          uReader := EgReaderSending (dataFrame (uId u) (uSendSequence u) bs) failed\<rparr>) a)
      else if failed \<or> egLoopDone u a then Some (egSetReader p EgReaderDone a)
      else Some a)"

definition egReadSend :: "bool \<Rightarrow> nat \<Rightarrow> tcpEgress \<Rightarrow> tcpEgress option" where
  "egReadSend writeOk p a =
     (let u = ustream p a in
      case uReader u of
        EgReaderSending f failed \<Rightarrow>
          if \<not> writeOk then Some (egSetReader p EgReaderDone a)
          else Some (egSetReader p (if failed \<or> egLoopDone u a then EgReaderDone else EgReaderReading)
                 (egWriteFrame p f a))
      | _ \<Rightarrow> None)"

datatype egWriterChoice = EgWriterCtxDone | EgWriterStreamDone | EgWriterInbound

definition egSelect :: "egWriterChoice \<Rightarrow> nat \<Rightarrow> tcpEgress \<Rightarrow> tcpEgress option" where
  "egSelect ch p a =
     (let u = ustream p a in
      if uWriter u \<noteq> EgWriterSelect then None
      else case ch of
        EgWriterCtxDone \<Rightarrow> if egLoopDone u a then Some (egSetWriter p EgWriterDone a) else None
      | EgWriterStreamDone \<Rightarrow> if uDone u then Some (egSetWriter p EgWriterDone a) else None
      | EgWriterInbound \<Rightarrow>
          (case uInbound u of
             [] \<Rightarrow> None
           | f # fs \<Rightarrow>
               if Kind f \<noteq> FrameStreamData then Some (setUstream p (u\<lparr>uInbound := fs\<rparr>) a)
               else if Sequence f \<noteq> uRecvSequence u
               then Some (egSetWriter p EgWriterDone (setUstream p (u\<lparr>uInbound := fs\<rparr>) a))
               else Some (setUstream p
                 (u\<lparr>uInbound := fs, uRecvSequence := uRecvSequence u + 1,
                    uTaken := uTaken u @ [f], uWriter := EgWriterWrite f\<rparr>) a)))"

definition egWrite :: "writeResult \<Rightarrow> nat \<Rightarrow> tcpEgress \<Rightarrow> tcpEgress option" where
  "egWrite res p a =
     (let u = ustream p a in
      case uWriter u of
        EgWriterWrite f \<Rightarrow>
          (case res of
             DeadlineFailed \<Rightarrow> Some (egSetWriter p EgWriterDone a)
           | WriteFailed n \<Rightarrow>
               Some (egSetWriter p EgWriterDone
                 (setUstream p (u\<lparr>uWritten := uWritten u @ take n (Payload f)\<rparr>) a))
           | WriteDone \<Rightarrow>
               Some (setUstream p (u\<lparr>uWritten := uWritten u @ Payload f, uWriter := EgWriterSelect\<rparr>) a))
      | _ \<Rightarrow> None)"

text \<open>\<open>wg.Wait\<close> returns; then the deferred close.\<close>

definition egJoin :: "nat \<Rightarrow> tcpEgress \<Rightarrow> tcpEgress option" where
  "egJoin p a =
     (let u = ustream p a in
      if uRun u = RunLoops \<and> uReader u = EgReaderDone \<and> uWriter u = EgWriterDone
      then Some (egSetRun p RunClosing a) else None)"

definition egFinish :: "nat \<Rightarrow> tcpEgress \<Rightarrow> tcpEgress option" where
  "egFinish p a =
     (if uRun (ustream p a) = RunClosing
      then Some (egCloseStream (uId (ustream p a)) True (egSetRun p RunDone a)) else None)"

definition egCallStep :: "bool \<Rightarrow> egCall \<Rightarrow> tcpEgress \<Rightarrow> tcpEgress" where
  "egCallStep writeOk c a =
     (case c of
        EgCloseStream sid notify \<Rightarrow> egCloseStream sid notify a
      | EgNotify p \<Rightarrow> egNotifyRemoteClose writeOk p a)"

definition egCall :: "bool \<Rightarrow> nat \<Rightarrow> tcpEgress \<Rightarrow> tcpEgress option" where
  "egCall writeOk k a =
     (if k < length (egCalls a)
      then Some (egCallStep writeOk (egCalls a ! k)
        (a\<lparr>egCalls := take k (egCalls a) @ drop (Suc k) (egCalls a)\<rparr>))
      else None)"

text \<open>\<open>Close\<close> of the adapter: the streams in the table are closed without a notification.\<close>

definition egLiveIds :: "tcpEgress \<Rightarrow> 64 word list" where
  "egLiveIds a = filter (\<lambda>sid. egStreams a sid \<noteq> None) (remdups (map uId (egHeap a)))"

definition egCloseAll :: "tcpEgress \<Rightarrow> tcpEgress" where
  "egCloseAll a = a\<lparr>egCalls := egCalls a @ map (\<lambda>sid. EgCloseStream sid False) (egLiveIds a)\<rparr>"

section \<open>The machine\<close>

datatype egEvent =
    EgHandle egQueueChoice frame
  | EgDial nat bool
  | EgRead nat bool "byte list" bool
  | EgReadSend nat bool
  | EgSelect nat egWriterChoice
  | EgWrite nat writeResult
  | EgJoin nat
  | EgFinish nat
  | EgCall nat bool
  | EgCloseAll
  | EgCtxDone

fun egStep :: "egEvent \<Rightarrow> tcpEgress \<Rightarrow> tcpEgress option" where
  "egStep (EgHandle ch f) a = map_option snd (egHandleFrame ch f a)"
| "egStep (EgDial p k) a = (if p < length (egHeap a) then egDial k p a else None)"
| "egStep (EgRead p d bs e) a = (if p < length (egHeap a) then egRead d p bs e a else None)"
| "egStep (EgReadSend p k) a = (if p < length (egHeap a) then egReadSend k p a else None)"
| "egStep (EgSelect p ch) a = (if p < length (egHeap a) then egSelect ch p a else None)"
| "egStep (EgWrite p r) a = (if p < length (egHeap a) then egWrite r p a else None)"
| "egStep (EgJoin p) a = (if p < length (egHeap a) then egJoin p a else None)"
| "egStep (EgFinish p) a = (if p < length (egHeap a) then egFinish p a else None)"
| "egStep (EgCall k w) a = egCall w k a"
| "egStep EgCloseAll a = Some (egCloseAll a)"
| "egStep EgCtxDone a = Some (a\<lparr>egCtxDone := True\<rparr>)"

fun egRun :: "egEvent list \<Rightarrow> tcpEgress \<Rightarrow> tcpEgress option" where
  "egRun [] a = Some a"
| "egRun (e # es) a = (case egStep e a of None \<Rightarrow> None | Some a' \<Rightarrow> egRun es a')"

inductive egReachable :: "tcpEgress \<Rightarrow> bool" where
  start: "egReachable newTCPEgress"
| event: "egReachable a \<Longrightarrow> egStep e a = Some a' \<Longrightarrow> egReachable a'"

lemma egRun_reachable: "egReachable a \<Longrightarrow> egRun es a = Some a' \<Longrightarrow> egReachable a'"
  by (induction es arbitrary: a) (auto split: option.splits intro: egReachable.event)

section \<open>Three runs\<close>

text \<open>
  A stream that the client closes while its dial is under way: the dial succeeds, the connection
  is stored after \<open>closeConn\<close> looked, and the goroutine ends with the connection open.
\<close>

theorem close_during_dial_leaks_connection:
  "map_option (\<lambda>a. (uRun (ustream 0 a), uConn (ustream 0 a), egCalls a))
     (egRun [EgHandle EgQueueDone (openFrame 1), EgHandle EgQueueDone (closeFrame 1), EgDial 0 True,
        EgSelect 0 EgWriterStreamDone, EgRead 0 True [] True, EgJoin 0, EgFinish 0] newTCPEgress) =
   Some (RunDone, ConnOpen, [])"
  by code_simp

text \<open>A second open of a live stream is an error of \<open>HandleFrame\<close>, which ends the whole session.\<close>

theorem duplicate_open_is_an_error:
  "egStreams a (StreamID f) \<noteq> None \<Longrightarrow> Kind f = FrameStreamOpen \<Longrightarrow>
     \<exists>m a'. egHandleFrame ch f a = Some (Some m, a')"
  by (simp add: egHandleFrame_def egStoreStream_def Let_def)

text \<open>
  Data that the client sent before it closed the stream is dropped when the close frame is
  handled before the writer took it.
\<close>

theorem egress_close_discards_data:
  "map_option (\<lambda>a. (egHandled a = [openFrame 1, dataFrame 1 0 [97], closeFrame 1],
        uWriter (ustream 0 a), uTaken (ustream 0 a), uWritten (ustream 0 a)))
     (egRun [EgHandle EgQueueDone (openFrame 1), EgDial 0 True, EgHandle EgQueueInbound (dataFrame 1 0 [97]),
        EgHandle EgQueueDone (closeFrame 1), EgSelect 0 EgWriterStreamDone] newTCPEgress) =
   Some (True, EgWriterDone, [], [])"
  by code_simp

end
