(* ===== verification/TcpEgressInv.thy ===== *)
theory TcpEgressInv
  imports TcpEgress TcpIngressInv
begin

text \<open>
  The invariant of the TCP egress machine, in the terms of the TCP ingress: what a stream writes
  to the endpoint, what it writes to the upstream, and the table of streams.
\<close>

fun egReaderOk :: "64 word \<Rightarrow> egReaderPc \<Rightarrow> byte list list \<Rightarrow> frame list \<Rightarrow> bool" where
  "egReaderOk sid EgReaderNotStarted cs fs \<longleftrightarrow> cs = [] \<and> fs = []"
| "egReaderOk sid EgReaderReading cs fs \<longleftrightarrow> fs = streamFrames sid cs"
| "egReaderOk sid (EgReaderSending f e) cs fs \<longleftrightarrow>
     (\<exists>ds c. cs = ds @ [c] \<and> f = dataFrame sid (of_nat (length ds)) c \<and> fs = streamFrames sid ds)"
| "egReaderOk sid EgReaderDone cs fs \<longleftrightarrow> (\<exists>n. length cs \<le> Suc n \<and> fs = streamFrames sid (take n cs))"

fun egWriterOk :: "egWriterPc \<Rightarrow> frame list \<Rightarrow> byte list \<Rightarrow> bool" where
  "egWriterOk EgWriterNotStarted fs bs \<longleftrightarrow> fs = [] \<and> bs = []"
| "egWriterOk EgWriterSelect fs bs \<longleftrightarrow> bs = concat (map Payload fs)"
| "egWriterOk (EgWriterWrite f) fs bs \<longleftrightarrow> (\<exists>gs. fs = gs @ [f] \<and> bs = concat (map Payload gs))"
| "egWriterOk EgWriterDone fs bs \<longleftrightarrow> prefix bs (concat (map Payload fs))"

definition ustreamInv :: "tcpUpstreamStream \<Rightarrow> bool" where
  "ustreamInv u \<longleftrightarrow>
     uSendSequence u = of_nat (length (uRead u)) \<and>
     uRecvSequence u = of_nat (length (uTaken u)) \<and>
     (\<forall>c\<in>set (uRead u). c \<noteq> [] \<and> length c \<le> StreamChunkSize) \<and>
     egReaderOk (uId u) (uReader u) (uRead u) (nonClose (uSent u)) \<and>
     egWriterOk (uWriter u) (uTaken u) (uWritten u) \<and>
     takenOk (uId u) (uTaken u) (uInbound u) \<and>
     closesOk (uId u) (uNotified u) (uSent u) \<and>
     (uRun u = RunDialing \<longrightarrow> uReader u = EgReaderNotStarted \<and> uWriter u = EgWriterNotStarted)"

lemma egReaderOk_done: "egReaderOk sid pc cs fs \<Longrightarrow> egReaderOk sid EgReaderDone cs fs"
  by (cases pc) (auto intro: exI [of _ "length cs"])

lemma egWriterOk_prefix: "egWriterOk pc fs bs \<Longrightarrow> prefix bs (concat (map Payload fs))"
  by (cases pc) auto

lemma egressQueueSize_eq: "egressQueueSize = inboundQueueSize"
  by (simp add: egressQueueSize_def inboundQueueSize_def)

lemmas ustream_inv_defs = ustreamInv_def takenOk_def closesOk_def

definition egInv :: "tcpEgress \<Rightarrow> bool" where
  "egInv a \<longleftrightarrow>
     (\<forall>p<length (egHeap a). ustreamInv (ustream p a) \<and>
        set (uInbound (ustream p a)) \<union> set (uTaken (ustream p a)) \<subseteq> set (egHandled a)) \<and>
     (\<forall>sid p. egStreams a sid = Some p \<longrightarrow>
        p < length (egHeap a) \<and> uId (ustream p a) = sid \<and> \<not> uDone (ustream p a)) \<and>
     (\<forall>c\<in>set (egCalls a). \<forall>p. c = EgNotify p \<longrightarrow> p < length (egHeap a))"

lemma egInvD:
  assumes "egInv a"
  shows "p < length (egHeap a) \<Longrightarrow> ustreamInv (ustream p a)"
    and "p < length (egHeap a) \<Longrightarrow> set (uInbound (ustream p a)) \<subseteq> set (egHandled a)"
    and "p < length (egHeap a) \<Longrightarrow> set (uTaken (ustream p a)) \<subseteq> set (egHandled a)"
    and "egStreams a sid = Some p \<Longrightarrow> p < length (egHeap a) \<and> uId (ustream p a) = sid \<and> \<not> uDone (ustream p a)"
    and "EgNotify p \<in> set (egCalls a) \<Longrightarrow> p < length (egHeap a)"
  using assms unfolding egInv_def by blast+

lemma ustream_setUstream [simp]:
  "p < length (egHeap a) \<Longrightarrow> ustream q (setUstream p u a) = (if q = p then u else ustream q a)"
  by (simp add: ustream_def setUstream_def)

lemma setUstream_fields [simp]:
  "length (egHeap (setUstream p u a)) = length (egHeap a)" "egStreams (setUstream p u a) = egStreams a"
  "egCalls (setUstream p u a) = egCalls a" "egCtxDone (setUstream p u a) = egCtxDone a"
  "egHandled (setUstream p u a) = egHandled a" "egEndpoint (setUstream p u a) = egEndpoint a"
  by (simp_all add: setUstream_def)

lemma setUstream_twice [simp]: "setUstream p v (setUstream p u a) = setUstream p v a"
  by (simp add: setUstream_def)

lemma ustream_update [simp]:
  "ustream p (a\<lparr>egStreams := m\<rparr>) = ustream p a" "ustream p (a\<lparr>egCalls := cs\<rparr>) = ustream p a"
  "ustream p (a\<lparr>egHandled := h\<rparr>) = ustream p a" "ustream p (a\<lparr>egEndpoint := e\<rparr>) = ustream p a"
  "ustream p (a\<lparr>egCtxDone := b\<rparr>) = ustream p a"
  by (simp_all add: ustream_def)

text \<open>A state with the same heap and fewer live streams, and more traces.\<close>

lemma egInv_same:
  assumes "egInv a" "egHeap a' = egHeap a" "egStreams a' \<subseteq>\<^sub>m egStreams a"
    "set (egHandled a) \<subseteq> set (egHandled a')"
    "\<And>p. EgNotify p \<in> set (egCalls a') \<Longrightarrow> p < length (egHeap a)"
  shows "egInv a'"
proof -
  note d = egInvD [OF assms(1)]
  have st: "ustream p a' = ustream p a" for p using assms(2) by (simp add: ustream_def)
  have sub: "egStreams a sid = Some p" if "egStreams a' sid = Some p" for sid p
    using assms(3) that by (metis domI map_le_def)
  have "ustreamInv (ustream p a') \<and>
      set (uInbound (ustream p a')) \<union> set (uTaken (ustream p a')) \<subseteq> set (egHandled a')"
    if "p < length (egHeap a')" for p
    using d(1-3) [of p] that assms(2,4) unfolding st by auto
  moreover have "p < length (egHeap a') \<and> uId (ustream p a') = sid \<and> \<not> uDone (ustream p a')"
    if "egStreams a' sid = Some p" for sid p
    using d(4) [OF sub [OF that]] assms(2) unfolding st by simp
  ultimately show ?thesis using assms(2,5) unfolding egInv_def by auto
qed

lemma egInv_setUstream:
  assumes "egInv a" "p < length (egHeap a)" "ustreamInv u" "uId u = uId (ustream p a)"
    "uDone u = uDone (ustream p a)" "set (uInbound u) \<subseteq> set (egHandled a)" "set (uTaken u) \<subseteq> set (egHandled a)"
  shows "egInv (setUstream p u a)"
  using assms by (auto simp: egInv_def)

lemma egInv_closeStream:
  assumes "egInv a" shows "egInv (egCloseStream sid b a)"
proof (cases "egStreams a sid")
  case None
  with assms show ?thesis by (simp add: egCloseStream_def)
next
  case (Some p)
  note d = egInvD [OF assms]
  have p: "p < length (egHeap a)" using d(4) Some by blast
  let ?u = "closeConn ((ustream p a)\<lparr>uCancelled := True, uDone := True\<rparr>)"
  have u: "ustreamInv ?u" "uInbound ?u = uInbound (ustream p a)" "uTaken ?u = uTaken (ustream p a)"
    "uId ?u = uId (ustream p a)"
    using d(1) [OF p] by (auto simp: closeConn_def ustreamInv_def)
  have only: "q \<noteq> p" if "egStreams a s = Some q" "s \<noteq> sid" for s q
    using that Some d(4) by blast
  define a1 where "a1 = setUstream p ?u (a\<lparr>egStreams := (egStreams a)(sid := None)\<rparr>)"
  have f: "ustream q a1 = (if q = p then ?u else ustream q a)" "length (egHeap a1) = length (egHeap a)"
    "egStreams a1 = (egStreams a)(sid := None)" "egCalls a1 = egCalls a" "egHandled a1 = egHandled a" for q
    using p by (simp_all add: a1_def)
  have "egInv a1"
    using assms u only unfolding egInv_def f by auto
  moreover from this have "egInv (a1\<lparr>egCalls := egCalls a1 @ [EgNotify p]\<rparr>)"
    using p f egInvD(5) [OF \<open>egInv a1\<close>] by (intro egInv_same [OF \<open>egInv a1\<close>, of "a1\<lparr>egCalls := egCalls a1 @ [EgNotify p]\<rparr>"]) auto
  ultimately show ?thesis using Some by (simp add: egCloseStream_def Let_def a1_def [symmetric])
qed

lemma closeConn_fields [simp]:
  "uInbound (closeConn u) = uInbound u" "uTaken (closeConn u) = uTaken u" "uId (closeConn u) = uId u"
  "uDone (closeConn u) = uDone u" "uSent (closeConn u) = uSent u" "uRead (closeConn u) = uRead u"
  "uWritten (closeConn u) = uWritten u" "uRun (closeConn u) = uRun u"
  "uReader (closeConn u) = uReader u" "uWriter (closeConn u) = uWriter u"
  by (simp_all add: closeConn_def)

section \<open>The changes a goroutine makes to a stream\<close>

lemma newUpstream_inv: "ustreamInv (newUpstream sid)"
  by (simp add: ustream_inv_defs newUpstream_def)

lemma ustream_dialed:
  "ustreamInv u \<Longrightarrow> uRun u = RunDialing \<Longrightarrow>
     ustreamInv ((setConn u)\<lparr>uRun := RunLoops, uReader := EgReaderReading, uWriter := EgWriterSelect\<rparr>)"
  by (auto simp: ustream_inv_defs setConn_def)

lemma ustream_run: "ustreamInv u \<Longrightarrow> pc \<noteq> RunDialing \<Longrightarrow> ustreamInv (u\<lparr>uRun := pc\<rparr>)"
  by (auto simp: ustreamInv_def)

lemma ustream_reader_stops:
  "ustreamInv u \<Longrightarrow> uReader u \<noteq> EgReaderNotStarted \<Longrightarrow>
     ustreamInv (u\<lparr>uReader := EgReaderDone, uLoopCancelled := b\<rparr>)"
  using egReaderOk_done by (auto simp: ustreamInv_def)

lemma ustream_writer_stops:
  "ustreamInv u \<Longrightarrow> uWriter u \<noteq> EgWriterNotStarted \<Longrightarrow>
     ustreamInv (u\<lparr>uWriter := EgWriterDone, uLoopCancelled := b\<rparr>)"
  using egWriterOk_prefix by (auto simp: ustreamInv_def)

lemma ustream_read:
  assumes "ustreamInv u" "uReader u = EgReaderReading" "bs \<noteq> []" "length bs \<le> StreamChunkSize"
  shows "ustreamInv (u\<lparr>uSendSequence := uSendSequence u + 1, uRead := uRead u @ [bs],
      uReader := EgReaderSending (dataFrame (uId u) (uSendSequence u) bs) e\<rparr>)"
  using assms by (auto simp: ustream_inv_defs)

lemma ustream_sent:
  assumes "ustreamInv u" "uReader u = EgReaderSending f e" "pc \<in> {EgReaderReading, EgReaderDone}"
  shows "ustreamInv (u\<lparr>uSent := uSent u @ [f], uReader := pc\<rparr>)"
    and "ustreamInv (u\<lparr>uSent := uSent u @ [f], uReader := pc, uLoopCancelled := b\<rparr>)"
  using assms by (auto simp: ustream_inv_defs intro!: exI [of _ "length (uRead u)"])

lemma ustream_dropped:
  assumes "ustreamInv u" "uInbound u = f # fs" shows "ustreamInv (u\<lparr>uInbound := fs\<rparr>)"
  using assms by (auto simp: ustream_inv_defs)

lemma ustream_taken:
  assumes "ustreamInv u" "uInbound u = f # fs" "uWriter u = EgWriterSelect" "Sequence f = uRecvSequence u"
  shows "ustreamInv (u\<lparr>uInbound := fs, uRecvSequence := uRecvSequence u + 1,
      uTaken := uTaken u @ [f], uWriter := EgWriterWrite f\<rparr>)"
  using assms by (auto simp: ustream_inv_defs nth_append less_Suc_eq)

lemma ustream_written:
  assumes "ustreamInv u" "uWriter u = EgWriterWrite f"
  shows "ustreamInv (u\<lparr>uWritten := uWritten u @ Payload f, uWriter := EgWriterSelect\<rparr>)"
    and "ustreamInv (u\<lparr>uWritten := uWritten u @ take n (Payload f), uWriter := EgWriterDone,
           uLoopCancelled := b\<rparr>)"
  using assms by (auto simp: ustreamInv_def take_is_prefix)

lemma ustream_notified:
  assumes "ustreamInv u" "\<not> uNotified u"
  shows "ustreamInv (u\<lparr>uNotified := True\<rparr>)"
    and "ustreamInv (u\<lparr>uNotified := True, uSent := uSent u @ [closeFrame (uId u)]\<rparr>)"
  using assms by (auto simp: ustream_inv_defs)

lemma ustream_queued:
  assumes "ustreamInv u" "length (uInbound u) < egressQueueSize"
    "Kind f = FrameStreamData" "StreamID f = uId u"
  shows "ustreamInv (u\<lparr>uInbound := uInbound u @ [f]\<rparr>)"
  using assms by (auto simp: ustream_inv_defs egressQueueSize_eq)

section \<open>Every event keeps the invariant\<close>

lemma setUstream_update:
  "setUstream p u (a\<lparr>egEndpoint := e\<rparr>) = (setUstream p u a)\<lparr>egEndpoint := e\<rparr>"
  by (simp add: setUstream_def)

lemma egInv_update [simp]:
  "egInv (a\<lparr>egEndpoint := e\<rparr>) = egInv a" "egInv (a\<lparr>egCtxDone := b\<rparr>) = egInv a"
  by (simp_all add: egInv_def ustream_def)

lemma egInv_handled: "egInv a \<Longrightarrow> egInv (a\<lparr>egHandled := egHandled a @ [f]\<rparr>)"
  by (rule egInv_same [of a]) (auto dest: egInvD(5))

lemma egInv_calls:
  "egInv a \<Longrightarrow> (\<And>p. EgNotify p \<in> set cs \<Longrightarrow> p < length (egHeap a)) \<Longrightarrow> egInv (a\<lparr>egCalls := cs\<rparr>)"
  by (rule egInv_same [of a]) auto

lemma egInv_stream:
  assumes "egInv a" "p < length (egHeap a)"
  shows "ustreamInv (ustream p a)" "set (uInbound (ustream p a)) \<subseteq> set (egHandled a)"
    "set (uTaken (ustream p a)) \<subseteq> set (egHandled a)"
  using egInvD(1-3) [OF assms(1)] assms(2) by auto

lemma egInv_setReader:
  "egInv a \<Longrightarrow> p < length (egHeap a) \<Longrightarrow> uReader (ustream p a) \<noteq> EgReaderNotStarted \<Longrightarrow>
     egInv (egSetReader p EgReaderDone a)"
  unfolding egSetReader_def using egInv_stream [of a p]
  by (intro egInv_setUstream) (auto intro: ustream_reader_stops)

lemma egInv_setWriter:
  "egInv a \<Longrightarrow> p < length (egHeap a) \<Longrightarrow> uWriter (ustream p a) \<noteq> EgWriterNotStarted \<Longrightarrow>
     egInv (egSetWriter p EgWriterDone a)"
  unfolding egSetWriter_def using egInv_stream [of a p]
  by (intro egInv_setUstream) (auto intro: ustream_writer_stops)

lemma egInv_setRun:
  "egInv a \<Longrightarrow> p < length (egHeap a) \<Longrightarrow> pc \<noteq> RunDialing \<Longrightarrow> egInv (egSetRun p pc a)"
  unfolding egSetRun_def using egInv_stream [of a p]
  by (intro egInv_setUstream) (auto intro: ustream_run)

lemma eg_store_inv:
  assumes "egStoreStream sid a = Some a'" "egInv a"
  shows "egInv a'"
proof -
  note d = egInvD [OF assms(2)]
  let ?n = "length (egHeap a)"
  have a': "a' = a\<lparr>egStreams := (egStreams a)(sid \<mapsto> ?n), egHeap := egHeap a @ [newUpstream sid]\<rparr>"
    using assms(1) by (auto simp: egStoreStream_def split: if_splits)
  have st: "ustream q a' = (if q = ?n then newUpstream sid else ustream q a)" if "q \<le> ?n" for q
    using that by (auto simp: a' ustream_def nth_append)
  have new: "uId (newUpstream sid) = sid" "\<not> uDone (newUpstream sid)" "uInbound (newUpstream sid) = []"
    "uTaken (newUpstream sid) = []"
    by (simp_all add: newUpstream_def)
  have f: "length (egHeap a') = Suc ?n" "egHandled a' = egHandled a" "egCalls a' = egCalls a"
    "egStreams a' = (egStreams a)(sid \<mapsto> ?n)"
    by (simp_all add: a')
  have "ustreamInv (ustream p a') \<and>
      set (uInbound (ustream p a')) \<union> set (uTaken (ustream p a')) \<subseteq> set (egHandled a')"
    if "p < length (egHeap a')" for p
    using that d(1-3) [of p] newUpstream_inv [of sid] by (auto simp: st f new less_Suc_eq)
  moreover have "p < length (egHeap a') \<and> uId (ustream p a') = s \<and> \<not> uDone (ustream p a')"
    if "egStreams a' s = Some p" for s p
    using that d(4) [of s p] by (auto simp: st f new split: if_splits)
  moreover have "p < length (egHeap a')" if "EgNotify p \<in> set (egCalls a')" for p
    using that d(5) [of p] by (simp add: f)
  ultimately show ?thesis unfolding egInv_def by blast
qed

lemma eg_queue_inv:
  assumes "egQueueInbound ch p f a = Some a'" "egInv a" "p < length (egHeap a)"
    "Kind f = FrameStreamData" "StreamID f = uId (ustream p a)" "f \<in> set (egHandled a)"
  shows "egInv a'"
proof -
  note s = egInv_stream [OF assms(2,3)]
  have "egInv (setUstream p ((ustream p a)\<lparr>uInbound := uInbound (ustream p a) @ [f]\<rparr>) a)"
    if "length (uInbound (ustream p a)) < egressQueueSize"
    using assms s ustream_queued [OF s(1) that] by (intro egInv_setUstream) auto
  moreover have "egInv (a\<lparr>egCalls := egCalls a @ [EgCloseStream sid True]\<rparr>)" for sid
    using assms(2) egInvD(5) [OF assms(2)] by (intro egInv_calls) auto
  ultimately show ?thesis
    using assms(1,2) by (auto simp: egQueueInbound_def Let_def split: egQueueChoice.splits if_splits)
qed

lemma eg_handle_inv:
  assumes "egHandleFrame ch f a = Some (e, a')" "egInv a"
  shows "egInv a'"
proof -
  let ?a = "a\<lparr>egHandled := egHandled a @ [f]\<rparr>"
  have inv: "egInv ?a" using assms(2) by (rule egInv_handled)
  have "egInv b" if "egStreams ?a (StreamID f) = Some p" "egQueueInbound ch p f ?a = Some b"
    "Kind f = FrameStreamData" for p b
    using eg_queue_inv [OF that(2) inv] egInvD(4) [OF inv that(1)] that(3) by simp
  with assms(1) inv show ?thesis
    by (auto simp: egHandleFrame_def Let_def egInv_closeStream dest: eg_store_inv
        split: option.splits if_splits)
qed

lemma eg_dial_inv:
  assumes "egDial k p a = Some a'" "egInv a" "p < length (egHeap a)"
  shows "egInv a'"
proof -
  note s = egInv_stream [OF assms(2,3)]
  have "egInv (setUstream p ((setConn (ustream p a))\<lparr>uRun := RunLoops, uReader := EgReaderReading,
      uWriter := EgWriterSelect\<rparr>) a)" if "uRun (ustream p a) = RunDialing"
    using assms s ustream_dialed [OF s(1) that] by (intro egInv_setUstream) (auto simp: setConn_def)
  with assms egInv_setRun [OF assms(2,3)] show ?thesis
    by (auto simp: egDial_def Let_def split: if_splits)
qed

lemma eg_read_inv:
  assumes "egRead k p bs e a = Some a'" "egInv a" "p < length (egHeap a)"
  shows "egInv a'"
proof -
  note s = egInv_stream [OF assms(2,3)]
  have "egInv (setUstream p ((ustream p a)\<lparr>uSendSequence := uSendSequence (ustream p a) + 1,
      uRead := uRead (ustream p a) @ [bs],
      uReader := EgReaderSending (dataFrame (uId (ustream p a)) (uSendSequence (ustream p a)) bs) e\<rparr>) a)"
    if "uReader (ustream p a) = EgReaderReading" "bs \<noteq> []" "length bs \<le> StreamChunkSize"
    using assms s ustream_read [OF s(1) that] by (intro egInv_setUstream) auto
  with assms egInv_setReader [OF assms(2,3)] show ?thesis
    by (auto simp: egRead_def Let_def split: if_splits)
qed

lemma eg_read_send_inv:
  assumes "egReadSend k p a = Some a'" "egInv a" "p < length (egHeap a)"
  shows "egInv a'"
proof -
  note s = egInv_stream [OF assms(2,3)]
  obtain f e where pc: "uReader (ustream p a) = EgReaderSending f e"
    using assms(1) by (auto simp: egReadSend_def Let_def split: egReaderPc.splits)
  have "egInv (setUstream p ((ustream p a)\<lparr>uSent := uSent (ustream p a) @ [f], uReader := pc'\<rparr>) a)"
    "egInv (setUstream p ((ustream p a)\<lparr>uSent := uSent (ustream p a) @ [f],
      uReader := pc', uLoopCancelled := b\<rparr>) a)" if "pc' \<in> {EgReaderReading, EgReaderDone}" for pc' b
    using assms s ustream_sent [OF s(1) pc that] by (auto intro!: egInv_setUstream)
  then show ?thesis
    using assms pc egInv_setReader [OF assms(2,3)]
    by (auto simp: egReadSend_def egWriteFrame_def egSetReader_def setUstream_update Let_def
        split: if_splits)
qed

lemma eg_select_inv:
  assumes "egSelect ch p a = Some a'" "egInv a" "p < length (egHeap a)"
  shows "egInv a'"
proof -
  note s = egInv_stream [OF assms(2,3)]
  show ?thesis
  proof (cases ch)
    case EgWriterInbound
    with assms(1) obtain f fs where f: "uInbound (ustream p a) = f # fs"
      and pc: "uWriter (ustream p a) = EgWriterSelect"
      by (auto simp: egSelect_def Let_def split: list.splits if_splits)
    note d = ustream_dropped [OF s(1) f]
    let ?d = "setUstream p ((ustream p a)\<lparr>uInbound := fs\<rparr>) a"
    have inv: "egInv ?d" using assms s f d by (intro egInv_setUstream) auto
    have "egInv (egSetWriter p EgWriterDone ?d)"
      using inv assms(3) pc by (intro egInv_setWriter) auto
    moreover have "Sequence f = uRecvSequence (ustream p a) \<Longrightarrow> egInv (setUstream p
         ((ustream p a)\<lparr>uInbound := fs, uRecvSequence := uRecvSequence (ustream p a) + 1,
            uTaken := uTaken (ustream p a) @ [f], uWriter := EgWriterWrite f\<rparr>) a)"
      using assms s f pc ustream_taken [OF s(1) f pc] by (intro egInv_setUstream) auto
    ultimately show ?thesis using EgWriterInbound assms(1) f pc inv
      by (auto simp: egSelect_def Let_def split: if_splits)
  qed (use assms egInv_setWriter [OF assms(2,3)] in
      \<open>auto simp: egSelect_def Let_def split: if_splits\<close>)
qed

lemma eg_write_inv:
  assumes "egWrite r p a = Some a'" "egInv a" "p < length (egHeap a)"
  shows "egInv a'"
proof -
  note s = egInv_stream [OF assms(2,3)]
  obtain f where pc: "uWriter (ustream p a) = EgWriterWrite f"
    using assms(1) by (auto simp: egWrite_def Let_def split: egWriterPc.splits)
  have "egInv (setUstream p ((ustream p a)\<lparr>uWritten := uWritten (ustream p a) @ Payload f,
      uWriter := EgWriterSelect\<rparr>) a)"
    "egInv (setUstream p ((ustream p a)\<lparr>uWritten := uWritten (ustream p a) @ take n (Payload f),
      uWriter := EgWriterDone, uLoopCancelled := b\<rparr>) a)" for n b
    using assms s pc ustream_written [OF s(1) pc] by (auto intro!: egInv_setUstream)
  with assms pc egInv_setWriter [OF assms(2,3)] show ?thesis
    by (auto simp: egWrite_def egSetWriter_def Let_def split: writeResult.splits)
qed

lemma eg_finish_inv:
  "egFinish p a = Some a' \<Longrightarrow> egInv a \<Longrightarrow> p < length (egHeap a) \<Longrightarrow> egInv a'"
  by (auto simp: egFinish_def intro!: egInv_closeStream egInv_setRun split: if_splits)

lemma eg_join_inv:
  "egJoin p a = Some a' \<Longrightarrow> egInv a \<Longrightarrow> p < length (egHeap a) \<Longrightarrow> egInv a'"
  by (auto simp: egJoin_def Let_def intro!: egInv_setRun split: if_splits)

lemma eg_notify_inv:
  assumes "egInv a" "p < length (egHeap a)"
  shows "egInv (egNotifyRemoteClose k p a)"
proof -
  note s = egInv_stream [OF assms]
  have "egInv (setUstream p ((ustream p a)\<lparr>uNotified := True\<rparr>) a)"
    "egInv (setUstream p ((ustream p a)\<lparr>uNotified := True,
       uSent := uSent (ustream p a) @ [closeFrame (uId (ustream p a))]\<rparr>) a)"
    if "\<not> uNotified (ustream p a)"
    using assms s ustream_notified [OF s(1) that] by (auto intro!: egInv_setUstream)
  with assms show ?thesis
    by (auto simp: egNotifyRemoteClose_def egWriteFrame_def setUstream_update Let_def)
qed

lemma eg_call_inv:
  assumes "egCall w k a = Some a'" "egInv a"
  shows "egInv a'"
proof -
  let ?a = "a\<lparr>egCalls := take k (egCalls a) @ drop (Suc k) (egCalls a)\<rparr>"
  from assms(1) have k: "k < length (egCalls a)" and a': "a' = egCallStep w (egCalls a ! k) ?a"
    by (auto simp: egCall_def split: if_splits)
  have inv: "egInv ?a" using assms(2) egInvD(5) [OF assms(2)]
    by (intro egInv_calls) (auto dest: in_set_takeD in_set_dropD)
  show ?thesis
  proof (cases "egCalls a ! k")
    case (EgNotify p)
    then have "p < length (egHeap a)" using k egInvD(5) [OF assms(2)] nth_mem by metis
    with inv EgNotify show ?thesis by (simp add: a' egCallStep_def eg_notify_inv)
  qed (simp add: a' egCallStep_def egInv_closeStream inv)
qed

lemma eg_close_all_inv: "egInv a \<Longrightarrow> egInv (egCloseAll a)"
  unfolding egCloseAll_def using egInvD(5) [of a] by (intro egInv_calls) auto

lemma eg_step_inv: "egStep e a = Some a' \<Longrightarrow> egInv a \<Longrightarrow> egInv a'"
  by (cases e)
    (auto simp: eg_close_all_inv split: if_splits intro: eg_handle_inv eg_dial_inv eg_read_inv
      eg_read_send_inv eg_select_inv eg_write_inv eg_join_inv eg_finish_inv eg_call_inv)

lemma eg_init_inv [simp]: "egInv newTCPEgress"
  by (simp add: egInv_def newTCPEgress_def)

theorem eg_reachable_inv: "egReachable a \<Longrightarrow> egInv a"
  by (induction rule: egReachable.induct) (auto intro: eg_step_inv)

text \<open>The frames a writer took are numbered, and it wrote a prefix of their payloads.\<close>

lemma egress_writes_numbered:
  assumes "egReachable a" "q < length (egHeap a)"
  shows "\<exists>fs. prefix (uWritten (ustream q a)) (concat (map Payload fs)) \<and> set fs \<subseteq> set (egHandled a)
    \<and> (\<forall>k<length fs. Kind (fs ! k) = FrameStreamData \<and> StreamID (fs ! k) = uId (ustream q a)
         \<and> Sequence (fs ! k) = of_nat k)"
proof (intro exI conjI allI impI)
  note s = egInv_stream [OF eg_reachable_inv [OF assms(1)] assms(2)]
  show "prefix (uWritten (ustream q a)) (concat (map Payload (uTaken (ustream q a))))"
    using s(1) egWriterOk_prefix by (auto simp: ustreamInv_def)
  show "set (uTaken (ustream q a)) \<subseteq> set (egHandled a)" by (rule s(3))
  fix k assume "k < length (uTaken (ustream q a))"
  then show "Kind (uTaken (ustream q a) ! k) = FrameStreamData"
    "StreamID (uTaken (ustream q a) ! k) = uId (ustream q a)"
    "Sequence (uTaken (ustream q a) ! k) = of_nat k"
    using s(1) by (auto simp: ustream_inv_defs)
qed

section \<open>Properties\<close>

definition egSample :: "tcpEgress option" where
  "egSample = egRun [EgHandle EgQueueDone (openFrame 5), EgDial 0 True, EgRead 0 True [97] False,
     EgReadSend 0 True, EgHandle EgQueueInbound (dataFrame 5 0 [98]), EgSelect 0 EgWriterInbound,
     EgWrite 0 WriteDone] newTCPEgress"

lemma egSample_state:
  "map_option (\<lambda>a. (length (egHeap a), uId (ustream 0 a), uWritten (ustream 0 a),
       map Payload (uSent (ustream 0 a)))) egSample = Some (1, 5, [98], [[97]])"
  by code_simp

lemma egSample_reachable: "egSample = Some a \<Longrightarrow> egReachable a"
  unfolding egSample_def by (rule egRun_reachable [OF egReachable.start])

text \<open>
  What a stream of the server puts on the endpoint, in every reachable state: besides at most
  one close frame, the chunks read from the upstream, in the order read and numbered from zero.  At
  most the last chunk read is missing, every chunk has between 1 and \<open>StreamChunkSize\<close> bytes, and
  every frame carries the identifier under which the client opened the stream.
\<close>

theorem egress_stream_frames:
  assumes "egReachable a" "p < length (egHeap a)"
  shows "(\<forall>f\<in>set (uSent (ustream p a)). StreamID f = uId (ustream p a))
    \<and> length (filter (\<lambda>f. Kind f = FrameStreamClose) (uSent (ustream p a))) \<le> 1
    \<and> (\<forall>c\<in>set (uRead (ustream p a)). 0 < length c \<and> length c \<le> StreamChunkSize)
    \<and> (\<exists>n. length (uRead (ustream p a)) \<le> Suc n \<and>
          nonClose (uSent (ustream p a)) =
            streamFrames (uId (ustream p a)) (take n (uRead (ustream p a))))"
proof -
  have inv: "ustreamInv (ustream p a)"
    using egInv_stream(1) [OF eg_reachable_inv [OF assms(1)] assms(2)] .
  then have "egReaderOk (uId (ustream p a)) EgReaderDone (uRead (ustream p a)) (nonClose (uSent (ustream p a)))"
    using egReaderOk_done by (auto simp: ustreamInv_def)
  with inv show ?thesis by (auto simp: ustreamInv_def closesOk_def split: if_splits)
qed

theorem egress_stream_frames_witness:
  "\<exists>a. egSample = Some a \<and> map Payload (uSent (ustream 0 a)) = [[97]]
     \<and> length (filter (\<lambda>f. Kind f = FrameStreamClose) (uSent (ustream 0 a))) \<le> 1"
proof -
  from egSample_state obtain a where a: "egSample = Some a" "length (egHeap a) = 1"
    "map Payload (uSent (ustream 0 a)) = [[97]]" by (auto simp: map_option_eq_Some)
  from egress_stream_frames [OF egSample_reachable [OF a(1)], of 0] a show ?thesis by auto
qed

text \<open>
  What a stream of the server writes to the upstream, in every reachable state: a prefix of
  the payloads of a sequence of handled data frames of this stream that are numbered 0, 1, 2, and
  so on.  Frames out of order, repeated, or of another stream contribute nothing, and no more than
  \<open>egressQueueSize\<close> frames wait.
\<close>

theorem egress_upstream_writes:
  assumes "egReachable a" "p < length (egHeap a)"
  shows "\<exists>fs. prefix (uWritten (ustream p a)) (concat (map Payload fs))
    \<and> set fs \<subseteq> set (egHandled a)
    \<and> (\<forall>k<length fs. Kind (fs ! k) = FrameStreamData \<and> StreamID (fs ! k) = uId (ustream p a)
         \<and> Sequence (fs ! k) = of_nat k)
    \<and> length (uInbound (ustream p a)) \<le> egressQueueSize"
proof -
  have "length (uInbound (ustream p a)) \<le> egressQueueSize"
    using egInv_stream(1) [OF eg_reachable_inv [OF assms(1)] assms(2)]
    by (simp add: ustream_inv_defs egressQueueSize_eq)
  with egress_writes_numbered [OF assms] show ?thesis by auto
qed

theorem egress_upstream_writes_witness:
  "\<exists>a (fs :: frame list). egSample = Some a \<and> uWritten (ustream 0 a) = [98]
     \<and> prefix [98] (concat (map Payload fs)) \<and> (\<forall>k<length fs. Sequence (fs ! k) = of_nat k)"
proof -
  from egSample_state obtain a where a: "egSample = Some a" "length (egHeap a) = 1"
    "uWritten (ustream 0 a) = [98]" by (auto simp: map_option_eq_Some)
  from egress_upstream_writes [OF egSample_reachable [OF a(1)], of 0] a(2)
  obtain fs :: "frame list" where "prefix (uWritten (ustream 0 a)) (concat (map Payload fs))"
    "\<forall>k<length fs. Sequence (fs ! k) = of_nat k" by auto
  with a show ?thesis by auto
qed

end
