(* ===== verification/StreamPipe.thy ===== *)
theory StreamPipe
  imports TcpEgressInv
begin

text \<open>
  Both ends of a TCP stream.  A sender numbers the chunks it reads, a receiver writes what it is
  handed in the order of the numbers.  Between them the frames travel over DTLS and a relay, which
  may lose, repeat and reorder them: the only thing required is that every data frame of the stream
  that the receiver handles was put on its way by the sender.
\<close>

abbreviation dataFrames :: "frame list \<Rightarrow> frame list" where
  "dataFrames fs \<equiv> filter (\<lambda>f. Kind f = FrameStreamData) fs"

locale stream_sender =
  fixes sends :: "'s \<Rightarrow> nat \<Rightarrow> bool"
    and senderId :: "'s \<Rightarrow> nat \<Rightarrow> 64 word"
    and chunks :: "'s \<Rightarrow> nat \<Rightarrow> byte list list"
    and sent :: "'s \<Rightarrow> nat \<Rightarrow> frame list"
  assumes sent_numbered: "sends s p \<Longrightarrow>
    \<exists>n. dataFrames (sent s p) = streamFrames (senderId s p) (take n (chunks s p))"

locale stream_receiver =
  fixes receives :: "'r \<Rightarrow> nat \<Rightarrow> bool"
    and receiverId :: "'r \<Rightarrow> nat \<Rightarrow> 64 word"
    and handled :: "'r \<Rightarrow> frame list"
    and written :: "'r \<Rightarrow> nat \<Rightarrow> byte list"
  assumes written_in_order: "receives r q \<Longrightarrow>
    \<exists>fs. prefix (written r q) (concat (map Payload fs)) \<and> set fs \<subseteq> set (handled r)
      \<and> (\<forall>k<length fs. Kind (fs ! k) = FrameStreamData \<and> StreamID (fs ! k) = receiverId r q
           \<and> Sequence (fs ! k) = of_nat k)"

text \<open>Frames with consecutive numbers among the frames of a sender are the first chunks.\<close>

lemma numbered_prefix:
  assumes "\<forall>k<length fs. Sequence (fs ! k) = of_nat k" "set fs \<subseteq> set (streamFrames sid cs)"
    "length cs < 2 ^ 64"
  shows "prefix (map Payload fs) cs"
proof -
  have nth: "k < length cs \<and> Payload (fs ! k) = cs ! k" if "k < length fs" "k < 2 ^ 64" for k
  proof -
    have "fs ! k \<in> set (streamFrames sid cs)" using that(1) assms(2) nth_mem by blast
    then obtain j where j: "j < length cs" "fs ! k = dataFrame sid (of_nat j) (cs ! j)"
      by (auto simp: set_streamFrames)
    then have "(of_nat j :: 64 word) = of_nat k" using assms(1) that(1) by (metis frame_fields(3))
    then have "unat (of_nat j :: 64 word) = unat (of_nat k :: 64 word)" by simp
    then have "j = k" using j(1) assms(3) that(2) by (simp add: unat_of_nat)
    with j show ?thesis by simp
  qed
  have "length fs \<le> length cs"
  proof (rule ccontr)
    assume "\<not> length fs \<le> length cs"
    with nth [of "length cs"] assms(3) show False by simp
  qed
  moreover from this have "map Payload fs = take (length fs) cs"
    using nth assms(3) by (intro nth_equalityI) auto
  ultimately show ?thesis by (metis take_is_prefix)
qed

locale stream_pipe =
  stream_sender sends senderId chunks sent + stream_receiver receives receiverId handled written
  for sends :: "'s \<Rightarrow> nat \<Rightarrow> bool" and senderId chunks sent
    and receives :: "'r \<Rightarrow> nat \<Rightarrow> bool" and receiverId handled written
begin

lemma pipe_prefix:
  assumes "sends s p" "receives r q" "length (chunks s p) < 2 ^ 64"
    and carried: "\<And>f. f \<in> set (handled r) \<Longrightarrow> Kind f = FrameStreamData \<Longrightarrow>
      StreamID f = receiverId r q \<Longrightarrow> f \<in> set (sent s p)"
  shows "prefix (written r q) (concat (chunks s p))"
proof -
  obtain n where n: "dataFrames (sent s p) = streamFrames (senderId s p) (take n (chunks s p))"
    using sent_numbered [OF assms(1)] by blast
  obtain fs where fs: "prefix (written r q) (concat (map Payload fs))" "set fs \<subseteq> set (handled r)"
    "\<forall>k<length fs. Kind (fs ! k) = FrameStreamData \<and> StreamID (fs ! k) = receiverId r q
       \<and> Sequence (fs ! k) = of_nat k"
    using written_in_order [OF assms(2)] by blast
  have "f \<in> set (dataFrames (sent s p))" if "f \<in> set fs" for f
  proof -
    from that obtain k where "k < length fs" "f = fs ! k" by (auto simp: in_set_conv_nth)
    with fs(3) have "Kind f = FrameStreamData" "StreamID f = receiverId r q" by auto
    with carried [of f] that fs(2) show ?thesis by auto
  qed
  then have "set fs \<subseteq> set (streamFrames (senderId s p) (take n (chunks s p)))" unfolding n by blast
  then have "prefix (map Payload fs) (take n (chunks s p))"
    using fs(3) assms(3) by (intro numbered_prefix) auto
  then have "prefix (map Payload fs) (chunks s p)" using take_is_prefix prefix_order.trans by blast
  then have "prefix (concat (map Payload fs)) (concat (chunks s p))" by (auto simp: prefix_def)
  with fs(1) show ?thesis by (rule prefix_order.trans)
qed

end

section \<open>The two ends as senders and receivers\<close>

lemma dataFrames_streamFrames [simp]:
  "dataFrames (streamFrames sid cs) = streamFrames sid cs"
  by (rule filter_True) (auto simp: set_streamFrames)

lemma dataFrames_nonClose: "dataFrames fs = dataFrames (nonClose fs)"
  by (induction fs) auto

abbreviation tcpStreamOf :: "tcpIngress \<Rightarrow> nat \<Rightarrow> bool" where
  "tcpStreamOf t p \<equiv> (\<exists>cap. tcpReachable cap t) \<and> p < length (heap t)"

abbreviation egStreamOf :: "tcpEgress \<Rightarrow> nat \<Rightarrow> bool" where
  "egStreamOf a q \<equiv> egReachable a \<and> q < length (egHeap a)"

lemma ingress_sends:
  assumes "tcpStreamOf t p"
  shows "\<exists>n. dataFrames (sSent (stream p t)) = streamFrames (sId (stream p t)) (take n (sRead (stream p t)))"
proof -
  have inv: "streamInv p (stream p t)" using assms tcp_reachable_inv tcpInv_stream(1) by blast
  show ?thesis
  proof (cases "sReader (stream p t) = ReaderNotStarted")
    case True
    with inv have "nonClose (sSent (stream p t)) = []" by (simp add: streamInv_def)
    then show ?thesis unfolding dataFrames_nonClose [of "sSent (stream p t)"] by (auto intro: exI [of _ 0])
  next
    case False
    with inv obtain n where "sentUpTo (sId (stream p t)) (sRead (stream p t)) n (nonClose (sSent (stream p t)))"
      unfolding streamInv_def using readerOk_sent [OF _ False] by blast
    then show ?thesis unfolding dataFrames_nonClose [of "sSent (stream p t)"] sentUpTo_def by auto
  qed
qed

lemma egress_sends:
  assumes "egStreamOf a q"
  shows "\<exists>n. dataFrames (uSent (ustream q a)) = streamFrames (uId (ustream q a)) (take n (uRead (ustream q a)))"
proof -
  have inv: "ustreamInv (ustream q a)" using assms eg_reachable_inv egInv_stream(1) by blast
  then have "egReaderOk (uId (ustream q a)) EgReaderDone (uRead (ustream q a)) (nonClose (uSent (ustream q a)))"
    unfolding ustreamInv_def using egReaderOk_done by blast
  then obtain n where "nonClose (uSent (ustream q a)) = streamFrames (uId (ustream q a)) (take n (uRead (ustream q a)))"
    by auto
  then show ?thesis unfolding dataFrames_nonClose [of "uSent (ustream q a)"] by auto
qed

interpretation upstream: stream_pipe tcpStreamOf "\<lambda>t p. sId (stream p t)" "\<lambda>t p. sRead (stream p t)"
    "\<lambda>t p. sSent (stream p t)" egStreamOf "\<lambda>a q. uId (ustream q a)" egHandled
    "\<lambda>a q. uWritten (ustream q a)"
  by unfold_locales (blast intro: ingress_sends egress_writes_numbered)+

interpretation downstream: stream_pipe egStreamOf "\<lambda>a q. uId (ustream q a)"
    "\<lambda>a q. uRead (ustream q a)" "\<lambda>a q. uSent (ustream q a)" tcpStreamOf
    "\<lambda>t p. sId (stream p t)" tDelivered "\<lambda>t p. sWritten (stream p t)"
  by unfold_locales (blast intro: egress_sends ingress_writes_numbered)+

section \<open>Properties\<close>

text \<open>
  C3: End to end, from the local connection of the client to the upstream of the server: whatever
  the network loses, repeats or reorders, and in every schedule of both ends, the bytes written to
  the upstream are a prefix of the bytes read from the local connection, as long as the data frames
  the server handles for the stream are frames the client's stream sent and fewer than \<open>2 ^ 64\<close> chunks
  were read.
\<close>

theorem stream_upstream_integrity:
  assumes "tcpReachable cap t" "p < length (heap t)" "egReachable a" "q < length (egHeap a)"
    "length (sRead (stream p t)) < 2 ^ 64"
    "\<And>f. f \<in> set (egHandled a) \<Longrightarrow> Kind f = FrameStreamData \<Longrightarrow> StreamID f = uId (ustream q a) \<Longrightarrow>
       f \<in> set (sSent (stream p t))"
  shows "prefix (uWritten (ustream q a)) (concat (sRead (stream p t)))"
  using assms by (intro upstream.pipe_prefix) blast+

text \<open>A server that is handed the frames of the sample run of the client, repeated.\<close>

definition pipeSample :: "tcpEgress option" where
  "pipeSample = egRun [EgHandle EgQueueDone (openFrame 1), EgDial 0 True,
     EgHandle EgQueueInbound (dataFrame 1 0 [97]), EgSelect 0 EgWriterInbound, EgWrite 0 WriteDone,
     EgHandle EgQueueInbound (dataFrame 1 1 [98]), EgRead 0 True [99] False, EgReadSend 0 True] newTCPEgress"

lemma pipeSample_state:
  "map_option (\<lambda>a. (length (egHeap a), uWritten (ustream 0 a), uRead (ustream 0 a),
       uSent (ustream 0 a) = [dataFrame 1 0 [99]],
       egHandled a = [openFrame 1, dataFrame 1 0 [97], dataFrame 1 1 [98]])) pipeSample =
   Some (1, [97], [[99]], True, True)"
  by code_simp

lemma pipeSample_reachable: "pipeSample = Some a \<Longrightarrow> egReachable a"
  unfolding pipeSample_def by (rule egRun_reachable [OF egReachable.start])

lemma clientSample_state:
  "map_option (\<lambda>t. (length (heap t), sRead (stream 0 t), sWritten (stream 0 t),
       sSent (stream 0 t) = [openFrame 1, dataFrame 1 0 [97], dataFrame 1 1 [98]],
       tDelivered t = [dataFrame 1 0 [99]]))
     (sampleRun [EvSelect 0 WriterInbound, EvWrite 0 WriteDone]) =
   Some (1, [[97], [98]], [99], True, True)"
  by code_simp

theorem stream_upstream_integrity_witness:
  "\<exists>t a. tcpReachable 64 t \<and> egReachable a \<and> uWritten (ustream 0 a) = [97]
     \<and> concat (sRead (stream 0 t)) = [97, 98] \<and> prefix (uWritten (ustream 0 a)) (concat (sRead (stream 0 t)))"
proof -
  from pipeSample_state obtain a where a: "pipeSample = Some a" "length (egHeap a) = 1"
    "uWritten (ustream 0 a) = [97]" "egHandled a = [openFrame 1, dataFrame 1 0 [97], dataFrame 1 1 [98]]"
    by (auto simp: map_option_eq_Some)
  from clientSample_state obtain t
    where t: "sampleRun [EvSelect 0 WriterInbound, EvWrite 0 WriteDone] = Some t" "length (heap t) = 1"
      "sRead (stream 0 t) = [[97], [98]]" "sSent (stream 0 t) = [openFrame 1, dataFrame 1 0 [97], dataFrame 1 1 [98]]"
    by (auto simp: map_option_eq_Some)
  note r = sampleRun_reachable [OF t(1)] pipeSample_reachable [OF a(1)]
  have "prefix (uWritten (ustream 0 a)) (concat (sRead (stream 0 t)))"
    by (rule stream_upstream_integrity [OF r(1) _ r(2)]) (use a t in auto)
  with a(3) t(3) r show ?thesis by (auto intro!: exI [of _ t] exI [of _ a])
qed

text \<open>
  C4: The same from the upstream of the server back to the local connection of the client.
\<close>

theorem stream_downstream_integrity:
  assumes "egReachable a" "q < length (egHeap a)" "tcpReachable cap t" "p < length (heap t)"
    "length (uRead (ustream q a)) < 2 ^ 64"
    "\<And>f. f \<in> set (tDelivered t) \<Longrightarrow> Kind f = FrameStreamData \<Longrightarrow> StreamID f = sId (stream p t) \<Longrightarrow>
       f \<in> set (uSent (ustream q a))"
  shows "prefix (sWritten (stream p t)) (concat (uRead (ustream q a)))"
  using assms by (intro downstream.pipe_prefix) blast+

theorem stream_downstream_integrity_witness:
  "\<exists>t a. tcpReachable 64 t \<and> egReachable a \<and> sWritten (stream 0 t) = [99]
     \<and> uRead (ustream 0 a) = [[99]] \<and> prefix (sWritten (stream 0 t)) (concat (uRead (ustream 0 a)))"
proof -
  from pipeSample_state obtain a where a: "pipeSample = Some a" "length (egHeap a) = 1"
    "uRead (ustream 0 a) = [[99]]" "uSent (ustream 0 a) = [dataFrame 1 0 [99]]"
    by (auto simp: map_option_eq_Some)
  from clientSample_state obtain t
    where t: "sampleRun [EvSelect 0 WriterInbound, EvWrite 0 WriteDone] = Some t" "length (heap t) = 1"
      "sWritten (stream 0 t) = [99]" "tDelivered t = [dataFrame 1 0 [99]]"
    by (auto simp: map_option_eq_Some)
  note r = sampleRun_reachable [OF t(1)] pipeSample_reachable [OF a(1)]
  have "prefix (sWritten (stream 0 t)) (concat (uRead (ustream 0 a)))"
    by (rule stream_downstream_integrity [OF r(2) _ r(1)]) (use a t in auto)
  with a(3) t(3) r show ?thesis by (auto intro!: exI [of _ t] exI [of _ a])
qed

end
