(* ===== verification/PlainServer.thy ===== *)
theory PlainServer
  imports RunStage GoPrelude
begin

text \<open>
  The server without DTLS (\<^verbatim>\<open>internal/tunnelserver/plain_server.go\<close>): one loop reads datagrams and
  keeps a session, an upstream socket, per client address; a goroutine per session carries the
  replies back and ends the session when it idles.  The model is a step machine in which the loop
  and the sessions take turns in any order.

  A client address is its string, the key of the table.  \<open>closeSession\<close> is one step: only the table
  and the socket are shared, and whoever still holds the session meets a closed socket either way.
  \<open>plReceived\<close>, \<open>psForwarded\<close>, \<open>psReadUp\<close> and \<open>psReplied\<close> are traces the program does not read.
\<close>

datatype plainPc = PlainCheck | PlainReading | PlainReply "byte list" | PlainClosing | PlainDone

record plainSession =
  psRemote :: string
  psOpen :: bool
  psCancelled :: bool
  psLastSeen :: int
  psPc :: plainPc
  psForwarded :: "byte list list"
  psReadUp :: "byte list list"
  psReplied :: "byte list list"

datatype mainPc =
    MainRead
  | MainDial string "byte list"
  | MainStore string "byte list"
  | MainWrite nat "byte list"
  | MainReturned "goError option"

record plainServer =
  plSessions :: "string \<rightharpoonup> nat"
  plHeap :: "plainSession list"
  plMain :: mainPc
  plNow :: int
  plCtxDone :: bool
  plReceived :: "(string \<times> byte list) list"
  plFailures :: "string list"
  plTraffic :: "(string \<times> nat) list"

definition servePlain :: "int \<Rightarrow> plainServer" where
  "servePlain start = \<lparr>plSessions = Map.empty, plHeap = [], plMain = MainRead, plNow = start,
     plCtxDone = False, plReceived = [], plFailures = [], plTraffic = []\<rparr>"

definition psess :: "nat \<Rightarrow> plainServer \<Rightarrow> plainSession" where
  "psess p s = plHeap s ! p"

definition setPsess :: "nat \<Rightarrow> plainSession \<Rightarrow> plainServer \<Rightarrow> plainServer" where
  "setPsess p u s = s\<lparr>plHeap := (plHeap s)[p := u]\<rparr>"

definition touch :: "nat \<Rightarrow> plainServer \<Rightarrow> plainServer" where
  "touch p s = setPsess p ((psess p s)\<lparr>psLastSeen := plNow s\<rparr>) s"

definition closeSession :: "string \<Rightarrow> nat \<Rightarrow> plainServer \<Rightarrow> plainServer" where
  "closeSession key p s =
     setPsess p ((psess p s)\<lparr>psOpen := False, psCancelled := True\<rparr>)
       (if plSessions s key = Some p then s\<lparr>plSessions := (plSessions s)(key := None)\<rparr> else s)"

section \<open>The loop\<close>

text \<open>A datagram arrived: the first part of \<open>getOrCreateSession\<close>, up to the dial.\<close>

definition plainDatagram :: "string \<Rightarrow> byte list \<Rightarrow> plainServer \<Rightarrow> plainServer" where
  "plainDatagram key bs s0 =
     (let s = s0\<lparr>plReceived := plReceived s0 @ [(key, bs)]\<rparr> in
      case plSessions s key of
        Some p \<Rightarrow> (touch p s)\<lparr>plMain := MainWrite p bs\<rparr>
      | None \<Rightarrow> s\<lparr>plMain := MainDial key bs\<rparr>)"

datatype plainReadError = PlainTimeout | PlainNetClosed | PlainOther

definition plainReadFailed :: "plainReadError \<Rightarrow> plainServer \<Rightarrow> plainServer" where
  "plainReadFailed e s =
     (if plCtxDone s \<or> e = PlainNetClosed then s\<lparr>plMain := MainReturned None\<rparr>
      else if e = PlainTimeout then s
      else s\<lparr>plFailures := plFailures s @ [''forwarding_loop''],
             plMain := MainReturned (Some (ErrWrap ''read plain listener: '' (ErrText [])))\<rparr>)"

definition plainDial :: "bool \<Rightarrow> string \<Rightarrow> byte list \<Rightarrow> plainServer \<Rightarrow> plainServer" where
  "plainDial ok key bs s =
     (if ok then s\<lparr>plMain := MainStore key bs\<rparr>
      else s\<lparr>plFailures := plFailures s @ [''upstream_dial''], plMain := MainRead\<rparr>)"

definition newPlainSession :: "string \<Rightarrow> int \<Rightarrow> plainSession" where
  "newPlainSession remote now = \<lparr>psRemote = remote, psOpen = True, psCancelled = False,
     psLastSeen = now, psPc = PlainCheck, psForwarded = [], psReadUp = [], psReplied = []\<rparr>"

text \<open>The second part, under the lock again: another session may have been stored meanwhile.\<close>

definition plainStore :: "string \<Rightarrow> byte list \<Rightarrow> plainServer \<Rightarrow> plainServer" where
  "plainStore key bs s =
     (case plSessions s key of
        Some p \<Rightarrow> (touch p s)\<lparr>plMain := MainWrite p bs\<rparr>
      | None \<Rightarrow>
          s\<lparr>plSessions := (plSessions s)(key \<mapsto> length (plHeap s)),
            plHeap := plHeap s @ [newPlainSession key (plNow s)],
            plMain := MainWrite (length (plHeap s)) bs\<rparr>)"

text \<open>\<open>touch\<close> and the write, which fails if the session was closed meanwhile.\<close>

definition plainWrite :: "bool \<Rightarrow> nat \<Rightarrow> byte list \<Rightarrow> plainServer \<Rightarrow> plainServer" where
  "plainWrite ok p bs s0 =
     (let s = (touch p s0)\<lparr>plMain := MainRead\<rparr>; u = psess p s in
      if ok \<and> psOpen u
      then (setPsess p (u\<lparr>psForwarded := psForwarded u @ [bs]\<rparr>) s)
             \<lparr>plTraffic := plTraffic s @ [(''client_to_upstream'', length bs)]\<rparr>
      else closeSession (psRemote u) p (s\<lparr>plFailures := plFailures s @ [''forwarding_loop'']\<rparr>))"

section \<open>A session\<close>

definition setPc :: "nat \<Rightarrow> plainPc \<Rightarrow> plainServer \<Rightarrow> plainServer" where
  "setPc p pc s = setPsess p ((psess p s)\<lparr>psPc := pc\<rparr>) s"

definition sessionIdle :: "int \<Rightarrow> plainSession \<Rightarrow> int \<Rightarrow> bool" where
  "sessionIdle idle u now \<longleftrightarrow> 0 < idle \<and> idle < now - psLastSeen u"

definition plainCheck :: "int \<Rightarrow> nat \<Rightarrow> plainServer \<Rightarrow> plainServer" where
  "plainCheck idle p s =
     (let u = psess p s in
      if plCtxDone s \<or> psCancelled u then setPc p PlainClosing s
      else if sessionIdle idle u (plNow s) then setPc p PlainClosing s
      else setPc p PlainReading s)"

datatype plainUpstream = PlainUpData "byte list" | PlainUpTimeout | PlainUpError

text \<open>A read of the upstream: a closed socket gives an error.\<close>

definition plainRead :: "plainUpstream \<Rightarrow> nat \<Rightarrow> plainServer \<Rightarrow> plainServer" where
  "plainRead r p s =
     (let u = psess p s in
      if \<not> psOpen u then setPc p PlainClosing s
      else case r of
        PlainUpData bs \<Rightarrow> setPsess p (u\<lparr>psPc := PlainReply bs, psReadUp := psReadUp u @ [bs]\<rparr>) s
      | PlainUpTimeout \<Rightarrow> setPc p PlainCheck s
      | PlainUpError \<Rightarrow> setPc p PlainClosing s)"

definition plainReply :: "bool \<Rightarrow> byte list \<Rightarrow> nat \<Rightarrow> plainServer \<Rightarrow> plainServer" where
  "plainReply ok bs p s =
     (if ok
      then (setPsess p ((psess p s)\<lparr>psPc := PlainCheck, psReplied := psReplied (psess p s) @ [bs]\<rparr>) s)
             \<lparr>plTraffic := plTraffic s @ [(''upstream_to_client'', length bs)]\<rparr>
      else setPc p PlainClosing s)"

definition plainClose :: "nat \<Rightarrow> plainServer \<Rightarrow> plainServer" where
  "plainClose p s = closeSession (psRemote (psess p s)) p (setPc p PlainDone s)"

section \<open>The machine\<close>

datatype plainEvent =
    PDatagram string "byte list"
  | PReadError plainReadError
  | PDeadlineError
  | PDial bool
  | PStore
  | PWrite bool
  | PSession nat plainUpstream bool
  | PTick nat
  | PCtxDone

definition plainSessionStep :: "int \<Rightarrow> nat \<Rightarrow> plainUpstream \<Rightarrow> bool \<Rightarrow> plainServer \<Rightarrow> plainServer option" where
  "plainSessionStep idle p r ok s =
     (case psPc (psess p s) of
        PlainCheck \<Rightarrow> Some (plainCheck idle p s)
      | PlainReading \<Rightarrow> Some (plainRead r p s)
      | PlainReply bs \<Rightarrow> Some (plainReply ok bs p s)
      | PlainClosing \<Rightarrow> Some (plainClose p s)
      | PlainDone \<Rightarrow> None)"

fun plainStep :: "int \<Rightarrow> plainEvent \<Rightarrow> plainServer \<Rightarrow> plainServer option" where
  "plainStep idle (PDatagram key bs) s = (if plMain s = MainRead then Some (plainDatagram key bs s) else None)"
| "plainStep idle (PReadError e) s = (if plMain s = MainRead then Some (plainReadFailed e s) else None)"
| "plainStep idle PDeadlineError s = (if plMain s = MainRead
     then Some (s\<lparr>plMain := MainReturned (Some (ErrWrap ''set plain listener read deadline: '' (ErrText [])))\<rparr>)
     else None)"
| "plainStep idle (PDial ok) s =
     (case plMain s of MainDial key bs \<Rightarrow> Some (plainDial ok key bs s) | _ \<Rightarrow> None)"
| "plainStep idle PStore s =
     (case plMain s of MainStore key bs \<Rightarrow> Some (plainStore key bs s) | _ \<Rightarrow> None)"
| "plainStep idle (PWrite ok) s =
     (case plMain s of MainWrite p bs \<Rightarrow> Some (plainWrite ok p bs s) | _ \<Rightarrow> None)"
| "plainStep idle (PSession p r ok) s =
     (if p < length (plHeap s) then plainSessionStep idle p r ok s else None)"
| "plainStep idle (PTick n) s = Some (s\<lparr>plNow := plNow s + int n\<rparr>)"
| "plainStep idle PCtxDone s = Some (s\<lparr>plCtxDone := True\<rparr>)"

inductive plainReachable :: "int \<Rightarrow> plainServer \<Rightarrow> bool" for idle where
  start: "plainReachable idle (servePlain t)"
| event: "plainReachable idle s \<Longrightarrow> plainStep idle e s = Some s' \<Longrightarrow> plainReachable idle s'"

fun plainRun :: "int \<Rightarrow> plainEvent list \<Rightarrow> plainServer \<Rightarrow> plainServer option" where
  "plainRun idle [] s = Some s"
| "plainRun idle (e # es) s = (case plainStep idle e s of None \<Rightarrow> None | Some s' \<Rightarrow> plainRun idle es s')"

lemma plainRun_reachable: "plainReachable idle s \<Longrightarrow> plainRun idle es s = Some s' \<Longrightarrow> plainReachable idle s'"
  by (induction es arbitrary: s) (auto split: option.splits intro: plainReachable.event)

end
