(* ===== verification/PlainServerInv.thy ===== *)
theory PlainServerInv
  imports PlainServer "HOL-Library.Sublist"
begin

text \<open>
  The invariant of the plain server: the table holds exactly the sessions whose socket is open, a
  session forwards what its client sent and carries back what its upstream answered.
\<close>

definition fromClient :: "string \<Rightarrow> (string \<times> byte list) list \<Rightarrow> byte list list" where
  "fromClient key rs = List.map snd (filter (\<lambda>r. fst r = key) rs)"

text \<open>The datagram the loop is working on, and those it is done with.\<close>

fun pending :: "mainPc \<Rightarrow> plainServer \<Rightarrow> (string \<times> byte list) option" where
  "pending (MainDial key bs) s = Some (key, bs)"
| "pending (MainStore key bs) s = Some (key, bs)"
| "pending (MainWrite p bs) s = Some (psRemote (psess p s), bs)"
| "pending _ s = None"

definition settled :: "plainServer \<Rightarrow> (string \<times> byte list) list" where
  "settled s = (if pending (plMain s) s = None then plReceived s else butlast (plReceived s))"

fun replyOk :: "plainPc \<Rightarrow> byte list list \<Rightarrow> byte list list \<Rightarrow> bool" where
  "replyOk (PlainReply bs) rs ws \<longleftrightarrow> rs = ws @ [bs]"
| "replyOk PlainCheck rs ws \<longleftrightarrow> ws = rs"
| "replyOk PlainReading rs ws \<longleftrightarrow> ws = rs"
| "replyOk _ rs ws \<longleftrightarrow> prefix ws rs"

lemma replyOk_prefix: "replyOk pc rs ws \<Longrightarrow> prefix ws rs"
  by (cases pc) auto

definition psessInv :: "(string \<times> byte list) list \<Rightarrow> plainSession \<Rightarrow> bool" where
  "psessInv rs u \<longleftrightarrow> subseq (psForwarded u) (fromClient (psRemote u) rs)
     \<and> replyOk (psPc u) (psReadUp u) (psReplied u)
     \<and> (psPc u = PlainDone \<longrightarrow> \<not> psOpen u) \<and> psCancelled u = (\<not> psOpen u)"

fun mainOk :: "mainPc \<Rightarrow> plainServer \<Rightarrow> bool" where
  "mainOk (MainDial key bs) s \<longleftrightarrow> plSessions s key = None"
| "mainOk (MainStore key bs) s \<longleftrightarrow> plSessions s key = None"
| "mainOk (MainWrite p bs) s \<longleftrightarrow> p < length (plHeap s)"
| "mainOk _ s \<longleftrightarrow> True"

definition plainInv :: "plainServer \<Rightarrow> bool" where
  "plainInv s \<longleftrightarrow>
     (\<forall>p<length (plHeap s). psessInv (settled s) (psess p s) \<and>
        (\<forall>k. plSessions s k = Some p \<longleftrightarrow> psOpen (psess p s) \<and> psRemote (psess p s) = k)) \<and>
     (\<forall>k p. plSessions s k = Some p \<longrightarrow> p < length (plHeap s)) \<and>
     mainOk (plMain s) s \<and>
     (\<forall>r. pending (plMain s) s = Some r \<longrightarrow> plReceived s \<noteq> [] \<and> last (plReceived s) = r)"

lemma plainInvD:
  assumes "plainInv s"
  shows "p < length (plHeap s) \<Longrightarrow> psessInv (settled s) (psess p s)"
    and "p < length (plHeap s) \<Longrightarrow>
      plSessions s k = Some p \<longleftrightarrow> psOpen (psess p s) \<and> psRemote (psess p s) = k"
    and "plSessions s k = Some p \<Longrightarrow> p < length (plHeap s)"
    and "mainOk (plMain s) s"
    and "pending (plMain s) s = Some r \<Longrightarrow> plReceived s \<noteq> [] \<and> last (plReceived s) = r"
  using assms unfolding plainInv_def by blast+

lemma plainInvI:
  assumes "\<And>p. p < length (plHeap s) \<Longrightarrow> psessInv (settled s) (psess p s)"
    and "\<And>p k. p < length (plHeap s) \<Longrightarrow>
      plSessions s k = Some p \<longleftrightarrow> psOpen (psess p s) \<and> psRemote (psess p s) = k"
    and "\<And>k p. plSessions s k = Some p \<Longrightarrow> p < length (plHeap s)"
    and "mainOk (plMain s) s"
    and "\<And>r. pending (plMain s) s = Some r \<Longrightarrow> plReceived s \<noteq> [] \<and> last (plReceived s) = r"
  shows "plainInv s"
  using assms unfolding plainInv_def by blast

lemma psess_setPsess [simp]:
  "p < length (plHeap s) \<Longrightarrow> psess q (setPsess p u s) = (if q = p then u else psess q s)"
  by (simp add: psess_def setPsess_def)

lemma setPsess_fields [simp]:
  "length (plHeap (setPsess p u s)) = length (plHeap s)" "plSessions (setPsess p u s) = plSessions s"
  "plMain (setPsess p u s) = plMain s" "plReceived (setPsess p u s) = plReceived s"
  "plNow (setPsess p u s) = plNow s" "plCtxDone (setPsess p u s) = plCtxDone s"
  "plFailures (setPsess p u s) = plFailures s" "plTraffic (setPsess p u s) = plTraffic s"
  by (simp_all add: setPsess_def)

lemma psess_update [simp]:
  "psess p (s\<lparr>plSessions := m\<rparr>) = psess p s" "psess p (s\<lparr>plMain := pc\<rparr>) = psess p s"
  "psess p (s\<lparr>plNow := n\<rparr>) = psess p s" "psess p (s\<lparr>plCtxDone := b\<rparr>) = psess p s"
  "psess p (s\<lparr>plReceived := r\<rparr>) = psess p s" "psess p (s\<lparr>plFailures := f\<rparr>) = psess p s"
  "psess p (s\<lparr>plTraffic := t\<rparr>) = psess p s"
  by (simp_all add: psess_def)

lemma pending_cong:
  "(\<And>p. psRemote (psess p s') = psRemote (psess p s)) \<Longrightarrow> pending pc s' = pending pc s"
  by (cases pc) auto

lemma plainInv_quiet [simp]:
  "plainInv (s\<lparr>plNow := n\<rparr>) = plainInv s" "plainInv (s\<lparr>plCtxDone := b\<rparr>) = plainInv s"
  "plainInv (s\<lparr>plFailures := f\<rparr>) = plainInv s" "plainInv (s\<lparr>plTraffic := t\<rparr>) = plainInv s"
proof -
  have same: "plainInv s1 \<Longrightarrow> plainInv s2"
    if "plHeap s1 = plHeap s2" "plSessions s1 = plSessions s2" "plMain s1 = plMain s2"
      "plReceived s1 = plReceived s2" for s1 s2
  proof -
    have "psess p s1 = psess p s2" for p using that(1) by (simp add: psess_def)
    moreover from this have "pending pc s1 = pending pc s2" for pc by (intro pending_cong) simp
    moreover have "mainOk pc s1 = mainOk pc s2" for pc using that by (cases pc) auto
    moreover from calculation have "settled s1 = settled s2" using that by (simp add: settled_def)
    ultimately show "plainInv s1 \<Longrightarrow> plainInv s2"
      using that unfolding plainInv_def by auto
  qed
  show "plainInv (s\<lparr>plNow := n\<rparr>) = plainInv s" "plainInv (s\<lparr>plCtxDone := b\<rparr>) = plainInv s"
    "plainInv (s\<lparr>plFailures := f\<rparr>) = plainInv s" "plainInv (s\<lparr>plTraffic := t\<rparr>) = plainInv s"
    by (rule iffI; erule same [rotated -1]; simp)+
qed

text \<open>A session changes, its socket and its client stay.\<close>

lemma plainInv_setPsess:
  assumes "plainInv s" "p < length (plHeap s)" "psessInv (settled s) u"
    "psOpen u = psOpen (psess p s)" "psRemote u = psRemote (psess p s)"
  shows "plainInv (setPsess p u s)"
proof -
  have "pending pc (setPsess p u s) = pending pc s" for pc
    using assms by (intro pending_cong) simp
  moreover from this have "settled (setPsess p u s) = settled s" by (simp add: settled_def)
  moreover have "mainOk pc (setPsess p u s) = mainOk pc s" for pc by (cases pc) auto
  ultimately show ?thesis using assms unfolding plainInv_def by auto
qed

lemma touch_inv:
  assumes "plainInv s" "p < length (plHeap s)" shows "plainInv (touch p s)"
  unfolding touch_def using plainInvD(1) [OF assms] by (intro plainInv_setPsess assms) (auto simp: psessInv_def)

lemma touch_fields [simp]:
  "length (plHeap (touch p s)) = length (plHeap s)" "plSessions (touch p s) = plSessions s"
  "plMain (touch p s) = plMain s" "plReceived (touch p s) = plReceived s"
  "p < length (plHeap s) \<Longrightarrow> psess q (touch p s) =
     (if q = p then (psess p s)\<lparr>psLastSeen := plNow s\<rparr> else psess q s)"
  by (simp_all add: touch_def)

lemma setPc_inv:
  assumes "plainInv s" "p < length (plHeap s)" "replyOk pc (psReadUp (psess p s)) (psReplied (psess p s))"
    "pc = PlainDone \<Longrightarrow> \<not> psOpen (psess p s)"
  shows "plainInv (setPc p pc s)"
  unfolding setPc_def using plainInvD(1) [OF assms(1,2)] assms(3,4)
  by (intro plainInv_setPsess assms) (auto simp: psessInv_def)

lemma stop_inv: "plainInv s \<Longrightarrow> p < length (plHeap s) \<Longrightarrow> plainInv (setPc p PlainClosing s)"
  using plainInvD(1) [of s p] replyOk_prefix by (intro setPc_inv) (auto simp: psessInv_def)

lemma closeSession_inv:
  assumes "plainInv s" "p < length (plHeap s)"
  shows "plainInv (closeSession (psRemote (psess p s)) p s)"
proof -
  let ?k = "psRemote (psess p s)" and ?u = "(psess p s)\<lparr>psOpen := False, psCancelled := True\<rparr>"
  define s2 where "s2 = closeSession ?k p s"
  note d = plainInvD [OF assms(1)]
  have f: "psess q s2 = (if q = p then ?u else psess q s)" "length (plHeap s2) = length (plHeap s)"
    "plMain s2 = plMain s" "plReceived s2 = plReceived s"
    "plSessions s2 = (if plSessions s ?k = Some p then (plSessions s)(?k := None) else plSessions s)" for q
    using assms(2) by (auto simp: s2_def closeSession_def)
  have "pending pc s2 = pending pc s" for pc by (rule pending_cong) (simp add: f)
  then have pend: "pending (plMain s2) s2 = pending (plMain s) s" "settled s2 = settled s"
    by (simp_all add: settled_def f)
  have "psessInv (settled s) (psess q s2)" if "q < length (plHeap s)" for q
    using d(1) [OF that] by (auto simp: f psessInv_def)
  moreover have "plSessions s2 k = Some q \<longleftrightarrow> psOpen (psess q s2) \<and> psRemote (psess q s2) = k"
    if "q < length (plHeap s)" for q k
    using d(2) [OF that, of k] d(2) [OF assms(2), of ?k] d(2) [OF that, of ?k]
    by (cases "q = p"; cases "plSessions s ?k = Some p"; cases "k = ?k") (simp_all add: f)
  moreover have "plSessions s2 k = Some q \<Longrightarrow> q < length (plHeap s)" for k q
    using d(3) by (auto simp: f split: if_splits)
  moreover have "mainOk (plMain s2) s2" using d(4) by (cases "plMain s") (auto simp: f)
  ultimately have "plainInv s2" unfolding plainInv_def pend f(2,4) using d(5) by presburger
  then show ?thesis by (simp add: s2_def)
qed

section \<open>Every event keeps the invariant\<close>

text \<open>The loop is done with its datagram.\<close>

lemma subseq_butlast: "subseq xs (fromClient k (butlast rs)) \<Longrightarrow> subseq xs (fromClient k rs)"
proof (cases rs rule: rev_cases)
  case (snoc ys y)
  moreover assume "subseq xs (fromClient k (butlast rs))"
  ultimately show "subseq xs (fromClient k rs)" by (auto simp: fromClient_def)
qed simp

lemma psessInv_more: "psessInv (butlast rs) u \<Longrightarrow> psessInv rs u"
  using subseq_butlast by (auto simp: psessInv_def)

lemma settled_psessInv: "psessInv (settled s) u \<Longrightarrow> psessInv (plReceived s) u"
  using psessInv_more by (auto simp: settled_def split: if_splits)

lemma main_done:
  assumes "plainInv s" "pending pc s = None" "mainOk pc s"
  shows "plainInv (s\<lparr>plMain := pc\<rparr>)"
proof -
  have "pending pc (s\<lparr>plMain := pc\<rparr>) = None" using assms(2) by (cases pc) auto
  then have "settled (s\<lparr>plMain := pc\<rparr>) = plReceived s" by (simp add: settled_def)
  moreover have "mainOk pc (s\<lparr>plMain := pc\<rparr>)" using assms(3) by (cases pc) auto
  ultimately show ?thesis
    using assms(1) settled_psessInv \<open>pending pc (s\<lparr>plMain := pc\<rparr>) = None\<close> unfolding plainInv_def by auto
qed

text \<open>The loop passes its datagram on, or takes a new one.\<close>

lemma main_passes:
  assumes "plainInv s" "pending pc s = Some r" "pending (plMain s) s = Some r" "mainOk pc s"
  shows "plainInv (s\<lparr>plMain := pc\<rparr>)"
proof -
  have p: "pending pc' (s\<lparr>plMain := pc\<rparr>) = pending pc' s" for pc' by (rule pending_cong) simp
  then have "settled (s\<lparr>plMain := pc\<rparr>) = settled s" using assms(2,3) by (simp add: settled_def)
  moreover have "mainOk pc (s\<lparr>plMain := pc\<rparr>)" using assms(4) by (cases pc) auto
  ultimately show ?thesis
    using assms(1-3) p unfolding plainInv_def by auto
qed

lemma main_takes:
  assumes "plainInv s" "pending (plMain s) s = None" "pending pc s = Some r" "mainOk pc s"
  shows "plainInv (s\<lparr>plReceived := plReceived s @ [r], plMain := pc\<rparr>)"
proof -
  let ?s = "s\<lparr>plReceived := plReceived s @ [r], plMain := pc\<rparr>"
  have p: "pending pc' ?s = pending pc' s" for pc' by (rule pending_cong) simp
  have "settled ?s = settled s" using assms(2,3) by (simp add: settled_def p)
  moreover have "mainOk pc ?s" using assms(4) by (cases pc) auto
  ultimately show ?thesis using assms(1,3) p unfolding plainInv_def by auto
qed

lemma datagram_inv:
  assumes "plainInv s" "plMain s = MainRead"
  shows "plainInv (plainDatagram key bs s)"
proof (cases "plSessions s key")
  case None
  then show ?thesis using main_takes [OF assms(1), of "MainDial key bs" "(key, bs)"] assms(2)
    by (simp add: plainDatagram_def)
next
  case (Some p)
  have p: "p < length (plHeap s)" "psRemote (psess p s) = key"
    using plainInvD(3) [OF assms(1) Some] plainInvD(2) [OF assms(1), of p key] Some by auto
  have eq: "plainDatagram key bs s = (touch p s)\<lparr>plReceived := plReceived s @ [(key, bs)], plMain := MainWrite p bs\<rparr>"
    using Some by (simp add: plainDatagram_def touch_def setPsess_def psess_def)
  show ?thesis unfolding eq
    using main_takes [OF touch_inv [OF assms(1) p(1)], of "MainWrite p bs" "(key, bs)"] assms(2) p
    by simp
qed

lemma dial_inv:
  assumes "plainInv s" "plMain s = MainDial key bs"
  shows "plainInv (plainDial ok key bs s)"
  using main_passes [OF assms(1), of "MainStore key bs" "(key, bs)"] plainInvD(4) [OF assms(1)] assms(2)
    main_done [of "s\<lparr>plFailures := plFailures s @ [''upstream_dial'']\<rparr>" MainRead] assms(1)
  by (simp add: plainDial_def)

lemma store_inv_plain:
  assumes "plainInv s" "plMain s = MainStore key bs"
  shows "plainInv (plainStore key bs s)"
proof -
  note d = plainInvD [OF assms(1)]
  let ?n = "length (plHeap s)"
  have none: "plSessions s key = None" using d(4) assms(2) by simp
  define s2 where "s2 = plainStore key bs s"
  have st: "psess q s2 = (if q = ?n then newPlainSession key (plNow s) else psess q s)" if "q \<le> ?n" for q
    using that none by (auto simp: s2_def plainStore_def psess_def nth_append)
  have f: "length (plHeap s2) = Suc ?n" "plSessions s2 = (plSessions s)(key \<mapsto> ?n)"
    "plMain s2 = MainWrite ?n bs" "plReceived s2 = plReceived s"
    using none by (auto simp: s2_def plainStore_def)
  have new: "psRemote (newPlainSession key (plNow s)) = key" "psOpen (newPlainSession key (plNow s))"
    "psessInv rs (newPlainSession key (plNow s))" for rs
    by (simp_all add: newPlainSession_def psessInv_def)
  have pend: "pending (plMain s2) s2 = pending (plMain s) s" using assms(2) by (simp add: f st new)
  then have set: "settled s2 = settled s" by (simp add: settled_def f)
  have "psessInv (settled s) (psess q s2)" if "q < Suc ?n" for q
    using d(1) [of q] that new(3) by (cases "q = ?n") (simp_all add: st)
  moreover have "plSessions s2 k = Some q \<longleftrightarrow> psOpen (psess q s2) \<and> psRemote (psess q s2) = k"
    if "q < Suc ?n" for q k
    using d(2) [of q k] d(3) [of k q] that none new(1,2) by (cases "q = ?n"; cases "k = key") (auto simp: st f)
  moreover have "q < Suc ?n" if "plSessions s2 k = Some q" for k q
    using d(3) [of k q] that by (auto simp: f split: if_splits)
  moreover have "mainOk (plMain s2) s2" by (simp add: f)
  ultimately have "plainInv s2"
    using d(5) by (intro plainInvI) (simp_all add: set pend f(1,4))
  then show ?thesis by (simp add: s2_def)
qed

lemma write_inv_plain:
  assumes "plainInv s" "plMain s = MainWrite p bs"
  shows "plainInv (plainWrite ok p bs s)"
proof -
  have p: "p < length (plHeap s)" using plainInvD(4) [OF assms(1)] assms(2) by simp
  let ?t = "(touch p s)\<lparr>plMain := MainRead\<rparr>"
  have t: "plainInv ?t" using main_done [OF touch_inv [OF assms(1) p], of MainRead] by simp
  have len: "p < length (plHeap ?t)" using p by simp
  have last: "plReceived s \<noteq> []" "last (plReceived s) = (psRemote (psess p s), bs)"
    using plainInvD(5) [OF assms(1)] assms(2) by simp_all
  have "subseq (psForwarded (psess p s) @ [bs]) (fromClient (psRemote (psess p s)) (plReceived s))"
  proof -
    have "subseq (psForwarded (psess p s)) (fromClient (psRemote (psess p s)) (butlast (plReceived s)))"
      using plainInvD(1) [OF assms(1) p] assms(2) by (simp add: psessInv_def settled_def)
    then have "subseq (psForwarded (psess p s) @ [bs])
        (fromClient (psRemote (psess p s)) (butlast (plReceived s)) @ [bs])" by simp
    moreover have "fromClient (psRemote (psess p s)) (plReceived s) =
        fromClient (psRemote (psess p s)) (butlast (plReceived s)) @ [bs]"
      using last by (cases "plReceived s" rule: rev_cases) (simp_all add: fromClient_def)
    ultimately show ?thesis by simp
  qed
  moreover have u: "psess p ?t = (psess p s)\<lparr>psLastSeen := plNow s\<rparr>" "settled ?t = plReceived s"
    using p by (simp_all add: settled_def)
  ultimately have "psessInv (settled ?t) ((psess p ?t)\<lparr>psForwarded := psForwarded (psess p ?t) @ [bs]\<rparr>)"
    using plainInvD(1) [OF t len] unfolding u psessInv_def by simp
  from plainInv_setPsess [OF t len this] have fw: "plainInv (setPsess p
      ((psess p ?t)\<lparr>psForwarded := psForwarded (psess p ?t) @ [bs]\<rparr>) ?t)" by simp
  have cl: "plainInv (closeSession (psRemote (psess p ?t)) p (?t\<lparr>plFailures := f\<rparr>))" for f
    using closeSession_inv [of "?t\<lparr>plFailures := f\<rparr>" p] t len by simp
  show ?thesis unfolding plainWrite_def Let_def
    by (cases "ok \<and> psOpen (psess p ?t)") (simp_all only: if_True if_False simp_thms plainInv_quiet fw cl)
qed

lemma close_inv_plain:
  assumes "plainInv s" "p < length (plHeap s)" "psPc (psess p s) = PlainClosing"
  shows "plainInv (plainClose p s)"
proof -
  let ?c = "closeSession (psRemote (psess p s)) p s"
  have c: "psess p ?c = (psess p s)\<lparr>psOpen := False, psCancelled := True\<rparr>" "length (plHeap ?c) = length (plHeap s)"
    using assms(2) by (auto simp: closeSession_def)
  have "plainClose p s = setPc p PlainDone ?c"
    using assms(2) by (cases "plHeap s ! p") (simp add: plainClose_def closeSession_def setPc_def setPsess_def psess_def)
  moreover have "prefix (psReplied (psess p s)) (psReadUp (psess p s))"
    using plainInvD(1) [OF assms(1,2)] assms(3) by (simp add: psessInv_def)
  ultimately show ?thesis
    using setPc_inv [OF closeSession_inv [OF assms(1,2)], of p PlainDone] assms(2) c by simp
qed

lemma session_step_inv:
  assumes "plainSessionStep idle p r ok s = Some s'" "plainInv s" "p < length (plHeap s)"
  shows "plainInv s'"
proof -
  note i = plainInvD(1) [OF assms(2,3)] and stop = stop_inv [OF assms(2,3)]
  show ?thesis
  proof (cases "psPc (psess p s)")
    case PlainCheck
    with assms i stop setPc_inv [OF assms(2,3), of PlainReading] show ?thesis
      by (auto simp: plainSessionStep_def plainCheck_def psessInv_def Let_def split: if_splits)
  next
    case PlainReading
    have "plainInv (setPsess p ((psess p s)\<lparr>psPc := PlainReply bs, psReadUp := psReadUp (psess p s) @ [bs]\<rparr>) s)" for bs
      using i PlainReading by (intro plainInv_setPsess assms) (auto simp: psessInv_def)
    with PlainReading assms i stop setPc_inv [OF assms(2,3), of PlainCheck] show ?thesis
      by (auto simp: plainSessionStep_def plainRead_def psessInv_def Let_def split: plainUpstream.splits)
  next
    case (PlainReply bs)
    have "plainInv (setPsess p ((psess p s)\<lparr>psPc := PlainCheck, psReplied := psReplied (psess p s) @ [bs]\<rparr>) s)"
      using i PlainReply by (intro plainInv_setPsess assms) (auto simp: psessInv_def)
    with PlainReply assms(1) stop show ?thesis
      by (auto simp: plainSessionStep_def plainReply_def)
  next
    case PlainClosing
    with close_inv_plain [OF assms(2,3)] assms(1) show ?thesis by (auto simp: plainSessionStep_def)
  next
    case PlainDone
    with assms(1) show ?thesis by (simp add: plainSessionStep_def)
  qed
qed

lemma plain_step_inv:
  assumes "plainStep idle e s = Some s'" "plainInv s"
  shows "plainInv s'"
proof -
  have ret: "plainInv (s\<lparr>plMain := MainReturned r\<rparr>)" for r using main_done [OF assms(2)] by simp
  have "plainInv ((s\<lparr>plFailures := f\<rparr>)\<lparr>plMain := MainReturned r\<rparr>)" for r f
    using main_done [of "s\<lparr>plFailures := f\<rparr>" "MainReturned r"] assms(2) by simp
  with assms ret show ?thesis
    by (cases e) (auto simp: plainReadFailed_def datagram_inv dial_inv store_inv_plain write_inv_plain
        intro: session_step_inv split: mainPc.splits if_splits)
qed

lemma plain_reachable_inv: "plainReachable idle s \<Longrightarrow> plainInv s"
proof (induction rule: plainReachable.induct)
  case (start t)
  show ?case by (simp add: servePlain_def plainInv_def)
next
  case (event s e s')
  then show ?case by (blast intro: plain_step_inv)
qed

section \<open>Properties\<close>

text \<open>Two clients; the first one's session idles out, is closed, and a new one takes its place.\<close>

definition plainSample :: "plainServer option" where
  "plainSample = plainRun 5
     [PDatagram ''a'' [1], PDial True, PStore, PWrite True, PDatagram ''b'' [2], PDial True, PStore, PWrite True,
      PSession 1 PlainUpTimeout True, PSession 1 (PlainUpData [7]) True, PSession 1 PlainUpTimeout True,
      PTick 9, PSession 0 PlainUpTimeout True, PDatagram ''b'' [3], PWrite True,
      PSession 0 PlainUpTimeout True, PDatagram ''a'' [4], PDial True, PStore, PWrite True] (servePlain 0)"

lemma plainSample_state:
  "map_option (\<lambda>s. (length (plHeap s), psOpen (psess 2 s), psRemote (psess 0 s), psRemote (psess 1 s),
      psRemote (psess 2 s), psOpen (psess 0 s), psForwarded (psess 1 s), psReplied (psess 1 s))) plainSample =
   Some (3, True, ''a'', ''b'', ''a'', False, [[2], [3]], [[7]])"
  by code_simp

lemma plainSample_reachable: "plainSample = Some s \<Longrightarrow> plainReachable 5 s"
  unfolding plainSample_def by (rule plainRun_reachable [OF plainReachable.start])

text \<open>
  A client of the plain server has at most one upstream socket: in every reachable state the
  table finds exactly the sessions whose socket is open, under their client's address, so two open
  sessions of one client are the same; a session that ended has its socket closed.  When the loop is
  about to store a session, none is stored under the address: the second look under the lock never
  finds one.
\<close>

theorem plain_one_session_per_client:
  assumes "plainReachable idle s"
  shows "(\<forall>p q. p < length (plHeap s) \<longrightarrow> q < length (plHeap s) \<longrightarrow> psOpen (psess p s) \<longrightarrow>
        psOpen (psess q s) \<longrightarrow> psRemote (psess p s) = psRemote (psess q s) \<longrightarrow> p = q)
    \<and> (\<forall>p k. p < length (plHeap s) \<longrightarrow>
        (plSessions s k = Some p \<longleftrightarrow> psOpen (psess p s) \<and> psRemote (psess p s) = k))
    \<and> (\<forall>p. p < length (plHeap s) \<longrightarrow> psPc (psess p s) = PlainDone \<longrightarrow> \<not> psOpen (psess p s))
    \<and> (\<forall>key bs. plMain s = MainStore key bs \<longrightarrow> plSessions s key = None)"
proof (intro conjI allI impI)
  note d = plainInvD [OF plain_reachable_inv [OF assms]]
  show iff: "plSessions s k = Some p \<longleftrightarrow> psOpen (psess p s) \<and> psRemote (psess p s) = k"
    if "p < length (plHeap s)" for p k using d(2) [OF that] .
  show "p = q" if "p < length (plHeap s)" "q < length (plHeap s)" "psOpen (psess p s)"
    "psOpen (psess q s)" "psRemote (psess p s) = psRemote (psess q s)" for p q
    using iff [OF that(1), of "psRemote (psess q s)"] iff [OF that(2), of "psRemote (psess q s)"] that by simp
  show "\<not> psOpen (psess p s)" if "p < length (plHeap s)" "psPc (psess p s) = PlainDone" for p
    using d(1) [OF that(1)] that(2) by (simp add: psessInv_def)
  show "plSessions s key = None" if "plMain s = MainStore key bs" for key bs
    using d(4) that by simp
qed

theorem plain_one_session_per_client_witness:
  "\<exists>s. plainSample = Some s \<and> psRemote (psess 0 s) = psRemote (psess 2 s) \<and> psOpen (psess 2 s)
     \<and> plSessions s ''a'' \<noteq> Some 0"
proof -
  from plainSample_state obtain s where s: "plainSample = Some s" "length (plHeap s) = 3"
    "psRemote (psess 0 s) = ''a''" "psRemote (psess 2 s) = ''a''" "psOpen (psess 2 s)" "\<not> psOpen (psess 0 s)"
    by (auto simp: map_option_eq_Some)
  from plain_one_session_per_client [OF plainSample_reachable [OF s(1)]] s
  have "plSessions s ''a'' \<noteq> Some 0" by (metis zero_less_numeral)
  with s show ?thesis by auto
qed

text \<open>
  C39: Clients of the plain server do not see each other: in every reachable state, what a session
  forwarded is a subsequence of the datagrams its own client sent, and what it sent to that client
  is, in order, what its own upstream socket returned, up to the datagrams not written yet.
\<close>

theorem plain_isolation:
  assumes "plainReachable idle s" "p < length (plHeap s)"
  shows "subseq (psForwarded (psess p s)) (fromClient (psRemote (psess p s)) (plReceived s))
    \<and> prefix (psReplied (psess p s)) (psReadUp (psess p s))"
proof -
  have "psessInv (plReceived s) (psess p s)"
    using plainInvD(1) [OF plain_reachable_inv [OF assms(1)] assms(2)] by (rule settled_psessInv)
  then show ?thesis using replyOk_prefix by (auto simp: psessInv_def)
qed

theorem plain_isolation_witness:
  "\<exists>s. plainSample = Some s \<and> psForwarded (psess 1 s) = [[2], [3]]
     \<and> subseq [[2], [3]] (fromClient ''b'' (plReceived s))"
proof -
  from plainSample_state obtain s where s: "plainSample = Some s" "length (plHeap s) = 3"
    "psForwarded (psess 1 s) = [[2], [3]]" "psRemote (psess 1 s) = ''b''"
    by (auto simp: map_option_eq_Some)
  from plain_isolation [OF plainSample_reachable [OF s(1)], of 1] s show ?thesis by auto
qed

end
