(* ===== verification/ServerAccept.thy ===== *)
theory ServerAccept
  imports ServerOverlay PlainServer
begin

text \<open>
  The server itself (\<^verbatim>\<open>internal/tunnelserver/server.go\<close>): its configuration, the choice between the
  DTLS and the plain server, the accept loop, and what becomes of one connection.  What is reported
  to the observer is the result, in order; a connection's goroutine has a trace of its own.
\<close>

section \<open>Configuration and start\<close>

definition newServer :: "serverConfig \<Rightarrow> config_error + serverConfig" where
  "newServer cfg =
     (let c1 = cfg\<lparr>scEgress := NormalizeAdapter (scEgress cfg)\<rparr>;
          c2 = (if scPeerMode c1 = [] then c1\<lparr>scPeerMode := ''dtls''\<rparr> else c1)
      in case serverValidate c2 of Some e \<Rightarrow> Inl e | None \<Rightarrow> Inr c2)"

text \<open>The outcomes of the calls \<open>Listen\<close> and \<open>listenPacket\<close> make.\<close>

record listenEnv =
  leResolve :: "goError option"
  leCertificate :: "goError option"
  leListen :: "goError option"

definition listenPacket :: "listenEnv \<Rightarrow> goError option" where
  "listenPacket env =
     (case leResolve env of
        Some e \<Rightarrow> Some (ErrWrap ''resolve listen addr: '' e)
      | None \<Rightarrow> map_option (ErrWrap ''listen udp: '') (leListen env))"

definition Listen :: "listenEnv \<Rightarrow> goError option" where
  "Listen env =
     (case leResolve env of
        Some e \<Rightarrow> Some (ErrWrap ''resolve listen addr: '' e)
      | None \<Rightarrow>
          (case leCertificate env of
             Some e \<Rightarrow> Some (ErrWrap ''generate self-signed certificate: '' e)
           | None \<Rightarrow> map_option (ErrWrap ''listen dtls: '') (leListen env)))"

datatype serverAction =
    SrvTransportFailure string
  | SrvSessionFailure string bool
  | SrvSessionStart
  | SrvEvent string string string
  | SrvWire "conn_call list"
  | SrvClosed

definition listenFailure :: "serverAction list" where
  "listenFailure = [SrvTransportFailure ''listen'', SrvSessionFailure ''listen'' True,
     SrvEvent ''runtime_failure'' ''listen'' ''failed'']"

datatype serverStart = StartPlain | StartDTLS

definition serverRun :: "serverConfig \<Rightarrow> listenEnv \<Rightarrow> (goError \<times> serverAction list) + serverStart" where
  "serverRun cfg env =
     (if scPeerMode cfg = ''plain''
      then (case listenPacket env of Some e \<Rightarrow> Inl (e, listenFailure) | None \<Rightarrow> Inr StartPlain)
      else (case Listen env of Some e \<Rightarrow> Inl (e, listenFailure) | None \<Rightarrow> Inr StartDTLS))"

section \<open>A connection\<close>

text \<open>The nodes of an error tree, in the order \<open>errors.Is\<close> and \<open>errors.As\<close> visit them.\<close>

fun errorNodes :: "goError \<Rightarrow> goError list" where
  "errorNodes (ErrText m) = [ErrText m]"
| "errorNodes (ErrWrap m e) = ErrWrap m e # errorNodes e"
| "errorNodes (ErrJoin es) = ErrJoin es # concat (List.map errorNodes es)"
| "errorNodes (ErrStage s None) = [ErrStage s None]"
| "errorNodes (ErrStage s (Some e)) = ErrStage s (Some e) # errorNodes e"

text \<open>
  \<open>closedErr\<close> says which errors are \<open>io.EOF\<close> or \<open>net.ErrClosed\<close>, \<open>netErr\<close> which are network errors
  and whether they are timeouts.
\<close>

definition isSessionCloseError :: "(goError \<Rightarrow> bool) \<Rightarrow> (goError \<Rightarrow> bool option) \<Rightarrow> goError \<Rightarrow> bool" where
  "isSessionCloseError closedErr netErr err \<longleftrightarrow>
     list_ex closedErr (errorNodes err) \<or>
     (case List.map_filter netErr (errorNodes err) of [] \<Rightarrow> False | timeout # _ \<Rightarrow> timeout)"

record connEnv =
  ceIsDTLS :: bool
  ceHandshakeOk :: bool
  ceDeadlineOk :: bool
  ceHello :: "overlay_error + byte list"
  ceDial :: "goError option"
  ceWrite :: write_env
  ceLoops :: "goError option list"
  ceSessionDone :: bool
  ceParentDone :: bool

definition setupSession :: "serverConfig \<Rightarrow> connEnv \<Rightarrow> (sessionInitError + adapter_kind) \<times> conn_call list" where
  "setupSession cfg env = newServerOverlaySession cfg (ceDeadlineOk env) (ceHello env) (ceDial env) (ceWrite env)"

definition connectionFailure :: "string \<Rightarrow> serverAction list" where
  "connectionFailure s = [SrvTransportFailure s, SrvEvent ''connection_failure'' s ''failed'']"

definition runSession ::
    "(goError \<Rightarrow> bool) \<Rightarrow> (goError \<Rightarrow> bool option) \<Rightarrow> connEnv \<Rightarrow> serverAction list" where
  "runSession closedErr netErr env =
     (case fst (serverSessionRun (ceSessionDone env) (ceLoops env)) of
        None \<Rightarrow> []
      | Some e \<Rightarrow> if \<not> ceParentDone env \<and> \<not> isSessionCloseError closedErr netErr e
                   then connectionFailure ''forwarding_loop'' else [])"

definition handleConnection ::
    "(goError \<Rightarrow> bool) \<Rightarrow> (goError \<Rightarrow> bool option) \<Rightarrow> serverConfig \<Rightarrow> connEnv \<Rightarrow> serverAction list" where
  "handleConnection closedErr netErr cfg env =
     (if \<not> ceIsDTLS env then connectionFailure ''accept'' @ [SrvClosed]
      else SrvEvent ''connection_accepted'' ''accept'' ''accepted'' #
        (if \<not> ceHandshakeOk env then connectionFailure ''dtls_handshake'' @ [SrvClosed]
         else case setupSession cfg env of
           (Inl e, calls) \<Rightarrow> SrvWire calls # connectionFailure (initErrorStage e) @ [SrvClosed]
         | (Inr _, calls) \<Rightarrow>
             SrvWire calls # SrvEvent ''connection_ready'' ''peer_setup'' ''succeeded'' #
             runSession closedErr netErr env @
             [SrvEvent ''connection_closed'' ''shutdown'' ''stopped'', SrvClosed]))"

section \<open>The accept loop\<close>

text \<open>An accepted connection, or an error: was the context done, was the listener closed.\<close>

datatype acceptResult = AcceptConn connEnv | AcceptError bool bool

record serveState =
  svReport :: "serverAction list"
  svConns :: "connEnv list"
  svReturned :: bool

definition serveStart :: serveState where
  "serveStart = \<lparr>svReport = [SrvSessionStart, SrvEvent ''runtime_startup'' ''listen'' ''succeeded''],
     svConns = [], svReturned = False\<rparr>"

definition acceptStep :: "acceptResult \<Rightarrow> serveState \<Rightarrow> serveState" where
  "acceptStep r s =
     (if svReturned s then s
      else case r of
        AcceptConn env \<Rightarrow> s\<lparr>svConns := svConns s @ [env]\<rparr>
      | AcceptError ctxDone closed \<Rightarrow>
          if ctxDone \<or> closed
          then s\<lparr>svReturned := True,
                 svReport := svReport s @ [SrvEvent ''runtime_stop'' ''shutdown'' ''stopped'']\<rparr>
          else s\<lparr>svReport := svReport s @
                   [SrvEvent ''connection_accept_failure'' ''accept'' ''failed'', SrvTransportFailure ''accept'']\<rparr>)"

definition Serve :: "acceptResult list \<Rightarrow> serveState" where
  "Serve rs = fold acceptStep rs serveStart"

section \<open>What is reported\<close>

definition failures :: "serverAction list \<Rightarrow> string list" where
  "failures tr = List.map_filter (\<lambda>a. case a of SrvTransportFailure s \<Rightarrow> Some s | _ \<Rightarrow> None) tr"

definition reported :: "string \<Rightarrow> serverAction list \<Rightarrow> nat" where
  "reported name tr = length (filter (\<lambda>a. case a of SrvEvent n _ _ \<Rightarrow> n = name | _ \<Rightarrow> False) tr)"

fun accepted :: "acceptResult list \<Rightarrow> connEnv list" where
  "accepted [] = []"
| "accepted (AcceptConn env # rs) = env # accepted rs"
| "accepted (AcceptError d c # rs) = accepted rs"

lemma accepted_append [simp]: "accepted (xs @ ys) = accepted xs @ accepted ys"
  by (induction xs rule: accepted.induct) auto

lemma length_accepted: "length (accepted rs) \<le> length rs"
  by (induction rs rule: accepted.induct) auto

lemma failures_simps [simp]:
  "failures [] = []" "failures (xs @ ys) = failures xs @ failures ys"
  "failures (a # as) = (case a of SrvTransportFailure s \<Rightarrow> s # failures as | _ \<Rightarrow> failures as)"
  by (simp_all add: failures_def List.map_filter_def split: serverAction.splits)

lemma reported_simps [simp]:
  "reported n [] = 0" "reported n (xs @ ys) = reported n xs + reported n ys"
  "reported n (a # as) = (case a of SrvEvent m _ _ \<Rightarrow> (if m = n then 1 else 0) | _ \<Rightarrow> 0) + reported n as"
  by (simp_all add: reported_def split: serverAction.splits)

lemma connectionFailure_simps [simp]:
  "failures (connectionFailure s) = [s]"
  "reported n (connectionFailure s) = (if n = ''connection_failure'' then 1 else 0)"
  by (simp_all add: connectionFailure_def)

lemma join_closed:
  assumes "Some e \<in> set rs" "list_ex closedErr (errorNodes e)" "Join rs = Some j"
  shows "isSessionCloseError closedErr netErr j"
proof -
  have "e \<in> set (List.map_filter (\<lambda>r. r) rs)" using assms(1) by (force simp: List.map_filter_def)
  moreover have "j = ErrJoin (List.map_filter (\<lambda>r. r) rs)"
    using assms(3) by (auto simp: Join_def split: list.splits)
  ultimately show ?thesis using assms(2) by (auto simp: isSessionCloseError_def list_ex_iff)
qed

section \<open>Properties\<close>

text \<open>
  What the server reports of a connection.  Every connection is closed, once, as the last thing
  that happens to it.  It is reported ready exactly if it is a DTLS connection whose handshake and
  session setup succeed, and closed as a session exactly as often.  At most one failure is counted;
  none is counted for a session that was set up and in which some loop ended because the
  connection was closed.
\<close>

theorem connection_reports:
  "(let tr = handleConnection closedErr netErr cfg env;
        ok = (ceIsDTLS env \<and> ceHandshakeOk env \<and> is_ok (fst (setupSession cfg env)))
    in last tr = SrvClosed \<and> count_list tr SrvClosed = 1
       \<and> reported ''connection_ready'' tr = (if ok then 1 else 0)
       \<and> reported ''connection_closed'' tr = reported ''connection_ready'' tr
       \<and> length (failures tr) \<le> 1
       \<and> reported ''connection_failure'' tr = length (failures tr)
       \<and> (\<not> ok \<longrightarrow> length (failures tr) = 1)
       \<and> (ok \<longrightarrow> (\<exists>e. Some e \<in> set (ceLoops env) \<and> list_ex closedErr (errorNodes e)) \<longrightarrow> failures tr = []))"
proof -
  have quiet: "runSession closedErr netErr env = []"
    if "Some e \<in> set (ceLoops env)" "list_ex closedErr (errorNodes e)" for e
    using join_closed [OF that, of _ netErr]
    by (auto simp: runSession_def serverSessionRun_def split: option.splits)
  have run: "runSession closedErr netErr env = [] \<or>
      runSession closedErr netErr env = connectionFailure ''forwarding_loop''"
    by (auto simp: runSession_def split: option.splits)
  have none: "count_list (connectionFailure s) SrvClosed = 0" for s by (simp add: connectionFailure_def)
  show ?thesis
  proof (cases "ceIsDTLS env \<and> ceHandshakeOk env")
    case False
    then show ?thesis by (auto simp: handleConnection_def Let_def none)
  next
    case True
    then show ?thesis using run quiet
      by (cases "setupSession cfg env"; cases "fst (setupSession cfg env)")
        (auto simp: handleConnection_def Let_def none is_ok_iff)
  qed
qed

text \<open>A connection of a UDP client that is accepted and later hangs up.\<close>

definition sampleConn :: connEnv where
  "sampleConn = \<lparr>ceIsDTLS = True, ceHandshakeOk = True, ceDeadlineOk = True, ceHello = Inr [1, 1],
     ceDial = None, ceWrite = okEnv, ceLoops = [None, Some (ErrWrap ''read overlay frame: '' (ErrText ''EOF''))],
     ceSessionDone = False, ceParentDone = False\<rparr>"

lemma sampleConn_ok: "is_ok (fst (setupSession (DefaultServerConfig\<lparr>scEgress := ''udp''\<rparr>) sampleConn))"
proof -
  have r: "ReadFrame (Inr [1, 1]) = Inr ((frameOfKind FrameHello)\<lparr>Adapter := AdapterUDP\<rparr>)"
    by (simp add: ReadFrame_def UnmarshalFrame_def frame_kind_defs adapterFromCode_def frameOfKind_def maxFrameSize_def)
  have n: "NormalizeAdapter ''udp'' = AdapterUDP" "SupportedPair AdapterUDP AdapterUDP"
    "newEgressAdapter (DefaultServerConfig\<lparr>scEgress := ''udp''\<rparr>) None = Inr AdapterUDP"
    by code_simp+
  obtain bs where w: "WriteFrame okEnv (ackFrame AdapterUDP) = (Inr (), [Write bs])"
    using ack_sent [of AdapterUDP] by auto
  show ?thesis
    by (simp add: setupSession_def sampleConn_def newServerOverlaySession_def r n w is_ok_def frameOfKind_def)
qed

theorem connection_reports_witness:
  "failures (handleConnection (\<lambda>e. e = ErrText ''EOF'') (\<lambda>_. None) (DefaultServerConfig\<lparr>scEgress := ''udp''\<rparr>) sampleConn) = []
   \<and> reported ''connection_ready''
       (handleConnection (\<lambda>e. e = ErrText ''EOF'') (\<lambda>_. None) (DefaultServerConfig\<lparr>scEgress := ''udp''\<rparr>) sampleConn) = 1"
proof -
  have "ceIsDTLS sampleConn" "ceHandshakeOk sampleConn"
    "Some (ErrWrap ''read overlay frame: '' (ErrText ''EOF'')) \<in> set (ceLoops sampleConn)"
    "list_ex (\<lambda>e. e = ErrText ''EOF'') (errorNodes (ErrWrap ''read overlay frame: '' (ErrText ''EOF'')))"
    by (simp_all add: sampleConn_def)
  with sampleConn_ok connection_reports [of "\<lambda>e. e = ErrText ''EOF''" "\<lambda>_. None"
      "DefaultServerConfig\<lparr>scEgress := ''udp''\<rparr>" sampleConn]
  show ?thesis unfolding Let_def by (metis (no_types, lifting))
qed

text \<open>
  The accept loop survives failing accepts.  As long as no accept fails because the context is
  done or the listener closed, the loop goes on: every accepted connection gets its handler, in
  order, and every failure is counted once.  The first accept that fails for one of these reasons
  ends the loop, and nothing after it is accepted.
\<close>

theorem serve_accepts_until_closed:
  assumes "\<And>r. r \<in> set rs \<Longrightarrow> (case r of AcceptConn _ \<Rightarrow> True | AcceptError d c \<Rightarrow> \<not> d \<and> \<not> c)"
  shows "svConns (Serve rs) = accepted rs
    \<and> failures (svReport (Serve rs)) = replicate (length rs - length (svConns (Serve rs))) ''accept''
    \<and> \<not> svReturned (Serve rs)
    \<and> (d \<or> c \<longrightarrow> svReturned (Serve (rs @ AcceptError d c # rest))
         \<and> svConns (Serve (rs @ AcceptError d c # rest)) = svConns (Serve rs)
         \<and> reported ''runtime_stop'' (svReport (Serve (rs @ AcceptError d c # rest))) = 1)"
proof -
  have main: "svConns (Serve rs) = accepted rs
    \<and> failures (svReport (Serve rs)) = replicate (length rs - length (svConns (Serve rs))) ''accept''
    \<and> \<not> svReturned (Serve rs) \<and> reported ''runtime_stop'' (svReport (Serve rs)) = 0"
    using assms
  proof (induction rs rule: rev_induct)
    case Nil
    then show ?case by (simp add: Serve_def serveStart_def)
  next
    case (snoc r rs)
    then have ih: "svConns (Serve rs) = accepted rs"
      "failures (svReport (Serve rs)) = replicate (length rs - length (svConns (Serve rs))) ''accept''"
      "\<not> svReturned (Serve rs)" "reported ''runtime_stop'' (svReport (Serve rs)) = 0" by auto
    have step: "Serve (rs @ [x]) = acceptStep x (Serve rs)" for x by (simp add: Serve_def)
    show ?case using ih snoc.prems [of r]
      by (cases r) (auto simp: step acceptStep_def Suc_diff_le length_accepted replicate_append_same)
  qed
  have stopped: "fold acceptStep as s = s" if "svReturned s" for as s
    using that by (induction as arbitrary: s) (auto simp: acceptStep_def)
  have "Serve (rs @ AcceptError d c # rest) = fold acceptStep rest (acceptStep (AcceptError d c) (Serve rs))"
    by (simp add: Serve_def)
  with main stopped show ?thesis by (auto simp: acceptStep_def)
qed

theorem serve_accepts_until_closed_witness:
  "svConns (Serve [AcceptError False False]) = accepted [AcceptError False False]
   \<and> failures (svReport (Serve [AcceptError False False])) = [''accept'']
   \<and> svReturned (Serve ([AcceptError False False] @ AcceptError True False # []))"
  using serve_accepts_until_closed [of "[AcceptError False False]" True False "[]"]
  by (simp add: Serve_def serveStart_def acceptStep_def)

end
