(* ===== verification/VpsCatalog.thy ===== *)
theory VpsCatalog
  imports GoPrelude
begin

text \<open>
  The provider catalog (\<^verbatim>\<open>internal/vpscatalog/types.go\<close>, \<^verbatim>\<open>clone.go\<close>, \<^verbatim>\<open>validation.go\<close>): its data, the
  deep copies, and the checks a client makes before it trusts a snapshot or an offer.  Messages for
  humans are left out: a result is its status and reason.  The digest of a snapshot is SHA-256 over
  its JSON text, an argument \<open>sha\<close> of the definitions that need it.
\<close>

section \<open>Times\<close>

text \<open>A \<open>time.Time\<close>: nanoseconds since the zero time, and whether its location is UTC.\<close>

record goTime =
  tNanos :: int
  tUTC :: bool

definition IsZero :: "goTime \<Rightarrow> bool" where "IsZero t \<longleftrightarrow> tNanos t = 0"

definition After :: "goTime \<Rightarrow> goTime \<Rightarrow> bool" where "After t u \<longleftrightarrow> tNanos u < tNanos t"

definition UTC :: "goTime \<Rightarrow> goTime" where "UTC t = t\<lparr>tUTC := True\<rparr>"

definition AddDuration :: "goTime \<Rightarrow> 64 word \<Rightarrow> goTime" where
  "AddDuration t d = t\<lparr>tNanos := tNanos t + sint d\<rparr>"

lemma UTC_simps [simp]: "tNanos (UTC t) = tNanos t" "UTC (UTC t) = UTC t" "IsZero (UTC t) = IsZero t"
  by (simp_all add: UTC_def IsZero_def)

section \<open>The data\<close>

definition SchemaVersion :: string where "SchemaVersion = ''1''"
definition IntegrityModeSignedSnapshotV1 :: string where
  "IntegrityModeSignedSnapshotV1 = ''signed_snapshot_v1''"

datatype authScope = AuthScopeCatalogRead | AuthScopeArtifactIssue | AuthScopeAdminMutation

text \<open>Statuses that come from outside are strings, those the code decides are constructors.\<close>

type_synonym healthStatus = string
type_synonym evidenceStatus = string

definition HealthStatusHealthy :: healthStatus where "HealthStatusHealthy = ''healthy''"
definition HealthStatusDegraded :: healthStatus where "HealthStatusDegraded = ''degraded''"
definition HealthStatusUnavailable :: healthStatus where "HealthStatusUnavailable = ''unavailable''"
definition HealthStatusMissingEvidence :: healthStatus where "HealthStatusMissingEvidence = ''missing_evidence''"

definition EvidenceStatusFresh :: evidenceStatus where "EvidenceStatusFresh = ''fresh''"
definition EvidenceStatusStale :: evidenceStatus where "EvidenceStatusStale = ''stale''"
definition EvidenceStatusMissing :: evidenceStatus where "EvidenceStatusMissing = ''missing''"
definition EvidenceStatusDegraded :: evidenceStatus where "EvidenceStatusDegraded = ''degraded''"
definition EvidenceStatusUnavailable :: evidenceStatus where "EvidenceStatusUnavailable = ''unavailable''"
definition EvidenceStatusUnknownLimit :: evidenceStatus where "EvidenceStatusUnknownLimit = ''unknown_limit''"

lemmas vps_status_defs =
  HealthStatusHealthy_def HealthStatusDegraded_def HealthStatusUnavailable_def HealthStatusMissingEvidence_def
  EvidenceStatusFresh_def EvidenceStatusStale_def EvidenceStatusMissing_def EvidenceStatusDegraded_def
  EvidenceStatusUnavailable_def EvidenceStatusUnknownLimit_def

datatype validationStatus =
    ValidationStatusValid
  | ValidationStatusInvalid
  | ValidationStatusStale
  | ValidationStatusUnsigned
  | ValidationStatusWrongAudience
  | ValidationStatusWrongIssuer
  | ValidationStatusWrongEndpoint
  | ValidationStatusRollback
  | ValidationStatusUnsupported
  | ValidationStatusMissingEvidence
  | ValidationStatusDegraded
  | ValidationStatusUnavailable

primrec statusText :: "validationStatus \<Rightarrow> string" where
  "statusText ValidationStatusValid = ''valid''"
| "statusText ValidationStatusInvalid = ''invalid''"
| "statusText ValidationStatusStale = ''stale''"
| "statusText ValidationStatusUnsigned = ''unsigned''"
| "statusText ValidationStatusWrongAudience = ''wrong_audience''"
| "statusText ValidationStatusWrongIssuer = ''wrong_issuer''"
| "statusText ValidationStatusWrongEndpoint = ''wrong_endpoint''"
| "statusText ValidationStatusRollback = ''rollback''"
| "statusText ValidationStatusUnsupported = ''unsupported''"
| "statusText ValidationStatusMissingEvidence = ''missing_evidence''"
| "statusText ValidationStatusDegraded = ''degraded''"
| "statusText ValidationStatusUnavailable = ''unavailable''"

record redactionPolicy =
  rpOrdinaryReads :: string
  rpEvents :: string
  rpDiagnostics :: string
  rpPersistedState :: string
  rpExport :: string

definition emptyRedactionPolicy :: redactionPolicy where
  "emptyRedactionPolicy = \<lparr>rpOrdinaryReads = [], rpEvents = [], rpDiagnostics = [], rpPersistedState = [], rpExport = []\<rparr>"

definition DefaultRedactionPolicy :: redactionPolicy where
  "DefaultRedactionPolicy = \<lparr>rpOrdinaryReads = ''reference_only'', rpEvents = ''summary_only'',
     rpDiagnostics = ''summary_only'', rpPersistedState = ''reference_only'', rpExport = ''secret_export''\<rparr>"

record snapshotIntegrity =
  siMode :: string
  siDigest :: string
  siSignature :: string

definition noIntegrity :: snapshotIntegrity where
  "noIntegrity = \<lparr>siMode = [], siDigest = [], siSignature = []\<rparr>"

record vpsHealth =
  heStatus :: healthStatus
  heCheckedAt :: "goTime option"
  heExpiresAt :: "goTime option"
  heDegradedReason :: string
  heMessage :: string
  heLimitDomain :: string

record vpsEvidence =
  evKind :: string
  evSubject :: string
  evStatus :: evidenceStatus
  evObservedAt :: "goTime option"
  evExpiresAt :: "goTime option"
  evMessage :: string
  evLimitDomain :: string

record artifactProvenance =
  prEndpointID :: string
  prIssuer :: string
  prAudience :: string
  prGeneration :: "64 word"
  prSourceID :: string
  prOfferID :: string

text \<open>A string map is the list of its entries.\<close>

type_synonym stringMap = "(string \<times> string) list"

record artifactOffer =
  aoID :: string
  aoFamily :: string
  aoAccessMethods :: "string list"
  aoActions :: "string list"
  aoRemoteEndpointFamily :: string
  aoRemoteEndpointRole :: string
  aoCompatibleProfileKinds :: "string list"
  aoMaxTTLSeconds :: "64 word"
  aoHealth :: vpsHealth
  aoEvidence :: "vpsEvidence list"
  aoRedaction :: redactionPolicy
  aoProvenance :: artifactProvenance
  aoMetadata :: stringMap

record providerSource =
  psID :: string
  psProviderID :: string
  psDisplayName :: string
  psDescription :: string
  psSourceFamily :: string
  psHealth :: vpsHealth
  psEvidence :: "vpsEvidence list"
  psArtifactOffers :: "artifactOffer list"
  psMetadata :: stringMap

record catalogSnapshot =
  csVersion :: string
  csGeneratedAt :: goTime
  csExpiresAt :: goTime
  csIssuer :: string
  csAudience :: string
  csEndpointID :: string
  csGeneration :: "64 word"
  csIntegrity :: snapshotIntegrity
  csSources :: "providerSource list"

section \<open>Deep copies\<close>

definition cloneTimePointer :: "goTime option \<Rightarrow> goTime option" where
  "cloneTimePointer v = map_option UTC v"

definition cloneHealth :: "vpsHealth \<Rightarrow> vpsHealth" where
  "cloneHealth h = h\<lparr>heCheckedAt := cloneTimePointer (heCheckedAt h),
     heExpiresAt := cloneTimePointer (heExpiresAt h)\<rparr>"

definition cloneEvidence :: "vpsEvidence list \<Rightarrow> vpsEvidence list" where
  "cloneEvidence es = List.map (\<lambda>e. e\<lparr>evObservedAt := cloneTimePointer (evObservedAt e),
     evExpiresAt := cloneTimePointer (evExpiresAt e)\<rparr>) es"

definition CloneOffer :: "artifactOffer \<Rightarrow> artifactOffer" where
  "CloneOffer o1 = o1\<lparr>aoHealth := cloneHealth (aoHealth o1), aoEvidence := cloneEvidence (aoEvidence o1)\<rparr>"

definition CloneSource :: "providerSource \<Rightarrow> providerSource" where
  "CloneSource s = s\<lparr>psHealth := cloneHealth (psHealth s), psEvidence := cloneEvidence (psEvidence s),
     psArtifactOffers := List.map CloneOffer (psArtifactOffers s)\<rparr>"

definition CloneSnapshot :: "catalogSnapshot \<Rightarrow> catalogSnapshot" where
  "CloneSnapshot s = s\<lparr>csSources := List.map CloneSource (csSources s)\<rparr>"

lemma clone_idem [simp]:
  "cloneTimePointer (cloneTimePointer v) = cloneTimePointer v"
  "cloneHealth (cloneHealth h) = cloneHealth h"
  "cloneEvidence (cloneEvidence es) = cloneEvidence es"
  "CloneOffer (CloneOffer o1) = CloneOffer o1"
  "CloneSource (CloneSource s) = CloneSource s"
  "CloneSnapshot (CloneSnapshot c) = CloneSnapshot c"
proof -
  show t: "cloneTimePointer (cloneTimePointer v) = cloneTimePointer v" for v
    by (cases v) (simp_all add: cloneTimePointer_def)
  show h: "cloneHealth (cloneHealth h) = cloneHealth h" for h by (simp add: cloneHealth_def t)
  show e: "cloneEvidence (cloneEvidence es) = cloneEvidence es" for es by (simp add: cloneEvidence_def t)
  show f: "CloneOffer (CloneOffer o1) = CloneOffer o1" for o1 by (simp add: CloneOffer_def h e)
  show s: "CloneSource (CloneSource s) = CloneSource s" for s by (simp add: CloneSource_def h e f)
  show "CloneSnapshot (CloneSnapshot c) = CloneSnapshot c" by (simp add: CloneSnapshot_def s)
qed

lemma clone_fields [simp]:
  "psID (CloneSource s) = psID s" "psProviderID (CloneSource s) = psProviderID s"
  "psSourceFamily (CloneSource s) = psSourceFamily s"
  "aoID (CloneOffer o1) = aoID o1" "aoFamily (CloneOffer o1) = aoFamily o1"
  "aoAccessMethods (CloneOffer o1) = aoAccessMethods o1" "aoActions (CloneOffer o1) = aoActions o1"
  "aoMaxTTLSeconds (CloneOffer o1) = aoMaxTTLSeconds o1"
  "psArtifactOffers (CloneSource s) = List.map CloneOffer (psArtifactOffers s)"
  "csSources (CloneSnapshot c) = List.map CloneSource (csSources c)"
  "csIntegrity (CloneSnapshot c) = csIntegrity c" "csVersion (CloneSnapshot c) = csVersion c"
  "csIssuer (CloneSnapshot c) = csIssuer c" "csAudience (CloneSnapshot c) = csAudience c"
  "csEndpointID (CloneSnapshot c) = csEndpointID c" "csGeneration (CloneSnapshot c) = csGeneration c"
  "csGeneratedAt (CloneSnapshot c) = csGeneratedAt c" "csExpiresAt (CloneSnapshot c) = csExpiresAt c"
  by (simp_all add: CloneSource_def CloneOffer_def CloneSnapshot_def)

section \<open>Validation\<close>

record validationOptions =
  voNow :: goTime
  voExpectedIssuer :: string
  voExpectedAudience :: string
  voExpectedEndpointID :: string
  voHighestAcceptedGeneration :: "64 word"
  voRequireSigned :: bool

text \<open>
  What \<open>SnapshotDigest\<close> hashes; \<open>sha\<close> is the hexadecimal SHA-256 of its JSON text, or blank where there is
  none: \<open>json.Marshal\<close> refuses a time whose year has more than four digits.  \<open>AttachIntegrity\<close> slices the
  digest, so it panics on a blank one; here it then attaches a blank digest.
\<close>

definition SnapshotDigest :: "(catalogSnapshot \<Rightarrow> string) \<Rightarrow> catalogSnapshot \<Rightarrow> string" where
  "SnapshotDigest sha s = sha ((CloneSnapshot s)\<lparr>csIntegrity := noIntegrity\<rparr>)"

definition AttachIntegrity :: "(catalogSnapshot \<Rightarrow> string) \<Rightarrow> catalogSnapshot \<Rightarrow> string \<Rightarrow> catalogSnapshot" where
  "AttachIntegrity sha s signer =
     (let c = CloneSnapshot s; digest = SnapshotDigest sha c in
      c\<lparr>csIntegrity := \<lparr>siMode = IntegrityModeSignedSnapshotV1, siDigest = digest,
          siSignature = ''signed:'' @ TrimSpace signer @ '':'' @ take 16 digest\<rparr>\<rparr>)"

definition offerShapeOk :: "artifactOffer \<Rightarrow> bool" where
  "offerShapeOk o1 \<longleftrightarrow> TrimSpace (aoID o1) \<noteq> [] \<and> TrimSpace (aoFamily o1) \<noteq> []
     \<and> aoAccessMethods o1 \<noteq> [] \<and> aoActions o1 \<noteq> []"

definition validateSourceShape :: "providerSource \<Rightarrow> bool" where
  "validateSourceShape s \<longleftrightarrow> TrimSpace (psID s) \<noteq> [] \<and> TrimSpace (psProviderID s) \<noteq> []
     \<and> list_all offerShapeOk (psArtifactOffers s)"

text \<open>
  The checks of \<open>ValidateSnapshot\<close> in order, each with the condition that fails it; \<open>wall\<close> is the
  clock, used when the options carry no time.
\<close>

definition snapshotChecks ::
    "(catalogSnapshot \<Rightarrow> string) \<Rightarrow> goTime \<Rightarrow> catalogSnapshot \<Rightarrow> validationOptions \<Rightarrow>
       (bool \<times> validationStatus \<times> string) list" where
  "snapshotChecks sha wall s opts =
     (let now = (if IsZero (voNow opts) then UTC wall else UTC (voNow opts)) in
      [(TrimSpace (csVersion s) \<noteq> SchemaVersion, ValidationStatusUnsupported, ''unsupported_schema''),
       (TrimSpace (csIssuer s) = [], ValidationStatusInvalid, ''issuer_missing''),
       (voExpectedIssuer opts \<noteq> [] \<and> csIssuer s \<noteq> voExpectedIssuer opts,
          ValidationStatusWrongIssuer, ''issuer_mismatch''),
       (TrimSpace (csAudience s) = [], ValidationStatusInvalid, ''audience_missing''),
       (voExpectedAudience opts \<noteq> [] \<and> csAudience s \<noteq> voExpectedAudience opts,
          ValidationStatusWrongAudience, ''audience_mismatch''),
       (TrimSpace (csEndpointID s) = [], ValidationStatusInvalid, ''endpoint_missing''),
       (voExpectedEndpointID opts \<noteq> [] \<and> csEndpointID s \<noteq> voExpectedEndpointID opts,
          ValidationStatusWrongEndpoint, ''endpoint_mismatch''),
       (csGeneration s = 0, ValidationStatusInvalid, ''generation_missing''),
       (0 < voHighestAcceptedGeneration opts \<and> csGeneration s < voHighestAcceptedGeneration opts,
          ValidationStatusRollback, ''generation_rollback''),
       (IsZero (csGeneratedAt s), ValidationStatusInvalid, ''generated_at_missing''),
       (IsZero (csExpiresAt s), ValidationStatusInvalid, ''expires_at_missing''),
       (\<not> After (csExpiresAt s) now, ValidationStatusStale, ''snapshot_expired''),
       (voRequireSigned opts \<and> (siMode (csIntegrity s) \<noteq> IntegrityModeSignedSnapshotV1
            \<or> TrimSpace (siDigest (csIntegrity s)) = [] \<or> TrimSpace (siSignature (csIntegrity s)) = []),
          ValidationStatusUnsigned, ''snapshot_unsigned''),
       (voRequireSigned opts \<and> SnapshotDigest sha s \<noteq> siDigest (csIntegrity s),
          ValidationStatusUnsigned, ''snapshot_digest_mismatch''),
       (\<not> list_all validateSourceShape (csSources s), ValidationStatusInvalid, ''source_invalid'')])"

fun firstFailure :: "(bool \<times> validationStatus \<times> string) list \<Rightarrow> validationStatus \<times> string" where
  "firstFailure [] = (ValidationStatusValid, [])"
| "firstFailure ((failed, r) # cs) = (if failed then r else firstFailure cs)"

definition ValidateSnapshot ::
    "(catalogSnapshot \<Rightarrow> string) \<Rightarrow> goTime \<Rightarrow> catalogSnapshot \<Rightarrow> validationOptions \<Rightarrow> validationStatus \<times> string" where
  "ValidateSnapshot sha wall s opts = firstFailure (snapshotChecks sha wall s opts)"

definition healthValidationStatus :: "vpsHealth \<Rightarrow> goTime \<Rightarrow> validationStatus" where
  "healthValidationStatus h now =
     (if heStatus h = HealthStatusDegraded then ValidationStatusDegraded
      else if heStatus h = HealthStatusMissingEvidence then ValidationStatusMissingEvidence
      else if heStatus h = HealthStatusUnavailable then ValidationStatusUnavailable
      else if heStatus h \<noteq> [] \<and> heStatus h \<noteq> HealthStatusHealthy then ValidationStatusInvalid
      else case heExpiresAt h of
        None \<Rightarrow> ValidationStatusValid
      | Some t \<Rightarrow> if After (UTC t) now then ValidationStatusValid else ValidationStatusStale)"

definition evidenceItemStatus :: "vpsEvidence \<Rightarrow> goTime \<Rightarrow> validationStatus" where
  "evidenceItemStatus e now =
     (if evStatus e = EvidenceStatusStale then ValidationStatusStale
      else if evStatus e = EvidenceStatusMissing then ValidationStatusMissingEvidence
      else if evStatus e = EvidenceStatusDegraded \<or> evStatus e = EvidenceStatusUnknownLimit then ValidationStatusDegraded
      else if evStatus e = EvidenceStatusUnavailable then ValidationStatusUnavailable
      else if evStatus e \<noteq> EvidenceStatusFresh then ValidationStatusInvalid
      else case evExpiresAt e of
        None \<Rightarrow> ValidationStatusValid
      | Some t \<Rightarrow> if After (UTC t) now then ValidationStatusValid else ValidationStatusStale)"

fun evidenceLoop :: "vpsEvidence list \<Rightarrow> goTime \<Rightarrow> validationStatus" where
  "evidenceLoop [] now = ValidationStatusValid"
| "evidenceLoop (e # es) now =
     (if evidenceItemStatus e now \<noteq> ValidationStatusValid then evidenceItemStatus e now else evidenceLoop es now)"

definition evidenceValidationStatus :: "vpsEvidence list \<Rightarrow> goTime \<Rightarrow> validationStatus" where
  "evidenceValidationStatus es now = (if es = [] then ValidationStatusMissingEvidence else evidenceLoop es now)"

definition ValidateOfferReadiness ::
    "goTime \<Rightarrow> providerSource \<Rightarrow> artifactOffer \<Rightarrow> goTime \<Rightarrow> validationStatus \<times> string" where
  "ValidateOfferReadiness wall s o1 now0 =
     (let now = (if IsZero now0 then UTC wall else UTC now0);
          h1 = healthValidationStatus (psHealth s) now; h2 = healthValidationStatus (aoHealth o1) now;
          e1 = evidenceValidationStatus (psEvidence s) now; e2 = evidenceValidationStatus (aoEvidence o1) now
      in if h1 \<noteq> ValidationStatusValid then (h1, ''source_health'')
         else if h2 \<noteq> ValidationStatusValid then (h2, ''artifact_health'')
         else if e1 \<noteq> ValidationStatusValid then (e1, ''source_evidence'')
         else if e2 \<noteq> ValidationStatusValid then (e2, ''artifact_evidence'')
         else (ValidationStatusValid, []))"

section \<open>Lemmas\<close>

lemma firstFailure_valid:
  assumes "\<forall>c\<in>set cs. fst (snd c) \<noteq> ValidationStatusValid"
  shows "fst (firstFailure cs) = ValidationStatusValid \<longleftrightarrow> (\<forall>c\<in>set cs. \<not> fst c)"
  using assms by (induction cs rule: firstFailure.induct) auto

lemma validate_valid:
  "fst (ValidateSnapshot sha wall s opts) = ValidationStatusValid \<longleftrightarrow>
     (\<forall>c\<in>set (snapshotChecks sha wall s opts). \<not> fst c)"
  unfolding ValidateSnapshot_def by (rule firstFailure_valid) (simp add: snapshotChecks_def Let_def)

lemma offerShapeOk_clone [simp]: "offerShapeOk (CloneOffer o1) = offerShapeOk o1"
  by (simp add: offerShapeOk_def)

lemma validateSourceShape_clone [simp]: "validateSourceShape (CloneSource s) = validateSourceShape s"
  by (simp add: validateSourceShape_def list_all_iff)

lemma CloneSnapshot_integrity [simp]:
  "CloneSnapshot (s\<lparr>csIntegrity := i\<rparr>) = (CloneSnapshot s)\<lparr>csIntegrity := i\<rparr>"
  by (simp add: CloneSnapshot_def)

lemma SnapshotDigest_content [simp]:
  "SnapshotDigest sha (s\<lparr>csIntegrity := i\<rparr>) = SnapshotDigest sha s"
  "SnapshotDigest sha (CloneSnapshot s) = SnapshotDigest sha s"
  by (simp_all add: SnapshotDigest_def)

definition goodUntil :: "goTime option \<Rightarrow> goTime \<Rightarrow> bool" where
  "goodUntil expires now \<longleftrightarrow> (case expires of None \<Rightarrow> True | Some t \<Rightarrow> After t now)"

lemma After_UTC [simp]: "After (UTC t) u = After t u" "After t (UTC u) = After t u"
  by (simp_all add: After_def)

lemma goodUntil_UTC [simp]: "goodUntil e (UTC t) = goodUntil e t"
  by (simp add: goodUntil_def split: option.splits)

lemma healthStatus_valid:
  "healthValidationStatus h now = ValidationStatusValid \<longleftrightarrow>
     heStatus h \<in> {[], HealthStatusHealthy} \<and> goodUntil (heExpiresAt h) now"
  by (auto simp: healthValidationStatus_def goodUntil_def vps_status_defs split: option.splits)

lemma evidenceItem_valid:
  "evidenceItemStatus e now = ValidationStatusValid \<longleftrightarrow>
     evStatus e = EvidenceStatusFresh \<and> goodUntil (evExpiresAt e) now"
  by (auto simp: evidenceItemStatus_def goodUntil_def vps_status_defs split: option.splits)

lemma evidenceLoop_valid:
  "evidenceLoop es now = ValidationStatusValid \<longleftrightarrow>
     (\<forall>e\<in>set es. evidenceItemStatus e now = ValidationStatusValid)"
  by (induction es) auto

lemma readiness_valid:
  assumes "\<not> IsZero now"
  shows "fst (ValidateOfferReadiness wall s o1 now) = ValidationStatusValid \<longleftrightarrow>
     (\<forall>h\<in>{psHealth s, aoHealth o1}. heStatus h \<in> {[], HealthStatusHealthy} \<and> goodUntil (heExpiresAt h) now)
     \<and> psEvidence s \<noteq> [] \<and> aoEvidence o1 \<noteq> []
     \<and> (\<forall>e\<in>set (psEvidence s) \<union> set (aoEvidence o1).
          evStatus e = EvidenceStatusFresh \<and> goodUntil (evExpiresAt e) now)"
  using assms
  by (auto simp: ValidateOfferReadiness_def Let_def healthStatus_valid evidenceValidationStatus_def
      evidenceLoop_valid evidenceItem_valid)

section \<open>A sample catalog\<close>

definition sampleHealth :: "goTime option \<Rightarrow> vpsHealth" where
  "sampleHealth t = \<lparr>heStatus = HealthStatusHealthy, heCheckedAt = None, heExpiresAt = t,
     heDegradedReason = [], heMessage = [], heLimitDomain = []\<rparr>"

definition sampleEvidence :: vpsEvidence where
  "sampleEvidence = \<lparr>evKind = ''probe'', evSubject = [], evStatus = EvidenceStatusFresh,
     evObservedAt = None, evExpiresAt = None, evMessage = [], evLimitDomain = []\<rparr>"

definition sampleOffer :: artifactOffer where
  "sampleOffer = \<lparr>aoID = ''o'', aoFamily = ''turn'', aoAccessMethods = [''m''], aoActions = [''a''],
     aoRemoteEndpointFamily = [], aoRemoteEndpointRole = [], aoCompatibleProfileKinds = [],
     aoMaxTTLSeconds = 60, aoHealth = sampleHealth (Some \<lparr>tNanos = 100, tUTC = False\<rparr>), aoEvidence = [sampleEvidence],
     aoRedaction = emptyRedactionPolicy,
     aoProvenance = \<lparr>prEndpointID = [], prIssuer = [], prAudience = [], prGeneration = 0, prSourceID = [], prOfferID = []\<rparr>,
     aoMetadata = []\<rparr>"

definition sampleSource :: providerSource where
  "sampleSource = \<lparr>psID = ''s'', psProviderID = ''p'', psDisplayName = [], psDescription = [],
     psSourceFamily = ''f'', psHealth = sampleHealth None, psEvidence = [sampleEvidence],
     psArtifactOffers = [sampleOffer], psMetadata = []\<rparr>"

definition sampleSnapshot :: catalogSnapshot where
  "sampleSnapshot = \<lparr>csVersion = ''1'', csGeneratedAt = \<lparr>tNanos = 1, tUTC = True\<rparr>,
     csExpiresAt = \<lparr>tNanos = 1000, tUTC = True\<rparr>, csIssuer = ''i'', csAudience = ''u'', csEndpointID = ''e'',
     csGeneration = 7, csIntegrity = noIntegrity, csSources = [sampleSource]\<rparr>"

definition sampleOptions :: validationOptions where
  "sampleOptions = \<lparr>voNow = \<lparr>tNanos = 10, tUTC = True\<rparr>, voExpectedIssuer = ''i'', voExpectedAudience = [],
     voExpectedEndpointID = [], voHighestAcceptedGeneration = 7, voRequireSigned = False\<rparr>"

section \<open>Properties\<close>

text \<open>
  C38: What \<open>RequireSigned\<close> checks.  A snapshot to which anybody attached an integrity block, under any
  signer's name, is accepted with \<open>RequireSigned\<close> exactly if the snapshot itself is accepted without it;
  and a snapshot accepted with \<open>RequireSigned\<close> carries the digest of its own content, so any change of
  the content that changes the digest is refused.  No key enters the check.
\<close>

theorem snapshot_integrity:
  assumes "\<And>c. TrimSpace (sha c) \<noteq> []"
  shows "(fst (ValidateSnapshot sha wall (AttachIntegrity sha s signer) (opts\<lparr>voRequireSigned := True\<rparr>)) = ValidationStatusValid
      \<longleftrightarrow> fst (ValidateSnapshot sha wall s (opts\<lparr>voRequireSigned := False\<rparr>)) = ValidationStatusValid)
    \<and> (fst (ValidateSnapshot sha wall s (opts\<lparr>voRequireSigned := True\<rparr>)) = ValidationStatusValid \<longrightarrow>
        siDigest (csIntegrity s) = SnapshotDigest sha s
        \<and> (\<forall>s'. csIntegrity s' = csIntegrity s \<longrightarrow> SnapshotDigest sha s' \<noteq> SnapshotDigest sha s \<longrightarrow>
             fst (ValidateSnapshot sha wall s' (opts\<lparr>voRequireSigned := True\<rparr>)) \<noteq> ValidationStatusValid))"
proof -
  have sig: "TrimSpace (''signed:'' @ xs) \<noteq> []" for xs
    by (rule TrimSpace_keeps [of "CHR ''s''"]) (simp_all add: go_spaces_def)
  have digest: "TrimSpace (SnapshotDigest sha s) \<noteq> []" using assms by (simp add: SnapshotDigest_def)
  have "fst (ValidateSnapshot sha wall (AttachIntegrity sha s signer) (opts\<lparr>voRequireSigned := True\<rparr>)) = ValidationStatusValid
      \<longleftrightarrow> fst (ValidateSnapshot sha wall s (opts\<lparr>voRequireSigned := False\<rparr>)) = ValidationStatusValid"
    unfolding validate_valid
    using sig digest by (simp add: snapshotChecks_def AttachIntegrity_def Let_def list_all_iff)
  moreover have "siDigest (csIntegrity c) = SnapshotDigest sha c"
    if "fst (ValidateSnapshot sha wall c (opts\<lparr>voRequireSigned := True\<rparr>)) = ValidationStatusValid" for c
    using that unfolding validate_valid by (auto simp: snapshotChecks_def Let_def)
  ultimately show ?thesis by metis
qed

theorem snapshot_integrity_witness:
  "fst (ValidateSnapshot (\<lambda>_. replicate 64 CHR ''a'') (voNow sampleOptions)
      (AttachIntegrity (\<lambda>_. replicate 64 CHR ''a'') sampleSnapshot ''anybody'')
      (sampleOptions\<lparr>voRequireSigned := True\<rparr>)) = ValidationStatusValid"
proof -
  have "TrimSpace (replicate 64 CHR ''a'') \<noteq> []"
    by (rule TrimSpace_keeps [of "CHR ''a''"]) (simp_all add: go_spaces_def)
  moreover have "fst (ValidateSnapshot (\<lambda>_. replicate 64 CHR ''a'') (voNow sampleOptions) sampleSnapshot
      (sampleOptions\<lparr>voRequireSigned := False\<rparr>)) = ValidationStatusValid"
    unfolding validate_valid by (simp add: snapshotChecks_def sampleSnapshot_def sampleOptions_def Let_def) code_simp
  ultimately show ?thesis
    using snapshot_integrity [of "\<lambda>_. replicate 64 CHR ''a''" "voNow sampleOptions" sampleSnapshot "''anybody''" sampleOptions] by blast
qed

text \<open>
  An offer is ready exactly while everything vouches for it: its source and the offer itself are
  healthy, both have evidence, all of it fresh, and nothing has expired.  Readiness only runs out: an
  offer that is ready at some time was ready, as described, at every earlier time.
\<close>

theorem offer_ready_until_expiry:
  assumes "\<not> IsZero now"
  shows "(fst (ValidateOfferReadiness wall s o1 now) = ValidationStatusValid \<longleftrightarrow>
      (\<forall>h\<in>{psHealth s, aoHealth o1}. heStatus h \<in> {[], HealthStatusHealthy} \<and> goodUntil (heExpiresAt h) now)
      \<and> psEvidence s \<noteq> [] \<and> aoEvidence o1 \<noteq> []
      \<and> (\<forall>e\<in>set (psEvidence s) \<union> set (aoEvidence o1).
           evStatus e = EvidenceStatusFresh \<and> goodUntil (evExpiresAt e) now))
    \<and> (\<forall>earlier. \<not> IsZero earlier \<longrightarrow> \<not> After earlier now \<longrightarrow>
        fst (ValidateOfferReadiness wall s o1 now) = ValidationStatusValid \<longrightarrow>
        fst (ValidateOfferReadiness wall s o1 earlier) = ValidationStatusValid)"
proof -
  have mono: "goodUntil e earlier" if "goodUntil e now" "\<not> After earlier now" for e earlier
    using that by (auto simp: goodUntil_def After_def split: option.splits)
  show ?thesis using mono by (auto simp: readiness_valid assms)
qed

theorem offer_ready_until_expiry_witness:
  "fst (ValidateOfferReadiness (voNow sampleOptions) sampleSource sampleOffer \<lparr>tNanos = 99, tUTC = True\<rparr>) = ValidationStatusValid
   \<and> fst (ValidateOfferReadiness (voNow sampleOptions) sampleSource sampleOffer \<lparr>tNanos = 5, tUTC = True\<rparr>) = ValidationStatusValid"
  using offer_ready_until_expiry [of "\<lparr>tNanos = 99, tUTC = True\<rparr>" "voNow sampleOptions" sampleSource sampleOffer]
  by (simp add: sampleSource_def sampleOffer_def sampleHealth_def sampleEvidence_def goodUntil_def After_def IsZero_def)

end
