(* ===== verification/VpsService.thy ===== *)
theory VpsService
  imports VpsCatalog
begin

text \<open>
  The catalog service (\<^verbatim>\<open>internal/vpscatalog/service.go\<close>): its state, the HTTP handlers as functions
  of a request and the state, and what an issued artifact says.  A handler is one step; its locked
  sections do not depend on what other requests do between them, except for the order of the audit
  records.  The clock is read once per request.  Hashes, the text of a time and the snapshot provider are arguments.
\<close>

section \<open>Requests and responses\<close>

record auditContext =
  acActor :: string
  acRequestID :: string
  acReason :: string
  acMetadata :: stringMap

record artifactIssueRequest =
  irSourceID :: string
  irOfferID :: string
  irOperationID :: string
  irTTLSeconds :: "64 word"
  irExportSecret :: bool
  irAudit :: auditContext

record sourceReference =
  srEndpointID :: string
  srIssuer :: string
  srAudience :: string
  srGeneration :: "64 word"
  srProviderID :: string
  srSourceID :: string

record artifactReference =
  arID :: string
  arSourceID :: string
  arOfferID :: string
  arFamily :: string
  arAccessMethods :: "string list"
  arActions :: "string list"
  arRemoteEndpointFamily :: string
  arRemoteEndpointRole :: string
  arCompatibleProfileKinds :: "string list"
  arHealth :: vpsHealth
  arEvidence :: "vpsEvidence list"
  arExpiresAt :: goTime

record artifactExport =
  axKind :: string
  axPayload :: string
  axPayloadRedacted :: bool

record artifactIssueResponse =
  rsOperationID :: string
  rsIssuedAt :: goTime
  rsExpiresAt :: goTime
  rsSource :: sourceReference
  rsArtifact :: artifactReference
  rsExport :: "artifactExport option"
  rsRedaction :: redactionPolicy
  rsProvenance :: artifactProvenance

record auditRecord =
  auTimestamp :: goTime
  auAction :: string
  auScope :: authScope
  auStatus :: string
  auSourceFamily :: string
  auArtifactFamily :: string
  auSourceID :: string
  auOfferID :: string
  auOperationID :: string
  auReason :: string
  auActor :: string

text \<open>Counters by label, 64 bits wide; a label that is absent counts zero.\<close>

type_synonym counters = "string \<Rightarrow> 64 word"

record metricsSnapshot =
  msCatalogReads :: counters
  msArtifactIssues :: counters
  msAuthorization :: counters
  msEvidenceOutcomes :: counters

record vpsService =
  vsSnapshot :: catalogSnapshot
  vsIssues :: "string \<rightharpoonup> artifactIssueResponse"
  vsAudit :: "auditRecord list"
  vsMetrics :: metricsSnapshot

text \<open>
  The parameters: a provider of snapshots, who may do what by token, the SHA-256 in hexadecimal, the
  RFC 3339 text of a time, and the wall clock, which the readiness of an offer takes for a clock that
  is zero.
\<close>

record vpsEnv =
  veProvider :: "(goTime \<Rightarrow> catalogSnapshot) option"
  veAuthorizer :: "string \<Rightarrow> authScope list"
  veHash :: "string \<Rightarrow> string"
  veFormat :: "goTime \<Rightarrow> string"
  veWall :: goTime

record httpRequest =
  rqMethod :: string
  rqAuthorization :: string
  rqActor :: string
  rqBody :: "artifactIssueRequest option"

datatype httpBody =
    BodySnapshot catalogSnapshot
  | BodyIssue artifactIssueResponse
  | BodyError string
  | BodyMetrics metricsSnapshot
  | BodyAudit "auditRecord list"

definition noCounters :: counters where "noCounters = (\<lambda>_. 0)"

definition bump :: "string \<Rightarrow> counters \<Rightarrow> counters" where
  "bump l c = c(l := c l + 1)"

definition NewService :: "vpsEnv \<Rightarrow> goTime \<Rightarrow> catalogSnapshot \<Rightarrow> vpsService" where
  "NewService env now snapshot =
     \<lparr>vsSnapshot = (case veProvider env of
         None \<Rightarrow> CloneSnapshot snapshot | Some provider \<Rightarrow> CloneSnapshot (provider (UTC now))),
      vsIssues = Map.empty, vsAudit = [],
      vsMetrics = \<lparr>msCatalogReads = noCounters, msArtifactIssues = noCounters,
        msAuthorization = noCounters, msEvidenceOutcomes = noCounters\<rparr>\<rparr>"

section \<open>Authorization and audit\<close>

definition bearerToken :: "string \<Rightarrow> string" where
  "bearerToken value =
     (let v = TrimSpace value in
      if v = [] then []
      else if prefix ''Bearer '' v then TrimSpace (drop (length ''Bearer '') v) else [])"

definition countAuthorization :: "string \<Rightarrow> vpsService \<Rightarrow> vpsService" where
  "countAuthorization status s =
     s\<lparr>vsMetrics := (vsMetrics s)\<lparr>msAuthorization := bump (''status='' @ status) (msAuthorization (vsMetrics s))\<rparr>\<rparr>"

definition ScopesForToken :: "vpsEnv \<Rightarrow> string \<Rightarrow> authScope list" where
  "ScopesForToken env token = veAuthorizer env (TrimSpace token)"

definition authorize :: "vpsEnv \<Rightarrow> httpRequest \<Rightarrow> authScope \<Rightarrow> vpsService \<Rightarrow> bool \<times> vpsService" where
  "authorize env r scope s =
     (let token = bearerToken (rqAuthorization r) in
      if token = [] then (False, countAuthorization ''missing'' s)
      else if scope \<in> set (ScopesForToken env token) then (True, countAuthorization ''ok'' s)
      else (False, countAuthorization ''denied'' s))"

definition auditActor :: "httpRequest \<Rightarrow> auditContext \<Rightarrow> string" where
  "auditActor r audit = (if acActor audit \<noteq> [] then TrimSpace (acActor audit) else TrimSpace (rqActor r))"

definition emptyAudit :: auditContext where
  "emptyAudit = \<lparr>acActor = [], acRequestID = [], acReason = [], acMetadata = []\<rparr>"

definition recordAudit ::
    "goTime \<Rightarrow> string \<Rightarrow> authScope \<Rightarrow> string \<Rightarrow> string \<Rightarrow> string \<Rightarrow> string \<Rightarrow> string \<Rightarrow> string \<Rightarrow> string \<Rightarrow>
       vpsService \<Rightarrow> vpsService" where
  "recordAudit now action scope status sourceFamily artifactFamily sourceID offerID reason actor s =
     s\<lparr>vsAudit := vsAudit s @ [\<lparr>auTimestamp = UTC now, auAction = action, auScope = scope, auStatus = status,
        auSourceFamily = sourceFamily, auArtifactFamily = artifactFamily, auSourceID = sourceID,
        auOfferID = offerID, auOperationID = [], auReason = reason, auActor = actor\<rparr>]\<rparr>"

section \<open>Issuing\<close>

definition snapshotForRequest :: "vpsEnv \<Rightarrow> goTime \<Rightarrow> vpsService \<Rightarrow> vpsService" where
  "snapshotForRequest env now s =
     (case veProvider env of
        None \<Rightarrow> s
      | Some provider \<Rightarrow> s\<lparr>vsSnapshot := CloneSnapshot (provider (UTC now))\<rparr>)"

fun findOfferIn :: "providerSource list \<Rightarrow> string \<Rightarrow> string \<Rightarrow> (providerSource \<times> artifactOffer) option" where
  "findOfferIn [] sourceID offerID = None"
| "findOfferIn (s # ss) sourceID offerID =
     (if psID s \<noteq> sourceID then findOfferIn ss sourceID offerID
      else case find (\<lambda>o1. aoID o1 = offerID) (psArtifactOffers s) of
        Some o1 \<Rightarrow> Some (CloneSource s, CloneOffer o1)
      | None \<Rightarrow> findOfferIn ss sourceID offerID)"

definition findOffer :: "catalogSnapshot \<Rightarrow> string \<Rightarrow> string \<Rightarrow> (providerSource \<times> artifactOffer) option" where
  "findOffer snapshot sourceID offerID = findOfferIn (csSources snapshot) sourceID offerID"

definition joinBar :: "string list \<Rightarrow> string" where
  "joinBar xs = (case xs of [] \<Rightarrow> [] | y # ys \<Rightarrow> y @ concat (List.map (\<lambda>z. CHR ''|'' # z) ys))"

definition artifactIssueID :: "vpsEnv \<Rightarrow> catalogSnapshot \<Rightarrow> artifactIssueRequest \<Rightarrow> string" where
  "artifactIssueID env snapshot req = ''vps-artifact-'' @ take 16 (veHash env (joinBar
     [csEndpointID snapshot, csIssuer snapshot, itoa (unat (csGeneration snapshot)),
      irSourceID req, irOfferID req, irOperationID req]))"

definition secretExportPayload :: "vpsEnv \<Rightarrow> artifactIssueResponse \<Rightarrow> artifactIssueRequest \<Rightarrow> string" where
  "secretExportPayload env response req = ''vps-secret-'' @ take 32 (veHash env (joinBar
     [arID (rsArtifact response), irOperationID req, veFormat env (UTC (rsExpiresAt response))]))"

definition firstNonEmpty :: "string list \<Rightarrow> string" where
  "firstNonEmpty vs = (case find (\<lambda>v. TrimSpace v \<noteq> []) vs of Some v \<Rightarrow> TrimSpace v | None \<Rightarrow> [])"

text \<open>Durations are 64 bit counts of nanoseconds: the product wraps around.\<close>

definition vpsSecond :: "64 word" where "vpsSecond = 1000000000"

definition issueTTL :: "64 word \<Rightarrow> 64 word \<Rightarrow> 64 word" where
  "issueTTL ttlSeconds maxTTLSeconds =
     (let ttl = ttlSeconds * vpsSecond;
          ttl1 = (if ttl \<le>s 0 \<or> (0 <s maxTTLSeconds \<and> maxTTLSeconds * vpsSecond <s ttl)
                  then maxTTLSeconds * vpsSecond else ttl)
      in if ttl1 \<le>s 0 then 60 * vpsSecond else ttl1)"

definition fillProvenance :: "catalogSnapshot \<Rightarrow> providerSource \<Rightarrow> artifactOffer \<Rightarrow> artifactProvenance" where
  "fillProvenance snap source offer =
     (let p = aoProvenance offer in
      \<lparr>prEndpointID = firstNonEmpty [prEndpointID p, csEndpointID snap],
       prIssuer = firstNonEmpty [prIssuer p, csIssuer snap],
       prAudience = firstNonEmpty [prAudience p, csAudience snap],
       prGeneration = (if prGeneration p = 0 then csGeneration snap else prGeneration p),
       prSourceID = firstNonEmpty [prSourceID p, psID source],
       prOfferID = firstNonEmpty [prOfferID p, aoID offer]\<rparr>)"

definition issueResponse ::
    "vpsEnv \<Rightarrow> catalogSnapshot \<Rightarrow> artifactIssueRequest \<Rightarrow> providerSource \<Rightarrow> artifactOffer \<Rightarrow> goTime \<Rightarrow>
       artifactIssueResponse" where
  "issueResponse env snap req source offer now =
     (let expiresAt = UTC (AddDuration now (issueTTL (irTTLSeconds req) (aoMaxTTLSeconds offer)));
          redaction = (if aoRedaction offer = emptyRedactionPolicy then DefaultRedactionPolicy else aoRedaction offer);
          response =
            \<lparr>rsOperationID = irOperationID req, rsIssuedAt = now, rsExpiresAt = expiresAt,
             rsSource = \<lparr>srEndpointID = csEndpointID snap, srIssuer = csIssuer snap, srAudience = csAudience snap,
               srGeneration = csGeneration snap, srProviderID = psProviderID source, srSourceID = psID source\<rparr>,
             rsArtifact = \<lparr>arID = artifactIssueID env snap req, arSourceID = psID source, arOfferID = aoID offer,
               arFamily = aoFamily offer, arAccessMethods = aoAccessMethods offer, arActions = aoActions offer,
               arRemoteEndpointFamily = aoRemoteEndpointFamily offer, arRemoteEndpointRole = aoRemoteEndpointRole offer,
               arCompatibleProfileKinds = aoCompatibleProfileKinds offer, arHealth = aoHealth offer,
               arEvidence = aoEvidence offer, arExpiresAt = expiresAt\<rparr>,
             rsExport = None, rsRedaction = redaction, rsProvenance = fillProvenance snap source offer\<rparr>
      in if irExportSecret req
         then response\<lparr>rsExport := Some \<lparr>axKind = ''vps_secret_handoff'',
                axPayload = secretExportPayload env response req, axPayloadRedacted = False\<rparr>\<rparr>
         else response)"

section \<open>The handlers\<close>

type_synonym httpResponse = "nat \<times> httpBody"

definition methodNotAllowed :: "httpResponse" where
  "methodNotAllowed = (405, BodyError ''method_not_allowed'')"

definition handleCatalog :: "vpsEnv \<Rightarrow> goTime \<Rightarrow> httpRequest \<Rightarrow> vpsService \<Rightarrow> httpResponse \<times> vpsService" where
  "handleCatalog env now r s =
     (if rqMethod r \<noteq> ''GET'' then (methodNotAllowed, s)
      else case authorize env r AuthScopeCatalogRead s of
        (False, s1) \<Rightarrow> ((403, BodyError ''catalog_forbidden''),
           recordAudit now ''catalog_read'' AuthScopeCatalogRead ''denied'' [] [] [] [] ''authorization_failed''
             (auditActor r emptyAudit) s1)
      | (True, s1) \<Rightarrow>
          let s2 = snapshotForRequest env now
                (s1\<lparr>vsMetrics := (vsMetrics s1)\<lparr>msCatalogReads := bump ''status=ok'' (msCatalogReads (vsMetrics s1))\<rparr>\<rparr>)
          in ((200, BodySnapshot (CloneSnapshot (vsSnapshot s2))),
              recordAudit now ''catalog_read'' AuthScopeCatalogRead ''ok'' [] [] [] [] [] (auditActor r emptyAudit) s2))"

definition countIssue :: "string \<Rightarrow> vpsService \<Rightarrow> vpsService" where
  "countIssue status s =
     s\<lparr>vsMetrics := (vsMetrics s)\<lparr>msArtifactIssues := bump (''status='' @ status) (msArtifactIssues (vsMetrics s))\<rparr>\<rparr>"

definition countOutcome :: "string \<Rightarrow> vpsService \<Rightarrow> vpsService" where
  "countOutcome status s =
     s\<lparr>vsMetrics := (vsMetrics s)\<lparr>msEvidenceOutcomes := bump (''status='' @ status) (msEvidenceOutcomes (vsMetrics s))\<rparr>\<rparr>"

definition trimRequest :: "artifactIssueRequest \<Rightarrow> artifactIssueRequest" where
  "trimRequest q = q\<lparr>irSourceID := TrimSpace (irSourceID q), irOfferID := TrimSpace (irOfferID q),
     irOperationID := TrimSpace (irOperationID q)\<rparr>"

text \<open>The locked part of \<open>handleArtifactIssue\<close> and the audit record that follows it.\<close>

definition issueAuthorized ::
    "vpsEnv \<Rightarrow> goTime \<Rightarrow> artifactIssueRequest \<Rightarrow> string \<Rightarrow> vpsService \<Rightarrow> httpResponse \<times> vpsService" where
  "issueAuthorized env now req actor s1 =
     (case vsIssues s1 (irOperationID req) of
        Some existing \<Rightarrow>
          ((200, BodyIssue existing),
           recordAudit now ''artifact_issue'' AuthScopeArtifactIssue ''idempotent_retry'' []
             (arFamily (rsArtifact existing)) (irSourceID req) (irOfferID req) [] actor
             (countIssue ''idempotent_retry'' s1))
      | None \<Rightarrow>
          let s2 = snapshotForRequest env now s1; snap = CloneSnapshot (vsSnapshot s2) in
          case findOffer snap (irSourceID req) (irOfferID req) of
            None \<Rightarrow>
              ((404, BodyError ''artifact_offer_not_found''),
               recordAudit now ''artifact_issue'' AuthScopeArtifactIssue ''not_found'' [] [] (irSourceID req)
                 (irOfferID req) ''not_found'' actor (countIssue ''not_found'' s2))
          | Some (source, offer) \<Rightarrow>
              let readiness = ValidateOfferReadiness (veWall env) source offer (UTC now) in
              if fst readiness \<noteq> ValidationStatusValid
              then ((409, BodyError ''artifact_offer_not_ready''),
                    recordAudit now ''artifact_issue'' AuthScopeArtifactIssue (statusText (fst readiness))
                      (psSourceFamily source) (aoFamily offer) (irSourceID req) (irOfferID req) (snd readiness) actor
                      (countOutcome (statusText (fst readiness)) (countIssue (statusText (fst readiness)) s2)))
              else
                let response = issueResponse env (vsSnapshot s2) req source offer (UTC now) in
                ((200, BodyIssue response),
                 recordAudit now ''artifact_issue'' AuthScopeArtifactIssue ''ok'' (psSourceFamily source)
                   (aoFamily offer) (irSourceID req) (irOfferID req) [] actor
                   (countOutcome ''valid'' (countIssue ''ok''
                     (s2\<lparr>vsIssues := (vsIssues s2)(irOperationID req \<mapsto> response)\<rparr>)))))"

definition handleArtifactIssue ::
    "vpsEnv \<Rightarrow> goTime \<Rightarrow> httpRequest \<Rightarrow> vpsService \<Rightarrow> httpResponse \<times> vpsService" where
  "handleArtifactIssue env now r s =
     (if rqMethod r \<noteq> ''POST'' then (methodNotAllowed, s)
      else case rqBody r of
        None \<Rightarrow> ((400, BodyError ''invalid_json''), s)
      | Some q \<Rightarrow>
          let req = trimRequest q; actor = auditActor r (irAudit req) in
          if irOperationID req = []
          then ((400, BodyError ''operation_id_required''),
                recordAudit now ''artifact_issue'' AuthScopeArtifactIssue ''denied'' [] [] (irSourceID req)
                  (irOfferID req) ''operation_id_missing'' actor s)
          else case authorize env r AuthScopeArtifactIssue s of
            (False, s1) \<Rightarrow> ((403, BodyError ''artifact_issue_forbidden''),
               recordAudit now ''artifact_issue'' AuthScopeArtifactIssue ''denied'' [] [] (irSourceID req)
                 (irOfferID req) ''authorization_failed'' actor s1)
          | (True, s1) \<Rightarrow> issueAuthorized env now req actor s1)"

definition handleAdmin :: "vpsEnv \<Rightarrow> goTime \<Rightarrow> httpRequest \<Rightarrow> vpsService \<Rightarrow> httpResponse \<times> vpsService" where
  "handleAdmin env now r s =
     (case authorize env r AuthScopeAdminMutation s of
        (False, s1) \<Rightarrow> ((403, BodyError ''admin_forbidden''),
           recordAudit now ''admin_mutation'' AuthScopeAdminMutation ''denied'' [] [] [] [] ''authorization_failed''
             (auditActor r emptyAudit) s1)
      | (True, s1) \<Rightarrow> ((501, BodyError ''admin_not_implemented''), s1))"

definition handleMetrics :: "vpsEnv \<Rightarrow> goTime \<Rightarrow> httpRequest \<Rightarrow> vpsService \<Rightarrow> httpResponse \<times> vpsService" where
  "handleMetrics env now r s =
     (if rqMethod r \<noteq> ''GET'' then (methodNotAllowed, s)
      else case authorize env r AuthScopeAdminMutation s of
        (False, s1) \<Rightarrow> ((403, BodyError ''metrics_forbidden''),
           recordAudit now ''metrics_read'' AuthScopeAdminMutation ''denied'' [] [] [] [] ''authorization_failed''
             (auditActor r emptyAudit) s1)
      | (True, s1) \<Rightarrow>
          let s2 = recordAudit now ''metrics_read'' AuthScopeAdminMutation ''ok'' [] [] [] [] [] (auditActor r emptyAudit) s1
          in ((200, BodyMetrics (vsMetrics s2)), s2))"

definition handleAudit :: "vpsEnv \<Rightarrow> goTime \<Rightarrow> httpRequest \<Rightarrow> vpsService \<Rightarrow> httpResponse \<times> vpsService" where
  "handleAudit env now r s =
     (if rqMethod r \<noteq> ''GET'' then (methodNotAllowed, s)
      else case authorize env r AuthScopeAdminMutation s of
        (False, s1) \<Rightarrow> ((403, BodyError ''audit_forbidden''),
           recordAudit now ''audit_read'' AuthScopeAdminMutation ''denied'' [] [] [] [] ''authorization_failed''
             (auditActor r emptyAudit) s1)
      | (True, s1) \<Rightarrow>
          let s2 = recordAudit now ''audit_read'' AuthScopeAdminMutation ''ok'' [] [] [] [] [] (auditActor r emptyAudit) s1
          in ((200, BodyAudit (vsAudit s2)), s2))"

datatype vpsRoute = RouteCatalog | RouteIssue | RouteMetrics | RouteAudit | RouteAdmin

definition vpsServe :: "vpsEnv \<Rightarrow> goTime \<Rightarrow> vpsRoute \<Rightarrow> httpRequest \<Rightarrow> vpsService \<Rightarrow> httpResponse \<times> vpsService" where
  "vpsServe env now route r s =
     (case route of
        RouteCatalog \<Rightarrow> handleCatalog env now r s
      | RouteIssue \<Rightarrow> handleArtifactIssue env now r s
      | RouteMetrics \<Rightarrow> handleMetrics env now r s
      | RouteAudit \<Rightarrow> handleAudit env now r s
      | RouteAdmin \<Rightarrow> handleAdmin env now r s)"

fun vpsRun :: "vpsEnv \<Rightarrow> (goTime \<times> vpsRoute \<times> httpRequest) list \<Rightarrow> vpsService \<Rightarrow> vpsService" where
  "vpsRun env [] s = s"
| "vpsRun env ((now, route, r) # es) s = vpsRun env es (snd (vpsServe env now route r s))"

end
