(* ===== verification/VpsServiceInv.thy ===== *)
theory VpsServiceInv
  imports VpsService
begin

text \<open>
  What the catalog service guarantees: issued artifacts stay as they are, are issued only to the
  authorized and for offers that are ready, and live no longer than their offer allows.
\<close>

section \<open>Lemmas\<close>

lemma state_simps [simp]:
  "vsIssues (countAuthorization st s) = vsIssues s" "vsAudit (countAuthorization st s) = vsAudit s"
  "vsIssues (countIssue st s) = vsIssues s" "vsAudit (countIssue st s) = vsAudit s"
  "vsIssues (countOutcome st s) = vsIssues s" "vsAudit (countOutcome st s) = vsAudit s"
  "vsIssues (recordAudit now a sc st sf af si oi re ac s) = vsIssues s"
  "vsIssues (snapshotForRequest env now s) = vsIssues s" "vsAudit (snapshotForRequest env now s) = vsAudit s"
  "vsSnapshot (countAuthorization st s) = vsSnapshot s"
  by (simp_all add: countAuthorization_def countIssue_def countOutcome_def recordAudit_def
      snapshotForRequest_def split: option.splits)

lemma audit_grows [simp]: "prefix (vsAudit s) (vsAudit (recordAudit now a sc st sf af si oi re ac s))"
  by (simp add: recordAudit_def)

definition mayUse :: "vpsEnv \<Rightarrow> httpRequest \<Rightarrow> authScope \<Rightarrow> bool" where
  "mayUse env r scope \<longleftrightarrow> bearerToken (rqAuthorization r) \<noteq> []
     \<and> scope \<in> set (ScopesForToken env (bearerToken (rqAuthorization r)))"

lemma authorize_result:
  assumes "authorize env r scope s = (ok, s1)"
  shows "ok = mayUse env r scope" "vsIssues s1 = vsIssues s" "vsAudit s1 = vsAudit s" "vsSnapshot s1 = vsSnapshot s"
  using assms by (auto simp: authorize_def mayUse_def Let_def split: if_splits)

lemma authorize_fst [simp]: "fst (authorize env r scope s) = mayUse env r scope"
  using authorize_result(1) [of env r scope s] by (metis prod.collapse)

lemma authorize_snd [simp]:
  "vsIssues (snd (authorize env r scope s)) = vsIssues s" "vsAudit (snd (authorize env r scope s)) = vsAudit s"
  "vsSnapshot (snd (authorize env r scope s)) = vsSnapshot s"
  using authorize_result [of env r scope s] by (metis prod.collapse)+

text \<open>The offer a request is answered from.\<close>

definition readyOffer ::
    "vpsEnv \<Rightarrow> goTime \<Rightarrow> artifactIssueRequest \<Rightarrow> catalogSnapshot \<Rightarrow> (providerSource \<times> artifactOffer) option" where
  "readyOffer env now req snap =
     (case findOffer (CloneSnapshot snap) (irSourceID req) (irOfferID req) of
        None \<Rightarrow> None
      | Some (source, offer) \<Rightarrow>
          if fst (ValidateOfferReadiness (veWall env) source offer (UTC now)) = ValidationStatusValid
          then Some (source, offer) else None)"

definition currentSnapshot :: "vpsEnv \<Rightarrow> goTime \<Rightarrow> vpsService \<Rightarrow> catalogSnapshot" where
  "currentSnapshot env now s = vsSnapshot (snapshotForRequest env now s)"

lemma snapshotForRequest_cong:
  "vsSnapshot s1 = vsSnapshot s \<Longrightarrow> vsSnapshot (snapshotForRequest env now s1) = vsSnapshot (snapshotForRequest env now s)"
  by (simp add: snapshotForRequest_def split: option.splits)

text \<open>What an authorized issue request does to the table of issued artifacts.\<close>

lemma issue_authorized:
  assumes "issueAuthorized env now req actor s = (res, s')"
  shows "prefix (vsAudit s) (vsAudit s')"
    and "case vsIssues s (irOperationID req) of
        Some existing \<Rightarrow> res = (200, BodyIssue existing) \<and> vsIssues s' = vsIssues s
      | None \<Rightarrow>
          (case readyOffer env now req (currentSnapshot env now s) of
             None \<Rightarrow> vsIssues s' = vsIssues s \<and> fst res \<noteq> 200
           | Some (source, offer) \<Rightarrow>
               (let resp = issueResponse env (currentSnapshot env now s) req source offer (UTC now)
                in res = (200, BodyIssue resp) \<and> vsIssues s' = (vsIssues s)(irOperationID req \<mapsto> resp)
                   \<and> auStatus (last (vsAudit s')) = ''ok''))"
proof -
  have a: "prefix (vsAudit s) (vsAudit (recordAudit now' x sc st sf af si oi re ac s1))"
    if "vsAudit s1 = vsAudit s" for now' x sc st sf af si oi re ac s1
    using audit_grows [of s1] that by simp
  show "prefix (vsAudit s) (vsAudit s')"
    using assms by (auto simp: issueAuthorized_def Let_def intro!: a split: option.splits prod.splits if_splits)
  show "case vsIssues s (irOperationID req) of
        Some existing \<Rightarrow> res = (200, BodyIssue existing) \<and> vsIssues s' = vsIssues s
      | None \<Rightarrow>
          (case readyOffer env now req (currentSnapshot env now s) of
             None \<Rightarrow> vsIssues s' = vsIssues s \<and> fst res \<noteq> 200
           | Some (source, offer) \<Rightarrow>
               (let resp = issueResponse env (currentSnapshot env now s) req source offer (UTC now)
                in res = (200, BodyIssue resp) \<and> vsIssues s' = (vsIssues s)(irOperationID req \<mapsto> resp)
                   \<and> auStatus (last (vsAudit s')) = ''ok''))"
    using assms
    by (auto simp: issueAuthorized_def readyOffer_def currentSnapshot_def Let_def recordAudit_def
        split: option.splits prod.splits if_splits)
qed

text \<open>The other handlers leave the table alone; every handler only appends to the audit log.\<close>

lemma serve_audit: "prefix (vsAudit s) (vsAudit (snd (vpsServe env now route r s)))"
proof -
  have a: "prefix (vsAudit s) (vsAudit (recordAudit now' x sc st sf af si oi re ac s1))"
    if "vsAudit s1 = vsAudit s" for now' x sc st sf af si oi re ac s1
    using audit_grows [of s1] that by simp
  have i: "prefix (vsAudit s) (vsAudit (snd (issueAuthorized env now req actor s1)))"
    if "vsAudit s1 = vsAudit s" for req actor s1
    using issue_authorized(1) [of env now req actor s1] that by (metis prod.collapse)
  show ?thesis
    by (cases route)
      (auto simp: vpsServe_def handleCatalog_def handleArtifactIssue_def handleMetrics_def handleAudit_def
        handleAdmin_def Let_def authorize_result intro!: a i dest: authorize_result split: option.splits prod.splits bool.splits)
qed

lemma serve_issues:
  "vsIssues (snd (vpsServe env now route r s)) =
     (if route = RouteIssue then vsIssues (snd (handleArtifactIssue env now r s)) else vsIssues s)"
  by (cases route)
    (auto simp: vpsServe_def handleCatalog_def handleMetrics_def handleAudit_def handleAdmin_def Let_def
      dest: authorize_result split: prod.splits bool.splits)

text \<open>\<open>handleArtifactIssue\<close> reaches its locked part exactly for a well-formed, authorized request.\<close>

definition issueRequest :: "vpsEnv \<Rightarrow> httpRequest \<Rightarrow> artifactIssueRequest option" where
  "issueRequest env r =
     (if rqMethod r = ''POST'' \<and> mayUse env r AuthScopeArtifactIssue
      then (case rqBody r of
          None \<Rightarrow> None
        | Some q \<Rightarrow> if irOperationID (trimRequest q) = [] then None else Some (trimRequest q))
      else None)"

lemma handle_issue_cases:
  "case issueRequest env r of
     None \<Rightarrow> vsIssues (snd (handleArtifactIssue env now r s)) = vsIssues s
        \<and> fst (fst (handleArtifactIssue env now r s)) \<noteq> 200
   | Some req \<Rightarrow> \<exists>s1 actor. vsIssues s1 = vsIssues s \<and> vsSnapshot s1 = vsSnapshot s
        \<and> handleArtifactIssue env now r s = issueAuthorized env now req actor s1"
proof -
  obtain ok s1 where au: "authorize env r AuthScopeArtifactIssue s = (ok, s1)" by fastforce
  show ?thesis
    using authorize_result [OF au]
    by (auto simp: issueRequest_def handleArtifactIssue_def au methodNotAllowed_def Let_def split: option.splits bool.splits)
qed

lemma issued_stays:
  assumes "vsIssues s op1 = Some resp"
  shows "vsIssues (snd (vpsServe env now route r s)) op1 = Some resp"
proof (cases "route = RouteIssue")
  case True
  show ?thesis
  proof (cases "issueRequest env r")
    case None
    then show ?thesis using handle_issue_cases [of env now r s] assms True by (simp add: serve_issues)
  next
    case (Some req)
    then obtain s1 actor where s1: "vsIssues s1 = vsIssues s"
      and h: "handleArtifactIssue env now r s = issueAuthorized env now req actor s1"
      using handle_issue_cases [of env now r s] by auto
    obtain res s2 where i: "issueAuthorized env now req actor s1 = (res, s2)" by fastforce
    from issue_authorized(2) [OF i] s1 assms have "vsIssues s2 op1 = Some resp"
      by (auto simp: Let_def split: option.splits prod.splits)
    then show ?thesis using True h i by (simp add: serve_issues)
  qed
qed (use assms serve_issues in simp)

lemma issued_stays_run: "vsIssues s op1 = Some resp \<Longrightarrow> vsIssues (vpsRun env es s) op1 = Some resp"
  by (induction env es s rule: vpsRun.induct) (auto intro: issued_stays)

section \<open>How long an artifact lives\<close>

lemma sint_seconds:
  assumes "- (2 ^ 63) \<le> sint t * 1000000000" "sint t * 1000000000 < 2 ^ 63"
  shows "sint (t * vpsSecond) = sint t * 1000000000"
proof -
  have "sint vpsSecond = 1000000000" by (simp add: vpsSecond_def)
  then have "sint (t * vpsSecond) = signed_take_bit 63 (sint t * 1000000000)"
    by (simp add: sint_word_ariths)
  then show ?thesis using assms by (simp add: signed_take_bit_int_eq_self)
qed

lemma sint_minute: "sint (60 * vpsSecond) = 60000000000"
  by (simp add: vpsSecond_def)

section \<open>A sample request\<close>

definition sampleIssue :: "bool \<Rightarrow> httpRequest" where
  "sampleIssue export = \<lparr>rqMethod = ''POST'', rqAuthorization = ''Bearer t'', rqActor = [],
     rqBody = Some \<lparr>irSourceID = ''s'', irOfferID = ''o'', irOperationID = ''op '', irTTLSeconds = 30,
       irExportSecret = export, irAudit = emptyAudit\<rparr>\<rparr>"

definition sampleEnv :: vpsEnv where
  "sampleEnv = \<lparr>veProvider = None,
     veAuthorizer = (\<lambda>t. if t = ''t'' then [AuthScopeArtifactIssue] else []),
     veHash = (\<lambda>x. x), veFormat = (\<lambda>_. ''z''), veWall = \<lparr>tNanos = 20, tUTC = True\<rparr>\<rparr>"

abbreviation sampleTime :: goTime where "sampleTime \<equiv> \<lparr>tNanos = 20, tUTC = True\<rparr>"

definition sampleService :: vpsService where "sampleService = NewService sampleEnv sampleTime sampleSnapshot"

lemma sampleIssue_request:
  "map_option irOperationID (issueRequest sampleEnv (sampleIssue export)) = Some ''op''"
  by (cases export) code_simp+

lemma sampleIssue_answer:
  "case handleArtifactIssue sampleEnv sampleTime (sampleIssue True) sampleService of
     ((code, BodyIssue resp), s1) \<Rightarrow> code = 200 \<and> rsExport resp \<noteq> None \<and> tNanos (rsExpiresAt resp) = 30000000020
   | _ \<Rightarrow> False"
  by code_simp

section \<open>Properties\<close>

text \<open>
  C36: Issuing is idempotent.  Once an issue request has been answered with an artifact, every later
  authorized request with the same operation identifier, whatever happened in between and whatever
  else it asks for, is answered with that same artifact, and changes no issued artifact.
\<close>

theorem issue_idempotent:
  assumes "handleArtifactIssue env now r s = ((200, BodyIssue resp), s1)"
    and "issueRequest env r = Some req" "issueRequest env' r' = Some req'"
    and "irOperationID req' = irOperationID req"
  shows "fst (handleArtifactIssue env' now' r' (vpsRun env es s1)) = (200, BodyIssue resp)
    \<and> vsIssues (snd (handleArtifactIssue env' now' r' (vpsRun env es s1))) = vsIssues (vpsRun env es s1)"
proof -
  obtain s0 actor where s0: "vsIssues s0 = vsIssues s"
    and h: "issueAuthorized env now req actor s0 = ((200, BodyIssue resp), s1)"
    using handle_issue_cases [of env now r s] assms(1,2) by auto
  have "vsIssues s1 (irOperationID req) = Some resp"
    using issue_authorized(2) [OF h] by (auto simp: Let_def split: option.splits prod.splits)
  then have stays: "vsIssues (vpsRun env es s1) (irOperationID req) = Some resp" by (rule issued_stays_run)
  obtain s2 actor' where s2: "vsIssues s2 = vsIssues (vpsRun env es s1)"
    and h': "handleArtifactIssue env' now' r' (vpsRun env es s1) = issueAuthorized env' now' req' actor' s2"
    using handle_issue_cases [of env' now' r' "vpsRun env es s1"] assms(3) by auto
  obtain res s3 where i: "issueAuthorized env' now' req' actor' s2 = (res, s3)" by fastforce
  from issue_authorized(2) [OF i] stays s2 assms(4) show ?thesis unfolding h' i by auto
qed

theorem issue_idempotent_witness:
  "\<exists>resp s1. handleArtifactIssue sampleEnv sampleTime (sampleIssue True) sampleService = ((200, BodyIssue resp), s1)
     \<and> rsExport resp \<noteq> None
     \<and> fst (handleArtifactIssue sampleEnv (sampleTime\<lparr>tNanos := 999\<rparr>) (sampleIssue False) s1) = (200, BodyIssue resp)"
proof -
  obtain resp s1 where h: "handleArtifactIssue sampleEnv sampleTime (sampleIssue True) sampleService = ((200, BodyIssue resp), s1)"
    "rsExport resp \<noteq> None"
    using sampleIssue_answer by (auto split: prod.splits httpBody.splits)
  obtain q q' where q: "issueRequest sampleEnv (sampleIssue True) = Some q" "irOperationID q = ''op''"
    "issueRequest sampleEnv (sampleIssue False) = Some q'" "irOperationID q' = ''op''"
    using sampleIssue_request [of True] sampleIssue_request [of False] by (auto simp: map_option_eq_Some)
  have "fst (handleArtifactIssue sampleEnv (sampleTime\<lparr>tNanos := 999\<rparr>) (sampleIssue False) (vpsRun sampleEnv [] s1)) =
      (200, BodyIssue resp)"
    using issue_idempotent [OF h(1) q(1) q(3), where now' = "sampleTime\<lparr>tNanos := 999\<rparr>" and es = "[]"] q(2,4) by simp
  with h show ?thesis by simp
qed

text \<open>
  C37: Artifacts are issued only to the authorized and only for offers that are ready.  If any request
  changes the table of issued artifacts, it is a well-formed issue request whose token has the scope
  for issuing, its operation identifier was new, and the artifact is the one of an offer that the
  current snapshot has under the requested identifiers and that is ready; the decision is in the
  audit log, which only grows.
\<close>

theorem issue_only_when_ready:
  assumes "vsIssues (snd (vpsServe env now route r s)) \<noteq> vsIssues s"
  shows "prefix (vsAudit s) (vsAudit (snd (vpsServe env now route r s)))
    \<and> auStatus (last (vsAudit (snd (vpsServe env now route r s)))) = ''ok''
    \<and> (\<exists>req source offer. route = RouteIssue \<and> issueRequest env r = Some req
        \<and> mayUse env r AuthScopeArtifactIssue \<and> vsIssues s (irOperationID req) = None
        \<and> readyOffer env now req (currentSnapshot env now s) = Some (source, offer)
        \<and> vsIssues (snd (vpsServe env now route r s)) = (vsIssues s)(irOperationID req \<mapsto>
             issueResponse env (currentSnapshot env now s) req source offer (UTC now)))"
proof -
  have route: "route = RouteIssue" using assms by (auto simp: serve_issues split: if_splits)
  have ch: "vsIssues (snd (handleArtifactIssue env now r s)) \<noteq> vsIssues s"
    using assms route by (simp add: serve_issues)
  obtain req s1 actor where req: "issueRequest env r = Some req" and s1: "vsIssues s1 = vsIssues s"
    "vsSnapshot s1 = vsSnapshot s" and h: "handleArtifactIssue env now r s = issueAuthorized env now req actor s1"
    using handle_issue_cases [of env now r s] ch by (auto split: option.splits)
  have may: "mayUse env r AuthScopeArtifactIssue" using req by (auto simp: issueRequest_def split: if_splits)
  obtain res s2 where i: "issueAuthorized env now req actor s1 = (res, s2)" by fastforce
  have cur: "currentSnapshot env now s1 = currentSnapshot env now s"
    unfolding currentSnapshot_def by (rule snapshotForRequest_cong [OF s1(2)])
  have new: "vsIssues s2 \<noteq> vsIssues s1" using ch s1(1) unfolding h i by simp
  then obtain source offer where "vsIssues s1 (irOperationID req) = None"
    "readyOffer env now req (currentSnapshot env now s) = Some (source, offer)"
    "vsIssues s2 = (vsIssues s1)(irOperationID req \<mapsto>
       issueResponse env (currentSnapshot env now s) req source offer (UTC now))"
    "auStatus (last (vsAudit s2)) = ''ok''"
    using issue_authorized(2) [OF i] unfolding cur by (auto simp: Let_def split: option.splits prod.splits)
  moreover have "snd (vpsServe env now route r s) = s2" using route h i by (simp add: vpsServe_def)
  ultimately show ?thesis using serve_audit [of s env now route r] route req may s1(1) by auto
qed

theorem issue_only_when_ready_witness:
  "issueRequest sampleEnv (sampleIssue True) \<noteq> None \<and> mayUse sampleEnv (sampleIssue True) AuthScopeArtifactIssue
   \<and> auStatus (last (vsAudit (snd (vpsServe sampleEnv sampleTime RouteIssue (sampleIssue True) sampleService)))) = ''ok''"
proof -
  have "vsIssues (snd (vpsServe sampleEnv sampleTime RouteIssue (sampleIssue True) sampleService)) ''op'' \<noteq>
      vsIssues sampleService ''op''" by code_simp
  then have "vsIssues (snd (vpsServe sampleEnv sampleTime RouteIssue (sampleIssue True) sampleService)) \<noteq>
      vsIssues sampleService" by metis
  from issue_only_when_ready [OF this] show ?thesis by auto
qed

text \<open>
  How long an issued artifact lives.  It expires after it is issued and, if its offer has a
  maximum that fits into a duration, no later than that maximum, whatever time to live is asked for,
  even one whose nanoseconds overflow; a time to live within the maximum is granted exactly.  Without
  a maximum a request that fits is granted exactly too, and one that asks for nothing gets a minute.
\<close>

theorem artifact_lifetime_bounded:
  fixes ttl maxTTL :: "64 word"
  defines "life \<equiv> sint (issueTTL ttl maxTTL)"
  shows "tNanos (rsExpiresAt (issueResponse env snap req source offer now)) - tNanos now =
      sint (issueTTL (irTTLSeconds req) (aoMaxTTLSeconds offer))
    \<and> 0 < life
    \<and> (0 < sint maxTTL \<longrightarrow> sint maxTTL * 1000000000 < 2 ^ 63 \<longrightarrow> life \<le> sint maxTTL * 1000000000)
    \<and> (0 < sint maxTTL \<longrightarrow> sint maxTTL * 1000000000 < 2 ^ 63 \<longrightarrow> 0 < sint ttl \<longrightarrow> sint ttl \<le> sint maxTTL \<longrightarrow>
        life = sint ttl * 1000000000)
    \<and> (sint maxTTL = 0 \<longrightarrow> 0 < sint ttl \<longrightarrow> sint ttl * 1000000000 < 2 ^ 63 \<longrightarrow> life = sint ttl * 1000000000)
    \<and> (sint maxTTL = 0 \<longrightarrow> sint ttl = 0 \<longrightarrow> life = 60000000000)"
proof -
  have "tNanos (rsExpiresAt (issueResponse env snap req source offer now)) - tNanos now =
      sint (issueTTL (irTTLSeconds req) (aoMaxTTLSeconds offer))"
    by (simp add: issueResponse_def AddDuration_def Let_def)
  moreover have "0 < life"
    using sint_minute by (auto simp: life_def issueTTL_def Let_def word_sle_eq word_sless_alt)
  moreover have "sint (maxTTL * vpsSecond) = sint maxTTL * 1000000000"
    if "0 \<le> sint maxTTL" "sint maxTTL * 1000000000 < 2 ^ 63" using that by (intro sint_seconds) auto
  moreover have "sint (ttl * vpsSecond) = sint ttl * 1000000000"
    if "0 \<le> sint ttl" "sint ttl * 1000000000 < 2 ^ 63" using that by (intro sint_seconds) auto
  ultimately show ?thesis
    by (auto simp: life_def issueTTL_def Let_def word_sle_eq word_sless_alt sint_minute)
qed

theorem artifact_lifetime_bounded_witness:
  "sint (issueTTL 18446744074 60) \<le> 60000000000 \<and> sint (issueTTL 30 60) = 30000000000"
  using artifact_lifetime_bounded [where ttl = 18446744074 and maxTTL = 60]
    artifact_lifetime_bounded [where ttl = 30 and maxTTL = 60] by simp

end
