(* ===== verification/ProviderSettings.thy ===== *)
theory ProviderSettings
  imports Providers
begin

text \<open>
  Provider settings of the client control host
  (\<^verbatim>\<open>pkg/clientcontrol/provider_settings_validation.go\<close>, \<^verbatim>\<open>provider_settings_schema.go\<close>): the schema a
  provider declares, the validation of the schema, the normalization of settings against it, and
  what an ordinary read shows of them.  A Go map is an association list with distinct keys whose
  order is the order of an iteration.  Regular expressions, and the conversion to \<open>int64\<close> of a float
  that does not fit, which Go leaves to the platform, are arguments.
\<close>

section \<open>Numbers\<close>

definition maxInt64 :: int where "maxInt64 = 2 ^ 63 - 1"

definition minInt64 :: int where "minInt64 = - (2 ^ 63)"

text \<open>The order of floats; a comparison with a NaN is false.\<close>

definition dyLess :: "int \<Rightarrow> int \<Rightarrow> int \<Rightarrow> int \<Rightarrow> bool" where
  "dyLess m e m' e' =
     (let k = min e e' in m * 2 ^ nat (e - k) < m' * 2 ^ nat (e' - k))"

fun flt :: "goFloat \<Rightarrow> goFloat \<Rightarrow> bool" where
  "flt FNaN y = False"
| "flt x FNaN = False"
| "flt (FInf True) y = False"
| "flt (FInf False) y = (y \<noteq> FInf False)"
| "flt (FNum m e) (FInf b) = b"
| "flt (FNum m e) (FNum m' e') = dyLess m e m' e'"

definition feq :: "goFloat \<Rightarrow> goFloat \<Rightarrow> bool" where
  "feq x y = (x \<noteq> FNaN \<and> y \<noteq> FNaN \<and> \<not> flt x y \<and> \<not> flt y x)"

text \<open>\<open>math.Trunc(x) == x\<close> for a finite float, and the integer it then is.\<close>

definition dyIntegral :: "int \<Rightarrow> int \<Rightarrow> bool" where
  "dyIntegral m e = (0 \<le> e \<or> 2 ^ nat (- e) dvd m)"

definition dyInt :: "int \<Rightarrow> int \<Rightarrow> int" where
  "dyInt m e = (if 0 \<le> e then m * 2 ^ nat e else m div 2 ^ nat (- e))"

text \<open>
  \<open>float64(n)\<close>: 53 bits of mantissa, rounded to the nearest, ties to even.  Integers of Go have at
  most 64 bits.
\<close>

definition bitLen :: "int \<Rightarrow> nat" where
  "bitLen a = length (takeWhile (\<lambda>i. 2 ^ i \<le> a) [0..<64])"

definition roundMantissa :: "int \<Rightarrow> nat \<Rightarrow> int" where
  "roundMantissa a k =
     (let q = a div 2 ^ k; r = a mod 2 ^ k
      in if 2 ^ k < 2 * r \<or> (2 ^ k = 2 * r \<and> odd q) then q + 1 else q)"

definition float64OfInt :: "int \<Rightarrow> goFloat" where
  "float64OfInt n =
     (let a = \<bar>n\<bar>; k = bitLen a - 53 in FNum (sgn n * roundMantissa a k) (int k))"

section \<open>utf8.RuneCountInString\<close>

text \<open>The length of the rune at the front of a string; a byte that starts none counts for one.\<close>

definition contByte :: "int \<Rightarrow> bool" where "contByte b = (0x80 \<le> b \<and> b \<le> 0xBF)"

fun runeWidth :: "int list \<Rightarrow> nat" where
  "runeWidth (a # b # c # d # _) =
     (if 0xC2 \<le> a \<and> a \<le> 0xDF \<and> contByte b then 2
      else if 0xE0 \<le> a \<and> a \<le> 0xEF \<and> contByte b \<and> contByte c \<and> (a = 0xE0 \<longrightarrow> 0xA0 \<le> b) \<and> (a = 0xED \<longrightarrow> b \<le> 0x9F)
      then 3
      else if 0xF0 \<le> a \<and> a \<le> 0xF4 \<and> contByte b \<and> contByte c \<and> contByte d \<and>
        (a = 0xF0 \<longrightarrow> 0x90 \<le> b) \<and> (a = 0xF4 \<longrightarrow> b \<le> 0x8F) then 4
      else 1)"
| "runeWidth [a, b, c] =
     (if 0xC2 \<le> a \<and> a \<le> 0xDF \<and> contByte b then 2
      else if 0xE0 \<le> a \<and> a \<le> 0xEF \<and> contByte b \<and> contByte c \<and> (a = 0xE0 \<longrightarrow> 0xA0 \<le> b) \<and> (a = 0xED \<longrightarrow> b \<le> 0x9F)
      then 3
      else 1)"
| "runeWidth [a, b] = (if 0xC2 \<le> a \<and> a \<le> 0xDF \<and> contByte b then 2 else 1)"
| "runeWidth _ = 1"

lemma runeWidth_pos: "0 < runeWidth bs"
  by (cases bs rule: runeWidth.cases) auto

function runeCount :: "int list \<Rightarrow> nat" where
  "runeCount bs = (if bs = [] then 0 else Suc (runeCount (drop (runeWidth bs) bs)))"
  by pat_completeness auto
termination
proof (relation "measure length")
  show "wf (measure (length :: int list \<Rightarrow> nat))" by simp
next
  fix bs :: "int list"
  assume "bs \<noteq> []"
  then show "(drop (runeWidth bs) bs, bs) \<in> measure length" using runeWidth_pos [of bs] by simp
qed

declare runeCount.simps [simp del]

definition RuneCountInString :: "string \<Rightarrow> nat" where
  "RuneCountInString s = runeCount (List.map of_char s)"

section \<open>Schema\<close>

record settingProperty =
  stType :: string
  stControl :: string
  stPersistence :: string
  stWriteOnly :: bool
  stEnum :: "goValue list"
  stDefault :: goValue
  stExamples :: "goValue list"
  stMinLength :: "int option"
  stMaxLength :: "int option"
  stPattern :: string
  stMinimum :: "goFloat option"
  stMaximum :: "goFloat option"

record settingsSchema =
  ssType :: string
  ssProperties :: "(string \<times> settingProperty) list"
  ssRequired :: "string list"
  ssAdditional :: bool
  ssOrder :: "string list"

record providerDescriptor =
  pdID :: string
  pdInputKind :: string
  pdSchema :: "settingsSchema option"
  pdChallengeModes :: "string list"
  pdArtifactFamilies :: "string list"
  pdPotentialActions :: "string list"

type_synonym settings = "(string \<times> goValue) list"

datatype violation =
    VioRequired
  | VioUnknown
  | VioType
  | VioEnum
  | VioPattern
  | VioMinimum
  | VioMaximum
  | VioMinLength
  | VioMaxLength
  | VioPersistence

text \<open>An error names the field and what is violated, or a schema that is not valid itself.\<close>

datatype settingsError =
    SettingsViolation string violation
  | SchemaInvalid string

definition settingsViolation :: "string \<Rightarrow> violation \<Rightarrow> settingsError" where
  "settingsViolation field v = SettingsViolation (TrimSpace field) v"

datatype settingsMode =
    ModeImmediate
  | ModePersistedProfile
  | ModePersistedProviderConfig

text \<open>\<open>regexp.Compile\<close> with \<open>MatchString\<close>, and \<open>int64\<close> of the float \<open>2 ^ 63\<close>.\<close>

record settingsEnv =
  seCompile :: "string \<Rightarrow> (string \<Rightarrow> bool) option"
  seInt64Overflow :: int

section \<open>Values\<close>

function (sequential) normalizeProviderInteger :: "settingsEnv \<Rightarrow> goValue \<Rightarrow> int option" where
  "normalizeProviderInteger env (VInt n) = (if maxInt64 < n then None else Some n)"
| "normalizeProviderInteger env (VFloat (FNum m e)) =
     (if \<not> dyIntegral m e then None
      else if flt (FNum m e) (float64OfInt minInt64) \<or> flt (float64OfInt maxInt64) (FNum m e) then None
      else Some (if maxInt64 < dyInt m e then seInt64Overflow env else dyInt m e))"
| "normalizeProviderInteger env (VFloat32 (FNum m e)) = normalizeProviderInteger env (VFloat (FNum m e))"
| "normalizeProviderInteger env _ = None"
  by pat_completeness auto
termination
  by (relation "measure (\<lambda>(env, v). case v of VFloat32 x \<Rightarrow> 1 | _ \<Rightarrow> 0)") simp_all

text \<open>A \<open>float32\<close> is converted without a check, so a NaN or an infinity of that type is a number.\<close>

fun normalizeProviderNumber :: "goValue \<Rightarrow> goFloat option" where
  "normalizeProviderNumber (VInt n) = Some (float64OfInt n)"
| "normalizeProviderNumber (VFloat32 x) = Some x"
| "normalizeProviderNumber (VFloat (FNum m e)) = Some (FNum m e)"
| "normalizeProviderNumber _ = None"

definition normalizeScalar ::
    "settingsEnv \<Rightarrow> string \<Rightarrow> string \<Rightarrow> goValue \<Rightarrow> settingsError + goValue" where
  "normalizeScalar env field ty v =
     (let bad = Inl (settingsViolation field VioType)
      in if ty = ''string'' then (case v of VString s \<Rightarrow> Inr (VString s) | _ \<Rightarrow> bad)
      else if ty = ''boolean'' then (case v of VBool b \<Rightarrow> Inr (VBool b) | _ \<Rightarrow> bad)
      else if ty = ''integer'' then
        (case normalizeProviderInteger env v of None \<Rightarrow> bad | Some n \<Rightarrow> Inr (VInt n))
      else if ty = ''number'' then
        (case normalizeProviderNumber v of None \<Rightarrow> bad | Some x \<Rightarrow> Inr (VFloat x))
      else Inl (SchemaInvalid field))"

text \<open>\<open>reflect.DeepEqual\<close> on normalized scalars.\<close>

fun scalarEqual :: "goValue \<Rightarrow> goValue \<Rightarrow> bool" where
  "scalarEqual (VFloat x) (VFloat y) = feq x y"
| "scalarEqual v w = (v = w)"

fun matchEnum ::
    "settingsEnv \<Rightarrow> string \<Rightarrow> string \<Rightarrow> goValue list \<Rightarrow> goValue \<Rightarrow> settingsError + bool" where
  "matchEnum env field ty [] v = Inr False"
| "matchEnum env field ty (c # cs) v =
     (case normalizeScalar env field ty c of
        Inl _ \<Rightarrow> Inl (SchemaInvalid field)
      | Inr c' \<Rightarrow> if scalarEqual c' v then Inr True else matchEnum env field ty cs v)"

definition checkRange :: "string \<Rightarrow> settingProperty \<Rightarrow> goFloat \<Rightarrow> settingsError option" where
  "checkRange field p x =
     (if case stMinimum p of None \<Rightarrow> False | Some lo \<Rightarrow> flt x lo then Some (settingsViolation field VioMinimum)
      else if case stMaximum p of None \<Rightarrow> False | Some hi \<Rightarrow> flt hi x then Some (settingsViolation field VioMaximum)
      else None)"

definition checkText :: "settingsEnv \<Rightarrow> string \<Rightarrow> settingProperty \<Rightarrow> string \<Rightarrow> settingsError option" where
  "checkText env field p s =
     (if case stMinLength p of None \<Rightarrow> False | Some lo \<Rightarrow> int (RuneCountInString s) < lo
      then Some (settingsViolation field VioMinLength)
      else if case stMaxLength p of None \<Rightarrow> False | Some hi \<Rightarrow> hi < int (RuneCountInString s)
      then Some (settingsViolation field VioMaxLength)
      else if TrimSpace (stPattern p) \<noteq> [] then
        (case seCompile env (stPattern p) of
           None \<Rightarrow> Some (SchemaInvalid field)
         | Some matches \<Rightarrow> if matches s then None else Some (settingsViolation field VioPattern))
      else None)"

definition checkConstraints ::
    "settingsEnv \<Rightarrow> string \<Rightarrow> settingProperty \<Rightarrow> goValue \<Rightarrow> settingsError option" where
  "checkConstraints env field p v =
     (case v of
        VString s \<Rightarrow> checkText env field p s
      | VInt n \<Rightarrow> checkRange field p (float64OfInt n)
      | VFloat x \<Rightarrow> checkRange field p x
      | _ \<Rightarrow> None)"

definition normalizeProviderSettingValue ::
    "settingsEnv \<Rightarrow> string \<Rightarrow> settingProperty \<Rightarrow> goValue \<Rightarrow> settingsError + goValue" where
  "normalizeProviderSettingValue env field p v =
     (case normalizeScalar env field (stType p) v of
        Inl e \<Rightarrow> Inl e
      | Inr v' \<Rightarrow>
          (case if stEnum p = [] then Inr True else matchEnum env field (stType p) (stEnum p) v' of
             Inl e \<Rightarrow> Inl e
           | Inr False \<Rightarrow> Inl (settingsViolation field VioEnum)
           | Inr True \<Rightarrow>
               (case checkConstraints env field p v' of Some e \<Rightarrow> Inl e | None \<Rightarrow> Inr v')))"

section \<open>Validation of a schema\<close>

definition isScalarType :: "string \<Rightarrow> bool" where
  "isScalarType t \<longleftrightarrow> t \<in> {''string'', ''integer'', ''number'', ''boolean''}"

definition validateProviderSettingPropertySchema ::
    "settingsEnv \<Rightarrow> string \<Rightarrow> settingProperty \<Rightarrow> settingsError option" where
  "validateProviderSettingPropertySchema env key p =
     (let numeric = stType p = ''integer'' \<or> stType p = ''number'';
          scalarOk = (\<lambda>c. is_ok (normalizeScalar env key (stType p) c))
      in if isScalarType (stType p)
         \<and> stControl p \<in> {''text'', ''textarea'', ''select'', ''checkbox'', ''password''}
         \<and> stPersistence p \<in> {''profile'', ''ephemeral''}
         \<and> \<not> (stWriteOnly p \<and> stPersistence p \<noteq> ''ephemeral'')
         \<and> \<not> (stControl p = ''select'' \<and> stEnum p = [])
         \<and> \<not> (stControl p = ''checkbox'' \<and> stType p \<noteq> ''boolean'')
         \<and> \<not> ((stMinLength p \<noteq> None \<or> stMaxLength p \<noteq> None \<or> TrimSpace (stPattern p) \<noteq> []) \<and> stType p \<noteq> ''string'')
         \<and> (case (stMinLength p, stMaxLength p) of (Some lo, Some hi) \<Rightarrow> lo \<le> hi | _ \<Rightarrow> True)
         \<and> \<not> ((stMinimum p \<noteq> None \<or> stMaximum p \<noteq> None) \<and> \<not> numeric)
         \<and> (case (stMinimum p, stMaximum p) of (Some lo, Some hi) \<Rightarrow> \<not> flt hi lo | _ \<Rightarrow> True)
         \<and> (TrimSpace (stPattern p) \<noteq> [] \<longrightarrow> seCompile env (stPattern p) \<noteq> None)
         \<and> (stDefault p \<noteq> VNil \<longrightarrow> scalarOk (stDefault p))
         \<and> (\<forall>c\<in>set (stEnum p). scalarOk c)
         \<and> (\<forall>c\<in>set (stExamples p). scalarOk c)
         then None else Some (SchemaInvalid key))"

definition firstOf :: "('a \<Rightarrow> 'e option) \<Rightarrow> 'a list \<Rightarrow> 'e option" where
  "firstOf f xs = fold (\<lambda>x r. case r of Some e \<Rightarrow> Some e | None \<Rightarrow> f x) xs None"

definition validateProviderSettingsSchema :: "settingsEnv \<Rightarrow> settingsSchema option \<Rightarrow> settingsError option" where
  "validateProviderSettingsSchema env schema =
     (case schema of
        None \<Rightarrow> None
      | Some s \<Rightarrow>
          if TrimSpace (ssType s) \<noteq> ''object'' then Some (SchemaInvalid ''type'')
          else if ssAdditional s then Some (SchemaInvalid ''additionalProperties'')
          else
            (case firstOf (\<lambda>(key, p).
                if TrimSpace key = [] \<or> TrimSpace key \<noteq> key then Some (SchemaInvalid key)
                else validateProviderSettingPropertySchema env key p) (ssProperties s) of
               Some e \<Rightarrow> Some e
             | None \<Rightarrow>
                 firstOf (\<lambda>key.
                   if TrimSpace key = [] \<or> map_of (ssProperties s) (TrimSpace key) = None
                   then Some (SchemaInvalid key) else None) (ssRequired s @ ssOrder s)))"

section \<open>Normalization of settings\<close>

fun normalizeProviderSettingsKeys :: "settings \<Rightarrow> settings \<Rightarrow> settingsError + settings" where
  "normalizeProviderSettingsKeys acc [] = Inr acc"
| "normalizeProviderSettingsKeys acc ((key, v) # rest) =
     (let t = TrimSpace key
      in if t = [] then Inl (settingsViolation [] VioUnknown)
      else if map_of acc t \<noteq> None then Inl (settingsViolation t VioUnknown)
      else normalizeProviderSettingsKeys (acc @ [(t, v)]) rest)"

text \<open>The settings in the order of their keys.\<close>

definition sortedProviderSettings :: "settings \<Rightarrow> settings" where
  "sortedProviderSettings s = sort_key fst s"

definition firstProviderSettingsKey :: "settings \<Rightarrow> string" where
  "firstProviderSettingsKey s =
     (case normalizeProviderSettingsKeys [] s of
        Inl _ \<Rightarrow> []
      | Inr n \<Rightarrow> (case sortedProviderSettings n of [] \<Rightarrow> [] | (k, _) # _ \<Rightarrow> k))"

definition isPersisted :: "settingsMode \<Rightarrow> bool" where
  "isPersisted m \<longleftrightarrow> m = ModePersistedProfile \<or> m = ModePersistedProviderConfig"

definition promptOnly :: "settingProperty \<Rightarrow> bool" where
  "promptOnly p \<longleftrightarrow> stWriteOnly p \<or> stPersistence p \<noteq> ''profile''"

fun normalizeEntries ::
    "settingsEnv \<Rightarrow> settingsSchema \<Rightarrow> settingsMode \<Rightarrow> settings \<Rightarrow> settingsError + settings" where
  "normalizeEntries env schema mode [] = Inr []"
| "normalizeEntries env schema mode ((key, v) # rest) =
     (case map_of (ssProperties schema) key of
        None \<Rightarrow> Inl (settingsViolation key VioUnknown)
      | Some p \<Rightarrow>
          if isPersisted mode \<and> promptOnly p then Inl (settingsViolation key VioPersistence)
          else
            (case normalizeProviderSettingValue env key p v of
               Inl e \<Rightarrow> Inl e
             | Inr v' \<Rightarrow>
                 (case normalizeEntries env schema mode rest of
                    Inl e \<Rightarrow> Inl e
                  | Inr out \<Rightarrow> Inr ((key, v') # out))))"

definition missingRequired :: "settingsSchema \<Rightarrow> settingsMode \<Rightarrow> settings \<Rightarrow> settingsError option" where
  "missingRequired schema mode out =
     firstOf (\<lambda>key.
       case map_of (ssProperties schema) key of
         None \<Rightarrow> None
       | Some p \<Rightarrow>
           if isPersisted mode \<and> promptOnly p then None
           else if map_of out key \<noteq> None then None
           else Some (settingsViolation key VioRequired)) (ssRequired schema)"

definition normalizeProviderSettingsForDescriptor ::
    "settingsEnv \<Rightarrow> providerDescriptor \<Rightarrow> settings \<Rightarrow> settingsMode \<Rightarrow> settingsError + settings" where
  "normalizeProviderSettingsForDescriptor env d settings mode =
     (case normalizeProviderSettingsKeys [] settings of
        Inl e \<Rightarrow> Inl e
      | Inr s \<Rightarrow>
          (case pdSchema d of
             None \<Rightarrow> if s = [] then Inr [] else Inl (settingsViolation (firstProviderSettingsKey s) VioUnknown)
           | Some schema \<Rightarrow>
               if ssProperties schema = [] then
                 (if s = [] then Inr [] else Inl (settingsViolation (firstProviderSettingsKey s) VioUnknown))
               else
                 (case normalizeEntries env schema mode (sortedProviderSettings s) of
                    Inl e \<Rightarrow> Inl e
                  | Inr out \<Rightarrow>
                      (case missingRequired schema mode out of Some e \<Rightarrow> Inl e | None \<Rightarrow> Inr out))))"

definition redactProviderSettingsForOrdinaryRead :: "providerDescriptor \<Rightarrow> settings \<Rightarrow> settings" where
  "redactProviderSettingsForOrdinaryRead d s =
     (case pdSchema d of
        None \<Rightarrow> []
      | Some schema \<Rightarrow>
          filter (\<lambda>(key, _).
            case map_of (ssProperties schema) key of None \<Rightarrow> False | Some p \<Rightarrow> \<not> promptOnly p)
            (sortedProviderSettings s))"

section \<open>What normalization gives\<close>

text \<open>
  A value that conforms to the schema of its property.  Whether a number is finite is a question of
  its own: no comparison with a NaN holds, so a NaN is within every range.
\<close>

fun hasType :: "string \<Rightarrow> goValue \<Rightarrow> bool" where
  "hasType t (VString s) = (t = ''string'')"
| "hasType t (VBool b) = (t = ''boolean'')"
| "hasType t (VInt n) = (t = ''integer'')"
| "hasType t (VFloat x) = (t = ''number'')"
| "hasType t _ = False"

definition inRange :: "settingProperty \<Rightarrow> goFloat \<Rightarrow> bool" where
  "inRange p x \<longleftrightarrow>
     (\<forall>lo. stMinimum p = Some lo \<longrightarrow> \<not> flt x lo) \<and> (\<forall>hi. stMaximum p = Some hi \<longrightarrow> \<not> flt hi x)"

definition textFits :: "settingsEnv \<Rightarrow> settingProperty \<Rightarrow> string \<Rightarrow> bool" where
  "textFits env p s \<longleftrightarrow>
     (\<forall>lo. stMinLength p = Some lo \<longrightarrow> lo \<le> int (RuneCountInString s)) \<and>
     (\<forall>hi. stMaxLength p = Some hi \<longrightarrow> int (RuneCountInString s) \<le> hi) \<and>
     (TrimSpace (stPattern p) \<noteq> [] \<longrightarrow> (\<exists>f. seCompile env (stPattern p) = Some f \<and> f s))"

fun finiteValue :: "goValue \<Rightarrow> bool" where
  "finiteValue (VFloat FNaN) = False"
| "finiteValue (VFloat (FInf b)) = False"
| "finiteValue (VFloat32 FNaN) = False"
| "finiteValue (VFloat32 (FInf b)) = False"
| "finiteValue v = True"

fun valueFits :: "settingsEnv \<Rightarrow> settingProperty \<Rightarrow> goValue \<Rightarrow> bool" where
  "valueFits env p (VString s) = textFits env p s"
| "valueFits env p (VInt n) = inRange p (float64OfInt n)"
| "valueFits env p (VFloat x) = inRange p x"
| "valueFits env p _ = True"

definition conforms :: "settingsEnv \<Rightarrow> string \<Rightarrow> settingProperty \<Rightarrow> goValue \<Rightarrow> bool" where
  "conforms env key p v \<longleftrightarrow>
     hasType (stType p) v \<and> valueFits env p v \<and>
     (stEnum p \<noteq> [] \<longrightarrow>
        (\<exists>c\<in>set (stEnum p). \<exists>c'. normalizeScalar env key (stType p) c = Inr c' \<and> scalarEqual c' v))"

lemma checkConstraints_fits: "checkConstraints env field p v = None \<longleftrightarrow> valueFits env p v"
  by (cases v)
    (auto simp: checkConstraints_def checkText_def checkRange_def textFits_def inRange_def
      split: option.splits if_splits)

lemma matchEnum_witness:
  "matchEnum env field ty cs v = Inr True \<Longrightarrow>
     \<exists>c\<in>set cs. \<exists>c'. normalizeScalar env field ty c = Inr c' \<and> scalarEqual c' v"
  by (induction env field ty cs v rule: matchEnum.induct) (auto split: sum.splits if_splits)

lemma normalizeProviderNumber_finite:
  "normalizeProviderNumber v = Some x \<Longrightarrow> finiteValue (VFloat x) \<longleftrightarrow> finiteValue v"
  "normalizeProviderNumber v = Some x \<Longrightarrow> \<not> finiteValue v \<Longrightarrow> v = VFloat32 x"
  by (cases v rule: normalizeProviderNumber.cases; cases x; auto simp: float64OfInt_def Let_def)+

lemma normalizeProviderNumber_idem: "finiteValue (VFloat x) \<Longrightarrow> normalizeProviderNumber (VFloat x) = Some x"
  by (cases x) auto

lemma normalizeScalar_type: "normalizeScalar env field ty v = Inr v' \<Longrightarrow> hasType ty v'"
  by (auto simp: normalizeScalar_def Let_def split: if_splits goValue.splits option.splits)

lemma normalizeScalar_finite:
  "normalizeScalar env field ty v = Inr v' \<Longrightarrow>
     finiteValue v' \<or> (ty = ''number'' \<and> (\<exists>x. v = VFloat32 x \<and> v' = VFloat x \<and> \<not> finiteValue v))"
proof (cases "ty = ''number''")
  case True
  assume n: "normalizeScalar env field ty v = Inr v'"
  then obtain x where x: "normalizeProviderNumber v = Some x" "v' = VFloat x"
    by (auto simp: normalizeScalar_def True split: option.splits)
  show ?thesis using normalizeProviderNumber_finite [OF x(1)] x(2) True by blast
next
  case False
  assume "normalizeScalar env field ty v = Inr v'"
  then show ?thesis using False
    by (auto simp: normalizeScalar_def Let_def split: if_splits goValue.splits option.splits)
qed

lemma normalizeProviderInteger_max:
  "seInt64Overflow env \<le> maxInt64 \<Longrightarrow> normalizeProviderInteger env v = Some n \<Longrightarrow> n \<le> maxInt64"
  by (induction env v rule: normalizeProviderInteger.induct) (auto split: if_splits)

lemma normalizeScalar_idem:
  assumes "seInt64Overflow env \<le> maxInt64" "normalizeScalar env field ty v = Inr v'" "finiteValue v'"
  shows "normalizeScalar env field' ty v' = Inr v'"
  using assms(2,3)
  by (auto simp: normalizeScalar_def Let_def not_less [symmetric] split: if_splits goValue.splits option.splits
      dest: normalizeProviderNumber_idem normalizeProviderInteger_max [OF assms(1)])

lemma normalizeProviderSettingValue_Inr:
  "normalizeProviderSettingValue env field p v = Inr v' \<longleftrightarrow>
     normalizeScalar env field (stType p) v = Inr v' \<and>
     (stEnum p = [] \<or> matchEnum env field (stType p) (stEnum p) v' = Inr True) \<and> valueFits env p v'"
  using checkConstraints_fits [of env field p v']
  by (auto simp: normalizeProviderSettingValue_def split: sum.splits bool.splits option.splits if_splits)

lemma value_conforms: "normalizeProviderSettingValue env field p v = Inr v' \<Longrightarrow> conforms env field p v'"
  by (auto simp: normalizeProviderSettingValue_Inr conforms_def dest: normalizeScalar_type matchEnum_witness)

lemma value_finite:
  "normalizeProviderSettingValue env field p v = Inr v' \<Longrightarrow>
     finiteValue v' \<or> (stType p = ''number'' \<and> (\<exists>x. v = VFloat32 x \<and> v' = VFloat x \<and> \<not> finiteValue v))"
  by (drule normalizeProviderSettingValue_Inr [THEN iffD1]) (blast dest: normalizeScalar_finite)

lemma value_idem:
  "seInt64Overflow env \<le> maxInt64 \<Longrightarrow> normalizeProviderSettingValue env field p v = Inr v' \<Longrightarrow> finiteValue v' \<Longrightarrow>
     normalizeProviderSettingValue env field p v' = Inr v'"
  by (auto simp: normalizeProviderSettingValue_Inr dest: normalizeScalar_idem)

lemma firstOf_None: "firstOf f xs = None \<longleftrightarrow> (\<forall>x\<in>set xs. f x = None)"
proof -
  have "fold (\<lambda>x r. case r of Some e \<Rightarrow> Some e | None \<Rightarrow> f x) xs r = None
      \<longleftrightarrow> r = None \<and> (\<forall>x\<in>set xs. f x = None)" for r
    by (induction xs arbitrary: r) (auto split: option.splits)
  then show ?thesis by (simp add: firstOf_def)
qed

lemma keys_Inr:
  "normalizeProviderSettingsKeys acc s = Inr n \<Longrightarrow> distinct (List.map fst acc) \<Longrightarrow>
     n = acc @ List.map (map_prod TrimSpace (\<lambda>v. v)) s \<and> distinct (List.map fst n) \<and> [] \<notin> TrimSpace ` fst ` set s"
proof (induction acc s rule: normalizeProviderSettingsKeys.induct)
  case (2 acc key v rest)
  from "2.prems" have t: "TrimSpace key \<noteq> []" "TrimSpace key \<notin> fst ` set acc"
    "normalizeProviderSettingsKeys (acc @ [(TrimSpace key, v)]) rest = Inr n"
    by (auto simp: Let_def map_of_eq_None_iff split: if_splits)
  with "2.prems"(2) have "distinct (List.map fst (acc @ [(TrimSpace key, v)]))" by simp
  from t(2) have m: "\<not> map_of acc (TrimSpace key) \<noteq> None" by (simp add: map_of_eq_None_iff)
  note ih = "2.IH" [OF refl t(1) m t(3) \<open>distinct (List.map fst (acc @ [(TrimSpace key, v)]))\<close>]
  from ih have d: "distinct (List.map fst n)" by blast
  from ih have n: "n = acc @ (TrimSpace key, v) # List.map (map_prod TrimSpace (\<lambda>v. v)) rest" by simp
  from ih have e: "[] \<notin> TrimSpace ` fst ` set rest" by blast
  show ?case
  proof (intro conjI)
    show "n = acc @ List.map (map_prod TrimSpace (\<lambda>v. v)) ((key, v) # rest)" by (simp add: n)
    show "[] \<notin> TrimSpace ` fst ` set ((key, v) # rest)" using e t(1) by auto
  qed (rule d)
qed simp

lemma keys_id:
  assumes "distinct (List.map fst (acc @ s))" "[] \<notin> fst ` set s" "\<forall>k\<in>fst ` set s. TrimSpace k = k"
  shows "normalizeProviderSettingsKeys acc s = Inr (acc @ s)"
  using assms
proof (induction acc s rule: normalizeProviderSettingsKeys.induct)
  case (2 acc key v rest)
  then show ?case by (auto simp: Let_def map_of_eq_None_iff image_iff)
qed simp

lemma sorted_settings:
  "distinct (List.map fst s) \<Longrightarrow> distinct (List.map fst (sortedProviderSettings s))"
  "sorted (List.map fst (sortedProviderSettings s))"
  "set (sortedProviderSettings s) = set s"
  "sorted (List.map fst s) \<Longrightarrow> sortedProviderSettings s = s"
  by (auto simp: sortedProviderSettings_def distinct_map inj_on_def sort_key_id_if_sorted)

lemma entries_Inr:
  "normalizeEntries env schema mode s = Inr out \<Longrightarrow>
     List.map fst out = List.map fst s \<and>
     (\<forall>(k, v)\<in>set out. \<exists>p w. (k, w) \<in> set s \<and> map_of (ssProperties schema) k = Some p \<and>
        \<not> (isPersisted mode \<and> promptOnly p) \<and> normalizeProviderSettingValue env k p w = Inr v)"
proof (induction s arbitrary: out)
  case (Cons e rest)
  obtain key v where e: "e = (key, v)" by fastforce
  with Cons.prems obtain p v' out' where
    "map_of (ssProperties schema) key = Some p" "\<not> (isPersisted mode \<and> promptOnly p)"
    "normalizeProviderSettingValue env key p v = Inr v'"
    "normalizeEntries env schema mode rest = Inr out'" "out = (key, v') # out'"
    by (auto split: option.splits if_splits sum.splits)
  then show ?case using Cons.IH [of out'] e by fastforce
qed simp

lemma entries_id:
  assumes "\<forall>(k, v)\<in>set s. \<exists>p. map_of (ssProperties schema) k = Some p \<and> \<not> (isPersisted mode \<and> promptOnly p) \<and>
        normalizeProviderSettingValue env k p v = Inr v"
  shows "normalizeEntries env schema mode s = Inr s"
  using assms by (induction env schema mode s rule: normalizeEntries.induct) auto

text \<open>What a successful normalization says, in one fact.\<close>

lemma normalize_Inr:
  assumes "normalizeProviderSettingsForDescriptor env d s mode = Inr out"
  shows "sorted (List.map fst out)" "distinct (List.map fst out)" "fst ` set out = TrimSpace ` fst ` set s"
    "[] \<notin> fst ` set out" "\<forall>k\<in>fst ` set out. TrimSpace k = k"
    "out \<noteq> [] \<Longrightarrow> \<exists>schema. pdSchema d = Some schema \<and> ssProperties schema \<noteq> []"
    "pdSchema d = Some schema \<Longrightarrow> (k, v) \<in> set out \<Longrightarrow>
       \<exists>p k' w. (k', w) \<in> set s \<and> TrimSpace k' = k \<and> map_of (ssProperties schema) k = Some p \<and>
         \<not> (isPersisted mode \<and> promptOnly p) \<and> normalizeProviderSettingValue env k p w = Inr v"
    "pdSchema d = Some schema \<Longrightarrow> missingRequired schema mode out = None"
proof -
  obtain n where n: "normalizeProviderSettingsKeys [] s = Inr n"
    using assms by (auto simp: normalizeProviderSettingsForDescriptor_def split: sum.splits)
  have n': "n = List.map (map_prod TrimSpace (\<lambda>v. v)) s" "distinct (List.map fst n)" "[] \<notin> TrimSpace ` fst ` set s"
    using keys_Inr [OF n] by auto
  have ks: "fst ` set n = TrimSpace ` fst ` set s" by (force simp: n'(1))
  have out: "out = [] \<and> n = [] \<or> (\<exists>schema. pdSchema d = Some schema \<and> ssProperties schema \<noteq> [] \<and>
      normalizeEntries env schema mode (sortedProviderSettings n) = Inr out \<and> missingRequired schema mode out = None)"
    using assms n by (auto simp: normalizeProviderSettingsForDescriptor_def split: option.splits if_splits sum.splits)
  have fst: "List.map fst out = List.map fst (sortedProviderSettings n)"
    using out entries_Inr by (fastforce simp: sortedProviderSettings_def)
  show 1: "sorted (List.map fst out)" "distinct (List.map fst out)"
    using sorted_settings(1) [OF n'(2)] sorted_settings(2) by (simp_all add: fst)
  have "fst ` set out = fst ` set (sortedProviderSettings n)" using fst by (metis set_map)
  then show 2: "fst ` set out = TrimSpace ` fst ` set s" by (simp add: sorted_settings(3) ks)
  show "[] \<notin> fst ` set out" "\<forall>k\<in>fst ` set out. TrimSpace k = k" using 2 n'(3) by auto
  show "out \<noteq> [] \<Longrightarrow> \<exists>schema. pdSchema d = Some schema \<and> ssProperties schema \<noteq> []" using out by auto
  show "pdSchema d = Some schema \<Longrightarrow> (k, v) \<in> set out \<Longrightarrow>
       \<exists>p k' w. (k', w) \<in> set s \<and> TrimSpace k' = k \<and> map_of (ssProperties schema) k = Some p \<and>
         \<not> (isPersisted mode \<and> promptOnly p) \<and> normalizeProviderSettingValue env k p w = Inr v"
  proof -
    assume a: "pdSchema d = Some schema" "(k, v) \<in> set out"
    then obtain p w where w: "(k, w) \<in> set n" "map_of (ssProperties schema) k = Some p" "\<not> (isPersisted mode \<and> promptOnly p)"
      "normalizeProviderSettingValue env k p w = Inr v"
      using out entries_Inr [of env schema mode "sortedProviderSettings n" out] by (fastforce simp: sorted_settings(3))
    then obtain k' where "(k', w) \<in> set s" "TrimSpace k' = k" by (auto simp: n'(1))
    with w show ?thesis by blast
  qed
  show "missingRequired schema mode out = None" if s: "pdSchema d = Some schema"
    using out
  proof
    assume e: "out = [] \<and> n = []"
    show ?thesis
    proof (cases "ssProperties schema = []")
      case True
      then show ?thesis by (simp add: missingRequired_def firstOf_None)
    next
      case False
      then show ?thesis using assms n e s
        by (auto simp: normalizeProviderSettingsForDescriptor_def sortedProviderSettings_def split: option.splits)
    qed
  qed (use s in auto)
qed

lemma missingRequired_None:
  "missingRequired schema mode out = None \<longleftrightarrow>
     (\<forall>k\<in>set (ssRequired schema). \<forall>p. map_of (ssProperties schema) k = Some p \<longrightarrow>
        (isPersisted mode \<and> promptOnly p) \<or> k \<in> fst ` set out)"
  by (auto simp: missingRequired_def firstOf_None map_of_eq_None_iff split: option.splits)

text \<open>Settings that are a fixed point of normalization.\<close>

lemma normalize_fixed:
  assumes "sorted (List.map fst out)" "distinct (List.map fst out)" "[] \<notin> fst ` set out"
    "\<forall>k\<in>fst ` set out. TrimSpace k = k"
    "out \<noteq> [] \<Longrightarrow> \<exists>schema. pdSchema d = Some schema \<and> ssProperties schema \<noteq> []"
    "\<And>schema k v. pdSchema d = Some schema \<Longrightarrow> (k, v) \<in> set out \<Longrightarrow>
       \<exists>p. map_of (ssProperties schema) k = Some p \<and> \<not> (isPersisted mode \<and> promptOnly p) \<and>
         normalizeProviderSettingValue env k p v = Inr v"
    "\<And>schema. pdSchema d = Some schema \<Longrightarrow> missingRequired schema mode out = None"
  shows "normalizeProviderSettingsForDescriptor env d out mode = Inr out"
proof -
  have keys: "normalizeProviderSettingsKeys [] out = Inr out" using keys_id [of "[]" out] assms(2-4) by simp
  have sorted: "sortedProviderSettings out = out" using assms(1) by (rule sorted_settings(4))
  have "normalizeEntries env schema mode out = Inr out" if "pdSchema d = Some schema" for schema
    using assms(6) [OF that] by (intro entries_id) auto
  with assms(5,7) keys sorted show ?thesis
    by (cases "out = []") (auto simp: normalizeProviderSettingsForDescriptor_def split: option.splits)
qed

lemma bitLen_bound: "i < 64 \<Longrightarrow> a < 2 ^ i \<Longrightarrow> bitLen a \<le> i"
proof (rule ccontr)
  assume i: "i < 64" "a < 2 ^ i" "\<not> bitLen a \<le> i"
  let ?t = "takeWhile (\<lambda>i. 2 ^ i \<le> a) [0..<64]"
  have l: "i < length ?t" using i(3) by (simp add: bitLen_def)
  then have "?t ! i = [0..<64] ! i" by (rule takeWhile_nth)
  then have "i \<in> set ?t" using l i(1) nth_mem [OF l] by simp
  then show False using set_takeWhileD [of i] i(2) by fastforce
qed

lemma float64_exact:
  assumes "\<bar>n\<bar> \<le> 2 ^ 53"
  shows "\<exists>m k. float64OfInt n = FNum m (int k) \<and> m * 2 ^ k = n"
proof (cases "\<bar>n\<bar> = 2 ^ 53")
  case True
  have "bitLen (2 ^ 53) = 54" "roundMantissa (2 ^ 53) 1 = 2 ^ 52" by code_simp+
  then have "float64OfInt n = FNum (sgn n * 2 ^ 52) (int 1)" using True by (simp add: float64OfInt_def)
  moreover have "sgn n * 2 ^ 52 * 2 ^ 1 = n" using True by (auto simp: abs_if split: if_splits)
  ultimately show ?thesis by blast
next
  case False
  then have "bitLen \<bar>n\<bar> \<le> 53" using assms by (intro bitLen_bound) auto
  then have "float64OfInt n = FNum (sgn n * \<bar>n\<bar>) (int 0)" by (simp add: float64OfInt_def roundMantissa_def)
  then show ?thesis by (intro exI [of _ "sgn n * \<bar>n\<bar>"] exI [of _ 0]) (simp add: sgn_mult_abs)
qed

definition sampleProperty :: settingProperty where
  "sampleProperty =
     \<lparr>stType = ''integer'', stControl = ''text'', stPersistence = ''profile'', stWriteOnly = False,
      stEnum = [], stDefault = VNil, stExamples = [], stMinLength = None, stMaxLength = None,
      stPattern = [], stMinimum = Some (FNum 1 0), stMaximum = Some (FNum 9007199254740992 0)\<rparr>"

definition sampleDescriptor :: providerDescriptor where
  "sampleDescriptor =
     \<lparr>pdID = ''p'', pdInputKind = ''link'',
      pdSchema = Some \<lparr>ssType = ''object'',
        ssProperties = [(''token'', sampleProperty\<lparr>stPersistence := ''ephemeral''\<rparr>), (''port'', sampleProperty)],
        ssRequired = [''port''], ssAdditional = False, ssOrder = []\<rparr>,
      pdChallengeModes = [], pdArtifactFamilies = [], pdPotentialActions = []\<rparr>"

definition settingsSampleEnv :: settingsEnv where
  "settingsSampleEnv = \<lparr>seCompile = (\<lambda>_. None), seInt64Overflow = minInt64\<rparr>"

section \<open>Properties\<close>

text \<open>
  C40: Settings that the host accepts conform to the schema of the provider: keys are trimmed, sorted
  and distinct, every key is declared, every value has the declared type and satisfies the declared
  enumeration, lengths, pattern and range, and every required property is there.  What is accepted
  for a saved profile or a reusable configuration has no value that must not be stored.  Numbers are
  finite, unless they were given as a \<open>float32\<close> that is not: such a NaN is accepted, and it is
  within every range.
\<close>

theorem settings_conform:
  assumes "normalizeProviderSettingsForDescriptor env d s mode = Inr out"
  shows "sorted (List.map fst out) \<and> distinct (List.map fst out) \<and> fst ` set out = TrimSpace ` fst ` set s \<and>
    (\<forall>k v. (k, v) \<in> set out \<longrightarrow>
       (\<exists>schema p. pdSchema d = Some schema \<and> map_of (ssProperties schema) k = Some p \<and>
          conforms env k p v \<and> \<not> (isPersisted mode \<and> promptOnly p)) \<and>
       (finiteValue v \<or> (\<exists>k' x. (k', VFloat32 x) \<in> set s \<and> TrimSpace k' = k \<and> v = VFloat x))) \<and>
    (\<forall>schema k p. pdSchema d = Some schema \<and> k \<in> set (ssRequired schema) \<and>
       map_of (ssProperties schema) k = Some p \<and> \<not> (isPersisted mode \<and> promptOnly p) \<longrightarrow> k \<in> fst ` set out)"
proof (intro conjI allI impI)
  note n = normalize_Inr [OF assms]
  show "sorted (List.map fst out)" "distinct (List.map fst out)" "fst ` set out = TrimSpace ` fst ` set s"
    by (fact n(1) n(2) n(3))+
  fix k v assume kv: "(k, v) \<in> set out"
  then have "out \<noteq> []" by auto
  then obtain schema where s: "pdSchema d = Some schema" using n(6) by blast
  from n(7) [OF s kv] obtain p k' w where w: "(k', w) \<in> set s" "TrimSpace k' = k" "map_of (ssProperties schema) k = Some p"
    "\<not> (isPersisted mode \<and> promptOnly p)" "normalizeProviderSettingValue env k p w = Inr v" by blast
  show "\<exists>schema p. pdSchema d = Some schema \<and> map_of (ssProperties schema) k = Some p \<and>
      conforms env k p v \<and> \<not> (isPersisted mode \<and> promptOnly p)"
    using s w(3-5) value_conforms by blast
  show "finiteValue v \<or> (\<exists>k' x. (k', VFloat32 x) \<in> set s \<and> TrimSpace k' = k \<and> v = VFloat x)"
    using value_finite [OF w(5)] w(1,2) by blast
next
  fix schema k p
  assume "pdSchema d = Some schema \<and> k \<in> set (ssRequired schema) \<and>
       map_of (ssProperties schema) k = Some p \<and> \<not> (isPersisted mode \<and> promptOnly p)"
  then show "k \<in> fst ` set out"
    using normalize_Inr(8) [OF assms] by (auto simp: missingRequired_None)
qed

theorem settings_conform_witness:
  "\<exists>out. normalizeProviderSettingsForDescriptor settingsSampleEnv sampleDescriptor
       [('' port '', VFloat (FNum 1739 1))] ModePersistedProfile = Inr out \<and> fst ` set out = {''port''}"
proof -
  have run: "normalizeProviderSettingsForDescriptor settingsSampleEnv sampleDescriptor
       [('' port '', VFloat (FNum 1739 1))] ModePersistedProfile = Inr [(''port'', VInt 3478)]" by code_simp
  have "fst ` set [(''port'', VInt 3478)] = TrimSpace ` fst ` set [('' port '', VFloat (FNum 1739 1))]"
    using settings_conform [OF run] by blast
  with run show ?thesis by auto
qed

text \<open>
  A NaN that is given as a \<open>float32\<close> passes every minimum and maximum, and the \<open>float64\<close> it
  becomes is refused when the settings are normalized again.
\<close>

theorem float32_nan_accepted:
  assumes "stType p = ''number''" "stEnum p = []"
  shows "normalizeProviderSettingValue env field p (VFloat32 FNaN) = Inr (VFloat FNaN) \<and>
    normalizeProviderSettingValue env field p (VFloat FNaN) = Inl (settingsViolation field VioType)"
proof -
  have "\<not> flt x FNaN" for x by (cases x) simp_all
  then show ?thesis using assms
    by (simp add: normalizeProviderSettingValue_def normalizeScalar_def checkConstraints_def checkRange_def Let_def split: option.split)
qed

text \<open>
  Normalizing is stable and agrees with what an ordinary read shows: normalizing accepted
  settings whose numbers are finite again changes nothing, and what the redaction leaves of them can be
  saved as a profile, unchanged.  On a platform the conversion to \<open>int64\<close> gives some \<open>int64\<close>.
\<close>

theorem settings_redaction_stable:
  assumes "seInt64Overflow env \<le> maxInt64"
    and "normalizeProviderSettingsForDescriptor env d s mode = Inr out" "\<forall>v\<in>snd ` set out. finiteValue v"
  shows "normalizeProviderSettingsForDescriptor env d out mode = Inr out \<and>
    normalizeProviderSettingsForDescriptor env d (redactProviderSettingsForOrdinaryRead d out) ModePersistedProfile =
      Inr (redactProviderSettingsForOrdinaryRead d out)"
proof
  note n = normalize_Inr [OF assms(2)]
  have val: "\<exists>p. map_of (ssProperties schema) k = Some p \<and> \<not> (isPersisted mode \<and> promptOnly p) \<and>
         normalizeProviderSettingValue env k p v = Inr v"
    if "pdSchema d = Some schema" "(k, v) \<in> set out" for schema k v
    using n(7) [OF that] value_idem [OF assms(1)] assms(3) that(2) by force
  show "normalizeProviderSettingsForDescriptor env d out mode = Inr out"
  proof (rule normalize_fixed)
    show "\<exists>p. map_of (ssProperties schema) k = Some p \<and> \<not> (isPersisted mode \<and> promptOnly p) \<and>
         normalizeProviderSettingValue env k p v = Inr v"
      if "pdSchema d = Some schema" "(k, v) \<in> set out" for schema k v
      using that by (rule val)
    show "missingRequired schema mode out = None" if "pdSchema d = Some schema" for schema
      using that by (rule n(8))
  qed (fact n)+
  let ?r = "redactProviderSettingsForOrdinaryRead d out"
  have r: "?r = (case pdSchema d of None \<Rightarrow> [] | Some schema \<Rightarrow>
      filter (\<lambda>(key, _). case map_of (ssProperties schema) key of None \<Rightarrow> False | Some p \<Rightarrow> \<not> promptOnly p) out)"
    by (simp add: redactProviderSettingsForOrdinaryRead_def sorted_settings(4) [OF n(1)] cong: option.case_cong)
  have sub: "set ?r \<subseteq> set out" by (auto simp: r split: option.splits)
  show "normalizeProviderSettingsForDescriptor env d ?r ModePersistedProfile = Inr ?r"
  proof (rule normalize_fixed)
    show "sorted (List.map fst ?r)" "distinct (List.map fst ?r)"
      using n(1,2) by (auto simp: r sorted_filter distinct_map_filter split: option.splits)
    show "[] \<notin> fst ` set ?r" "\<forall>k\<in>fst ` set ?r. TrimSpace k = k" using n(4,5) sub by auto
    show "\<exists>schema. pdSchema d = Some schema \<and> ssProperties schema \<noteq> []" if "?r \<noteq> []"
      using that n(6) by (auto simp: r split: option.splits)
    show "\<exists>p. map_of (ssProperties schema) k = Some p \<and> \<not> (isPersisted ModePersistedProfile \<and> promptOnly p) \<and>
         normalizeProviderSettingValue env k p v = Inr v"
      if "pdSchema d = Some schema" "(k, v) \<in> set ?r" for schema k v
      using val [OF that(1)] that sub by (fastforce simp: r)
    show "missingRequired schema ModePersistedProfile ?r = None" if s: "pdSchema d = Some schema" for schema
    proof -
      have "k \<in> fst ` set ?r" if k: "k \<in> set (ssRequired schema)" "map_of (ssProperties schema) k = Some p"
        "\<not> promptOnly p" for k p
      proof -
        have "k \<in> fst ` set out" using n(8) [OF s] k by (auto simp: missingRequired_None)
        then obtain v where "(k, v) \<in> set out" by auto
        then have "(k, v) \<in> set ?r" using k s by (simp add: r)
        then show ?thesis by force
      qed
      then show ?thesis by (auto simp: missingRequired_None isPersisted_def)
    qed
  qed
qed

theorem settings_redaction_stable_witness:
  "redactProviderSettingsForOrdinaryRead sampleDescriptor [(''port'', VInt 7), (''token'', VInt 9)] = [(''port'', VInt 7)] \<and>
   normalizeProviderSettingsForDescriptor settingsSampleEnv sampleDescriptor [(''port'', VInt 7)] ModePersistedProfile =
     Inr [(''port'', VInt 7)]"
proof -
  have red: "redactProviderSettingsForOrdinaryRead sampleDescriptor [(''port'', VInt 7), (''token'', VInt 9)]
      = [(''port'', VInt 7)]" by code_simp
  have env: "seInt64Overflow settingsSampleEnv \<le> maxInt64" by code_simp
  have run: "normalizeProviderSettingsForDescriptor settingsSampleEnv sampleDescriptor
      [(''token'', VInt 9), (''port'', VInt 7)] ModeImmediate = Inr [(''port'', VInt 7), (''token'', VInt 9)]"
    by code_simp
  show ?thesis using settings_redaction_stable [OF env run] red by simp
qed

text \<open>
  The range of an integer setting is exact up to 2 to the 53: an accepted integer of that size
  is within an integral maximum and minimum.  Beyond it the comparison is made on the rounded
  value: 2 to the 53 plus one passes a maximum of 2 to the 53.  A float of 2 to the 63 is accepted as an
  integer and becomes whatever the platform's conversion gives.
\<close>

theorem integer_range_exact:
  "(stType p = ''integer'' \<and> normalizeProviderSettingValue env field p v = Inr (VInt n) \<and> \<bar>n\<bar> \<le> 2 ^ 53 \<longrightarrow>
      (\<forall>hi. stMaximum p = Some (FNum hi 0) \<longrightarrow> n \<le> hi) \<and> (\<forall>lo. stMinimum p = Some (FNum lo 0) \<longrightarrow> lo \<le> n)) \<and>
   normalizeProviderSettingValue settingsSampleEnv ''port'' sampleProperty (VInt (2 ^ 53 + 1)) = Inr (VInt (2 ^ 53 + 1)) \<and>
   stMaximum sampleProperty = Some (FNum (2 ^ 53) 0) \<and>
   normalizeProviderInteger env (VFloat (FNum 1 63)) = Some (seInt64Overflow env)"
proof (intro conjI impI)
  assume a: "stType p = ''integer'' \<and> normalizeProviderSettingValue env field p v = Inr (VInt n) \<and> \<bar>n\<bar> \<le> 2 ^ 53"
  then have "inRange p (float64OfInt n)" by (auto simp: normalizeProviderSettingValue_Inr)
  moreover obtain m k where "float64OfInt n = FNum m (int k)" "m * 2 ^ k = n"
    using float64_exact a by blast
  ultimately show "\<forall>hi. stMaximum p = Some (FNum hi 0) \<longrightarrow> n \<le> hi" "\<forall>lo. stMinimum p = Some (FNum lo 0) \<longrightarrow> lo \<le> n"
    by (auto simp: inRange_def dyLess_def Let_def)
next
  show "normalizeProviderSettingValue settingsSampleEnv ''port'' sampleProperty (VInt (2 ^ 53 + 1)) = Inr (VInt (2 ^ 53 + 1))"
    by code_simp
  show "stMaximum sampleProperty = Some (FNum (2 ^ 53) 0)" by (simp add: sampleProperty_def)
  have "dyIntegral 1 63" "dyInt 1 63 = 2 ^ 63" "\<not> flt (FNum 1 63) (float64OfInt minInt64)"
    "\<not> flt (float64OfInt maxInt64) (FNum 1 63)" "maxInt64 < 2 ^ 63" by code_simp+
  then show "normalizeProviderInteger env (VFloat (FNum 1 63)) = Some (seInt64Overflow env)" by simp
qed

theorem integer_range_exact_witness:
  "normalizeProviderSettingValue settingsSampleEnv ''port'' sampleProperty (VInt 3478) = Inr (VInt 3478) \<and>
   (1 :: int) \<le> 3478"
proof -
  have run: "stType sampleProperty = ''integer'' \<and> stMinimum sampleProperty = Some (FNum 1 0) \<and>
    normalizeProviderSettingValue settingsSampleEnv ''port'' sampleProperty (VInt 3478) = Inr (VInt 3478)" by code_simp
  moreover have "\<bar>3478 :: int\<bar> \<le> 2 ^ 53" by simp
  ultimately show ?thesis
    using integer_range_exact [where env = settingsSampleEnv and field = "''port''" and p = sampleProperty
        and v = "VInt 3478" and n = 3478] by blast
qed

end
