(* ===== verification/ExecutionPlans.thy ===== *)
theory ExecutionPlans
  imports GoPrelude
begin

text \<open>
  Runtime execution plans of the client control host
  (\<^verbatim>\<open>pkg/clientcontrol/runtime_execution_planning.go\<close>, \<^verbatim>\<open>runtime_execution_matrix.go\<close>): which combinations of
  access method, carrier, engine and host adapter exist, which of them a descriptor may declare,
  and how a plan is selected.  The string types of Go are strings; texts for humans are left out.
\<close>

record executionPlan =
  xpAccessMethod :: string
  xpCarrierFamily :: string
  xpEngineFamily :: string
  xpHostAdapter :: string

record profileReference =
  rfProfileID :: string
  rfKind :: string
  rfUseDefault :: bool
  rfDefaultScopeID :: string

record profilePrerequisite =
  xqRequiredKinds :: "string list"
  xqState :: string
  xqSelectedProfile :: "profileReference option"
  xqDefaultProfile :: "profileReference option"
  xqMissingKind :: string
  xqImportAdapters :: "string list"

record planDescriptor =
  xdPlan :: executionPlan
  xdSupportState :: string
  xdEndpointFamily :: string
  xdEndpointRole :: string
  xdDefault :: bool
  xdRequiresCapability :: string
  xdRequiredKinds :: "string list"
  xdTransportProfile :: "profilePrerequisite option"
  xdMessage :: string

record remoteIngress =
  riEndpointFamily :: string
  riEndpointRole :: string
  riProtocol :: string
  riAddress :: string
  riIsolation :: string

datatype planError =
    PlanSelectionRequired
  | PlanUnsupported
  | PlanUnavailable
  | PlanInvalid string

section \<open>Known values\<close>

definition isKnownRuntimeAccessMethod :: "string \<Rightarrow> bool" where
  "isKnownRuntimeAccessMethod m \<longleftrightarrow> m \<in> {''turn_credentials'', ''webrtc_call_attach''}"

definition isKnownRuntimeCarrierFamily :: "string \<Rightarrow> bool" where
  "isKnownRuntimeCarrierFamily f \<longleftrightarrow> f \<in> {''turn_datagram'', ''turn_dtls_overlay'', ''webrtc_datachannel''}"

definition isKnownRuntimeEngineFamily :: "string \<Rightarrow> bool" where
  "isKnownRuntimeEngineFamily f \<longleftrightarrow>
     f \<in> {''wireguard_native'', ''custom_packet_overlay'', ''proxy_core_adapter'', ''trusttunnel_native''}"

definition isKnownRuntimeHostAdapter :: "string \<Rightarrow> bool" where
  "isKnownRuntimeHostAdapter a \<longleftrightarrow>
     a \<in> {''android_vpn_service'', ''apple_network_extension'', ''windows_wintun'', ''linux_tun''}"

definition isKnownSupportState :: "string \<Rightarrow> bool" where
  "isKnownSupportState s \<longleftrightarrow> s \<in> {''supported'', ''unavailable'', ''experimental''}"

definition isKnownEndpointFamily :: "string \<Rightarrow> bool" where
  "isKnownEndpointFamily f \<longleftrightarrow> f \<in> {''turn_server'', ''webrtc_call_endpoint'', ''https_tunnel_server''}"

definition isKnownEndpointRole :: "string \<Rightarrow> bool" where
  "isKnownEndpointRole r \<longleftrightarrow>
     r \<in> {''turn_dtls_custom_overlay'', ''wireguard_raw_datagram'', ''udp_protocol_multiplexer''}"

definition isKnownIngressProtocol :: "string \<Rightarrow> bool" where
  "isKnownIngressProtocol p \<longleftrightarrow>
     p \<in> {''dtls_custom_overlay'', ''raw_wireguard_datagram'', ''udp_protocol_multiplexer''}"

definition isKnownIngressIsolation :: "string \<Rightarrow> bool" where
  "isKnownIngressIsolation i \<longleftrightarrow> i \<in> {''dedicated'', ''mux_backed''}"

definition isKnownTransportProfileKind :: "string \<Rightarrow> bool" where
  "isKnownTransportProfileKind k \<longleftrightarrow> k = ''wireguard_native_v1''"

section \<open>Validation\<close>

definition validateRuntimeExecutionPlan :: "executionPlan \<Rightarrow> planError option" where
  "validateRuntimeExecutionPlan p =
     (if \<not> isKnownRuntimeAccessMethod (xpAccessMethod p) then Some (PlanInvalid ''access_method'')
      else if \<not> isKnownRuntimeCarrierFamily (xpCarrierFamily p) then Some (PlanInvalid ''carrier_family'')
      else if \<not> isKnownRuntimeEngineFamily (xpEngineFamily p) then Some (PlanInvalid ''engine_family'')
      else if TrimSpace (xpHostAdapter p) \<noteq> [] \<and> \<not> isKnownRuntimeHostAdapter (xpHostAdapter p)
      then Some (PlanInvalid ''host_adapter'')
      else None)"

text \<open>The documented combinations, each with what its descriptor must say.\<close>

definition validateMatrix :: "planDescriptor \<Rightarrow> planError option" where
  "validateMatrix d =
     (let p = xdPlan d in
      if xpAccessMethod p = ''turn_credentials'' \<and> xpCarrierFamily p = ''turn_dtls_overlay'' \<and>
         xpEngineFamily p = ''custom_packet_overlay''
      then
        (if TrimSpace (xpHostAdapter p) \<noteq> [] then Some (PlanInvalid ''host_adapter'')
         else if xdEndpointFamily d \<noteq> ''turn_server'' then Some (PlanInvalid ''remote_endpoint_family'')
         else if xdEndpointRole d \<noteq> ''turn_dtls_custom_overlay'' then Some (PlanInvalid ''remote_endpoint_role'')
         else if xdSupportState d \<noteq> ''supported'' then Some (PlanInvalid ''support_state'')
         else None)
      else if xpAccessMethod p = ''turn_credentials'' \<and> xpCarrierFamily p = ''turn_datagram'' \<and>
         xpEngineFamily p = ''wireguard_native''
      then
        (if \<not> isKnownRuntimeHostAdapter (xpHostAdapter p) then Some (PlanInvalid ''host_adapter'')
         else if xdEndpointFamily d \<noteq> ''turn_server'' then Some (PlanInvalid ''remote_endpoint_family'')
         else if xdEndpointRole d \<notin> {''wireguard_raw_datagram'', ''udp_protocol_multiplexer''}
         then Some (PlanInvalid ''remote_endpoint_role'')
         else if xdSupportState d \<notin> {''supported'', ''unavailable''} then Some (PlanInvalid ''support_state'')
         else None)
      else if xpAccessMethod p = ''webrtc_call_attach'' \<and> xpCarrierFamily p = ''webrtc_datachannel''
      then
        (if xdRequiresCapability d \<noteq> ''runtime_execution_experimental_webrtc_datachannel''
         then Some (PlanInvalid ''requires_capability'')
         else if xdSupportState d \<noteq> ''experimental'' then Some (PlanInvalid ''support_state'')
         else if xdEndpointFamily d = ''turn_server'' then Some (PlanInvalid ''remote_endpoint_family'')
         else None)
      else if xpEngineFamily p \<in> {''proxy_core_adapter'', ''trusttunnel_native''}
      then
        (if xdRequiresCapability d \<noteq> ''runtime_execution_foreign_core'' then Some (PlanInvalid ''requires_capability'')
         else if xdSupportState d = ''supported'' then Some (PlanInvalid ''support_state'')
         else None)
      else Some (PlanInvalid ''matrix''))"

definition validateRuntimeExecutionPlanDescriptor :: "planDescriptor \<Rightarrow> planError option" where
  "validateRuntimeExecutionPlanDescriptor d =
     (case validateRuntimeExecutionPlan (xdPlan d) of
        Some e \<Rightarrow> Some e
      | None \<Rightarrow>
          if \<not> isKnownSupportState (xdSupportState d) then Some (PlanInvalid ''support_state'')
          else if \<not> isKnownEndpointFamily (xdEndpointFamily d) then Some (PlanInvalid ''remote_endpoint_family'')
          else if (xpAccessMethod (xdPlan d) = ''turn_credentials'' \<or> TrimSpace (xdEndpointRole d) \<noteq> []) \<and>
            \<not> isKnownEndpointRole (xdEndpointRole d)
          then Some (PlanInvalid ''remote_endpoint_role'')
          else if \<not> list_all isKnownTransportProfileKind (xdRequiredKinds d)
          then Some (PlanInvalid ''required_transport_profile_kinds'')
          else validateMatrix d)"

definition ingressProtocolForEndpointRole :: "string \<Rightarrow> string" where
  "ingressProtocolForEndpointRole role =
     (if role = ''turn_dtls_custom_overlay'' then ''dtls_custom_overlay''
      else if role = ''wireguard_raw_datagram'' then ''raw_wireguard_datagram''
      else if role = ''udp_protocol_multiplexer'' then ''udp_protocol_multiplexer''
      else [])"

definition validateRemoteIngress :: "remoteIngress \<Rightarrow> planError option" where
  "validateRemoteIngress r =
     (if \<not> isKnownEndpointFamily (riEndpointFamily r) then Some (PlanInvalid ''endpoint_family'')
      else if \<not> isKnownEndpointRole (riEndpointRole r) then Some (PlanInvalid ''endpoint_role'')
      else if \<not> isKnownIngressProtocol (riProtocol r) then Some (PlanInvalid ''protocol'')
      else if \<not> isKnownIngressIsolation (riIsolation r) then Some (PlanInvalid ''isolation'')
      else if TrimSpace (riAddress r) = [] then Some (PlanInvalid ''address'')
      else if riEndpointRole r = ''turn_dtls_custom_overlay'' then
        (if riProtocol r \<noteq> ''dtls_custom_overlay'' then Some (PlanInvalid ''protocol'')
         else if riIsolation r \<noteq> ''dedicated'' then Some (PlanInvalid ''isolation'') else None)
      else if riEndpointRole r = ''wireguard_raw_datagram'' then
        (if riProtocol r \<noteq> ''raw_wireguard_datagram'' then Some (PlanInvalid ''protocol'')
         else if riIsolation r \<noteq> ''dedicated'' then Some (PlanInvalid ''isolation'') else None)
      else
        (if riProtocol r \<noteq> ''udp_protocol_multiplexer'' then Some (PlanInvalid ''protocol'')
         else if riIsolation r \<noteq> ''mux_backed'' then Some (PlanInvalid ''isolation'') else None))"

section \<open>Selection\<close>

text \<open>\<open>runtimeExecutionPlanEquals\<close> compares all four fields, which is equality of plans.\<close>

definition runtimeExecutionPlanEquals :: "executionPlan \<Rightarrow> executionPlan \<Rightarrow> bool" where
  "runtimeExecutionPlanEquals p q \<longleftrightarrow>
     xpAccessMethod p = xpAccessMethod q \<and> xpCarrierFamily p = xpCarrierFamily q \<and>
     xpEngineFamily p = xpEngineFamily q \<and> xpHostAdapter p = xpHostAdapter q"

definition isSupported :: "planDescriptor \<Rightarrow> bool" where
  "isSupported d \<longleftrightarrow> xdSupportState d = ''supported''"

definition selectRuntimeExecutionPlanDescriptor ::
    "planDescriptor list \<Rightarrow> executionPlan option \<Rightarrow> planError + planDescriptor" where
  "selectRuntimeExecutionPlanDescriptor ds requested =
     (case requested of
        Some r \<Rightarrow>
          (case find (\<lambda>d. runtimeExecutionPlanEquals (xdPlan d) r) ds of
             None \<Rightarrow> Inl PlanUnsupported
           | Some d \<Rightarrow> if isSupported d then Inr d else Inl PlanUnavailable)
      | None \<Rightarrow>
          (let supported = filter isSupported ds; defaults = filter xdDefault supported
           in case defaults of
             [d] \<Rightarrow> Inr d
           | _ # _ # _ \<Rightarrow> Inl PlanSelectionRequired
           | [] \<Rightarrow>
               (case supported of
                  [d] \<Rightarrow> Inr d
                | [] \<Rightarrow> Inl PlanUnavailable
                | _ \<Rightarrow> Inl PlanSelectionRequired)))"

definition selectPlatformTunnelExecutionPlanDescriptor ::
    "planDescriptor list \<Rightarrow> executionPlan option \<Rightarrow> planError + planDescriptor" where
  "selectPlatformTunnelExecutionPlanDescriptor ds requested =
     (if ds = [] then Inl (if requested = None then PlanUnavailable else PlanUnsupported)
      else
        (case requested of
           Some r \<Rightarrow>
             (case find (\<lambda>d. runtimeExecutionPlanEquals (xdPlan d) r) ds of
                None \<Rightarrow> Inl PlanUnsupported | Some d \<Rightarrow> Inr d)
         | None \<Rightarrow>
             (case find xdDefault ds of
                Some d \<Rightarrow> Inr d
              | None \<Rightarrow> (case ds of [d] \<Rightarrow> Inr d | _ \<Rightarrow> Inl PlanSelectionRequired))))"

section \<open>Plans of an artifact\<close>

definition overlayPlanDescriptor :: planDescriptor where
  "overlayPlanDescriptor =
     \<lparr>xdPlan = \<lparr>xpAccessMethod = ''turn_credentials'', xpCarrierFamily = ''turn_dtls_overlay'',
        xpEngineFamily = ''custom_packet_overlay'', xpHostAdapter = []\<rparr>,
      xdSupportState = ''supported'', xdEndpointFamily = ''turn_server'',
      xdEndpointRole = ''turn_dtls_custom_overlay'', xdDefault = True, xdRequiresCapability = [],
      xdRequiredKinds = [], xdTransportProfile = None, xdMessage = []\<rparr>"

definition resolutionArtifactAccessMethods :: "string \<Rightarrow> string list" where
  "resolutionArtifactAccessMethods family = (if family = ''generic_turn'' then [''turn_credentials''] else [])"

text \<open>The plans of the platform tunnels of the host are given as a list of lists, one per capability.\<close>

definition resolutionExecutionPlansForAction ::
    "string \<Rightarrow> string \<Rightarrow> planDescriptor list list \<Rightarrow> planDescriptor list" where
  "resolutionExecutionPlansForAction action family tunnels =
     (if action \<noteq> ''start_on_this_device'' \<or> family \<noteq> ''generic_turn'' then []
      else overlayPlanDescriptor # concat tunnels)"

definition isStrictWireGuardTurnExecutionPlan :: "executionPlan \<Rightarrow> bool" where
  "isStrictWireGuardTurnExecutionPlan p \<longleftrightarrow>
     xpAccessMethod p = ''turn_credentials'' \<and> xpCarrierFamily p = ''turn_datagram'' \<and>
     xpEngineFamily p = ''wireguard_native'' \<and> TrimSpace (xpHostAdapter p) \<noteq> []"

text \<open>The plan of the custom overlay, which \<open>MaterializeResolutionWithPlan\<close> starts a session for.\<close>

definition isOverlayPlan :: "executionPlan \<Rightarrow> bool" where
  "isOverlayPlan p \<longleftrightarrow>
     xpEngineFamily p = ''custom_packet_overlay'' \<and> xpCarrierFamily p = ''turn_dtls_overlay'' \<and>
     xpAccessMethod p = ''turn_credentials'' \<and> TrimSpace (xpHostAdapter p) = []"

section \<open>Facts\<close>

lemma plan_equals [simp]: "runtimeExecutionPlanEquals p q \<longleftrightarrow> p = q"
  by (cases p; cases q) (auto simp: runtimeExecutionPlanEquals_def)

lemma select_offered:
  "selectRuntimeExecutionPlanDescriptor ds r = Inr d \<Longrightarrow>
     d \<in> set ds \<and> isSupported d \<and> (\<forall>p. r = Some p \<longrightarrow> xdPlan d = p)"
proof (cases r)
  case None
  assume a: "selectRuntimeExecutionPlanDescriptor ds r = Inr d"
  have "d \<in> set (filter isSupported ds)"
    using a None
    by (auto simp: selectRuntimeExecutionPlanDescriptor_def Let_def filter_eq_Cons_iff
        split: list.splits dest!: arg_cong [where f = set])
  with None show ?thesis by simp
next
  case (Some p)
  assume "selectRuntimeExecutionPlanDescriptor ds r = Inr d"
  with Some show ?thesis
    by (auto simp: selectRuntimeExecutionPlanDescriptor_def find_Some_iff split: option.splits if_splits)
qed

lemma valid_overlay: "validateRuntimeExecutionPlanDescriptor overlayPlanDescriptor = None"
  by code_simp

section \<open>Properties\<close>

text \<open>
  A selected plan is one of the plans offered, is supported, and is the requested one when one is
  requested.  Without a request the choice is the single supported default, or the single supported
  plan when no supported plan is a default; otherwise nothing is chosen.  An artifact that can
  start on the device always offers the custom overlay as a supported default, so it is
  chosen without a request exactly if no platform tunnel of the host has a supported default plan
  too; if one has, a selection is required and no session starts by default.
\<close>

theorem plan_selection:
  "(selectRuntimeExecutionPlanDescriptor ds r = Inr d \<longrightarrow>
      d \<in> set ds \<and> isSupported d \<and> (\<forall>p. r = Some p \<longrightarrow> xdPlan d = p)) \<and>
   (selectRuntimeExecutionPlanDescriptor ds None = Inr d \<longleftrightarrow>
      filter (\<lambda>d. isSupported d \<and> xdDefault d) ds = [d] \<or>
      filter (\<lambda>d. isSupported d \<and> xdDefault d) ds = [] \<and> filter isSupported ds = [d]) \<and>
   selectRuntimeExecutionPlanDescriptor
       (resolutionExecutionPlansForAction ''start_on_this_device'' ''generic_turn'' tunnels) None =
     (if \<exists>ps\<in>set tunnels. \<exists>t\<in>set ps. isSupported t \<and> xdDefault t
      then Inl PlanSelectionRequired else Inr overlayPlanDescriptor)"
proof (intro conjI)
  show "selectRuntimeExecutionPlanDescriptor ds r = Inr d \<longrightarrow>
      d \<in> set ds \<and> isSupported d \<and> (\<forall>p. r = Some p \<longrightarrow> xdPlan d = p)"
    using select_offered by blast
  have f: "filter xdDefault (filter isSupported ds) = filter (\<lambda>d. isSupported d \<and> xdDefault d) ds" for ds
    by (auto intro: filter_cong)
  show "selectRuntimeExecutionPlanDescriptor ds None = Inr d \<longleftrightarrow>
      filter (\<lambda>d. isSupported d \<and> xdDefault d) ds = [d] \<or>
      filter (\<lambda>d. isSupported d \<and> xdDefault d) ds = [] \<and> filter isSupported ds = [d]"
    by (auto simp: selectRuntimeExecutionPlanDescriptor_def Let_def f split: list.splits)
  have o: "isSupported overlayPlanDescriptor" "xdDefault overlayPlanDescriptor"
    by (simp_all add: overlayPlanDescriptor_def isSupported_def)
  have n: "(\<exists>ps\<in>set tunnels. \<exists>t\<in>set ps. isSupported t \<and> xdDefault t) \<longleftrightarrow>
      filter (\<lambda>d. isSupported d \<and> xdDefault d) (concat tunnels) \<noteq> []"
    by (auto simp: filter_empty_conv)
  show "selectRuntimeExecutionPlanDescriptor
       (resolutionExecutionPlansForAction ''start_on_this_device'' ''generic_turn'' tunnels) None =
     (if \<exists>ps\<in>set tunnels. \<exists>t\<in>set ps. isSupported t \<and> xdDefault t
      then Inl PlanSelectionRequired else Inr overlayPlanDescriptor)"
    unfolding n
    by (auto simp: selectRuntimeExecutionPlanDescriptor_def Let_def f resolutionExecutionPlansForAction_def o
        split: list.splits)
qed

theorem plan_selection_witness:
  "isSupported overlayPlanDescriptor \<and>
   selectRuntimeExecutionPlanDescriptor [overlayPlanDescriptor] None = Inr overlayPlanDescriptor"
proof -
  have run: "selectRuntimeExecutionPlanDescriptor [overlayPlanDescriptor] None = Inr overlayPlanDescriptor"
    by code_simp
  with plan_selection [of "[overlayPlanDescriptor]" None overlayPlanDescriptor] show ?thesis by blast
qed

end
