(* ===== verification/ControlTypes.thy ===== *)
theory ControlTypes
  imports ProviderSettings RuntimeConfig ExecutionPlans
begin

text \<open>
  Data of the client control host (\<^verbatim>\<open>pkg/clientcontrol/types.go\<close>, \<^verbatim>\<open>host.go\<close>, \<^verbatim>\<open>resolution.go\<close>): profiles,
  sessions, resolutions, challenges, events; the contract of a challenge
  (\<^verbatim>\<open>challenge_contract.go\<close>, \<^verbatim>\<open>owned_browser_continuation.go\<close>); and the negotiation of capabilities.
  Times are instants in nanoseconds, UTC.
\<close>

type_synonym instant = int

text \<open>\<open>firstNonEmpty\<close>: the first text that is not blank.\<close>

definition firstNonBlank :: "string list \<Rightarrow> string" where
  "firstNonBlank vs = (case find (\<lambda>v. TrimSpace v \<noteq> []) vs of None \<Rightarrow> [] | Some v \<Rightarrow> v)"

section \<open>States\<close>

datatype sessionState =
    SessionStarting
  | SessionChallengeRequired
  | SessionReady
  | SessionRetrying
  | SessionStopping
  | SessionStopped
  | SessionFailed

datatype resolutionState =
    ResolutionStarting
  | ResolutionChallengeRequired
  | ResolutionResolved
  | ResolutionFailed
  | ResolutionCancelled
  | ResolutionExpired

datatype challengeStatus =
    ChallengePending
  | ChallengeContinuing
  | ChallengeCompleted
  | ChallengeCancelled
  | ChallengeFailed

datatype completionMode =
    ManualConfirm
  | AppReturnCallback
  | OwnedBrowserObserved

datatype eventType =
    EvSessionStarting
  | EvSessionReady
  | EvSessionRetrying
  | EvSessionFailed
  | EvSessionStopped
  | EvResolutionStarting
  | EvResolutionResolved
  | EvResolutionFailed
  | EvResolutionCancelled
  | EvResolutionExpired
  | EvChallengeRequired
  | EvChallengeUpdated

section \<open>Profiles and sessions\<close>

record profileSpec =
  psProvider :: string
  psLink :: string
  psSettings :: settings
  psListenAddr :: string
  psPeerAddr :: string
  psIngress :: adapter_kind
  psConnections :: int
  psTURNServer :: string
  psTURNPort :: string
  psBindInterface :: string
  psMode :: string
  psUseDTLS :: "bool option"
  psInteractive :: bool
  psLogLevel :: string

record hostProfile =
  pfID :: string
  pfName :: string
  pfSpec :: profileSpec

record failureInfo =
  fiStage :: string
  fiMessage :: string
  fiNotImplemented :: bool

record sessionView =
  svID :: string
  svProfileID :: string
  svProfileName :: string
  svSourceResolutionID :: string
  svProfile :: profileSpec
  svState :: sessionState
  svFailure :: "failureInfo option"
  svActiveChallenge :: string
  svStartedAt :: instant
  svUpdatedAt :: instant
  svStoppedAt :: "instant option"

record runtimeDefaults =
  rdListenAddr :: string
  rdPeerAddr :: string
  rdIngress :: adapter_kind
  rdConnections :: int
  rdTURNServer :: string
  rdTURNPort :: string
  rdBindInterface :: string
  rdMode :: string
  rdUseDTLS :: "bool option"
  rdLogLevel :: string

section \<open>Resolutions\<close>

text \<open>What a provider resolves to: credentials, metadata, and the artifact of its probe.\<close>

record probeArtifact =
  paLinkRedacted :: string
  paInviteURLRedacted :: string
  paJoinTokenRedacted :: string
  paResultKind :: string
  paRedactedCredentials :: "(string \<times> string) option"
  paRoomURL :: "string option"
  paCameraStream :: "(string \<times> string) option"

record providerResolution =
  prCredentials :: credentials
  prMetadata :: "string \<rightharpoonup> string"
  prArtifact :: "probeArtifact option"

record redactedCredentials =
  rcAddress :: string
  rcUsername :: string
  rcPassword :: string

text \<open>What a host keeps of an artifact that a VPS has issued; \<open>rmRedaction\<close> is its five redaction labels.\<close>

record remoteSummary =
  rmEndpointID :: string
  rmIssuer :: string
  rmAudience :: string
  rmGeneration :: "64 word"
  rmSourceID :: string
  rmOfferID :: string
  rmArtifactID :: string
  rmHealth :: string
  rmEvidence :: string
  rmValidation :: string
  rmReason :: string
  rmExpiresAt :: "instant option"
  rmRedaction :: "string list"

datatype artifactSummary =
    SummaryTURN redactedCredentials
  | SummaryRoom string
  | SummaryCamera string string
  | SummaryRemote remoteSummary

record resolutionAction =
  raID :: string
  raOwner :: string
  raPlans :: "planDescriptor list"

record resolutionArtifact =
  rtFamily :: string
  rtAccessMethods :: "string list"
  rtActions :: "resolutionAction list"
  rtSummary :: artifactSummary

record exportStatus =
  xsSupported :: bool
  xsExpiresAt :: "instant option"
  xsExpirySource :: string

record resolutionInput =
  inProvider :: string
  inKind :: string
  inLinkRedacted :: string
  inInteractive :: bool

record resolutionView =
  rvID :: string
  rvProvider :: string
  rvMethod :: string
  rvInput :: resolutionInput
  rvArtifact :: "resolutionArtifact option"
  rvState :: resolutionState
  rvCredentials :: "redactedCredentials option"
  rvExport :: exportStatus
  rvFailure :: "failureInfo option"
  rvActiveChallenge :: string
  rvStartedAt :: instant
  rvUpdatedAt :: instant
  rvResolvedAt :: "instant option"
  rvExpiredAt :: "instant option"
  rvRemoteVPS :: "remoteSummary option"

record startResolutionRequest =
  rqProvider :: string
  rqInput :: "(string \<times> string) option"
  rqSettings :: settings
  rqLink :: string
  rqInteractive :: bool

section \<open>Challenges\<close>

record browserReturn =
  brSignalKinds :: "string list"
  brAllowAutoContinue :: bool
  brExpectedReturnURI :: string

record ownedBrowser =
  obCookieURLs :: "string list"
  obRememberSignIn :: bool
  obAutoContinue :: bool

record challenge =
  chID :: string
  chSessionID :: string
  chResolutionID :: string
  chProvider :: string
  chStage :: string
  chKind :: string
  chPrompt :: string
  chOpenURL :: string
  chStatus :: challengeStatus
  chMode :: completionMode
  chBrowserReturn :: "browserReturn option"
  chOwnedBrowser :: "ownedBrowser option"
  chCreatedAt :: instant
  chUpdatedAt :: instant

text \<open>
  A challenge as the provider raises it, with the metadata resolved for it.  \<open>icCookieURLs\<close> is
  there if the challenge is a browser continuation.
\<close>

record interactiveChallenge =
  icProvider :: string
  icStage :: string
  icKind :: string
  icPrompt :: string
  icOpenURL :: string
  icCookieURLs :: "string list option"

record challengeMetadata =
  cmCompletionMode :: string
  cmBrowserReturn :: "browserReturn option"
  cmAllowRememberedSignIn :: bool
  cmAllowAutoContinue :: bool

definition ContinuationCookieURLs :: "interactiveChallenge \<Rightarrow> string list" where
  "ContinuationCookieURLs c =
     (case icCookieURLs c of
        Some urls \<Rightarrow> filter (\<lambda>u. u \<noteq> []) (List.map TrimSpace urls)
      | None \<Rightarrow> if TrimSpace (icOpenURL c) \<noteq> [] then [TrimSpace (icOpenURL c)] else [])"

definition isBrowserReturnSignalKind :: "string \<Rightarrow> bool" where
  "isBrowserReturnSignalKind k \<longleftrightarrow> k \<in> {''app_link'', ''universal_link'', ''foreground_resume''}"

definition normalizeBrowserReturnSignalKinds :: "string list \<Rightarrow> string list" where
  "normalizeBrowserReturnSignalKinds ks =
     fold (\<lambda>k out. if isBrowserReturnSignalKind k \<and> k \<notin> set out then out @ [k] else out) ks []"

definition normalizeAppReturnMetadata :: "browserReturn option \<Rightarrow> browserReturn option" where
  "normalizeAppReturnMetadata m =
     (case m of
        None \<Rightarrow> None
      | Some b \<Rightarrow>
          if \<not> brAllowAutoContinue b then None
          else
            (let ks = normalizeBrowserReturnSignalKinds (brSignalKinds b) in
             if ks = [] then None
             else Some \<lparr>brSignalKinds = ks, brAllowAutoContinue = True,
               brExpectedReturnURI = TrimSpace (brExpectedReturnURI b)\<rparr>))"

definition normalizeOwnedBrowserMetadata :: "interactiveChallenge \<Rightarrow> challengeMetadata \<Rightarrow> ownedBrowser option" where
  "normalizeOwnedBrowserMetadata c m =
     (let urls = ContinuationCookieURLs c in
      if urls = [] then None
      else Some \<lparr>obCookieURLs = urls, obRememberSignIn = cmAllowRememberedSignIn m,
        obAutoContinue = cmAllowAutoContinue m\<rparr>)"

definition challengeContractMetadata ::
    "interactiveChallenge \<Rightarrow> challengeMetadata \<Rightarrow> completionMode \<times> browserReturn option \<times> ownedBrowser option" where
  "challengeContractMetadata c m =
     (let mode = cmCompletionMode m in
      if mode = ''owned_browser_observed'' then
        (case normalizeOwnedBrowserMetadata c m of
           None \<Rightarrow> (ManualConfirm, None, None)
         | Some b \<Rightarrow> (OwnedBrowserObserved, None, Some b))
      else if mode = ''app_return_callback'' then
        (case normalizeAppReturnMetadata (cmBrowserReturn m) of
           None \<Rightarrow> (ManualConfirm, None, None)
         | Some b \<Rightarrow> (AppReturnCallback, Some b, None))
      else (ManualConfirm, None, None))"

definition buildChallengeRecord ::
    "(interactiveChallenge \<Rightarrow> challengeMetadata) \<Rightarrow> instant \<Rightarrow> string \<Rightarrow> string \<Rightarrow> string \<Rightarrow>
      interactiveChallenge \<Rightarrow> challenge" where
  "buildChallengeRecord resolve now cid sid rid c =
     (case challengeContractMetadata c (resolve c) of
        (mode, ret, owned) \<Rightarrow>
          \<lparr>chID = cid, chSessionID = sid, chResolutionID = rid, chProvider = icProvider c,
           chStage = icStage c, chKind = icKind c, chPrompt = TrimSpace (icPrompt c),
           chOpenURL = TrimSpace (icOpenURL c), chStatus = ChallengePending, chMode = mode,
           chBrowserReturn = ret, chOwnedBrowser = owned, chCreatedAt = now, chUpdatedAt = now\<rparr>)"

text \<open>What the shell hands over when it continues a challenge.\<close>

record browserCookie =
  bkName :: string
  bkValue :: string
  bkDomain :: string
  bkPath :: string
  bkExpires :: "instant option"
  bkSecure :: bool
  bkHTTPOnly :: bool

record observedRequest =
  oqMethod :: string
  oqURL :: string
  oqFormValues :: "(string \<times> string) list"
  oqStatusCode :: int
  oqBody :: "(string \<times> goValue) list"

record challengeContinuation =
  cnCookies :: "browserCookie list"
  cnObserved :: "observedRequest list"

datatype challengeAction =
    ActionContinue "challengeContinuation option"
  | ActionCancel

definition toProviderCookies :: "browserCookie list \<Rightarrow> browserCookie list" where
  "toProviderCookies cs =
     List.map_filter (\<lambda>c.
       if TrimSpace (bkName c) = [] then None
       else Some (c\<lparr>bkName := TrimSpace (bkName c), bkDomain := TrimSpace (bkDomain c),
         bkPath := (if TrimSpace (bkPath c) = [] then ''/'' else TrimSpace (bkPath c))\<rparr>)) cs"

text \<open>A Go map built by assignment: a later key replaces an earlier one.\<close>

definition assignTrimmed :: "(string \<times> 'v) list \<Rightarrow> (string \<times> 'v) list" where
  "assignTrimmed kvs =
     fold (\<lambda>(k, v) out. if TrimSpace k = [] then out
       else (TrimSpace k, v) # filter (\<lambda>(k', _). k' \<noteq> TrimSpace k) out) kvs []"

definition toObservedBrowserRequests :: "observedRequest list \<Rightarrow> observedRequest list" where
  "toObservedBrowserRequests rs =
     List.map_filter (\<lambda>r.
       if TrimSpace (oqMethod r) = [] \<or> TrimSpace (oqURL r) = [] \<or> oqStatusCode r = 0 \<or> oqBody r = [] \<or>
          assignTrimmed (oqBody r) = [] then None
       else Some (r\<lparr>oqMethod := TrimSpace (oqMethod r), oqURL := TrimSpace (oqURL r),
         oqFormValues := assignTrimmed (oqFormValues r), oqBody := assignTrimmed (oqBody r)\<rparr>)) rs"

datatype hostError =
    ProfileNotFound
  | SessionNotFound
  | ChallengeNotFound
  | ResolutionNotFound
  | ProfileOrSpecRequired
  | ProviderRequired
  | InputRequired
  | InputKindRequired
  | InputKindMismatch string string
  | InputKindUnsupported string
  | InputLinkRequired
  | UnknownProvider string
  | SettingsRefused settingsError
  | PolicyRefused config_error
  | IDAllocationFailed
  | ContinuationRequired
  | ContinuationNotSupported
  | NotTransportReady
  | ResolutionHasExpired
  | ExportUnavailable
  | ActionUnavailable string
  | PlanRefused planError

definition validateChallengeContinuationRequest :: "challenge \<Rightarrow> challengeAction \<Rightarrow> hostError option" where
  "validateChallengeContinuationRequest c a =
     (case a of
        ActionCancel \<Rightarrow> None
      | ActionContinue payload \<Rightarrow>
          if chMode c = OwnedBrowserObserved
          then (if payload = None then Some ContinuationRequired else None)
          else (if payload \<noteq> None then Some ContinuationNotSupported else None))"

section \<open>Events\<close>

record hostEvent =
  hvID :: string
  hvTimestamp :: instant
  hvSessionID :: string
  hvResolutionID :: string
  hvType :: eventType
  hvState :: "sessionState option"
  hvResolutionState :: "resolutionState option"
  hvStage :: string
  hvMessage :: string
  hvConnections :: int
  hvReadyWorkers :: int
  hvRestart :: int
  hvBackoff :: string
  hvChallenge :: "challenge option"
  hvArtifact :: "resolutionArtifact option"

definition blankEvent :: "eventType \<Rightarrow> instant \<Rightarrow> hostEvent" where
  "blankEvent ty now =
     \<lparr>hvID = [], hvTimestamp = now, hvSessionID = [], hvResolutionID = [], hvType = ty, hvState = None,
      hvResolutionState = None, hvStage = [], hvMessage = [], hvConnections = 0, hvReadyWorkers = 0,
      hvRestart = 0, hvBackoff = [], hvChallenge = None, hvArtifact = None\<rparr>"

definition snapshotEvent :: "sessionView \<Rightarrow> eventType \<Rightarrow> string \<Rightarrow> string \<Rightarrow> hostEvent" where
  "snapshotEvent s ty stage message =
     (blankEvent ty (svUpdatedAt s))\<lparr>hvSessionID := svID s, hvState := Some (svState s),
       hvStage := stage, hvMessage := message\<rparr>"

definition resolutionSnapshotEvent :: "resolutionView \<Rightarrow> eventType \<Rightarrow> string \<Rightarrow> hostEvent" where
  "resolutionSnapshotEvent r ty message =
     (blankEvent ty (rvUpdatedAt r))\<lparr>hvResolutionID := rvID r, hvResolutionState := Some (rvState r),
       hvMessage := message, hvArtifact := rvArtifact r\<rparr>"

text \<open>The last \<open>limit\<close> items of a history; a limit that is not positive does not limit.\<close>

definition appendWithLimit :: "'a list \<Rightarrow> 'a \<Rightarrow> int \<Rightarrow> 'a list" where
  "appendWithLimit items item limit =
     (let all = items @ [item] in
      if 0 < limit \<and> limit < int (length all) then drop (length all - nat limit) all else all)"

fun replaceChallenge :: "challenge list \<Rightarrow> challenge \<Rightarrow> challenge list" where
  "replaceChallenge [] u = [u]"
| "replaceChallenge (c # cs) u = (if chID c = chID u then u # cs else c # replaceChallenge cs u)"

section \<open>Negotiation\<close>

record negotiateRequest =
  ngVersions :: "string list"
  ngRequired :: "string list"

definition ContractVersion :: string where "ContractVersion = ''1''"

definition missingCapabilities :: "string list \<Rightarrow> string list \<Rightarrow> string list" where
  "missingCapabilities have want = sort (filter (\<lambda>c. c \<notin> set have) want)"

datatype incompatible =
    VersionUnsupported "string list"
  | CapabilitiesMissing "string list"

definition Negotiate :: "string list \<Rightarrow> negotiateRequest \<Rightarrow> incompatible option" where
  "Negotiate capabilities req =
     (if ngVersions req \<noteq> [] \<and> ContractVersion \<notin> TrimSpace ` set (ngVersions req)
      then Some (VersionUnsupported (ngVersions req))
      else
        (case missingCapabilities capabilities (ngRequired req) of
           [] \<Rightarrow> None | missing \<Rightarrow> Some (CapabilitiesMissing missing)))"

section \<open>Facts\<close>

lemma appendWithLimit_length:
  "0 < limit \<Longrightarrow> int (length (appendWithLimit xs x limit)) \<le> max limit 1"
  by (auto simp: appendWithLimit_def Let_def)

lemma appendWithLimit_bound:
  "0 < limit \<Longrightarrow> int (length (appendWithLimit xs x limit)) \<le> limit"
  by (auto simp: appendWithLimit_def Let_def)

lemma appendWithLimit_last [simp]: "0 < limit \<Longrightarrow> last (appendWithLimit xs x limit) = x"
  by (auto simp: appendWithLimit_def Let_def)

lemma appendWithLimit_suffix: "suffix (appendWithLimit xs x limit) (xs @ [x])"
  by (auto simp: appendWithLimit_def Let_def suffix_drop)

lemma length_replaceChallenge:
  "length (replaceChallenge cs u) = (if chID u \<in> chID ` set cs then length cs else Suc (length cs))"
  by (induction cs) auto

lemma set_replaceChallenge: "set (replaceChallenge cs u) \<subseteq> insert u (set cs)"
  by (induction cs) auto

end
