(* ===== verification/HostState.thy ===== *)
theory HostState
  imports ControlTypes "HOL-Library.AList"
begin

text \<open>
  The state of the client control host (\<^verbatim>\<open>pkg/clientcontrol/host.go\<close>), its configuration, and the
  normalization of profiles.  The maps of the host are association lists with distinct keys in
  the order of an iteration.  The mutex makes each locked section one step; what a goroutine has
  still to do is a list of tasks, and the goroutines of the host are a list of such lists.
\<close>

section \<open>Configuration\<close>

text \<open>
  \<open>hcNewID\<close> and \<open>hcNewSessionID\<close> give the n-th identifier drawn, \<open>hcDescriptors\<close> the descriptors of
  the registry by lower-case name, \<open>hcMetadata\<close> the metadata resolved for a challenge,
  \<open>hcTunnelPlans\<close> the execution plans of the platform tunnels.  The functions on links parse URLs.
\<close>

record hostConfig =
  hcLimit :: int
  hcNewID :: "nat \<Rightarrow> string"
  hcNewSessionID :: "nat \<Rightarrow> string"
  hcDescriptors :: "(string \<times> providerDescriptor) list"
  hcSettings :: settingsEnv
  hcMetadata :: "interactiveChallenge \<Rightarrow> challengeMetadata"
  hcTunnelPlans :: "planDescriptor list list"
  hcParseTime :: "string \<Rightarrow> instant option"
  hcFormatLink :: "credentials \<Rightarrow> string"
  hcRedactLink :: "string \<Rightarrow> string"
  hcRedactInput :: "string \<Rightarrow> string \<Rightarrow> string"

definition hostDescriptor :: "hostConfig \<Rightarrow> string \<Rightarrow> hostError + providerDescriptor" where
  "hostDescriptor env name =
     (case map_of (hcDescriptors env) (ToLower (TrimSpace name)) of
        None \<Rightarrow> Inl (UnknownProvider name)
      | Some d \<Rightarrow>
          Inr (if validateProviderSettingsSchema (hcSettings env) (pdSchema d) = None then d
               else d\<lparr>pdSchema := None\<rparr>))"

section \<open>Profiles\<close>

definition translateProfileSpec :: "profileSpec \<Rightarrow> clientConfig" where
  "translateProfileSpec s =
     \<lparr>ccProvider = psProvider s, ccLink = psLink s, ccProviderSettings = psSettings s,
      ccListenAddr = psListenAddr s, ccPeerAddr = psPeerAddr s, ccIngress = psIngress s,
      ccConnections = psConnections s, ccTURNServer = psTURNServer s, ccTURNPort = psTURNPort s,
      ccBindInterface = psBindInterface s, ccHandshakeTimeout = 0,
      ccMode = (if psMode s = [] then TransportModeAuto else psMode s),
      ccUseDTLS = (case psUseDTLS s of None \<Rightarrow> True | Some b \<Rightarrow> b)\<rparr>"

definition normalizeRuntimeProfileSpec :: "profileSpec \<Rightarrow> hostError + profileSpec" where
  "normalizeRuntimeProfileSpec s =
     (case ValidatePolicy (translateProfileSpec s) of Some e \<Rightarrow> Inl (PolicyRefused e) | None \<Rightarrow> Inr s)"

definition normalizePersistedProfileSpec :: "profileSpec \<Rightarrow> hostError + profileSpec" where
  "normalizePersistedProfileSpec s =
     (let cfg = translateProfileSpec s;
          cfg = (if TrimSpace (ccLink cfg) = [] then cfg\<lparr>ccLink := ''persisted-profile://redacted''\<rparr> else cfg)
      in case ValidatePolicy cfg of Some e \<Rightarrow> Inl (PolicyRefused e) | None \<Rightarrow> Inr s)"

definition trimProfileSpec :: "profileSpec \<Rightarrow> profileSpec" where
  "trimProfileSpec s =
     s\<lparr>psProvider := TrimSpace (psProvider s), psLink := TrimSpace (psLink s),
       psListenAddr := TrimSpace (psListenAddr s), psPeerAddr := TrimSpace (psPeerAddr s),
       psIngress := normalizeAdapterKind (psIngress s), psTURNServer := TrimSpace (psTURNServer s),
       psTURNPort := TrimSpace (psTURNPort s), psBindInterface := TrimSpace (psBindInterface s),
       psLogLevel := TrimSpace (psLogLevel s),
       psConnections := (if psConnections s \<le> 0 then 1 else psConnections s),
       psMode := (if psMode s = [] then TransportModeAuto else psMode s),
       psUseDTLS := (case psUseDTLS s of None \<Rightarrow> Some True | Some b \<Rightarrow> Some b)\<rparr>"

definition normalizeProfileSettings ::
    "hostConfig \<Rightarrow> profileSpec \<Rightarrow> settingsMode \<Rightarrow> hostError + profileSpec" where
  "normalizeProfileSettings env s mode =
     (if psProvider s \<noteq> [] then
        (case hostDescriptor env (psProvider s) of
           Inl e \<Rightarrow> Inl e
         | Inr d \<Rightarrow>
             (case normalizeProviderSettingsForDescriptor (hcSettings env) d (psSettings s) mode of
                Inl e \<Rightarrow> Inl (SettingsRefused e)
              | Inr out \<Rightarrow> Inr (s\<lparr>psSettings := out\<rparr>)))
      else if psSettings s \<noteq> [] then
        Inl (SettingsRefused (settingsViolation (firstProviderSettingsKey (psSettings s)) VioUnknown))
      else Inr s)"

definition normalizeProfileSpec ::
    "hostConfig \<Rightarrow> profileSpec \<Rightarrow> settingsMode \<Rightarrow> hostError + profileSpec" where
  "normalizeProfileSpec env spec mode =
     (case normalizeProfileSettings env (trimProfileSpec spec) mode of
        Inl e \<Rightarrow> Inl e
      | Inr s \<Rightarrow>
          if mode = ModePersistedProfile then normalizePersistedProfileSpec s
          else normalizeRuntimeProfileSpec s)"

definition redactProfileSpecForOrdinaryRead :: "hostConfig \<Rightarrow> profileSpec \<Rightarrow> profileSpec" where
  "redactProfileSpecForOrdinaryRead env s =
     (if TrimSpace (psProvider s) = [] then s\<lparr>psSettings := []\<rparr>
      else
        (case hostDescriptor env (psProvider s) of
           Inl _ \<Rightarrow> s\<lparr>psSettings := []\<rparr>
         | Inr d \<Rightarrow> s\<lparr>psSettings := redactProviderSettingsForOrdinaryRead d (psSettings s)\<rparr>))"

definition observeSanitizedLink :: "hostConfig \<Rightarrow> string \<Rightarrow> string" where
  "observeSanitizedLink env link =
     (if hcRedactLink env link \<noteq> [] then hcRedactLink env link else ''<redacted:handoff-link>'')"

section \<open>State\<close>

text \<open>
  A managed session: its snapshot, the context of its run (the error of a cancelled one), the
  closed \<open>done\<close> channel, the unredacted profile, and its histories.
\<close>

record managedSession =
  mgView :: sessionView
  mgCtx :: "goError option"
  mgDone :: bool
  mgSpec :: profileSpec
  mgEvents :: "hostEvent list"
  mgChallenges :: "challenge list"
  mgStopRequested :: bool
  mgPlatformMode :: string

record managedResolution =
  mrView :: resolutionView
  mrSecret :: "providerResolution option"
  mrRemoteExport :: string
  mrDescriptor :: providerDescriptor
  mrCtx :: "goError option"
  mrDone :: bool
  mrInput :: startResolutionRequest
  mrEvents :: "hostEvent list"
  mrChallenges :: "challenge list"

text \<open>The action channel of a challenge has room for one action.\<close>

record managedChallenge =
  mcView :: challenge
  mcActions :: "challengeAction list"

record subscriberChannel =
  sbCapacity :: nat
  sbBuffer :: "hostEvent list"
  sbClosed :: bool

text \<open>A record that the run of a session logs, with the attributes the host reads.\<close>

record runtimeRecord =
  rrEvent :: string
  rrStage :: string
  rrResult :: string
  rrError :: string
  rrConnections :: int
  rrRestart :: int
  rrBackoff :: string

text \<open>
  The error of a provider, and the stage and code of the provider's own error if the error carries
  a probe artifact (which may have none).
\<close>

record resolveFailure =
  xfError :: goError
  xfProbe :: "(string \<times> string) option option"

datatype challengeScope =
    SessionScope string
  | ResolutionScope string

datatype brokerKind = BrokerHandle | BrokerContinue

text \<open>A session about to start; \<open>ssPlatformMode\<close> is empty unless a platform tunnel carries it.\<close>

record sessionStart =
  ssPlatformMode :: string
  ssProfileID :: string
  ssProfileName :: string
  ssSpec :: profileSpec
  ssSource :: string
  ssStartedAt :: instant

text \<open>
  What a goroutine of the host has still to do.  The first group are calls of a client of the
  host, the second what follows them.
\<close>

datatype hostTask =
    CallUpsertProfile hostProfile
  | CallDeleteProfile string
  | CallStartSession "string + profileSpec"
  | CallStopSession string
  | CallStartResolution startResolutionRequest
  | CallReadResolution string
  | CallExportResolution string
  | CallCancelResolution string
  | CallMaterialize string runtimeDefaults "executionPlan option"
  | CallSignal string challengeAction challengeStatus
  | CallSubscribe nat
  | CallUnsubscribe nat
  | CallReceive nat
  | CallPlatformSession string profileSpec string
  | CallCancelContext challengeScope
  | AllocateSession nat sessionStart
  | InsertSession string sessionStart
  | AllocateResolution nat startResolutionRequest providerDescriptor instant
  | InsertResolution string startResolutionRequest providerDescriptor instant
  | SpawnRun challengeScope
  | RunSession string
  | RunResolution string
  | AwaitAction challengeScope string brokerKind
  | FinishContinuation string
  | CompleteChallenge string challengeStatus string
  | AppendSignal string hostEvent
  | SendAction string challengeAction
  | FinishSession string "goError option"
  | FinishReport string sessionView bool
  | AppendStopped string hostEvent
  | FinishResolution string "resolveFailure + providerResolution"
  | CloseDone string
  | CancelRun challengeScope
  | ClearPending string
  | StopPlatform string
  | PublishEvent hostEvent
  | SendEvent hostEvent "nat list"
  | CloseSubscriber nat

record controlHost =
  hoProfiles :: "(string \<times> hostProfile) list"
  hoSessions :: "(string \<times> managedSession) list"
  hoResolutions :: "(string \<times> managedResolution) list"
  hoChallenges :: "(string \<times> managedChallenge) list"
  hoSubscribers :: "nat list"
  hoChannels :: "(nat \<times> subscriberChannel) list"
  hoNextSub :: nat
  hoNextID :: nat
  hoNextSessionID :: nat
  hoThreads :: "hostTask list list"
  hoPanicked :: bool

definition NewHost :: controlHost where
  "NewHost =
     \<lparr>hoProfiles = [], hoSessions = [], hoResolutions = [], hoChallenges = [], hoSubscribers = [],
      hoChannels = [], hoNextSub = 0, hoNextID = 0, hoNextSessionID = 0, hoThreads = [], hoPanicked = False\<rparr>"

definition theSession :: "string \<Rightarrow> controlHost \<Rightarrow> managedSession option" where
  "theSession sid h = map_of (hoSessions h) sid"

definition theResolution :: "string \<Rightarrow> controlHost \<Rightarrow> managedResolution option" where
  "theResolution rid h = map_of (hoResolutions h) rid"

definition theChallenge :: "string \<Rightarrow> controlHost \<Rightarrow> managedChallenge option" where
  "theChallenge cid h = map_of (hoChallenges h) cid"

definition putSession :: "string \<Rightarrow> managedSession \<Rightarrow> controlHost \<Rightarrow> controlHost" where
  "putSession sid m h = h\<lparr>hoSessions := AList.update sid m (hoSessions h)\<rparr>"

definition putResolution :: "string \<Rightarrow> managedResolution \<Rightarrow> controlHost \<Rightarrow> controlHost" where
  "putResolution rid m h = h\<lparr>hoResolutions := AList.update rid m (hoResolutions h)\<rparr>"

definition putChallenge :: "string \<Rightarrow> managedChallenge \<Rightarrow> controlHost \<Rightarrow> controlHost" where
  "putChallenge cid m h = h\<lparr>hoChallenges := AList.update cid m (hoChallenges h)\<rparr>"

text \<open>Change an entry that is there; an absent one stays absent.\<close>

definition updSession :: "string \<Rightarrow> (managedSession \<Rightarrow> managedSession) \<Rightarrow> controlHost \<Rightarrow> controlHost" where
  "updSession sid f h = (case theSession sid h of None \<Rightarrow> h | Some m \<Rightarrow> putSession sid (f m) h)"

definition updResolution ::
    "string \<Rightarrow> (managedResolution \<Rightarrow> managedResolution) \<Rightarrow> controlHost \<Rightarrow> controlHost" where
  "updResolution rid f h = (case theResolution rid h of None \<Rightarrow> h | Some m \<Rightarrow> putResolution rid (f m) h)"

definition drawID :: "hostConfig \<Rightarrow> controlHost \<Rightarrow> string \<times> controlHost" where
  "drawID env h = (hcNewID env (hoNextID h), h\<lparr>hoNextID := Suc (hoNextID h)\<rparr>)"

definition drawSessionID :: "hostConfig \<Rightarrow> controlHost \<Rightarrow> string \<times> controlHost" where
  "drawSessionID env h = (hcNewSessionID env (hoNextSessionID h), h\<lparr>hoNextSessionID := Suc (hoNextSessionID h)\<rparr>)"

definition addSessionEvent :: "hostConfig \<Rightarrow> hostEvent \<Rightarrow> managedSession \<Rightarrow> managedSession" where
  "addSessionEvent env ev m = m\<lparr>mgEvents := appendWithLimit (mgEvents m) ev (hcLimit env)\<rparr>"

definition addResolutionEvent :: "hostConfig \<Rightarrow> hostEvent \<Rightarrow> managedResolution \<Rightarrow> managedResolution" where
  "addResolutionEvent env ev m = m\<lparr>mrEvents := appendWithLimit (mrEvents m) ev (hcLimit env)\<rparr>"

section \<open>Errors of a run\<close>

text \<open>\<open>errors.Is\<close> with a sentinel error, which is a leaf known by its text.\<close>

definition ctxCanceled :: goError where "ctxCanceled = ErrText ''context canceled''"

definition errNotImplemented :: goError where
  "errNotImplemented = ErrText ''provider adapter is not implemented''"

definition errChallengeCanceled :: goError where
  "errChallengeCanceled = ErrText ''interactive provider challenge was cancelled''"

fun errorIs :: "goError \<Rightarrow> goError \<Rightarrow> bool" where
  "errorIs (ErrText m) t = (ErrText m = t)"
| "errorIs (ErrWrap m e) t = errorIs e t"
| "errorIs (ErrJoin es) t = list_ex (\<lambda>e. errorIs e t) es"
| "errorIs (ErrStage s None) t = False"
| "errorIs (ErrStage s (Some e)) t = errorIs e t"

section \<open>Facts\<close>

lemma theSession_put [simp]: "theSession s (putSession s' m h) = (if s = s' then Some m else theSession s h)"
  by (simp add: theSession_def putSession_def update_conv')

lemma theResolution_put [simp]:
  "theResolution s (putResolution s' m h) = (if s = s' then Some m else theResolution s h)"
  by (simp add: theResolution_def putResolution_def update_conv')

lemma theChallenge_put [simp]: "theChallenge s (putChallenge s' m h) = (if s = s' then Some m else theChallenge s h)"
  by (simp add: theChallenge_def putChallenge_def update_conv')

lemma theSession_upd:
  "theSession s (updSession s' f h) = (if s = s' then map_option f (theSession s h) else theSession s h)"
  by (simp add: updSession_def split: option.splits)

lemma theResolution_upd:
  "theResolution s (updResolution s' f h) = (if s = s' then map_option f (theResolution s h) else theResolution s h)"
  by (simp add: updResolution_def split: option.splits)

lemma the_other [simp]:
  "theSession s (putResolution r m h) = theSession s h"
  "theSession s (putChallenge c k h) = theSession s h"
  "theResolution r' (putSession s n h) = theResolution r' h"
  "theResolution r' (putChallenge c k h) = theResolution r' h"
  "theChallenge c' (putSession s n h) = theChallenge c' h"
  "theChallenge c' (putResolution r m h) = theChallenge c' h"
  by (simp_all add: theSession_def theResolution_def theChallenge_def putSession_def putResolution_def putChallenge_def)

lemma the_frame [simp]:
  "theSession s (h\<lparr>hoNextID := n\<rparr>) = theSession s h"
  "theResolution s (h\<lparr>hoNextID := n\<rparr>) = theResolution s h"
  "theChallenge s (h\<lparr>hoNextID := n\<rparr>) = theChallenge s h"
  by (simp_all add: theSession_def theResolution_def theChallenge_def)

end
