(* ===== verification/HostSessions.thy ===== *)
theory HostSessions
  imports HostState
begin

text \<open>
  The locked sections of the client control host that deal with profiles, sessions, challenges and
  subscribers (\<^verbatim>\<open>pkg/clientcontrol/host.go\<close>).  Each returns the changed host and what the goroutine
  does next.  Every identifier is drawn, and the clock is read, in the step that uses it.
\<close>

section \<open>Profiles\<close>

definition UpsertProfile ::
    "hostConfig \<Rightarrow> hostProfile \<Rightarrow> controlHost \<Rightarrow> (hostError + hostProfile) \<times> controlHost" where
  "UpsertProfile env p h =
     (case normalizeProfileSpec env (pfSpec p) ModePersistedProfile of
        Inl e \<Rightarrow> (Inl e, h)
      | Inr spec \<Rightarrow>
          (let (pid, h1) = (if TrimSpace (pfID p) = [] then drawID env h else (pfID p, h));
               p' = p\<lparr>pfID := pid, pfSpec := spec\<rparr>
           in (Inr p', h1\<lparr>hoProfiles := AList.update pid p' (hoProfiles h1)\<rparr>)))"

definition DeleteProfile :: "string \<Rightarrow> controlHost \<Rightarrow> hostError option \<times> controlHost" where
  "DeleteProfile pid h =
     (if map_of (hoProfiles h) pid = None then (Some ProfileNotFound, h)
      else (None, h\<lparr>hoProfiles := AList.delete pid (hoProfiles h)\<rparr>))"

definition getProfile :: "string \<Rightarrow> controlHost \<Rightarrow> hostError + hostProfile" where
  "getProfile pid h = (case map_of (hoProfiles h) pid of None \<Rightarrow> Inl ProfileNotFound | Some p \<Rightarrow> Inr p)"

section \<open>Starting a session\<close>

text \<open>A start request names a profile (on the left) or carries a specification.\<close>

definition resolveStartSpec ::
    "hostConfig \<Rightarrow> string + profileSpec \<Rightarrow> controlHost \<Rightarrow> hostError + string \<times> string \<times> profileSpec" where
  "resolveStartSpec env req h =
     (case req of
        Inr spec \<Rightarrow>
          (case normalizeProfileSpec env spec ModeImmediate of Inl e \<Rightarrow> Inl e | Inr s \<Rightarrow> Inr ([], [], s))
      | Inl pid \<Rightarrow>
          if TrimSpace pid = [] then Inl ProfileOrSpecRequired
          else
            (case getProfile pid h of
               Inl e \<Rightarrow> Inl e
             | Inr p \<Rightarrow>
                 (case normalizeProfileSpec env (pfSpec p) ModeImmediate of
                    Inl e \<Rightarrow> Inl e | Inr s \<Rightarrow> Inr (pfID p, pfName p, s))))"

definition StartSession ::
    "hostConfig \<Rightarrow> instant \<Rightarrow> string + profileSpec \<Rightarrow> controlHost \<Rightarrow> controlHost \<times> hostTask list" where
  "StartSession env now req h =
     (case resolveStartSpec env req h of
        Inl e \<Rightarrow> (h, [])
      | Inr (pid, pname, spec) \<Rightarrow>
          (h, [AllocateSession 8 \<lparr>ssPlatformMode = [], ssProfileID = pid, ssProfileName = pname,
             ssSpec = spec, ssSource = [], ssStartedAt = now\<rparr>]))"

text \<open>One attempt of \<open>allocateSessionID\<close>, with the number of attempts left.\<close>

definition allocateSessionID ::
    "hostConfig \<Rightarrow> nat \<Rightarrow> sessionStart \<Rightarrow> controlHost \<Rightarrow> controlHost \<times> hostTask list" where
  "allocateSessionID env n st h =
     (let (drawn, h1) = drawSessionID env h; candidate = TrimSpace drawn
      in if candidate \<noteq> [] \<and> theSession candidate h1 = None then (h1, [InsertSession candidate st])
         else (h1, if n \<le> 1 then [] else [AllocateSession (n - 1) st]))"

definition startView :: "hostConfig \<Rightarrow> string \<Rightarrow> sessionStart \<Rightarrow> sessionView" where
  "startView env sid st =
     (let p = redactProfileSpecForOrdinaryRead env (ssSpec st);
          p = (if ssSource st \<noteq> [] then p\<lparr>psLink := observeSanitizedLink env (psLink (ssSpec st))\<rparr> else p)
      in \<lparr>svID = sid, svProfileID = ssProfileID st, svProfileName = ssProfileName st,
          svSourceResolutionID = ssSource st, svProfile = p, svState = SessionStarting, svFailure = None,
          svActiveChallenge = [], svStartedAt = ssStartedAt st, svUpdatedAt = ssStartedAt st,
          svStoppedAt = None\<rparr>)"

definition newManagedSession :: "hostConfig \<Rightarrow> sessionView \<Rightarrow> sessionStart \<Rightarrow> hostEvent list \<Rightarrow> managedSession" where
  "newManagedSession env view st evs =
     \<lparr>mgView = view, mgCtx = None, mgDone = False, mgSpec = ssSpec st,
      mgEvents = fold (\<lambda>ev hist. appendWithLimit hist ev (hcLimit env)) evs [],
      mgChallenges = [], mgStopRequested = False, mgPlatformMode = ssPlatformMode st\<rparr>"

definition insertOrdinarySession ::
    "hostConfig \<Rightarrow> string \<Rightarrow> sessionStart \<Rightarrow> controlHost \<Rightarrow> controlHost \<times> hostTask list" where
  "insertOrdinarySession env sid st h =
     (let view = startView env sid st; ev = snapshotEvent view EvSessionStarting [] []
      in (putSession sid (newManagedSession env view st [ev]) h,
          [PublishEvent ev, SpawnRun (SessionScope sid)]))"

section \<open>Sessions of platform tunnels\<close>

definition sessionEnded :: "sessionState \<Rightarrow> bool" where
  "sessionEnded s \<longleftrightarrow> s = SessionStopped \<or> s = SessionFailed"

definition stopsWithMode :: "string \<Rightarrow> managedSession \<Rightarrow> bool" where
  "stopsWithMode mode m \<longleftrightarrow> mgPlatformMode m = mode \<and> \<not> sessionEnded (svState (mgView m))"

definition stoppedView :: "instant \<Rightarrow> sessionView \<Rightarrow> sessionView" where
  "stoppedView now v = v\<lparr>svState := SessionStopped, svActiveChallenge := [], svUpdatedAt := now, svStoppedAt := Some now\<rparr>"

definition markPlatformTunnelSessionsStopped ::
    "hostConfig \<Rightarrow> instant \<Rightarrow> string \<Rightarrow> string \<Rightarrow> controlHost \<Rightarrow> controlHost \<times> hostEvent list" where
  "markPlatformTunnelSessionsStopped env now mode message h =
     (let stoppedEvent = (\<lambda>m. snapshotEvent (stoppedView now (mgView m)) EvSessionStopped [] message);
          stop = (\<lambda>m. addSessionEvent env (stoppedEvent m) (m\<lparr>mgView := stoppedView now (mgView m), mgDone := True\<rparr>))
      in (h\<lparr>hoSessions := List.map (\<lambda>(sid, m). (sid, if stopsWithMode mode m then stop m else m)) (hoSessions h)\<rparr>,
          List.map (stoppedEvent \<circ> snd) (filter (\<lambda>(_, m). stopsWithMode mode m) (hoSessions h))))"

definition publishPlatformTunnelStop ::
    "hostConfig \<Rightarrow> instant \<Rightarrow> string \<Rightarrow> string \<Rightarrow> controlHost \<Rightarrow> controlHost \<times> hostTask list" where
  "publishPlatformTunnelStop env now mode message h =
     (case markPlatformTunnelSessionsStopped env now mode message h of
        (h', evs) \<Rightarrow> (h', List.map PublishEvent evs))"

definition insertPlatformSession ::
    "hostConfig \<Rightarrow> string \<Rightarrow> sessionStart \<Rightarrow> controlHost \<Rightarrow> controlHost \<times> hostTask list" where
  "insertPlatformSession env sid st h =
     (let view = startView env sid st; ready = view\<lparr>svState := SessionReady\<rparr>;
          startEvent = snapshotEvent view EvSessionStarting [] [];
          readyEvent = snapshotEvent ready EvSessionReady ''runtime_attach'' []
      in case markPlatformTunnelSessionsStopped env (ssStartedAt st) (ssPlatformMode st) ''replaced'' h of
           (h', evs) \<Rightarrow>
             (putSession sid (newManagedSession env ready st [startEvent, readyEvent]) h',
              List.map PublishEvent evs @ [PublishEvent startEvent, PublishEvent readyEvent]))"

definition insertSession ::
    "hostConfig \<Rightarrow> string \<Rightarrow> sessionStart \<Rightarrow> controlHost \<Rightarrow> controlHost \<times> hostTask list" where
  "insertSession env sid st h =
     (if ssPlatformMode st = [] then insertOrdinarySession env sid st h else insertPlatformSession env sid st h)"

section \<open>Stopping and finishing\<close>

definition StopSession ::
    "hostConfig \<Rightarrow> instant \<Rightarrow> string \<Rightarrow> controlHost \<Rightarrow> (hostError + sessionView) \<times> controlHost \<times> hostTask list" where
  "StopSession env now sid h =
     (case theSession sid h of
        None \<Rightarrow> (Inl SessionNotFound, h, [])
      | Some m \<Rightarrow>
          if mgPlatformMode m \<noteq> [] then (Inr (mgView m), h, [StopPlatform (mgPlatformMode m)])
          else if sessionEnded (svState (mgView m)) then (Inr (mgView m), h, [])
          else
            (let view = (mgView m)\<lparr>svState := SessionStopping, svUpdatedAt := now\<rparr>;
                 ev = snapshotEvent view EvSessionStopped [] ''stopping''
             in (Inr view,
                 putSession sid (addSessionEvent env ev (m\<lparr>mgView := view, mgStopRequested := True\<rparr>)) h,
                 [PublishEvent ev, CancelRun (SessionScope sid)])))"

definition finishedView :: "instant \<Rightarrow> bool \<Rightarrow> goError option \<Rightarrow> sessionView \<Rightarrow> sessionView" where
  "finishedView now stopRequested err v =
     (if svState v = SessionFailed then v
      else
        (let v' = v\<lparr>svUpdatedAt := now, svStoppedAt := Some now\<rparr> in
         case err of
           None \<Rightarrow> v'\<lparr>svState := SessionStopped\<rparr>
         | Some e \<Rightarrow>
             if stopRequested \<or> errorIs e ctxCanceled then v'\<lparr>svState := SessionStopped\<rparr>
             else v'\<lparr>svState := SessionFailed, svFailure := Some
               \<lparr>fiStage = (case FromError err of None \<Rightarrow> [] | Some s \<Rightarrow> stageName s),
                fiMessage = errorText e, fiNotImplemented = errorIs e errNotImplemented\<rparr>\<rparr>))"

definition finishSession ::
    "instant \<Rightarrow> string \<Rightarrow> goError option \<Rightarrow> controlHost \<Rightarrow> controlHost \<times> hostTask list" where
  "finishSession now sid err h =
     (case theSession sid h of
        None \<Rightarrow> (h, [])
      | Some m \<Rightarrow>
          (let view = finishedView now (mgStopRequested m) err (mgView m)
           in (putSession sid (m\<lparr>mgView := view\<rparr>) h, [FinishReport sid view (mgDone m)])))"

text \<open>The part of \<open>finishSession\<close> after its first locked section; it reads the state once more.\<close>

definition finishReport :: "string \<Rightarrow> sessionView \<Rightarrow> bool \<Rightarrow> controlHost \<Rightarrow> hostTask list" where
  "finishReport sid view alreadyClosed h =
     (let ev = snapshotEvent view EvSessionStopped [] ''stopped''
      in (case theSession sid h of
            None \<Rightarrow> []
          | Some m \<Rightarrow>
              if svState (mgView m) = SessionStopped then [AppendStopped sid ev, PublishEvent ev] else []) @
         (if alreadyClosed then [] else [CloseDone sid]))"

text \<open>\<open>close(done)\<close>: closing a closed channel panics.\<close>

definition closeDone :: "string \<Rightarrow> controlHost \<Rightarrow> controlHost" where
  "closeDone sid h =
     (case theSession sid h of
        None \<Rightarrow> h
      | Some m \<Rightarrow> if mgDone m then h\<lparr>hoPanicked := True\<rparr> else putSession sid (m\<lparr>mgDone := True\<rparr>) h)"

section \<open>Records of a run\<close>

definition recordView :: "instant \<Rightarrow> runtimeRecord \<Rightarrow> sessionView \<Rightarrow> sessionView option" where
  "recordView now r v =
     (if rrEvent r = ''runtime_ready''
      then Some (v\<lparr>svState := SessionReady, svUpdatedAt := now, svActiveChallenge := []\<rparr>)
      else if rrEvent r = ''worker_restart_scheduled''
      then Some (v\<lparr>svState := SessionRetrying, svUpdatedAt := now\<rparr>)
      else if rrEvent r = ''runtime_failure''
      then Some (v\<lparr>svState := SessionFailed, svUpdatedAt := now, svStoppedAt := Some now,
        svFailure := Some \<lparr>fiStage = rrStage r, fiMessage = rrError r, fiNotImplemented = False\<rparr>\<rparr>)
      else if rrEvent r = ''runtime_startup''
      then Some (v\<lparr>svState := SessionStarting, svUpdatedAt := now\<rparr>)
      else None)"

definition recordEvent :: "instant \<Rightarrow> string \<Rightarrow> runtimeRecord \<Rightarrow> string \<Rightarrow> hostEvent" where
  "recordEvent now sid r eid =
     (if rrEvent r = ''runtime_ready''
      then (blankEvent EvSessionReady now)\<lparr>hvID := eid, hvSessionID := sid, hvState := Some SessionReady,
        hvStage := rrStage r, hvConnections := rrConnections r, hvReadyWorkers := rrConnections r\<rparr>
      else if rrEvent r = ''worker_restart_scheduled''
      then (blankEvent EvSessionRetrying now)\<lparr>hvID := eid, hvSessionID := sid, hvState := Some SessionRetrying,
        hvStage := rrStage r, hvMessage := rrResult r, hvRestart := rrRestart r, hvBackoff := rrBackoff r\<rparr>
      else if rrEvent r = ''runtime_failure''
      then (blankEvent EvSessionFailed now)\<lparr>hvID := eid, hvSessionID := sid, hvState := Some SessionFailed,
        hvStage := rrStage r, hvMessage := rrError r\<rparr>
      else (blankEvent EvSessionStarting now)\<lparr>hvID := eid, hvSessionID := sid, hvState := Some SessionStarting,
        hvStage := rrStage r, hvConnections := rrConnections r\<rparr>)"

definition handleRuntimeRecord ::
    "hostConfig \<Rightarrow> instant \<Rightarrow> string \<Rightarrow> runtimeRecord \<Rightarrow> controlHost \<Rightarrow> controlHost \<times> hostTask list" where
  "handleRuntimeRecord env now sid r h =
     (case theSession sid h of
        None \<Rightarrow> (h, [])
      | Some m \<Rightarrow>
          (case recordView now r (mgView m) of
             None \<Rightarrow> (h, [])
           | Some view \<Rightarrow>
               (let (eid, h1) = drawID env h; ev = recordEvent now sid r eid
                in (putSession sid (addSessionEvent env ev (m\<lparr>mgView := view\<rparr>)) h1,
                    (if hvType ev = EvSessionReady \<and> svActiveChallenge view = [] then [ClearPending sid] else []) @
                    [PublishEvent ev]))))"

section \<open>Challenges\<close>

definition recordChallenge ::
    "hostConfig \<Rightarrow> string \<Rightarrow> challenge \<Rightarrow> controlHost \<Rightarrow> controlHost \<times> hostTask list" where
  "recordChallenge env sid c h =
     (case theSession sid h of
        None \<Rightarrow> (h, [])
      | Some m \<Rightarrow>
          (let (eid, h1) = drawID env h;
               ev = (blankEvent EvChallengeRequired (chCreatedAt c))\<lparr>hvSessionID := sid,
                 hvState := Some SessionChallengeRequired, hvChallenge := Some c\<rparr>;
               m' = m\<lparr>mgView := (mgView m)\<lparr>svState := SessionChallengeRequired, svActiveChallenge := chID c,
                   svUpdatedAt := chUpdatedAt c\<rparr>,
                 mgChallenges := appendWithLimit (mgChallenges m) c (hcLimit env)\<rparr>
           in (putSession sid (addSessionEvent env (ev\<lparr>hvID := eid\<rparr>) m')
                 (putChallenge (chID c) \<lparr>mcView = c, mcActions = []\<rparr> h1),
               [PublishEvent ev])))"

definition sessionAfterChallenge ::
    "challengeStatus \<Rightarrow> challenge \<Rightarrow> managedSession \<Rightarrow> managedSession" where
  "sessionAfterChallenge status c m =
     m\<lparr>mgView := (mgView m)\<lparr>svActiveChallenge := [],
         svState := (if status = ChallengeCompleted then SessionStarting else svState (mgView m)),
         svUpdatedAt := chUpdatedAt c\<rparr>,
       mgChallenges := replaceChallenge (mgChallenges m) c\<rparr>"

definition resolutionAfterChallenge ::
    "challengeStatus \<Rightarrow> challenge \<Rightarrow> managedResolution \<Rightarrow> managedResolution" where
  "resolutionAfterChallenge status c m =
     m\<lparr>mrView := (mrView m)\<lparr>rvActiveChallenge := [],
         rvState := (if status = ChallengeCompleted then ResolutionStarting else rvState (mrView m)),
         rvUpdatedAt := chUpdatedAt c\<rparr>,
       mrChallenges := replaceChallenge (mrChallenges m) c\<rparr>"

definition challengeUpdated ::
    "challenge \<Rightarrow> string \<Rightarrow> sessionState option \<Rightarrow> resolutionState option \<Rightarrow> hostEvent" where
  "challengeUpdated c message ss rs =
     (blankEvent EvChallengeUpdated (chUpdatedAt c))\<lparr>hvSessionID := chSessionID c,
       hvResolutionID := chResolutionID c, hvState := ss, hvResolutionState := rs, hvMessage := message,
       hvChallenge := Some c\<rparr>"

definition completeChallenge ::
    "hostConfig \<Rightarrow> instant \<Rightarrow> string \<Rightarrow> challengeStatus \<Rightarrow> string \<Rightarrow> controlHost \<Rightarrow>
      controlHost \<times> hostTask list" where
  "completeChallenge env now cid status message h =
     (case theChallenge cid h of
        None \<Rightarrow> (h, [])
      | Some mc \<Rightarrow>
          (let c = (mcView mc)\<lparr>chStatus := status, chUpdatedAt := now\<rparr>;
               h1 = putChallenge cid (mc\<lparr>mcView := c\<rparr>) h;
               (ss, h2) =
                 (case theSession (chSessionID c) h1 of
                    None \<Rightarrow> (None, h1)
                  | Some m \<Rightarrow>
                      (let m' = sessionAfterChallenge status c m; ss = Some (svState (mgView m'));
                           (eid, h') = drawID env h1;
                           ev = (challengeUpdated c message ss None)\<lparr>hvID := eid\<rparr>
                       in (ss, putSession (chSessionID c) (addSessionEvent env ev m') h')));
               (rs, h3) =
                 (case theResolution (chResolutionID c) h2 of
                    None \<Rightarrow> (None, h2)
                  | Some m \<Rightarrow>
                      (let m' = resolutionAfterChallenge status c m
                       in (Some (rvState (mrView m')), putResolution (chResolutionID c) m' h2)))
           in (h3, [PublishEvent (challengeUpdated c message ss rs)])))"

definition signalChallenge ::
    "instant \<Rightarrow> string \<Rightarrow> challengeAction \<Rightarrow> challengeStatus \<Rightarrow> controlHost \<Rightarrow>
      (hostError + challenge) \<times> controlHost \<times> hostTask list" where
  "signalChallenge now cid action status h =
     (case theChallenge cid h of
        None \<Rightarrow> (Inl ChallengeNotFound, h, [])
      | Some mc \<Rightarrow>
          (case validateChallengeContinuationRequest (mcView mc) action of
             Some e \<Rightarrow> (Inl e, h, [])
           | None \<Rightarrow>
               (let c = (mcView mc)\<lparr>chStatus := status, chUpdatedAt := now\<rparr>;
                    h1 = putChallenge cid (mc\<lparr>mcView := c\<rparr>) h;
                    ss = map_option (\<lambda>m. svState (mgView m)) (theSession (chSessionID c) h1);
                    rs = map_option (\<lambda>m. rvState (mrView m)) (theResolution (chResolutionID c) h1);
                    h2 = updSession (chSessionID c) (\<lambda>m. m\<lparr>mgChallenges := replaceChallenge (mgChallenges m) c\<rparr>) h1;
                    h3 = updResolution (chResolutionID c) (\<lambda>m. m\<lparr>mrChallenges := replaceChallenge (mrChallenges m) c\<rparr>) h2
                in (Inr c, h3, [SendAction cid action, AppendSignal cid (challengeUpdated c [] ss rs)]))))"

definition sendAction :: "string \<Rightarrow> challengeAction \<Rightarrow> controlHost \<Rightarrow> controlHost" where
  "sendAction cid a h =
     (case theChallenge cid h of
        None \<Rightarrow> h
      | Some mc \<Rightarrow> if mcActions mc = [] then putChallenge cid (mc\<lparr>mcActions := [a]\<rparr>) h else h)"

definition appendSignal :: "hostConfig \<Rightarrow> hostEvent \<Rightarrow> controlHost \<Rightarrow> controlHost \<times> hostTask list" where
  "appendSignal env ev h =
     (let (eid, h1) = drawID env h; ev' = ev\<lparr>hvID := eid\<rparr>
      in (updResolution (hvResolutionID ev) (addResolutionEvent env ev')
            (updSession (hvSessionID ev) (addSessionEvent env ev') h1),
          [PublishEvent ev']))"

definition clearPendingChallenges :: "instant \<Rightarrow> string \<Rightarrow> controlHost \<Rightarrow> controlHost" where
  "clearPendingChallenges now sid h =
     h\<lparr>hoChallenges := List.map (\<lambda>(cid, mc).
        (cid,
         if chSessionID (mcView mc) = sid \<and> chStatus (mcView mc) \<in> {ChallengePending, ChallengeContinuing}
         then mc\<lparr>mcView := (mcView mc)\<lparr>chStatus := ChallengeCompleted, chUpdatedAt := now\<rparr>\<rparr> else mc))
        (hoChallenges h)\<rparr>"

section \<open>Subscribers\<close>

definition theChannel :: "nat \<Rightarrow> controlHost \<Rightarrow> subscriberChannel option" where
  "theChannel c h = map_of (hoChannels h) c"

definition putChannel :: "nat \<Rightarrow> subscriberChannel \<Rightarrow> controlHost \<Rightarrow> controlHost" where
  "putChannel c ch h = h\<lparr>hoChannels := AList.update c ch (hoChannels h)\<rparr>"

definition Subscribe :: "nat \<Rightarrow> controlHost \<Rightarrow> controlHost" where
  "Subscribe buffer h =
     (let c = hoNextSub h
      in putChannel c \<lparr>sbCapacity = (if buffer = 0 then 32 else buffer), sbBuffer = [], sbClosed = False\<rparr>
           (h\<lparr>hoSubscribers := hoSubscribers h @ [c], hoNextSub := Suc c\<rparr>))"

text \<open>The cancel function of a subscription: delete it, and close its channel after the unlock.\<close>

definition Unsubscribe :: "nat \<Rightarrow> controlHost \<Rightarrow> controlHost \<times> hostTask list" where
  "Unsubscribe c h =
     (if c \<in> set (hoSubscribers h)
      then (h\<lparr>hoSubscribers := filter (\<lambda>d. d \<noteq> c) (hoSubscribers h)\<rparr>, [CloseSubscriber c])
      else (h, []))"

definition closeSubscriber :: "nat \<Rightarrow> controlHost \<Rightarrow> controlHost" where
  "closeSubscriber c h =
     (case theChannel c h of
        None \<Rightarrow> h
      | Some ch \<Rightarrow> if sbClosed ch then h\<lparr>hoPanicked := True\<rparr> else putChannel c (ch\<lparr>sbClosed := True\<rparr>) h)"

definition receiveEvent :: "nat \<Rightarrow> controlHost \<Rightarrow> controlHost" where
  "receiveEvent c h =
     (case theChannel c h of None \<Rightarrow> h | Some ch \<Rightarrow> putChannel c (ch\<lparr>sbBuffer := tl (sbBuffer ch)\<rparr>) h)"

text \<open>The first half of \<open>publishEvent\<close>: an identifier if there is none, and the channels to send to.\<close>

definition publishEvent :: "hostConfig \<Rightarrow> hostEvent \<Rightarrow> controlHost \<Rightarrow> controlHost \<times> hostTask list" where
  "publishEvent env ev h =
     (let (eid, h1) = (if hvID ev = [] then drawID env h else (hvID ev, h))
      in (h1, if hoSubscribers h1 = [] then [] else [SendEvent (ev\<lparr>hvID := eid\<rparr>) (hoSubscribers h1)]))"

text \<open>One send of its second half: a full channel misses the event, a closed one panics.\<close>

definition sendEvent :: "hostEvent \<Rightarrow> nat \<Rightarrow> controlHost \<Rightarrow> controlHost" where
  "sendEvent ev c h =
     (case theChannel c h of
        None \<Rightarrow> h
      | Some ch \<Rightarrow>
          if sbClosed ch then h\<lparr>hoPanicked := True\<rparr>
          else if length (sbBuffer ch) < sbCapacity ch then putChannel c (ch\<lparr>sbBuffer := sbBuffer ch @ [ev]\<rparr>) h
          else h)"

end
