(* ===== verification/HostResolutions.thy ===== *)
theory HostResolutions
  imports HostSessions
begin

text \<open>
  The locked sections of the client control host that deal with resolutions
  (\<^verbatim>\<open>pkg/clientcontrol/resolution.go\<close>): starting one, what a resolved credential may be used for,
  expiry, export, and starting a session from it.  The lease of a strict WireGuard plan is
  not modelled: asking for such a plan ends in an error after it has been materialized.
\<close>

section \<open>Texts\<close>

definition metadataText :: "providerResolution \<Rightarrow> string \<Rightarrow> string" where
  "metadataText r key = (case prMetadata r key of None \<Rightarrow> [] | Some v \<Rightarrow> TrimSpace v)"

definition redactedResolutionErrorMessage :: "resolveFailure \<Rightarrow> string" where
  "redactedResolutionErrorMessage f =
     (case xfProbe f of
        None \<Rightarrow> errorText (xfError f)
      | Some None \<Rightarrow> ''provider resolution failed''
      | Some (Some (stage, code)) \<Rightarrow>
          (let st = TrimSpace stage; co = TrimSpace code in
           if st \<noteq> [] \<and> co \<noteq> [] then ''provider resolution failed at '' @ st @ '' ['' @ co @ '']''
           else if st \<noteq> [] then ''provider resolution failed at '' @ st
           else if co \<noteq> [] then ''provider resolution failed ['' @ co @ '']''
           else ''provider resolution failed''))"

definition failureInfoFromResolutionError :: "resolveFailure \<Rightarrow> failureInfo" where
  "failureInfoFromResolutionError f =
     \<lparr>fiStage = (case xfProbe f of Some (Some (stage, _)) \<Rightarrow> stage | _ \<Rightarrow> []),
      fiMessage = redactedResolutionErrorMessage f,
      fiNotImplemented = errorIs (xfError f) errNotImplemented\<rparr>"

section \<open>Credentials and artifacts\<close>

definition hasTransportReadyTURNCredentials :: "providerResolution \<Rightarrow> bool" where
  "hasTransportReadyTURNCredentials r \<longleftrightarrow>
     TrimSpace (crUsername (prCredentials r)) \<noteq> [] \<and> TrimSpace (crPassword (prCredentials r)) \<noteq> [] \<and>
     TrimSpace (crAddress (prCredentials r)) \<noteq> []"

definition redactedResolutionCredentials :: "providerResolution \<Rightarrow> redactedCredentials option" where
  "redactedResolutionCredentials r =
     (if TrimSpace (crAddress (prCredentials r)) = [] then None
      else
        (let u = ''<redacted:turn-username>''; p = ''<redacted:turn-password>'';
             (u, p) =
               (case prArtifact r of
                  None \<Rightarrow> (u, p)
                | Some a \<Rightarrow>
                    (case paRedactedCredentials a of
                       None \<Rightarrow> (u, p)
                     | Some (u', p') \<Rightarrow> (firstNonBlank [u', u], firstNonBlank [p', p])))
         in Some \<lparr>rcAddress = crAddress (prCredentials r), rcUsername = u, rcPassword = p\<rparr>))"

definition supportsFamily :: "providerDescriptor \<Rightarrow> string \<Rightarrow> bool" where
  "supportsFamily d family \<longleftrightarrow> family \<in> set (pdArtifactFamilies d)"

definition resolutionArtifactFamily :: "providerDescriptor \<Rightarrow> providerResolution \<Rightarrow> string" where
  "resolutionArtifactFamily d r =
     (let single = (case pdArtifactFamilies d of [f] \<Rightarrow> f | _ \<Rightarrow> []) in
      if hasTransportReadyTURNCredentials r then ''generic_turn''
      else
        (case prArtifact r of
           None \<Rightarrow> single
         | Some a \<Rightarrow>
             if paRoomURL a \<noteq> None \<or> TrimSpace (paResultKind a) = ''conference_room''
             then (if supportsFamily d ''conference_room'' then ''conference_room'' else single)
             else if paCameraStream a \<noteq> None \<or> TrimSpace (paResultKind a) = ''camera_stream''
             then (if supportsFamily d ''camera_stream'' then ''camera_stream'' else single)
             else single))"

definition resolutionArtifactSummary :: "string \<Rightarrow> providerResolution \<Rightarrow> artifactSummary option" where
  "resolutionArtifactSummary family r =
     (if family = ''generic_turn'' then map_option SummaryTURN (redactedResolutionCredentials r)
      else if family = ''conference_room'' then
        (case prArtifact r of
           None \<Rightarrow> None
         | Some a \<Rightarrow>
             (case paRoomURL a of
                None \<Rightarrow> None
              | Some url \<Rightarrow> if TrimSpace url = [] then None else Some (SummaryRoom (TrimSpace url))))
      else if family = ''camera_stream'' then
        (case prArtifact r of
           None \<Rightarrow> None
         | Some a \<Rightarrow>
             (case paCameraStream a of
                None \<Rightarrow> None
              | Some (camera, archive) \<Rightarrow>
                  if TrimSpace camera = [] \<and> TrimSpace archive = [] then None
                  else Some (SummaryCamera (TrimSpace camera) (TrimSpace archive))))
      else None)"

definition resolutionExpiresAt ::
    "hostConfig \<Rightarrow> providerResolution \<Rightarrow> instant \<Rightarrow> instant option \<times> string" where
  "resolutionExpiresAt env r now =
     (let source = firstNonBlank [metadataText r ''turn_credential_expiry_source'', ''provider_credentials_ttl''];
          raw = metadataText r ''turn_credential_expires_at'';
          ttl = (if crTTL (prCredentials r) \<le> 0 then (None, [])
                 else (Some (now + crTTL (prCredentials r)), source))
      in if raw \<noteq> [] then (case hcParseTime env raw of Some t \<Rightarrow> (Some t, source) | None \<Rightarrow> ttl) else ttl)"

definition resolutionExportStatus :: "hostConfig \<Rightarrow> providerResolution \<Rightarrow> instant \<Rightarrow> exportStatus" where
  "resolutionExportStatus env r now =
     (case resolutionExpiresAt env r now of
        (expires, source) \<Rightarrow>
          \<lparr>xsSupported = (case expires of None \<Rightarrow> False | Some t \<Rightarrow> now < t),
           xsExpiresAt = expires, xsExpirySource = source\<rparr>)"

definition noExport :: exportStatus where
  "noExport = \<lparr>xsSupported = False, xsExpiresAt = None, xsExpirySource = []\<rparr>"

definition artifactActionSupported :: "string \<Rightarrow> string \<Rightarrow> exportStatus \<Rightarrow> artifactSummary \<Rightarrow> bool" where
  "artifactActionSupported action family export summary =
     (if action = ''start_on_this_device'' then family = ''generic_turn''
      else if action = ''export_handoff'' then family = ''generic_turn'' \<and> xsSupported export
      else if action = ''open_room'' then
        family = ''conference_room'' \<and> (case summary of SummaryRoom url \<Rightarrow> TrimSpace url \<noteq> [] | _ \<Rightarrow> False)
      else if action = ''open_camera'' then
        family = ''camera_stream'' \<and> (case summary of SummaryCamera c _ \<Rightarrow> TrimSpace c \<noteq> [] | _ \<Rightarrow> False)
      else if action = ''open_archive'' then
        family = ''camera_stream'' \<and> (case summary of SummaryCamera _ a \<Rightarrow> TrimSpace a \<noteq> [] | _ \<Rightarrow> False)
      else False)"

definition artifactActionExecutionOwner :: "string \<Rightarrow> string" where
  "artifactActionExecutionOwner action =
     (if action \<in> {''open_room'', ''open_camera'', ''open_archive''} then ''shell_external'' else ''host'')"

definition resolutionArtifactActions ::
    "hostConfig \<Rightarrow> providerDescriptor \<Rightarrow> string \<Rightarrow> exportStatus \<Rightarrow> artifactSummary \<Rightarrow> resolutionAction list" where
  "resolutionArtifactActions env d family export summary =
     List.map (\<lambda>action. \<lparr>raID = action, raOwner = artifactActionExecutionOwner action,
         raPlans = resolutionExecutionPlansForAction action family (hcTunnelPlans env)\<rparr>)
       (filter (\<lambda>action. artifactActionSupported action family export summary) (pdPotentialActions d))"

definition resolutionArtifactFromResolution ::
    "hostConfig \<Rightarrow> providerDescriptor \<Rightarrow> providerResolution \<Rightarrow> exportStatus \<Rightarrow> resolutionArtifact option" where
  "resolutionArtifactFromResolution env d r export =
     (let family = resolutionArtifactFamily d r in
      if family = [] then None
      else map_option (\<lambda>summary.
        \<lparr>rtFamily = family, rtAccessMethods = resolutionArtifactAccessMethods family,
         rtActions = resolutionArtifactActions env d family export summary, rtSummary = summary\<rparr>)
        (resolutionArtifactSummary family r))"

definition resolvedSnapshotContract ::
    "hostConfig \<Rightarrow> providerDescriptor \<Rightarrow> providerResolution \<Rightarrow> instant \<Rightarrow>
      goError + redactedCredentials option \<times> exportStatus \<times> resolutionArtifact" where
  "resolvedSnapshotContract env d r now =
     (let family = resolutionArtifactFamily d r; refuse = (\<lambda>what. Inl (ErrText (''provider resolution returned '' @ what)))
      in if family = [] then refuse ''no supported runtime artifact''
      else if family = ''generic_turn'' then
        (if \<not> hasTransportReadyTURNCredentials r then refuse ''incomplete TURN credentials''
         else
           (let export = resolutionExportStatus env r now in
            case resolutionArtifactFromResolution env d r export of
              None \<Rightarrow> refuse ''incomplete generic_turn runtime artifact''
            | Some a \<Rightarrow> Inr (redactedResolutionCredentials r, export, a)))
      else if family = ''conference_room'' \<or> family = ''camera_stream'' then
        (case resolutionArtifactFromResolution env d r noExport of
           None \<Rightarrow> refuse (''incomplete '' @ family @ '' runtime artifact'')
         | Some a \<Rightarrow> Inr (None, noExport, a))
      else refuse (''unsupported artifact family '' @ family))"

definition redactedLinkFromArtifact :: "probeArtifact option \<Rightarrow> string" where
  "redactedLinkFromArtifact a =
     (case a of
        None \<Rightarrow> []
      | Some p \<Rightarrow>
          if paLinkRedacted p \<noteq> [] then paLinkRedacted p
          else if paInviteURLRedacted p \<noteq> [] then paInviteURLRedacted p
          else paJoinTokenRedacted p)"

section \<open>Starting a resolution\<close>

definition normalizeStartResolutionRequest ::
    "hostConfig \<Rightarrow> startResolutionRequest \<Rightarrow> providerDescriptor \<Rightarrow> hostError + startResolutionRequest" where
  "normalizeStartResolutionRequest env req d =
     (case rqInput req of
        None \<Rightarrow> Inl InputRequired
      | Some (kind, link) \<Rightarrow>
          (let kind = TrimSpace kind; link = TrimSpace link in
           if kind = [] then Inl InputKindRequired
           else if kind \<noteq> pdInputKind d then Inl (InputKindMismatch (pdInputKind d) kind)
           else if kind \<noteq> ''link'' then Inl (InputKindUnsupported kind)
           else if link = [] then Inl InputLinkRequired
           else
             (case normalizeProviderSettingsForDescriptor (hcSettings env) d (rqSettings req) ModeImmediate of
                Inl e \<Rightarrow> Inl (SettingsRefused e)
              | Inr out \<Rightarrow>
                  Inr \<lparr>rqProvider = TrimSpace (rqProvider req), rqInput = Some (kind, link), rqSettings = out,
                    rqLink = link, rqInteractive = (pdChallengeModes d \<noteq> [])\<rparr>)))"

definition StartResolution ::
    "hostConfig \<Rightarrow> instant \<Rightarrow> startResolutionRequest \<Rightarrow> hostError + hostTask" where
  "StartResolution env now req =
     (let provider = TrimSpace (rqProvider req) in
      if provider = [] then Inl ProviderRequired
      else
        (case hostDescriptor env provider of
           Inl e \<Rightarrow> Inl e
         | Inr d \<Rightarrow>
             (case normalizeStartResolutionRequest env (req\<lparr>rqProvider := provider\<rparr>) d of
                Inl e \<Rightarrow> Inl e
              | Inr r \<Rightarrow> Inr (AllocateResolution 8 r d now))))"

definition allocateResolutionID ::
    "hostConfig \<Rightarrow> nat \<Rightarrow> startResolutionRequest \<Rightarrow> providerDescriptor \<Rightarrow> instant \<Rightarrow> controlHost \<Rightarrow>
      controlHost \<times> hostTask list" where
  "allocateResolutionID env n req d now h =
     (let (drawn, h1) = drawID env h; candidate = TrimSpace drawn
      in if candidate \<noteq> [] \<and> theResolution candidate h1 = None
         then (h1, [InsertResolution candidate req d now])
         else (h1, if n \<le> 1 then [] else [AllocateResolution (n - 1) req d now]))"

definition insertResolution ::
    "hostConfig \<Rightarrow> string \<Rightarrow> startResolutionRequest \<Rightarrow> providerDescriptor \<Rightarrow> instant \<Rightarrow> controlHost \<Rightarrow>
      controlHost \<times> hostTask list" where
  "insertResolution env rid req d now h =
     (let view = \<lparr>rvID = rid, rvProvider = rqProvider req, rvMethod = [],
            rvInput = \<lparr>inProvider = rqProvider req,
              inKind = (case rqInput req of None \<Rightarrow> [] | Some (kind, _) \<Rightarrow> kind),
              inLinkRedacted = hcRedactInput env (rqProvider req) (rqLink req),
              inInteractive = rqInteractive req\<rparr>,
            rvArtifact = None, rvState = ResolutionStarting, rvCredentials = None, rvExport = noExport,
            rvFailure = None, rvActiveChallenge = [], rvStartedAt = now, rvUpdatedAt = now,
            rvResolvedAt = None, rvExpiredAt = None, rvRemoteVPS = None\<rparr>;
          ev = resolutionSnapshotEvent view EvResolutionStarting []
      in (putResolution rid \<lparr>mrView = view, mrSecret = None, mrRemoteExport = [], mrDescriptor = d, mrCtx = None, mrDone = False,
            mrInput = req, mrEvents = appendWithLimit [] ev (hcLimit env), mrChallenges = []\<rparr> h,
          [PublishEvent ev, SpawnRun (ResolutionScope rid)]))"

section \<open>Expiry\<close>

definition dropActions :: "resolutionArtifact option \<Rightarrow> resolutionArtifact option" where
  "dropActions a = map_option (\<lambda>t. t\<lparr>rtActions := []\<rparr>) a"

definition expireResolution ::
    "hostConfig \<Rightarrow> instant \<Rightarrow> managedResolution \<Rightarrow> managedResolution \<times> hostEvent option" where
  "expireResolution env now m =
     (case (rvState (mrView m), xsExpiresAt (rvExport (mrView m))) of
        (ResolutionResolved, Some t) \<Rightarrow>
          if now < t then (m, None)
          else
            (let v = mrView m;
                 view = v\<lparr>rvState := ResolutionExpired, rvExport := (rvExport v)\<lparr>xsSupported := False\<rparr>,
                   rvActiveChallenge := [], rvUpdatedAt := now, rvExpiredAt := Some now,
                   rvArtifact := dropActions (rvArtifact v)\<rparr>;
                 ev = resolutionSnapshotEvent view EvResolutionExpired ''expired''
             in (addResolutionEvent env ev (m\<lparr>mrView := view, mrSecret := None\<rparr>), Some ev))
      | _ \<Rightarrow> (m, None))"

text \<open>A locked read of a resolution, as all uses of it begin: expire, then take the snapshot.\<close>

definition readResolution ::
    "hostConfig \<Rightarrow> instant \<Rightarrow> string \<Rightarrow> controlHost \<Rightarrow>
      (resolutionView \<times> providerResolution option) option \<times> controlHost \<times> hostTask list" where
  "readResolution env now rid h =
     (case theResolution rid h of
        None \<Rightarrow> (None, h, [])
      | Some m \<Rightarrow>
          (case expireResolution env now m of
             (m', ev) \<Rightarrow>
               (Some (mrView m', mrSecret m'), putResolution rid m' h,
                case ev of None \<Rightarrow> [] | Some e \<Rightarrow> [PublishEvent e])))"

definition CancelResolution ::
    "hostConfig \<Rightarrow> instant \<Rightarrow> string \<Rightarrow> controlHost \<Rightarrow>
      (hostError + resolutionView) \<times> controlHost \<times> hostTask list" where
  "CancelResolution env now rid h =
     (case theResolution rid h of
        None \<Rightarrow> (Inl ResolutionNotFound, h, [])
      | Some m \<Rightarrow>
          if rvState (mrView m) \<in> {ResolutionResolved, ResolutionFailed, ResolutionCancelled, ResolutionExpired}
          then (Inr (mrView m), h, [])
          else
            (let view = (mrView m)\<lparr>rvState := ResolutionCancelled, rvActiveChallenge := [], rvUpdatedAt := now\<rparr>;
                 ev = resolutionSnapshotEvent view EvResolutionCancelled ''cancelled''
             in (Inr view, putResolution rid (addResolutionEvent env ev (m\<lparr>mrView := view, mrDone := True\<rparr>)) h,
                 [PublishEvent ev, CancelRun (ResolutionScope rid)])))"

section \<open>Using a resolution\<close>

definition resolutionSupportsAction :: "resolutionView \<Rightarrow> string \<Rightarrow> bool" where
  "resolutionSupportsAction v action \<longleftrightarrow>
     (case rvArtifact v of None \<Rightarrow> False | Some a \<Rightarrow> \<exists>c\<in>set (rtActions a). raID c = action)"

definition selectResolutionExecutionPlan ::
    "resolutionView \<Rightarrow> string \<Rightarrow> executionPlan option \<Rightarrow> planError + planDescriptor" where
  "selectResolutionExecutionPlan v action requested =
     (let none = Inl (if requested = None then PlanUnavailable else PlanUnsupported) in
      case rvArtifact v of
        None \<Rightarrow> none
      | Some a \<Rightarrow>
          (case find (\<lambda>c. raID c = action) (rtActions a) of
             None \<Rightarrow> none
           | Some c \<Rightarrow> selectRuntimeExecutionPlanDescriptor (raPlans c) requested))"

record exportResult =
  erResolutionID :: string
  erLink :: string
  erExpiresAt :: instant
  erExpirySource :: string

text \<open>The link of an export: the payload a VPS has issued, else the link of the secret.\<close>

definition exportLink :: "hostConfig \<Rightarrow> providerResolution option \<Rightarrow> string \<Rightarrow> string" where
  "exportLink env secret payload =
     (if TrimSpace payload \<noteq> [] then payload else (case secret of None \<Rightarrow> [] | Some r \<Rightarrow> hcFormatLink env (prCredentials r)))"

text \<open>
  What \<open>ExportResolution\<close> answers from the snapshot, the secret and the export payload of a VPS it has
  read.  The secret that is gone is the zero value of Go, for which there is no link.
\<close>

definition exportFrom ::
    "hostConfig \<Rightarrow> resolutionView \<Rightarrow> providerResolution option \<Rightarrow> string \<Rightarrow> hostError + exportResult" where
  "exportFrom env v secret payload =
     (if rvState v = ResolutionExpired then Inl ResolutionHasExpired
      else if rvState v \<noteq> ResolutionResolved then Inl NotTransportReady
      else if \<not> resolutionSupportsAction v ''export_handoff'' then Inl (ActionUnavailable ''export_handoff'')
      else
        (case xsExpiresAt (rvExport v) of
           None \<Rightarrow> Inl ExportUnavailable
         | Some expires \<Rightarrow>
             if \<not> xsSupported (rvExport v) then Inl ExportUnavailable
             else
               (let link = exportLink env secret payload in
                if link = [] then Inl ExportUnavailable
                else Inr \<lparr>erResolutionID = rvID v, erLink = link, erExpiresAt = expires,
                  erExpirySource = xsExpirySource (rvExport v)\<rparr>)))"

definition ExportResolution ::
    "hostConfig \<Rightarrow> instant \<Rightarrow> string \<Rightarrow> controlHost \<Rightarrow> (hostError + exportResult) \<times> controlHost \<times> hostTask list" where
  "ExportResolution env now rid h =
     (case readResolution env now rid h of
        (None, h', ts) \<Rightarrow> (Inl ResolutionNotFound, h', ts)
      | (Some (v, secret), h', ts) \<Rightarrow>
          (exportFrom env v secret (case theResolution rid h of None \<Rightarrow> [] | Some m \<Rightarrow> mrRemoteExport m), h', ts))"

definition buildMaterializedProfileSpec ::
    "hostConfig \<Rightarrow> credentials \<Rightarrow> runtimeDefaults \<Rightarrow> hostError + profileSpec" where
  "buildMaterializedProfileSpec env c d =
     normalizeRuntimeProfileSpec
       \<lparr>psProvider = ''generic-turn'', psLink = hcFormatLink env c, psSettings = [],
        psListenAddr = rdListenAddr d, psPeerAddr = rdPeerAddr d, psIngress = rdIngress d,
        psConnections = rdConnections d, psTURNServer = rdTURNServer d, psTURNPort = rdTURNPort d,
        psBindInterface = rdBindInterface d, psMode = rdMode d, psUseDTLS = rdUseDTLS d,
        psInteractive = False, psLogLevel = rdLogLevel d\<rparr>"

definition emptyCredentials :: credentials where
  "emptyCredentials = \<lparr>crUsername = [], crPassword = [], crAddress = [], crTTL = 0\<rparr>"

definition secretCredentials :: "providerResolution option \<Rightarrow> credentials" where
  "secretCredentials s = (case s of None \<Rightarrow> emptyCredentials | Some r \<Rightarrow> prCredentials r)"

definition materializeFrom ::
    "hostConfig \<Rightarrow> resolutionView \<Rightarrow> providerResolution option \<Rightarrow> runtimeDefaults \<Rightarrow> executionPlan option \<Rightarrow>
      hostError + profileSpec" where
  "materializeFrom env v secret defaults requested =
     (if rvState v = ResolutionExpired then Inl ResolutionHasExpired
      else if rvState v \<noteq> ResolutionResolved then Inl NotTransportReady
      else if \<not> resolutionSupportsAction v ''start_on_this_device'' then Inl (ActionUnavailable ''start_on_this_device'')
      else
        (case selectResolutionExecutionPlan v ''start_on_this_device'' requested of
           Inl e \<Rightarrow> Inl (PlanRefused e)
         | Inr d \<Rightarrow>
             if isOverlayPlan (xdPlan d) then buildMaterializedProfileSpec env (secretCredentials secret) defaults
             else Inl (PlanRefused PlanUnavailable)))"

definition MaterializeResolutionWithPlan ::
    "hostConfig \<Rightarrow> instant \<Rightarrow> string \<Rightarrow> runtimeDefaults \<Rightarrow> executionPlan option \<Rightarrow> controlHost \<Rightarrow>
      (hostError + profileSpec) \<times> controlHost \<times> hostTask list" where
  "MaterializeResolutionWithPlan env now rid defaults requested h =
     (case readResolution env now rid h of
        (None, h', ts) \<Rightarrow> (Inl ResolutionNotFound, h', ts)
      | (Some (v, secret), h', ts) \<Rightarrow>
          (case materializeFrom env v secret defaults requested of
             Inl e \<Rightarrow> (Inl e, h', ts)
           | Inr spec \<Rightarrow>
               (Inr spec, h',
                ts @ [AllocateSession 8 \<lparr>ssPlatformMode = [], ssProfileID = [], ssProfileName = [],
                  ssSpec = spec, ssSource = rid, ssStartedAt = now\<rparr>])))"

section \<open>The end of a resolution\<close>

definition failedView :: "instant \<Rightarrow> resolveFailure \<Rightarrow> resolutionView \<Rightarrow> resolutionView" where
  "failedView now f v =
     (let v' = v\<lparr>rvActiveChallenge := [], rvUpdatedAt := now\<rparr> in
      if rvState v = ResolutionCancelled then v'
      else if errorIs (xfError f) ctxCanceled \<or> errorIs (xfError f) errChallengeCanceled
      then v'\<lparr>rvState := ResolutionCancelled\<rparr>
      else v'\<lparr>rvState := ResolutionFailed, rvFailure := Some (failureInfoFromResolutionError f)\<rparr>)"

definition finishResolutionFailure ::
    "hostConfig \<Rightarrow> instant \<Rightarrow> string \<Rightarrow> resolveFailure \<Rightarrow> controlHost \<Rightarrow> controlHost \<times> hostTask list" where
  "finishResolutionFailure env now rid f h =
     (case theResolution rid h of
        None \<Rightarrow> (h, [])
      | Some m \<Rightarrow>
          (let view = failedView now f (mrView m);
               cancelled = rvState (mrView m) \<noteq> ResolutionCancelled \<and> rvState view = ResolutionCancelled;
               ev = (if cancelled then resolutionSnapshotEvent view EvResolutionCancelled ''cancelled''
                     else resolutionSnapshotEvent view EvResolutionFailed (redactedResolutionErrorMessage f));
               m' = m\<lparr>mrView := view\<rparr>
           in if mrDone m then (putResolution rid m' h, [])
              else (putResolution rid (addResolutionEvent env ev (m'\<lparr>mrDone := True\<rparr>)) h, [PublishEvent ev])))"

definition resolvedView ::
    "instant \<Rightarrow> providerResolution \<Rightarrow> redactedCredentials option \<times> exportStatus \<times> resolutionArtifact \<Rightarrow>
      resolutionView \<Rightarrow> resolutionView" where
  "resolvedView now r contract v =
     (case contract of
        (creds, export, artifact) \<Rightarrow>
          (let v' = v\<lparr>rvProvider := firstNonBlank [metadataText r ''provider'', rvProvider v],
                 rvMethod := metadataText r ''resolution_method'',
                 rvInput := (rvInput v)\<lparr>inLinkRedacted :=
                   firstNonBlank [redactedLinkFromArtifact (prArtifact r), inLinkRedacted (rvInput v)]\<rparr>,
                 rvCredentials := creds, rvExport := export, rvArtifact := Some artifact,
                 rvState := ResolutionResolved, rvActiveChallenge := [], rvUpdatedAt := now,
                 rvResolvedAt := Some now\<rparr>
           in case xsExpiresAt export of
                None \<Rightarrow> v'
              | Some t \<Rightarrow>
                  if now < t then v'
                  else v'\<lparr>rvState := ResolutionExpired, rvExport := export\<lparr>xsSupported := False\<rparr>,
                    rvArtifact := dropActions (Some artifact), rvExpiredAt := Some now\<rparr>))"

definition finishResolutionSuccess ::
    "hostConfig \<Rightarrow> instant \<Rightarrow> string \<Rightarrow> providerResolution \<Rightarrow> controlHost \<Rightarrow> controlHost \<times> hostTask list" where
  "finishResolutionSuccess env now rid r h =
     (case theResolution rid h of
        None \<Rightarrow> (h, [])
      | Some m \<Rightarrow>
          if rvState (mrView m) \<in> {ResolutionCancelled, ResolutionFailed, ResolutionExpired} then (h, [])
          else
            (case resolvedSnapshotContract env (mrDescriptor m) r now of
               Inl e \<Rightarrow> (h, [FinishResolution rid (Inl \<lparr>xfError = e, xfProbe = None\<rparr>)])
             | Inr contract \<Rightarrow>
                 (let view = resolvedView now r contract (mrView m);
                      expired = (rvState view = ResolutionExpired);
                      ev = (if expired then resolutionSnapshotEvent view EvResolutionExpired ''expired''
                            else resolutionSnapshotEvent view EvResolutionResolved [])
                  in (putResolution rid (addResolutionEvent env ev
                        (m\<lparr>mrView := view, mrSecret := (if expired then None else Some r), mrDone := True\<rparr>)) h,
                      [PublishEvent ev]))))"

section \<open>Challenges of a resolution\<close>

definition recordResolutionChallenge ::
    "hostConfig \<Rightarrow> string \<Rightarrow> challenge \<Rightarrow> controlHost \<Rightarrow> controlHost \<times> hostTask list" where
  "recordResolutionChallenge env rid c h =
     (case theResolution rid h of
        None \<Rightarrow> (h, [])
      | Some m \<Rightarrow>
          (let (eid, h1) = drawID env h;
               ev = (blankEvent EvChallengeRequired (chCreatedAt c))\<lparr>hvID := eid, hvResolutionID := rid,
                 hvResolutionState := Some ResolutionChallengeRequired, hvChallenge := Some c\<rparr>;
               m' = m\<lparr>mrView := (mrView m)\<lparr>rvState := ResolutionChallengeRequired, rvActiveChallenge := chID c,
                   rvUpdatedAt := chUpdatedAt c\<rparr>,
                 mrChallenges := appendWithLimit (mrChallenges m) c (hcLimit env)\<rparr>
           in (putResolution rid (addResolutionEvent env ev m')
                 (putChallenge (chID c) \<lparr>mcView = c, mcActions = []\<rparr> h1),
               [PublishEvent ev])))"

end
