(* ===== verification/ControlHost.thy ===== *)
theory ControlHost
  imports HostResolutions
begin

text \<open>
  The client control host as a step machine (\<^verbatim>\<open>pkg/clientcontrol/host.go\<close>, \<^verbatim>\<open>resolution.go\<close>).  A client
  call starts a goroutine; the run of a session or of a resolution is a goroutine too.  A step lets
  one goroutine execute its next task, which is one locked section, one channel operation or one
  outcome of the code outside: what \<open>session.Run\<close> logs and returns, what a provider resolves to or
  asks for, which branch a \<open>select\<close> takes.
\<close>

section \<open>What happens outside\<close>

datatype hostChoice =
    Proceed
  | EmitRecord runtimeRecord
  | RaiseChallenge interactiveChallenge brokerKind
  | RunReturns "goError option"
  | ResolveReturns "resolveFailure + providerResolution"
  | TakeAction
  | TakeCancel
  | ContinuationReturns "goError option"
  | StopperSucceeds

section \<open>Tasks\<close>

definition scopeCtx :: "challengeScope \<Rightarrow> controlHost \<Rightarrow> goError option" where
  "scopeCtx sc h =
     (case sc of
        SessionScope sid \<Rightarrow> (case theSession sid h of None \<Rightarrow> None | Some m \<Rightarrow> mgCtx m)
      | ResolutionScope rid \<Rightarrow> (case theResolution rid h of None \<Rightarrow> None | Some m \<Rightarrow> mrCtx m))"

text \<open>Cancelling a context twice keeps its first error.\<close>

definition cancelCtx :: "goError option \<Rightarrow> goError option" where
  "cancelCtx c = (case c of None \<Rightarrow> Some ctxCanceled | Some e \<Rightarrow> Some e)"

definition cancelRun :: "challengeScope \<Rightarrow> controlHost \<Rightarrow> controlHost" where
  "cancelRun sc h =
     (case sc of
        SessionScope sid \<Rightarrow> updSession sid (\<lambda>m. m\<lparr>mgCtx := cancelCtx (mgCtx m)\<rparr>) h
      | ResolutionScope rid \<Rightarrow> updResolution rid (\<lambda>m. m\<lparr>mrCtx := cancelCtx (mrCtx m)\<rparr>) h)"

definition runTask :: "challengeScope \<Rightarrow> hostTask" where
  "runTask sc = (case sc of SessionScope sid \<Rightarrow> RunSession sid | ResolutionScope rid \<Rightarrow> RunResolution rid)"

definition spawnRun :: "challengeScope \<Rightarrow> controlHost \<Rightarrow> controlHost" where
  "spawnRun sc h = h\<lparr>hoThreads := hoThreads h @ [[runTask sc]]\<rparr>"

text \<open>The \<open>select\<close> of \<open>waitChallengeAction\<close> and what the broker does with its outcome.\<close>

definition afterAction :: "string \<Rightarrow> brokerKind \<Rightarrow> challengeAction \<Rightarrow> hostTask list" where
  "afterAction cid kind a =
     (case a of
        ActionCancel \<Rightarrow> [CompleteChallenge cid ChallengeCancelled ''cancelled'']
      | ActionContinue _ \<Rightarrow>
          (case kind of
             BrokerHandle \<Rightarrow> [CompleteChallenge cid ChallengeCompleted ''continued'']
           | BrokerContinue \<Rightarrow> [FinishContinuation cid]))"

definition awaitAction ::
    "hostChoice \<Rightarrow> challengeScope \<Rightarrow> string \<Rightarrow> brokerKind \<Rightarrow> controlHost \<Rightarrow> controlHost \<times> hostTask list" where
  "awaitAction choice sc cid kind h =
     (case theChallenge cid h of
        None \<Rightarrow> (h, [CompleteChallenge cid ChallengeFailed ''client control challenge not found''])
      | Some mc \<Rightarrow>
          (case choice of
             TakeAction \<Rightarrow>
               (case mcActions mc of
                  [] \<Rightarrow> (h, [AwaitAction sc cid kind])
                | a # rest \<Rightarrow> (putChallenge cid (mc\<lparr>mcActions := rest\<rparr>) h, afterAction cid kind a))
           | TakeCancel \<Rightarrow>
               (case scopeCtx sc h of
                  None \<Rightarrow> (h, [AwaitAction sc cid kind])
                | Some e \<Rightarrow> (h, [CompleteChallenge cid ChallengeFailed (errorText e)]))
           | _ \<Rightarrow> (h, [AwaitAction sc cid kind])))"

text \<open>
  The run of a session between two records or challenges.  Challenges reach the host only if the
  profile says that the provider is interactive.
\<close>

definition raiseChallenge ::
    "hostConfig \<Rightarrow> instant \<Rightarrow> challengeScope \<Rightarrow> interactiveChallenge \<Rightarrow> brokerKind \<Rightarrow> controlHost \<Rightarrow>
      controlHost \<times> hostTask list" where
  "raiseChallenge env now sc c kind h =
     (let (cid, h1) = drawID env h;
          (sid, rid) = (case sc of SessionScope sid \<Rightarrow> (sid, []) | ResolutionScope rid \<Rightarrow> ([], rid));
          rec = buildChallengeRecord (hcMetadata env) now cid sid rid c;
          (h2, ts) = (case sc of SessionScope sid \<Rightarrow> recordChallenge env sid rec h1
                      | ResolutionScope rid \<Rightarrow> recordResolutionChallenge env rid rec h1)
      in (h2, ts @ [AwaitAction sc cid kind, runTask sc]))"

definition runHostSession ::
    "hostConfig \<Rightarrow> instant \<Rightarrow> hostChoice \<Rightarrow> string \<Rightarrow> controlHost \<Rightarrow> controlHost \<times> hostTask list" where
  "runHostSession env now choice sid h =
     (case choice of
        EmitRecord r \<Rightarrow> (case handleRuntimeRecord env now sid r h of (h', ts) \<Rightarrow> (h', ts @ [RunSession sid]))
      | RaiseChallenge c kind \<Rightarrow>
          (case theSession sid h of
             None \<Rightarrow> (h, [RunSession sid])
           | Some m \<Rightarrow>
               if psInteractive (mgSpec m) then raiseChallenge env now (SessionScope sid) c kind h
               else (h, [RunSession sid]))
      | RunReturns err \<Rightarrow> (h, [FinishSession sid err])
      | _ \<Rightarrow> (h, [RunSession sid]))"

definition runResolution ::
    "hostConfig \<Rightarrow> instant \<Rightarrow> hostChoice \<Rightarrow> string \<Rightarrow> controlHost \<Rightarrow> controlHost \<times> hostTask list" where
  "runResolution env now choice rid h =
     (case choice of
        RaiseChallenge c kind \<Rightarrow>
          (case theResolution rid h of
             None \<Rightarrow> (h, [RunResolution rid])
           | Some m \<Rightarrow>
               if rqInteractive (mrInput m) then raiseChallenge env now (ResolutionScope rid) c kind h
               else (h, [RunResolution rid]))
      | ResolveReturns r \<Rightarrow> (h, [FinishResolution rid r])
      | _ \<Rightarrow> (h, [RunResolution rid]))"

definition finishResolution ::
    "hostConfig \<Rightarrow> instant \<Rightarrow> string \<Rightarrow> resolveFailure + providerResolution \<Rightarrow> controlHost \<Rightarrow>
      controlHost \<times> hostTask list" where
  "finishResolution env now rid r h =
     (case r of
        Inl f \<Rightarrow> finishResolutionFailure env now rid f h
      | Inr res \<Rightarrow> finishResolutionSuccess env now rid res h)"

fun execTask ::
    "hostConfig \<Rightarrow> instant \<Rightarrow> hostChoice \<Rightarrow> hostTask \<Rightarrow> controlHost \<Rightarrow> controlHost \<times> hostTask list" where
  "execTask env now ch (CallUpsertProfile p) h = (snd (UpsertProfile env p h), [])"
| "execTask env now ch (CallDeleteProfile pid) h = (snd (DeleteProfile pid h), [])"
| "execTask env now ch (CallStartSession req) h = StartSession env now req h"
| "execTask env now ch (CallStopSession sid) h = snd (StopSession env now sid h)"
| "execTask env now ch (CallStartResolution req) h =
     (h, case StartResolution env now req of Inl _ \<Rightarrow> [] | Inr t \<Rightarrow> [t])"
| "execTask env now ch (CallReadResolution rid) h = snd (readResolution env now rid h)"
| "execTask env now ch (CallExportResolution rid) h = snd (ExportResolution env now rid h)"
| "execTask env now ch (CallCancelResolution rid) h = snd (CancelResolution env now rid h)"
| "execTask env now ch (CallMaterialize rid defaults plan) h =
     snd (MaterializeResolutionWithPlan env now rid defaults plan h)"
| "execTask env now ch (CallSignal cid action status) h = snd (signalChallenge now cid action status h)"
| "execTask env now ch (CallSubscribe n) h = (Subscribe n h, [])"
| "execTask env now ch (CallUnsubscribe c) h = Unsubscribe c h"
| "execTask env now ch (CallReceive c) h = (receiveEvent c h, [])"
| "execTask env now ch (CallPlatformSession mode spec src) h =
     (h, [AllocateSession 8 \<lparr>ssPlatformMode = mode, ssProfileID = [], ssProfileName = [], ssSpec = spec,
        ssSource = src, ssStartedAt = now\<rparr>])"
| "execTask env now ch (CallCancelContext sc) h = (cancelRun sc h, [])"
| "execTask env now ch (AllocateSession n st) h = allocateSessionID env n st h"
| "execTask env now ch (InsertSession sid st) h = insertSession env sid st h"
| "execTask env now ch (AllocateResolution n req d at) h = allocateResolutionID env n req d at h"
| "execTask env now ch (InsertResolution rid req d at) h = insertResolution env rid req d at h"
| "execTask env now ch (SpawnRun sc) h = (spawnRun sc h, [])"
| "execTask env now ch (RunSession sid) h = runHostSession env now ch sid h"
| "execTask env now ch (RunResolution rid) h = runResolution env now ch rid h"
| "execTask env now ch (AwaitAction sc cid kind) h = awaitAction ch sc cid kind h"
| "execTask env now ch (FinishContinuation cid) h =
     (h, case ch of
           ContinuationReturns None \<Rightarrow> [CompleteChallenge cid ChallengeCompleted ''completed'']
         | ContinuationReturns (Some e) \<Rightarrow> [CompleteChallenge cid ChallengeFailed (errorText e)]
         | _ \<Rightarrow> [FinishContinuation cid])"
| "execTask env now ch (CompleteChallenge cid status message) h = completeChallenge env now cid status message h"
| "execTask env now ch (AppendSignal cid ev) h = appendSignal env ev h"
| "execTask env now ch (SendAction cid a) h = (sendAction cid a h, [])"
| "execTask env now ch (FinishSession sid err) h = finishSession now sid err h"
| "execTask env now ch (FinishReport sid view closed) h = (h, finishReport sid view closed h)"
| "execTask env now ch (AppendStopped sid ev) h = (updSession sid (addSessionEvent env ev) h, [])"
| "execTask env now ch (FinishResolution rid r) h = finishResolution env now rid r h"
| "execTask env now ch (CloseDone sid) h = (closeDone sid h, [])"
| "execTask env now ch (CancelRun sc) h = (cancelRun sc h, [])"
| "execTask env now ch (ClearPending sid) h = (clearPendingChallenges now sid h, [])"
| "execTask env now ch (StopPlatform mode) h =
     (case ch of StopperSucceeds \<Rightarrow> publishPlatformTunnelStop env now mode ''stopped'' h | _ \<Rightarrow> (h, []))"
| "execTask env now ch (PublishEvent ev) h = publishEvent env ev h"
| "execTask env now ch (SendEvent ev cs) h =
     (case cs of [] \<Rightarrow> (h, []) | c # rest \<Rightarrow> (sendEvent ev c h, if rest = [] then [] else [SendEvent ev rest]))"
| "execTask env now ch (CloseSubscriber c) h = (closeSubscriber c h, [])"

section \<open>Steps\<close>

text \<open>What a client may call.  A platform tunnel has a mode.\<close>

fun isCall :: "hostTask \<Rightarrow> bool" where
  "isCall (CallUpsertProfile p) = True"
| "isCall (CallDeleteProfile pid) = True"
| "isCall (CallStartSession req) = True"
| "isCall (CallStopSession sid) = True"
| "isCall (CallStartResolution req) = True"
| "isCall (CallReadResolution rid) = True"
| "isCall (CallExportResolution rid) = True"
| "isCall (CallCancelResolution rid) = True"
| "isCall (CallMaterialize rid defaults plan) = True"
| "isCall (CallSignal cid action status) =
     (status = (case action of ActionContinue _ \<Rightarrow> ChallengeContinuing | ActionCancel \<Rightarrow> ChallengeCancelled))"
| "isCall (CallSubscribe n) = True"
| "isCall (CallUnsubscribe c) = True"
| "isCall (CallReceive c) = True"
| "isCall (CallPlatformSession mode spec src) = (mode \<noteq> [])"
| "isCall (CallCancelContext sc) = True"
| "isCall (StopPlatform mode) = (mode \<noteq> [])"
| "isCall _ = False"

datatype hostAct =
    Invoke hostTask
  | Step nat instant hostChoice

definition stepThread :: "hostConfig \<Rightarrow> nat \<Rightarrow> instant \<Rightarrow> hostChoice \<Rightarrow> controlHost \<Rightarrow> controlHost" where
  "stepThread env i now ch h =
     (if length (hoThreads h) \<le> i then h
      else
        (case hoThreads h ! i of
           [] \<Rightarrow> h
         | t # rest \<Rightarrow>
             (case execTask env now ch t h of
                (h', ts) \<Rightarrow> h'\<lparr>hoThreads := (hoThreads h')[i := ts @ rest]\<rparr>)))"

text \<open>A panic ends the process.\<close>

definition hostDo :: "hostConfig \<Rightarrow> controlHost \<Rightarrow> hostAct \<Rightarrow> controlHost" where
  "hostDo env h a =
     (if hoPanicked h then h
      else
        (case a of
           Invoke t \<Rightarrow> if isCall t then h\<lparr>hoThreads := hoThreads h @ [[t]]\<rparr> else h
         | Step i now ch \<Rightarrow> stepThread env i now ch h))"

definition runHost :: "hostConfig \<Rightarrow> hostAct list \<Rightarrow> controlHost" where
  "runHost env acts = foldl (hostDo env) NewHost acts"

end
