(* ===== verification/HostViews.thy ===== *)
theory HostViews
  imports ControlHost
begin

text \<open>
  What matters of the sessions, resolutions and challenges of the control host for their life
  cycle, and how each task of \<open>execTask\<close> changes it.  The lemmas say which tasks leave it alone;
  the invariants of \<open>HostInvariants\<close> rest on them instead of on the definitions.
\<close>

section \<open>Views\<close>

record sessionLife =
  slMode :: string
  slDone :: bool
  slEnded :: bool

definition lifeOf :: "managedSession \<Rightarrow> sessionLife" where
  "lifeOf m = \<lparr>slMode = mgPlatformMode m, slDone = mgDone m, slEnded = sessionEnded (svState (mgView m))\<rparr>"

definition sessV :: "controlHost \<Rightarrow> string \<Rightarrow> sessionLife option" where
  "sessV h s = map_option lifeOf (theSession s h)"

record resolutionLife =
  rlState :: resolutionState
  rlSecret :: bool
  rlDone :: bool

definition lifeOfR :: "managedResolution \<Rightarrow> resolutionLife" where
  "lifeOfR m = \<lparr>rlState = rvState (mrView m), rlSecret = (mrSecret m \<noteq> None), rlDone = mrDone m\<rparr>"

definition resV :: "controlHost \<Rightarrow> string \<Rightarrow> resolutionLife option" where
  "resV h r = map_option lifeOfR (theResolution r h)"

definition chV :: "controlHost \<Rightarrow> string \<Rightarrow> (string \<times> string) option" where
  "chV h c = map_option (\<lambda>mc. (chSessionID (mcView mc), chResolutionID (mcView mc))) (theChallenge c h)"

named_theorems views

lemma view_put [views]:
  "sessV (putSession s m h) = (sessV h)(s := Some (lifeOf m))"
  "resV (putSession s m h) = resV h" "chV (putSession s m h) = chV h"
  "resV (putResolution r n h) = (resV h)(r := Some (lifeOfR n))"
  "sessV (putResolution r n h) = sessV h" "chV (putResolution r n h) = chV h"
  "chV (putChallenge c k h) = (chV h)(c := Some (chSessionID (mcView k), chResolutionID (mcView k)))"
  "sessV (putChallenge c k h) = sessV h" "resV (putChallenge c k h) = resV h"
  by (auto simp: sessV_def resV_def chV_def fun_eq_iff)

lemma view_frame [views]:
  "sessV (h\<lparr>hoNextID := n\<rparr>) = sessV h" "resV (h\<lparr>hoNextID := n\<rparr>) = resV h" "chV (h\<lparr>hoNextID := n\<rparr>) = chV h"
  "sessV (h\<lparr>hoNextSessionID := n\<rparr>) = sessV h" "resV (h\<lparr>hoNextSessionID := n\<rparr>) = resV h" "chV (h\<lparr>hoNextSessionID := n\<rparr>) = chV h"
  "sessV (h\<lparr>hoProfiles := ps\<rparr>) = sessV h" "resV (h\<lparr>hoProfiles := ps\<rparr>) = resV h" "chV (h\<lparr>hoProfiles := ps\<rparr>) = chV h"
  "sessV (h\<lparr>hoThreads := ts\<rparr>) = sessV h" "resV (h\<lparr>hoThreads := ts\<rparr>) = resV h" "chV (h\<lparr>hoThreads := ts\<rparr>) = chV h"
  "sessV (h\<lparr>hoPanicked := b\<rparr>) = sessV h" "resV (h\<lparr>hoPanicked := b\<rparr>) = resV h" "chV (h\<lparr>hoPanicked := b\<rparr>) = chV h"
  "sessV (h\<lparr>hoSubscribers := us\<rparr>) = sessV h" "resV (h\<lparr>hoSubscribers := us\<rparr>) = resV h" "chV (h\<lparr>hoSubscribers := us\<rparr>) = chV h"
  "sessV (h\<lparr>hoChannels := cs\<rparr>) = sessV h" "resV (h\<lparr>hoChannels := cs\<rparr>) = resV h" "chV (h\<lparr>hoChannels := cs\<rparr>) = chV h"
  "sessV (h\<lparr>hoNextSub := n\<rparr>) = sessV h" "resV (h\<lparr>hoNextSub := n\<rparr>) = resV h" "chV (h\<lparr>hoNextSub := n\<rparr>) = chV h"
  by (simp_all add: sessV_def resV_def chV_def theSession_def theResolution_def theChallenge_def fun_eq_iff)

lemma view_other [views]:
  "sessV (h\<lparr>hoChallenges := ks\<rparr>) = sessV h" "resV (h\<lparr>hoChallenges := ks\<rparr>) = resV h"
  "resV (h\<lparr>hoSessions := ss\<rparr>) = resV h" "chV (h\<lparr>hoSessions := ss\<rparr>) = chV h"
  by (simp_all add: sessV_def resV_def chV_def theSession_def theResolution_def theChallenge_def fun_eq_iff)

lemma view_upd [views]:
  "resV (updSession s f h) = resV h" "chV (updSession s f h) = chV h"
  "sessV (updResolution r g h) = sessV h" "chV (updResolution r g h) = chV h"
  by (auto simp: updSession_def updResolution_def views split: option.splits)

lemma sessV_upd: "(\<And>m. lifeOf (f m) = lifeOf m) \<Longrightarrow> sessV (updSession s f h) = sessV h"
  by (auto simp: updSession_def views fun_eq_iff sessV_def split: option.splits)

lemma resV_upd: "(\<And>m. lifeOfR (f m) = lifeOfR m) \<Longrightarrow> resV (updResolution r f h) = resV h"
  by (auto simp: updResolution_def views fun_eq_iff resV_def split: option.splits)

lemma life_quiet [simp]:
  "lifeOf (addSessionEvent env ev m) = lifeOf m"
  "lifeOf (m\<lparr>mgChallenges := cs\<rparr>) = lifeOf m"
  "lifeOf (m\<lparr>mgCtx := c\<rparr>) = lifeOf m"
  "lifeOfR (addResolutionEvent env ev n) = lifeOfR n"
  "lifeOfR (n\<lparr>mrChallenges := cs\<rparr>) = lifeOfR n"
  "lifeOfR (n\<lparr>mrCtx := c\<rparr>) = lifeOfR n"
  by (simp_all add: lifeOf_def lifeOfR_def addSessionEvent_def addResolutionEvent_def)

text \<open>Goroutines: only \<open>SpawnRun\<close> starts one.\<close>

lemma threads_put [simp]:
  "hoThreads (putSession s m h) = hoThreads h" "hoThreads (putResolution r n h) = hoThreads h"
  "hoThreads (putChallenge c k h) = hoThreads h" "hoThreads (putChannel d ch h) = hoThreads h"
  "hoThreads (updSession s f h) = hoThreads h" "hoThreads (updResolution r g h) = hoThreads h"
  by (auto simp: putSession_def putResolution_def putChallenge_def putChannel_def updSession_def updResolution_def
      split: option.splits)

lemma ids_put [simp]:
  "hoNextID (putSession s m h) = hoNextID h" "hoNextID (putResolution r n h) = hoNextID h"
  "hoNextID (putChallenge c k h) = hoNextID h" "hoNextID (putChannel d ch h) = hoNextID h"
  "hoNextID (updSession s f h) = hoNextID h" "hoNextID (updResolution r g h) = hoNextID h"
  "hoNextSessionID (putSession s m h) = hoNextSessionID h" "hoNextSessionID (putResolution r n h) = hoNextSessionID h"
  "hoNextSessionID (putChallenge c k h) = hoNextSessionID h" "hoNextSessionID (putChannel d ch h) = hoNextSessionID h"
  "hoNextSessionID (updSession s f h) = hoNextSessionID h" "hoNextSessionID (updResolution r g h) = hoNextSessionID h"
  by (auto simp: putSession_def putResolution_def putChallenge_def putChannel_def updSession_def updResolution_def
      split: option.splits)

lemma theChannel_put [simp]: "theChannel c (putChannel c' ch h) = (if c = c' then Some ch else theChannel c h)"
  by (simp add: theChannel_def putChannel_def update_conv')

lemma putChannel_views [views]:
  "sessV (putChannel c ch h) = sessV h" "resV (putChannel c ch h) = resV h" "chV (putChannel c ch h) = chV h"
  by (simp_all add: putChannel_def views)

section \<open>What a task does to the sessions\<close>

fun touchesSession :: "hostTask \<Rightarrow> bool" where
  "touchesSession (InsertSession sid st) = True"
| "touchesSession (StopPlatform mode) = True"
| "touchesSession (RunSession sid) = True"
| "touchesSession (FinishSession sid e) = True"
| "touchesSession (CloseDone sid) = True"
| "touchesSession (CompleteChallenge cid st msg) = True"
| "touchesSession _ = False"

fun touchesResolution :: "hostTask \<Rightarrow> bool" where
  "touchesResolution (InsertResolution rid req d at) = True"
| "touchesResolution (CallReadResolution rid) = True"
| "touchesResolution (CallExportResolution rid) = True"
| "touchesResolution (CallMaterialize rid ds p) = True"
| "touchesResolution (CallCancelResolution rid) = True"
| "touchesResolution (RunResolution rid) = True"
| "touchesResolution (FinishResolution rid r) = True"
| "touchesResolution (CompleteChallenge cid st msg) = True"
| "touchesResolution _ = False"

fun raisesChallenge :: "hostTask \<Rightarrow> bool" where
  "raisesChallenge (RunSession sid) = True"
| "raisesChallenge (RunResolution rid) = True"
| "raisesChallenge _ = False"

lemma drawID_views [views]:
  "sessV (snd (drawID env h)) = sessV h" "resV (snd (drawID env h)) = resV h" "chV (snd (drawID env h)) = chV h"
  "hoThreads (snd (drawID env h)) = hoThreads h"
  "sessV (snd (drawSessionID env h)) = sessV h" "resV (snd (drawSessionID env h)) = resV h" "chV (snd (drawSessionID env h)) = chV h"
  "hoThreads (snd (drawSessionID env h)) = hoThreads h"
  by (simp_all add: drawID_def drawSessionID_def views)

lemma view_at [views]:
  "theSession s h = Some m \<Longrightarrow> sessV h s = Some (lifeOf m)"
  "theResolution r h = Some n \<Longrightarrow> resV h r = Some (lifeOfR n)"
  "theChallenge c h = Some k \<Longrightarrow> chV h c = Some (chSessionID (mcView k), chResolutionID (mcView k))"
  by (simp_all add: sessV_def resV_def chV_def)

lemma quiet_signal:
  "sessV (fst (snd (signalChallenge now cid a st h))) = sessV h"
  "resV (fst (snd (signalChallenge now cid a st h))) = resV h"
  "chV (fst (snd (signalChallenge now cid a st h))) = chV h"
  "hoThreads (fst (snd (signalChallenge now cid a st h))) = hoThreads h"
  by (auto simp: signalChallenge_def Let_def views sessV_upd resV_upd fun_upd_idem_iff split: option.splits)

lemma quiet_stop:
  "sessV (fst (snd (StopSession env now sid h))) = sessV h"
  "resV (fst (snd (StopSession env now sid h))) = resV h"
  "chV (fst (snd (StopSession env now sid h))) = chV h"
  "hoThreads (fst (snd (StopSession env now sid h))) = hoThreads h"
  by (auto simp: StopSession_def Let_def views lifeOf_def sessionEnded_def fun_upd_idem_iff addSessionEvent_def
      split: option.splits)

lemma quiet_clearPending:
  "sessV (clearPendingChallenges now sid h) = sessV h"
  "resV (clearPendingChallenges now sid h) = resV h"
  "chV (clearPendingChallenges now sid h) = chV h"
  "hoThreads (clearPendingChallenges now sid h) = hoThreads h"
proof -
  have m: "map_of (List.map (\<lambda>(k, v). (k, f v)) xs) c = map_option f (map_of xs c)" for f :: "managedChallenge \<Rightarrow> managedChallenge" and xs and c :: string
    by (induction xs) auto
  show "sessV (clearPendingChallenges now sid h) = sessV h" "resV (clearPendingChallenges now sid h) = resV h"
    "hoThreads (clearPendingChallenges now sid h) = hoThreads h"
    by (simp_all add: clearPendingChallenges_def views)
  show "chV (clearPendingChallenges now sid h) = chV h"
    by (auto simp: clearPendingChallenges_def chV_def theChallenge_def m fun_eq_iff option.map_comp
        comp_def intro!: option.map_cong)
qed

text \<open>Operations that change no view.\<close>

lemma quiet_ops [views]:
  "sessV (snd (UpsertProfile env p h)) = sessV h" "resV (snd (UpsertProfile env p h)) = resV h" "chV (snd (UpsertProfile env p h)) = chV h"
  "sessV (snd (DeleteProfile pid h)) = sessV h" "resV (snd (DeleteProfile pid h)) = resV h" "chV (snd (DeleteProfile pid h)) = chV h"
  by (auto simp: UpsertProfile_def DeleteProfile_def drawID_def Let_def views split: sum.splits)

lemma quiet_session_ops [views]:
  "sessV (fst (StartSession env now req h)) = sessV h" "resV (fst (StartSession env now req h)) = resV h" "chV (fst (StartSession env now req h)) = chV h"
  "sessV (fst (allocateSessionID env n st h)) = sessV h" "resV (fst (allocateSessionID env n st h)) = resV h" "chV (fst (allocateSessionID env n st h)) = chV h"
  "sessV (fst (allocateResolutionID env n rq d at h)) = sessV h" "resV (fst (allocateResolutionID env n rq d at h)) = resV h" "chV (fst (allocateResolutionID env n rq d at h)) = chV h"
  "sessV (fst (appendSignal env ev h)) = sessV h" "resV (fst (appendSignal env ev h)) = resV h" "chV (fst (appendSignal env ev h)) = chV h"
  by (auto simp: StartSession_def allocateSessionID_def allocateResolutionID_def appendSignal_def drawID_def drawSessionID_def
      Let_def views sessV_upd resV_upd split: sum.splits prod.splits)

lemma quiet_channel_ops [views]:
  "sessV (Subscribe n h) = sessV h" "resV (Subscribe n h) = resV h" "chV (Subscribe n h) = chV h"
  "sessV (fst (Unsubscribe c h)) = sessV h" "resV (fst (Unsubscribe c h)) = resV h" "chV (fst (Unsubscribe c h)) = chV h"
  "sessV (receiveEvent c h) = sessV h" "resV (receiveEvent c h) = resV h" "chV (receiveEvent c h) = chV h"
  "sessV (closeSubscriber c h) = sessV h" "resV (closeSubscriber c h) = resV h" "chV (closeSubscriber c h) = chV h"
  "sessV (sendEvent ev c h) = sessV h" "resV (sendEvent ev c h) = resV h" "chV (sendEvent ev c h) = chV h"
  "sessV (fst (publishEvent env ev h)) = sessV h" "resV (fst (publishEvent env ev h)) = resV h" "chV (fst (publishEvent env ev h)) = chV h"
  by (auto simp: Subscribe_def Unsubscribe_def receiveEvent_def closeSubscriber_def sendEvent_def publishEvent_def drawID_def
      Let_def views split: option.splits)

lemma quiet_run_ops [views]:
  "sessV (cancelRun sc h) = sessV h" "resV (cancelRun sc h) = resV h" "chV (cancelRun sc h) = chV h"
  "sessV (spawnRun sc h) = sessV h" "resV (spawnRun sc h) = resV h" "chV (spawnRun sc h) = chV h"
  "sessV (sendAction cid a h) = sessV h" "resV (sendAction cid a h) = resV h" "chV (sendAction cid a h) = chV h"
  "sessV (fst (awaitAction ch sc cid kind h)) = sessV h" "resV (fst (awaitAction ch sc cid kind h)) = resV h"
  "chV (fst (awaitAction ch sc cid kind h)) = chV h"
  by (auto simp: cancelRun_def spawnRun_def sendAction_def awaitAction_def views sessV_upd resV_upd fun_upd_idem_iff
      split: option.splits challengeScope.splits hostChoice.splits list.splits)

lemma quiet_reads [views]:
  "sessV (fst (snd (readResolution env now rid h))) = sessV h" "chV (fst (snd (readResolution env now rid h))) = chV h"
  "sessV (fst (snd (CancelResolution env now rid h))) = sessV h" "chV (fst (snd (CancelResolution env now rid h))) = chV h"
  "sessV (fst (insertResolution env rid rq d at h)) = sessV h" "chV (fst (insertResolution env rid rq d at h)) = chV h"
  "sessV (fst (finishResolution env now rid r h)) = sessV h" "chV (fst (finishResolution env now rid r h)) = chV h"
  by (auto simp: readResolution_def CancelResolution_def insertResolution_def finishResolution_def
      finishResolutionFailure_def finishResolutionSuccess_def Let_def views split: option.splits prod.splits sum.splits)

lemma snd_export: "fst (snd (ExportResolution env now rid h)) = fst (snd (readResolution env now rid h))"
  by (auto simp: ExportResolution_def split: prod.splits option.splits)

lemma snd_materialize:
  "fst (snd (MaterializeResolutionWithPlan env now rid ds p h)) = fst (snd (readResolution env now rid h))"
  by (auto simp: MaterializeResolutionWithPlan_def split: prod.splits option.splits sum.splits)

lemma markPlatform_other:
  "resV (fst (markPlatformTunnelSessionsStopped env now mode msg h)) = resV h"
  "chV (fst (markPlatformTunnelSessionsStopped env now mode msg h)) = chV h"
  by (simp_all add: markPlatformTunnelSessionsStopped_def Let_def views)

lemma quiet_session_steps [views]:
  "resV (fst (insertSession env sid st h)) = resV h" "chV (fst (insertSession env sid st h)) = chV h"
  "resV (fst (publishPlatformTunnelStop env now mode msg h)) = resV h" "chV (fst (publishPlatformTunnelStop env now mode msg h)) = chV h"
  "resV (fst (finishSession now sid e h)) = resV h" "chV (fst (finishSession now sid e h)) = chV h"
  "resV (closeDone sid h) = resV h" "chV (closeDone sid h) = chV h"
  "resV (fst (handleRuntimeRecord env now sid rr h)) = resV h" "chV (fst (handleRuntimeRecord env now sid rr h)) = chV h"
  using markPlatform_other [of env "ssStartedAt st" "ssPlatformMode st" "''replaced''" h]
    markPlatform_other [of env now mode msg h]
  by (auto simp: insertSession_def insertOrdinarySession_def insertPlatformSession_def publishPlatformTunnelStop_def
      finishSession_def closeDone_def handleRuntimeRecord_def drawID_def Let_def views split: option.splits prod.splits)

lemma completeChallenge_chV [views]: "chV (fst (completeChallenge env now cid st msg h)) = chV h"
  by (auto simp: completeChallenge_def drawID_def Let_def views fun_upd_idem_iff split: option.splits prod.splits)

lemma raiseChallenge_other:
  "sessV (fst (raiseChallenge env now (ResolutionScope rid) c kind h)) = sessV h"
  "resV (fst (raiseChallenge env now (SessionScope sid) c kind h)) = resV h"
  by (auto simp: raiseChallenge_def recordResolutionChallenge_def recordChallenge_def drawID_def Let_def views
      split: option.splits prod.splits)

lemma quiet_run_steps [views]:
  "sessV (fst (runResolution env now ch rid h)) = sessV h"
  "resV (fst (runHostSession env now ch sid h)) = resV h"
  by (auto simp: runResolution_def runHostSession_def raiseChallenge_other views prod.case_eq_if
      split: hostChoice.splits option.splits)

theorem exec_sessV_quiet: "\<not> touchesSession t \<Longrightarrow> sessV (fst (execTask env now ch t h)) = sessV h"
  by (cases t) (simp_all add: views sessV_upd quiet_stop quiet_signal quiet_clearPending snd_export snd_materialize
      split: list.splits)

theorem exec_resV_quiet: "\<not> touchesResolution t \<Longrightarrow> resV (fst (execTask env now ch t h)) = resV h"
  by (cases t) (simp_all add: views quiet_stop quiet_signal quiet_clearPending snd_export snd_materialize
      split: list.splits hostChoice.splits)

theorem exec_chV_quiet: "\<not> raisesChallenge t \<Longrightarrow> chV (fst (execTask env now ch t h)) = chV h"
  by (cases t) (simp_all add: views quiet_stop quiet_signal quiet_clearPending snd_export snd_materialize
      split: list.splits hostChoice.splits)

section \<open>The effects\<close>

definition stopMode :: "string \<Rightarrow> (string \<Rightarrow> sessionLife option) \<Rightarrow> string \<Rightarrow> sessionLife option" where
  "stopMode mode v s =
     map_option (\<lambda>l. if slMode l = mode \<and> \<not> slEnded l then l\<lparr>slDone := True, slEnded := True\<rparr> else l) (v s)"

lemma map_of_apply: "map_of (List.map (\<lambda>(k, v). (k, f v)) xs) c = map_option f (map_of xs c)"
  by (induction xs) auto

lemma sessV_markStopped:
  "sessV (fst (markPlatformTunnelSessionsStopped env now mode msg h)) = stopMode mode (sessV h)"
  by (auto simp: markPlatformTunnelSessionsStopped_def Let_def sessV_def theSession_def stopMode_def fun_eq_iff
      map_of_apply option.map_comp comp_def lifeOf_def stopsWithMode_def stoppedView_def sessionEnded_def addSessionEvent_def
      intro!: option.map_cong)

lemma sessV_insertSession:
  "sessV (fst (insertSession env sid st h)) =
     (if ssPlatformMode st = [] then sessV h else stopMode (ssPlatformMode st) (sessV h))
       (sid \<mapsto> \<lparr>slMode = ssPlatformMode st, slDone = False, slEnded = False\<rparr>)"
  by (auto simp: insertSession_def insertOrdinarySession_def insertPlatformSession_def Let_def views newManagedSession_def
      startView_def lifeOf_def sessionEnded_def prod.case_eq_if sessV_markStopped)

lemma sessV_publishStop:
  "sessV (fst (publishPlatformTunnelStop env now mode msg h)) = stopMode mode (sessV h)"
  by (simp add: publishPlatformTunnelStop_def prod.case_eq_if sessV_markStopped)

lemma finishedView_ended: "sessionEnded (svState (finishedView now b e v))"
  by (auto simp: finishedView_def sessionEnded_def Let_def split: option.splits)

lemma sessV_finishSession:
  "sessV (fst (finishSession now sid e h)) =
     (sessV h)(sid := map_option (\<lambda>l. l\<lparr>slEnded := True\<rparr>) (sessV h sid))"
  by (auto simp: finishSession_def Let_def views lifeOf_def finishedView_ended fun_eq_iff sessV_def split: option.splits)

lemma sessV_closeDone:
  "sessV (closeDone sid h) = (sessV h)(sid := map_option (\<lambda>l. l\<lparr>slDone := True\<rparr>) (sessV h sid))"
  by (auto simp: closeDone_def views lifeOf_def fun_eq_iff sessV_def theSession_def putSession_def update_conv' split: option.splits)

lemma sessV_run:
  "\<exists>b. sessV (fst (runHostSession env now ch sid h)) =
     (sessV h)(sid := map_option (\<lambda>l. l\<lparr>slEnded := b\<rparr>) (sessV h sid))"
proof (cases "theSession sid h")
  case None
  then show ?thesis
    by (auto simp: runHostSession_def handleRuntimeRecord_def views fun_upd_idem_iff sessV_def split: hostChoice.splits)
next
  case (Some m)
  let ?h = "fst (runHostSession env now ch sid h)"
  have "(\<exists>m'. theSession sid ?h = Some m' \<and> mgPlatformMode m' = mgPlatformMode m \<and> mgDone m' = mgDone m) \<and>
      (\<forall>s. s \<noteq> sid \<longrightarrow> theSession s ?h = theSession s h)"
    using Some
    by (cases ch) (auto simp: runHostSession_def handleRuntimeRecord_def raiseChallenge_def recordChallenge_def drawID_def
        addSessionEvent_def Let_def prod.case_eq_if split: option.splits)
  then obtain m' where "theSession sid ?h = Some m'" "mgPlatformMode m' = mgPlatformMode m" "mgDone m' = mgDone m"
    "\<forall>s. s \<noteq> sid \<longrightarrow> theSession s ?h = theSession s h" by blast
  then show ?thesis
    using Some by (intro exI [of _ "sessionEnded (svState (mgView m'))"]) (auto simp: fun_eq_iff sessV_def lifeOf_def)
qed

lemma sessV_completeChallenge:
  "\<exists>b. sessV (fst (completeChallenge env now cid st msg h)) =
     (case chV h cid of None \<Rightarrow> sessV h
      | Some (s, r) \<Rightarrow> (sessV h)(s := map_option (\<lambda>l. l\<lparr>slEnded := b\<rparr>) (sessV h s)))"
proof (cases "theChallenge cid h")
  case None
  then show ?thesis by (simp add: completeChallenge_def chV_def)
next
  case (Some mc)
  let ?s = "chSessionID (mcView mc)" and ?h = "fst (completeChallenge env now cid st msg h)"
  show ?thesis
  proof (cases "theSession ?s h")
    case None
    with Some have "sessV ?h = sessV h"
      by (auto simp: completeChallenge_def Let_def views split: option.splits)
    with Some None show ?thesis by (auto simp: chV_def sessV_def fun_upd_idem_iff)
  next
    case (Some m)
    let ?m = "sessionAfterChallenge st ((mcView mc)\<lparr>chStatus := st, chUpdatedAt := now\<rparr>) m"
    have "sessV ?h = (sessV h)(?s \<mapsto> lifeOf ?m)"
      using Some \<open>theChallenge cid h = Some mc\<close>
      by (auto simp: completeChallenge_def Let_def views drawID_def split: option.splits)
    moreover have "lifeOf ?m = (lifeOf m)\<lparr>slEnded := slEnded (lifeOf ?m)\<rparr>"
      by (simp add: lifeOf_def sessionAfterChallenge_def)
    ultimately show ?thesis
      using Some \<open>theChallenge cid h = Some mc\<close>
      by (intro exI [of _ "slEnded (lifeOf ?m)"]) (simp add: views)
  qed
qed

lemma resV_insertResolution:
  "resV (fst (insertResolution env rid rq d at h)) =
     (resV h)(rid \<mapsto> \<lparr>rlState = ResolutionStarting, rlSecret = False, rlDone = False\<rparr>)"
  by (simp add: insertResolution_def Let_def views lifeOfR_def)

lemma resV_readResolution:
  "resV (fst (snd (readResolution env now rid h))) = resV h \<or>
   (\<exists>l. resV h rid = Some l \<and> rlState l = ResolutionResolved \<and>
      resV (fst (snd (readResolution env now rid h))) =
        (resV h)(rid \<mapsto> l\<lparr>rlState := ResolutionExpired, rlSecret := False\<rparr>))"
  by (auto simp: readResolution_def expireResolution_def Let_def views lifeOfR_def fun_upd_idem_iff addResolutionEvent_def
      split: option.splits resolutionState.splits)

lemma resV_cancel:
  "resV (fst (snd (CancelResolution env now rid h))) = resV h \<or>
   (\<exists>l. resV h rid = Some l \<and> rlState l \<in> {ResolutionStarting, ResolutionChallengeRequired} \<and>
      resV (fst (snd (CancelResolution env now rid h))) =
        (resV h)(rid \<mapsto> l\<lparr>rlState := ResolutionCancelled, rlDone := True\<rparr>))"
proof (cases "theResolution rid h")
  case None
  then show ?thesis by (simp add: CancelResolution_def)
next
  case (Some m)
  then show ?thesis
    by (cases "rvState (mrView m)")
      (auto simp: CancelResolution_def Let_def views lifeOfR_def addResolutionEvent_def)
qed

lemma resV_run:
  "resV (fst (runResolution env now ch rid h)) = resV h \<or>
   resV (fst (runResolution env now ch rid h)) =
     (resV h)(rid := map_option (\<lambda>l. l\<lparr>rlState := ResolutionChallengeRequired\<rparr>) (resV h rid))"
  by (cases ch)
    (auto simp: runResolution_def raiseChallenge_def recordResolutionChallenge_def drawID_def Let_def views lifeOfR_def
      prod.case_eq_if addResolutionEvent_def split: option.splits)

lemma resV_completeChallenge:
  "case chV h cid of
     None \<Rightarrow> resV (fst (completeChallenge env now cid st msg h)) = resV h
   | Some (s, r) \<Rightarrow>
       resV (fst (completeChallenge env now cid st msg h)) = resV h \<or>
       resV (fst (completeChallenge env now cid st msg h)) =
         (resV h)(r := map_option (\<lambda>l. l\<lparr>rlState := ResolutionStarting\<rparr>) (resV h r))"
proof (cases "theChallenge cid h")
  case None
  then show ?thesis by (simp add: completeChallenge_def chV_def)
next
  case (Some mc)
  let ?r = "chResolutionID (mcView mc)" and ?h = "fst (completeChallenge env now cid st msg h)"
  show ?thesis
  proof (cases "theResolution ?r h")
    case None
    with Some have "resV ?h = resV h"
      by (auto simp: completeChallenge_def Let_def views drawID_def split: option.splits)
    with Some show ?thesis by (simp add: views)
  next
    case (Some m)
    let ?m = "resolutionAfterChallenge st ((mcView mc)\<lparr>chStatus := st, chUpdatedAt := now\<rparr>) m"
    have "resV ?h = (resV h)(?r \<mapsto> lifeOfR ?m)"
      using Some \<open>theChallenge cid h = Some mc\<close>
      by (auto simp: completeChallenge_def Let_def views drawID_def split: option.splits)
    moreover have "lifeOfR ?m = lifeOfR m \<or> lifeOfR ?m = (lifeOfR m)\<lparr>rlState := ResolutionStarting\<rparr>"
      by (simp add: lifeOfR_def resolutionAfterChallenge_def)
    ultimately show ?thesis
      using Some \<open>theChallenge cid h = Some mc\<close> by (auto simp: views fun_upd_idem_iff)
  qed
qed

lemma failedView_state: "rvState (failedView now f v) \<in> {ResolutionCancelled, ResolutionFailed}"
  "rvState v = ResolutionCancelled \<Longrightarrow> rvState (failedView now f v) = ResolutionCancelled"
  by (auto simp: failedView_def Let_def)

lemma finish_failure:
  "\<exists>x\<in>{ResolutionCancelled, ResolutionFailed}.
     resV (fst (finishResolution env now rid (Inl f) h)) =
       (resV h)(rid := map_option (\<lambda>l. l\<lparr>rlState := x, rlDone := True\<rparr>) (resV h rid))"
proof (cases "theResolution rid h")
  case None
  then have "resV h rid = None" by (simp add: resV_def)
  with None show ?thesis
    by (intro bexI [of _ ResolutionFailed])
      (auto simp: finishResolution_def finishResolutionFailure_def fun_upd_idem_iff intro: sym)
next
  case (Some m)
  show ?thesis
    using failedView_state(1) [of now f "mrView m"] Some
    by (intro bexI [of _ "rvState (failedView now f (mrView m))"])
      (auto simp: finishResolution_def finishResolutionFailure_def Let_def views lifeOfR_def addResolutionEvent_def)
qed

lemma finish_success:
  assumes "resV h rid = Some l"
  shows "case finishResolution env now rid (Inr r) h of (h', ts) \<Rightarrow>
     (resV h' = resV h \<and> rlState l \<in> {ResolutionCancelled, ResolutionFailed, ResolutionExpired} \<and> ts = []) \<or>
     (resV h' = resV h \<and> rlState l \<notin> {ResolutionCancelled, ResolutionFailed, ResolutionExpired} \<and>
        (\<exists>f. ts = [FinishResolution rid (Inl f)])) \<or>
     (\<exists>ev. ts = [PublishEvent ev]) \<and> rlState l \<notin> {ResolutionCancelled, ResolutionFailed, ResolutionExpired} \<and>
       (resV h' = (resV h)(rid \<mapsto> \<lparr>rlState = ResolutionResolved, rlSecret = True, rlDone = True\<rparr>) \<or>
        resV h' = (resV h)(rid \<mapsto> \<lparr>rlState = ResolutionExpired, rlSecret = False, rlDone = True\<rparr>))"
proof -
  from assms obtain m where m: "theResolution rid h = Some m" "l = lifeOfR m" by (auto simp: resV_def)
  have v: "rvState (resolvedView now r c v) \<in> {ResolutionResolved, ResolutionExpired}" for c v
    by (auto simp: resolvedView_def Let_def split: prod.splits option.splits)
  show ?thesis
  proof (cases "rvState (mrView m) \<in> {ResolutionCancelled, ResolutionFailed, ResolutionExpired}")
    case True
    with m show ?thesis by (auto simp: finishResolution_def finishResolutionSuccess_def lifeOfR_def)
  next
    case False
    then have l: "rlState l \<notin> {ResolutionCancelled, ResolutionFailed, ResolutionExpired}"
      using m by (simp add: lifeOfR_def)
    show ?thesis
    proof (cases "resolvedSnapshotContract env (mrDescriptor m) r now")
      case (Inl e)
      with m l False show ?thesis by (simp add: finishResolution_def finishResolutionSuccess_def)
    next
      case (Inr c)
      have "rvState (resolvedView now r c (mrView m)) = ResolutionResolved \<or>
          rvState (resolvedView now r c (mrView m)) = ResolutionExpired"
        using v [of c "mrView m"] by simp
      with m l Inr False show ?thesis
        by (auto simp: finishResolution_def finishResolutionSuccess_def Let_def views lifeOfR_def addResolutionEvent_def)
    qed
  qed
qed

end
