(* ===== verification/HostInvariants.thy ===== *)
theory HostInvariants
  imports HostViews
begin

text \<open>
  The invariants of the control host.  Every unfinished session and every running resolution is
  owned by exactly one task of one goroutine; what the owner relies on is not changed by the others.
\<close>

section \<open>Owners\<close>

fun sessionOwner :: "hostTask \<Rightarrow> string option" where
  "sessionOwner (InsertSession sid st) = Some sid"
| "sessionOwner (SpawnRun (SessionScope sid)) = Some sid"
| "sessionOwner (RunSession sid) = Some sid"
| "sessionOwner (FinishSession sid e) = Some sid"
| "sessionOwner (FinishReport sid v c) = Some sid"
| "sessionOwner (CloseDone sid) = Some sid"
| "sessionOwner _ = None"

fun resolutionOwner :: "hostTask \<Rightarrow> string option" where
  "resolutionOwner (InsertResolution rid rq d at) = Some rid"
| "resolutionOwner (SpawnRun (ResolutionScope rid)) = Some rid"
| "resolutionOwner (RunResolution rid) = Some rid"
| "resolutionOwner (FinishResolution rid r) = Some rid"
| "resolutionOwner _ = None"

fun challengeTask :: "hostTask \<Rightarrow> string option" where
  "challengeTask (AwaitAction sc cid kind) = Some cid"
| "challengeTask (FinishContinuation cid) = Some cid"
| "challengeTask (CompleteChallenge cid st msg) = Some cid"
| "challengeTask _ = None"

fun scopeIds :: "challengeScope \<Rightarrow> string \<times> string" where
  "scopeIds (SessionScope sid) = (sid, [])"
| "scopeIds (ResolutionScope rid) = ([], rid)"

section \<open>What a pending task relies on\<close>

definition runningSession :: "controlHost \<Rightarrow> string \<Rightarrow> bool" where
  "runningSession h s \<longleftrightarrow> (\<exists>l. sessV h s = Some l \<and> slMode l = [] \<and> \<not> slDone l)"

definition endingSession :: "controlHost \<Rightarrow> string \<Rightarrow> bool" where
  "endingSession h s \<longleftrightarrow> (\<exists>l. sessV h s = Some l \<and> slMode l = [] \<and> \<not> slDone l \<and> slEnded l)"

definition runningResolution :: "controlHost \<Rightarrow> string \<Rightarrow> bool" where
  "runningResolution h r \<longleftrightarrow>
     (\<exists>l. resV h r = Some l \<and> \<not> rlSecret l \<and>
        rlState l \<in> {ResolutionStarting, ResolutionChallengeRequired, ResolutionCancelled})"

fun taskOk :: "controlHost \<Rightarrow> hostTask \<Rightarrow> hostTask option \<Rightarrow> bool" where
  "taskOk h (InsertSession sid st) n = (sessV h sid = None)"
| "taskOk h (SpawnRun (SessionScope sid)) n = runningSession h sid"
| "taskOk h (RunSession sid) n = runningSession h sid"
| "taskOk h (FinishSession sid e) n = runningSession h sid"
| "taskOk h (FinishReport sid v c) n = (\<not> c \<and> endingSession h sid)"
| "taskOk h (CloseDone sid) n = endingSession h sid"
| "taskOk h (InsertResolution rid rq d at) n = (resV h rid = None)"
| "taskOk h (SpawnRun (ResolutionScope rid)) n = runningResolution h rid"
| "taskOk h (RunResolution rid) n = runningResolution h rid"
| "taskOk h (FinishResolution rid r) n = runningResolution h rid"
| "taskOk h (AwaitAction sc cid kind) n = (chV h cid = Some (scopeIds sc) \<and> n = Some (runTask sc))"
| "taskOk h (FinishContinuation cid) n = (\<exists>sc. chV h cid = Some (scopeIds sc) \<and> n = Some (runTask sc))"
| "taskOk h (CompleteChallenge cid st msg) n = (\<exists>sc. chV h cid = Some (scopeIds sc) \<and> n = Some (runTask sc))"
| "taskOk h (StopPlatform mode) n = (mode \<noteq> [])"
| "taskOk h (CallPlatformSession mode spec src) n = (mode \<noteq> [])"
| "taskOk h _ n = True"

definition headOf :: "hostTask list \<Rightarrow> hostTask option" where
  "headOf ts = (case ts of [] \<Rightarrow> None | t # _ \<Rightarrow> Some t)"

fun threadOk :: "controlHost \<Rightarrow> hostTask list \<Rightarrow> bool" where
  "threadOk h [] = True"
| "threadOk h (t # ts) = (taskOk h t (headOf ts) \<and> threadOk h ts)"

text \<open>Tasks that rely on nothing.\<close>

definition plain :: "hostTask \<Rightarrow> bool" where
  "plain t \<longleftrightarrow> sessionOwner t = None \<and> resolutionOwner t = None \<and> challengeTask t = None \<and>
     (\<forall>mode. t = StopPlatform mode \<longrightarrow> mode \<noteq> []) \<and> (\<forall>mode spec src. t = CallPlatformSession mode spec src \<longrightarrow> mode \<noteq> [])"

lemma plain_ok: "plain t \<Longrightarrow> taskOk h t n"
  by (cases "(h, t, n)" rule: taskOk.cases) (auto simp: plain_def)

lemma threadOk_append:
  "\<forall>t\<in>set ts. plain t \<Longrightarrow> threadOk h (ts @ rest) = threadOk h rest"
  by (induction ts) (auto simp: plain_ok)

lemma headOf_simps [simp]: "headOf [] = None" "headOf (t # ts) = Some t" "headOf ((t # xs) @ ys) = Some t"
  by (simp_all add: headOf_def)

section \<open>What a task leads to\<close>

definition spawned :: "hostTask \<Rightarrow> hostTask list list" where
  "spawned t = (case t of SpawnRun sc \<Rightarrow> [[runTask sc]] | _ \<Rightarrow> [])"

lemma plain_simps [simp]:
  "plain (PublishEvent ev)" "plain (SendEvent ev cs)" "plain (CancelRun sc)" "plain (CloseSubscriber c)"
  "plain (AppendStopped sid ev)" "plain (AppendSignal cid ev)" "plain (SendAction cid a)" "plain (ClearPending sid)"
  "plain (AllocateSession n st)" "plain (AllocateResolution n rq d at)" "plain (StopPlatform mode) = (mode \<noteq> [])"
  "\<not> plain (InsertSession sid st)" "\<not> plain (RunSession sid)" "\<not> plain (FinishSession sid e)"
  "\<not> plain (FinishReport sid v b)" "\<not> plain (CloseDone sid)" "\<not> plain (InsertResolution rid rq d at)"
  "\<not> plain (RunResolution rid)" "\<not> plain (FinishResolution rid r)" "\<not> plain (AwaitAction sc cid kind)"
  "\<not> plain (FinishContinuation cid)" "\<not> plain (CompleteChallenge cid stat msg)" "\<not> plain (SpawnRun sc)"
  by (simp_all add: plain_def) (cases sc; simp)

lemma handle_plain: "\<forall>u\<in>set (snd (handleRuntimeRecord env now sid r h)). plain u"
  by (auto simp: handleRuntimeRecord_def Let_def split: option.splits prod.splits)

lemma publishStop_plain: "\<forall>u\<in>set (snd (publishPlatformTunnelStop env now mode msg h)). plain u"
  by (auto simp: publishPlatformTunnelStop_def split: prod.splits)

lemma calls_plain:
  "\<forall>u\<in>set (snd (StartSession env now req h)). plain u"
  "\<forall>u\<in>set (snd (snd (StopSession env now sid h))). plain u"
  "\<forall>u\<in>set (snd (snd (readResolution env now rid h))). plain u"
  "\<forall>u\<in>set (snd (snd (CancelResolution env now rid h))). plain u"
  "\<forall>u\<in>set (snd (snd (signalChallenge now cid a st h))). plain u"
  "\<forall>u\<in>set (snd (Unsubscribe c h)). plain u"
  "\<forall>u\<in>set (snd (appendSignal env ev h)). plain u"
  "\<forall>u\<in>set (snd (publishEvent env ev h)). plain u"
  by (auto simp: StartSession_def StopSession_def readResolution_def CancelResolution_def signalChallenge_def
      Unsubscribe_def appendSignal_def publishEvent_def Let_def split: sum.splits option.splits prod.splits)

lemma calls_plain':
  "\<forall>u\<in>set (snd (snd (ExportResolution env now rid h))). plain u"
  "\<forall>u\<in>set (snd (snd (MaterializeResolutionWithPlan env now rid ds p h))). plain u"
  using calls_plain(3) [of env now rid h]
  by (auto simp: ExportResolution_def MaterializeResolutionWithPlan_def prod.case_eq_if split: option.splits sum.splits)

lemma StartResolution_plain: "StartResolution env now req = Inr t \<Longrightarrow> plain t"
  by (auto simp: StartResolution_def Let_def split: if_splits sum.splits)

fun isAllocate :: "hostTask \<Rightarrow> bool" where
  "isAllocate (AllocateSession n st) = True"
| "isAllocate (AllocateResolution n rq d at) = True"
| "isAllocate _ = False"

lemma exec_plain:
  assumes "plain t" "\<not> isAllocate t"
  shows "\<forall>u\<in>set (snd (execTask env now ch t h)). plain u"
  using assms
  by (cases t)
    (simp_all add: calls_plain calls_plain' publishStop_plain StartResolution_plain
      split: sum.splits list.splits hostChoice.splits)

lemma allocateSession_next:
  "(\<forall>u\<in>set (snd (allocateSessionID env n st h)). plain u) \<or>
   (\<exists>c. snd (allocateSessionID env n st h) = [InsertSession c st] \<and> c = TrimSpace (hcNewSessionID env (hoNextSessionID h)) \<and>
      c \<noteq> [] \<and> sessV h c = None)"
  by (auto simp: allocateSessionID_def drawSessionID_def Let_def sessV_def theSession_def)

lemma allocateResolution_next:
  "(\<forall>u\<in>set (snd (allocateResolutionID env n rq d at h)). plain u) \<or>
   (\<exists>c. snd (allocateResolutionID env n rq d at h) = [InsertResolution c rq d at] \<and>
      c = TrimSpace (hcNewID env (hoNextID h)) \<and> c \<noteq> [] \<and> resV h c = None)"
  by (auto simp: allocateResolutionID_def drawID_def Let_def resV_def theResolution_def)

lemma insertSession_next:
  "\<exists>ts. (\<forall>u\<in>set ts. plain u) \<and>
     snd (insertSession env sid st h) = ts @ (if ssPlatformMode st = [] then [SpawnRun (SessionScope sid)] else [])"
proof (cases "ssPlatformMode st = []")
  case True
  then show ?thesis
    by (intro exI [of _ "butlast (snd (insertSession env sid st h))"])
      (auto simp: insertSession_def insertOrdinarySession_def Let_def)
next
  case False
  then show ?thesis
    by (auto simp: insertSession_def insertPlatformSession_def Let_def split: prod.splits)
qed

lemma insertResolution_next:
  "\<exists>ev. snd (insertResolution env rid rq d at h) = [PublishEvent ev, SpawnRun (ResolutionScope rid)]"
  by (simp add: insertResolution_def Let_def)

lemma raiseChallenge_next:
  "\<exists>ts. (\<forall>u\<in>set ts. plain u) \<and>
     snd (raiseChallenge env now sc c kind h) = ts @ [AwaitAction sc (hcNewID env (hoNextID h)) kind, runTask sc] \<and>
     chV (fst (raiseChallenge env now sc c kind h)) =
       (if (case sc of SessionScope s \<Rightarrow> sessV h s = None | ResolutionScope r \<Rightarrow> resV h r = None) then chV h
        else (chV h)(hcNewID env (hoNextID h) \<mapsto> scopeIds sc))"
  by (auto simp: raiseChallenge_def recordChallenge_def recordResolutionChallenge_def drawID_def Let_def views
      buildChallengeRecord_def sessV_def resV_def prod.case_eq_if
      split: challengeScope.splits option.splits)

lemma runHostSession_next:
  fixes env now ch sid h
  defines "h' \<equiv> fst (runHostSession env now ch sid h)" and "us \<equiv> snd (runHostSession env now ch sid h)"
  shows "(chV h' = chV h \<and> (\<exists>ts. (\<forall>u\<in>set ts. plain u) \<and> us = ts @ [RunSession sid])) \<or>
    (chV h' = chV h \<and> (\<exists>e. us = [FinishSession sid e])) \<or>
    (sessV h sid \<noteq> None \<and> chV h' = (chV h)(hcNewID env (hoNextID h) \<mapsto> scopeIds (SessionScope sid)) \<and>
       (\<exists>ts kind. (\<forall>u\<in>set ts. plain u) \<and>
          us = ts @ [AwaitAction (SessionScope sid) (hcNewID env (hoNextID h)) kind, RunSession sid]))"
proof (cases ch)
  case (EmitRecord r)
  then show ?thesis
    using handle_plain [of env now sid r h]
    by (auto simp: h'_def us_def runHostSession_def views prod.case_eq_if)
next
  case (RaiseChallenge c kind)
  show ?thesis
  proof (cases "theSession sid h")
    case None
    then show ?thesis using RaiseChallenge by (simp add: h'_def us_def runHostSession_def)
  next
    case (Some m)
    obtain ts where ts: "\<forall>u\<in>set ts. plain u"
      "snd (raiseChallenge env now (SessionScope sid) c kind h) =
         ts @ [AwaitAction (SessionScope sid) (hcNewID env (hoNextID h)) kind, RunSession sid]"
      "chV (fst (raiseChallenge env now (SessionScope sid) c kind h)) =
         (chV h)(hcNewID env (hoNextID h) \<mapsto> scopeIds (SessionScope sid))"
      using raiseChallenge_next [of env now "SessionScope sid" c kind h] Some
      by (auto simp: runTask_def sessV_def)
    have "sessV h sid \<noteq> None" using Some by (simp add: sessV_def)
    then show ?thesis using RaiseChallenge Some ts by (auto simp: h'_def us_def runHostSession_def)
  qed
qed (auto simp: h'_def us_def runHostSession_def)

lemma runResolution_next:
  fixes env now ch rid h
  defines "h' \<equiv> fst (runResolution env now ch rid h)" and "us \<equiv> snd (runResolution env now ch rid h)"
  shows "(chV h' = chV h \<and> us = [RunResolution rid]) \<or>
    (chV h' = chV h \<and> (\<exists>r. us = [FinishResolution rid r])) \<or>
    (resV h rid \<noteq> None \<and> chV h' = (chV h)(hcNewID env (hoNextID h) \<mapsto> scopeIds (ResolutionScope rid)) \<and>
       (\<exists>ts kind. (\<forall>u\<in>set ts. plain u) \<and>
          us = ts @ [AwaitAction (ResolutionScope rid) (hcNewID env (hoNextID h)) kind, RunResolution rid]))"
proof (cases ch)
  case (RaiseChallenge c kind)
  show ?thesis
  proof (cases "theResolution rid h")
    case None
    then show ?thesis using RaiseChallenge by (simp add: h'_def us_def runResolution_def)
  next
    case (Some m)
    obtain ts where ts: "\<forall>u\<in>set ts. plain u"
      "snd (raiseChallenge env now (ResolutionScope rid) c kind h) =
         ts @ [AwaitAction (ResolutionScope rid) (hcNewID env (hoNextID h)) kind, RunResolution rid]"
      "chV (fst (raiseChallenge env now (ResolutionScope rid) c kind h)) =
         (chV h)(hcNewID env (hoNextID h) \<mapsto> scopeIds (ResolutionScope rid))"
      using raiseChallenge_next [of env now "ResolutionScope rid" c kind h] Some
      by (auto simp: runTask_def resV_def)
    have "resV h rid \<noteq> None" using Some by (simp add: resV_def)
    then show ?thesis using RaiseChallenge Some ts by (auto simp: h'_def us_def runResolution_def)
  qed
qed (auto simp: h'_def us_def runResolution_def)

lemma challenge_next:
  assumes "challengeTask t = Some cid" "chV h cid \<noteq> None"
  shows "(\<forall>u\<in>set (snd (execTask env now ch t h)). plain u) \<or>
    (\<exists>u. snd (execTask env now ch t h) = [u] \<and> challengeTask u = Some cid \<and>
       (\<forall>sc k. u = AwaitAction sc cid k \<longrightarrow> t = AwaitAction sc cid k))"
  using assms
  by (cases t)
    (auto simp: awaitAction_def afterAction_def completeChallenge_def Let_def chV_def prod.case_eq_if
      split: option.splits hostChoice.splits list.splits challengeAction.splits brokerKind.splits)

section \<open>Identifiers\<close>

definition drawnSessions :: "hostConfig \<Rightarrow> controlHost \<Rightarrow> string set" where
  "drawnSessions env h = (\<lambda>n. TrimSpace (hcNewSessionID env n)) ` {..<hoNextSessionID h} - {[]}"

definition drawnResolutions :: "hostConfig \<Rightarrow> controlHost \<Rightarrow> string set" where
  "drawnResolutions env h = (\<lambda>n. TrimSpace (hcNewID env n)) ` {..<hoNextID h} - {[]}"

definition drawnChallenges :: "hostConfig \<Rightarrow> controlHost \<Rightarrow> string set" where
  "drawnChallenges env h = hcNewID env ` {..<hoNextID h}"

definition grows :: "controlHost \<Rightarrow> controlHost \<Rightarrow> bool" where
  "grows h h' \<longleftrightarrow> hoNextID h \<le> hoNextID h' \<and> hoNextSessionID h \<le> hoNextSessionID h'"

lemma grows_calls:
  "grows h (snd (UpsertProfile env p h))" "grows h (snd (DeleteProfile pid h))" "grows h (fst (StartSession env now req h))"
  "grows h (fst (snd (StopSession env now sid h)))" "grows h (fst (snd (readResolution env now rid h)))"
  "grows h (fst (snd (CancelResolution env now rid h)))" "grows h (fst (snd (signalChallenge now cid a st h)))"
  "grows h (Subscribe n h)" "grows h (fst (Unsubscribe c h))" "grows h (receiveEvent c h)" "grows h (closeSubscriber c h)"
  "grows h (sendEvent ev c h)" "grows h (fst (publishEvent env ev h))" "grows h (cancelRun sc h)" "grows h (spawnRun sc h)"
  by (auto simp: grows_def UpsertProfile_def DeleteProfile_def StartSession_def StopSession_def readResolution_def
      CancelResolution_def signalChallenge_def Subscribe_def Unsubscribe_def receiveEvent_def closeSubscriber_def
      sendEvent_def publishEvent_def cancelRun_def spawnRun_def drawID_def Let_def
      split: sum.splits option.splits prod.splits challengeScope.splits)

lemma grows_sections:
  "grows h (fst (allocateSessionID env n ss h))" "grows h (fst (allocateResolutionID env n rq d at h))"
  "grows h (fst (insertSession env sid ss h))" "grows h (fst (insertResolution env rid rq d at h))"
  "grows h (fst (finishSession now sid e h))" "grows h (closeDone sid h)" "grows h (fst (handleRuntimeRecord env now sid rr h))"
  "grows h (fst (completeChallenge env now cid st msg h))" "grows h (fst (appendSignal env ev h))" "grows h (sendAction cid a h)"
  "grows h (clearPendingChallenges now sid h)" "grows h (fst (publishPlatformTunnelStop env now mode msg h))"
  "grows h (fst (awaitAction ch sc cid kind h))" "grows h (fst (finishResolution env now rid r h))"
  by (auto simp: grows_def allocateSessionID_def allocateResolutionID_def insertSession_def insertOrdinarySession_def
      insertPlatformSession_def insertResolution_def finishSession_def closeDone_def handleRuntimeRecord_def
      completeChallenge_def appendSignal_def sendAction_def clearPendingChallenges_def publishPlatformTunnelStop_def
      markPlatformTunnelSessionsStopped_def awaitAction_def finishResolution_def finishResolutionFailure_def
      finishResolutionSuccess_def drawID_def drawSessionID_def Let_def
      split: sum.splits option.splits prod.splits hostChoice.splits list.splits)

lemma grows_raise: "grows h (fst (raiseChallenge env now sc c kind h))"
  "hoNextID h < hoNextID (fst (raiseChallenge env now sc c kind h))"
  by (auto simp: grows_def raiseChallenge_def recordChallenge_def recordResolutionChallenge_def drawID_def Let_def
      prod.case_eq_if split: challengeScope.splits option.splits)

lemma grows_upd: "grows h (updSession s f h)" "grows h h"
  by (simp_all add: grows_def)

lemma exec_grows: "grows h (fst (execTask env now ch t h))"
  by (cases t) (simp_all add: grows_calls grows_sections grows_raise grows_upd snd_export snd_materialize
      runHostSession_def runResolution_def prod.case_eq_if split: list.splits hostChoice.splits option.splits)

lemma raise_grows:
  "chV (fst (execTask env now ch t h)) \<noteq> chV h \<Longrightarrow> hoNextID h < hoNextID (fst (execTask env now ch t h))"
proof (cases "raisesChallenge t")
  case False
  then show "chV (fst (execTask env now ch t h)) \<noteq> chV h \<Longrightarrow> ?thesis" by (simp add: exec_chV_quiet)
next
  case True
  then show "chV (fst (execTask env now ch t h)) \<noteq> chV h \<Longrightarrow> ?thesis"
    by (cases t) (auto simp: runHostSession_def runResolution_def views prod.case_eq_if grows_raise
        split: hostChoice.splits option.splits if_splits)
qed

lemma drawn_mono:
  assumes "grows h h'"
  shows "drawnSessions env h \<subseteq> drawnSessions env h'" "drawnResolutions env h \<subseteq> drawnResolutions env h'"
    "drawnChallenges env h \<subseteq> drawnChallenges env h'"
  using assms by (auto simp: grows_def drawnSessions_def drawnResolutions_def drawnChallenges_def)

section \<open>What other tasks leave alone\<close>

lemma stopMode_other:
  "v s = None \<Longrightarrow> stopMode mode v s = None"
  "v s = Some l \<Longrightarrow> slMode l \<noteq> mode \<Longrightarrow> stopMode mode v s = Some l"
  by (simp_all add: stopMode_def)

lemma challenge_scope:
  assumes "taskOk h t n" "challengeTask t = Some cid"
  obtains sc where "chV h cid = Some (scopeIds sc)" "n = Some (runTask sc)"
  using assms by (cases t) auto

lemma frame_session:
  assumes ok: "taskOk h t n" and empty: "sessV h [] = None" and own: "sessionOwner t \<noteq> Some s"
    and chal: "challengeTask t \<noteq> None \<Longrightarrow> n \<noteq> Some (RunSession s)"
    and l: "case sessV h s of None \<Rightarrow> True | Some l \<Rightarrow> slMode l = []"
  shows "sessV (fst (execTask env now ch t h)) s = sessV h s"
proof (cases "touchesSession t")
  case False
  then show ?thesis by (simp add: exec_sessV_quiet)
next
  case True
  then show ?thesis
  proof (cases t)
    case (InsertSession sid st)
    with own have "s \<noteq> sid" by auto
    then show ?thesis
      using InsertSession l by (auto simp: sessV_insertSession stopMode_def split: option.splits)
  next
    case (StopPlatform mode)
    then have "mode \<noteq> []" using ok by simp
    then show ?thesis
      using StopPlatform l by (auto simp: sessV_publishStop stopMode_def split: option.splits hostChoice.splits)
  next
    case (RunSession sid)
    with own have "s \<noteq> sid" by auto
    then show ?thesis using RunSession sessV_run [of env now ch sid h] by auto
  next
    case (FinishSession sid e)
    with own have "s \<noteq> sid" by auto
    then show ?thesis using FinishSession by (simp add: sessV_finishSession)
  next
    case (CloseDone sid)
    with own have "s \<noteq> sid" by auto
    then show ?thesis using CloseDone by (simp add: sessV_closeDone)
  next
    case (CompleteChallenge cid st msg)
    then obtain sc where sc: "chV h cid = Some (scopeIds sc)" "n = Some (runTask sc)"
      using challenge_scope [OF ok, of cid] by auto
    obtain b where b: "sessV (fst (completeChallenge env now cid st msg h)) =
        (case scopeIds sc of (s, r) \<Rightarrow> (sessV h)(s := map_option (\<lambda>l. l\<lparr>slEnded := b\<rparr>) (sessV h s)))"
      using sessV_completeChallenge [of env now cid st msg h] sc by auto
    show ?thesis
      using b empty chal CompleteChallenge sc by (cases sc) (auto simp: runTask_def)
  qed auto
qed

lemma frame_resolution:
  assumes ok: "taskOk h t n" and empty: "resV h [] = None" and own: "resolutionOwner t \<noteq> Some r"
    and chal: "challengeTask t \<noteq> None \<Longrightarrow> n \<noteq> Some (RunResolution r)"
  shows "resV (fst (execTask env now ch t h)) r = resV h r \<or>
    (\<exists>l. resV h r = Some l \<and> rlState l = ResolutionResolved \<and>
       resV (fst (execTask env now ch t h)) r = Some (l\<lparr>rlState := ResolutionExpired, rlSecret := False\<rparr>)) \<or>
    (\<exists>l. resV h r = Some l \<and> rlState l \<in> {ResolutionStarting, ResolutionChallengeRequired} \<and>
       resV (fst (execTask env now ch t h)) r = Some (l\<lparr>rlState := ResolutionCancelled, rlDone := True\<rparr>))"
proof (cases "touchesResolution t")
  case False
  then show ?thesis by (simp add: exec_resV_quiet)
next
  case True
  then show ?thesis
  proof (cases t)
    case (InsertResolution rid rq d at)
    with own have "r \<noteq> rid" by auto
    then show ?thesis using InsertResolution by (simp add: resV_insertResolution)
  next
    case (CallReadResolution rid)
    then show ?thesis using resV_readResolution [of env now rid h] by (auto simp: fun_upd_apply)
  next
    case (CallExportResolution rid)
    then show ?thesis using resV_readResolution [of env now rid h] by (auto simp: fun_upd_apply snd_export)
  next
    case (CallMaterialize rid ds p)
    then show ?thesis using resV_readResolution [of env now rid h] by (auto simp: fun_upd_apply snd_materialize)
  next
    case (CallCancelResolution rid)
    then show ?thesis using resV_cancel [of env now rid h] by (auto simp: fun_upd_apply)
  next
    case (RunResolution rid)
    with own have "r \<noteq> rid" by auto
    then show ?thesis using RunResolution resV_run [of env now ch rid h] by auto
  next
    case (FinishResolution rid out)
    with own have ne: "r \<noteq> rid" by auto
    have "resV (fst (finishResolution env now rid out h)) r = resV h r"
    proof (cases out)
      case (Inl f)
      then show ?thesis using finish_failure [of env now rid f h] ne by auto
    next
      case (Inr x)
      show ?thesis
      proof (cases "resV h rid")
        case None
        then have "theResolution rid h = None" by (simp add: resV_def)
        then show ?thesis using Inr by (simp add: finishResolution_def finishResolutionSuccess_def)
      next
        case (Some l)
        show ?thesis
          using finish_success [OF Some, of env now x] ne Inr by (auto simp: prod.case_eq_if)
      qed
    qed
    then show ?thesis using FinishResolution by simp
  next
    case (CompleteChallenge cid st msg)
    then obtain sc where sc: "chV h cid = Some (scopeIds sc)" "n = Some (runTask sc)"
      using challenge_scope [OF ok, of cid] by auto
    show ?thesis
      using resV_completeChallenge [where h = h and cid = cid and env = env and now = now and st = st and msg = msg] empty chal CompleteChallenge sc
      by (cases sc) (auto simp: runTask_def)
  qed auto
qed

lemma frame_challenge:
  assumes "chV h cid = Some x" "chV h (hcNewID env (hoNextID h)) = None"
  shows "chV (fst (execTask env now ch t h)) cid = Some x"
proof (cases "raisesChallenge t")
  case False
  then show ?thesis using assms by (simp add: exec_chV_quiet)
next
  case True
  have ne: "cid \<noteq> hcNewID env (hoNextID h)" using assms by auto
  show ?thesis
    using True assms(1) ne runHostSession_next [of env now ch _ h] runResolution_next [of env now ch _ h]
    by (cases t) (auto simp: fun_upd_apply; metis fun_upd_apply)+
qed

lemma exec_frame:
  assumes ok: "taskOk h t n" and empty: "sessV h [] = None" "resV h [] = None"
    and fresh: "chV h (hcNewID env (hoNextID h)) = None"
    and ownS: "\<And>s. sessionOwner u = Some s \<Longrightarrow> sessionOwner t \<noteq> Some s"
    and ownR: "\<And>r. resolutionOwner u = Some r \<Longrightarrow> resolutionOwner t \<noteq> Some r"
    and chalS: "\<And>s. sessionOwner u = Some s \<Longrightarrow> challengeTask t \<noteq> None \<Longrightarrow> n \<noteq> Some (RunSession s)"
    and chalR: "\<And>r. resolutionOwner u = Some r \<Longrightarrow> challengeTask t \<noteq> None \<Longrightarrow> n \<noteq> Some (RunResolution r)"
    and u: "taskOk h u m"
  shows "taskOk (fst (execTask env now ch t h)) u m"
proof -
  let ?h = "fst (execTask env now ch t h)"
  have S: "case sessV h s of None \<Rightarrow> True | Some l \<Rightarrow> slMode l = [] \<Longrightarrow> sessionOwner u = Some s \<Longrightarrow> sessV ?h s = sessV h s" for s
    using frame_session [OF ok empty(1) ownS chalS] by blast
  have R: "resolutionOwner u = Some r \<Longrightarrow> resV ?h r = resV h r \<or>
    (\<exists>l. resV h r = Some l \<and> rlState l = ResolutionResolved \<and>
       resV ?h r = Some (l\<lparr>rlState := ResolutionExpired, rlSecret := False\<rparr>)) \<or>
    (\<exists>l. resV h r = Some l \<and> rlState l \<in> {ResolutionStarting, ResolutionChallengeRequired} \<and>
       resV ?h r = Some (l\<lparr>rlState := ResolutionCancelled, rlDone := True\<rparr>))" for r
    using frame_resolution [OF ok empty(2) ownR chalR] by blast
  have runS: "sessionOwner u = Some s \<Longrightarrow> runningSession h s \<Longrightarrow> runningSession ?h s" for s
    using S [of s] by (auto simp: runningSession_def)
  have endS: "sessionOwner u = Some s \<Longrightarrow> endingSession h s \<Longrightarrow> endingSession ?h s" for s
    using S [of s] by (auto simp: endingSession_def)
  have runR: "resolutionOwner u = Some r \<Longrightarrow> runningResolution h r \<Longrightarrow> runningResolution ?h r" for r
    using R [of r] by (auto simp: runningResolution_def)
  have C: "chV h cid = Some (scopeIds sc) \<Longrightarrow>
      \<exists>sc'. chV ?h cid = Some (scopeIds sc') \<and> runTask sc = runTask sc'" for cid sc
    using frame_challenge [OF _ fresh] by blast
  have D: "chV h cid = Some (scopeIds sc) \<Longrightarrow> chV ?h cid = Some (scopeIds sc)" for cid sc
    using frame_challenge [OF _ fresh] by blast
  show ?thesis
    using u S R runS endS runR
    by (cases "(h, u, m)" rule: taskOk.cases) (auto intro: C D)
qed

section \<open>What a task leaves for its goroutine\<close>

lemma exec_FinishSession:
  assumes "runningSession h sid"
  obtains v where "snd (finishSession now sid e h) = [FinishReport sid v False]"
    "endingSession (fst (finishSession now sid e h)) sid"
proof -
  from assms obtain m where m: "theSession sid h = Some m" "\<not> mgDone m" "mgPlatformMode m = []"
    by (auto simp: runningSession_def sessV_def lifeOf_def)
  have "endingSession (fst (finishSession now sid e h)) sid"
    using assms by (auto simp: runningSession_def endingSession_def sessV_finishSession)
  with m show ?thesis using that by (auto simp: finishSession_def Let_def)
qed

lemma finishReport_next:
  "\<exists>ps. (\<forall>u\<in>set ps. plain u) \<and> finishReport sid v c h = ps @ (if c then [] else [CloseDone sid])"
  by (auto simp: finishReport_def Let_def split: option.splits)

lemma runningSession_run:
  "runningSession h sid \<Longrightarrow> runningSession (fst (runHostSession env now ch sid h)) sid"
  using sessV_run [of env now ch sid h] by (auto simp: runningSession_def)

lemma runningResolution_run:
  "runningResolution h rid \<Longrightarrow> runningResolution (fst (runResolution env now ch rid h)) rid"
  using resV_run [of env now ch rid h] by (auto simp: runningResolution_def)

lemma finishResolution_next:
  assumes "runningResolution h rid"
  shows "(\<forall>u\<in>set (snd (finishResolution env now rid r h)). plain u) \<or>
    (\<exists>f. snd (finishResolution env now rid r h) = [FinishResolution rid (Inl f)] \<and>
       runningResolution (fst (finishResolution env now rid r h)) rid)"
proof (cases r)
  case (Inl f)
  then show ?thesis
    by (auto simp: finishResolution_def finishResolutionFailure_def Let_def split: option.splits)
next
  case (Inr x)
  from assms obtain l where "resV h rid = Some l" by (auto simp: runningResolution_def)
  from finish_success [OF this, of env now x] show ?thesis
    using Inr assms by (auto simp: prod.case_eq_if runningResolution_def)
qed

lemma threadOk_next:
  assumes ok: "taskOk h t (headOf rest)" and rest: "threadOk (fst (execTask env now ch t h)) rest"
  shows "threadOk (fst (execTask env now ch t h)) (snd (execTask env now ch t h) @ rest)"
proof (cases "plain t \<and> \<not> isAllocate t")
  case True
  then have "\<forall>u\<in>set (snd (execTask env now ch t h)). plain u" by (intro exec_plain) auto
  with rest show ?thesis by (simp add: threadOk_append)
next
  case False
  show ?thesis
  proof (cases "\<exists>cid. challengeTask t = Some cid")
    case True
    then obtain cid where cid: "challengeTask t = Some cid" by blast
    obtain sc where sc: "chV h cid = Some (scopeIds sc)" "headOf rest = Some (runTask sc)"
      using challenge_scope [OF ok cid] .
    have "\<not> raisesChallenge t" using cid by (cases t) auto
    then have c: "chV (fst (execTask env now ch t h)) cid = Some (scopeIds sc)" using sc by (simp add: exec_chV_quiet)
    have ok': "taskOk (fst (execTask env now ch t h)) u (headOf rest)"
      if "challengeTask u = Some cid" "\<forall>sc k. u = AwaitAction sc cid k \<longrightarrow> t = AwaitAction sc cid k" for u
      using that c sc ok by (cases u) auto
    from sc have "chV h cid \<noteq> None" by simp
    from challenge_next [OF cid this, of env now ch] show ?thesis
      using rest ok' by (auto simp: threadOk_append)
  next
    case nc: False
    have np: "taskOk h t (headOf rest) \<Longrightarrow> \<not> plain t \<or> isAllocate t" using False by blast
    show ?thesis
    proof (cases t)
      case (AllocateSession n st)
      then show ?thesis
        using allocateSession_next [of env n st h] rest by (auto simp: threadOk_append views)
    next
      case (AllocateResolution n rq d at)
      then show ?thesis
        using allocateResolution_next [of env n rq d at h] rest by (auto simp: threadOk_append views)
    next
      case (InsertSession sid st)
      then show ?thesis
        using insertSession_next [of env sid st h] rest
        by (auto simp: threadOk_append runningSession_def sessV_insertSession)
    next
      case (InsertResolution rid rq d at)
      then show ?thesis
        using insertResolution_next [of env rid rq d at h] rest
        by (auto simp: runningResolution_def resV_insertResolution)
    next
      case (RunSession sid)
      then have "runningSession h sid" using ok by simp
      from runningSession_run [OF this] show ?thesis
        using RunSession runHostSession_next [of env now ch sid h] rest
        by (auto simp: threadOk_append runTask_def intro!: exI [of _ "SessionScope sid"])
    next
      case (RunResolution rid)
      then have "runningResolution h rid" using ok by simp
      from runningResolution_run [OF this] show ?thesis
        using RunResolution runResolution_next [of env now ch rid h] rest
        by (auto simp: threadOk_append runTask_def intro!: exI [of _ "ResolutionScope rid"])
    next
      case (FinishSession sid e)
      then have "runningSession h sid" using ok by simp
      from exec_FinishSession [OF this, of now e] show ?thesis
        using FinishSession rest by force
    next
      case (FinishReport sid v c)
      then show ?thesis
        using ok rest finishReport_next [of sid v c h] by (auto simp: threadOk_append)
    next
      case (FinishResolution rid r)
      then have "runningResolution h rid" using ok by simp
      from finishResolution_next [OF this, of env now r] show ?thesis
        using FinishResolution rest by (auto simp: threadOk_append)
    next
      case (SpawnRun sc)
      then show ?thesis using rest by simp
    next
      case (CloseDone sid)
      then show ?thesis using rest by simp
    next
      case (StopPlatform mode)
      then show ?thesis using False ok by simp
    next
      case (CallPlatformSession mode spec src)
      then show ?thesis using False ok by (simp add: plain_def)
    qed (use False nc in \<open>simp_all add: plain_def\<close>)
  qed
qed

section \<open>Counting owners\<close>

definition ownersS :: "string \<Rightarrow> hostTask list \<Rightarrow> nat" where
  "ownersS s ts = length (filter (\<lambda>t. sessionOwner t = Some s) ts)"

definition ownersR :: "string \<Rightarrow> hostTask list \<Rightarrow> nat" where
  "ownersR r ts = length (filter (\<lambda>t. resolutionOwner t = Some r) ts)"

lemma owners_simps [simp]:
  "ownersS s [] = 0" "ownersS s (t # ts) = (if sessionOwner t = Some s then 1 else 0) + ownersS s ts"
  "ownersS s (ts @ us) = ownersS s ts + ownersS s us"
  "ownersR s [] = 0" "ownersR s (t # ts) = (if resolutionOwner t = Some s then 1 else 0) + ownersR s ts"
  "ownersR s (ts @ us) = ownersR s ts + ownersR s us"
  by (simp_all add: ownersS_def ownersR_def)

lemma owners_plain [simp]:
  "\<forall>t\<in>set ts. plain t \<Longrightarrow> ownersS s ts = 0" "\<forall>t\<in>set ts. plain t \<Longrightarrow> ownersR s ts = 0"
  by (auto simp: ownersS_def ownersR_def plain_def filter_empty_conv)

lemma spawned_simps [simp]:
  "spawned (SpawnRun sc) = [[runTask sc]]" "\<not> (\<exists>sc. t = SpawnRun sc) \<Longrightarrow> spawned t = []"
  by (auto simp: spawned_def split: hostTask.splits)

lemma spawned_plain [simp]: "plain t \<Longrightarrow> spawned t = []"
  by (cases t) (simp_all add: spawned_def)

lemma handed_session:
  assumes "sessionOwner t = Some s" "taskOk h t n"
  shows "ownersS s (snd (execTask env now ch t h) @ concat (spawned t)) = 1 \<or>
    ownersS s (snd (execTask env now ch t h) @ concat (spawned t)) = 0 \<and>
      (\<forall>l. sessV (fst (execTask env now ch t h)) s = Some l \<longrightarrow> slMode l \<noteq> [] \<or> slDone l)"
proof (cases t)
  case (InsertSession sid st)
  then have sid: "sid = s" using assms by simp
  obtain ps where ps: "\<forall>u\<in>set ps. plain u"
    "snd (insertSession env sid st h) = ps @ (if ssPlatformMode st = [] then [SpawnRun (SessionScope sid)] else [])"
    using insertSession_next by blast
  have "sessV (fst (insertSession env sid st h)) s = Some \<lparr>slMode = ssPlatformMode st, slDone = False, slEnded = False\<rparr>"
    by (simp add: sessV_insertSession sid)
  then show ?thesis using InsertSession ps sid by (cases "ssPlatformMode st = []") simp_all
next
  case (SpawnRun sc)
  then show ?thesis using assms by (cases sc) (auto simp: runTask_def)
next
  case (RunSession sid)
  then show ?thesis
    using runHostSession_next [of env now ch sid h] assms by auto
next
  case (FinishSession sid e)
  then have "runningSession h sid" using assms by simp
  then obtain v where "snd (finishSession now sid e h) = [FinishReport sid v False]"
    by (rule exec_FinishSession)
  then show ?thesis using FinishSession assms by simp
next
  case (FinishReport sid v c)
  then show ?thesis using assms finishReport_next [of sid v c h] by auto
next
  case (CloseDone sid)
  then show ?thesis using assms by (auto simp: sessV_closeDone)
qed (use assms in auto)

lemma handed_resolution:
  assumes "resolutionOwner t = Some r" "taskOk h t n"
    and d: "\<And>l. resV h r = Some l \<Longrightarrow> rlState l = ResolutionCancelled \<Longrightarrow> rlDone l"
  shows "ownersR r (snd (execTask env now ch t h) @ concat (spawned t)) = 1 \<or>
    ownersR r (snd (execTask env now ch t h) @ concat (spawned t)) = 0 \<and>
      (\<forall>l. resV (fst (execTask env now ch t h)) r = Some l \<longrightarrow>
         rlDone l \<and> rlState l \<notin> {ResolutionStarting, ResolutionChallengeRequired})"
proof (cases t)
  case (InsertResolution rid rq dd at)
  then show ?thesis
    using insertResolution_next [of env rid rq dd at h] assms by auto
next
  case (SpawnRun sc)
  then show ?thesis using assms by (cases sc) (auto simp: runTask_def)
next
  case (RunResolution rid)
  then show ?thesis using runResolution_next [of env now ch rid h] assms by auto
next
  case (FinishResolution rid out)
  then have rid: "rid = r" and run: "runningResolution h r" using assms by auto
  show ?thesis
  proof (cases out)
    case (Inl f)
    then have "\<forall>u\<in>set (snd (finishResolution env now r out h)). plain u"
      by (auto simp: finishResolution_def finishResolutionFailure_def Let_def split: option.splits)
    then show ?thesis
      using FinishResolution rid Inl finish_failure [of env now r f h] by auto
  next
    case (Inr x)
    from run obtain l where l: "resV h r = Some l"
      "rlState l \<in> {ResolutionStarting, ResolutionChallengeRequired, ResolutionCancelled}"
      by (auto simp: runningResolution_def)
    from finish_success [OF l(1), of env now x] show ?thesis
      using FinishResolution rid Inr l d [OF l(1)] by (auto simp: prod.case_eq_if)
  qed
qed (use assms in auto)

definition heir :: "hostTask \<Rightarrow> hostTask \<Rightarrow> bool" where
  "heir t u \<longleftrightarrow> (sessionOwner u = None \<or> sessionOwner u = sessionOwner t) \<and>
     (resolutionOwner u = None \<or> resolutionOwner u = resolutionOwner t)"

lemma heir_plain: "plain u \<Longrightarrow> heir t u" "challengeTask u = Some cid \<Longrightarrow> heir t u"
  by (simp add: heir_def plain_def) (cases u; simp add: heir_def)

lemma heir_simps [simp]:
  "heir t (SpawnRun (SessionScope sid)) \<longleftrightarrow> sessionOwner t = Some sid"
  "heir t (SpawnRun (ResolutionScope rid)) \<longleftrightarrow> resolutionOwner t = Some rid"
  "heir t (RunSession sid) \<longleftrightarrow> sessionOwner t = Some sid" "heir t (FinishSession sid e) \<longleftrightarrow> sessionOwner t = Some sid"
  "heir t (FinishReport sid v c) \<longleftrightarrow> sessionOwner t = Some sid" "heir t (CloseDone sid) \<longleftrightarrow> sessionOwner t = Some sid"
  "heir t (RunResolution rid) \<longleftrightarrow> resolutionOwner t = Some rid"
  "heir t (FinishResolution rid r) \<longleftrightarrow> resolutionOwner t = Some rid"
  "heir t (AwaitAction sc cid kind)" "heir t (PublishEvent ev)"
  by (auto simp: heir_def)

lemma exec_heirs:
  assumes "taskOk h t n" "\<not> isAllocate t"
  shows "\<forall>u\<in>set (snd (execTask env now ch t h)). heir t u"
proof (cases "plain t")
  case True
  then show ?thesis using exec_plain [OF _ assms(2)] heir_plain by blast
next
  case False
  show ?thesis
  proof (cases t)
    case (InsertSession sid st)
    then show ?thesis using insertSession_next [of env sid st h] by (auto simp: heir_plain split: if_splits)
  next
    case (InsertResolution rid rq d at)
    then show ?thesis using insertResolution_next [of env rid rq d at h] by (auto simp: heir_plain)
  next
    case (RunSession sid)
    then show ?thesis using runHostSession_next [of env now ch sid h] by (auto simp: heir_plain)
  next
    case (RunResolution rid)
    then show ?thesis using runResolution_next [of env now ch rid h] by (auto simp: heir_plain)
  next
    case (FinishSession sid e)
    then have "runningSession h sid" using assms by simp
    then obtain v where "snd (finishSession now sid e h) = [FinishReport sid v False]"
      by (rule exec_FinishSession)
    then show ?thesis using FinishSession by simp
  next
    case (FinishReport sid v c)
    then show ?thesis using assms finishReport_next [of sid v c h] by (auto simp: heir_plain)
  next
    case (FinishResolution rid r)
    then have "runningResolution h rid" using assms by simp
    from finishResolution_next [OF this, of env now r] show ?thesis
      using FinishResolution by (auto simp: heir_plain)
  next
    case (AwaitAction sc cid kind)
    then have "chV h cid \<noteq> None" using assms by auto
    from challenge_next [OF _ this, of t env now ch] show ?thesis using AwaitAction by (auto intro: heir_plain)
  next
    case (FinishContinuation cid)
    then have "chV h cid \<noteq> None" using assms by auto
    from challenge_next [OF _ this, of t env now ch] show ?thesis using FinishContinuation by (auto intro: heir_plain)
  next
    case (CompleteChallenge cid st msg)
    then have "chV h cid \<noteq> None" using assms by auto
    from challenge_next [OF _ this, of t env now ch] show ?thesis using CompleteChallenge by (auto intro: heir_plain)
  next
    case (StopPlatform mode)
    then show ?thesis using False assms by simp
  next
    case (CallPlatformSession mode spec src)
    then show ?thesis using False assms by (simp add: plain_def)
  qed (use False in \<open>simp_all add: plain_def\<close>)
qed

lemma spawned_heirs: "\<forall>u\<in>set (concat (spawned t)). heir t u"
  by (cases t) (auto simp: spawned_def runTask_def split: challengeScope.splits)

lemma others_session:
  assumes "sessionOwner t \<noteq> Some s" "taskOk h t n"
  shows "ownersS s (snd (execTask env now ch t h) @ concat (spawned t)) = 0 \<or>
    (\<exists>n st. t = AllocateSession n st \<and> snd (execTask env now ch t h) = [InsertSession s st] \<and>
       s = TrimSpace (hcNewSessionID env (hoNextSessionID h)) \<and> s \<noteq> [] \<and> sessV h s = None)"
proof (cases "isAllocate t")
  case True
  then show ?thesis
  proof (cases t)
    case (AllocateSession n st)
    then show ?thesis using allocateSession_next [of env n st h] by (auto split: if_splits)
  next
    case (AllocateResolution n rq d at)
    then show ?thesis using allocateResolution_next [of env n rq d at h] by (auto split: if_splits)
  qed auto
next
  case False
  have "ownersS s us = 0" if "\<forall>u\<in>set us. heir t u" for us
    using that assms(1) by (auto simp: ownersS_def filter_empty_conv heir_def)
  then show ?thesis using exec_heirs [OF assms(2) False, of env now ch] spawned_heirs [of t] by simp
qed

lemma others_resolution:
  assumes "resolutionOwner t \<noteq> Some r" "taskOk h t n"
  shows "ownersR r (snd (execTask env now ch t h) @ concat (spawned t)) = 0 \<or>
    (\<exists>n rq d at. t = AllocateResolution n rq d at \<and> snd (execTask env now ch t h) = [InsertResolution r rq d at] \<and>
       r = TrimSpace (hcNewID env (hoNextID h)) \<and> r \<noteq> [] \<and> resV h r = None)"
proof (cases "isAllocate t")
  case True
  then show ?thesis
  proof (cases t)
    case (AllocateSession n st)
    then show ?thesis using allocateSession_next [of env n st h] by (auto split: if_splits)
  next
    case (AllocateResolution n rq d at)
    then show ?thesis using allocateResolution_next [of env n rq d at h] by (auto split: if_splits)
  qed auto
next
  case False
  have "ownersR r us = 0" if "\<forall>u\<in>set us. heir t u" for us
    using that assms(1) by (auto simp: ownersR_def filter_empty_conv heir_def)
  then show ?thesis using exec_heirs [OF assms(2) False, of env now ch] spawned_heirs [of t] by simp
qed

section \<open>Goroutines\<close>

lemma threads_calls:
  "hoThreads (snd (UpsertProfile env p h)) = hoThreads h" "hoThreads (snd (DeleteProfile pid h)) = hoThreads h"
  "hoThreads (fst (StartSession env now req h)) = hoThreads h"
  "hoThreads (fst (snd (readResolution env now rid h))) = hoThreads h"
  "hoThreads (fst (snd (CancelResolution env now rid h))) = hoThreads h"
  "hoThreads (Subscribe n h) = hoThreads h" "hoThreads (fst (Unsubscribe c h)) = hoThreads h"
  "hoThreads (receiveEvent c h) = hoThreads h" "hoThreads (closeSubscriber c h) = hoThreads h"
  "hoThreads (sendEvent ev c h) = hoThreads h" "hoThreads (fst (publishEvent env ev h)) = hoThreads h"
  "hoThreads (cancelRun sc h) = hoThreads h" "hoThreads (spawnRun sc h) = hoThreads h @ [[runTask sc]]"
  by (auto simp: UpsertProfile_def DeleteProfile_def StartSession_def readResolution_def
      CancelResolution_def Subscribe_def Unsubscribe_def receiveEvent_def closeSubscriber_def
      sendEvent_def publishEvent_def cancelRun_def spawnRun_def drawID_def Let_def
      split: sum.splits option.splits prod.splits challengeScope.splits)

lemma threads_sections:
  "hoThreads (fst (allocateSessionID env n ss h)) = hoThreads h" "hoThreads (fst (allocateResolutionID env n rq d at h)) = hoThreads h"
  "hoThreads (fst (insertSession env sid ss h)) = hoThreads h" "hoThreads (fst (insertResolution env rid rq d at h)) = hoThreads h"
  "hoThreads (fst (finishSession now sid e h)) = hoThreads h" "hoThreads (closeDone sid h) = hoThreads h"
  "hoThreads (fst (handleRuntimeRecord env now sid rr h)) = hoThreads h"
  "hoThreads (fst (completeChallenge env now cid st msg h)) = hoThreads h" "hoThreads (fst (appendSignal env ev h)) = hoThreads h"
  "hoThreads (sendAction cid a h) = hoThreads h" "hoThreads (fst (publishPlatformTunnelStop env now mode msg h)) = hoThreads h"
  "hoThreads (fst (awaitAction ch sc cid kind h)) = hoThreads h" "hoThreads (fst (finishResolution env now rid r h)) = hoThreads h"
  "hoThreads (fst (raiseChallenge env now sc c kind h)) = hoThreads h"
  by (auto simp: allocateSessionID_def allocateResolutionID_def insertSession_def insertOrdinarySession_def
      insertPlatformSession_def insertResolution_def finishSession_def closeDone_def handleRuntimeRecord_def
      completeChallenge_def appendSignal_def sendAction_def publishPlatformTunnelStop_def raiseChallenge_def
      recordChallenge_def recordResolutionChallenge_def
      markPlatformTunnelSessionsStopped_def awaitAction_def finishResolution_def finishResolutionFailure_def
      finishResolutionSuccess_def drawID_def drawSessionID_def Let_def
      split: sum.splits option.splits prod.splits hostChoice.splits list.splits challengeScope.splits)

lemma exec_threads: "hoThreads (fst (execTask env now ch t h)) = hoThreads h @ spawned t"
  by (cases t) (simp_all add: threads_calls threads_sections quiet_stop quiet_signal quiet_clearPending
      snd_export snd_materialize runHostSession_def runResolution_def prod.case_eq_if
      split: list.splits hostChoice.splits option.splits)

definition pending :: "controlHost \<Rightarrow> hostTask list" where
  "pending h = concat (hoThreads h)"

lemma concat_update:
  assumes "i < length xss" "xss ! i = t # rest"
  obtains as bs where "concat xss = as @ t # rest @ bs" "concat (xss[i := ts @ rest]) = as @ ts @ rest @ bs"
    "\<And>ys. ys \<in> set (xss[i := ts @ rest]) \<Longrightarrow> ys = ts @ rest \<or> ys \<in> set xss \<and> set ys \<subseteq> set as \<union> set bs"
proof -
  have x: "xss = take i xss @ (t # rest) # drop (Suc i) xss" using assms id_take_nth_drop by metis
  have u: "xss[i := ts @ rest] = take i xss @ (ts @ rest) # drop (Suc i) xss"
    using assms by (simp add: upd_conv_take_nth_drop)
  show ?thesis
  proof (rule that)
    show "concat xss = concat (take i xss) @ t # rest @ concat (drop (Suc i) xss)"
      by (subst x) simp
    show "concat (xss[i := ts @ rest]) = concat (take i xss) @ ts @ rest @ concat (drop (Suc i) xss)"
      by (simp add: u)
    show "ys = ts @ rest \<or> ys \<in> set xss \<and> set ys \<subseteq> set (concat (take i xss)) \<union> set (concat (drop (Suc i) xss))"
      if "ys \<in> set (xss[i := ts @ rest])" for ys
      using that unfolding u by (auto dest: in_set_takeD in_set_dropD)
  qed
qed

section \<open>The invariant\<close>

definition identifiersOk :: "hostConfig \<Rightarrow> controlHost \<Rightarrow> bool" where
  "identifiersOk env h \<longleftrightarrow>
     (\<forall>s. sessV h s \<noteq> None \<longrightarrow> s \<in> drawnSessions env h) \<and>
     (\<forall>r. resV h r \<noteq> None \<longrightarrow> r \<in> drawnResolutions env h) \<and>
     (\<forall>c. chV h c \<noteq> None \<longrightarrow> c \<in> drawnChallenges env h) \<and>
     (\<forall>s. ownersS s (pending h) \<noteq> 0 \<longrightarrow> s \<in> drawnSessions env h) \<and>
     (\<forall>r. ownersR r (pending h) \<noteq> 0 \<longrightarrow> r \<in> drawnResolutions env h)"

definition ownersOk :: "controlHost \<Rightarrow> bool" where
  "ownersOk h \<longleftrightarrow>
     (\<forall>s. ownersS s (pending h) \<le> 1) \<and> (\<forall>r. ownersR r (pending h) \<le> 1) \<and>
     (\<forall>s l. sessV h s = Some l \<longrightarrow> slMode l = [] \<longrightarrow> \<not> slDone l \<longrightarrow> ownersS s (pending h) = 1) \<and>
     (\<forall>r l. resV h r = Some l \<longrightarrow> \<not> rlDone l \<or> rlState l \<in> {ResolutionStarting, ResolutionChallengeRequired} \<longrightarrow>
        ownersR r (pending h) = 1)"

definition livesOk :: "(string \<Rightarrow> sessionLife option) \<Rightarrow> bool" where
  "livesOk v \<longleftrightarrow>
     (\<forall>s l. v s = Some l \<longrightarrow> (slDone l \<longrightarrow> slEnded l) \<and> (slMode l \<noteq> [] \<longrightarrow> slDone l = slEnded l)) \<and>
     (\<forall>s s' l l'. v s = Some l \<longrightarrow> v s' = Some l' \<longrightarrow> slMode l = slMode l' \<longrightarrow> slMode l \<noteq> [] \<longrightarrow>
        \<not> slEnded l \<longrightarrow> \<not> slEnded l' \<longrightarrow> s = s')"

definition sessionsOk :: "controlHost \<Rightarrow> bool" where
  "sessionsOk h \<longleftrightarrow> livesOk (sessV h)"

lemma livesI:
  assumes "\<And>s l. v s = Some l \<Longrightarrow> slDone l \<Longrightarrow> slEnded l"
    and "\<And>s l. v s = Some l \<Longrightarrow> slMode l \<noteq> [] \<Longrightarrow> slDone l = slEnded l"
    and "\<And>s s' l l'. v s = Some l \<Longrightarrow> v s' = Some l' \<Longrightarrow> slMode l = slMode l' \<Longrightarrow> slMode l \<noteq> [] \<Longrightarrow>
      \<not> slEnded l \<Longrightarrow> \<not> slEnded l' \<Longrightarrow> s = s'"
  shows "livesOk v"
  unfolding livesOk_def using assms(1,2) by (intro conjI allI impI) (assumption | rule assms(3) | blast)+

lemma livesD:
  assumes "livesOk v"
  shows "v s = Some l \<Longrightarrow> slDone l \<Longrightarrow> slEnded l"
    and "v s = Some l \<Longrightarrow> slMode l \<noteq> [] \<Longrightarrow> slDone l = slEnded l"
    and "v s = Some l \<Longrightarrow> v s' = Some l' \<Longrightarrow> slMode l = slMode l' \<Longrightarrow> slMode l \<noteq> [] \<Longrightarrow>
      \<not> slEnded l \<Longrightarrow> \<not> slEnded l' \<Longrightarrow> s = s'"
  using assms unfolding livesOk_def by blast+

lemma livesOk_upd:
  assumes v: "livesOk v" and l: "slMode l = []" "slDone l \<longrightarrow> slEnded l"
  shows "livesOk (v(s \<mapsto> l))"
proof (rule livesI)
  show "slEnded k" if "(v(s \<mapsto> l)) x = Some k" "slDone k" for x k
    using that l(2) livesD(1) [OF v, of x k] by (cases "x = s") auto
  show "slDone k = slEnded k" if "(v(s \<mapsto> l)) x = Some k" "slMode k \<noteq> []" for x k
    using that l(1) livesD(2) [OF v, of x k] by (cases "x = s") auto
  show "x = y" if "(v(s \<mapsto> l)) x = Some k" "(v(s \<mapsto> l)) y = Some k'" "slMode k = slMode k'" "slMode k \<noteq> []"
    "\<not> slEnded k" "\<not> slEnded k'" for x y k k'
  proof -
    have "x \<noteq> s" "y \<noteq> s" using that l(1) by auto
    then show ?thesis using livesD(3) [OF v _ _ that(3-6)] that(1,2) by simp
  qed
qed

lemma stopMode_Some:
  assumes "stopMode mode v s = Some l"
  shows "\<exists>k. v s = Some k \<and> slMode k = slMode l \<and> (l = k \<and> (slMode k = mode \<longrightarrow> slEnded k) \<or> slDone l \<and> slEnded l)"
proof -
  from assms obtain k where k: "v s = Some k"
    "(if slMode k = mode \<and> \<not> slEnded k then k\<lparr>slDone := True, slEnded := True\<rparr> else k) = l"
    by (auto simp: stopMode_def)
  show ?thesis using k by (intro exI [of _ k]) (auto split: if_splits)
qed

lemma stopMode_ended: "stopMode mode v s = Some l \<Longrightarrow> slMode l = mode \<Longrightarrow> slEnded l"
  by (drule stopMode_Some) auto

lemma livesOk_stop:
  assumes v: "livesOk v" shows "livesOk (stopMode mode v)"
proof (rule livesI)
  have was: "\<exists>k. v x = Some k \<and> slMode k = slMode l \<and> (\<not> slEnded l \<longrightarrow> \<not> slEnded k) \<and>
      (l = k \<or> slDone l \<and> slEnded l)" if "stopMode mode v x = Some l" for x l
    using stopMode_Some [OF that] by blast
  show "slEnded l" if "stopMode mode v x = Some l" "slDone l" for x l
    using was [OF that(1)] that(2) livesD(1) [OF v] by blast
  show "slDone l = slEnded l" if "stopMode mode v x = Some l" "slMode l \<noteq> []" for x l
    using was [OF that(1)] that(2) livesD(2) [OF v] by blast
  show "x = y" if "stopMode mode v x = Some l" "stopMode mode v y = Some l'" "slMode l = slMode l'" "slMode l \<noteq> []"
    "\<not> slEnded l" "\<not> slEnded l'" for x y l l'
    using was [OF that(1)] was [OF that(2)] that(3-6) livesD(3) [OF v, of x _ y] by fastforce
qed

lemma livesOk_new:
  assumes v: "livesOk v" and l: "slMode l = mode" "\<not> slDone l" "\<not> slEnded l"
  shows "livesOk ((stopMode mode v)(s \<mapsto> l))"
proof (rule livesI)
  note w = livesOk_stop [OF v, of mode]
  show "slEnded k" if "((stopMode mode v)(s \<mapsto> l)) x = Some k" "slDone k" for x k
    using that l livesD(1) [OF w, of x k] by (cases "x = s") auto
  show "slDone k = slEnded k" if "((stopMode mode v)(s \<mapsto> l)) x = Some k" "slMode k \<noteq> []" for x k
    using that l livesD(2) [OF w, of x k] by (cases "x = s") auto
  show "x = y" if "((stopMode mode v)(s \<mapsto> l)) x = Some k" "((stopMode mode v)(s \<mapsto> l)) y = Some k'"
    "slMode k = slMode k'" "slMode k \<noteq> []" "\<not> slEnded k" "\<not> slEnded k'" for x y k k'
  proof (cases "slMode k = mode")
    case True
    then have "x = s" "y = s" using that stopMode_ended [of mode v] by (auto split: if_splits)
    then show ?thesis by simp
  next
    case False
    then have "x \<noteq> s" "y \<noteq> s" using that l(1) by auto
    then show ?thesis using livesD(3) [OF w _ _ that(3-6)] that(1,2) by simp
  qed
qed

definition resolutionsOk :: "controlHost \<Rightarrow> bool" where
  "resolutionsOk h \<longleftrightarrow>
     (\<forall>r l. resV h r = Some l \<longrightarrow>
        (rlSecret l \<longrightarrow> rlState l = ResolutionResolved) \<and>
        (rlState l \<notin> {ResolutionStarting, ResolutionChallengeRequired} \<longrightarrow> rlDone l))"

definition hostInv :: "hostConfig \<Rightarrow> controlHost \<Rightarrow> bool" where
  "hostInv env h \<longleftrightarrow> identifiersOk env h \<and> ownersOk h \<and> sessionsOk h \<and> resolutionsOk h \<and>
     (\<forall>ts\<in>set (hoThreads h). threadOk h ts)"

text \<open>The identifiers drawn are different, also after trimming.\<close>

definition freshIDs :: "hostConfig \<Rightarrow> bool" where
  "freshIDs env \<longleftrightarrow> inj (\<lambda>n. TrimSpace (hcNewID env n)) \<and> inj (\<lambda>n. TrimSpace (hcNewSessionID env n))"

lemma NewHost_inv: "hostInv env NewHost"
  by (simp add: hostInv_def identifiersOk_def ownersOk_def sessionsOk_def livesOk_def resolutionsOk_def pending_def NewHost_def
      sessV_def resV_def chV_def theSession_def theResolution_def theChallenge_def)

section \<open>A step in terms of the views\<close>

lemma sess_effect:
  assumes ok: "threadOk h (t # rest)" and empty: "sessV h [] = None"
  shows "sessV (fst (execTask env now ch t h)) = sessV h \<or>
    (\<exists>sid st. t = InsertSession sid st \<and> sessV (fst (execTask env now ch t h)) =
       (if ssPlatformMode st = [] then sessV h else stopMode (ssPlatformMode st) (sessV h))
         (sid \<mapsto> \<lparr>slMode = ssPlatformMode st, slDone = False, slEnded = False\<rparr>)) \<or>
    (\<exists>mode. t = StopPlatform mode \<and> mode \<noteq> [] \<and> sessV (fst (execTask env now ch t h)) = stopMode mode (sessV h)) \<or>
    (\<exists>sid l b. (sessionOwner t = Some sid \<or> challengeTask t \<noteq> None \<and> headOf rest = Some (RunSession sid)) \<and>
       sessV h sid = Some l \<and> slMode l = [] \<and> \<not> slDone l \<and>
       sessV (fst (execTask env now ch t h)) = (sessV h)(sid \<mapsto> l\<lparr>slEnded := b\<rparr>)) \<or>
    (\<exists>sid l. t = CloseDone sid \<and> sessV h sid = Some l \<and> slMode l = [] \<and> slEnded l \<and>
       sessV (fst (execTask env now ch t h)) = (sessV h)(sid \<mapsto> l\<lparr>slDone := True\<rparr>))"
    (is "?same \<or> ?ins \<or> ?stop \<or> ?run \<or> ?close")
proof (cases "touchesSession t")
  case False
  then show ?thesis by (simp add: exec_sessV_quiet)
next
  case True
  have t: "taskOk h t (headOf rest)" using ok by simp
  show ?thesis
  proof (cases t)
    case (InsertSession sid st)
    then have ?ins by (simp add: sessV_insertSession)
    then show ?thesis by blast
  next
    case (StopPlatform mode)
    then have "?same \<or> ?stop" using t by (cases ch) (simp_all add: sessV_publishStop)
    then show ?thesis by blast
  next
    case (RunSession sid)
    then obtain l where l: "sessV h sid = Some l" "slMode l = []" "\<not> slDone l"
      using t by (auto simp: runningSession_def)
    obtain b where "sessV (fst (runHostSession env now ch sid h)) =
        (sessV h)(sid := map_option (\<lambda>l. l\<lparr>slEnded := b\<rparr>) (sessV h sid))" using sessV_run by blast
    with RunSession l have ?run by auto
    then show ?thesis by blast
  next
    case (FinishSession sid e)
    then obtain l where l: "sessV h sid = Some l" "slMode l = []" "\<not> slDone l"
      using t by (auto simp: runningSession_def)
    with FinishSession have ?run by (auto simp: sessV_finishSession)
    then show ?thesis by blast
  next
    case (CloseDone sid)
    then obtain l where l: "sessV h sid = Some l" "slMode l = []" "slEnded l"
      using t by (auto simp: endingSession_def)
    with CloseDone have ?close by (auto simp: sessV_closeDone)
    then show ?thesis by blast
  next
    case (CompleteChallenge cid st msg)
    then obtain sc where sc: "chV h cid = Some (scopeIds sc)" "headOf rest = Some (runTask sc)"
      using challenge_scope [OF t, of cid] by auto
    obtain b where b: "sessV (fst (completeChallenge env now cid st msg h)) =
        (case scopeIds sc of (s, r) \<Rightarrow> (sessV h)(s := map_option (\<lambda>l. l\<lparr>slEnded := b\<rparr>) (sessV h s)))"
      using sessV_completeChallenge [of env now cid st msg h] sc by auto
    show ?thesis
    proof (cases sc)
      case (ResolutionScope rid)
      then have ?same using b empty CompleteChallenge by (auto simp: fun_upd_idem_iff)
      then show ?thesis by blast
    next
      case (SessionScope sid)
      then obtain rest' where "rest = RunSession sid # rest'"
        using sc by (cases rest) (auto simp: runTask_def)
      then obtain l where "sessV h sid = Some l" "slMode l = []" "\<not> slDone l"
        using ok by (auto simp: runningSession_def)
      then have ?run using b SessionScope CompleteChallenge sc by (auto simp: runTask_def)
      then show ?thesis by blast
    qed
  qed (use True in auto)
qed

lemma runningResolution_at:
  "runningResolution h r \<Longrightarrow> \<exists>l. resV h r = Some l \<and> \<not> rlSecret l"
  by (auto simp: runningResolution_def)

lemma res_effect:
  assumes ok: "threadOk h (t # rest)" and empty: "resV h [] = None" and inv: "resolutionsOk h"
  shows "resV (fst (execTask env now ch t h)) = resV h \<or>
    (\<exists>r rq d at. t = InsertResolution r rq d at \<and> resV (fst (execTask env now ch t h)) =
       (resV h)(r \<mapsto> \<lparr>rlState = ResolutionStarting, rlSecret = False, rlDone = False\<rparr>)) \<or>
    (\<exists>r l. resV h r = Some l \<and> rlState l = ResolutionResolved \<and> resV (fst (execTask env now ch t h)) =
       (resV h)(r \<mapsto> l\<lparr>rlState := ResolutionExpired, rlSecret := False\<rparr>)) \<or>
    (\<exists>r l. resV h r = Some l \<and> rlState l \<in> {ResolutionStarting, ResolutionChallengeRequired} \<and>
       resV (fst (execTask env now ch t h)) = (resV h)(r \<mapsto> l\<lparr>rlState := ResolutionCancelled, rlDone := True\<rparr>)) \<or>
    (\<exists>r l x. (t = RunResolution r \<or> challengeTask t \<noteq> None \<and> headOf rest = Some (RunResolution r)) \<and>
       resV h r = Some l \<and> \<not> rlSecret l \<and> x \<in> {ResolutionStarting, ResolutionChallengeRequired} \<and>
       resV (fst (execTask env now ch t h)) = (resV h)(r \<mapsto> l\<lparr>rlState := x\<rparr>)) \<or>
    (\<exists>r out l. t = FinishResolution r out \<and> rlDone l \<and> (rlSecret l \<longleftrightarrow> rlState l = ResolutionResolved) \<and>
       rlState l \<notin> {ResolutionStarting, ResolutionChallengeRequired} \<and>
       resV (fst (execTask env now ch t h)) = (resV h)(r \<mapsto> l))"
    (is "?same \<or> ?ins \<or> ?expire \<or> ?cancel \<or> ?run \<or> ?finish")
proof (cases "touchesResolution t")
  case False
  then show ?thesis by (simp add: exec_resV_quiet)
next
  case True
  have t: "taskOk h t (headOf rest)" using ok by simp
  show ?thesis
  proof (cases t)
    case (InsertResolution rid rq d at)
    then have ?ins by (simp add: resV_insertResolution)
    then show ?thesis by blast
  next
    case (CallReadResolution rid)
    then have "?same \<or> ?expire" using resV_readResolution [of env now rid h] by auto
    then show ?thesis by blast
  next
    case (CallExportResolution rid)
    then have "?same \<or> ?expire" using resV_readResolution [of env now rid h] by (auto simp: snd_export)
    then show ?thesis by blast
  next
    case (CallMaterialize rid ds p)
    then have "?same \<or> ?expire" using resV_readResolution [of env now rid h] by (auto simp: snd_materialize)
    then show ?thesis by blast
  next
    case (CallCancelResolution rid)
    then have "?same \<or> ?cancel" using resV_cancel [of env now rid h] by auto
    then show ?thesis by blast
  next
    case (RunResolution rid)
    then obtain l where l: "resV h rid = Some l" "\<not> rlSecret l" using t runningResolution_at by force
    have "?same \<or> ?run"
      using resV_run [of env now ch rid h]
    proof
      assume "resV (fst (runResolution env now ch rid h)) =
        (resV h)(rid := map_option (\<lambda>l. l\<lparr>rlState := ResolutionChallengeRequired\<rparr>) (resV h rid))"
      with l RunResolution have ?run
        by (intro exI [of _ rid] exI [of _ l] exI [of _ ResolutionChallengeRequired]) simp
      then show ?thesis ..
    qed (simp add: RunResolution)
    then show ?thesis by blast
  next
    case (FinishResolution rid out)
    then obtain l where l: "resV h rid = Some l" "\<not> rlSecret l" using t runningResolution_at by force
    have "?same \<or> ?finish"
    proof (cases out)
      case (Inl f)
      obtain x where x: "x \<in> {ResolutionCancelled, ResolutionFailed}"
        "resV (fst (finishResolution env now rid out h)) =
           (resV h)(rid \<mapsto> l\<lparr>rlState := x, rlDone := True\<rparr>)"
        using finish_failure [of env now rid f h] l Inl by auto
      then have ?finish
        using FinishResolution l
        by (intro exI [of _ rid] exI [of _ out] exI [of _ "l\<lparr>rlState := x, rlDone := True\<rparr>"]) auto
      then show ?thesis ..
    next
      case (Inr x)
      have "resV (fst (finishResolution env now rid out h)) = resV h \<or>
          (\<exists>l'\<in>{\<lparr>rlState = ResolutionResolved, rlSecret = True, rlDone = True\<rparr>,
              \<lparr>rlState = ResolutionExpired, rlSecret = False, rlDone = True\<rparr>}.
            resV (fst (finishResolution env now rid out h)) = (resV h)(rid \<mapsto> l'))"
        using finish_success [OF l(1), of env now x] Inr by (auto simp: prod.case_eq_if)
      then show ?thesis
      proof
        assume "\<exists>l'\<in>{\<lparr>rlState = ResolutionResolved, rlSecret = True, rlDone = True\<rparr>,
              \<lparr>rlState = ResolutionExpired, rlSecret = False, rlDone = True\<rparr>}.
            resV (fst (finishResolution env now rid out h)) = (resV h)(rid \<mapsto> l')"
        then obtain l' where l': "l' \<in> {\<lparr>rlState = ResolutionResolved, rlSecret = True, rlDone = True\<rparr>,
              \<lparr>rlState = ResolutionExpired, rlSecret = False, rlDone = True\<rparr>}"
          "resV (fst (finishResolution env now rid out h)) = (resV h)(rid \<mapsto> l')" ..
        from l'(1) have "rlDone l'" "rlSecret l' \<longleftrightarrow> rlState l' = ResolutionResolved"
          "rlState l' \<notin> {ResolutionStarting, ResolutionChallengeRequired}" by auto
        note this l'(2)
        with FinishResolution have ?finish
          by (intro exI [of _ rid] exI [of _ out] exI [of _ l']) simp
        then show ?thesis ..
      qed (simp add: FinishResolution)
    qed
    then show ?thesis by blast
  next
    case (CompleteChallenge cid st msg)
    then obtain sc where sc: "chV h cid = Some (scopeIds sc)" "headOf rest = Some (runTask sc)"
      using challenge_scope [OF t, of cid] by auto
    have c: "case scopeIds sc of (s, r) \<Rightarrow>
       resV (fst (completeChallenge env now cid st msg h)) = resV h \<or>
       resV (fst (completeChallenge env now cid st msg h)) =
         (resV h)(r := map_option (\<lambda>l. l\<lparr>rlState := ResolutionStarting\<rparr>) (resV h r))"
      using resV_completeChallenge [where h = h and cid = cid and env = env and now = now and st = st and msg = msg] sc
      by simp
    show ?thesis
    proof (cases sc)
      case (SessionScope sid)
      then have ?same using c empty CompleteChallenge by (auto simp: fun_upd_idem_iff)
      then show ?thesis by blast
    next
      case (ResolutionScope rid)
      then obtain rest' where "rest = RunResolution rid # rest'"
        using sc by (cases rest) (auto simp: runTask_def)
      then obtain l where l: "resV h rid = Some l" "\<not> rlSecret l" using ok runningResolution_at by force
      have "?same \<or> ?run"
        using c ResolutionScope l CompleteChallenge sc by (auto simp: runTask_def)
      then show ?thesis by blast
    qed
  qed (use True in auto)
qed

end
