(* ===== verification/HostReach.thy ===== *)
theory HostReach
  imports HostInvariants
begin

text \<open>
  The invariant of \<open>HostInvariants\<close> holds in every state the host can reach, whatever the schedule,
  the clients, the providers and the clock do.
\<close>

section \<open>One step\<close>

text \<open>Goroutine \<open>i\<close> is about to execute task \<open>t\<close>.\<close>

definition about :: "hostConfig \<Rightarrow> controlHost \<Rightarrow> nat \<Rightarrow> hostTask \<Rightarrow> hostTask list \<Rightarrow> bool" where
  "about env h i t rest \<longleftrightarrow> hostInv env h \<and> freshIDs env \<and> i < length (hoThreads h) \<and> hoThreads h ! i = t # rest"

lemma stepThread_views:
  assumes "i < length (hoThreads h)" "hoThreads h ! i = t # rest"
  shows "sessV (stepThread env i now ch h) = sessV (fst (execTask env now ch t h))"
    "resV (stepThread env i now ch h) = resV (fst (execTask env now ch t h))"
    "chV (stepThread env i now ch h) = chV (fst (execTask env now ch t h))"
    "hoNextID (stepThread env i now ch h) = hoNextID (fst (execTask env now ch t h))"
    "hoNextSessionID (stepThread env i now ch h) = hoNextSessionID (fst (execTask env now ch t h))"
    "hoThreads (stepThread env i now ch h) = (hoThreads h)[i := snd (execTask env now ch t h) @ rest] @ spawned t"
  using assms exec_threads [of env now ch t h]
  by (auto simp: stepThread_def views list_update_append1 split: prod.splits)

lemma taskOk_views:
  assumes "sessV h' = sessV h" "resV h' = resV h" "chV h' = chV h"
  shows "taskOk h' u m = taskOk h u m"
  using assms
  by (cases "(h, u, m)" rule: taskOk.cases) (auto simp: runningSession_def endingSession_def runningResolution_def)

lemma threadOk_views:
  assumes "sessV h' = sessV h" "resV h' = resV h" "chV h' = chV h"
  shows "threadOk h' ts = threadOk h ts"
  using taskOk_views [OF assms] by (induction ts) auto

lemma threadOk_mono:
  "(\<And>u m. u \<in> set ts \<Longrightarrow> taskOk h u m \<Longrightarrow> taskOk h' u m) \<Longrightarrow> threadOk h ts \<Longrightarrow> threadOk h' ts"
  by (induction ts) auto

lemma inv_empty:
  assumes "hostInv env h"
  shows "sessV h [] = None" "resV h [] = None"
  using assms by (auto simp: hostInv_def identifiersOk_def drawnSessions_def drawnResolutions_def)

lemma fresh_challenge:
  assumes "hostInv env h" "freshIDs env"
  shows "chV h (hcNewID env (hoNextID h)) = None"
proof (rule ccontr)
  assume "\<not> ?thesis"
  then have "hcNewID env (hoNextID h) \<in> drawnChallenges env h" using assms by (auto simp: hostInv_def identifiersOk_def)
  then obtain n where "n < hoNextID h" "hcNewID env (hoNextID h) = hcNewID env n" by (auto simp: drawnChallenges_def)
  then have "TrimSpace (hcNewID env (hoNextID h)) = TrimSpace (hcNewID env n)" by simp
  then have "hoNextID h = n" using assms(2) by (simp add: freshIDs_def inj_on_def)
  with \<open>n < hoNextID h\<close> show False by simp
qed

lemma fresh_session:
  assumes "freshIDs env" shows "TrimSpace (hcNewSessionID env (hoNextSessionID h)) \<notin> drawnSessions env h"
  using assms by (auto simp: freshIDs_def drawnSessions_def inj_on_def)

lemma fresh_resolution:
  assumes "freshIDs env" shows "TrimSpace (hcNewID env (hoNextID h)) \<notin> drawnResolutions env h"
  using assms by (auto simp: freshIDs_def drawnResolutions_def inj_on_def)

lemma owners_in: "u \<in> set ts \<Longrightarrow> sessionOwner u = Some s \<Longrightarrow> 0 < ownersS s ts"
  "u \<in> set ts \<Longrightarrow> resolutionOwner u = Some r \<Longrightarrow> 0 < ownersR r ts"
  by (auto simp: ownersS_def ownersR_def filter_empty_conv)

text \<open>What the other goroutines, and this one later, rely on is not changed.\<close>

lemma frame_pending:
  assumes a: "about env h i t rest" and p: "pending h = as @ t # rest @ bs"
    and u: "u \<in> set as \<union> set bs \<or> u \<in> set rest \<and> challengeTask t = None \<or> u \<in> set (tl rest)"
    and ok: "taskOk h u m"
  shows "taskOk (fst (execTask env now ch t h)) u m"
proof (rule exec_frame [OF _ _ _ _ _ _ _ _ ok])
  from a have inv: "hostInv env h" and fresh: "freshIDs env" and th: "hoThreads h ! i = t # rest" "i < length (hoThreads h)"
    by (auto simp: about_def)
  then have tok: "threadOk h (t # rest)" by (metis hostInv_def nth_mem)
  then show "taskOk h t (headOf rest)" by simp
  show "sessV h [] = None" "resV h [] = None" using inv_empty [OF inv] .
  show "chV h (hcNewID env (hoNextID h)) = None" using fresh_challenge [OF inv fresh] .
  have le: "ownersS s (as @ t # rest @ bs) \<le> 1" "ownersR r (as @ t # rest @ bs) \<le> 1" for s r
    using inv p by (auto simp: hostInv_def ownersOk_def simp del: owners_simps)
  have u': "u \<in> set as \<union> set bs \<union> set rest" using u by (cases rest) auto
  show "sessionOwner t \<noteq> Some s" if "sessionOwner u = Some s" for s
    using le(1) [of s] u' owners_in(1) [OF _ that] by (auto dest!: owners_in(1) [OF _ that])
  show "resolutionOwner t \<noteq> Some r" if "resolutionOwner u = Some r" for r
    using le(2) [of r] u' by (auto dest!: owners_in(2) [OF _ that])
  have u2: "u \<in> set as \<union> set bs \<union> set (tl rest)" if "challengeTask t \<noteq> None" using u that by auto
  show "headOf rest \<noteq> Some (RunSession s)" if "sessionOwner u = Some s" "challengeTask t \<noteq> None" for s
    using le(1) [of s] u2 [OF that(2)] by (cases rest) (auto dest!: owners_in(1) [OF _ that(1)])
  show "headOf rest \<noteq> Some (RunResolution r)" if "resolutionOwner u = Some r" "challengeTask t \<noteq> None" for r
    using le(2) [of r] u2 [OF that(2)] by (cases rest) (auto dest!: owners_in(2) [OF _ that(1)])
qed

lemma frame_head:
  assumes ok: "threadOk h (t # runTask sc # ts)" and c: "challengeTask t = Some cid" "chV h cid = Some (scopeIds sc)"
    and empty: "sessV h [] = None" "resV h [] = None" and inv: "resolutionsOk h"
  shows "taskOk (fst (execTask env now ch t h)) (runTask sc) m"
proof (cases sc)
  case (SessionScope sid)
  then have run: "runningSession h sid" using ok by (simp add: runTask_def)
  have "sessionOwner t = None" "\<And>x. t \<noteq> CloseDone x" "\<And>x y. t \<noteq> InsertSession x y" "\<And>x. t \<noteq> StopPlatform x"
    using c by (cases t; simp)+
  then have "runningSession (fst (execTask env now ch t h)) sid"
    using sess_effect [OF ok empty(1), of env now ch] run SessionScope
    by (auto simp: runningSession_def runTask_def)
  then show ?thesis using SessionScope by (simp add: runTask_def)
next
  case (ResolutionScope rid)
  then have run: "runningResolution h rid" using ok by (simp add: runTask_def)
  have "\<And>x. t \<noteq> RunResolution x" "\<And>x y z w. t \<noteq> InsertResolution x y z w" "\<And>x y. t \<noteq> FinishResolution x y"
    using c by (cases t; simp)+
  then have "runningResolution (fst (execTask env now ch t h)) rid"
    using res_effect [OF ok empty(2) inv, of env now ch] run ResolutionScope
    by (auto simp: runningResolution_def runTask_def)
  then show ?thesis using ResolutionScope by (simp add: runTask_def)
qed

lemma about_facts:
  assumes "about env h i t rest"
  obtains as bs where "pending h = as @ t # rest @ bs"
    "pending (stepThread env i now ch h) = as @ snd (execTask env now ch t h) @ rest @ bs @ concat (spawned t)"
    "\<And>ys. ys \<in> set (hoThreads (stepThread env i now ch h)) \<Longrightarrow>
       ys = snd (execTask env now ch t h) @ rest \<or> ys \<in> set (hoThreads h) \<and> set ys \<subseteq> set as \<union> set bs \<or> ys \<in> set (spawned t)"
proof -
  have i: "i < length (hoThreads h)" "hoThreads h ! i = t # rest" using assms by (simp_all add: about_def)
  obtain as bs where c: "concat (hoThreads h) = as @ t # rest @ bs"
    "concat ((hoThreads h)[i := snd (execTask env now ch t h) @ rest]) = as @ snd (execTask env now ch t h) @ rest @ bs"
    "\<And>ys. ys \<in> set ((hoThreads h)[i := snd (execTask env now ch t h) @ rest]) \<Longrightarrow>
       ys = snd (execTask env now ch t h) @ rest \<or> ys \<in> set (hoThreads h) \<and> set ys \<subseteq> set as \<union> set bs"
    using concat_update [OF i] by metis
  show ?thesis
    using that [of as bs] c by (auto simp: pending_def stepThread_views(6) [OF i])
qed

lemma about_ok:
  assumes "about env h i t rest"
  shows "hostInv env h" "freshIDs env" "threadOk h (t # rest)" "sessV h [] = None" "resV h [] = None"
    "resolutionsOk h" "sessionsOk h" "ownersOk h" "identifiersOk env h" "i < length (hoThreads h)" "hoThreads h ! i = t # rest"
proof -
  show inv: "hostInv env h" and "freshIDs env" and i: "i < length (hoThreads h)" "hoThreads h ! i = t # rest"
    using assms by (simp_all add: about_def)
  show "threadOk h (t # rest)" using inv i by (metis hostInv_def nth_mem)
  show "sessV h [] = None" "resV h [] = None" using inv_empty [OF inv] .
  show "resolutionsOk h" "sessionsOk h" "ownersOk h" "identifiersOk env h" using inv by (simp_all add: hostInv_def)
qed

lemma step_threadsOk:
  assumes a: "about env h i t rest"
  shows "\<forall>ts\<in>set (hoThreads (stepThread env i now ch h)). threadOk (stepThread env i now ch h) ts"
proof
  fix ts
  let ?h = "fst (execTask env now ch t h)"
  assume ts: "ts \<in> set (hoThreads (stepThread env i now ch h))"
  note ok = about_ok [OF a]
  obtain as bs where p: "pending h = as @ t # rest @ bs"
    and thr: "\<And>ys. ys \<in> set (hoThreads (stepThread env i now ch h)) \<Longrightarrow>
       ys = snd (execTask env now ch t h) @ rest \<or> ys \<in> set (hoThreads h) \<and> set ys \<subseteq> set as \<union> set bs \<or> ys \<in> set (spawned t)"
    using about_facts [OF a, of now ch] by metis
  have v: "threadOk (stepThread env i now ch h) ts = threadOk ?h ts"
    using stepThread_views [OF ok(10,11), of env now ch] by (intro threadOk_views) auto
  from thr [OF ts] consider (own) "ts = snd (execTask env now ch t h) @ rest"
    | (other) "ts \<in> set (hoThreads h)" "set ts \<subseteq> set as \<union> set bs" | (new) "ts \<in> set (spawned t)" by blast
  then have "threadOk ?h ts"
  proof cases
    case other
    then have "threadOk h ts" using ok(1) by (simp add: hostInv_def)
    then show ?thesis by (rule threadOk_mono [rotated]) (use frame_pending [OF a p] other in blast)
  next
    case new
    then obtain sc where "t = SpawnRun sc" "ts = [runTask sc]" by (auto simp: spawned_def split: hostTask.splits)
    moreover have "sessV ?h = sessV h" "resV ?h = resV h" "chV ?h = chV h"
      using \<open>t = SpawnRun sc\<close> by (simp_all add: views)
    ultimately show ?thesis
      using ok(3) by (cases sc) (auto simp: runTask_def runningSession_def runningResolution_def)
  next
    case own
    have t: "taskOk h t (headOf rest)" and r: "threadOk h rest" using ok(3) by auto
    have "threadOk ?h rest"
    proof (cases "challengeTask t")
      case None
      show ?thesis by (rule threadOk_mono [OF _ r]) (use frame_pending [OF a p] None in blast)
    next
      case (Some cid)
      obtain sc where sc: "chV h cid = Some (scopeIds sc)" "headOf rest = Some (runTask sc)"
        using challenge_scope [OF t Some] .
      then obtain rest' where rest': "rest = runTask sc # rest'" by (cases rest) auto
      have "taskOk ?h (runTask sc) (headOf rest')"
        using frame_head [OF _ Some sc(1) ok(4-6)] ok(3) rest' by blast
      moreover have "threadOk ?h rest'"
        by (rule threadOk_mono [where h = h]) (use frame_pending [OF a p] r rest' in auto)
      ultimately show ?thesis by (simp add: rest')
    qed
    then show ?thesis using threadOk_next [OF t] own by simp
  qed
  with v show "threadOk (stepThread env i now ch h) ts" by simp
qed

lemma step_sessionsOk:
  assumes a: "about env h i t rest"
  shows "sessionsOk (stepThread env i now ch h)"
proof -
  note ok = about_ok [OF a]
  have "sessV (stepThread env i now ch h) = sessV (fst (execTask env now ch t h))"
    using stepThread_views [OF ok(10,11)] by simp
  with sess_effect [OF ok(3,4), of env now ch] ok(7) show ?thesis
    unfolding sessionsOk_def
    by (elim disjE exE conjE) (simp_all add: livesOk_upd livesOk_stop livesOk_new split: if_splits)
qed

lemma step_resolutionsOk:
  assumes a: "about env h i t rest"
  shows "resolutionsOk (stepThread env i now ch h)"
proof -
  note ok = about_ok [OF a]
  have "resV (stepThread env i now ch h) = resV (fst (execTask env now ch t h))"
    using stepThread_views [OF ok(10,11)] by simp
  with res_effect [OF ok(3,5,6), of env now ch] ok(6) show ?thesis
    unfolding resolutionsOk_def
    by (elim disjE exE conjE) (simp_all, auto)
qed

lemma new_keys:
  fixes now ch
  assumes a: "about env h i t rest"
  defines "h' \<equiv> fst (execTask env now ch t h)"
  shows "sessV h' s \<noteq> None \<Longrightarrow> sessV h s \<noteq> None \<or> sessionOwner t = Some s"
    "resV h' r \<noteq> None \<Longrightarrow> resV h r \<noteq> None \<or> resolutionOwner t = Some r"
    "chV h' c \<noteq> None \<Longrightarrow> chV h c \<noteq> None \<or> c = hcNewID env (hoNextID h) \<and> hoNextID h < hoNextID h'"
proof -
  note ok = about_ok [OF a]
  have st: "stopMode mode v s \<noteq> None \<Longrightarrow> v s \<noteq> None" for mode v by (auto simp: stopMode_def)
  show "sessV h' s \<noteq> None \<Longrightarrow> sessV h s \<noteq> None \<or> sessionOwner t = Some s"
    using sess_effect [OF ok(3,4), of env now ch] st
    unfolding h'_def by (elim disjE exE conjE) (auto split: if_splits)
  show "resV h' r \<noteq> None \<Longrightarrow> resV h r \<noteq> None \<or> resolutionOwner t = Some r"
    using res_effect [OF ok(3,5,6), of env now ch]
    unfolding h'_def by (elim disjE exE conjE) (auto split: if_splits)
  show "chV h' c \<noteq> None \<Longrightarrow> chV h c \<noteq> None \<or> c = hcNewID env (hoNextID h) \<and> hoNextID h < hoNextID h'"
  proof (cases "raisesChallenge t")
    case False
    then show "chV h' c \<noteq> None \<Longrightarrow> ?thesis" by (simp add: h'_def exec_chV_quiet)
  next
    case True
    assume c: "chV h' c \<noteq> None"
    have "chV h c \<noteq> None \<or> c = hcNewID env (hoNextID h)"
      using True c runHostSession_next [of env now ch _ h] runResolution_next [of env now ch _ h]
      by (cases t) (auto simp: h'_def fun_upd_apply, (metis fun_upd_apply option.distinct(1))+)
    moreover have "hoNextID h < hoNextID h'" if "chV h c = None"
    proof -
      have "chV h' \<noteq> chV h" using c that by metis
      then show ?thesis using raise_grows unfolding h'_def by blast
    qed
    ultimately show ?thesis by blast
  qed
qed

lemma step_owners:
  fixes now ch
  assumes a: "about env h i t rest"
  defines "h2 \<equiv> stepThread env i now ch h" and "h' \<equiv> fst (execTask env now ch t h)"
  shows "(sessionOwner t = Some s \<and> ownersS s (pending h) = 1 \<and>
      (ownersS s (pending h2) = 1 \<or>
       ownersS s (pending h2) = 0 \<and> (\<forall>l. sessV h' s = Some l \<longrightarrow> slMode l \<noteq> [] \<or> slDone l))) \<or>
    (sessionOwner t \<noteq> Some s \<and>
      (ownersS s (pending h2) = ownersS s (pending h) \<or>
       ownersS s (pending h) = 0 \<and> ownersS s (pending h2) = 1 \<and> s \<in> drawnSessions env h2))" (is "?own \<or> ?other")
    and "(resolutionOwner t = Some r \<and> ownersR r (pending h) = 1 \<and>
      (ownersR r (pending h2) = 1 \<or>
       ownersR r (pending h2) = 0 \<and> (\<forall>l. resV h' r = Some l \<longrightarrow>
         rlDone l \<and> rlState l \<notin> {ResolutionStarting, ResolutionChallengeRequired}))) \<or>
    (resolutionOwner t \<noteq> Some r \<and>
      (ownersR r (pending h2) = ownersR r (pending h) \<or>
       ownersR r (pending h) = 0 \<and> ownersR r (pending h2) = 1 \<and> r \<in> drawnResolutions env h2))" (is "?ownR \<or> ?otherR")
proof -
  note ok = about_ok [OF a]
  obtain as bs where p: "pending h = as @ t # rest @ bs"
    and p2: "pending h2 = as @ snd (execTask env now ch t h) @ rest @ bs @ concat (spawned t)"
    using about_facts [OF a, of now ch] unfolding h2_def by metis
  have t: "taskOk h t (headOf rest)" using ok(3) by simp
  have le: "ownersS s (pending h) \<le> 1" "ownersR r (pending h) \<le> 1" using ok(8) by (auto simp: ownersOk_def)
  have next2: "hoNextSessionID h2 = hoNextSessionID h'" "hoNextID h2 = hoNextID h'"
    using stepThread_views [OF ok(10,11), of env now ch] by (simp_all add: h2_def h'_def)
  show "?own \<or> ?other"
  proof (cases "sessionOwner t = Some s")
    case True
    then show ?thesis using handed_session [OF True t, of env now ch] le(1) p p2 by (auto simp: h'_def)
  next
    case False
    from others_session [OF False t, of env now ch] show ?thesis
    proof
      assume "ownersS s (snd (execTask env now ch t h) @ concat (spawned t)) = 0"
      then show ?thesis using False p p2 by simp
    next
      assume "\<exists>n st. t = AllocateSession n st \<and> snd (execTask env now ch t h) = [InsertSession s st] \<and>
        s = TrimSpace (hcNewSessionID env (hoNextSessionID h)) \<and> s \<noteq> [] \<and> sessV h s = None"
      then obtain n st where al: "t = AllocateSession n st" "snd (execTask env now ch t h) = [InsertSession s st]"
        "s = TrimSpace (hcNewSessionID env (hoNextSessionID h))" "s \<noteq> []" by blast
      have "ownersS s (pending h) = 0"
        using fresh_session [OF ok(2), of h] al(3) ok(9) by (auto simp: identifiersOk_def)
      moreover have "s \<in> drawnSessions env h2"
        using al next2 by (auto simp: drawnSessions_def h'_def allocateSessionID_def drawSessionID_def Let_def)
      ultimately show ?thesis using False p p2 al by simp
    qed
  qed
  show "?ownR \<or> ?otherR"
  proof (cases "resolutionOwner t = Some r")
    case True
    have "rlDone l" if "resV h r = Some l" "rlState l = ResolutionCancelled" for l
      using that ok(6) by (auto simp: resolutionsOk_def)
    then show ?thesis using handed_resolution [OF True t, of env now ch] le(2) p p2 True by (auto simp: h'_def)
  next
    case False
    from others_resolution [OF False t, of env now ch] show ?thesis
    proof
      assume "ownersR r (snd (execTask env now ch t h) @ concat (spawned t)) = 0"
      then show ?thesis using False p p2 by simp
    next
      assume "\<exists>n rq d at. t = AllocateResolution n rq d at \<and> snd (execTask env now ch t h) = [InsertResolution r rq d at] \<and>
        r = TrimSpace (hcNewID env (hoNextID h)) \<and> r \<noteq> [] \<and> resV h r = None"
      then obtain n rq d at where al: "t = AllocateResolution n rq d at"
        "snd (execTask env now ch t h) = [InsertResolution r rq d at]"
        "r = TrimSpace (hcNewID env (hoNextID h))" "r \<noteq> []" by blast
      have "ownersR r (pending h) = 0"
        using fresh_resolution [OF ok(2), of h] al(3) ok(9) by (auto simp: identifiersOk_def)
      moreover have "r \<in> drawnResolutions env h2"
        using al next2 by (auto simp: drawnResolutions_def h'_def allocateResolutionID_def drawID_def Let_def)
      ultimately show ?thesis using False p p2 al by simp
    qed
  qed
qed

lemma step_identifiersOk:
  assumes a: "about env h i t rest"
  shows "identifiersOk env (stepThread env i now ch h)" (is "identifiersOk env ?h2")
proof -
  note ok = about_ok [OF a]
  let ?h' = "fst (execTask env now ch t h)"
  note v = stepThread_views [OF ok(10,11), of env now ch]
  have g: "grows h ?h2" using exec_grows [of h env now ch t] v by (simp add: grows_def)
  note m = drawn_mono [OF g, of env]
  have S: "s \<in> drawnSessions env h" if "ownersS s (pending h) \<noteq> 0 \<or> sessV h s \<noteq> None" for s
    using that ok(9) by (auto simp: identifiersOk_def)
  have R: "r \<in> drawnResolutions env h" if "ownersR r (pending h) \<noteq> 0 \<or> resV h r \<noteq> None" for r
    using that ok(9) by (auto simp: identifiersOk_def)
  have s2: "s \<in> drawnSessions env ?h2" if "sessV ?h2 s \<noteq> None" for s
    using new_keys(1) [OF a, of now ch s] step_owners(1) [OF a, of s now ch] S [of s] m that v by auto
  have r2: "r \<in> drawnResolutions env ?h2" if "resV ?h2 r \<noteq> None" for r
    using new_keys(2) [OF a, of now ch r] step_owners(2) [OF a, of r now ch] R [of r] m that v by auto
  have c2: "c \<in> drawnChallenges env ?h2" if "chV ?h2 c \<noteq> None" for c
    using new_keys(3) [OF a, of now ch c] ok(9) m that v by (auto simp: identifiersOk_def drawnChallenges_def)
  have o2: "s \<in> drawnSessions env ?h2" if "ownersS s (pending ?h2) \<noteq> 0" for s
    using step_owners(1) [OF a, of s now ch] S [of s] m that by auto
  have p2: "r \<in> drawnResolutions env ?h2" if "ownersR r (pending ?h2) \<noteq> 0" for r
    using step_owners(2) [OF a, of r now ch] R [of r] m that by auto
  show ?thesis unfolding identifiersOk_def using s2 r2 c2 o2 p2 by blast
qed

lemma session_before:
  assumes a: "about env h i t rest" and l: "sessV (fst (execTask env now ch t h)) s = Some l" "slMode l = []" "\<not> slDone l"
    and own: "sessionOwner t \<noteq> Some s"
  shows "\<exists>k. sessV h s = Some k \<and> slMode k = [] \<and> \<not> slDone k"
proof -
  note ok = about_ok [OF a]
  have st: "\<exists>k. v s = Some k \<and> slMode k = [] \<and> \<not> slDone k" if "stopMode mode v s = Some l" for mode v
    using stopMode_Some [OF that] l(2,3) by auto
  show ?thesis
    using sess_effect [OF ok(3,4), of env now ch] l own st
    by (elim disjE exE conjE) (auto split: if_splits)
qed

lemma resolution_before:
  assumes a: "about env h i t rest" and l: "resV (fst (execTask env now ch t h)) r = Some l"
      "\<not> rlDone l \<or> rlState l \<in> {ResolutionStarting, ResolutionChallengeRequired}"
    and own: "resolutionOwner t \<noteq> Some r"
  shows "(\<exists>k. resV h r = Some k \<and> (\<not> rlDone k \<or> rlState k \<in> {ResolutionStarting, ResolutionChallengeRequired})) \<or>
    headOf rest = Some (RunResolution r)"
proof -
  note ok = about_ok [OF a]
  have d: "rlDone k" if "resV h r = Some k" "rlState k = ResolutionResolved" for k
    using that ok(6) by (auto simp: resolutionsOk_def)
  show ?thesis
    using res_effect [OF ok(3,5,6), of env now ch] l own d
    by (elim disjE exE conjE) (auto split: if_splits)
qed

lemma step_ownersOk:
  assumes a: "about env h i t rest"
  shows "ownersOk (stepThread env i now ch h)" (is "ownersOk ?h2")
proof -
  note ok = about_ok [OF a]
  let ?h' = "fst (execTask env now ch t h)"
  note v = stepThread_views [OF ok(10,11), of env now ch]
  have old: "ownersS s (pending h) \<le> 1" "ownersR r (pending h) \<le> 1" for s r using ok(8) by (auto simp: ownersOk_def)
  have S1: "ownersS s (pending ?h2) \<le> 1" for s
    using step_owners(1) [OF a, of s now ch] old(1) [of s] by auto
  have R1: "ownersR r (pending ?h2) \<le> 1" for r
    using step_owners(2) [OF a, of r now ch] old(2) [of r] by auto
  have S2: "ownersS s (pending ?h2) = 1" if l: "sessV ?h2 s = Some l" "slMode l = []" "\<not> slDone l" for s l
  proof (cases "sessionOwner t = Some s")
    case True
    then show ?thesis using step_owners(1) [OF a, of s now ch] l v by auto
  next
    case False
    then obtain k where "sessV h s = Some k" "slMode k = []" "\<not> slDone k"
      using session_before [OF a _ l(2,3), of now ch s] l(1) v by auto
    then have "ownersS s (pending h) = 1" using ok(8) by (simp add: ownersOk_def)
    then show ?thesis using step_owners(1) [OF a, of s now ch] False by auto
  qed
  have R2: "ownersR r (pending ?h2) = 1"
    if l: "resV ?h2 r = Some l" "\<not> rlDone l \<or> rlState l \<in> {ResolutionStarting, ResolutionChallengeRequired}" for r l
  proof (cases "resolutionOwner t = Some r")
    case True
    then show ?thesis using step_owners(2) [OF a, of r now ch] l v by auto
  next
    case False
    have "ownersR r (pending h) = 1"
    proof (cases "headOf rest = Some (RunResolution r)")
      case True
      then obtain rest' where "rest = RunResolution r # rest'" by (cases rest) auto
      moreover obtain as bs where "pending h = as @ t # rest @ bs" using about_facts [OF a, of now ch] by metis
      ultimately show ?thesis using old(2) [of r] by simp
    next
      case False2: False
      then obtain k where "resV h r = Some k" "\<not> rlDone k \<or> rlState k \<in> {ResolutionStarting, ResolutionChallengeRequired}"
        using resolution_before [OF a _ l(2), of now ch r] l(1) v False by auto
      then show ?thesis using ok(8) by (simp add: ownersOk_def)
    qed
    then show ?thesis using step_owners(2) [OF a, of r now ch] False by auto
  qed
  show ?thesis unfolding ownersOk_def using S1 R1 S2 R2 by blast
qed

theorem stepThread_inv:
  assumes "hostInv env h" "freshIDs env"
  shows "hostInv env (stepThread env i now ch h)"
proof (cases "i < length (hoThreads h) \<and> hoThreads h ! i \<noteq> []")
  case False
  then have "stepThread env i now ch h = h" by (auto simp: stepThread_def)
  then show ?thesis using assms by simp
next
  case True
  then obtain t rest where "hoThreads h ! i = t # rest" by (cases "hoThreads h ! i") auto
  then have a: "about env h i t rest" using True assms by (simp add: about_def)
  show ?thesis
    unfolding hostInv_def
    using step_identifiersOk [OF a] step_ownersOk [OF a] step_sessionsOk [OF a] step_resolutionsOk [OF a]
      step_threadsOk [OF a] by blast
qed

lemma isCall_plain: "isCall t \<Longrightarrow> plain t"
  by (cases t) (auto simp: plain_def)

lemma hostDo_inv:
  assumes "hostInv env h" "freshIDs env"
  shows "hostInv env (hostDo env h a)"
proof (cases a)
  case (Step i now ch)
  then show ?thesis using stepThread_inv [OF assms] assms(1) by (simp add: hostDo_def)
next
  case (Invoke t)
  show ?thesis
  proof (cases "isCall t \<and> \<not> hoPanicked h")
    case True
    let ?h = "h\<lparr>hoThreads := hoThreads h @ [[t]]\<rparr>"
    have p: "plain t" using True isCall_plain by blast
    have pend: "pending ?h = pending h @ [t]" by (simp add: pending_def)
    have "sessionOwner t = None" "resolutionOwner t = None" using p by (simp_all add: plain_def)
    then have o: "ownersS s (pending ?h) = ownersS s (pending h)" "ownersR s (pending ?h) = ownersR s (pending h)" for s
      by (simp_all add: pend)
    have d: "drawnSessions env ?h = drawnSessions env h" "drawnResolutions env ?h = drawnResolutions env h"
      "drawnChallenges env ?h = drawnChallenges env h"
      by (simp_all add: drawnSessions_def drawnResolutions_def drawnChallenges_def)
    have "threadOk ?h ts = threadOk h ts" for ts by (rule threadOk_views) (simp_all add: views)
    then have "hostInv env ?h"
      using assms(1) plain_ok [OF p]
      by (auto simp: hostInv_def identifiersOk_def ownersOk_def sessionsOk_def resolutionsOk_def o d views)
    then show ?thesis using Invoke True by (simp add: hostDo_def)
  next
    case False
    then show ?thesis using Invoke assms(1) by (auto simp: hostDo_def)
  qed
qed

lemma foldl_inv: "hostInv env h \<Longrightarrow> freshIDs env \<Longrightarrow> hostInv env (foldl (hostDo env) h acts)"
  by (induction acts arbitrary: h) (simp_all add: hostDo_inv)

theorem runHost_inv: "freshIDs env \<Longrightarrow> hostInv env (runHost env acts)"
  unfolding runHost_def by (intro foldl_inv NewHost_inv)

end
