(* ===== verification/HostProgress.thy ===== *)
theory HostProgress
  imports HostReach "HOL-Library.Multiset"
begin

text \<open>
  Progress of the control host.  Every task that does not wait for the outside is replaced by tasks of
  a smaller rank, so that the host rests between two outcomes; and while nobody unsubscribes it does
  not panic and can be brought to an end.
\<close>

section \<open>Ranks\<close>

fun waits :: "hostTask \<Rightarrow> bool" where
  "waits (RunSession sid) = True"
| "waits (RunResolution rid) = True"
| "waits (AwaitAction sc cid kind) = True"
| "waits (FinishContinuation cid) = True"
| "waits _ = False"

fun rank :: "hostTask \<Rightarrow> nat \<times> nat" where
  "rank (AllocateSession n st) = (7, n)"
| "rank (AllocateResolution n rq d at) = (7, n)"
| "rank (InsertSession sid st) = (6, 0)"
| "rank (InsertResolution rid rq d at) = (6, 0)"
| "rank (SpawnRun sc) = (5, 0)"
| "rank (RunSession sid) = (4, 0)"
| "rank (RunResolution rid) = (4, 0)"
| "rank (AwaitAction sc cid kind) = (4, 0)"
| "rank (FinishContinuation cid) = (3, 0)"
| "rank (FinishSession sid e) = (3, 0)"
| "rank (FinishResolution rid r) = (case r of Inl _ \<Rightarrow> (2, 0) | Inr _ \<Rightarrow> (3, 0))"
| "rank (FinishReport sid v c) = (2, 0)"
| "rank (CompleteChallenge cid st msg) = (2, 0)"
| "rank (AppendSignal cid ev) = (2, 0)"
| "rank (StopPlatform mode) = (2, 0)"
| "rank (PublishEvent ev) = (1, 0)"
| "rank (SendEvent ev cs) = (0, length cs)"
| "rank (AppendStopped sid ev) = (0, 0)"
| "rank (SendAction cid a) = (0, 0)"
| "rank (CloseDone sid) = (0, 0)"
| "rank (CancelRun sc) = (0, 0)"
| "rank (ClearPending sid) = (0, 0)"
| "rank (CloseSubscriber c) = (0, 0)"
| "rank _ = (8, 0)"

definition lower :: "((nat \<times> nat) \<times> (nat \<times> nat)) set" where
  "lower = less_than <*lex*> less_than"

lemma lower_simps [simp]: "((a, b), (c, d)) \<in> lower \<longleftrightarrow> a < c \<or> a = c \<and> b < d"
  by (auto simp: lower_def)

lemma wf_lower: "wf lower"
  by (simp add: lower_def wf_lex_prod)

lemma publish_low: "\<forall>u\<in>set (snd (publishPlatformTunnelStop env now mode msg h)). \<exists>ev. u = PublishEvent ev"
  by (auto simp: publishPlatformTunnelStop_def split: prod.splits)

lemma read_low: "\<forall>u\<in>set (snd (snd (readResolution env now rid h))). \<exists>ev. u = PublishEvent ev"
  by (auto simp: readResolution_def split: option.splits prod.splits)

lemma export_low: "\<forall>u\<in>set (snd (snd (ExportResolution env now rid h))). (rank u, (8, 0)) \<in> lower"
  using read_low [of env now rid h] by (fastforce simp: ExportResolution_def prod.case_eq_if split: option.splits)

lemma materialize_low:
  "\<forall>u\<in>set (snd (snd (MaterializeResolutionWithPlan env now rid ds p h))). (rank u, (8, 0)) \<in> lower"
  using read_low [of env now rid h]
  by (fastforce simp: MaterializeResolutionWithPlan_def prod.case_eq_if split: option.splits sum.splits)

lemma calls_low:
  "\<forall>u\<in>set (snd (StartSession env now req h)). (rank u, (8, 0)) \<in> lower"
  "\<forall>u\<in>set (snd (snd (StopSession env now sid h))). (rank u, (8, 0)) \<in> lower"
  "\<forall>u\<in>set (snd (snd (readResolution env now rid h))). (rank u, (8, 0)) \<in> lower"
  "\<forall>u\<in>set (snd (snd (CancelResolution env now rid h))). (rank u, (8, 0)) \<in> lower"
  "\<forall>u\<in>set (snd (snd (signalChallenge now cid a st h))). (rank u, (8, 0)) \<in> lower"
  "\<forall>u\<in>set (snd (Unsubscribe c h)). (rank u, (8, 0)) \<in> lower"
  "StartResolution env now rq = Inr t \<Longrightarrow> (rank t, (8, 0)) \<in> lower"
  by (auto simp: StartSession_def StopSession_def readResolution_def CancelResolution_def signalChallenge_def
      Unsubscribe_def StartResolution_def Let_def split: sum.splits option.splits prod.splits if_splits)

lemma sections_low:
  "\<forall>u\<in>set (snd (allocateSessionID env n ss h)). (rank u, (7, n)) \<in> lower"
  "\<forall>u\<in>set (snd (allocateResolutionID env n rq d at h)). (rank u, (7, n)) \<in> lower"
  "\<forall>u\<in>set (snd (insertResolution env rid rq d at h)). (rank u, (6, 0)) \<in> lower"
  "\<forall>u\<in>set (snd (completeChallenge env now cid st msg h)). (rank u, (2, 0)) \<in> lower"
  "\<forall>u\<in>set (snd (appendSignal env ev h)). (rank u, (2, 0)) \<in> lower"
  "\<forall>u\<in>set (snd (finishSession now sid e h)). (rank u, (3, 0)) \<in> lower"
  "\<forall>u\<in>set (finishReport sid v b h). (rank u, (2, 0)) \<in> lower"
  "\<forall>u\<in>set (snd (finishResolutionFailure env now rid f h)). (rank u, (2, 0)) \<in> lower"
  "\<forall>u\<in>set (snd (finishResolutionSuccess env now rid r h)). (rank u, (3, 0)) \<in> lower"
  "\<forall>u\<in>set (snd (publishEvent env ev h)). (rank u, (1, 0)) \<in> lower"
  by (auto simp: allocateSessionID_def allocateResolutionID_def insertResolution_def completeChallenge_def
      appendSignal_def finishSession_def finishReport_def finishResolutionFailure_def finishResolutionSuccess_def
      publishEvent_def Let_def split: sum.splits option.splits prod.splits if_splits)

lemma insertSession_low: "\<forall>u\<in>set (snd (insertSession env sid st h)). (rank u, (6, 0)) \<in> lower"
  by (auto simp: insertSession_def insertOrdinarySession_def insertPlatformSession_def Let_def split: prod.splits)

lemma publishStop_low: "\<forall>u\<in>set (snd (publishPlatformTunnelStop env now mode msg h)). (rank u, (2, 0)) \<in> lower"
  using publish_low by fastforce

theorem exec_low:
  assumes "\<not> waits t"
  shows "\<forall>u\<in>set (snd (execTask env now ch t h) @ concat (spawned t)). (rank u, rank t) \<in> lower"
  using assms
  by (cases t)
    (simp_all add: calls_low export_low materialize_low sections_low sections_low [unfolded One_nat_def] insertSession_low publishStop_low
      finishResolution_def runTask_def split: sum.splits list.splits hostChoice.splits challengeScope.splits)

section \<open>Internal steps end\<close>

definition load :: "controlHost \<Rightarrow> (nat \<times> nat) multiset" where
  "load h = mset (List.map rank (pending h))"

lemma step_load:
  assumes "i < length (hoThreads h)" "hoThreads h ! i = t # rest"
    and low: "\<forall>u\<in>set (snd (execTask env now ch t h) @ concat (spawned t)). (rank u, rank t) \<in> lower"
  shows "(load (stepThread env i now ch h), load h) \<in> mult lower"
proof -
  obtain as bs where c: "concat (hoThreads h) = as @ t # rest @ bs"
    "concat ((hoThreads h)[i := snd (execTask env now ch t h) @ rest]) = as @ snd (execTask env now ch t h) @ rest @ bs"
    using concat_update [OF assms(1,2)] by metis
  let ?I = "mset (List.map rank (as @ rest @ bs))"
  let ?K = "mset (List.map rank (snd (execTask env now ch t h) @ concat (spawned t)))"
  have h: "load h = ?I + {#rank t#}" by (simp add: load_def pending_def c)
  have h2: "load (stepThread env i now ch h) = ?I + ?K"
    by (simp add: load_def pending_def stepThread_views(6) [OF assms(1,2)] c)
  have "\<forall>k\<in>set_mset ?K. \<exists>j\<in>set_mset {#rank t#}. (k, j) \<in> lower" using low by auto
  then show ?thesis
    unfolding h h2 by (intro one_step_implies_mult) simp_all
qed

text \<open>A step of a goroutine that waits for nothing outside.\<close>

definition internalStep :: "hostConfig \<Rightarrow> (controlHost \<times> controlHost) set" where
  "internalStep env =
     {(stepThread env i now ch h, h) | i now ch h t rest.
        i < length (hoThreads h) \<and> hoThreads h ! i = t # rest \<and> \<not> waits t}"

text \<open>
  C35: Between two outcomes of the outside (a record, challenge or result of a run, an action of a
  client, the end of a continuation) the goroutines of the host take finitely many steps, whatever
  the schedule and the clock: allocation of identifiers gives up, each event is sent to finitely many
  subscribers, every call returns.
\<close>

theorem internal_steps_end: "wf (internalStep env)"
proof (rule wf_subset)
  show "wf (inv_image (mult lower) load)" by (intro wf_inv_image wf_mult wf_lower)
  show "internalStep env \<subseteq> inv_image (mult lower) load"
  proof
    fix p assume "p \<in> internalStep env"
    then obtain i now ch h t rest where p: "p = (stepThread env i now ch h, h)" "i < length (hoThreads h)"
      "hoThreads h ! i = t # rest" "\<not> waits t" by (auto simp: internalStep_def)
    show "p \<in> inv_image (mult lower) load"
      using step_load [OF p(2,3) exec_low [OF p(4)]] p(1) by simp
  qed
qed

section \<open>No panic while nobody unsubscribes\<close>

fun clean :: "hostTask \<Rightarrow> bool" where
  "clean (CloseSubscriber c) = False"
| "clean (CallUnsubscribe c) = False"
| "clean _ = True"

definition calm :: "controlHost \<Rightarrow> bool" where
  "calm h \<longleftrightarrow> \<not> hoPanicked h \<and> (\<forall>c ch. theChannel c h = Some ch \<longrightarrow> \<not> sbClosed ch) \<and> (\<forall>t\<in>set (pending h). clean t)"

definition sameChannels :: "controlHost \<Rightarrow> controlHost \<Rightarrow> bool" where
  "sameChannels h h' \<longleftrightarrow> hoPanicked h' = hoPanicked h \<and> hoChannels h' = hoChannels h"

lemma same_put [simp]:
  "hoPanicked (putSession s m h) = hoPanicked h" "hoChannels (putSession s m h) = hoChannels h"
  "hoPanicked (putResolution r n h) = hoPanicked h" "hoChannels (putResolution r n h) = hoChannels h"
  "hoPanicked (putChallenge c k h) = hoPanicked h" "hoChannels (putChallenge c k h) = hoChannels h"
  "hoPanicked (updSession s f h) = hoPanicked h" "hoChannels (updSession s f h) = hoChannels h"
  "hoPanicked (updResolution r g h) = hoPanicked h" "hoChannels (updResolution r g h) = hoChannels h"
  by (auto simp: putSession_def putResolution_def putChallenge_def updSession_def updResolution_def split: option.splits)

lemma same_calls:
  "sameChannels h (snd (UpsertProfile env p h))" "sameChannels h (snd (DeleteProfile pid h))"
  "sameChannels h (fst (StartSession env now req h))" "sameChannels h (fst (snd (StopSession env now sid h)))"
  "sameChannels h (fst (snd (readResolution env now rid h)))" "sameChannels h (fst (snd (CancelResolution env now rid h)))"
  "sameChannels h (fst (snd (signalChallenge now cid a st h)))" "sameChannels h (fst (Unsubscribe c h))"
  "sameChannels h (fst (publishEvent env ev h))" "sameChannels h (cancelRun sc h)" "sameChannels h (spawnRun sc h)"
  by (auto simp: sameChannels_def UpsertProfile_def DeleteProfile_def StartSession_def StopSession_def readResolution_def
      CancelResolution_def signalChallenge_def Unsubscribe_def publishEvent_def cancelRun_def spawnRun_def drawID_def
      Let_def split: sum.splits option.splits prod.splits challengeScope.splits)

lemma same_sections:
  "sameChannels h (fst (allocateSessionID env n ss h))" "sameChannels h (fst (allocateResolutionID env n rq d at h))"
  "sameChannels h (fst (insertSession env sid ss h))" "sameChannels h (fst (insertResolution env rid rq d at h))"
  "sameChannels h (fst (finishSession now sid e h))" "sameChannels h (fst (handleRuntimeRecord env now sid rr h))"
  "sameChannels h (fst (completeChallenge env now cid st msg h))" "sameChannels h (fst (appendSignal env ev h))"
  "sameChannels h (sendAction cid a h)" "sameChannels h (clearPendingChallenges now sid h)"
  "sameChannels h (fst (publishPlatformTunnelStop env now mode msg h))"
  "sameChannels h (fst (awaitAction ch sc cid kind h))" "sameChannels h (fst (finishResolution env now rid r h))"
  "sameChannels h (fst (raiseChallenge env now sc c kind h))" "sameChannels h (updSession s f h)"
  by (auto simp: sameChannels_def allocateSessionID_def allocateResolutionID_def insertSession_def insertOrdinarySession_def
      insertPlatformSession_def insertResolution_def finishSession_def handleRuntimeRecord_def
      completeChallenge_def appendSignal_def sendAction_def clearPendingChallenges_def publishPlatformTunnelStop_def
      markPlatformTunnelSessionsStopped_def awaitAction_def finishResolution_def finishResolutionFailure_def
      finishResolutionSuccess_def raiseChallenge_def recordChallenge_def recordResolutionChallenge_def
      drawID_def drawSessionID_def Let_def
      split: sum.splits option.splits prod.splits hostChoice.splits list.splits challengeScope.splits)

fun touchesChannel :: "hostTask \<Rightarrow> bool" where
  "touchesChannel (CallSubscribe n) = True"
| "touchesChannel (CallReceive c) = True"
| "touchesChannel (SendEvent ev cs) = True"
| "touchesChannel (CloseSubscriber c) = True"
| "touchesChannel (CloseDone sid) = True"
| "touchesChannel _ = False"

lemma same_refl: "sameChannels h h" by (simp add: sameChannels_def)

lemma exec_same: "\<not> touchesChannel t \<Longrightarrow> sameChannels h (fst (execTask env now ch t h))"
  by (cases t) (simp_all add: same_calls same_sections same_refl snd_export snd_materialize
      runHostSession_def runResolution_def prod.case_eq_if split: list.splits hostChoice.splits option.splits)

lemma clean_calls:
  "\<forall>u\<in>set (snd (StartSession env now req h)). clean u" "\<forall>u\<in>set (snd (snd (StopSession env now sid h))). clean u"
  "\<forall>u\<in>set (snd (snd (readResolution env now rid h))). clean u"
  "\<forall>u\<in>set (snd (snd (CancelResolution env now rid h))). clean u"
  "\<forall>u\<in>set (snd (snd (signalChallenge now cid a st h))). clean u"
  "StartResolution env now rq = Inr t \<Longrightarrow> clean t"
  by (auto simp: StartSession_def StopSession_def readResolution_def CancelResolution_def signalChallenge_def
      StartResolution_def Let_def split: sum.splits option.splits prod.splits if_splits)

lemma clean_uses:
  "\<forall>u\<in>set (snd (snd (ExportResolution env now rid h))). clean u"
  "\<forall>u\<in>set (snd (snd (MaterializeResolutionWithPlan env now rid ds p h))). clean u"
  using clean_calls(3) [of env now rid h]
  by (auto simp: ExportResolution_def MaterializeResolutionWithPlan_def prod.case_eq_if split: option.splits sum.splits)

lemma clean_sections:
  "\<forall>u\<in>set (snd (allocateSessionID env n ss h)). clean u" "\<forall>u\<in>set (snd (allocateResolutionID env n rq d at h)). clean u"
  "\<forall>u\<in>set (snd (insertSession env sid ss h)). clean u" "\<forall>u\<in>set (snd (insertResolution env rid rq d at h)). clean u"
  "\<forall>u\<in>set (snd (completeChallenge env now cid st msg h)). clean u" "\<forall>u\<in>set (snd (appendSignal env ev h)). clean u"
  "\<forall>u\<in>set (snd (finishSession now sid e h)). clean u" "\<forall>u\<in>set (finishReport sid v b h). clean u"
  "\<forall>u\<in>set (snd (finishResolution env now rid out h)). clean u" "\<forall>u\<in>set (snd (publishEvent env ev h)). clean u"
  "\<forall>u\<in>set (snd (handleRuntimeRecord env now sid rr h)). clean u"
  "\<forall>u\<in>set (snd (raiseChallenge env now sc c kind h)). clean u"
  "\<forall>u\<in>set (snd (publishPlatformTunnelStop env now mode msg h)). clean u"
  by (auto simp: allocateSessionID_def allocateResolutionID_def insertSession_def insertOrdinarySession_def
      insertPlatformSession_def insertResolution_def completeChallenge_def appendSignal_def finishSession_def
      finishReport_def finishResolution_def finishResolutionFailure_def finishResolutionSuccess_def publishEvent_def
      handleRuntimeRecord_def raiseChallenge_def recordChallenge_def recordResolutionChallenge_def runTask_def
      publishPlatformTunnelStop_def Let_def
      split: sum.splits option.splits prod.splits if_splits challengeScope.splits)

lemma clean_await: "\<forall>u\<in>set (snd (awaitAction ch sc cid kind h)). clean u"
  by (auto simp: awaitAction_def afterAction_def split: option.splits hostChoice.splits list.splits
      challengeAction.splits brokerKind.splits)

lemma exec_clean:
  assumes "clean t"
  shows "\<forall>u\<in>set (snd (execTask env now ch t h) @ concat (spawned t)). clean u"
  using assms
  by (cases t)
    (simp_all add: clean_calls clean_uses clean_sections clean_await runTask_def runHostSession_def runResolution_def
      prod.case_eq_if split: sum.splits list.splits hostChoice.splits challengeScope.splits option.splits)

lemma hoPanicked_putChannel [simp]: "hoPanicked (putChannel c ch h) = hoPanicked h"
  by (simp add: putChannel_def)

lemma theChannel_frame [simp]:
  "theChannel c (h\<lparr>hoSubscribers := us, hoNextSub := n\<rparr>) = theChannel c h"
  by (simp add: theChannel_def)

definition openChannels :: "controlHost \<Rightarrow> bool" where
  "openChannels h \<longleftrightarrow> \<not> hoPanicked h \<and> (\<forall>c ch. theChannel c h = Some ch \<longrightarrow> \<not> sbClosed ch)"

lemma exec_open:
  assumes "openChannels h" "clean t" "taskOk h t n"
  shows "openChannels (fst (execTask env now ch t h))"
proof (cases "touchesChannel t")
  case False
  then show ?thesis using exec_same [OF False, of h env now ch] assms(1) by (simp add: openChannels_def sameChannels_def theChannel_def)
next
  case True
  then show ?thesis
  proof (cases t)
    case (CloseDone sid)
    then obtain m where "theSession sid h = Some m" "\<not> mgDone m"
      using assms(3) by (auto simp: endingSession_def sessV_def lifeOf_def)
    then show ?thesis using CloseDone assms(1) by (simp add: closeDone_def openChannels_def theChannel_def)
  qed (use assms in \<open>auto simp: openChannels_def Subscribe_def receiveEvent_def sendEvent_def Let_def
      split: option.splits list.splits if_splits\<close>)
qed

lemma step_calm:
  assumes a: "about env h i t rest" and c: "calm h"
  shows "calm (stepThread env i now ch h)"
proof -
  note ok = about_ok [OF a]
  obtain as bs where p: "pending h = as @ t # rest @ bs"
    and p2: "pending (stepThread env i now ch h) = as @ snd (execTask env now ch t h) @ rest @ bs @ concat (spawned t)"
    using about_facts [OF a, of now ch] by metis
  have cl: "clean t" using c p by (auto simp: calm_def)
  have "openChannels (fst (execTask env now ch t h))"
    using exec_open [OF _ cl, of h] ok(3) c by (auto simp: calm_def openChannels_def)
  then have "openChannels (stepThread env i now ch h)"
    using ok(10,11) by (auto simp: stepThread_def openChannels_def theChannel_def split: prod.splits)
  moreover have "\<forall>u\<in>set (pending (stepThread env i now ch h)). clean u"
    using exec_clean [OF cl, of env now ch h] c p p2 by (auto simp: calm_def)
  ultimately show ?thesis by (simp add: calm_def openChannels_def)
qed

fun unsubscribes :: "hostAct \<Rightarrow> bool" where
  "unsubscribes (Invoke (CallUnsubscribe c)) = True"
| "unsubscribes _ = False"

lemma hostDo_calm:
  assumes "hostInv env h" "freshIDs env" "calm h" "\<not> unsubscribes a"
  shows "calm (hostDo env h a)"
proof (cases a)
  case (Step i now ch)
  show ?thesis
  proof (cases "i < length (hoThreads h) \<and> hoThreads h ! i \<noteq> []")
    case False
    then have "stepThread env i now ch h = h" by (auto simp: stepThread_def)
    then show ?thesis using assms Step by (simp add: hostDo_def)
  next
    case True
    then obtain t rest where "hoThreads h ! i = t # rest" by (cases "hoThreads h ! i") auto
    then have "about env h i t rest" using True assms by (simp add: about_def)
    from step_calm [OF this assms(3)] show ?thesis using assms Step by (simp add: hostDo_def)
  qed
next
  case (Invoke t)
  have "isCall t \<Longrightarrow> clean t" using Invoke assms(4) by (cases t) auto
  then show ?thesis
    using Invoke assms(3) by (auto simp: hostDo_def calm_def pending_def theChannel_def)
qed

lemma runHost_calm:
  assumes "freshIDs env" "\<not> list_ex unsubscribes acts"
  shows "calm (runHost env acts)"
  using assms(2)
proof (induction acts rule: rev_induct)
  case Nil
  then show ?case by (simp add: runHost_def calm_def NewHost_def theChannel_def pending_def)
next
  case (snoc a acts)
  then show ?case
    using hostDo_calm [OF runHost_inv [OF assms(1), of acts] assms(1)] by (simp add: runHost_def)
qed

section \<open>The host can come to rest\<close>

text \<open>An outcome of the outside that lets a waiting task go on: the run ends, the wait is cancelled.\<close>

fun drive :: "hostTask \<Rightarrow> hostChoice" where
  "drive (RunSession sid) = RunReturns None"
| "drive (RunResolution rid) = ResolveReturns (Inl \<lparr>xfError = ctxCanceled, xfProbe = None\<rparr>)"
| "drive (FinishContinuation cid) = ContinuationReturns None"
| "drive (AwaitAction sc cid kind) = TakeCancel"
| "drive _ = Proceed"

fun needsCancel :: "hostTask \<Rightarrow> challengeScope option" where
  "needsCancel (AwaitAction sc cid kind) = Some sc"
| "needsCancel _ = None"

lemma drive_low:
  assumes "needsCancel t = None"
  shows "\<forall>u\<in>set (snd (execTask env now (drive t) t h) @ concat (spawned t)). (rank u, rank t) \<in> lower"
proof (cases "waits t")
  case False
  then show ?thesis by (rule exec_low)
next
  case True
  then show ?thesis using assms by (cases t) (auto simp: runHostSession_def runResolution_def)
qed

lemma await_low:
  assumes "theChallenge cid h \<noteq> None" "scopeCtx sc h = Some e"
  shows "\<forall>u\<in>set (snd (execTask env now TakeCancel (AwaitAction sc cid kind) h) @ concat (spawned (AwaitAction sc cid kind))).
    (rank u, rank (AwaitAction sc cid kind)) \<in> lower"
  using assms by (auto simp: awaitAction_def)

lemma scopeCtx_cancelRun:
  "case sc of SessionScope s \<Rightarrow> theSession s h \<noteq> None | ResolutionScope r \<Rightarrow> theResolution r h \<noteq> None \<Longrightarrow>
   \<exists>e. scopeCtx sc (cancelRun sc h) = Some e"
  by (auto simp: scopeCtx_def cancelRun_def theSession_upd theResolution_upd cancelCtx_def
      split: challengeScope.splits option.splits)

lemma theChallenge_cancelRun [simp]: "theChallenge cid (cancelRun sc h) = theChallenge cid h"
  by (auto simp: cancelRun_def updSession_def updResolution_def split: challengeScope.splits option.splits)

lemma scopeCtx_frame [simp]: "scopeCtx sc (h\<lparr>hoThreads := ts\<rparr>) = scopeCtx sc h"
  by (simp add: scopeCtx_def theSession_def theResolution_def split: challengeScope.splits)

lemma cancelRun_threads_update: "cancelRun sc (h\<lparr>hoThreads := ts\<rparr>) = (cancelRun sc h)\<lparr>hoThreads := ts\<rparr>"
  by (auto simp: cancelRun_def updSession_def updResolution_def theSession_def theResolution_def putSession_def
      putResolution_def split: challengeScope.splits option.splits)

lemma shrink:
  assumes inv: "hostInv env h" "freshIDs env" and calm: "calm h" and ne: "pending h \<noteq> []"
  shows "\<exists>acts. \<not> list_ex unsubscribes acts \<and> (load (foldl (hostDo env) h acts), load h) \<in> mult lower"
proof -
  from ne obtain ts where "ts \<in> set (hoThreads h)" "ts \<noteq> []" by (auto simp: pending_def)
  then obtain i t rest where i: "i < length (hoThreads h)" "hoThreads h ! i = t # rest"
    by (metis in_set_conv_nth neq_Nil_conv)
  have np: "\<not> hoPanicked h" using calm by (simp add: calm_def)
  have a: "about env h i t rest" using inv i by (simp add: about_def)
  show ?thesis
  proof (cases "needsCancel t")
    case None
    then show ?thesis
      using step_load [OF i drive_low [OF None], of env 0] np
      by (intro exI [of _ "[Step i 0 (drive t)]"]) (simp add: hostDo_def)
  next
    case (Some sc)
    then obtain cid kind where t: "t = AwaitAction sc cid kind" by (cases t) auto
    have ok: "threadOk h (t # rest)" using about_ok [OF a] by simp
    then have c: "chV h cid = Some (scopeIds sc)" and hd: "headOf rest = Some (runTask sc)" using t by auto
    have sc: "case sc of SessionScope s \<Rightarrow> theSession s h \<noteq> None | ResolutionScope r \<Rightarrow> theResolution r h \<noteq> None"
      using ok hd by (cases rest; cases sc)
        (auto simp: runTask_def runningSession_def runningResolution_def sessV_def resV_def)
    let ?n = "length (hoThreads h)"
    let ?h2 = "(cancelRun sc h)\<lparr>hoThreads := hoThreads h @ [[]]\<rparr>"
    have s12: "foldl (hostDo env) h [Invoke (CallCancelContext sc), Step ?n 0 Proceed] = ?h2"
      using np by (simp add: hostDo_def stepThread_def cancelRun_threads_update threads_calls)
    have np2: "\<not> hoPanicked ?h2"
      using np same_calls(10) [of h sc] by (simp add: sameChannels_def)
    have i2: "i < length (hoThreads ?h2)" "hoThreads ?h2 ! i = t # rest" using i by (simp_all add: nth_append)
    obtain e where "scopeCtx sc ?h2 = Some e" using scopeCtx_cancelRun [OF sc] by auto
    moreover have "theChallenge cid ?h2 = theChallenge cid (cancelRun sc h)" by (simp add: theChallenge_def)
    then have "theChallenge cid ?h2 \<noteq> None" using c by (auto simp: chV_def)
    ultimately have "(load (stepThread env i 0 TakeCancel ?h2), load ?h2) \<in> mult lower"
      using step_load [OF i2, of env 0 TakeCancel] await_low [of cid ?h2 sc _ env 0 kind] t by blast
    moreover have "load ?h2 = load h" by (simp add: load_def pending_def)
    moreover have "foldl (hostDo env) h [Invoke (CallCancelContext sc), Step ?n 0 Proceed, Step i 0 TakeCancel] =
        stepThread env i 0 TakeCancel ?h2"
      using s12 np2 by (simp add: hostDo_def)
    ultimately show ?thesis
      by (intro exI [of _ "[Invoke (CallCancelContext sc), Step ?n 0 Proceed, Step i 0 TakeCancel]"]) simp
  qed
qed

lemma foldl_calm:
  assumes "hostInv env h" "freshIDs env" "calm h" "\<not> list_ex unsubscribes acts"
  shows "calm (foldl (hostDo env) h acts)"
  using assms by (induction acts arbitrary: h) (auto simp: hostDo_inv hostDo_calm)

lemma rest:
  assumes "hostInv env h" "freshIDs env" "calm h"
  shows "\<exists>acts. calm (foldl (hostDo env) h acts) \<and> pending (foldl (hostDo env) h acts) = []"
  using assms
proof (induction h rule: wf_induct_rule [OF wf_inv_image [OF wf_mult [OF wf_lower], of load]])
  case (1 h)
  show ?case
  proof (cases "pending h = []")
    case True
    then show ?thesis using 1(4) by (intro exI [of _ "[]"]) simp
  next
    case False
    obtain acts where acts: "\<not> list_ex unsubscribes acts" "(load (foldl (hostDo env) h acts), load h) \<in> mult lower"
      using shrink [OF 1(2-4) False] by blast
    let ?h = "foldl (hostDo env) h acts"
    have "\<exists>more. calm (foldl (hostDo env) ?h more) \<and> pending (foldl (hostDo env) ?h more) = []"
      using 1(1) [of ?h] acts foldl_inv [OF 1(2,3)] foldl_calm [OF 1(2-4) acts(1)] 1(3) by simp
    then obtain more where "calm (foldl (hostDo env) h (acts @ more))" "pending (foldl (hostDo env) h (acts @ more)) = []"
      by auto
    then show ?thesis by blast
  qed
qed

end
