(* ===== verification/HostHistories.thy ===== *)
theory HostHistories
  imports HostReach
begin

text \<open>
  What the control host keeps: the event histories of sessions and resolutions and the buffers of
  its subscribers are bounded.
\<close>

definition shortS :: "hostConfig \<Rightarrow> controlHost \<Rightarrow> bool" where
  "shortS env h \<longleftrightarrow> (\<forall>s m. theSession s h = Some m \<longrightarrow> int (length (mgEvents m)) \<le> hcLimit env)"

definition shortR :: "hostConfig \<Rightarrow> controlHost \<Rightarrow> bool" where
  "shortR env h \<longleftrightarrow> (\<forall>r n. theResolution r h = Some n \<longrightarrow> int (length (mrEvents n)) \<le> hcLimit env)"

definition shortB :: "controlHost \<Rightarrow> bool" where
  "shortB h \<longleftrightarrow> (\<forall>c ch. theChannel c h = Some ch \<longrightarrow> length (sbBuffer ch) \<le> sbCapacity ch)"

definition keeps :: "hostConfig \<Rightarrow> controlHost \<Rightarrow> controlHost \<Rightarrow> bool" where
  "keeps env h h' \<longleftrightarrow> (shortS env h \<longrightarrow> shortS env h') \<and> (shortR env h \<longrightarrow> shortR env h') \<and> (shortB h \<longrightarrow> shortB h')"

lemma keeps_refl: "keeps env h h" by (simp add: keeps_def)

lemma keeps_trans: "keeps env h h' \<Longrightarrow> keeps env h' h'' \<Longrightarrow> keeps env h h''" by (simp add: keeps_def)

lemma shortS_put: "shortS env h \<Longrightarrow> int (length (mgEvents m)) \<le> hcLimit env \<Longrightarrow> shortS env (putSession s m h)"
  by (simp add: shortS_def)

lemma shortR_put: "shortR env h \<Longrightarrow> int (length (mrEvents n)) \<le> hcLimit env \<Longrightarrow> shortR env (putResolution r n h)"
  by (simp add: shortR_def)

lemma short_put [simp]:
  "shortR env (putSession s m h) = shortR env h" "shortS env (putResolution r n h) = shortS env h"
  "shortS env (putChallenge c k h) = shortS env h" "shortR env (putChallenge c k h) = shortR env h"
  "shortB (putSession s m h) = shortB h" "shortB (putResolution r n h) = shortB h" "shortB (putChallenge c k h) = shortB h"
  by (simp_all add: shortS_def shortR_def shortB_def putSession_def putResolution_def putChallenge_def theSession_def
      theResolution_def theChannel_def)

lemma short_frame [simp]:
  "shortS env (h\<lparr>hoNextID := n\<rparr>) = shortS env h" "shortR env (h\<lparr>hoNextID := n\<rparr>) = shortR env h" "shortB (h\<lparr>hoNextID := n\<rparr>) = shortB h"
  "shortS env (h\<lparr>hoNextSessionID := n\<rparr>) = shortS env h" "shortR env (h\<lparr>hoNextSessionID := n\<rparr>) = shortR env h"
  "shortB (h\<lparr>hoNextSessionID := n\<rparr>) = shortB h"
  "shortS env (h\<lparr>hoProfiles := ps\<rparr>) = shortS env h" "shortR env (h\<lparr>hoProfiles := ps\<rparr>) = shortR env h" "shortB (h\<lparr>hoProfiles := ps\<rparr>) = shortB h"
  "shortS env (h\<lparr>hoThreads := ts\<rparr>) = shortS env h" "shortR env (h\<lparr>hoThreads := ts\<rparr>) = shortR env h" "shortB (h\<lparr>hoThreads := ts\<rparr>) = shortB h"
  "shortS env (h\<lparr>hoPanicked := b\<rparr>) = shortS env h" "shortR env (h\<lparr>hoPanicked := b\<rparr>) = shortR env h" "shortB (h\<lparr>hoPanicked := b\<rparr>) = shortB h"
  "shortS env (h\<lparr>hoSubscribers := us\<rparr>) = shortS env h" "shortR env (h\<lparr>hoSubscribers := us\<rparr>) = shortR env h"
  "shortB (h\<lparr>hoSubscribers := us\<rparr>) = shortB h"
  "shortS env (h\<lparr>hoNextSub := n\<rparr>) = shortS env h" "shortR env (h\<lparr>hoNextSub := n\<rparr>) = shortR env h" "shortB (h\<lparr>hoNextSub := n\<rparr>) = shortB h"
  "shortS env (h\<lparr>hoChallenges := ks\<rparr>) = shortS env h" "shortR env (h\<lparr>hoChallenges := ks\<rparr>) = shortR env h"
  "shortB (h\<lparr>hoChallenges := ks\<rparr>) = shortB h"
  by (simp_all add: shortS_def shortR_def shortB_def theSession_def theResolution_def theChannel_def)

lemma short_channel [simp]:
  "shortS env (putChannel c ch h) = shortS env h" "shortR env (putChannel c ch h) = shortR env h"
  by (simp_all add: shortS_def shortR_def putChannel_def theSession_def theResolution_def)

lemma shortB_channel: "shortB h \<Longrightarrow> length (sbBuffer ch) \<le> sbCapacity ch \<Longrightarrow> shortB (putChannel c ch h)"
  by (simp add: shortB_def)

lemma shortS_upd:
  "shortS env h \<Longrightarrow> (\<And>m. theSession s h = Some m \<Longrightarrow> int (length (mgEvents (f m))) \<le> hcLimit env) \<Longrightarrow>
   shortS env (updSession s f h)"
  by (auto simp: updSession_def shortS_put split: option.splits)

lemma shortR_upd:
  "shortR env h \<Longrightarrow> (\<And>n. theResolution r h = Some n \<Longrightarrow> int (length (mrEvents (f n))) \<le> hcLimit env) \<Longrightarrow>
   shortR env (updResolution r f h)"
  by (auto simp: updResolution_def shortR_put split: option.splits)

lemma short_upd [simp]:
  "shortR env (updSession s f h) = shortR env h" "shortS env (updResolution r g h) = shortS env h"
  "shortB (updSession s f h) = shortB h" "shortB (updResolution r g h) = shortB h"
  by (auto simp: updSession_def updResolution_def split: option.splits)

lemma events_kept [simp]:
  "0 < hcLimit env \<Longrightarrow> int (length (mgEvents (addSessionEvent env ev m))) \<le> hcLimit env"
  "0 < hcLimit env \<Longrightarrow> int (length (mrEvents (addResolutionEvent env ev n))) \<le> hcLimit env"
  "0 < hcLimit env \<Longrightarrow> int (length (mgEvents (newManagedSession env v st [e]))) \<le> hcLimit env"
  "0 < hcLimit env \<Longrightarrow> int (length (mgEvents (newManagedSession env v st [e, e']))) \<le> hcLimit env"
  by (simp_all add: addSessionEvent_def addResolutionEvent_def newManagedSession_def appendWithLimit_bound)

lemma shortS_at: "shortS env h \<Longrightarrow> theSession s h = Some m \<Longrightarrow> int (length (mgEvents m)) \<le> hcLimit env"
  by (simp add: shortS_def)

lemma shortR_at: "shortR env h \<Longrightarrow> theResolution s h = Some m \<Longrightarrow> int (length (mrEvents m)) \<le> hcLimit env"
  by (simp add: shortR_def)

lemma the_upd_other [simp]:
  "theResolution r (updSession s f h) = theResolution r h" "theSession s (updResolution r g h) = theSession s h"
  "theChallenge c (updSession s f h) = theChallenge c h" "theChallenge c (updResolution r g h) = theChallenge c h"
  by (auto simp: updSession_def updResolution_def split: option.splits)

lemmas short_rules = shortS_put shortR_put shortS_upd shortR_upd shortB_channel appendWithLimit_bound

lemma keeps_calls:
  assumes "0 < hcLimit env"
  shows "keeps env h (snd (UpsertProfile env p h))" "keeps env h (snd (DeleteProfile pid h))"
  "keeps env h (fst (StartSession env now req h))" "keeps env h (fst (snd (StopSession env now sid h)))"
  "keeps env h (fst (snd (signalChallenge now cid a st h)))" "keeps env h (fst (Unsubscribe c h))"
  "keeps env h (fst (publishEvent env ev h))" "keeps env h (cancelRun sc h)" "keeps env h (spawnRun sc h)"
  "keeps env h (fst (snd (CancelResolution env now rid h)))" "keeps env h (fst (snd (readResolution env now rid h)))"
  using assms
  by (auto simp: keeps_def UpsertProfile_def DeleteProfile_def StartSession_def StopSession_def
      CancelResolution_def signalChallenge_def Unsubscribe_def publishEvent_def cancelRun_def spawnRun_def drawID_def
      readResolution_def expireResolution_def
      Let_def intro!: short_rules dest: shortS_at shortR_at
      split: sum.splits option.splits prod.splits challengeScope.splits resolutionState.splits)

lemma theSession_marked:
  "theSession s (fst (markPlatformTunnelSessionsStopped env now mode msg h)) = Some m' \<Longrightarrow>
   \<exists>m ev. theSession s h = Some m \<and> (m' = m \<or> mgEvents m' = mgEvents (addSessionEvent env ev m))"
  by (auto simp: markPlatformTunnelSessionsStopped_def Let_def theSession_def map_of_apply addSessionEvent_def)

lemma keeps_marked:
  assumes "0 < hcLimit env"
  shows "keeps env h (fst (markPlatformTunnelSessionsStopped env now mode msg h))"
proof -
  let ?h = "fst (markPlatformTunnelSessionsStopped env now mode msg h)"
  have "shortS env ?h" if "shortS env h"
    unfolding shortS_def
  proof (intro allI impI)
    fix s m' assume "theSession s ?h = Some m'"
    then obtain m ev where "theSession s h = Some m" "m' = m \<or> mgEvents m' = mgEvents (addSessionEvent env ev m)"
      using theSession_marked by blast
    then show "int (length (mgEvents m')) \<le> hcLimit env" using that assms shortS_at by auto
  qed
  then show ?thesis
    by (auto simp: keeps_def shortR_def shortB_def theChannel_def theResolution_def markPlatformTunnelSessionsStopped_def Let_def)
qed

lemma keeps_insertSession:
  assumes "0 < hcLimit env"
  shows "keeps env h (fst (insertSession env sid st h))"
  using keeps_marked [OF assms, of h "ssStartedAt st" "ssPlatformMode st" "''replaced''"] assms
  by (auto simp: insertSession_def insertOrdinarySession_def insertPlatformSession_def keeps_def Let_def prod.case_eq_if
      intro!: short_rules)

lemma keeps_sections:
  assumes "0 < hcLimit env"
  shows "keeps env h (fst (allocateSessionID env n ss h))" "keeps env h (fst (allocateResolutionID env n rq d at h))"
  "keeps env h (fst (insertResolution env rid rq d at h))"
  "keeps env h (fst (finishSession now sid e h))" "keeps env h (fst (handleRuntimeRecord env now sid rr h))"
  "keeps env h (fst (appendSignal env ev h))" "keeps env h (closeDone sid h)"
  "keeps env h (sendAction cid a h)" "keeps env h (clearPendingChallenges now sid h)"
  "keeps env h (fst (awaitAction ch sc cid kind h))" "keeps env h (fst (finishResolution env now rid r h))"
  "keeps env h (updSession s (addSessionEvent env ev) h)"
  using assms
  by (auto simp: keeps_def allocateSessionID_def allocateResolutionID_def insertResolution_def finishSession_def
      handleRuntimeRecord_def appendSignal_def sendAction_def clearPendingChallenges_def closeDone_def
      awaitAction_def finishResolution_def finishResolutionFailure_def
      finishResolutionSuccess_def drawID_def drawSessionID_def Let_def
      intro!: short_rules dest: shortS_at shortR_at
      split: sum.splits option.splits prod.splits hostChoice.splits list.splits)

lemma keeps_raise: "0 < hcLimit env \<Longrightarrow> keeps env h (fst (raiseChallenge env now sc c kind h))"
  by (auto simp: keeps_def raiseChallenge_def recordChallenge_def recordResolutionChallenge_def drawID_def Let_def
      prod.case_eq_if intro!: short_rules dest: shortS_at shortR_at split: challengeScope.splits option.splits)

lemma keeps_complete: "0 < hcLimit env \<Longrightarrow> keeps env h (fst (completeChallenge env now cid st msg h))"
  by (auto simp: keeps_def completeChallenge_def resolutionAfterChallenge_def drawID_def Let_def
      intro!: short_rules dest: shortS_at shortR_at split: option.splits prod.splits)

lemma keeps_channels:
  "keeps env h (Subscribe n h)" "keeps env h (receiveEvent c h)" "keeps env h (closeSubscriber c h)" "keeps env h (sendEvent ev c h)"
proof -
  have s: "shortS env (h\<lparr>hoSubscribers := us, hoNextSub := k\<rparr>) = shortS env h"
    "shortR env (h\<lparr>hoSubscribers := us, hoNextSub := k\<rparr>) = shortR env h"
    "shortB (h\<lparr>hoSubscribers := us, hoNextSub := k\<rparr>) = shortB h" for us k
    by (simp_all add: shortS_def shortR_def shortB_def theSession_def theResolution_def theChannel_def)
  have at: "shortB h \<Longrightarrow> theChannel c h = Some ch \<Longrightarrow> length (sbBuffer ch) \<le> sbCapacity ch" for c ch
    by (simp add: shortB_def)
  show "keeps env h (Subscribe n h)" "keeps env h (receiveEvent c h)" "keeps env h (closeSubscriber c h)" "keeps env h (sendEvent ev c h)"
    by (auto simp: keeps_def Subscribe_def receiveEvent_def closeSubscriber_def sendEvent_def Let_def s
        intro!: shortB_channel dest: at split: option.splits)
qed

lemma keeps_publishStop: "0 < hcLimit env \<Longrightarrow> keeps env h (fst (publishPlatformTunnelStop env now mode msg h))"
  using keeps_marked by (simp add: publishPlatformTunnelStop_def prod.case_eq_if)

lemma exec_keeps:
  assumes "0 < hcLimit env"
  shows "keeps env h (fst (execTask env now ch t h))"
  by (cases t) (simp_all add: assms keeps_calls keeps_sections keeps_insertSession keeps_raise keeps_complete
      keeps_channels keeps_publishStop keeps_refl snd_export snd_materialize runHostSession_def runResolution_def
      prod.case_eq_if split: list.splits hostChoice.splits option.splits)

lemma hostDo_keeps:
  assumes "0 < hcLimit env"
  shows "keeps env h (hostDo env h a)"
proof (cases a)
  case (Invoke t)
  then show ?thesis by (simp add: hostDo_def keeps_def)
next
  case (Step i now ch)
  have "keeps env h (stepThread env i now ch h)"
    using exec_keeps [OF assms, of h now ch] by (auto simp: stepThread_def keeps_def split: list.splits prod.splits) (metis fst_conv)+
  then show ?thesis using Step by (simp add: hostDo_def keeps_refl)
qed

lemma runHost_short:
  assumes "0 < hcLimit env"
  shows "shortS env (runHost env acts) \<and> shortR env (runHost env acts) \<and> shortB (runHost env acts)"
proof (induction acts rule: rev_induct)
  case Nil
  then show ?case
    by (simp add: runHost_def shortS_def shortR_def shortB_def NewHost_def theSession_def theResolution_def theChannel_def)
next
  case (snoc a acts)
  then show ?case using hostDo_keeps [OF assms, of "runHost env acts" a] by (simp add: runHost_def keeps_def)
qed

end
