(* ===== verification/HostSample.thy ===== *)
theory HostSample
  imports HostProgress HostHistories
begin

text \<open>
  A small host to run: one provider that takes a link and raises browser challenges, identifiers that
  are a counter in unary, and no platform tunnels.
\<close>

definition sampleProfile :: profileSpec where
  "sampleProfile =
     \<lparr>psProvider = ''p'', psLink = ''l'', psSettings = [], psListenAddr = ''a'', psPeerAddr = ''b'', psIngress = [],
      psConnections = 1, psTURNServer = [], psTURNPort = [], psBindInterface = [], psMode = [], psUseDTLS = None,
      psInteractive = True, psLogLevel = []\<rparr>"

definition sampleDescriptor :: providerDescriptor where
  "sampleDescriptor =
     \<lparr>pdID = ''p'', pdInputKind = ''link'', pdSchema = None, pdChallengeModes = [''browser''],
      pdArtifactFamilies = [''generic_turn''], pdPotentialActions = [''export_handoff'']\<rparr>"

definition sampleHost :: hostConfig where
  "sampleHost =
     \<lparr>hcLimit = 3, hcNewID = (\<lambda>n. replicate (Suc n) (CHR ''i'')), hcNewSessionID = (\<lambda>n. replicate (Suc n) (CHR ''s'')),
      hcDescriptors = [(''p'', sampleDescriptor)],
      hcSettings = \<lparr>seCompile = (\<lambda>_. None), seInt64Overflow = 0\<rparr>,
      hcMetadata = (\<lambda>_. \<lparr>cmCompletionMode = [], cmBrowserReturn = None, cmAllowRememberedSignIn = False,
        cmAllowAutoContinue = False\<rparr>),
      hcTunnelPlans = [], hcParseTime = (\<lambda>_. None), hcFormatLink = (\<lambda>_. ''x''), hcRedactLink = (\<lambda>_. []),
      hcRedactInput = (\<lambda>_ _. [])\<rparr>"

definition sampleRequest :: startResolutionRequest where
  "sampleRequest =
     \<lparr>rqProvider = ''p'', rqInput = Some (''link'', ''l''), rqSettings = [], rqLink = [], rqInteractive = False\<rparr>"

text \<open>An ordinary session, started and then ended by its run; two platform tunnels; a resolution.\<close>

definition startOne :: "hostAct list" where
  "startOne = Invoke (CallStartSession (Inr sampleProfile)) # replicate 5 (Step 0 1 Proceed)"

definition endOne :: "hostAct list" where
  "endOne = startOne @ Step 1 2 (RunReturns None) # replicate 6 (Step 1 3 Proceed)"

definition tunnelOne :: "hostAct list" where
  "tunnelOne = Invoke (CallPlatformSession ''m'' sampleProfile []) # replicate 5 (Step 0 1 Proceed)"

definition sampleResolution :: providerResolution where
  "sampleResolution =
     \<lparr>prCredentials = \<lparr>crUsername = ''u'', crPassword = ''w'', crAddress = ''h'', crTTL = 9\<rparr>,
      prMetadata = (\<lambda>_. None), prArtifact = None\<rparr>"

definition resolveOne :: "hostAct list" where
  "resolveOne = Invoke (CallStartResolution sampleRequest) # replicate 5 (Step 0 1 Proceed) @
     Step 1 2 (ResolveReturns (Inr sampleResolution)) # replicate 3 (Step 1 3 Proceed)"

text \<open>
  A client unsubscribes between the two sections of \<open>publishEvent\<close>: the list of channels has been
  copied, the channel is closed, and the send is on a closed channel.
\<close>

definition unsubscribeRace :: "hostAct list" where
  "unsubscribeRace =
     [Invoke (CallSubscribe 1), Step 0 0 Proceed, Invoke (CallStartSession (Inr sampleProfile))] @
     replicate 4 (Step 1 0 Proceed) @ [Invoke (CallUnsubscribe 0), Step 2 0 Proceed, Step 2 0 Proceed, Step 1 0 Proceed]"

text \<open>A resolution that is cancelled before its provider raises a challenge.\<close>

definition sampleChallenge :: interactiveChallenge where
  "sampleChallenge = \<lparr>icProvider = ''p'', icStage = [], icKind = [], icPrompt = [], icOpenURL = [], icCookieURLs = None\<rparr>"

definition cancelRace :: "hostAct list" where
  "cancelRace =
     Invoke (CallStartResolution (sampleRequest\<lparr>rqInteractive := True\<rparr>)) # replicate 5 (Step 0 1 Proceed) @
     Invoke (CallCancelResolution ''i'') # replicate 6 (Step 2 2 Proceed) @ [Step 1 3 (RaiseChallenge sampleChallenge BrokerHandle)]"

section \<open>What the runs reach\<close>

lemma TrimSpace_replicate:
  "c \<notin> \<Union> (set ` set go_spaces) \<Longrightarrow> TrimSpace (replicate n c) = replicate n c"
  by (rule TrimSpace_plain) auto

lemma sampleHost_fresh: "freshIDs sampleHost"
proof -
  have "CHR ''i'' \<notin> \<Union> (set ` set go_spaces)" "CHR ''s'' \<notin> \<Union> (set ` set go_spaces)"
    by (simp_all add: go_spaces_def)
  then show ?thesis
    unfolding freshIDs_def sampleHost_def by (auto simp: TrimSpace_replicate inj_def replicate_eq_replicate simp del: replicate_Suc)
qed

lemma sample_session:
  "map_option (\<lambda>m. (mgPlatformMode m, mgDone m)) (theSession ''s'' (runHost sampleHost startOne)) = Some ([], False)"
  "map_option (\<lambda>m. (mgPlatformMode m, mgDone m)) (theSession ''s'' (runHost sampleHost endOne)) = Some ([], True)"
  "map_option (\<lambda>m. (mgPlatformMode m, mgDone m, svState (mgView m))) (theSession ''s'' (runHost sampleHost tunnelOne)) =
     Some (''m'', False, SessionReady)"
  by code_simp+

lemma sample_resolution:
  "map_option (\<lambda>m. (rvState (mrView m), mrDone m)) (theResolution ''i'' (runHost sampleHost resolveOne)) =
     Some (ResolutionResolved, True)"
  by code_simp

lemma unsubscribe_race_panics: "hoPanicked (runHost sampleHost unsubscribeRace)"
  by code_simp

lemma cancel_race_revives:
  "map_option (\<lambda>m. (rvState (mrView m), mrDone m)) (theResolution ''i'' (runHost sampleHost cancelRace)) =
     Some (ResolutionChallengeRequired, True)"
  by code_simp

end
