(* ===== verification/HostProperties.thy ===== *)
theory HostProperties
  imports HostSample
begin

text \<open>
  What the control host promises its clients, in every state any schedule of its goroutines can
  reach.
\<close>

section \<open>Facts\<close>

lemma owner_alive:
  assumes "hostInv env h" "0 < ownersS s (pending h)" "sessV h s = Some l"
  shows "slMode l = [] \<and> \<not> slDone l"
proof -
  from assms(2) obtain u where u: "u \<in> set (pending h)" "sessionOwner u = Some s"
    by (auto simp: ownersS_def filter_empty_conv)
  then obtain ts where ts: "ts \<in> set (hoThreads h)" "u \<in> set ts" by (auto simp: pending_def)
  have "threadOk h ts" using assms(1) ts by (simp add: hostInv_def)
  then have "\<exists>n. taskOk h u n" using ts(2) by (induction ts) auto
  then show ?thesis
    using u(2) assms(3) by (cases u rule: sessionOwner.cases) (auto simp: runningSession_def endingSession_def)
qed

lemma done_kept:
  assumes "hostInv env h" "freshIDs env" "sessV h s = Some l" "slDone l"
  shows "\<exists>l'. sessV (hostDo env h a) s = Some l' \<and> slDone l'"
proof (cases a)
  case (Invoke t)
  then show ?thesis using assms by (auto simp: hostDo_def views)
next
  case (Step i now ch)
  show ?thesis
  proof (cases "i < length (hoThreads h) \<and> hoThreads h ! i \<noteq> [] \<and> \<not> hoPanicked h")
    case False
    then have "hostDo env h a = h" using Step by (auto simp: hostDo_def stepThread_def)
    then show ?thesis using assms by auto
  next
    case True
    then obtain t rest where i: "i < length (hoThreads h)" "hoThreads h ! i = t # rest" by (cases "hoThreads h ! i") auto
    then have a: "about env h i t rest" using assms by (simp add: about_def)
    note ok = about_ok [OF a]
    have st: "\<exists>l'. stopMode mode (sessV h) s = Some l' \<and> slDone l'" for mode
      using assms(3,4) by (auto simp: stopMode_def)
    have "\<exists>l'. sessV (fst (execTask env now ch t h)) s = Some l' \<and> slDone l'"
      using sess_effect [OF ok(3,4), of env now ch] ok(3) assms(3,4) st
      by (elim disjE exE conjE) (auto split: if_splits)
    then show ?thesis using stepThread_views(1) [OF i] True Step by (simp add: hostDo_def)
  qed
qed

lemma done_kept_run:
  assumes "freshIDs env" "sessV (runHost env acts) s = Some l" "slDone l"
  shows "\<exists>l'. sessV (runHost env (acts @ later)) s = Some l' \<and> slDone l'"
proof (induction later rule: rev_induct)
  case Nil
  then show ?case using assms by simp
next
  case (snoc a later)
  then obtain l' where "sessV (runHost env (acts @ later)) s = Some l'" "slDone l'" by blast
  from done_kept [OF runHost_inv [OF assms(1)] assms(1) this, of a] show ?case by (simp add: runHost_def)
qed

lemma one_owner:
  assumes inv: "hostInv env h" and m: "theSession sid h = Some m" "mgPlatformMode m = []"
  shows "ownersS sid (pending h) = (if mgDone m then 0 else 1)"
proof -
  have l: "sessV h sid = Some (lifeOf m)" using m by (simp add: sessV_def)
  have "ownersOk h" using inv by (simp add: hostInv_def)
  then have one: "slMode (lifeOf m) = [] \<Longrightarrow> \<not> slDone (lifeOf m) \<Longrightarrow> ownersS sid (pending h) = 1"
    using l unfolding ownersOk_def by blast
  show ?thesis
  proof (cases "mgDone m")
    case True
    then have "\<not> 0 < ownersS sid (pending h)" using owner_alive [OF inv _ l] by (auto simp: lifeOf_def)
    then show ?thesis using True by simp
  next
    case False
    then show ?thesis using one m(2) by (simp add: lifeOf_def)
  qed
qed

lemma runHost_lives: "freshIDs env \<Longrightarrow> livesOk (sessV (runHost env acts))"
  using runHost_inv [of env acts] by (simp add: hostInv_def sessionsOk_def)

text \<open>What reading a resolution finds: one that has expired, or the resolution as it was.\<close>

lemma expired_now:
  assumes "rvState (mrView m) = ResolutionResolved" "xsExpiresAt (rvExport (mrView m)) = Some t" "\<not> now < t"
  shows "rvState (mrView (fst (expireResolution env now m))) = ResolutionExpired"
  using assms by (simp add: expireResolution_def addResolutionEvent_def Let_def)

lemma not_expired_now:
  assumes "\<not> (rvState (mrView m) = ResolutionResolved \<and> (\<exists>t. xsExpiresAt (rvExport (mrView m)) = Some t \<and> \<not> now < t))"
  shows "expireResolution env now m = (m, None)"
  using assms by (auto simp: expireResolution_def split: resolutionState.split option.split)

lemma export_reads:
  assumes "theResolution rid h = Some m"
  shows "fst (ExportResolution env now rid h) =
    exportFrom env (mrView (fst (expireResolution env now m))) (mrSecret (fst (expireResolution env now m)))
      (mrRemoteExport m)"
  using assms by (simp add: ExportResolution_def readResolution_def prod.case_eq_if)

lemma exportFrom_link:
  "exportFrom env v secret payload = Inr r \<longleftrightarrow>
     rvState v = ResolutionResolved \<and> resolutionSupportsAction v ''export_handoff'' \<and> xsSupported (rvExport v) \<and>
     (\<exists>t. xsExpiresAt (rvExport v) = Some t \<and> exportLink env secret payload \<noteq> [] \<and>
       r = \<lparr>erResolutionID = rvID v, erLink = exportLink env secret payload, erExpiresAt = t,
         erExpirySource = xsExpirySource (rvExport v)\<rparr>)"
proof (cases "rvState v = ResolutionResolved \<and> resolutionSupportsAction v ''export_handoff'' \<and> xsSupported (rvExport v)")
  case True
  then show ?thesis by (cases "xsExpiresAt (rvExport v)"; cases secret) (auto simp: exportFrom_def exportLink_def Let_def)
next
  case False
  then show ?thesis by (cases "xsExpiresAt (rvExport v)") (simp_all add: exportFrom_def)
qed

section \<open>Properties\<close>

text \<open>
  C11: An ordinary session whose \<open>done\<close> channel is open has exactly one task of one goroutine that
  will finish it, and once \<open>done\<close> is closed it has none.
\<close>

theorem session_has_one_run:
  assumes "freshIDs env" "theSession sid (runHost env acts) = Some m" "mgPlatformMode m = []"
  shows "ownersS sid (pending (runHost env acts)) = (if mgDone m then 0 else 1)"
  using one_owner [OF runHost_inv [OF assms(1)] assms(2,3)] .

theorem session_has_one_run_witness:
  "\<exists>m. theSession ''s'' (runHost sampleHost startOne) = Some m \<and> \<not> mgDone m \<and>
    ownersS ''s'' (pending (runHost sampleHost startOne)) = 1"
proof -
  obtain m where m: "theSession ''s'' (runHost sampleHost startOne) = Some m" "mgPlatformMode m = []" "\<not> mgDone m"
    using sample_session(1) by auto
  with session_has_one_run [OF sampleHost_fresh m(1,2)] show ?thesis by simp
qed

text \<open>
  C12: When the \<open>done\<close> channel of a session is closed, so that \<open>WaitSession\<close> returns, the session is
  stopped or failed, and it stays so.
\<close>

theorem done_session_stays_ended:
  assumes "freshIDs env" "theSession sid (runHost env acts) = Some m" "mgDone m"
  shows "\<exists>m'. theSession sid (runHost env (acts @ later)) = Some m' \<and> mgDone m' \<and> sessionEnded (svState (mgView m'))"
proof -
  have "sessV (runHost env acts) sid = Some (lifeOf m)" "slDone (lifeOf m)"
    using assms(2,3) by (simp_all add: sessV_def lifeOf_def)
  from done_kept_run [OF assms(1) this, of later] obtain l'
    where l': "sessV (runHost env (acts @ later)) sid = Some l'" "slDone l'" by blast
  moreover have "slEnded l'"
    by (rule livesD(1) [OF runHost_lives [OF assms(1)] l'])
  ultimately show ?thesis by (auto simp: sessV_def lifeOf_def)
qed

theorem done_session_stays_ended_witness:
  "\<exists>m. theSession ''s'' (runHost sampleHost (endOne @ [Invoke (CallStopSession ''s'')])) = Some m \<and> mgDone m \<and>
    sessionEnded (svState (mgView m))"
proof -
  obtain m where m: "theSession ''s'' (runHost sampleHost endOne) = Some m" "mgDone m"
    using sample_session(2) by auto
  from done_session_stays_ended [OF sampleHost_fresh this] show ?thesis .
qed

text \<open>C14: At most one session of each platform tunnel mode has not ended.\<close>

theorem one_platform_session_per_mode:
  assumes "freshIDs env" "theSession sid (runHost env acts) = Some m" "theSession sid' (runHost env acts) = Some m'"
    and "mgPlatformMode m = mgPlatformMode m'" "mgPlatformMode m \<noteq> []"
    and "\<not> sessionEnded (svState (mgView m))" "\<not> sessionEnded (svState (mgView m'))"
  shows "sid = sid'"
proof -
  from livesD(3) [OF runHost_lives [OF assms(1), of acts], of sid "lifeOf m" sid' "lifeOf m'"] assms(2-7) show ?thesis
    by (simp add: sessV_def lifeOf_def)
qed

theorem one_platform_session_per_mode_witness:
  "\<exists>!sid. \<exists>m. theSession sid (runHost sampleHost tunnelOne) = Some m \<and> mgPlatformMode m = ''m'' \<and>
    \<not> sessionEnded (svState (mgView m))"
proof (rule ex_ex1I)
  show "\<exists>sid m. theSession sid (runHost sampleHost tunnelOne) = Some m \<and> mgPlatformMode m = ''m'' \<and>
      \<not> sessionEnded (svState (mgView m))"
    using sample_session(3) by (auto simp: sessionEnded_def intro!: exI [of _ "''s''"])
next
  fix sid sid'
  assume "\<exists>m. theSession sid (runHost sampleHost tunnelOne) = Some m \<and> mgPlatformMode m = ''m'' \<and>
      \<not> sessionEnded (svState (mgView m))"
    and "\<exists>m. theSession sid' (runHost sampleHost tunnelOne) = Some m \<and> mgPlatformMode m = ''m'' \<and>
      \<not> sessionEnded (svState (mgView m))"
  then show "sid = sid'" using one_platform_session_per_mode [OF sampleHost_fresh] by (metis list.distinct(1))
qed

text \<open>
  C33: \<open>ExportResolution\<close> gives a link exactly for a resolved resolution that has not expired, whose
  artifact supports the export and which has a link: the payload issued by a VPS if it is not blank,
  else the link its secret formats to.
\<close>

theorem export_exactly:
  "fst (ExportResolution env now rid h) = Inr r \<longleftrightarrow>
     (\<exists>m t. theResolution rid h = Some m \<and> rvState (mrView m) = ResolutionResolved \<and>
        xsExpiresAt (rvExport (mrView m)) = Some t \<and> now < t \<and> xsSupported (rvExport (mrView m)) \<and>
        resolutionSupportsAction (mrView m) ''export_handoff'' \<and> exportLink env (mrSecret m) (mrRemoteExport m) \<noteq> [] \<and>
        r = \<lparr>erResolutionID = rvID (mrView m), erLink = exportLink env (mrSecret m) (mrRemoteExport m), erExpiresAt = t,
          erExpirySource = xsExpirySource (rvExport (mrView m))\<rparr>)"
proof (cases "theResolution rid h")
  case None
  then show ?thesis by (simp add: ExportResolution_def readResolution_def)
next
  case (Some m)
  show ?thesis
  proof (cases "rvState (mrView m) = ResolutionResolved \<and> (\<exists>t. xsExpiresAt (rvExport (mrView m)) = Some t \<and> \<not> now < t)")
    case True
    then obtain t where t: "rvState (mrView m) = ResolutionResolved" "xsExpiresAt (rvExport (mrView m)) = Some t" "\<not> now < t"
      by blast
    show ?thesis using Some t expired_now [OF t] by (simp add: export_reads exportFrom_link)
  next
    case False
    then show ?thesis using Some by (auto simp: export_reads not_expired_now exportFrom_link)
  qed
qed

text \<open>The host panics only in a run in which a client unsubscribes.\<close>

theorem panic_needs_unsubscribe:
  assumes "freshIDs env" "hoPanicked (runHost env acts)"
  shows "\<exists>c. Invoke (CallUnsubscribe c) \<in> set acts"
proof (rule ccontr)
  assume no: "\<not> ?thesis"
  have "unsubscribes a \<Longrightarrow> \<exists>c. a = Invoke (CallUnsubscribe c)" for a by (cases a rule: unsubscribes.cases) auto
  with no have "\<not> list_ex unsubscribes acts" by (auto simp: list_ex_iff)
  from runHost_calm [OF assms(1) this] assms(2) show False by (simp add: calm_def)
qed

theorem panic_needs_unsubscribe_witness:
  "hoPanicked (runHost sampleHost unsubscribeRace) \<and> (\<exists>c. Invoke (CallUnsubscribe c) \<in> set unsubscribeRace)"
  using panic_needs_unsubscribe [OF sampleHost_fresh unsubscribe_race_panics] unsubscribe_race_panics by blast

text \<open>
  C34: As long as no client unsubscribes the host can always come to rest: from every state it can
  reach, runs that return and waits that are cancelled lead to a state without a panic in which no
  goroutine has anything left to do, every ordinary session and every resolution is done.  The session of
  a platform tunnel that runs is not ended by this: it waits for a stop of its mode.
\<close>

theorem host_can_finish:
  assumes "freshIDs env" "\<forall>c. Invoke (CallUnsubscribe c) \<notin> set acts"
  shows "\<exists>later. \<not> hoPanicked (runHost env (acts @ later)) \<and> (\<forall>ts\<in>set (hoThreads (runHost env (acts @ later))). ts = []) \<and>
    (\<forall>sid m. theSession sid (runHost env (acts @ later)) = Some m \<longrightarrow> mgPlatformMode m = [] \<longrightarrow> mgDone m) \<and>
    (\<forall>rid m. theResolution rid (runHost env (acts @ later)) = Some m \<longrightarrow> mrDone m)"
proof -
  have "unsubscribes a \<Longrightarrow> \<exists>c. a = Invoke (CallUnsubscribe c)" for a by (cases a rule: unsubscribes.cases) auto
  with assms(2) have no: "\<not> list_ex unsubscribes acts" by (auto simp: list_ex_iff)
  obtain later where "calm (foldl (hostDo env) (runHost env acts) later)" "pending (foldl (hostDo env) (runHost env acts) later) = []"
    using rest [OF runHost_inv [OF assms(1)] assms(1) runHost_calm [OF assms(1) no]] by blast
  then have c: "calm (runHost env (acts @ later))" and p: "pending (runHost env (acts @ later)) = []"
    by (simp_all add: runHost_def)
  note inv = runHost_inv [OF assms(1), of "acts @ later"]
  have S: "mgDone m" if "theSession sid (runHost env (acts @ later)) = Some m" "mgPlatformMode m = []" for sid m
    using one_owner [OF inv that] p by (simp split: if_splits)
  have R: "mrDone m" if "theResolution rid (runHost env (acts @ later)) = Some m" for rid m
  proof (rule ccontr)
    assume "\<not> mrDone m"
    then have "ownersR rid (pending (runHost env (acts @ later))) = 1"
      using inv that by (auto simp: hostInv_def ownersOk_def resV_def lifeOfR_def)
    with p show False by simp
  qed
  show ?thesis using c p S R by (intro exI [of _ later]) (auto simp: calm_def pending_def)
qed

theorem host_can_finish_witness:
  "\<exists>later. (\<forall>ts\<in>set (hoThreads (runHost sampleHost (startOne @ later))). ts = []) \<and>
    (\<forall>sid m. theSession sid (runHost sampleHost (startOne @ later)) = Some m \<longrightarrow> mgPlatformMode m = [] \<longrightarrow> mgDone m)"
proof -
  have "\<forall>c. Invoke (CallUnsubscribe c) \<notin> set startOne" by (simp add: startOne_def)
  from host_can_finish [OF sampleHost_fresh this] show ?thesis by blast
qed

text \<open>
  Histories of sessions and resolutions never exceed the limit, and a subscriber that does not
  read makes the host drop events, not keep them.
\<close>

theorem histories_bounded:
  assumes "0 < hcLimit env"
  shows "(\<forall>sid m. theSession sid (runHost env acts) = Some m \<longrightarrow> int (length (mgEvents m)) \<le> hcLimit env) \<and>
    (\<forall>rid n. theResolution rid (runHost env acts) = Some n \<longrightarrow> int (length (mrEvents n)) \<le> hcLimit env) \<and>
    (\<forall>c ch. theChannel c (runHost env acts) = Some ch \<longrightarrow> length (sbBuffer ch) \<le> sbCapacity ch)"
  using runHost_short [OF assms, of acts] by (auto simp: shortS_def shortR_def shortB_def)

theorem histories_bounded_witness:
  "\<exists>m. theResolution ''i'' (runHost sampleHost resolveOne) = Some m \<and> length (mrEvents m) \<le> 3"
proof -
  obtain m where m: "theResolution ''i'' (runHost sampleHost resolveOne) = Some m"
    using sample_resolution by auto
  moreover have "0 < hcLimit sampleHost" by (simp add: sampleHost_def)
  from histories_bounded [OF this, of resolveOne] m have "int (length (mrEvents m)) \<le> hcLimit sampleHost" by blast
  ultimately show ?thesis by (simp add: sampleHost_def)
qed

end
