(* ===== verification/WireGuardProfile.thy ===== *)
theory WireGuardProfile
  imports GoNet Providers
begin

text \<open>
  WireGuard configuration files (\<^verbatim>\<open>internal/wireguardprofile/profile.go\<close>) and what the standard
  library does for them: \<open>strconv.Atoi\<close>, \<open>netip.ParseAddr\<close>, lower case for the comparison with ASCII
  names.
\<close>

section \<open>Text\<close>

text \<open>
  \<open>strings.ToLower\<close> and \<open>strings.EqualFold\<close> as far as a comparison with an ASCII text can tell: ASCII
  letters, and the letters outside ASCII that are mapped into it (the Kelvin sign, the capital I with
  a dot, the long s).  Other letters keep bytes outside ASCII.
\<close>

fun rewriteLetters :: "(string \<times> char) list \<Rightarrow> string \<Rightarrow> string" where
  "rewriteLetters rs [] = []"
| "rewriteLetters rs (c # cs) =
     (case find (\<lambda>(a, b). prefix a (c # cs)) rs of
        None \<Rightarrow> toLowerChar c # rewriteLetters rs cs
      | Some (a, b) \<Rightarrow> b # rewriteLetters rs (drop (length a - 1) cs))"

definition lowerText :: "string \<Rightarrow> string" where
  "lowerText = rewriteLetters [([CHR 0xE2, CHR 0x84, CHR 0xAA], CHR ''k''), ([CHR 0xC4, CHR 0xB0], CHR ''i'')]"

definition foldText :: "string \<Rightarrow> string" where
  "foldText = rewriteLetters [([CHR 0xE2, CHR 0x84, CHR 0xAA], CHR ''k''), ([CHR 0xC5, CHR 0xBF], CHR ''s'')]"

text \<open>\<open>strconv.Atoi\<close> with a 64 bit \<open>int\<close>.\<close>

definition Atoi :: "string \<Rightarrow> int option" where
  "Atoi s =
     (let ds = (if s \<noteq> [] \<and> hd s \<in> {CHR ''+'', CHR ''-''} then tl s else s);
          n = (if s \<noteq> [] \<and> hd s = CHR ''-'' then - int (decimalVal ds) else int (decimalVal ds))
      in if ds \<noteq> [] \<and> list_all isDigit ds \<and> - (2 ^ 63) \<le> n \<and> n < 2 ^ 63 then Some n else None)"

section \<open>netip\<close>

text \<open>An address of \<open>netip\<close>: four bytes, or sixteen bytes with a zone.\<close>

datatype netipAddr =
    Addr4 "byte list"
  | Addr6 "byte list" string

definition ParseAddr :: "string \<Rightarrow> netipAddr option" where
  "ParseAddr s =
     (case find (\<lambda>c. c \<in> {CHR ''.'', CHR '':'', CHR ''%''}) s of
        None \<Rightarrow> None
      | Some c \<Rightarrow>
          if c = CHR ''.'' then map_option Addr4 (parseIPv4 s)
          else if c = CHR '':'' then
            (let a = takeWhile (\<lambda>c. c \<noteq> CHR ''%'') s; z = drop (length a) s in
             if z = ''%'' then None else map_option (\<lambda>v. Addr6 v (tl z)) (parseIPv6 a))
          else None)"

fun addrUnmap :: "netipAddr \<Rightarrow> netipAddr" where
  "addrUnmap (Addr4 b) = Addr4 b"
| "addrUnmap (Addr6 b z) = (case To4 b of Some v4 \<Rightarrow> Addr4 v4 | None \<Rightarrow> Addr6 b z)"

definition addrIsLoopback :: "netipAddr \<Rightarrow> bool" where
  "addrIsLoopback a =
     (case addrUnmap a of Addr4 b \<Rightarrow> b \<noteq> [] \<and> hd b = 127 | Addr6 b z \<Rightarrow> b = replicate 15 0 @ [1])"

definition addrIsUnspecified :: "netipAddr \<Rightarrow> bool" where
  "addrIsUnspecified a =
     (case a of Addr4 b \<Rightarrow> b = replicate 4 0 | Addr6 b z \<Rightarrow> b = replicate 16 0 \<and> z = [])"

text \<open>\<open>netip.ParsePrefix\<close> accepts: an address without a zone, and its number of bits.\<close>

definition isPrefixText :: "string \<Rightarrow> bool" where
  "isPrefixText s =
     (case splitLast (CHR ''/'') s of
        None \<Rightarrow> False
      | Some (a, bits) \<Rightarrow>
          (case ParseAddr a of
             None \<Rightarrow> False
           | Some addr \<Rightarrow>
               (case addr of Addr4 _ \<Rightarrow> True | Addr6 _ z \<Rightarrow> z = []) \<and>
               bits \<noteq> [] \<and> list_all isDigit bits \<and> (length bits = 1 \<or> hd bits \<noteq> CHR ''0'') \<and>
               decimalVal bits \<le> (case addr of Addr4 _ \<Rightarrow> 32 | Addr6 _ _ \<Rightarrow> 128)))"

section \<open>Profiles\<close>

record wgProfile =
  wgPrivateKey :: string
  wgAddresses :: "string list"
  wgDNSServers :: "string list"
  wgMTU :: int
  wgPeerPublicKey :: string
  wgPresharedKey :: string
  wgAllowedIPs :: "string list"
  wgEndpoint :: string
  wgKeepalive :: int

text \<open>The trimmed parts of a list that are not blank.\<close>

definition trimStringList :: "string list \<Rightarrow> string list" where
  "trimStringList ss = filter (\<lambda>s. s \<noteq> []) (List.map TrimSpace ss)"

definition splitCSV :: "string \<Rightarrow> string list" where
  "splitCSV s = trimStringList (splitOn (CHR '','') s)"

definition positiveOr :: "int \<Rightarrow> string \<Rightarrow> int" where
  "positiveOr old s = (case Atoi s of Some n \<Rightarrow> if 0 < n then n else old | None \<Rightarrow> old)"

definition interfaceEntry :: "string \<Rightarrow> string \<Rightarrow> wgProfile \<Rightarrow> wgProfile" where
  "interfaceEntry key v p =
     (if key = ''privatekey'' then p\<lparr>wgPrivateKey := v\<rparr>
      else if key = ''address'' then p\<lparr>wgAddresses := wgAddresses p @ splitCSV v\<rparr>
      else if key = ''dns'' then p\<lparr>wgDNSServers := wgDNSServers p @ splitCSV v\<rparr>
      else if key = ''mtu'' then p\<lparr>wgMTU := positiveOr (wgMTU p) v\<rparr>
      else p)"

definition peerEntry :: "string \<Rightarrow> string \<Rightarrow> wgProfile \<Rightarrow> wgProfile" where
  "peerEntry key v p =
     (if key = ''publickey'' then p\<lparr>wgPeerPublicKey := v\<rparr>
      else if key = ''presharedkey'' then p\<lparr>wgPresharedKey := v\<rparr>
      else if key = ''allowedips'' then p\<lparr>wgAllowedIPs := wgAllowedIPs p @ splitCSV v\<rparr>
      else if key = ''endpoint'' then p\<lparr>wgEndpoint := v\<rparr>
      else if key = ''persistentkeepalive'' then p\<lparr>wgKeepalive := positiveOr (wgKeepalive p) v\<rparr>
      else p)"

text \<open>A line either names a section, or is an entry of the current one, or is skipped.\<close>

definition parseLine :: "string \<times> wgProfile \<Rightarrow> string \<Rightarrow> string \<times> wgProfile" where
  "parseLine sp raw =
     (let line = TrimSpace raw; (sec, p) = sp in
      if line = [] \<or> prefix ''#'' line \<or> prefix '';'' line then (sec, p)
      else if prefix ''['' line \<and> suffix '']'' line
      then (lowerText (TrimSpace (butlast (tl line))), p)
      else if CHR ''='' \<notin> set line then (sec, p)
      else
        (let key = lowerText (TrimSpace (takeWhile (\<lambda>c. c \<noteq> CHR ''='') line));
             v = TrimSpace (tl (dropWhile (\<lambda>c. c \<noteq> CHR ''='') line))
         in (sec,
             if sec = ''interface'' then interfaceEntry key v p
             else if sec = ''peer'' then peerEntry key v p
             else p)))"

datatype wgError =
    MissingPrivateKey
  | MissingAddress
  | MissingPublicKey
  | MissingAllowedIPs

definition emptyProfile :: wgProfile where
  "emptyProfile =
     \<lparr>wgPrivateKey = [], wgAddresses = [], wgDNSServers = [], wgMTU = 1280, wgPeerPublicKey = [],
      wgPresharedKey = [], wgAllowedIPs = [], wgEndpoint = [], wgKeepalive = 0\<rparr>"

definition parseProfile :: "string \<Rightarrow> wgError + wgProfile" where
  "parseProfile text =
     (let p = snd (foldl parseLine ([], emptyProfile) (splitOn (CHR 0x0A) text)) in
      if TrimSpace (wgPrivateKey p) = [] then Inl MissingPrivateKey
      else if wgAddresses p = [] then Inl MissingAddress
      else if TrimSpace (wgPeerPublicKey p) = [] then Inl MissingPublicKey
      else if wgAllowedIPs p = [] then Inl MissingAllowedIPs
      else Inr p)"

section \<open>What a parsed profile is\<close>

text \<open>Every text is trimmed, no entry of a list is blank, and the numbers are sensible.\<close>

definition trimmed :: "string \<Rightarrow> bool" where
  "trimmed s \<longleftrightarrow> TrimSpace s = s"

definition trimmedList :: "string list \<Rightarrow> bool" where
  "trimmedList ss \<longleftrightarrow> list_all (\<lambda>s. trimmed s \<and> s \<noteq> []) ss"

definition tidy :: "wgProfile \<Rightarrow> bool" where
  "tidy p \<longleftrightarrow>
     trimmed (wgPrivateKey p) \<and> trimmed (wgPeerPublicKey p) \<and> trimmed (wgPresharedKey p) \<and> trimmed (wgEndpoint p) \<and>
     trimmedList (wgAddresses p) \<and> trimmedList (wgDNSServers p) \<and> trimmedList (wgAllowedIPs p) \<and>
     0 < wgMTU p \<and> wgMTU p < 2 ^ 63 \<and> 0 \<le> wgKeepalive p \<and> wgKeepalive p < 2 ^ 63"

lemma trimmed_TrimSpace [simp]: "trimmed (TrimSpace s)" "trimmed []"
  by (simp_all add: trimmed_def)

lemma trimmedList_trimStringList [simp]: "trimmedList (trimStringList ss)"
  by (auto simp: trimmedList_def trimStringList_def list_all_iff)

lemma trimStringList_id: "trimmedList ss \<Longrightarrow> trimStringList ss = ss"
  by (induction ss) (auto simp: trimmedList_def trimStringList_def trimmed_def)

lemma trimmedList_append [simp]: "trimmedList (xs @ ys) \<longleftrightarrow> trimmedList xs \<and> trimmedList ys" "trimmedList []"
  by (simp_all add: trimmedList_def)

lemma Atoi_bounds: "Atoi s = Some n \<Longrightarrow> - (2 ^ 63) \<le> n \<and> n < 2 ^ 63"
  by (auto simp: Atoi_def Let_def split: if_splits)

lemma positiveOr_bounds:
  "0 < old \<and> old < 2 ^ 63 \<Longrightarrow> 0 < positiveOr old s \<and> positiveOr old s < 2 ^ 63"
  "0 \<le> old \<and> old < 2 ^ 63 \<Longrightarrow> 0 \<le> positiveOr old s \<and> positiveOr old s < 2 ^ 63"
  by (auto simp: positiveOr_def dest: Atoi_bounds split: option.split)

lemma tidy_entry:
  assumes "tidy p" "trimmed v"
  shows "tidy (interfaceEntry key v p)" "tidy (peerEntry key v p)"
  using assms positiveOr_bounds by (auto simp: tidy_def interfaceEntry_def peerEntry_def splitCSV_def)

lemma tidy_parseLine: "tidy (snd sp) \<Longrightarrow> tidy (snd (parseLine sp raw))"
  by (cases sp) (auto simp: parseLine_def Let_def tidy_entry)

lemma tidy_lines: "tidy (snd sp) \<Longrightarrow> tidy (snd (foldl parseLine sp ls))"
  by (induction ls arbitrary: sp) (auto simp: tidy_parseLine)

lemma tidy_emptyProfile: "tidy emptyProfile"
  by (simp add: tidy_def emptyProfile_def)

lemma parseProfile_tidy: "parseProfile text = Inr p \<Longrightarrow> tidy p"
  using tidy_lines [of "([], emptyProfile)"] tidy_emptyProfile
  by (auto simp: parseProfile_def Let_def split: if_splits)

end
