(* ===== verification/Base64.thy ===== *)
theory Base64
  imports GoPrelude
begin

text \<open>
  \<^verbatim>\<open>encoding/base64\<close> with the standard alphabet, with padding (\<open>StdEncoding\<close>) and without
  (\<open>RawStdEncoding\<close>).  As in Go, decoding skips line breaks and does not look at the bits of the last
  character that encode nothing.
\<close>

section \<open>The alphabet\<close>

definition b64Char :: "nat \<Rightarrow> char" where
  "b64Char n =
     char_of (if n < 26 then 65 + n else if n < 52 then 71 + n else if n < 62 then n - 4 else if n = 62 then 43 else 47 :: nat)"

definition b64Val :: "char \<Rightarrow> nat option" where
  "b64Val c =
     (let n = (of_char c :: nat) in
      if 65 \<le> n \<and> n \<le> 90 then Some (n - 65)
      else if 97 \<le> n \<and> n \<le> 122 then Some (n - 71)
      else if 48 \<le> n \<and> n \<le> 57 then Some (n + 4)
      else if n = 43 then Some 62
      else if n = 47 then Some 63
      else None)"

section \<open>Encoding\<close>

text \<open>A quantum: up to three bytes as up to four characters.\<close>

fun b64Groups :: "byte list \<Rightarrow> string" where
  "b64Groups (a # b # c # bs) =
     (let n = unat a * 65536 + unat b * 256 + unat c
      in b64Char (n div 262144) # b64Char (n div 4096 mod 64) # b64Char (n div 64 mod 64) # b64Char (n mod 64) # b64Groups bs)"
| "b64Groups [a, b] =
     (let n = unat a * 256 + unat b in [b64Char (n div 1024), b64Char (n div 16 mod 64), b64Char (n * 4 mod 64)])"
| "b64Groups [a] = [b64Char (unat a div 4), b64Char (unat a * 16 mod 64)]"
| "b64Groups [] = []"

definition b64Padding :: "nat \<Rightarrow> string" where
  "b64Padding n = (if n mod 3 = 1 then ''=='' else if n mod 3 = 2 then ''='' else [])"

definition stdEncode :: "byte list \<Rightarrow> string" where
  "stdEncode bs = b64Groups bs @ b64Padding (length bs)"

definition rawEncode :: "byte list \<Rightarrow> string" where
  "rawEncode bs = b64Groups bs"

section \<open>Decoding\<close>

fun b64Bytes :: "nat list \<Rightarrow> byte list option" where
  "b64Bytes (a # b # c # d # vs) =
     (case b64Bytes vs of
        None \<Rightarrow> None
      | Some bs \<Rightarrow>
          (let n = a * 262144 + b * 4096 + c * 64 + d
           in Some (of_nat (n div 65536) # of_nat (n div 256) # of_nat n # bs)))"
| "b64Bytes [a, b, c] = (let n = (a * 4096 + b * 64 + c) div 4 in Some [of_nat (n div 256), of_nat n])"
| "b64Bytes [a, b] = Some [of_nat ((a * 64 + b) div 16)]"
| "b64Bytes [a] = None"
| "b64Bytes [] = Some []"

definition b64Values :: "string \<Rightarrow> nat list option" where
  "b64Values s = (if list_all (\<lambda>c. b64Val c \<noteq> None) s then Some (map (\<lambda>c. the (b64Val c)) s) else None)"

definition b64Body :: "string \<Rightarrow> byte list option" where
  "b64Body s = Option.bind (b64Values s) b64Bytes"

definition noBreaks :: "string \<Rightarrow> string" where
  "noBreaks s = filter (\<lambda>c. c \<noteq> CHR 0x0A \<and> c \<noteq> CHR 0x0D) s"

definition rawDecode :: "string \<Rightarrow> byte list option" where
  "rawDecode s = b64Body (noBreaks s)"

definition stdDecode :: "string \<Rightarrow> byte list option" where
  "stdDecode s =
     (let t = noBreaks s in
      if length t mod 4 \<noteq> 0 then None
      else if suffix ''=='' t then b64Body (take (length t - 2) t)
      else if suffix ''='' t then b64Body (take (length t - 1) t)
      else b64Body t)"

section \<open>Round trips\<close>

lemma b64_val_char: "n < 64 \<Longrightarrow> b64Val (b64Char n) = Some n"
  by (auto simp: b64Val_def b64Char_def Let_def)

lemma b64_no_break: "n < 64 \<Longrightarrow> b64Char n \<noteq> CHR 0x0A \<and> b64Char n \<noteq> CHR 0x0D \<and> b64Char n \<noteq> CHR ''=''"
  using b64_val_char [of n] by (auto simp: b64Val_def Let_def)

lemma unat_byte: "unat (a :: byte) < 256"
  using unsigned_less [of a] by simp

lemma of_nat_byte: "n mod 256 = unat (a :: byte) \<Longrightarrow> (of_nat n :: byte) = a"
  by (rule unsigned_word_eqI) (simp add: unsigned_of_nat take_bit_eq_mod)

lemma split6: "(n :: nat) div 262144 * 262144 + n div 4096 mod 64 * 4096 + n div 64 mod 64 * 64 + n mod 64 = n"
proof -
  have d: "n div 4096 = n div 64 div 64" "n div 262144 = n div 64 div 64 div 64" by (simp_all flip: div_mult2_eq)
  show ?thesis
    using div_mult_mod_eq [of n 64] div_mult_mod_eq [of "n div 64" 64] div_mult_mod_eq [of "n div 64 div 64" 64]
    unfolding d by linarith
qed

lemma split5: "(n :: nat) div 1024 * 4096 + n div 16 mod 64 * 64 + n * 4 mod 64 = n * 4"
proof -
  have d: "n div 1024 = n div 16 div 64" "n * 4 mod 64 = n mod 16 * 4"
    using mult_mod_left [of n 16 4] by (simp_all flip: div_mult2_eq)
  show ?thesis
    using div_mult_mod_eq [of n 16] div_mult_mod_eq [of "n div 16" 64] unfolding d by linarith
qed

lemma split4: "((n :: nat) div 4 * 64 + n * 16 mod 64) div 16 = n"
proof -
  have "n * 16 mod 64 = n mod 4 * 16" using mult_mod_left [of n 4 16] by simp
  then have "n div 4 * 64 + n * 16 mod 64 = n * 16" using div_mult_mod_eq [of n 4] by linarith
  then show ?thesis by simp
qed

definition groupValues :: "byte list \<Rightarrow> nat list" where
  "groupValues bs = map (\<lambda>c. the (b64Val c)) (b64Groups bs)"

lemma two_bytes:
  assumes "b < 256" shows "(a * 256 + b) div 256 = (a :: nat)" "(a * 256 + b) mod 256 = b"
  using assms by simp_all

lemma three_bytes:
  assumes "b < 256" "c < 256"
  shows "(a * 65536 + b * 256 + c) div 65536 = (a :: nat)" "(a * 65536 + b * 256 + c) div 256 mod 256 = b"
    "(a * 65536 + b * 256 + c) mod 256 = c"
proof -
  have n: "a * 65536 + b * 256 + c = (a * 256 + b) * 256 + c" by simp
  have d: "(a * 65536 + b * 256 + c) div 256 = a * 256 + b" unfolding n by (rule two_bytes(1) [OF assms(2)])
  show "(a * 65536 + b * 256 + c) mod 256 = c" unfolding n by (rule two_bytes(2) [OF assms(2)])
  show "(a * 65536 + b * 256 + c) div 256 mod 256 = b" unfolding d by (rule two_bytes(2) [OF assms(1)])
  have "(a * 65536 + b * 256 + c) div 65536 = (a * 65536 + b * 256 + c) div 256 div 256"
    by (simp flip: div_mult2_eq)
  then show "(a * 65536 + b * 256 + c) div 65536 = a" unfolding d by (simp only: two_bytes(1) [OF assms(1)])
qed

lemma first_char:
  fixes a b c :: byte
  shows "(unat a * 65536 + unat b * 256 + unat c) div 262144 < 64" "(unat a * 256 + unat b) div 1024 < 64" "unat a div 4 < 64"
proof -
  note u = unat_byte [of a] unat_byte [of b] unat_byte [of c]
  have "unat a * 65536 + unat b * 256 + unat c < 64 * 262144" "unat a * 256 + unat b < 64 * 1024" "unat a < 64 * 4"
    using u by linarith+
  then show "(unat a * 65536 + unat b * 256 + unat c) div 262144 < 64" "(unat a * 256 + unat b) div 1024 < 64" "unat a div 4 < 64"
    by (blast intro: less_mult_imp_div_less)+
qed

lemma groups_values: "list_all (\<lambda>c. b64Val c \<noteq> None \<and> c \<noteq> CHR 0x0A \<and> c \<noteq> CHR 0x0D \<and> c \<noteq> CHR ''='') (b64Groups bs)"
  by (induction bs rule: b64Groups.induct) (simp_all add: Let_def b64_val_char b64_no_break first_char)

lemma bytes_groups: "b64Bytes (groupValues bs) = Some bs"
proof (induction bs rule: b64Groups.induct)
  case (1 a b c bs)
  define n where "n = unat a * 65536 + unat b * 256 + unat c"
  have t: "n div 65536 = unat a" "n div 256 mod 256 = unat b" "n mod 256 = unat c"
    unfolding n_def by (rule three_bytes [OF unat_byte unat_byte])+
  have "groupValues (a # b # c # bs) = n div 262144 # n div 4096 mod 64 # n div 64 mod 64 # n mod 64 # groupValues bs"
    using first_char(1) [of a b c] by (simp add: groupValues_def Let_def b64_val_char n_def)
  then show ?case using 1 t unat_byte [of a] by (simp only: b64Bytes.simps Let_def split6 option.case) (simp add: of_nat_byte)
next
  case (2 a b)
  define n where "n = unat a * 256 + unat b"
  have t: "n div 256 = unat a" "n mod 256 = unat b" unfolding n_def by (rule two_bytes [OF unat_byte])+
  have "groupValues [a, b] = [n div 1024, n div 16 mod 64, n * 4 mod 64]"
    using first_char(2) [of a b] by (simp add: groupValues_def Let_def b64_val_char n_def)
  then show ?case using t unat_byte [of a] by (simp only: b64Bytes.simps Let_def split5) (simp add: of_nat_byte)
next
  case (3 a)
  have "groupValues [a] = [unat a div 4, unat a * 16 mod 64]"
    using first_char(3) [of a] by (simp add: groupValues_def b64_val_char)
  then show ?case using unat_byte [of a] by (simp only: b64Bytes.simps split4) (simp add: of_nat_byte)
next
  case 4
  show ?case by (simp add: groupValues_def)
qed

lemma body_groups: "b64Body (b64Groups bs) = Some bs"
proof -
  have "list_all (\<lambda>c. b64Val c \<noteq> None) (b64Groups bs)"
    using groups_values [of bs] by (simp add: list_all_iff)
  then have "b64Values (b64Groups bs) = Some (groupValues bs)" by (simp add: b64Values_def groupValues_def)
  then show ?thesis by (simp add: b64Body_def bytes_groups)
qed

lemma noBreaks_groups [simp]: "noBreaks (b64Groups bs) = b64Groups bs"
  using groups_values [of bs] by (auto simp: noBreaks_def list_all_iff filter_id_conv)

lemma rawDecode_rawEncode [simp]: "rawDecode (rawEncode bs) = Some bs"
  by (simp add: rawDecode_def rawEncode_def body_groups)

lemma length_groups: "length (b64Groups bs) = (length bs * 4 + 2) div 3"
  by (induction bs rule: b64Groups.induct) (simp_all add: Let_def)

lemma stdDecode_stdEncode [simp]: "stdDecode (stdEncode bs) = Some bs"
proof -
  have nb: "noBreaks (stdEncode bs) = stdEncode bs"
    using noBreaks_groups [of bs] by (simp add: stdEncode_def b64Padding_def noBreaks_def)
  have l: "length (stdEncode bs) mod 4 = 0"
    by (simp add: stdEncode_def b64Padding_def length_groups) presburger
  have no: "CHR ''='' \<notin> set (b64Groups bs)" using groups_values [of bs] by (auto simp: list_all_iff)
  then have e: "\<not> suffix ''='' (b64Groups bs)" "\<not> suffix ''=='' (b64Groups bs)" "\<not> suffix ''=='' (b64Groups bs @ ''='')"
    by (auto simp: suffix_def)
  consider "length bs mod 3 = 0" | "length bs mod 3 = 1" | "length bs mod 3 = 2" by linarith
  then show ?thesis
  proof cases
    case 1
    then have "stdEncode bs = b64Groups bs" by (simp add: stdEncode_def b64Padding_def)
    then show ?thesis using nb l e by (simp add: stdDecode_def body_groups)
  next
    case 2
    then have s: "stdEncode bs = b64Groups bs @ ''==''" by (simp add: stdEncode_def b64Padding_def)
    then show ?thesis using nb l by (simp add: stdDecode_def body_groups suffix_def)
  next
    case 3
    then have s: "stdEncode bs = b64Groups bs @ ''=''" by (simp add: stdEncode_def b64Padding_def)
    then show ?thesis using nb l e by (simp add: stdDecode_def body_groups suffix_def)
  qed
qed

section \<open>Spaces\<close>

text \<open>What is encoded has no space.\<close>

lemma b64_printable: "b64Val c \<noteq> None \<Longrightarrow> 32 < (of_char c :: nat) \<and> of_char c \<le> (126 :: nat)"
  by (auto simp: b64Val_def Let_def split: if_splits)

lemma spaces_not_printable: "list_all (list_all (\<lambda>c. of_char c \<le> (32 :: nat) \<or> 126 < (of_char c :: nat))) go_spaces"
  by (simp add: go_spaces_def)

lemma TrimSpace_printable:
  assumes "list_all (\<lambda>c. b64Val c \<noteq> None \<or> c = CHR ''='') s"
  shows "TrimSpace s = s"
proof -
  have "c \<notin> \<Union> (set ` set go_spaces)" if "c \<in> set s" for c
  proof -
    have "b64Val c \<noteq> None \<or> c = CHR ''=''" using assms that by (simp add: list_all_iff)
    then have "32 < (of_char c :: nat) \<and> of_char c \<le> (126 :: nat)" using b64_printable [of c] by auto
    then show ?thesis using spaces_not_printable unfolding list_all_iff by fastforce
  qed
  then show ?thesis by (intro TrimSpace_plain) blast
qed

lemma TrimSpace_encode [simp]: "TrimSpace (rawEncode bs) = rawEncode bs" "TrimSpace (stdEncode bs) = stdEncode bs"
proof -
  have g: "list_all (\<lambda>c. b64Val c \<noteq> None \<or> c = CHR ''='') (b64Groups bs)"
    using groups_values [of bs] unfolding list_all_iff by blast
  then show "TrimSpace (rawEncode bs) = rawEncode bs" unfolding rawEncode_def by (rule TrimSpace_printable)
  show "TrimSpace (stdEncode bs) = stdEncode bs"
    by (rule TrimSpace_printable) (use g in \<open>simp add: stdEncode_def b64Padding_def\<close>)
qed

lemma rawEncode_empty [simp]: "rawEncode bs = [] \<longleftrightarrow> bs = []"
  using length_groups [of bs] by (cases bs) (auto simp: rawEncode_def)

end
