(* ===== verification/TransportStore.thy ===== *)
theory TransportStore
  imports WireGuardProfile ControlTypes "HOL-Library.AList"
begin

text \<open>
  The store of VPN transport profiles of the control host
  (\<^verbatim>\<open>pkg/clientcontrol/transport_profile_store.go\<close>): its data, what is derived from the material of a
  profile, the store and its file, and the lookup of a profile for a startup.  Every operation is one
  section under the mutex of the host.  Maps are association lists with distinct keys, or functions
  where nothing enumerates them.  Texts for humans are left out; the hash is a parameter.
\<close>

section \<open>Data\<close>

text \<open>A platform tunnel the host advertises.\<close>

record tunnelCapability =
  pcMode :: string
  pcAvailable :: bool
  pcSatisfied :: "string list"
  pcUnderlayPolicies :: "string list"
  pcPlans :: "planDescriptor list"
  pcMissing :: string

datatype storeError =
    StoreUnavailable
  | ProfileNotFound
  | ProfileInvalid
  | ProfileIncompatible
  | StoreNotWritten

datatype validationState = StateValid | StateInvalid

datatype compatibilityState = CompatUnknown | CompatCompatible | CompatIncompatible

record defaultBinding =
  dbProfileID :: string
  dbKind :: string
  dbHostAdapter :: string
  dbPlan :: executionPlan
  dbScopeID :: string

text \<open>A value of the field map of a structured draft, as decoded from JSON.\<close>

datatype draftValue =
    DraftText string
  | DraftTexts "string list"
  | DraftItems "string option list"
  | DraftInt int
  | DraftFloat goFloat
  | DraftNumber string
  | DraftOther

record structuredDraft =
  sdKind :: string
  sdSchemaVersion :: string
  sdDisplayName :: string
  sdFields :: "(string \<times> draftValue) list"
  sdSecretActions :: "(string \<times> string) list"
  sdPrivateKey :: string
  sdPrivateKeyAction :: string
  sdAddresses :: "string list"
  sdDNSServers :: "string list"
  sdMTU :: int
  sdPeerPublicKey :: string
  sdPresharedKey :: string
  sdPresharedKeyAction :: string
  sdAllowedIPs :: "string list"
  sdEndpoint :: string
  sdKeepalive :: int
  sdDefaultFor :: "executionPlan option"

text \<open>\<open>tpFingerprint\<close> is part of the validation, \<open>tpPlans\<close> of the compatibility status.\<close>

record profileStatus =
  tpID :: string
  tpKind :: string
  tpVersion :: string
  tpDisplayName :: string
  tpValidation :: validationState
  tpFingerprint :: string
  tpCompatibility :: compatibilityState
  tpPlans :: "executionPlan list"
  tpMaterialKind :: string
  tpMaterialRef :: string
  tpActions :: "string list"
  tpDefaultFor :: "defaultBinding list"
  tpDraft :: "structuredDraft option"
  tpImportedAt :: instant
  tpUpdatedAt :: instant

record managedProfile =
  mpStatus :: profileStatus
  mpWireGuard :: "wgProfile option"

text \<open>The document in the file of the store.\<close>

record storeDisk =
  skVersion :: int
  skProfiles :: "(profileStatus \<times> wgProfile option) list"
  skDefaults :: "string \<rightharpoonup> string"

record importRequest =
  iqAdapter :: string
  iqKind :: string
  iqDisplayName :: string
  iqMaterial :: string
  iqReplaceID :: string
  iqDefaultFor :: "executionPlan option"

text \<open>
  The parameters: the first twelve bytes of a SHA-256 in hexadecimal, the n-th identifier the host
  draws, the X25519 public key of a private key, the conversion to \<open>int\<close> of a float that does not
  fit, which Go leaves to the platform, and what \<open>json.Unmarshal\<close> reads from the JSON that
  \<open>json.MarshalIndent\<close> writes of a document.
\<close>

record storeEnv =
  teHash :: "string \<Rightarrow> string"
  teNewID :: "nat \<Rightarrow> string"
  tePublicKey :: "byte list \<Rightarrow> byte list"
  teIntOverflow :: int
  teJSON :: "storeDisk \<Rightarrow> storeDisk"

record transportStore =
  tsEnabled :: bool
  tsPath :: string
  tsTunnels :: "tunnelCapability list"
  tsProfiles :: "(string \<times> managedProfile) list"
  tsDefaults :: "string \<rightharpoonup> string"
  tsNextID :: nat
  tsDisk :: "storeDisk option"

definition wireGuardKind :: string where "wireGuardKind = ''wireguard_native_v1''"

definition zeroTime :: instant where "zeroTime = -62135596800 * 10 ^ 9"

section \<open>Material\<close>

definition wireGuardProfileComplete :: "wgProfile option \<Rightarrow> bool" where
  "wireGuardProfileComplete p =
     (case p of
        None \<Rightarrow> False
      | Some w \<Rightarrow>
          TrimSpace (wgPrivateKey w) \<noteq> [] \<and> wgAddresses w \<noteq> [] \<and> TrimSpace (wgPeerPublicKey w) \<noteq> [] \<and>
          wgAllowedIPs w \<noteq> [])"

text \<open>An endpoint the tunnel may be raised to: host and port, and not the device itself.\<close>

definition rawIngressEndpointOk :: "string \<Rightarrow> bool" where
  "rawIngressEndpointOk endpoint =
     (case SplitHostPort (TrimSpace endpoint) of
        Inl _ \<Rightarrow> False
      | Inr (host, port) \<Rightarrow>
          TrimSpace host \<noteq> [] \<and> TrimSpace port \<noteq> [] \<and> foldText host \<noteq> ''localhost'' \<and>
          (case ParseAddr host of None \<Rightarrow> True | Some a \<Rightarrow> \<not> addrIsLoopback a \<and> \<not> addrIsUnspecified a))"

definition fingerprintPart :: "string \<Rightarrow> string" where
  "fingerprintPart v = TrimSpace v @ [CHR 0x00]"

definition wireGuardProfileFingerprint :: "storeEnv \<Rightarrow> wgProfile \<Rightarrow> string" where
  "wireGuardProfileFingerprint env w =
     ''sha256:'' @ teHash env (concat (List.map fingerprintPart
        (wgAddresses w @ [wgPeerPublicKey w] @ wgAllowedIPs w @ [wgEndpoint w])))"

definition wireGuardValidation :: "storeEnv \<Rightarrow> wgProfile option \<Rightarrow> validationState \<times> string" where
  "wireGuardValidation env p =
     (case p of
        None \<Rightarrow> (StateInvalid, [])
      | Some w \<Rightarrow>
          if wireGuardProfileComplete p \<and> TrimSpace (wgEndpoint w) \<noteq> [] \<and> rawIngressEndpointOk (TrimSpace (wgEndpoint w))
          then (StateValid, wireGuardProfileFingerprint env w)
          else (StateInvalid, []))"

definition transportProfileValidation ::
    "storeEnv \<Rightarrow> string \<Rightarrow> wgProfile option \<Rightarrow> validationState \<times> string" where
  "transportProfileValidation env kind p =
     (if kind = wireGuardKind then wireGuardValidation env p else (StateInvalid, []))"

definition portableExportAvailable :: "string \<Rightarrow> validationState \<Rightarrow> wgProfile option \<Rightarrow> bool" where
  "portableExportAvailable kind v p \<longleftrightarrow> v = StateValid \<and> kind = wireGuardKind \<and> wireGuardProfileComplete p"

definition statusActions :: "string \<Rightarrow> validationState \<Rightarrow> wgProfile option \<Rightarrow> string list" where
  "statusActions kind v p =
     filter (\<lambda>a. v = StateValid \<or> a \<noteq> ''select_for_startup'')
       [''validate'', ''replace'', ''forget'', ''select_for_startup'', ''update_structured'', ''validate_draft'', ''generate_key''] @
     (if portableExportAvailable kind v p then [''export_portable''] else [])"

fun draftFieldEmpty :: "draftValue \<Rightarrow> bool" where
  "draftFieldEmpty (DraftText s) = (TrimSpace s = [])"
| "draftFieldEmpty (DraftInt n) = (n = 0)"
| "draftFieldEmpty (DraftTexts ss) = (trimStringList ss = [])"
| "draftFieldEmpty _ = False"

text \<open>The draft an editor starts from: everything but the keys, and that they may be kept.\<close>

definition redactedDraft :: "string \<Rightarrow> string \<Rightarrow> wgProfile option \<Rightarrow> structuredDraft option" where
  "redactedDraft kind name p =
     (case p of
        None \<Rightarrow> None
      | Some w \<Rightarrow>
          if kind \<noteq> wireGuardKind then None
          else Some
            \<lparr>sdKind = kind, sdSchemaVersion = ''wireguard_native_v1.structured_editor.v1'',
             sdDisplayName = TrimSpace name,
             sdFields = filter (\<lambda>(f, v). \<not> draftFieldEmpty v)
               [(''display_name'', DraftText (TrimSpace name)), (''interface_addresses'', DraftTexts (wgAddresses w)),
                (''dns_servers'', DraftTexts (wgDNSServers w)), (''mtu'', DraftInt (wgMTU w)),
                (''peer_public_key'', DraftText (TrimSpace (wgPeerPublicKey w))),
                (''allowed_ips'', DraftTexts (wgAllowedIPs w)), (''endpoint'', DraftText (TrimSpace (wgEndpoint w))),
                (''persistent_keepalive'', DraftInt (wgKeepalive w))],
             sdSecretActions =
               (if TrimSpace (wgPrivateKey w) \<noteq> [] then [(''interface_private_key'', ''preserve_existing'')] else []) @
               (if TrimSpace (wgPresharedKey w) \<noteq> [] then [(''peer_preshared_key'', ''preserve_existing'')] else []),
             sdPrivateKey = [], sdPrivateKeyAction = [], sdAddresses = wgAddresses w, sdDNSServers = wgDNSServers w,
             sdMTU = wgMTU w, sdPeerPublicKey = TrimSpace (wgPeerPublicKey w), sdPresharedKey = [],
             sdPresharedKeyAction = [], sdAllowedIPs = wgAllowedIPs w, sdEndpoint = TrimSpace (wgEndpoint w),
             sdKeepalive = wgKeepalive w, sdDefaultFor = None\<rparr>)"

section \<open>Plans\<close>

definition transportProfileCompatibleWithPlan :: "string \<Rightarrow> executionPlan \<Rightarrow> bool" where
  "transportProfileCompatibleWithPlan kind p \<longleftrightarrow> kind = wireGuardKind \<and> isStrictWireGuardTurnExecutionPlan p"

definition requiredTransportProfileKindsForPlan :: "executionPlan \<Rightarrow> string list" where
  "requiredTransportProfileKindsForPlan p = (if isStrictWireGuardTurnExecutionPlan p then [wireGuardKind] else [])"

definition requiredKindsForPlan :: "transportStore \<Rightarrow> executionPlan \<Rightarrow> string list" where
  "requiredKindsForPlan s p =
     (case find (\<lambda>d. runtimeExecutionPlanEquals (xdPlan d) p \<and> xdRequiredKinds d \<noteq> []) (concat (List.map pcPlans (tsTunnels s))) of
        Some d \<Rightarrow> xdRequiredKinds d
      | None \<Rightarrow> requiredTransportProfileKindsForPlan p)"

definition compatiblePlansForKind :: "string \<Rightarrow> tunnelCapability list \<Rightarrow> executionPlan list" where
  "compatiblePlansForKind kind cs =
     filter (transportProfileCompatibleWithPlan kind) (List.map xdPlan (concat (List.map pcPlans cs)))"

text \<open>The compatible plans that can be started.\<close>

definition advertisedPlansForKind :: "string \<Rightarrow> tunnelCapability list \<Rightarrow> executionPlan list" where
  "advertisedPlansForKind kind cs =
     List.map xdPlan (filter (\<lambda>d. isSupported d \<and> transportProfileCompatibleWithPlan kind (xdPlan d))
       (concat (List.map pcPlans (filter pcAvailable cs))))"

definition transportProfilePlanAdvertised :: "transportStore \<Rightarrow> string \<Rightarrow> executionPlan \<Rightarrow> bool" where
  "transportProfilePlanAdvertised s kind p \<longleftrightarrow>
     list_ex (\<lambda>c. pcAvailable c \<and>
        list_ex (\<lambda>d. isSupported d \<and> runtimeExecutionPlanEquals (xdPlan d) p \<and>
          transportProfileCompatibleWithPlan kind (xdPlan d)) (pcPlans c)) (tsTunnels s)"

definition transportProfileDefaultScopeID :: "executionPlan \<Rightarrow> string" where
  "transportProfileDefaultScopeID p =
     joinWith ''|'' [xpHostAdapter p, xpAccessMethod p, xpCarrierFamily p, xpEngineFamily p]"

definition bindingFor :: "string \<Rightarrow> string \<Rightarrow> executionPlan \<Rightarrow> defaultBinding" where
  "bindingFor pid kind p =
     \<lparr>dbProfileID = pid, dbKind = kind, dbHostAdapter = xpHostAdapter p, dbPlan = p,
      dbScopeID = transportProfileDefaultScopeID p\<rparr>"

text \<open>The bindings a new profile gets, and those a profile has.\<close>

definition defaultBindingsForImported ::
    "tunnelCapability list \<Rightarrow> profileStatus \<Rightarrow> executionPlan option \<Rightarrow> defaultBinding list" where
  "defaultBindingsForImported cs st requested =
     (if tpValidation st \<noteq> StateValid then []
      else List.map (bindingFor (tpID st) (tpKind st))
        (filter (transportProfileCompatibleWithPlan (tpKind st))
          (case requested of None \<Rightarrow> compatiblePlansForKind (tpKind st) cs | Some p \<Rightarrow> [p])))"

definition defaultBindingsFor ::
    "tunnelCapability list \<Rightarrow> (string \<rightharpoonup> string) \<Rightarrow> profileStatus \<Rightarrow> defaultBinding list" where
  "defaultBindingsFor cs defs st =
     (if tpValidation st \<noteq> StateValid then []
      else List.map (bindingFor (tpID st) (tpKind st))
        (filter (\<lambda>p. case_option [] id (defs (transportProfileDefaultScopeID p)) = tpID st)
          (compatiblePlansForKind (tpKind st) cs)))"

section \<open>Refresh\<close>

definition refreshStatus ::
    "storeEnv \<Rightarrow> tunnelCapability list \<Rightarrow> (string \<rightharpoonup> string) \<Rightarrow> wgProfile option \<Rightarrow> profileStatus \<Rightarrow> profileStatus" where
  "refreshStatus env cs defs w st =
     (let (v, fp) = transportProfileValidation env (tpKind st) w;
          plans = compatiblePlansForKind (tpKind st) cs;
          st1 = st\<lparr>tpMaterialRef := ''host-owned:'' @ tpID st,
            tpMaterialKind := (if tpMaterialKind st = [] then ''import_adapter'' else tpMaterialKind st),
            tpValidation := v, tpFingerprint := fp, tpDraft := redactedDraft (tpKind st) (tpDisplayName st) w,
            tpActions := statusActions (tpKind st) v w, tpPlans := plans,
            tpCompatibility := (if v = StateValid \<and> plans \<noteq> [] then CompatCompatible else CompatIncompatible)\<rparr>
      in st1\<lparr>tpDefaultFor := defaultBindingsFor cs defs st1\<rparr>)"

definition refreshManaged ::
    "storeEnv \<Rightarrow> tunnelCapability list \<Rightarrow> (string \<rightharpoonup> string) \<Rightarrow> managedProfile \<Rightarrow> managedProfile" where
  "refreshManaged env cs defs m = m\<lparr>mpStatus := refreshStatus env cs defs (mpWireGuard m) (mpStatus m)\<rparr>"

definition refreshOne :: "storeEnv \<Rightarrow> string \<Rightarrow> transportStore \<Rightarrow> transportStore" where
  "refreshOne env pid s =
     (case map_of (tsProfiles s) pid of
        None \<Rightarrow> s
      | Some m \<Rightarrow> s\<lparr>tsProfiles := AList.update pid (refreshManaged env (tsTunnels s) (tsDefaults s) m) (tsProfiles s)\<rparr>)"

definition refreshAll :: "storeEnv \<Rightarrow> transportStore \<Rightarrow> transportStore" where
  "refreshAll env s =
     s\<lparr>tsProfiles := List.map (\<lambda>(k, m). (k, refreshManaged env (tsTunnels s) (tsDefaults s) m)) (tsProfiles s)\<rparr>"

section \<open>The file\<close>

text \<open>
  Writing the file goes through a temporary file.  It may fail before the rename, or after it when
  the permissions of the file cannot be set.  The file is kept as the document it is the JSON of.
\<close>

datatype writeOutcome = Written | NotWritten | WrittenUnprotected

definition storeRecord :: "managedProfile \<Rightarrow> profileStatus \<times> wgProfile option" where
  "storeRecord m = (mpStatus m, if tpKind (mpStatus m) = wireGuardKind then mpWireGuard m else None)"

definition storeToDisk :: "transportStore \<Rightarrow> storeDisk" where
  "storeToDisk s =
     \<lparr>skVersion = 1, skProfiles = List.map (storeRecord \<circ> snd) (sort_key fst (tsProfiles s)), skDefaults = tsDefaults s\<rparr>"

definition persistTransportProfileStore ::
    "writeOutcome \<Rightarrow> transportStore \<Rightarrow> storeError option \<times> transportStore" where
  "persistTransportProfileStore io s =
     (if TrimSpace (tsPath s) = [] then (None, s)
      else
        (case io of
           Written \<Rightarrow> (None, s\<lparr>tsDisk := Some (storeToDisk s)\<rparr>)
         | NotWritten \<Rightarrow> (Some StoreNotWritten, s)
         | WrittenUnprotected \<Rightarrow> (Some StoreNotWritten, s\<lparr>tsDisk := Some (storeToDisk s)\<rparr>)))"

definition wireGuardProfileFromDisk :: "wgProfile \<Rightarrow> wgProfile" where
  "wireGuardProfileFromDisk w =
     w\<lparr>wgPrivateKey := TrimSpace (wgPrivateKey w), wgPeerPublicKey := TrimSpace (wgPeerPublicKey w),
       wgPresharedKey := TrimSpace (wgPresharedKey w), wgEndpoint := TrimSpace (wgEndpoint w)\<rparr>"

definition loadRecord ::
    "storeEnv \<Rightarrow> profileStatus \<times> wgProfile option \<Rightarrow> (string \<times> managedProfile) list \<Rightarrow> (string \<times> managedProfile) list" where
  "loadRecord env r ps =
     (let st = (fst r)\<lparr>tpID := TrimSpace (tpID (fst r))\<rparr>;
          w = (if tpKind st = wireGuardKind then map_option wireGuardProfileFromDisk (snd r) else None);
          (v, fp) = transportProfileValidation env (tpKind st) w
      in if tpID st = [] \<or> \<not> isKnownTransportProfileKind (tpKind st) then ps
         else AList.update (tpID st)
           \<lparr>mpStatus = st\<lparr>tpValidation := v, tpFingerprint := fp, tpMaterialRef := ''host-owned:'' @ tpID st,
              tpMaterialKind := (if tpMaterialKind st = [] then ''import_adapter'' else tpMaterialKind st),
              tpActions := statusActions (tpKind st) v w\<rparr>,
            mpWireGuard = w\<rparr> ps)"

text \<open>
  A host loads its store once, before anything else; a file it cannot read leaves it empty.  What it
  reads is what the JSON of the document says.
\<close>

definition loadTransportProfileStore :: "storeEnv \<Rightarrow> transportStore \<Rightarrow> transportStore" where
  "loadTransportProfileStore env s =
     (if \<not> tsEnabled s \<or> TrimSpace (tsPath s) = [] then s
      else
        (case map_option (teJSON env) (tsDisk s) of
           None \<Rightarrow> s
         | Some d \<Rightarrow>
             if skVersion d \<noteq> 1 then s
             else
               (let ps = foldl (\<lambda>ps r. loadRecord env r ps) [] (skProfiles d);
                    defs = (\<lambda>scope. case skDefaults d scope of
                        None \<Rightarrow> None
                      | Some pid \<Rightarrow> if map_of ps pid = None then None else Some pid)
                in refreshAll env (s\<lparr>tsProfiles := ps, tsDefaults := defs\<rparr>))))"

definition openStore ::
    "storeEnv \<Rightarrow> bool \<Rightarrow> string \<Rightarrow> tunnelCapability list \<Rightarrow> nat \<Rightarrow> storeDisk option \<Rightarrow> transportStore" where
  "openStore env enabled path cs n disk =
     loadTransportProfileStore env
       \<lparr>tsEnabled = enabled, tsPath = TrimSpace path, tsTunnels = cs, tsProfiles = [], tsDefaults = Map.empty,
        tsNextID = n, tsDisk = disk\<rparr>"

end
