(* ===== verification/TransportOps.thy ===== *)
theory TransportOps
  imports TransportStore
begin

text \<open>
  The operations of the store of transport profiles (\<^verbatim>\<open>pkg/clientcontrol/transport_profile_store.go\<close>).
  An operation returns its result and the store; the outcome of writing the file is an argument.
\<close>

section \<open>Storing a profile\<close>

definition defaultTransportProfileDisplayName :: "string \<Rightarrow> string" where
  "defaultTransportProfileDisplayName kind =
     (if kind = wireGuardKind then ''WireGuard VPN transport profile'' else kind)"

text \<open>The status of a profile with the given identifier before its default bindings are set.\<close>

definition newStatus ::
    "storeEnv \<Rightarrow> instant \<Rightarrow> transportStore \<Rightarrow> importRequest \<Rightarrow> wgProfile \<Rightarrow> string \<Rightarrow> string \<Rightarrow> profileStatus" where
  "newStatus env now s rq w source pid =
     (let (v, fp) = transportProfileValidation env (iqKind rq) (Some w) in
      \<lparr>tpID = pid, tpKind = iqKind rq, tpVersion = ''1'',
       tpDisplayName = firstNonBlank [iqDisplayName rq, defaultTransportProfileDisplayName (iqKind rq)],
       tpValidation = v, tpFingerprint = fp,
       tpCompatibility = (if v = StateValid then CompatCompatible else CompatIncompatible),
       tpPlans = compatiblePlansForKind (iqKind rq) (tsTunnels s),
       tpMaterialKind = source, tpMaterialRef = ''host-owned:'' @ pid,
       tpActions = statusActions (iqKind rq) v (Some w), tpDefaultFor = [], tpDraft = None,
       tpImportedAt =
         (case map_of (tsProfiles s) pid of
            None \<Rightarrow> now
          | Some m \<Rightarrow> if tpImportedAt (mpStatus m) = zeroTime then now else tpImportedAt (mpStatus m)),
       tpUpdatedAt = now\<rparr>)"

definition chosenID :: "storeEnv \<Rightarrow> transportStore \<Rightarrow> importRequest \<Rightarrow> string \<times> transportStore" where
  "chosenID env s rq =
     (if TrimSpace (iqReplaceID rq) \<noteq> [] then (TrimSpace (iqReplaceID rq), s)
      else (teNewID env (tsNextID s), s\<lparr>tsNextID := Suc (tsNextID s)\<rparr>))"

text \<open>Undoing a change in memory that could not be written.\<close>

definition restoreStore ::
    "storeEnv \<Rightarrow> string \<Rightarrow> managedProfile option \<Rightarrow> (string \<rightharpoonup> string) \<Rightarrow> transportStore \<Rightarrow> transportStore" where
  "restoreStore env pid prev defs s =
     refreshAll env (s\<lparr>tsProfiles := (case prev of None \<Rightarrow> AList.delete pid (tsProfiles s)
         | Some m \<Rightarrow> AList.update pid m (tsProfiles s)), tsDefaults := defs\<rparr>)"

definition statusOf :: "string \<Rightarrow> transportStore \<Rightarrow> profileStatus option" where
  "statusOf pid s = map_option mpStatus (map_of (tsProfiles s) pid)"

text \<open>A new profile becomes the default of its plans, and so does one that asks for it.\<close>

definition bindsDefaults :: "transportStore \<Rightarrow> importRequest \<Rightarrow> profileStatus \<Rightarrow> bool \<Rightarrow> bool" where
  "bindsDefaults s rq st assign \<longleftrightarrow>
     tpValidation st = StateValid \<and> assign \<and> (iqDefaultFor rq \<noteq> None \<or> map_of (tsProfiles s) (tpID st) = None)"

definition importedBindings :: "transportStore \<Rightarrow> importRequest \<Rightarrow> profileStatus \<Rightarrow> bool \<Rightarrow> defaultBinding list" where
  "importedBindings s rq st assign =
     (if bindsDefaults s rq st assign then defaultBindingsForImported (tsTunnels s) st (iqDefaultFor rq)
      else defaultBindingsFor (tsTunnels s) (tsDefaults s) st)"

definition importedDefaults :: "transportStore \<Rightarrow> importRequest \<Rightarrow> profileStatus \<Rightarrow> bool \<Rightarrow> string \<rightharpoonup> string" where
  "importedDefaults s rq st assign =
     (if bindsDefaults s rq st assign
      then foldl (\<lambda>m b. m(dbScopeID b \<mapsto> tpID st)) (tsDefaults s) (importedBindings s rq st assign)
      else tsDefaults s)"

text \<open>Writing the file after a change of a profile, or undoing the change.\<close>

definition commitProfile ::
    "storeEnv \<Rightarrow> writeOutcome \<Rightarrow> string \<Rightarrow> transportStore \<Rightarrow> transportStore \<Rightarrow>
      (storeError + profileStatus) \<times> transportStore" where
  "commitProfile env io pid old s1 =
     (case persistTransportProfileStore io s1 of
        (None, s2) \<Rightarrow> (case statusOf pid s1 of Some st \<Rightarrow> Inr st | None \<Rightarrow> Inl ProfileNotFound, s2)
      | (Some e, s2) \<Rightarrow> (Inl e, restoreStore env pid (map_of (tsProfiles old) pid) (tsDefaults old) s2))"

definition storeParsed ::
    "storeEnv \<Rightarrow> writeOutcome \<Rightarrow> instant \<Rightarrow> importRequest \<Rightarrow> wgProfile \<Rightarrow> string \<Rightarrow> bool \<Rightarrow> transportStore \<Rightarrow>
      (storeError + profileStatus) \<times> transportStore" where
  "storeParsed env io now rq w source assign s0 =
     (let (pid, s) = chosenID env s0 rq;
          st = newStatus env now s rq w source pid;
          m = \<lparr>mpStatus = st\<lparr>tpDefaultFor := importedBindings s rq st assign\<rparr>, mpWireGuard = Some w\<rparr>
      in commitProfile env io pid s
           (refreshAll env (s\<lparr>tsProfiles := AList.update pid m (tsProfiles s),
              tsDefaults := importedDefaults s rq st assign\<rparr>)))"

section \<open>Import\<close>

definition normalizeTransportProfileImportRequest :: "importRequest \<Rightarrow> storeError + importRequest \<times> wgProfile" where
  "normalizeTransportProfileImportRequest rq =
     (let n = rq\<lparr>iqAdapter := TrimSpace (iqAdapter rq), iqKind := TrimSpace (iqKind rq),
            iqDisplayName := TrimSpace (iqDisplayName rq), iqReplaceID := TrimSpace (iqReplaceID rq)\<rparr>
      in if iqAdapter n \<noteq> ''wireguard_conf'' \<or> iqKind n \<noteq> wireGuardKind \<or> TrimSpace (iqMaterial n) = []
         then Inl ProfileInvalid
         else (case parseProfile (iqMaterial n) of Inl _ \<Rightarrow> Inl ProfileInvalid | Inr w \<Rightarrow> Inr (n, w)))"

definition ImportTransportProfile ::
    "storeEnv \<Rightarrow> writeOutcome \<Rightarrow> instant \<Rightarrow> importRequest \<Rightarrow> transportStore \<Rightarrow> (storeError + profileStatus) \<times> transportStore" where
  "ImportTransportProfile env io now rq s =
     (case normalizeTransportProfileImportRequest rq of
        Inl e \<Rightarrow> (Inl e, s)
      | Inr (n, w) \<Rightarrow>
          if \<not> tsEnabled s then (Inl StoreUnavailable, s)
          else storeParsed env io now n w ''import_adapter'' True s)"

section \<open>Migration of a file of an older version\<close>

definition invalidLegacyStatus :: "instant \<Rightarrow> string \<Rightarrow> profileStatus" where
  "invalidLegacyStatus now pid =
     \<lparr>tpID = pid, tpKind = wireGuardKind, tpVersion = ''1'',
      tpDisplayName = ''Invalid migrated WireGuard VPN transport profile'',
      tpValidation = StateInvalid, tpFingerprint = [], tpCompatibility = CompatIncompatible, tpPlans = [],
      tpMaterialKind = ''legacy_path'', tpMaterialRef = ''host-owned:'' @ pid,
      tpActions = statusActions wireGuardKind StateInvalid None, tpDefaultFor = [], tpDraft = None,
      tpImportedAt = now, tpUpdatedAt = now\<rparr>"

definition storeInvalidLegacy ::
    "storeEnv \<Rightarrow> writeOutcome \<Rightarrow> instant \<Rightarrow> transportStore \<Rightarrow> (storeError + profileStatus) \<times> transportStore" where
  "storeInvalidLegacy env io now s0 =
     (let pid = teNewID env (tsNextID s0);
          s = s0\<lparr>tsNextID := Suc (tsNextID s0)\<rparr>;
          s1 = refreshOne env pid (s\<lparr>tsProfiles :=
            AList.update pid \<lparr>mpStatus = invalidLegacyStatus now pid, mpWireGuard = None\<rparr> (tsProfiles s)\<rparr>)
      in case persistTransportProfileStore io s1 of
           (None, s2) \<Rightarrow> (case statusOf pid s1 of Some st \<Rightarrow> (Inr st, s2) | None \<Rightarrow> (Inl ProfileNotFound, s2))
         | (Some e, s2) \<Rightarrow> (Inl e, s2\<lparr>tsProfiles := AList.delete pid (tsProfiles s2)\<rparr>))"

definition wireGuardProfileOf :: "transportStore \<Rightarrow> managedProfile option" where
  "wireGuardProfileOf s = find (\<lambda>m. tpKind (mpStatus m) = wireGuardKind) (List.map snd (tsProfiles s))"

definition legacyRequest :: importRequest where
  "legacyRequest =
     \<lparr>iqAdapter = [], iqKind = wireGuardKind, iqDisplayName = ''Migrated WireGuard VPN transport profile'',
      iqMaterial = [], iqReplaceID = [], iqDefaultFor = None\<rparr>"

text \<open>
  \<open>contents\<close> is what reading the file gives.  The host is locked twice, but the second time it makes
  every check of the first one again, so this is one step.  The flag tells whether the file was
  migrated now.
\<close>

definition MigrateWireGuardTransportProfile ::
    "storeEnv \<Rightarrow> writeOutcome \<Rightarrow> instant \<Rightarrow> string \<Rightarrow> string option \<Rightarrow> transportStore \<Rightarrow>
      (storeError + profileStatus \<times> bool) \<times> transportStore" where
  "MigrateWireGuardTransportProfile env io now path contents s =
     (if TrimSpace path = [] then (Inl ProfileNotFound, s)
      else
        (case contents of
           None \<Rightarrow> (Inl ProfileNotFound, s)
         | Some text \<Rightarrow>
             if \<not> tsEnabled s then (Inl StoreUnavailable, s)
             else
               (case wireGuardProfileOf s of
                  Some m \<Rightarrow> (Inr (mpStatus m, False), s)
                | None \<Rightarrow>
                    (case parseProfile text of
                       Inl _ \<Rightarrow> (case storeInvalidLegacy env io now s of (r, s') \<Rightarrow> (map_sum id (\<lambda>st. (st, False)) r, s'))
                     | Inr w \<Rightarrow>
                         (case storeParsed env io now legacyRequest w ''legacy_path'' True s of
                            (r, s') \<Rightarrow> (map_sum id (\<lambda>st. (st, True)) r, s'))))))"

section \<open>Reading, validating, forgetting\<close>

definition TransportProfiles :: "transportStore \<Rightarrow> storeError + profileStatus list" where
  "TransportProfiles s =
     (if \<not> tsEnabled s then Inl StoreUnavailable
      else Inr (sort_key tpID (List.map (mpStatus \<circ> snd) (tsProfiles s))))"

definition ValidateTransportProfile ::
    "storeEnv \<Rightarrow> string \<Rightarrow> transportStore \<Rightarrow> (storeError + profileStatus) \<times> transportStore" where
  "ValidateTransportProfile env pid0 s =
     (let pid = TrimSpace pid0 in
      if pid = [] then (Inl ProfileNotFound, s)
      else if \<not> tsEnabled s then (Inl StoreUnavailable, s)
      else if map_of (tsProfiles s) pid = None then (Inl ProfileNotFound, s)
      else
        (let s' = refreshOne env pid s in
         (case statusOf pid s' of None \<Rightarrow> Inl ProfileNotFound | Some st \<Rightarrow> Inr st, s')))"

definition ForgetTransportProfile ::
    "storeEnv \<Rightarrow> writeOutcome \<Rightarrow> string \<Rightarrow> transportStore \<Rightarrow> storeError option \<times> transportStore" where
  "ForgetTransportProfile env io pid0 s =
     (let pid = TrimSpace pid0 in
      if pid = [] then (Some ProfileNotFound, s)
      else if \<not> tsEnabled s then (Some StoreUnavailable, s)
      else
        (case map_of (tsProfiles s) pid of
           None \<Rightarrow> (Some ProfileNotFound, s)
         | Some m \<Rightarrow>
             (let s1 = refreshAll env (s\<lparr>tsProfiles := AList.delete pid (tsProfiles s),
                    tsDefaults := (\<lambda>scope. if tsDefaults s scope = Some pid then None else tsDefaults s scope)\<rparr>)
              in case persistTransportProfileStore io s1 of
                   (None, s2) \<Rightarrow> (None, s2)
                 | (Some e, s2) \<Rightarrow> (Some e, restoreStore env pid (Some m) (tsDefaults s) s2))))"

section \<open>A profile for a startup\<close>

definition validateTransportProfileMaterialForPlan :: "managedProfile \<Rightarrow> executionPlan \<Rightarrow> bool" where
  "validateTransportProfileMaterialForPlan m p \<longleftrightarrow>
     \<not> (tpKind (mpStatus m) = wireGuardKind \<and> isStrictWireGuardTurnExecutionPlan p) \<or>
     (case mpWireGuard m of None \<Rightarrow> False | Some w \<Rightarrow> rawIngressEndpointOk (wgEndpoint w))"

definition validateTransportProfileRef ::
    "transportStore \<Rightarrow> profileReference \<Rightarrow> executionPlan \<Rightarrow> string list \<Rightarrow> storeError + profileReference" where
  "validateTransportProfileRef s ref p required =
     (let pid = TrimSpace (rfProfileID ref) in
      if pid = [] then Inl ProfileNotFound
      else
        (case map_of (tsProfiles s) pid of
           None \<Rightarrow> Inl ProfileNotFound
         | Some m \<Rightarrow>
             if tpKind (mpStatus m) \<notin> set required then Inl ProfileIncompatible
             else if tpValidation (mpStatus m) \<noteq> StateValid then Inl ProfileInvalid
             else if \<not> transportProfileCompatibleWithPlan (tpKind (mpStatus m)) p then Inl ProfileIncompatible
             else if \<not> validateTransportProfileMaterialForPlan m p then Inl ProfileInvalid
             else Inr \<lparr>rfProfileID = pid, rfKind = tpKind (mpStatus m), rfUseDefault = rfUseDefault ref,
               rfDefaultScopeID = TrimSpace (rfDefaultScopeID ref)\<rparr>))"

definition defaultReference :: "string \<Rightarrow> string \<Rightarrow> profileReference" where
  "defaultReference pid scope =
     \<lparr>rfProfileID = pid, rfKind = [], rfUseDefault = True, rfDefaultScopeID = scope\<rparr>"

text \<open>\<open>explicit\<close> is the reference of the start request.\<close>

definition resolveTransportProfileForStartup ::
    "transportStore \<Rightarrow> profileReference option \<Rightarrow> executionPlan \<Rightarrow> string list \<Rightarrow> storeError + profileReference option" where
  "resolveTransportProfileForStartup s explicit p required0 =
     (let required = (if required0 = [] then requiredTransportProfileKindsForPlan p else required0);
          scope = transportProfileDefaultScopeID p;
          default = case_option [] id (tsDefaults s scope)
      in if required = [] then Inr None
         else if \<not> tsEnabled s then Inl StoreUnavailable
         else
           (case explicit of
              Some ref \<Rightarrow>
                if TrimSpace (rfProfileID ref) \<noteq> [] then map_sum id Some (validateTransportProfileRef s ref p required)
                else if TrimSpace default \<noteq> [] then
                  map_sum id Some (validateTransportProfileRef s (defaultReference default scope) p required)
                else Inl ProfileNotFound
            | None \<Rightarrow>
                if TrimSpace default \<noteq> [] then
                  map_sum id Some (validateTransportProfileRef s (defaultReference default scope) p required)
                else Inl ProfileNotFound))"

definition importAdaptersForKinds :: "transportStore \<Rightarrow> string list \<Rightarrow> string list" where
  "importAdaptersForKinds s required =
     (if tsEnabled s \<and> wireGuardKind \<in> set required then [''wireguard_conf''] else [])"

definition transportProfilePrerequisiteStatus ::
    "transportStore \<Rightarrow> executionPlan \<Rightarrow> string list \<Rightarrow> profilePrerequisite" where
  "transportProfilePrerequisiteStatus s p required =
     (let st = \<lparr>xqRequiredKinds = required, xqState = ''incompatible'', xqSelectedProfile = None,
            xqDefaultProfile = None, xqMissingKind = hd required, xqImportAdapters = importAdaptersForKinds s required\<rparr>;
          scope = transportProfileDefaultScopeID p;
          default = case_option [] id (tsDefaults s scope);
          kinds = filter (\<lambda>m. tpKind (mpStatus m) \<in> set required) (List.map snd (tsProfiles s))
      in if TrimSpace default \<noteq> [] then
           (case validateTransportProfileRef s (defaultReference default scope) p required of
              Inr ref \<Rightarrow> st\<lparr>xqState := ''compatible'', xqDefaultProfile := Some ref, xqSelectedProfile := Some ref, xqMissingKind := []\<rparr>
            | Inl _ \<Rightarrow> st\<lparr>xqMissingKind := []\<rparr>)
         else if list_ex (\<lambda>m. transportProfileCompatibleWithPlan (tpKind (mpStatus m)) p \<and>
             tpValidation (mpStatus m) = StateValid) kinds
         then st\<lparr>xqState := ''compatible'', xqMissingKind := []\<rparr>
         else if kinds \<noteq> [] then st\<lparr>xqMissingKind := []\<rparr>
         else st)"

definition planReference :: "string \<Rightarrow> string \<Rightarrow> profileReference" where
  "planReference pid kind = \<lparr>rfProfileID = pid, rfKind = kind, rfUseDefault = False, rfDefaultScopeID = []\<rparr>"

definition SelectTransportProfileForStartup ::
    "storeEnv \<Rightarrow> writeOutcome \<Rightarrow> string \<Rightarrow> executionPlan \<Rightarrow> transportStore \<Rightarrow>
      (storeError + profileStatus) \<times> transportStore" where
  "SelectTransportProfileForStartup env io pid0 p s =
     (let pid = TrimSpace pid0 in
      if pid = [] then (Inl ProfileNotFound, s)
      else if validateRuntimeExecutionPlan p \<noteq> None then (Inl ProfileInvalid, s)
      else if \<not> tsEnabled s then (Inl StoreUnavailable, s)
      else
        (case map_of (tsProfiles s) pid of
           None \<Rightarrow> (Inl ProfileNotFound, s)
         | Some m \<Rightarrow>
             (let required = requiredKindsForPlan s p in
              if required = [] then (Inl ProfileIncompatible, s)
              else
                (case validateTransportProfileRef s (planReference pid (tpKind (mpStatus m))) p required of
                   Inl e \<Rightarrow> (Inl e, s)
                 | Inr _ \<Rightarrow>
                     if \<not> transportProfilePlanAdvertised s (tpKind (mpStatus m)) p then (Inl ProfileIncompatible, s)
                     else
                       (let s1 = refreshAll env (s\<lparr>tsDefaults := (tsDefaults s)(transportProfileDefaultScopeID p \<mapsto> pid)\<rparr>)
                        in case persistTransportProfileStore io s1 of
                             (None, s2) \<Rightarrow>
                               (case statusOf pid s2 of None \<Rightarrow> Inl ProfileNotFound | Some st \<Rightarrow> Inr st, s2)
                           | (Some e, s2) \<Rightarrow> (Inl e, refreshAll env (s2\<lparr>tsDefaults := tsDefaults s\<rparr>)))))))"

end
