(* ===== verification/TransportStructured.thy ===== *)
theory TransportStructured
  imports TransportOps Base64
begin

text \<open>
  Structured drafts of transport profiles (\<^verbatim>\<open>pkg/clientcontrol/transport_profile_structured.go\<close>): the
  schema of the editor, the validation of a draft, and the operations on drafts.  A function that
  reports violations returns them in the order of the code, with a map visited in the order of its
  list; random bytes are an argument.
\<close>

section \<open>The schema\<close>

text \<open>What the validation uses of a field descriptor; every field is supported.\<close>

record fieldDescriptor =
  fdID :: string
  fdSecret :: bool
  fdSecretActions :: "string list"

definition structuredFields :: "string \<Rightarrow> fieldDescriptor list" where
  "structuredFields kind =
     (if kind \<noteq> wireGuardKind then []
      else
        [\<lparr>fdID = ''display_name'', fdSecret = False, fdSecretActions = []\<rparr>,
         \<lparr>fdID = ''interface_private_key'', fdSecret = True,
           fdSecretActions = [''preserve_existing'', ''replace_submitted'', ''generate_host'']\<rparr>,
         \<lparr>fdID = ''interface_addresses'', fdSecret = False, fdSecretActions = []\<rparr>,
         \<lparr>fdID = ''dns_servers'', fdSecret = False, fdSecretActions = []\<rparr>,
         \<lparr>fdID = ''mtu'', fdSecret = False, fdSecretActions = []\<rparr>,
         \<lparr>fdID = ''peer_public_key'', fdSecret = False, fdSecretActions = []\<rparr>,
         \<lparr>fdID = ''peer_preshared_key'', fdSecret = True, fdSecretActions = [''preserve_existing'', ''replace_submitted'']\<rparr>,
         \<lparr>fdID = ''allowed_ips'', fdSecret = False, fdSecretActions = []\<rparr>,
         \<lparr>fdID = ''endpoint'', fdSecret = False, fdSecretActions = []\<rparr>,
         \<lparr>fdID = ''persistent_keepalive'', fdSecret = False, fdSecretActions = []\<rparr>])"

definition structuredField :: "string \<Rightarrow> string \<Rightarrow> fieldDescriptor option" where
  "structuredField kind f = find (\<lambda>d. fdID d = f) (structuredFields kind)"

section \<open>Reading a draft\<close>

type_synonym fieldErrors = "(string \<times> string) list"

definition draftKind :: "structuredDraft \<Rightarrow> string" where
  "draftKind d = (if TrimSpace (sdKind d) = [] then wireGuardKind else TrimSpace (sdKind d))"

definition normalizeSecretUpdateAction :: "string \<Rightarrow> string" where
  "normalizeSecretUpdateAction a =
     (if TrimSpace a \<in> {''preserve_existing'', ''replace_submitted'', ''generate_host''} then TrimSpace a else [])"

definition secretActionForField :: "structuredDraft \<Rightarrow> string \<Rightarrow> string \<Rightarrow> string" where
  "secretActionForField d f legacy = (case map_of (sdSecretActions d) f of Some a \<Rightarrow> a | None \<Rightarrow> legacy)"

definition structuredStringField :: "structuredDraft \<Rightarrow> string \<Rightarrow> string \<Rightarrow> fieldErrors \<times> string" where
  "structuredStringField d f legacy =
     (case map_of (sdFields d) f of
        None \<Rightarrow> ([], TrimSpace legacy)
      | Some (DraftText s) \<Rightarrow> ([], TrimSpace s)
      | Some (DraftNumber s) \<Rightarrow> ([], TrimSpace s)
      | Some _ \<Rightarrow> ([(f, ''type'')], []))"

definition structuredStringListField :: "structuredDraft \<Rightarrow> string \<Rightarrow> string list \<Rightarrow> fieldErrors \<times> string list" where
  "structuredStringListField d f legacy =
     (case map_of (sdFields d) f of
        None \<Rightarrow> ([], trimStringList legacy)
      | Some (DraftTexts ss) \<Rightarrow> ([], trimStringList ss)
      | Some (DraftItems is) \<Rightarrow>
          if None \<in> set is then ([(f, ''type'')], []) else ([], trimStringList (List.map the is))
      | Some (DraftText s) \<Rightarrow> ([], trimStringList (splitOn (CHR '','') s))
      | Some _ \<Rightarrow> ([(f, ''type'')], []))"

text \<open>\<open>int(x)\<close> for a float, which truncates towards zero.\<close>

fun floatToInt :: "storeEnv \<Rightarrow> goFloat \<Rightarrow> int" where
  "floatToInt env (FNum m e) =
     (let n = (if 0 \<le> e then m * 2 ^ nat e else sgn m * (\<bar>m\<bar> div 2 ^ nat (- e)))
      in if minInt64 \<le> n \<and> n \<le> maxInt64 then n else teIntOverflow env)"
| "floatToInt env _ = teIntOverflow env"

definition numberOr0 :: "string \<Rightarrow> int option \<Rightarrow> fieldErrors \<times> int" where
  "numberOr0 f n = (case n of Some i \<Rightarrow> ([], i) | None \<Rightarrow> ([(f, ''type'')], 0))"

definition structuredIntField :: "storeEnv \<Rightarrow> structuredDraft \<Rightarrow> string \<Rightarrow> int \<Rightarrow> fieldErrors \<times> int" where
  "structuredIntField env d f legacy =
     (case map_of (sdFields d) f of
        None \<Rightarrow> ([], legacy)
      | Some (DraftInt n) \<Rightarrow> ([], n)
      | Some (DraftFloat x) \<Rightarrow>
          numberOr0 f (if feq x (float64OfInt (floatToInt env x)) then Some (floatToInt env x) else None)
      | Some (DraftNumber s) \<Rightarrow> numberOr0 f (Atoi s)
      | Some (DraftText s) \<Rightarrow> if TrimSpace s = [] then ([], 0) else numberOr0 f (Atoi (TrimSpace s))
      | Some _ \<Rightarrow> ([(f, ''type'')], 0))"

section \<open>Validation\<close>

definition submittedFieldError :: "string \<Rightarrow> string \<Rightarrow> fieldErrors" where
  "submittedFieldError kind f = (if structuredField kind f = None then [(f, ''unknown'')] else [])"

definition submittedActionError :: "string \<Rightarrow> string \<times> string \<Rightarrow> fieldErrors" where
  "submittedActionError kind fa =
     (let (f, a) = fa in
      case structuredField kind f of
        None \<Rightarrow> [(f, ''unknown'')]
      | Some fd \<Rightarrow>
          if \<not> fdSecret fd then [(f, ''unsupported'')]
          else if normalizeSecretUpdateAction a = [] \<or> a \<notin> set (fdSecretActions fd) then [(f, ''invalid_action'')]
          else [])"

definition validateSubmittedStructuredFields :: "structuredDraft \<Rightarrow> fieldErrors" where
  "validateSubmittedStructuredFields d =
     (let kind = draftKind d in
      if structuredFields kind = []
      then List.map (\<lambda>(f, _). (f, ''unsupported'')) (sdFields d) @ List.map (\<lambda>(f, _). (f, ''unsupported'')) (sdSecretActions d)
      else concat (List.map (submittedFieldError kind \<circ> fst) (sdFields d)) @
        concat (List.map (submittedActionError kind) (sdSecretActions d)))"

definition base64KeyOk :: "string \<Rightarrow> bool" where
  "base64KeyOk s = (case stdDecode (TrimSpace s) of None \<Rightarrow> False | Some raw \<Rightarrow> length raw = 32)"

definition malformedKey :: "string \<Rightarrow> string \<Rightarrow> fieldErrors" where
  "malformedKey f s = (if base64KeyOk s then [] else [(f, ''malformed'')])"

definition validateWireGuardEndpoint :: "string \<Rightarrow> bool" where
  "validateWireGuardEndpoint e =
     (case SplitHostPort e of
        Inl _ \<Rightarrow> False
      | Inr (host, port) \<Rightarrow>
          TrimSpace host \<noteq> [] \<and> (case Atoi port of None \<Rightarrow> False | Some n \<Rightarrow> 0 < n \<and> n \<le> 65535))"

definition validatePrefixes :: "string \<Rightarrow> string list \<Rightarrow> fieldErrors" where
  "validatePrefixes f vs = List.map (\<lambda>_. (f, ''malformed'')) (filter (\<lambda>v. \<not> isPrefixText v) vs)"

definition validateAddrs :: "string \<Rightarrow> string list \<Rightarrow> fieldErrors" where
  "validateAddrs f vs = List.map (\<lambda>_. (f, ''malformed'')) (filter (\<lambda>v. ParseAddr v = None) vs)"

section \<open>Keys\<close>

text \<open>A key pair from 32 random bytes, clamped as X25519 wants it, in base64.\<close>

definition clampKey :: "byte list \<Rightarrow> byte list" where
  "clampKey bs =
     (let cs = bs[0 := and (bs ! 0) 248] in cs[31 := or (and (cs ! 31) 127) 64])"

definition generateWireGuardKeyPair :: "storeEnv \<Rightarrow> byte list option \<Rightarrow> (string \<times> string) option" where
  "generateWireGuardKeyPair env random =
     map_option (\<lambda>bs. (stdEncode (clampKey bs), stdEncode (tePublicKey env (clampKey bs)))) random"

record generatedKey =
  gkKind :: string
  gkField :: string
  gkPublicKey :: string
  gkFingerprint :: string

definition generatedKeyOf :: "storeEnv \<Rightarrow> string \<Rightarrow> generatedKey" where
  "generatedKeyOf env pub =
     \<lparr>gkKind = wireGuardKind, gkField = ''interface_private_key'', gkPublicKey = pub,
      gkFingerprint = ''sha256:'' @ teHash env (TrimSpace pub)\<rparr>"

text \<open>The key of an existing profile, empty when there is none.\<close>

definition existingKey :: "(wgProfile \<Rightarrow> string) \<Rightarrow> wgProfile option \<Rightarrow> string" where
  "existingKey k existing = (case existing of None \<Rightarrow> [] | Some w \<Rightarrow> TrimSpace (k w))"

definition normalizeStructuredPrivateKey ::
    "storeEnv \<Rightarrow> byte list option \<Rightarrow> structuredDraft \<Rightarrow> wgProfile option \<Rightarrow> fieldErrors \<times> string \<times> generatedKey list" where
  "normalizeStructuredPrivateKey env random d existing =
     (let f = ''interface_private_key'';
          raw = secretActionForField d f (sdPrivateKeyAction d);
          action = normalizeSecretUpdateAction raw;
          (es, submitted) = structuredStringField d f (sdPrivateKey d);
          old = existingKey wgPrivateKey existing
      in if TrimSpace raw \<noteq> [] \<and> action = [] then (es @ [(f, ''invalid_action'')], [], [])
         else if action = ''generate_host'' then
           (case generateWireGuardKeyPair env random of
              None \<Rightarrow> (es @ [(f, ''generation_failed'')], [], [])
            | Some (priv, pub) \<Rightarrow> (es, priv, [generatedKeyOf env pub]))
         else if action = ''preserve_existing'' then
           (if old = [] then (es @ [(f, ''invalid_action'')], [], []) else (es, old, []))
         else if action = ''replace_submitted'' then
           (if submitted = [] then (es @ [(f, ''required'')], [], []) else (es @ malformedKey f submitted, submitted, []))
         else if submitted \<noteq> [] then (es @ malformedKey f submitted, submitted, [])
         else if old \<noteq> [] then (es, old, [])
         else (es @ [(f, ''required'')], [], []))"

definition normalizeStructuredPresharedKey :: "structuredDraft \<Rightarrow> wgProfile option \<Rightarrow> fieldErrors \<times> string" where
  "normalizeStructuredPresharedKey d existing =
     (let f = ''peer_preshared_key'';
          raw = secretActionForField d f (sdPresharedKeyAction d);
          action = normalizeSecretUpdateAction raw;
          (es, submitted) = structuredStringField d f (sdPresharedKey d);
          old = existingKey wgPresharedKey existing
      in if TrimSpace raw \<noteq> [] \<and> action = [] then (es @ [(f, ''invalid_action'')], [])
         else if action = ''generate_host'' then (es @ [(f, ''invalid_action'')], [])
         else if action = ''preserve_existing'' then
           (if existing = None then (es @ [(f, ''invalid_action'')], []) else (es, old))
         else if submitted \<noteq> [] then (es @ malformedKey f submitted, submitted)
         else if action = ''replace_submitted'' then (es, [])
         else (es, old))"

section \<open>The draft as a profile\<close>

definition requiredList :: "string \<Rightarrow> string list \<Rightarrow> fieldErrors" where
  "requiredList f vs = (if vs = [] then [(f, ''required'')] else validatePrefixes f vs)"

definition requiredText :: "string \<Rightarrow> (string \<Rightarrow> bool) \<Rightarrow> string \<Rightarrow> fieldErrors" where
  "requiredText f ok s = (if s = [] then [(f, ''required'')] else if ok s then [] else [(f, ''malformed'')])"

definition draftRequest :: "structuredDraft \<Rightarrow> string \<Rightarrow> importRequest" where
  "draftRequest d name =
     \<lparr>iqAdapter = [], iqKind = draftKind d, iqDisplayName = name, iqMaterial = [], iqReplaceID = [],
      iqDefaultFor = sdDefaultFor d\<rparr>"

text \<open>\<open>updating\<close> of the code is that there is an existing profile.\<close>

definition normalizeStructuredWireGuardDraft ::
    "storeEnv \<Rightarrow> byte list option \<Rightarrow> structuredDraft \<Rightarrow> wgProfile option \<Rightarrow>
      fieldErrors + importRequest \<times> wgProfile \<times> generatedKey list" where
  "normalizeStructuredWireGuardDraft env random d existing =
     (let e0 = (if draftKind d \<noteq> wireGuardKind then [(''schema_version'', ''unsupported'')] else []) @
            (if TrimSpace (sdSchemaVersion d) \<notin> {[], ''wireguard_native_v1.structured_editor.v1''}
             then [(''schema_version'', ''unsupported'')] else []) @
            (if Option.bind (sdDefaultFor d) validateRuntimeExecutionPlan \<noteq> None
             then [(''schema_version'', ''malformed'')] else []) @
            validateSubmittedStructuredFields d;
          (e1, priv, gen) = normalizeStructuredPrivateKey env random d existing;
          (e2, psk) = normalizeStructuredPresharedKey d existing;
          (e3, addrs) = structuredStringListField d ''interface_addresses'' (sdAddresses d);
          e4 = requiredList ''interface_addresses'' addrs;
          (e5, dns) = structuredStringListField d ''dns_servers'' (sdDNSServers d);
          e6 = validateAddrs ''dns_servers'' dns;
          (e7, mtu0) = structuredIntField env d ''mtu'' (sdMTU d);
          mtu = (if mtu0 = 0 then 1280 else mtu0);
          e8 = (if mtu < 576 \<or> 9000 < mtu then [(''mtu'', ''out_of_range'')] else []);
          (e9, pub) = structuredStringField d ''peer_public_key'' (sdPeerPublicKey d);
          e10 = requiredText ''peer_public_key'' base64KeyOk pub;
          (e11, ips) = structuredStringListField d ''allowed_ips'' (sdAllowedIPs d);
          e12 = requiredList ''allowed_ips'' ips;
          (e13, ep) = structuredStringField d ''endpoint'' (sdEndpoint d);
          e14 = requiredText ''endpoint'' validateWireGuardEndpoint ep;
          (e15, ka) = structuredIntField env d ''persistent_keepalive'' (sdKeepalive d);
          e16 = (if ka < 0 \<or> 65535 < ka then [(''persistent_keepalive'', ''out_of_range'')] else []);
          (e17, name) = structuredStringField d ''display_name'' (sdDisplayName d);
          es = e0 @ e1 @ e2 @ e3 @ e4 @ e5 @ e6 @ e7 @ e8 @ e9 @ e10 @ e11 @ e12 @ e13 @ e14 @ e15 @ e16 @ e17
      in if es \<noteq> [] then Inl es
         else Inr (draftRequest d name,
           \<lparr>wgPrivateKey = priv, wgAddresses = addrs, wgDNSServers = dns, wgMTU = mtu, wgPeerPublicKey = pub,
            wgPresharedKey = psk, wgAllowedIPs = ips, wgEndpoint = ep, wgKeepalive = ka\<rparr>, gen))"

section \<open>Operations\<close>

datatype draftError =
    DraftStore storeError
  | DraftInvalid fieldErrors

definition saveDraft ::
    "storeEnv \<Rightarrow> writeOutcome \<Rightarrow> instant \<Rightarrow> byte list option \<Rightarrow> structuredDraft \<Rightarrow> wgProfile option \<Rightarrow> string \<Rightarrow>
      transportStore \<Rightarrow> (draftError + profileStatus \<times> generatedKey list) \<times> transportStore" where
  "saveDraft env io now random d existing pid s =
     (case normalizeStructuredWireGuardDraft env random d existing of
        Inl es \<Rightarrow> (Inl (DraftInvalid es), s)
      | Inr (rq, w, gen) \<Rightarrow>
          (case storeParsed env io now (rq\<lparr>iqReplaceID := pid\<rparr>) w ''structured_editor'' True s of
             (r, s') \<Rightarrow> (map_sum DraftStore (\<lambda>st. (st, gen)) r, s')))"

definition CreateStructuredTransportProfile ::
    "storeEnv \<Rightarrow> writeOutcome \<Rightarrow> instant \<Rightarrow> byte list option \<Rightarrow> structuredDraft \<Rightarrow> transportStore \<Rightarrow>
      (draftError + profileStatus \<times> generatedKey list) \<times> transportStore" where
  "CreateStructuredTransportProfile env io now random d s =
     (if \<not> tsEnabled s then (Inl (DraftStore StoreUnavailable), s) else saveDraft env io now random d None [] s)"

definition materialOf :: "string \<Rightarrow> transportStore \<Rightarrow> wgProfile option" where
  "materialOf pid s = Option.bind (map_of (tsProfiles s) pid) mpWireGuard"

definition UpdateStructuredTransportProfile ::
    "storeEnv \<Rightarrow> writeOutcome \<Rightarrow> instant \<Rightarrow> byte list option \<Rightarrow> string \<Rightarrow> structuredDraft \<Rightarrow> transportStore \<Rightarrow>
      (draftError + profileStatus \<times> generatedKey list) \<times> transportStore" where
  "UpdateStructuredTransportProfile env io now random pid0 d s =
     (let pid = TrimSpace pid0 in
      if pid = [] then (Inl (DraftStore ProfileNotFound), s)
      else if \<not> tsEnabled s then (Inl (DraftStore StoreUnavailable), s)
      else
        (case materialOf pid s of
           None \<Rightarrow> (Inl (DraftStore ProfileNotFound), s)
         | Some w \<Rightarrow> saveDraft env io now random d (Some w) pid s))"

text \<open>The validation of a draft answers its violations, or the fingerprint it will have.\<close>

definition ValidateStructuredTransportProfileDraft ::
    "storeEnv \<Rightarrow> byte list option \<Rightarrow> string \<Rightarrow> structuredDraft \<Rightarrow> transportStore \<Rightarrow> draftError + string" where
  "ValidateStructuredTransportProfileDraft env random pid0 d s =
     (let pid = TrimSpace pid0 in
      if \<not> tsEnabled s then Inl (DraftStore StoreUnavailable)
      else if pid \<noteq> [] \<and> materialOf pid s = None then Inl (DraftStore ProfileNotFound)
      else
        (case normalizeStructuredWireGuardDraft env random d (if pid = [] then None else materialOf pid s) of
           Inl es \<Rightarrow> Inl (DraftInvalid es)
         | Inr (_, w, _) \<Rightarrow> Inr (wireGuardProfileFingerprint env w)))"

definition GenerateTransportProfileKey ::
    "storeEnv \<Rightarrow> byte list option \<Rightarrow> string \<Rightarrow> string \<Rightarrow> transportStore \<Rightarrow> storeError + generatedKey" where
  "GenerateTransportProfileKey env random kind0 field s =
     (let kind = (if TrimSpace kind0 = [] then wireGuardKind else TrimSpace kind0) in
      if \<not> tsEnabled s then Inl StoreUnavailable
      else if kind \<noteq> wireGuardKind \<or> field \<notin> {[], ''interface_private_key''} then Inl ProfileInvalid
      else
        (case generateWireGuardKeyPair env random of
           None \<Rightarrow> Inl ProfileInvalid
         | Some (_, pub) \<Rightarrow> Inr (generatedKeyOf env pub)))"

end
