(* ===== verification/TransportPortable.thy ===== *)
theory TransportPortable
  imports TransportStructured
begin

text \<open>
  Portable transfer of transport profiles
  (\<^verbatim>\<open>pkg/clientcontrol/transport_profile_portable_transfer.go\<close>): export under a passphrase, and the
  import in two calls, a preview and a confirmation.  The key derivation, the authenticated cipher and
  the JSON of envelope and payload are parameters, as is \<open>strings.EqualFold\<close> on display names.
\<close>

section \<open>Data\<close>

record portableKDF =
  pkName :: string
  pkMemoryKiB :: nat
  pkIterations :: nat
  pkParallelism :: nat
  pkSalt :: string

record portableEnvelope =
  pnType :: string
  pnVersion :: int
  pnKind :: string
  pnSuite :: string
  pnKDF :: portableKDF
  pnNonce :: string
  pnCiphertext :: string

record portablePayload =
  plKind :: string
  plDisplayName :: string
  plWireGuard :: "wgProfile option"

text \<open>
  \<open>ptKey\<close> is \<open>argon2.IDKey\<close> on a passphrase, salt, iterations, memory and parallelism; \<open>ptSeal\<close> and
  \<open>ptOpen\<close> are the cipher on key, nonce, text and associated data.
\<close>

record portableEnv =
  ptKey :: "string \<Rightarrow> byte list \<Rightarrow> nat \<Rightarrow> nat \<Rightarrow> nat \<Rightarrow> byte list"
  ptSeal :: "byte list \<Rightarrow> byte list \<Rightarrow> string \<Rightarrow> string \<Rightarrow> byte list"
  ptOpen :: "byte list \<Rightarrow> byte list \<Rightarrow> byte list \<Rightarrow> string \<Rightarrow> string option"
  ptEncodePayload :: "portablePayload \<Rightarrow> string"
  ptDecodePayload :: "string \<Rightarrow> portablePayload option"
  ptEncodeEnvelope :: "portableEnvelope \<Rightarrow> string"
  ptDecodeEnvelope :: "string \<Rightarrow> portableEnvelope option"
  ptAAD :: "string \<Rightarrow> int \<Rightarrow> string \<Rightarrow> string \<Rightarrow> string"
  ptEqualFold :: "string \<Rightarrow> string \<Rightarrow> bool"

datatype blockedReason =
    WrongPassphrase
  | UnsupportedEnvelope
  | UnsupportedProfileKind
  | IncompatibleHost
  | MalformedEnvelope

datatype portableError =
    PortableStore storeError
  | PortableBlocked blockedReason

record existingMatch =
  emProfileID :: string
  emKind :: string
  emDisplayName :: string
  emDefaultFor :: "defaultBinding list"

datatype previewOutcome =
    PreviewBlocked blockedReason
  | PreviewPresent "existingMatch list" string bool
  | PreviewImportable bool

record importCandidate =
  cnOutcome :: previewOutcome
  cnDisplayName :: string
  cnResolvedName :: string
  cnProfileKind :: string
  cnPlans :: "executionPlan list"
  cnWireGuard :: wgProfile

section \<open>Envelopes\<close>

definition envelopeAAD :: "portableEnv \<Rightarrow> portableEnvelope \<Rightarrow> string" where
  "envelopeAAD pe e = ptAAD pe (pnType e) (pnVersion e) (pnKind e) (pnSuite e)"

definition envelopeKey :: "portableEnv \<Rightarrow> string \<Rightarrow> byte list \<Rightarrow> portableKDF \<Rightarrow> byte list" where
  "envelopeKey pe passphrase salt k = ptKey pe passphrase salt (pkIterations k) (pkMemoryKiB k) (pkParallelism k)"

text \<open>The envelope of a payload, for a salt and a nonce; its text is the JSON of it.\<close>

definition sealEnvelope :: "portableEnv \<Rightarrow> byte list \<Rightarrow> byte list \<Rightarrow> portablePayload \<Rightarrow> string \<Rightarrow> portableEnvelope" where
  "sealEnvelope pe salt nonce pl passphrase =
     (let e = \<lparr>pnType = ''portable_transport_profile'', pnVersion = 1, pnKind = plKind pl,
            pnSuite = ''argon2id_xchacha20poly1305_v1'',
            pnKDF = \<lparr>pkName = ''argon2id'', pkMemoryKiB = 65536, pkIterations = 3, pkParallelism = 1, pkSalt = rawEncode salt\<rparr>,
            pnNonce = rawEncode nonce, pnCiphertext = []\<rparr>
      in e\<lparr>pnCiphertext := rawEncode (ptSeal pe (envelopeKey pe passphrase salt (pnKDF e)) nonce
            (ptEncodePayload pe pl) (envelopeAAD pe e))\<rparr>)"

definition decodeEnvelope :: "portableEnv \<Rightarrow> string \<Rightarrow> blockedReason + portableEnvelope" where
  "decodeEnvelope pe raw =
     (case ptDecodeEnvelope pe raw of
        None \<Rightarrow> Inl MalformedEnvelope
      | Some e \<Rightarrow>
          if TrimSpace (pnType e) \<noteq> ''portable_transport_profile'' \<or> pnVersion e \<noteq> 1 then Inl UnsupportedEnvelope
          else if TrimSpace (pnKind e) = [] then Inl MalformedEnvelope
          else if TrimSpace (pnSuite e) \<noteq> ''argon2id_xchacha20poly1305_v1'' \<or> TrimSpace (pkName (pnKDF e)) \<noteq> ''argon2id'' \<or>
            pkMemoryKiB (pnKDF e) < 65536 \<or> pkIterations (pnKDF e) < 3 \<or> pkParallelism (pnKDF e) < 1
          then Inl UnsupportedEnvelope
          else if TrimSpace (pkSalt (pnKDF e)) = [] \<or> TrimSpace (pnNonce e) = [] \<or> TrimSpace (pnCiphertext e) = []
          then Inl MalformedEnvelope
          else Inr e)"

definition decryptEnvelope :: "portableEnv \<Rightarrow> portableEnvelope \<Rightarrow> string \<Rightarrow> blockedReason + portablePayload" where
  "decryptEnvelope pe e passphrase =
     (case (rawDecode (pkSalt (pnKDF e)), rawDecode (pnNonce e), rawDecode (pnCiphertext e)) of
        (Some salt, Some nonce, Some ct) \<Rightarrow>
          if length nonce \<noteq> 24 then Inl MalformedEnvelope
          else
            (case ptOpen pe (envelopeKey pe passphrase salt (pnKDF e)) nonce ct (envelopeAAD pe e) of
               None \<Rightarrow> Inl WrongPassphrase
             | Some plain \<Rightarrow>
                 (case ptDecodePayload pe plain of
                    None \<Rightarrow> Inl MalformedEnvelope
                  | Some pl \<Rightarrow> if plKind pl \<noteq> pnKind e then Inl MalformedEnvelope else Inr pl))
      | _ \<Rightarrow> Inl MalformedEnvelope)"

definition payloadWireGuard :: "portablePayload \<Rightarrow> blockedReason + wgProfile" where
  "payloadWireGuard pl =
     (if plKind pl \<noteq> wireGuardKind then Inl UnsupportedProfileKind
      else
        (let w = map_option wireGuardProfileFromDisk (plWireGuard pl) in
         if wireGuardProfileComplete w then Inr (the w) else Inl MalformedEnvelope))"

section \<open>Export\<close>

text \<open>The salt and the nonce are random bytes.\<close>

definition ExportTransportProfilePortable ::
    "portableEnv \<Rightarrow> byte list \<Rightarrow> byte list \<Rightarrow> string \<Rightarrow> string \<Rightarrow> transportStore \<Rightarrow> storeError + string" where
  "ExportTransportProfilePortable pe salt nonce pid0 passphrase0 s =
     (let pid = TrimSpace pid0; passphrase = TrimSpace passphrase0 in
      if pid = [] then Inl ProfileNotFound
      else if passphrase = [] then Inl ProfileInvalid
      else if \<not> tsEnabled s then Inl StoreUnavailable
      else
        (case map_of (tsProfiles s) pid of
           None \<Rightarrow> Inl ProfileNotFound
         | Some m \<Rightarrow>
             if \<not> portableExportAvailable (tpKind (mpStatus m)) (tpValidation (mpStatus m)) (mpWireGuard m)
             then Inl ProfileInvalid
             else Inr (ptEncodeEnvelope pe (sealEnvelope pe salt nonce
               \<lparr>plKind = tpKind (mpStatus m), plDisplayName = TrimSpace (tpDisplayName (mpStatus m)),
                plWireGuard = mpWireGuard m\<rparr> passphrase))))"

section \<open>Import\<close>

definition intText :: "int \<Rightarrow> string" where
  "intText n = (if n < 0 then CHR ''-'' # itoa (nat (- n)) else itoa (nat n))"

definition duplicateFingerprint :: "storeEnv \<Rightarrow> string \<Rightarrow> wgProfile \<Rightarrow> string" where
  "duplicateFingerprint env kind w =
     ''sha256:'' @ teHash env (fingerprintPart kind @
       (if kind \<noteq> wireGuardKind then []
        else concat (List.map fingerprintPart
          (sort (wgAddresses w) @ sort (wgDNSServers w) @ [intText (wgMTU w), wgPrivateKey w, wgPeerPublicKey w, wgPresharedKey w] @
           sort (wgAllowedIPs w) @ [wgEndpoint w, intText (wgKeepalive w)]))))"

definition duplicateMatches :: "storeEnv \<Rightarrow> string \<Rightarrow> string \<Rightarrow> transportStore \<Rightarrow> existingMatch list" where
  "duplicateMatches env kind fp s =
     sort_key emProfileID
       (List.map (\<lambda>m. \<lparr>emProfileID = tpID (mpStatus m), emKind = tpKind (mpStatus m),
            emDisplayName = tpDisplayName (mpStatus m), emDefaultFor = tpDefaultFor (mpStatus m)\<rparr>)
         (filter (\<lambda>m. tpKind (mpStatus m) = kind \<and>
              (case mpWireGuard m of None \<Rightarrow> False | Some w \<Rightarrow> duplicateFingerprint env kind w = fp))
           (List.map snd (tsProfiles s))))"

definition displayNameTaken :: "portableEnv \<Rightarrow> transportStore \<Rightarrow> string \<Rightarrow> bool" where
  "displayNameTaken pe s name \<longleftrightarrow>
     list_ex (\<lambda>m. ptEqualFold pe (TrimSpace (tpDisplayName (mpStatus m))) (TrimSpace name)) (List.map snd (tsProfiles s))"

definition numberedName :: "string \<Rightarrow> nat \<Rightarrow> string" where
  "numberedName name n = name @ '' ('' @ itoa n @ '')''"

definition resolveDisplayName :: "portableEnv \<Rightarrow> transportStore \<Rightarrow> string \<Rightarrow> string \<times> bool" where
  "resolveDisplayName pe s name0 =
     (let name = (if TrimSpace name0 = [] then defaultTransportProfileDisplayName wireGuardKind else TrimSpace name0) in
      if \<not> displayNameTaken pe s name then (name, False)
      else
        (case find (\<lambda>n. \<not> displayNameTaken pe s (numberedName name n)) [2..<10000] of
           Some n \<Rightarrow> (numberedName name n, True)
         | None \<Rightarrow> (name, True)))"

definition candidateOf :: "storeEnv \<Rightarrow> portableEnv \<Rightarrow> transportStore \<Rightarrow> portablePayload \<Rightarrow> wgProfile \<Rightarrow> portableError + importCandidate" where
  "candidateOf env pe s pl w =
     (let plans = advertisedPlansForKind (plKind pl) (tsTunnels s);
          name = (if TrimSpace (plDisplayName pl) = [] then defaultTransportProfileDisplayName (plKind pl)
                  else TrimSpace (plDisplayName pl));
          fp = duplicateFingerprint env (plKind pl) w;
          found = duplicateMatches env (plKind pl) fp s;
          (resolved, conflict) = resolveDisplayName pe s name
      in if plans = [] then Inl (PortableBlocked IncompatibleHost)
         else if found \<noteq> [] then
           Inr \<lparr>cnOutcome = PreviewPresent found fp (list_all (\<lambda>m. emDefaultFor m = []) found), cnDisplayName = name,
             cnResolvedName = name, cnProfileKind = plKind pl, cnPlans = plans, cnWireGuard = w\<rparr>
         else
           Inr \<lparr>cnOutcome = PreviewImportable conflict, cnDisplayName = name, cnResolvedName = resolved,
             cnProfileKind = plKind pl, cnPlans = plans, cnWireGuard = w\<rparr>)"

text \<open>The store is read twice, before the decryption and after it; nothing can disable it in between.\<close>

definition resolveImportCandidate ::
    "storeEnv \<Rightarrow> portableEnv \<Rightarrow> string \<Rightarrow> string \<Rightarrow> transportStore \<Rightarrow> portableError + importCandidate" where
  "resolveImportCandidate env pe envelope0 passphrase0 s =
     (let text = TrimSpace envelope0; passphrase = TrimSpace passphrase0 in
      if text = [] then Inl (PortableBlocked MalformedEnvelope)
      else if passphrase = [] then Inl (PortableBlocked WrongPassphrase)
      else if \<not> tsEnabled s then Inl (PortableStore StoreUnavailable)
      else
        (case decodeEnvelope pe text of
           Inl b \<Rightarrow> Inl (PortableBlocked b)
         | Inr e \<Rightarrow>
             if pnKind e \<noteq> wireGuardKind then Inl (PortableBlocked UnsupportedProfileKind)
             else
               (case decryptEnvelope pe e passphrase of
                  Inl b \<Rightarrow> Inl (PortableBlocked b)
                | Inr pl \<Rightarrow>
                    (case payloadWireGuard pl of
                       Inl b \<Rightarrow> Inl (PortableBlocked b)
                     | Inr w \<Rightarrow> candidateOf env pe s pl w))))"

definition PreviewTransportProfilePortableImport ::
    "storeEnv \<Rightarrow> portableEnv \<Rightarrow> string \<Rightarrow> string \<Rightarrow> transportStore \<Rightarrow> storeError + previewOutcome" where
  "PreviewTransportProfilePortableImport env pe envelope passphrase s =
     (case resolveImportCandidate env pe envelope passphrase s of
        Inl (PortableStore e) \<Rightarrow> Inl e
      | Inl (PortableBlocked b) \<Rightarrow> Inr (PreviewBlocked b)
      | Inr c \<Rightarrow> Inr (cnOutcome c))"

definition candidateRequest :: "importCandidate \<Rightarrow> importRequest" where
  "candidateRequest c =
     \<lparr>iqAdapter = [], iqKind = cnProfileKind c, iqDisplayName = cnResolvedName c, iqMaterial = [],
      iqReplaceID = [], iqDefaultFor = None\<rparr>"

text \<open>Confirming reads the store again and imports; another call may come in between, so two steps.\<close>

definition confirmCandidate ::
    "storeEnv \<Rightarrow> writeOutcome \<Rightarrow> instant \<Rightarrow> importCandidate \<Rightarrow> transportStore \<Rightarrow> (storeError + profileStatus) \<times> transportStore" where
  "confirmCandidate env io now c s =
     (if \<not> tsEnabled s then (Inl StoreUnavailable, s)
      else storeParsed env io now (candidateRequest c) (cnWireGuard c) ''portable_transfer'' False s)"

definition ConfirmTransportProfilePortableImport ::
    "storeEnv \<Rightarrow> portableEnv \<Rightarrow> writeOutcome \<Rightarrow> instant \<Rightarrow> string \<Rightarrow> string \<Rightarrow> transportStore \<Rightarrow> transportStore \<Rightarrow>
      (storeError + profileStatus) \<times> transportStore" where
  "ConfirmTransportProfilePortableImport env pe io now envelope passphrase earlier s =
     (case resolveImportCandidate env pe envelope passphrase earlier of
        Inl (PortableStore e) \<Rightarrow> (Inl e, s)
      | Inl (PortableBlocked b) \<Rightarrow> (Inl ProfileInvalid, s)
      | Inr c \<Rightarrow>
          (case cnOutcome c of
             PreviewImportable _ \<Rightarrow> confirmCandidate env io now c s
           | _ \<Rightarrow> (Inl ProfileInvalid, s)))"

end
