(* ===== verification/TransportStoreInv.thy ===== *)
theory TransportStoreInv
  imports TransportPortable
begin

text \<open>
  Runs of the store of transport profiles: any sequence of calls and restarts, each write with any
  outcome.  The invariant of the store, and what a run keeps.
\<close>

section \<open>Association lists\<close>

lemma alist_eqI:
  "List.map fst xs = List.map fst ys \<Longrightarrow> distinct (List.map fst xs) \<Longrightarrow> map_of xs = map_of ys \<Longrightarrow> xs = ys"
proof (induction xs arbitrary: ys)
  case Nil
  then show ?case by simp
next
  case (Cons x xs)
  then obtain y ys' where ys: "ys = y # ys'" "fst x = fst y" "List.map fst xs = List.map fst ys'" by (cases ys) auto
  have "snd x = snd y" using Cons.prems(3) ys(1,2) by (cases x; cases y) (auto dest: fun_cong [of _ _ "fst x"])
  moreover have "map_of xs = map_of ys'"
  proof
    fix k
    show "map_of xs k = map_of ys' k"
    proof (cases "k = fst x")
      case True
      then have "k \<notin> fst ` set xs" "k \<notin> fst ` set ys'" using Cons.prems(2) ys(2,3) by (auto simp flip: set_map)
      then show ?thesis by (metis map_of_eq_None_iff)
    next
      case False
      then show ?thesis using Cons.prems(3) ys(1,2) by (cases x; cases y) (auto dest: fun_cong [of _ _ k])
    qed
  qed
  ultimately show ?case using Cons.IH [OF ys(3)] Cons.prems(2) ys by (simp add: prod_eq_iff)
qed

lemma map_of_mapped: "map_of (List.map (\<lambda>(k, m). (k, f m)) xs) k = map_option f (map_of xs k)"
  by (induction xs) auto

lemma keys_mapped [simp]: "List.map fst (List.map (\<lambda>(k, m). (k, f m)) xs) = List.map fst xs"
  by (induction xs) auto

section \<open>Refreshing\<close>

text \<open>A refresh looks at the identity of a status only, and forgets what earlier refreshes wrote.\<close>

lemma refresh_keeps [simp]:
  "tpID (refreshStatus env cs d w st) = tpID st" "tpKind (refreshStatus env cs d w st) = tpKind st"
  "tpVersion (refreshStatus env cs d w st) = tpVersion st" "tpDisplayName (refreshStatus env cs d w st) = tpDisplayName st"
  "tpImportedAt (refreshStatus env cs d w st) = tpImportedAt st" "tpUpdatedAt (refreshStatus env cs d w st) = tpUpdatedAt st"
  by (simp_all add: refreshStatus_def Let_def prod.case_eq_if)

lemma refresh_absorb: "refreshStatus env cs d' w (refreshStatus env cs d w st) = refreshStatus env cs d' w st"
  by (simp add: refreshStatus_def Let_def prod.case_eq_if defaultBindingsFor_def)

lemma refreshManaged_absorb: "refreshManaged env cs d' (refreshManaged env cs d m) = refreshManaged env cs d' m"
  by (simp add: refreshManaged_def refresh_absorb)

lemma refreshManaged_keeps [simp]:
  "mpWireGuard (refreshManaged env cs d m) = mpWireGuard m"
  "tpID (mpStatus (refreshManaged env cs d m)) = tpID (mpStatus m)"
  "tpKind (mpStatus (refreshManaged env cs d m)) = tpKind (mpStatus m)"
  by (simp_all add: refreshManaged_def)

section \<open>The invariant\<close>

definition normalMaterial :: "wgProfile option \<Rightarrow> bool" where
  "normalMaterial w \<longleftrightarrow> map_option wireGuardProfileFromDisk w = w"

definition profileOk ::
    "storeEnv \<Rightarrow> tunnelCapability list \<Rightarrow> (string \<rightharpoonup> string) \<Rightarrow> string \<Rightarrow> managedProfile \<Rightarrow> bool" where
  "profileOk env cs defs k m \<longleftrightarrow>
     tpID (mpStatus m) = k \<and> trimmed k \<and> k \<noteq> [] \<and> tpKind (mpStatus m) = wireGuardKind \<and>
     refreshManaged env cs defs m = m \<and> normalMaterial (mpWireGuard m)"

definition storeOk :: "storeEnv \<Rightarrow> transportStore \<Rightarrow> bool" where
  "storeOk env s \<longleftrightarrow>
     distinct (List.map fst (tsProfiles s)) \<and>
     (\<forall>k m. map_of (tsProfiles s) k = Some m \<longrightarrow> profileOk env (tsTunnels s) (tsDefaults s) k m) \<and>
     (\<forall>scope pid. tsDefaults s scope = Some pid \<longrightarrow> map_of (tsProfiles s) pid \<noteq> None)"

text \<open>A profile before it is refreshed.\<close>

definition rawOk :: "string \<Rightarrow> managedProfile \<Rightarrow> bool" where
  "rawOk k m \<longleftrightarrow>
     tpID (mpStatus m) = k \<and> trimmed k \<and> k \<noteq> [] \<and> tpKind (mpStatus m) = wireGuardKind \<and> normalMaterial (mpWireGuard m)"

lemma profileOk_raw: "profileOk env cs d k m \<longleftrightarrow> rawOk k m \<and> refreshManaged env cs d m = m"
  by (auto simp: profileOk_def rawOk_def)

lemma storeOk_raw:
  assumes "storeOk env s" "map_of (tsProfiles s) k = Some m"
  shows "rawOk k m" "refreshManaged env (tsTunnels s) (tsDefaults s) m = m"
  using assms unfolding storeOk_def profileOk_raw by blast+

lemma refreshAll_simps [simp]:
  "tsEnabled (refreshAll env s) = tsEnabled s" "tsPath (refreshAll env s) = tsPath s"
  "tsTunnels (refreshAll env s) = tsTunnels s" "tsDefaults (refreshAll env s) = tsDefaults s"
  "tsNextID (refreshAll env s) = tsNextID s" "tsDisk (refreshAll env s) = tsDisk s"
  "List.map fst (tsProfiles (refreshAll env s)) = List.map fst (tsProfiles s)"
  "map_of (tsProfiles (refreshAll env s)) k =
     map_option (refreshManaged env (tsTunnels s) (tsDefaults s)) (map_of (tsProfiles s) k)"
  by (simp_all add: refreshAll_def map_of_mapped split: prod.splits)

lemma refreshAll_ok:
  assumes "distinct (List.map fst (tsProfiles s))" "\<And>k m. map_of (tsProfiles s) k = Some m \<Longrightarrow> rawOk k m"
    and "\<And>scope pid. tsDefaults s scope = Some pid \<Longrightarrow> map_of (tsProfiles s) pid \<noteq> None"
  shows "storeOk env (refreshAll env s)"
  unfolding storeOk_def
proof (intro conjI allI impI)
  show "distinct (List.map fst (tsProfiles (refreshAll env s)))" using assms(1) by simp
next
  fix k m
  assume "map_of (tsProfiles (refreshAll env s)) k = Some m"
  then obtain m0 where m: "map_of (tsProfiles s) k = Some m0" "m = refreshManaged env (tsTunnels s) (tsDefaults s) m0"
    by auto
  then show "profileOk env (tsTunnels (refreshAll env s)) (tsDefaults (refreshAll env s)) k m"
    using assms(2) [OF m(1)] by (simp add: profileOk_raw rawOk_def refreshManaged_absorb)
next
  fix scope pid
  assume "tsDefaults (refreshAll env s) scope = Some pid"
  then show "map_of (tsProfiles (refreshAll env s)) pid \<noteq> None" using assms(3) by simp
qed

text \<open>Refreshing a store that is in order changes nothing.\<close>

lemma refreshAll_same: "storeOk env s \<Longrightarrow> refreshAll env s = s"
proof -
  assume ok: "storeOk env s"
  have "tsProfiles (refreshAll env s) = tsProfiles s"
  proof (rule alist_eqI)
    show "map_of (tsProfiles (refreshAll env s)) = map_of (tsProfiles s)"
    proof
      fix k
      show "map_of (tsProfiles (refreshAll env s)) k = map_of (tsProfiles s) k"
        using storeOk_raw(2) [OF ok, of k] by (cases "map_of (tsProfiles s) k") simp_all
    qed
  qed (use ok in \<open>simp_all add: storeOk_def\<close>)
  then show ?thesis by (simp add: refreshAll_def)
qed

section \<open>Storing and undoing\<close>

text \<open>The same store, up to the order of the profiles, the file and the identifiers drawn.\<close>

definition sameStore :: "transportStore \<Rightarrow> transportStore \<Rightarrow> bool" where
  "sameStore s s' \<longleftrightarrow>
     tsEnabled s = tsEnabled s' \<and> tsPath s = tsPath s' \<and> tsTunnels s = tsTunnels s' \<and>
     tsDefaults s = tsDefaults s' \<and> map_of (tsProfiles s) = map_of (tsProfiles s')"

lemma sameStore_refl [simp]: "sameStore s s"
  by (simp add: sameStore_def)

lemma sameStore_trans: "sameStore s t \<Longrightarrow> sameStore t u \<Longrightarrow> sameStore s u" "sameStore s t \<Longrightarrow> sameStore t s"
  by (simp_all add: sameStore_def)

lemma storeOk_ignores [simp]:
  "storeOk env (s\<lparr>tsNextID := n\<rparr>) = storeOk env s" "storeOk env (s\<lparr>tsDisk := d\<rparr>) = storeOk env s"
  by (simp_all add: storeOk_def)

lemma sameStore_ignores [simp]:
  "sameStore t (s\<lparr>tsNextID := n\<rparr>) = sameStore t s" "sameStore t (s\<lparr>tsDisk := d\<rparr>) = sameStore t s"
  by (simp_all add: sameStore_def)

lemma restore_same:
  assumes ok: "storeOk env s" and d: "distinct (List.map fst (tsProfiles s2))"
    and rest: "\<And>k. k \<noteq> pid \<Longrightarrow> map_of (tsProfiles s2) k = map_option (refreshManaged env (tsTunnels s) dm) (map_of (tsProfiles s) k)"
    and conf: "tsEnabled s2 = tsEnabled s" "tsPath s2 = tsPath s" "tsTunnels s2 = tsTunnels s"
  defines "r \<equiv> restoreStore env pid (map_of (tsProfiles s) pid) (tsDefaults s) s2"
  shows "sameStore s r" "storeOk env r"
proof -
  define p where "p = (case map_of (tsProfiles s) pid of None \<Rightarrow> AList.delete pid (tsProfiles s2)
      | Some m \<Rightarrow> AList.update pid m (tsProfiles s2))"
  have p: "map_of p k = (if k = pid then map_of (tsProfiles s) pid else map_of (tsProfiles s2) k)" for k
    by (simp add: p_def AList.update_conv' AList.delete_conv' split: option.split)
  have r: "r = refreshAll env (s2\<lparr>tsProfiles := p, tsDefaults := tsDefaults s\<rparr>)"
    by (simp add: r_def restoreStore_def p_def)
  have same: "map_of (tsProfiles r) k = map_of (tsProfiles s) k" for k
  proof (cases "map_of (tsProfiles s) k")
    case None
    then show ?thesis using rest [of k] by (cases "k = pid") (simp_all add: r p)
  next
    case (Some m)
    then show ?thesis
      using rest [of k] storeOk_raw(2) [OF ok Some] by (cases "k = pid") (simp_all add: r p conf refreshManaged_absorb)
  qed
  then show "sameStore s r" by (simp add: sameStore_def r conf fun_eq_iff)
  show "storeOk env r" unfolding r
  proof (rule refreshAll_ok)
    show "distinct (List.map fst (tsProfiles (s2\<lparr>tsProfiles := p, tsDefaults := tsDefaults s\<rparr>)))"
      using d by (simp add: p_def AList.distinct_update AList.distinct_delete split: option.split)
  next
    fix k m
    assume "map_of (tsProfiles (s2\<lparr>tsProfiles := p, tsDefaults := tsDefaults s\<rparr>)) k = Some m"
    then have m: "map_of p k = Some m" by simp
    show "rawOk k m"
    proof (cases "k = pid")
      case True
      then show ?thesis using m p storeOk_raw(1) [OF ok] by simp
    next
      case False
      then obtain m0 where "map_of (tsProfiles s) k = Some m0" "m = refreshManaged env (tsTunnels s) dm m0"
        using m p rest [OF False] by auto
      then show ?thesis using storeOk_raw(1) [OF ok] by (simp add: rawOk_def)
    qed
  next
    fix scope q
    assume "tsDefaults (s2\<lparr>tsProfiles := p, tsDefaults := tsDefaults s\<rparr>) scope = Some q"
    then have "map_of (tsProfiles s) q \<noteq> None" using ok by (auto simp: storeOk_def)
    then show "map_of (tsProfiles (s2\<lparr>tsProfiles := p, tsDefaults := tsDefaults s\<rparr>)) q \<noteq> None"
      using p [of q] rest [of q] by auto
  qed
qed

lemma persist_simps [simp]:
  "storeOk env (snd (persistTransportProfileStore io s)) = storeOk env s"
  "sameStore t (snd (persistTransportProfileStore io s)) = sameStore t s"
  by (auto simp: persistTransportProfileStore_def split: writeOutcome.split)

lemma persist_fields:
  "tsProfiles (snd (persistTransportProfileStore io s)) = tsProfiles s" "tsEnabled (snd (persistTransportProfileStore io s)) = tsEnabled s"
  "tsPath (snd (persistTransportProfileStore io s)) = tsPath s" "tsTunnels (snd (persistTransportProfileStore io s)) = tsTunnels s"
  "tsDefaults (snd (persistTransportProfileStore io s)) = tsDefaults s"
  by (auto simp: persistTransportProfileStore_def split: writeOutcome.split)

text \<open>The identifiers drawn are not blank.\<close>

definition goodIDs :: "storeEnv \<Rightarrow> bool" where
  "goodIDs env \<longleftrightarrow> (\<forall>n. trimmed (teNewID env n) \<and> teNewID env n \<noteq> [])"

lemma chosenID_ok:
  assumes "goodIDs env" "storeOk env s0" "chosenID env s0 rq = (pid, s)"
  shows "trimmed pid" "pid \<noteq> []" "storeOk env s" "sameStore s0 s" "tsDisk s = tsDisk s0"
  using assms by (auto simp: chosenID_def goodIDs_def sameStore_def split: if_splits)

lemma bind_defaults: "foldl (\<lambda>m b. m(f b \<mapsto> pid)) d bs scope = Some q \<Longrightarrow> q = pid \<or> d scope = Some q"
proof (induction bs arbitrary: d)
  case (Cons b bs)
  from Cons.IH [of "d(f b \<mapsto> pid)"] Cons.prems show ?case by (auto split: if_splits)
qed simp

lemma importedDefaults_old: "importedDefaults s rq st a scope = Some q \<Longrightarrow> q = tpID st \<or> tsDefaults s scope = Some q"
  by (auto simp: importedDefaults_def dest: bind_defaults split: if_splits)

text \<open>Installing a profile under an identifier, and committing that.\<close>

lemma install_ok:
  assumes ok: "storeOk env s" and m: "rawOk pid m"
    and d: "\<And>scope q. d scope = Some q \<Longrightarrow> q = pid \<or> tsDefaults s scope = Some q"
  shows "storeOk env (refreshAll env (s\<lparr>tsProfiles := AList.update pid m (tsProfiles s), tsDefaults := d\<rparr>))"
proof (rule refreshAll_ok)
  let ?s = "s\<lparr>tsProfiles := AList.update pid m (tsProfiles s), tsDefaults := d\<rparr>"
  show "distinct (List.map fst (tsProfiles ?s))" using ok by (simp add: storeOk_def AList.distinct_update)
  show "rawOk k m'" if "map_of (tsProfiles ?s) k = Some m'" for k m'
    using that m storeOk_raw(1) [OF ok] by (simp add: AList.update_conv' split: if_splits)
  show "map_of (tsProfiles ?s) q \<noteq> None" if "tsDefaults ?s scope = Some q" for scope q
    using that d [of scope q] ok by (auto simp: AList.update_conv' storeOk_def)
qed

lemma commit_ok:
  assumes ok: "storeOk env s" and m: "rawOk pid m"
    and d: "\<And>scope q. d scope = Some q \<Longrightarrow> q = pid \<or> tsDefaults s scope = Some q"
  defines "s1 \<equiv> refreshAll env (s\<lparr>tsProfiles := AList.update pid m (tsProfiles s), tsDefaults := d\<rparr>)"
  shows "storeOk env (snd (commitProfile env io pid s s1))"
    "fst (commitProfile env io pid s s1) = Inl e \<Longrightarrow> sameStore s (snd (commitProfile env io pid s s1))"
    "fst (commitProfile env io pid s s1) = Inr st \<Longrightarrow>
       persistTransportProfileStore io s1 = (None, snd (commitProfile env io pid s s1)) \<and> statusOf pid s1 = Some st"
proof -
  have ok1: "storeOk env s1" unfolding s1_def by (rule install_ok [OF ok m]) (rule d)
  let ?s2 = "snd (persistTransportProfileStore io s1)"
  note f = persist_fields [of io s1]
  have st: "\<exists>st. statusOf pid s1 = Some st" by (simp add: statusOf_def s1_def AList.update_conv')
  have dist: "distinct (List.map fst (tsProfiles ?s2))" using ok1 by (simp add: persist_fields storeOk_def)
  have rest: "map_of (tsProfiles ?s2) k = map_option (refreshManaged env (tsTunnels s) d) (map_of (tsProfiles s) k)"
    if "k \<noteq> pid" for k using that by (simp add: persist_fields s1_def AList.update_conv')
  have conf: "tsEnabled ?s2 = tsEnabled s" "tsPath ?s2 = tsPath s" "tsTunnels ?s2 = tsTunnels s"
    by (simp_all add: persist_fields s1_def)
  note u = restore_same [OF ok dist rest conf]
  show "storeOk env (snd (commitProfile env io pid s s1))"
    using ok1 u by (simp add: commitProfile_def prod.case_eq_if split: option.split)
  show "fst (commitProfile env io pid s s1) = Inl e \<Longrightarrow> sameStore s (snd (commitProfile env io pid s s1))"
    using st u by (auto simp: commitProfile_def prod.case_eq_if split: option.splits)
  show "fst (commitProfile env io pid s s1) = Inr st \<Longrightarrow>
       persistTransportProfileStore io s1 = (None, snd (commitProfile env io pid s s1)) \<and> statusOf pid s1 = Some st"
    using st by (auto simp: commitProfile_def prod.case_eq_if prod_eq_iff split: option.splits)
qed

lemma newStatus_raw:
  assumes "trimmed pid" "pid \<noteq> []" "iqKind rq = wireGuardKind" "normalMaterial (Some w)"
  shows "rawOk pid \<lparr>mpStatus = (newStatus env now s rq w src pid)\<lparr>tpDefaultFor := bs\<rparr>, mpWireGuard = Some w\<rparr>"
    "tpID (newStatus env now s rq w src pid) = pid"
  using assms by (simp_all add: rawOk_def newStatus_def prod.case_eq_if)

lemma storeParsed_commit:
  assumes "goodIDs env" "storeOk env s0" "iqKind rq = wireGuardKind" "normalMaterial (Some w)"
  obtains pid s m d where
    "sameStore s0 s" "storeOk env s" "tsDisk s = tsDisk s0" "rawOk pid m" "mpWireGuard m = Some w"
    "\<And>scope q. d scope = Some q \<Longrightarrow> q = pid \<or> tsDefaults s scope = Some q"
    "storeParsed env io now rq w src a s0 = commitProfile env io pid s
       (refreshAll env (s\<lparr>tsProfiles := AList.update pid m (tsProfiles s), tsDefaults := d\<rparr>))"
proof -
  obtain pid s where c: "chosenID env s0 rq = (pid, s)" by (cases "chosenID env s0 rq")
  note k = chosenID_ok [OF assms(1,2) c]
  let ?st = "newStatus env now s rq w src pid"
  show thesis
  proof (rule that [OF k(4) k(3) k(5)])
    show "rawOk pid \<lparr>mpStatus = ?st\<lparr>tpDefaultFor := importedBindings s rq ?st a\<rparr>, mpWireGuard = Some w\<rparr>"
      by (rule newStatus_raw [OF k(1,2) assms(3,4)])
    show "q = pid \<or> tsDefaults s scope = Some q" if "importedDefaults s rq ?st a scope = Some q" for scope q
      using importedDefaults_old [OF that] newStatus_raw(2) [OF k(1,2) assms(3,4), of env now s src] by simp
  qed (simp_all add: storeParsed_def c Let_def)
qed

lemma storeParsed_ok:
  assumes "goodIDs env" "storeOk env s0" "iqKind rq = wireGuardKind" "normalMaterial (Some w)"
  shows "storeOk env (snd (storeParsed env io now rq w src a s0))"
    "fst (storeParsed env io now rq w src a s0) = Inl e \<Longrightarrow> sameStore s0 (snd (storeParsed env io now rq w src a s0))"
proof -
  obtain pid s m d where c: "sameStore s0 s" "storeOk env s" "tsDisk s = tsDisk s0" "rawOk pid m" "mpWireGuard m = Some w"
    "\<And>scope q. d scope = Some q \<Longrightarrow> q = pid \<or> tsDefaults s scope = Some q"
    "storeParsed env io now rq w src a s0 = commitProfile env io pid s
       (refreshAll env (s\<lparr>tsProfiles := AList.update pid m (tsProfiles s), tsDefaults := d\<rparr>))"
    by (rule storeParsed_commit [OF assms, where io = io and now = now and src = src and a = a]) blast
  note k = commit_ok [OF c(2,4,6)]
  show "storeOk env (snd (storeParsed env io now rq w src a s0))" unfolding c(7) by (rule k(1))
  show "fst (storeParsed env io now rq w src a s0) = Inl e \<Longrightarrow> sameStore s0 (snd (storeParsed env io now rq w src a s0))"
    unfolding c(7) using sameStore_trans(1) [OF c(1) k(2)] by blast
qed

section \<open>Reading the file back\<close>

lemma refresh_fields:
  "tpMaterialRef (refreshStatus env cs d w st) = ''host-owned:'' @ tpID st"
  "tpMaterialKind (refreshStatus env cs d w st) = (if tpMaterialKind st = [] then ''import_adapter'' else tpMaterialKind st)"
  "tpValidation (refreshStatus env cs d w st) = fst (transportProfileValidation env (tpKind st) w)"
  "tpFingerprint (refreshStatus env cs d w st) = snd (transportProfileValidation env (tpKind st) w)"
  "tpActions (refreshStatus env cs d w st) = statusActions (tpKind st) (fst (transportProfileValidation env (tpKind st) w)) w"
  by (simp_all add: refreshStatus_def Let_def prod.case_eq_if)

lemma loadRecord_same:
  assumes "profileOk env cs d k m"
  shows "loadRecord env (storeRecord m) ps = AList.update k m ps"
proof -
  have id: "tpID (mpStatus m) = k" "TrimSpace k = k" "k \<noteq> []" "tpKind (mpStatus m) = wireGuardKind"
    and mat: "map_option wireGuardProfileFromDisk (mpWireGuard m) = mpWireGuard m"
    and fp: "refreshStatus env cs d (mpWireGuard m) (mpStatus m) = mpStatus m"
    using assms by (auto simp: profileOk_def trimmed_def normalMaterial_def refreshManaged_def
        dest: arg_cong [where f = mpStatus])
  have derived: "tpMaterialRef (mpStatus m) = ''host-owned:'' @ k"
    "(if tpMaterialKind (mpStatus m) = [] then ''import_adapter'' else tpMaterialKind (mpStatus m)) = tpMaterialKind (mpStatus m)"
    "transportProfileValidation env wireGuardKind (mpWireGuard m) = (tpValidation (mpStatus m), tpFingerprint (mpStatus m))"
    "tpActions (mpStatus m) = statusActions wireGuardKind (tpValidation (mpStatus m)) (mpWireGuard m)"
    using refresh_fields [of env cs d "mpWireGuard m" "mpStatus m"] unfolding fp id by (simp_all add: prod_eq_iff)
  have "tpMaterialKind (mpStatus m) \<noteq> []" using derived(2) by (auto split: if_splits)
  moreover have "isKnownTransportProfileKind wireGuardKind" by (simp add: isKnownTransportProfileKind_def wireGuardKind_def)
  ultimately show ?thesis using id mat derived
    by (cases m; cases "mpStatus m") (simp add: loadRecord_def storeRecord_def Let_def)
qed

lemma load_records:
  "(\<And>k m. (k, m) \<in> set xs \<Longrightarrow> profileOk env cs d k m) \<Longrightarrow>
     foldl (\<lambda>ps r. loadRecord env r ps) ps (List.map (storeRecord \<circ> snd) xs) = foldl (\<lambda>ps (k, m). AList.update k m ps) ps xs"
proof (induction xs arbitrary: ps)
  case (Cons x xs)
  obtain k m where x: "x = (k, m)" by (cases x)
  have "profileOk env cs d k m" using Cons.prems x by simp
  then have "loadRecord env (storeRecord m) ps = AList.update k m ps" by (rule loadRecord_same)
  then show ?case using Cons x by simp
qed simp

lemma updates_map: "distinct (List.map fst xs) \<Longrightarrow> map_of (foldl (\<lambda>ps (k, m). AList.update k m ps) [] xs) = map_of xs"
proof (induction xs rule: rev_induct)
  case (snoc x xs)
  obtain k m where x: "x = (k, m)" by (cases x)
  have n: "map_of xs k = None" and IH: "map_of (foldl (\<lambda>ps (k, m). AList.update k m ps) [] xs) = map_of xs"
    using snoc x by (auto simp: map_of_eq_None_iff)
  show ?case
  proof
    fix j
    show "map_of (foldl (\<lambda>ps (k, m). AList.update k m ps) [] (xs @ [x])) j = map_of (xs @ [x]) j"
      using n by (cases "j = k") (simp_all add: x AList.update_conv' IH map_add_def split: option.split)
  qed
qed simp

lemma updates_distinct: "distinct (List.map fst ps) \<Longrightarrow> distinct (List.map fst (foldl (\<lambda>ps (k, m). AList.update k m ps) ps xs))"
  by (induction xs arbitrary: ps) (auto simp: AList.distinct_update)

lemma storeOk_maps:
  assumes "storeOk env s" "distinct (List.map fst (tsProfiles t))" "map_of (tsProfiles t) = map_of (tsProfiles s)"
    "tsTunnels t = tsTunnels s" "tsDefaults t = tsDefaults s"
  shows "storeOk env t"
  using assms unfolding storeOk_def by metis

definition reopen :: "storeEnv \<Rightarrow> transportStore \<Rightarrow> transportStore" where
  "reopen env s = openStore env (tsEnabled s) (tsPath s) (tsTunnels s) (tsNextID s) (tsDisk s)"

text \<open>Texts that are valid UTF-8.\<close>

function utf8Text :: "int list \<Rightarrow> bool" where
  "utf8Text bs = (if bs = [] then True else (hd bs < 0x80 \<or> 1 < runeWidth bs) \<and> utf8Text (drop (runeWidth bs) bs))"
  by pat_completeness auto
termination
proof (relation "measure length")
  show "(drop (runeWidth bs) bs, bs) \<in> measure length" if "bs \<noteq> []" for bs :: "int list"
    using that runeWidth_pos [of bs] by simp
qed simp

declare utf8Text.simps [simp del]

definition ValidString :: "string \<Rightarrow> bool" where
  "ValidString s \<longleftrightarrow> utf8Text (List.map of_char s)"

text \<open>
  What is read of a record, and what encoding/json promises: texts that are valid UTF-8 and times
  of the years 0 to 9999 come back as they were.  What else a record says is derived again.
\<close>

definition readPart ::
    "profileStatus \<times> wgProfile option \<Rightarrow> (string list \<times> instant list) \<times> wgProfile option" where
  "readPart r =
     (case r of (st, w) \<Rightarrow>
        (([tpID st, tpKind st, tpVersion st, tpDisplayName st, tpMaterialKind st], [tpImportedAt st, tpUpdatedAt st]), w))"

definition jsonTime :: "instant \<Rightarrow> bool" where
  "jsonTime t \<longleftrightarrow> -62167219200 * 10 ^ 9 \<le> t \<and> t < 253402300800 * 10 ^ 9"

definition materialTexts :: "wgProfile \<Rightarrow> string list" where
  "materialTexts w =
     [wgPrivateKey w, wgPeerPublicKey w, wgPresharedKey w, wgEndpoint w] @ wgAddresses w @ wgDNSServers w @ wgAllowedIPs w"

definition jsonRecord :: "profileStatus \<times> wgProfile option \<Rightarrow> bool" where
  "jsonRecord r \<longleftrightarrow>
     (case readPart r of ((texts, stamps), w) \<Rightarrow>
        list_all ValidString texts \<and> list_all jsonTime stamps \<and>
        (case w of None \<Rightarrow> True | Some x \<Rightarrow> list_all ValidString (materialTexts x)))"

definition jsonDocument :: "storeDisk \<Rightarrow> bool" where
  "jsonDocument d \<longleftrightarrow>
     list_all jsonRecord (skProfiles d) \<and>
     (\<forall>scope pid. skDefaults d scope = Some pid \<longrightarrow> ValidString scope \<and> ValidString pid)"

definition sameDocument :: "storeDisk \<Rightarrow> storeDisk \<Rightarrow> bool" where
  "sameDocument d e \<longleftrightarrow>
     skVersion d = skVersion e \<and> List.map readPart (skProfiles d) = List.map readPart (skProfiles e) \<and>
     skDefaults d = skDefaults e"

definition faithfulJSON :: "storeEnv \<Rightarrow> bool" where
  "faithfulJSON env \<longleftrightarrow> (\<forall>d. jsonDocument d \<longrightarrow> sameDocument (teJSON env d) d)"

text \<open>The records as they are once their derived parts are set.\<close>

abbreviation refreshed ::
    "storeEnv \<Rightarrow> tunnelCapability list \<Rightarrow> (string \<rightharpoonup> string) \<Rightarrow> (string \<times> managedProfile) list \<Rightarrow> (string \<times> managedProfile) list" where
  "refreshed env cs defs ps \<equiv> List.map (\<lambda>(k, m). (k, refreshManaged env cs defs m)) ps"

lemma map_update: "List.map (\<lambda>(k, m). (k, f m)) (AList.update k v ps) = AList.update k (f v) (List.map (\<lambda>(k, m). (k, f m)) ps)"
  by (induction ps) auto

lemma refresh_same:
  assumes "readPart (st, w) = readPart (st', w)"
  shows "refreshStatus env cs defs w st = refreshStatus env cs defs w st'"
  using assms by (simp add: readPart_def refreshStatus_def Let_def prod.case_eq_if defaultBindingsFor_def)

lemma loadRecord_read:
  assumes "readPart r = readPart r'" "refreshed env cs defs ps = refreshed env cs defs ps'"
  shows "refreshed env cs defs (loadRecord env r ps) = refreshed env cs defs (loadRecord env r' ps')"
proof -
  obtain st w st' where r: "r = (st, w)" "r' = (st', w)" using assms(1) by (cases r; cases r') (auto simp: readPart_def)
  have f: "tpID st = tpID st'" "tpKind st = tpKind st'" "tpVersion st = tpVersion st'" "tpDisplayName st = tpDisplayName st'"
    "tpMaterialKind st = tpMaterialKind st'" "tpImportedAt st = tpImportedAt st'" "tpUpdatedAt st = tpUpdatedAt st'"
    using assms(1) by (simp_all add: r readPart_def)
  show ?thesis
    using assms(2) unfolding r loadRecord_def Let_def
    by (auto simp: f map_update refreshManaged_def split: prod.split intro!: arg_cong2 [where f = "AList.update (TrimSpace (tpID st'))"] refresh_same)
      (simp_all add: readPart_def f)
qed

lemma loadRecords_read:
  assumes "List.map readPart rs = List.map readPart rs'" "refreshed env cs defs ps = refreshed env cs defs ps'"
  shows "refreshed env cs defs (foldl (\<lambda>ps r. loadRecord env r ps) ps rs) =
    refreshed env cs defs (foldl (\<lambda>ps r. loadRecord env r ps) ps' rs')"
  using assms
proof (induction rs arbitrary: rs' ps ps')
  case (Cons r rs)
  then obtain r' rest where "rs' = r' # rest" "readPart r = readPart r'" "List.map readPart rs = List.map readPart rest"
    by (cases rs') auto
  then show ?case using Cons.IH [OF _ loadRecord_read [OF _ Cons.prems(2)]] by simp
qed simp

lemma refreshed_keys: "map_of (refreshed env cs defs ps) k = None \<longleftrightarrow> map_of ps k = None"
  by (simp add: map_of_map map_of_eq_None_iff image_image case_prod_beta)

text \<open>The store can be written as JSON and read back.\<close>

definition jsonStore :: "transportStore \<Rightarrow> bool" where
  "jsonStore s \<longleftrightarrow>
     (\<forall>k m. map_of (tsProfiles s) k = Some m \<longrightarrow> jsonRecord (mpStatus m, mpWireGuard m)) \<and>
     (\<forall>scope pid. tsDefaults s scope = Some pid \<longrightarrow> ValidString scope \<and> ValidString pid)"

lemma jsonStore_document:
  assumes "jsonStore s" "distinct (List.map fst (tsProfiles s))"
  shows "jsonDocument (storeToDisk s)"
proof -
  have "jsonRecord (storeRecord m)" if "(k, m) \<in> set (tsProfiles s)" for k m
  proof -
    have "map_of (tsProfiles s) k = Some m" using that assms(2) by simp
    then have "jsonRecord (mpStatus m, mpWireGuard m)" using assms(1) by (simp add: jsonStore_def)
    then show ?thesis by (auto simp: storeRecord_def jsonRecord_def readPart_def)
  qed
  then show ?thesis using assms(1) by (auto simp: jsonDocument_def storeToDisk_def jsonStore_def list_all_iff)
qed

lemma reopen_written:
  assumes ok: "storeOk env s" and on: "tsEnabled s" "trimmed (tsPath s)" "tsPath s \<noteq> []"
    and disk: "tsDisk s = Some (storeToDisk s)" and json: "faithfulJSON env" "jsonStore s"
  shows "sameStore s (reopen env s)"
proof -
  have d: "distinct (List.map fst (tsProfiles s))" using ok by (simp add: storeOk_def)
  let ?e = "teJSON env (storeToDisk s)"
  have same: "sameDocument ?e (storeToDisk s)"
    using json jsonStore_document [OF json(2) d] by (simp add: faithfulJSON_def)
  let ?xs = "sort_key fst (tsProfiles s)"
  define ps where "ps = foldl (\<lambda>ps (k, m). AList.update k m ps) [] ?xs"
  from d have dx: "distinct (List.map fst ?xs)"
    by (metis distinct_map inj_on_def set_sort distinct_sort)
  have mx: "map_of ?xs = map_of (tsProfiles s)"
    using d dx by (metis map_of_inject_set set_sort)
  have ps: "map_of ps = map_of (tsProfiles s)" "distinct (List.map fst ps)"
    unfolding ps_def using updates_map [OF dx] mx updates_distinct [of "[]"] by simp_all
  have pk: "profileOk env (tsTunnels s) (tsDefaults s) k m" if "(k, m) \<in> set ?xs" for k m
    using that ok d mx dx unfolding storeOk_def by (metis map_of_is_SomeI)
  have defs: "(\<lambda>scope. case tsDefaults s scope of None \<Rightarrow> None
      | Some pid \<Rightarrow> if map_of ps pid = None then None else Some pid) = tsDefaults s"
  proof
    fix scope
    have "tsDefaults s scope = Some pid \<Longrightarrow> map_of (tsProfiles s) pid \<noteq> None" for pid
      using ok unfolding storeOk_def by blast
    then show "(case tsDefaults s scope of None \<Rightarrow> None | Some pid \<Rightarrow> if map_of ps pid = None then None else Some pid) =
        tsDefaults s scope"
      by (cases "tsDefaults s scope") (simp_all add: ps)
  qed
  let ?s0 = "\<lparr>tsEnabled = True, tsPath = tsPath s, tsTunnels = tsTunnels s, tsProfiles = ps, tsDefaults = tsDefaults s,
     tsNextID = tsNextID s, tsDisk = tsDisk s\<rparr>"
  define qs where "qs = foldl (\<lambda>ps r. loadRecord env r ps) [] (skProfiles ?e)"
  have "foldl (\<lambda>ps r. loadRecord env r ps) [] (skProfiles (storeToDisk s)) = ps"
    using load_records [OF pk, of ?xs] by (simp add: storeToDisk_def ps_def)
  then have qs: "refreshed env (tsTunnels s) (tsDefaults s) qs = refreshed env (tsTunnels s) (tsDefaults s) ps"
    using loadRecords_read [of "skProfiles ?e" "skProfiles (storeToDisk s)"] same by (simp add: qs_def sameDocument_def)
  then have "map_of qs pid = None \<longleftrightarrow> map_of ps pid = None" for pid by (metis refreshed_keys)
  then have defs': "(\<lambda>scope. case tsDefaults s scope of None \<Rightarrow> None
      | Some pid \<Rightarrow> if map_of qs pid = None then None else Some pid) = tsDefaults s" by (simp only: defs)
  have e: "skVersion ?e = 1" "skDefaults ?e = tsDefaults s" using same by (simp_all add: sameDocument_def storeToDisk_def)
  have "reopen env s = refreshAll env (?s0\<lparr>tsProfiles := qs\<rparr>)"
    using on disk e defs'
    by (simp add: reopen_def openStore_def loadTransportProfileStore_def trimmed_def Let_def flip: qs_def)
  also have "\<dots> = refreshAll env ?s0" using qs by (simp add: refreshAll_def)
  finally have "reopen env s = refreshAll env ?s0" .
  moreover have "storeOk env ?s0" by (rule storeOk_maps [OF ok]) (simp_all add: ps)
  ultimately have "reopen env s = ?s0" by (simp add: refreshAll_same)
  then show ?thesis using on by (simp add: sameStore_def ps)
qed

end
