(* ===== verification/TransportRuns.thy ===== *)
theory TransportRuns
  imports TransportStoreInv
begin

text \<open>
  Runs of the store of transport profiles: any sequence of calls of clients and restarts of the host,
  each write with any outcome.  A portable import is resolved and confirmed in two sections, so the
  candidates that have been resolved are part of the state of a run.
\<close>

section \<open>Calls\<close>

datatype storeCall =
    CallImport writeOutcome instant importRequest
  | CallValidate string
  | CallSelect writeOutcome string executionPlan
  | CallMigrate writeOutcome instant string "string option"
  | CallForget writeOutcome string
  | CallCreate writeOutcome instant "byte list option" structuredDraft
  | CallUpdate writeOutcome instant "byte list option" string structuredDraft
  | CallResolveImport string string
  | CallConfirm writeOutcome instant nat
  | RestartHost "tunnelCapability list"

text \<open>The store, the candidates that have been resolved, and whether the last call has failed.\<close>

type_synonym storeRun = "transportStore \<times> importCandidate list \<times> bool"

definition failed :: "'e + 'a \<Rightarrow> bool" where
  "failed r = (case r of Inl _ \<Rightarrow> True | Inr _ \<Rightarrow> False)"

fun doCall :: "storeEnv \<Rightarrow> portableEnv \<Rightarrow> storeRun \<Rightarrow> storeCall \<Rightarrow> storeRun" where
  "doCall env pe (s, cs, _) (CallImport io now rq) = (case ImportTransportProfile env io now rq s of (r, s') \<Rightarrow> (s', cs, failed r))"
| "doCall env pe (s, cs, _) (CallValidate pid) = (case ValidateTransportProfile env pid s of (r, s') \<Rightarrow> (s', cs, failed r))"
| "doCall env pe (s, cs, _) (CallSelect io pid p) =
     (case SelectTransportProfileForStartup env io pid p s of (r, s') \<Rightarrow> (s', cs, failed r))"
| "doCall env pe (s, cs, _) (CallMigrate io now path contents) =
     (case MigrateWireGuardTransportProfile env io now path contents s of (r, s') \<Rightarrow> (s', cs, failed r))"
| "doCall env pe (s, cs, _) (CallForget io pid) = (case ForgetTransportProfile env io pid s of (e, s') \<Rightarrow> (s', cs, e \<noteq> None))"
| "doCall env pe (s, cs, _) (CallCreate io now random d) =
     (case CreateStructuredTransportProfile env io now random d s of (r, s') \<Rightarrow> (s', cs, failed r))"
| "doCall env pe (s, cs, _) (CallUpdate io now random pid d) =
     (case UpdateStructuredTransportProfile env io now random pid d s of (r, s') \<Rightarrow> (s', cs, failed r))"
| "doCall env pe (s, cs, _) (CallResolveImport envelope passphrase) =
     (case resolveImportCandidate env pe envelope passphrase s of Inl _ \<Rightarrow> (s, cs, True) | Inr c \<Rightarrow> (s, cs @ [c], False))"
| "doCall env pe (s, cs, _) (CallConfirm io now i) =
     (if length cs \<le> i then (s, cs, True)
      else (case confirmCandidate env io now (cs ! i) s of (r, s') \<Rightarrow> (s', cs, failed r)))"
| "doCall env pe (s, cs, _) (RestartHost tunnels) =
     (openStore env (tsEnabled s) (tsPath s) tunnels (tsNextID s) (tsDisk s), [], False)"

definition runStore ::
    "storeEnv \<Rightarrow> portableEnv \<Rightarrow> bool \<Rightarrow> string \<Rightarrow> tunnelCapability list \<Rightarrow> storeDisk option \<Rightarrow> storeCall list \<Rightarrow> storeRun" where
  "runStore env pe enabled path tunnels disk calls =
     foldl (doCall env pe) (openStore env enabled path tunnels 0 disk, [], False) calls"

section \<open>What an operation keeps\<close>

text \<open>The store is in order and its configuration is what it was.\<close>

definition keepsOrder :: "storeEnv \<Rightarrow> transportStore \<Rightarrow> transportStore \<Rightarrow> bool" where
  "keepsOrder env s s' \<longleftrightarrow>
     storeOk env s' \<and> tsEnabled s' = tsEnabled s \<and> tsPath s' = tsPath s \<and> tsTunnels s' = tsTunnels s"

text \<open>The file still says what the store holds: nothing has changed, or it has been written.\<close>

definition settled :: "transportStore \<Rightarrow> transportStore \<Rightarrow> bool" where
  "settled s s' \<longleftrightarrow>
     sameStore s s' \<and> tsDisk s' = tsDisk s \<or> TrimSpace (tsPath s') = [] \<or> tsDisk s' = Some (storeToDisk s')"

lemma keepsOrder_refl: "storeOk env s \<Longrightarrow> keepsOrder env s s"
  by (simp add: keepsOrder_def)

lemma settled_refl [simp]: "settled s s"
  by (simp add: settled_def)

lemma storeToDisk_ignores [simp]: "storeToDisk (s\<lparr>tsDisk := d\<rparr>) = storeToDisk s"
  by (simp add: storeToDisk_def)

lemma persist_ok: "persistTransportProfileStore io s = (None, s') \<Longrightarrow> TrimSpace (tsPath s') = [] \<or> tsDisk s' = Some (storeToDisk s')"
  by (auto simp: persistTransportProfileStore_def split: if_splits writeOutcome.splits)

lemma persist_failed:
  "persistTransportProfileStore io s = (Some e, s') \<Longrightarrow> io \<noteq> WrittenUnprotected \<Longrightarrow> s' = s"
  by (auto simp: persistTransportProfileStore_def split: if_splits writeOutcome.splits)

lemma restore_fields [simp]:
  "tsDisk (restoreStore env pid prev d s) = tsDisk s" "tsEnabled (restoreStore env pid prev d s) = tsEnabled s"
  "tsPath (restoreStore env pid prev d s) = tsPath s" "tsTunnels (restoreStore env pid prev d s) = tsTunnels s"
  by (simp_all add: restoreStore_def)

text \<open>What every operation does, whatever becomes of its write.\<close>

definition safeStep :: "storeEnv \<Rightarrow> writeOutcome \<Rightarrow> transportStore \<Rightarrow> bool \<Rightarrow> transportStore \<Rightarrow> bool" where
  "safeStep env io s bad s' \<longleftrightarrow>
     keepsOrder env s s' \<and> (bad \<longrightarrow> sameStore s s') \<and>
     (io \<noteq> WrittenUnprotected \<longrightarrow> settled s s' \<and> (bad \<longrightarrow> tsDisk s' = tsDisk s))"

lemma safeStep_refl [simp]: "storeOk env s \<Longrightarrow> safeStep env io s bad s"
  by (simp add: safeStep_def keepsOrder_refl)

lemma safeStep_from:
  assumes "sameStore s0 s" "tsDisk s = tsDisk s0" "safeStep env io s bad s'"
  shows "safeStep env io s0 bad s'"
proof -
  have "settled s s' \<Longrightarrow> settled s0 s'" using assms(1,2) sameStore_trans(1) unfolding settled_def by metis
  moreover have "keepsOrder env s0 s'" using assms(1,3) by (simp add: safeStep_def keepsOrder_def sameStore_def)
  ultimately show ?thesis using assms sameStore_trans(1) unfolding safeStep_def by metis
qed

lemma failed_simps [simp]: "failed (Inl e)" "\<not> failed (Inr a)" "failed (map_sum f g r) = failed r"
  by (simp_all add: failed_def split: sum.split)

text \<open>A change that is written, or undone.\<close>

lemma write_safe:
  assumes p: "persistTransportProfileStore io s1 = (e, s2)" and ok: "storeOk env s1"
    and conf: "tsEnabled s1 = tsEnabled s" "tsPath s1 = tsPath s" "tsTunnels s1 = tsTunnels s" "tsDisk s1 = tsDisk s"
  shows "e = None \<Longrightarrow> safeStep env io s False s2"
    "e \<noteq> None \<Longrightarrow> sameStore s s3 \<Longrightarrow> storeOk env s3 \<Longrightarrow> tsDisk s3 = tsDisk s2 \<Longrightarrow> safeStep env io s True s3"
proof -
  have c: "tsEnabled s2 = tsEnabled s" "tsPath s2 = tsPath s" "tsTunnels s2 = tsTunnels s" "storeOk env s2"
    using persist_fields [of io s1] persist_simps(1) [of env io s1] p conf ok by simp_all
  show "safeStep env io s False s2" if "e = None"
    using that c persist_ok [of io s1 s2] p by (auto simp: safeStep_def keepsOrder_def settled_def)
  show "safeStep env io s True s3" if e: "e \<noteq> None" and s3: "sameStore s s3" "storeOk env s3" "tsDisk s3 = tsDisk s2"
  proof -
    have "tsDisk s3 = tsDisk s" if "io \<noteq> WrittenUnprotected"
      using that e p persist_failed [of io s1] conf s3(3) by (cases e) auto
    then show ?thesis using s3 by (auto simp: safeStep_def keepsOrder_def settled_def sameStore_def)
  qed
qed

lemma commit_safe:
  fixes env io pid s m d
  assumes ok: "storeOk env s" and m: "rawOk pid m"
    and d: "\<And>scope q. d scope = Some q \<Longrightarrow> q = pid \<or> tsDefaults s scope = Some q"
  defines "s1 \<equiv> refreshAll env (s\<lparr>tsProfiles := AList.update pid m (tsProfiles s), tsDefaults := d\<rparr>)"
  defines "r \<equiv> commitProfile env io pid s s1"
  shows "safeStep env io s (failed (fst r)) (snd r)"
proof -
  obtain e s2 where p: "persistTransportProfileStore io s1 = (e, s2)" by (cases "persistTransportProfileStore io s1")
  have ok1: "storeOk env s1" unfolding s1_def by (rule install_ok [OF ok m]) (rule d)
  have st: "statusOf pid s1 \<noteq> None" by (simp add: statusOf_def s1_def AList.update_conv')
  have conf: "tsEnabled s1 = tsEnabled s" "tsPath s1 = tsPath s" "tsTunnels s1 = tsTunnels s" "tsDisk s1 = tsDisk s"
    by (simp_all add: s1_def)
  note w = write_safe [OF p ok1 conf]
  have undo: "sameStore s (snd r)" "storeOk env (snd r)" if "fst r = Inl x" for x
    using that commit_ok(1,2) [OF ok m, of d] d unfolding r_def s1_def by blast+
  show ?thesis
  proof (cases e)
    case None
    then show ?thesis using w(1) p st by (auto simp: r_def commitProfile_def)
  next
    case (Some x)
    then have r: "fst r = Inl x" "tsDisk (snd r) = tsDisk s2" by (simp_all add: r_def commitProfile_def p)
    show ?thesis using w(2) [OF _ undo [OF r(1)] r(2)] Some r(1) by simp
  qed
qed

lemma storeParsed_safe:
  assumes "goodIDs env" "storeOk env s0" "iqKind rq = wireGuardKind" "normalMaterial (Some w)"
  shows "safeStep env io s0 (failed (fst (storeParsed env io now rq w src a s0))) (snd (storeParsed env io now rq w src a s0))"
proof -
  obtain pid s m d where c: "sameStore s0 s" "storeOk env s" "tsDisk s = tsDisk s0" "rawOk pid m" "mpWireGuard m = Some w"
    "\<And>scope q. d scope = Some q \<Longrightarrow> q = pid \<or> tsDefaults s scope = Some q"
    "storeParsed env io now rq w src a s0 = commitProfile env io pid s
       (refreshAll env (s\<lparr>tsProfiles := AList.update pid m (tsProfiles s), tsDefaults := d\<rparr>))"
    by (rule storeParsed_commit [OF assms, where io = io and now = now and src = src and a = a]) blast
  show ?thesis unfolding c(7) by (rule safeStep_from [OF c(1,3)], rule commit_safe [OF c(2,4)]) (rule c(6))
qed

section \<open>Material\<close>

lemma fromDisk_normal [simp]: "normalMaterial (map_option wireGuardProfileFromDisk w)"
  by (cases w) (simp_all add: normalMaterial_def wireGuardProfileFromDisk_def)

lemma trimmed_normal:
  assumes "trimmed (wgPrivateKey w)" "trimmed (wgPeerPublicKey w)" "trimmed (wgPresharedKey w)" "trimmed (wgEndpoint w)"
  shows "normalMaterial (Some w)"
  using assms by (simp add: normalMaterial_def wireGuardProfileFromDisk_def trimmed_def)

lemma parsed_normal: "parseProfile text = Inr w \<Longrightarrow> normalMaterial (Some w)"
  by (drule parseProfile_tidy) (simp add: tidy_def trimmed_normal)

lemma payload_normal: "payloadWireGuard pl = Inr w \<Longrightarrow> normalMaterial (Some w) \<and> plKind pl = wireGuardKind"
  using fromDisk_normal [of "plWireGuard pl"]
  by (auto simp: payloadWireGuard_def Let_def wireGuardProfileComplete_def simp del: fromDisk_normal
      split: if_splits option.splits)

lemma normalized_request:
  "normalizeTransportProfileImportRequest rq = Inr (n, w) \<Longrightarrow> iqKind n = wireGuardKind \<and> normalMaterial (Some w)"
  by (auto simp: normalizeTransportProfileImportRequest_def Let_def parsed_normal split: if_splits sum.splits)

text \<open>Every text that is read from a draft is trimmed.\<close>

lemma stringField_trimmed [simp]: "trimmed (snd (structuredStringField d f s))"
  by (auto simp: structuredStringField_def split: option.split draftValue.split)

lemma existingKey_trimmed [simp]: "trimmed (existingKey k w)"
  by (simp add: existingKey_def split: option.split)

lemma privateKey_trimmed [simp]: "trimmed (fst (snd (normalizeStructuredPrivateKey env random d w)))"
proof -
  have "trimmed (stdEncode bs)" for bs by (simp add: trimmed_def)
  then show ?thesis
    using stringField_trimmed [of d "''interface_private_key''" "sdPrivateKey d"]
    by (auto simp: normalizeStructuredPrivateKey_def generateWireGuardKeyPair_def Let_def prod.case_eq_if split: option.splits)
qed

lemma presharedKey_trimmed [simp]: "trimmed (snd (normalizeStructuredPresharedKey d w))"
  using stringField_trimmed [of d "''peer_preshared_key''" "sdPresharedKey d"]
  by (auto simp: normalizeStructuredPresharedKey_def Let_def prod.case_eq_if)

lemma Inr_cases: "(if c then Inl e else Inr x) = Inr y \<Longrightarrow> \<not> c \<and> y = x"
  by (simp split: if_splits)

lemma draft_parts:
  assumes "normalizeStructuredWireGuardDraft env random d existing = Inr (rq, w, gen)"
  shows "wgPrivateKey w = fst (snd (normalizeStructuredPrivateKey env random d existing))"
    "wgPresharedKey w = snd (normalizeStructuredPresharedKey d existing)"
    "wgPeerPublicKey w = snd (structuredStringField d ''peer_public_key'' (sdPeerPublicKey d))"
    "wgEndpoint w = snd (structuredStringField d ''endpoint'' (sdEndpoint d))"
    "rq = draftRequest d (snd (structuredStringField d ''display_name'' (sdDisplayName d)))"
    "draftKind d = wireGuardKind"
proof -
  note r = Inr_cases [OF assms [unfolded normalizeStructuredWireGuardDraft_def Let_def prod.case_eq_if]]
  show "wgPrivateKey w = fst (snd (normalizeStructuredPrivateKey env random d existing))"
    "wgPresharedKey w = snd (normalizeStructuredPresharedKey d existing)"
    "wgPeerPublicKey w = snd (structuredStringField d ''peer_public_key'' (sdPeerPublicKey d))"
    "wgEndpoint w = snd (structuredStringField d ''endpoint'' (sdEndpoint d))"
    "rq = draftRequest d (snd (structuredStringField d ''display_name'' (sdDisplayName d)))"
    using conjunct2 [OF r] by simp_all
  show "draftKind d = wireGuardKind"
    using conjunct1 [OF r] unfolding append_is_Nil_conv not_not by (metis not_Cons_self2)
qed

lemma draft_normal:
  assumes "normalizeStructuredWireGuardDraft env random d existing = Inr (rq, w, gen)"
  shows "iqKind rq = wireGuardKind" "normalMaterial (Some w)"
proof -
  note p = draft_parts [OF assms]
  show "normalMaterial (Some w)" by (rule trimmed_normal) (simp_all add: p(1-4))
  show "iqKind rq = wireGuardKind" by (simp add: p(5,6) draftRequest_def)
qed

section \<open>The operations\<close>

lemma import_safe:
  assumes "goodIDs env" "storeOk env s"
  shows "safeStep env io s (failed (fst (ImportTransportProfile env io now rq s))) (snd (ImportTransportProfile env io now rq s))"
  using assms by (auto simp: ImportTransportProfile_def storeParsed_safe dest: normalized_request split: sum.split)

lemma saveDraft_safe:
  assumes "goodIDs env" "storeOk env s"
  shows "safeStep env io s (failed (fst (saveDraft env io now random d w pid s))) (snd (saveDraft env io now random d w pid s))"
proof (cases "normalizeStructuredWireGuardDraft env random d w")
  case (Inr r)
  obtain rq v gen where r: "r = (rq, v, gen)" by (cases r)
  have "safeStep env io s (failed (fst (storeParsed env io now (rq\<lparr>iqReplaceID := pid\<rparr>) v ''structured_editor'' True s)))
      (snd (storeParsed env io now (rq\<lparr>iqReplaceID := pid\<rparr>) v ''structured_editor'' True s))"
    by (rule storeParsed_safe [OF assms]) (use draft_normal [OF Inr [unfolded r]] in simp_all)
  then show ?thesis by (simp add: saveDraft_def Inr r prod.case_eq_if)
qed (use assms in \<open>simp add: saveDraft_def\<close>)

lemma draft_ops_safe:
  assumes "goodIDs env" "storeOk env s"
  shows "safeStep env io s (failed (fst (CreateStructuredTransportProfile env io now random d s)))
      (snd (CreateStructuredTransportProfile env io now random d s))"
    "safeStep env io s (failed (fst (UpdateStructuredTransportProfile env io now random pid d s)))
      (snd (UpdateStructuredTransportProfile env io now random pid d s))"
  using assms by (simp_all add: CreateStructuredTransportProfile_def UpdateStructuredTransportProfile_def saveDraft_safe Let_def
      split: option.split)

lemma confirm_safe:
  assumes "goodIDs env" "storeOk env s" "cnProfileKind c = wireGuardKind" "normalMaterial (Some (cnWireGuard c))"
  shows "safeStep env io s (failed (fst (confirmCandidate env io now c s))) (snd (confirmCandidate env io now c s))"
  using assms by (simp add: confirmCandidate_def storeParsed_safe candidateRequest_def)

lemma refreshOne_same:
  assumes ok: "storeOk env s"
  shows "sameStore s (refreshOne env pid s)" "storeOk env (refreshOne env pid s)" "tsDisk (refreshOne env pid s) = tsDisk s"
proof -
  have m: "map_of (tsProfiles (refreshOne env pid s)) = map_of (tsProfiles s)"
    using storeOk_raw(2) [OF ok, of pid]
    by (auto simp: refreshOne_def AList.update_conv' fun_eq_iff split: option.split)
  have f: "tsEnabled (refreshOne env pid s) = tsEnabled s" "tsPath (refreshOne env pid s) = tsPath s"
    "tsTunnels (refreshOne env pid s) = tsTunnels s" "tsDefaults (refreshOne env pid s) = tsDefaults s"
    by (simp_all add: refreshOne_def split: option.split)
  show "tsDisk (refreshOne env pid s) = tsDisk s" by (simp add: refreshOne_def split: option.split)
  show "sameStore s (refreshOne env pid s)" by (simp add: sameStore_def m f)
  have "distinct (List.map fst (tsProfiles (refreshOne env pid s)))"
    using ok by (simp add: refreshOne_def storeOk_def AList.distinct_update split: option.split)
  then show "storeOk env (refreshOne env pid s)" by (rule storeOk_maps [OF ok _ m f(3,4)])
qed

lemma same_safe: "sameStore s s' \<Longrightarrow> storeOk env s' \<Longrightarrow> tsDisk s' = tsDisk s \<Longrightarrow> safeStep env io s bad s'"
  by (simp add: safeStep_def keepsOrder_def settled_def) (simp add: sameStore_def)

lemma validate_safe:
  assumes "storeOk env s"
  shows "safeStep env io s (failed (fst (ValidateTransportProfile env pid s))) (snd (ValidateTransportProfile env pid s))"
  using assms refreshOne_same [OF assms] by (simp add: ValidateTransportProfile_def Let_def same_safe)

lemma select_safe:
  assumes ok: "storeOk env s"
  shows "safeStep env io s (failed (fst (SelectTransportProfileForStartup env io pid p s)))
      (snd (SelectTransportProfileForStartup env io pid p s))"
proof (cases "map_of (tsProfiles s) (TrimSpace pid)")
  case (Some m)
  let ?d = "(tsDefaults s)(transportProfileDefaultScopeID p \<mapsto> TrimSpace pid)"
  let ?s1 = "refreshAll env (s\<lparr>tsDefaults := ?d\<rparr>)"
  obtain e s2 where w: "persistTransportProfileStore io ?s1 = (e, s2)" by (cases "persistTransportProfileStore io ?s1")
  let ?s3 = "refreshAll env (s2\<lparr>tsDefaults := tsDefaults s\<rparr>)"
  have ok1: "storeOk env ?s1"
    by (rule refreshAll_ok) (use ok storeOk_raw [OF ok] Some in \<open>auto simp: storeOk_def split: if_splits\<close>)
  note p = persist_fields [of io ?s1, unfolded w snd_conv]
  have same: "sameStore s ?s3"
  proof -
    have "map_of (tsProfiles ?s3) k = map_of (tsProfiles s) k" for k
      using storeOk_raw(2) [OF ok, of k] by (cases "map_of (tsProfiles s) k") (simp_all add: p refreshManaged_absorb)
    then show ?thesis by (simp add: sameStore_def p fun_eq_iff)
  qed
  moreover have "storeOk env ?s3"
    by (rule storeOk_maps [OF ok]) (use same ok in \<open>simp_all add: sameStore_def p, simp add: storeOk_def\<close>)
  ultimately have undone: "e \<noteq> None \<Longrightarrow> safeStep env io s True ?s3"
    using write_safe(2) [OF w ok1, of s ?s3] by simp
  have "e = None \<Longrightarrow> safeStep env io s False s2" using write_safe(1) [OF w ok1, of s] by simp
  moreover have "statusOf (TrimSpace pid) s2 \<noteq> None" using Some by (simp add: statusOf_def p)
  ultimately show ?thesis using undone Some ok
    by (cases e) (auto simp: SelectTransportProfileForStartup_def Let_def w split: sum.splits)
qed (use ok in \<open>simp add: SelectTransportProfileForStartup_def Let_def\<close>)

lemma forget_safe:
  assumes ok: "storeOk env s"
  shows "safeStep env io s (fst (ForgetTransportProfile env io pid s) \<noteq> None) (snd (ForgetTransportProfile env io pid s))"
proof (cases "map_of (tsProfiles s) (TrimSpace pid)")
  case (Some m)
  let ?p = "TrimSpace pid"
  let ?d = "\<lambda>scope. if tsDefaults s scope = Some ?p then None else tsDefaults s scope"
  let ?s1 = "refreshAll env (s\<lparr>tsProfiles := AList.delete ?p (tsProfiles s), tsDefaults := ?d\<rparr>)"
  obtain e s2 where w: "persistTransportProfileStore io ?s1 = (e, s2)" by (cases "persistTransportProfileStore io ?s1")
  let ?s3 = "restoreStore env ?p (Some m) (tsDefaults s) s2"
  have ok1: "storeOk env ?s1"
    by (rule refreshAll_ok) (use ok storeOk_raw [OF ok] in \<open>auto simp: storeOk_def AList.distinct_delete AList.delete_conv' split: if_splits\<close>)
  note p = persist_fields [of io ?s1, unfolded w snd_conv]
  have d2: "distinct (List.map fst (tsProfiles s2))" using ok1 by (simp add: storeOk_def p)
  have rest: "map_of (tsProfiles s2) k = map_option (refreshManaged env (tsTunnels s) ?d) (map_of (tsProfiles s) k)"
    if "k \<noteq> ?p" for k using that by (simp add: p AList.delete_conv')
  have "sameStore s ?s3" "storeOk env ?s3"
    using restore_same [where pid = "?p", OF ok d2 rest] Some by (simp_all add: p)
  then have "e \<noteq> None \<Longrightarrow> safeStep env io s True ?s3" using write_safe(2) [OF w ok1, of s ?s3] by simp
  moreover have "e = None \<Longrightarrow> safeStep env io s False s2" using write_safe(1) [OF w ok1, of s] by simp
  ultimately show ?thesis using Some ok by (cases e) (auto simp: ForgetTransportProfile_def Let_def w)
qed (use ok in \<open>simp add: ForgetTransportProfile_def Let_def\<close>)

lemma no_profile_empty:
  assumes "storeOk env s" "wireGuardProfileOf s = None"
  shows "tsProfiles s = []"
proof (rule ccontr)
  assume "tsProfiles s \<noteq> []"
  then obtain k m ps where ps: "tsProfiles s = (k, m) # ps" by (cases "tsProfiles s") auto
  then have "tpKind (mpStatus m) = wireGuardKind" using storeOk_raw(1) [OF assms(1), of k m] by (simp add: rawOk_def)
  then show False using assms(2) ps by (simp add: wireGuardProfileOf_def)
qed

lemma legacy_safe:
  assumes ids: "goodIDs env" and ok: "storeOk env s" and none: "wireGuardProfileOf s = None"
  shows "safeStep env io s (failed (fst (storeInvalidLegacy env io now s))) (snd (storeInvalidLegacy env io now s))"
proof -
  let ?p = "teNewID env (tsNextID s)"
  let ?m = "\<lparr>mpStatus = invalidLegacyStatus now ?p, mpWireGuard = None\<rparr>"
  have e: "tsProfiles s = []" by (rule no_profile_empty [OF ok none])
  have raw: "rawOk ?p ?m" using ids by (simp add: rawOk_def goodIDs_def invalidLegacyStatus_def normalMaterial_def)
  let ?s = "s\<lparr>tsNextID := Suc (tsNextID s)\<rparr>"
  let ?s1 = "refreshOne env ?p (?s\<lparr>tsProfiles := [(?p, ?m)]\<rparr>)"
  have s1: "?s1 = refreshAll env (?s\<lparr>tsProfiles := AList.update ?p ?m (tsProfiles ?s), tsDefaults := tsDefaults ?s\<rparr>)"
    by (simp add: refreshOne_def refreshAll_def e)
  have ok1: "storeOk env ?s1" unfolding s1 by (rule install_ok [OF _ raw]) (use ok in simp_all)
  obtain x s2 where w: "persistTransportProfileStore io ?s1 = (x, s2)" by (cases "persistTransportProfileStore io ?s1")
  note p = persist_fields [of io ?s1, unfolded w snd_conv, unfolded s1]
  have conf: "tsEnabled ?s1 = tsEnabled s" "tsPath ?s1 = tsPath s" "tsTunnels ?s1 = tsTunnels s" "tsDisk ?s1 = tsDisk s"
    unfolding s1 by simp_all
  let ?s3 = "s2\<lparr>tsProfiles := AList.delete ?p (tsProfiles s2)\<rparr>"
  have none3: "tsProfiles ?s3 = []" by (simp add: p refreshAll_def e)
  have same: "sameStore s ?s3" using none3 by (simp add: sameStore_def p e)
  have "storeOk env ?s3" by (rule storeOk_maps [OF ok]) (use none3 same in \<open>simp_all add: sameStore_def e p\<close>)
  then have "x \<noteq> None \<Longrightarrow> safeStep env io s True ?s3" using write_safe(2) [OF w ok1 conf _ same] by simp
  moreover have "x = None \<Longrightarrow> safeStep env io s False s2" using write_safe(1) [OF w ok1 conf] by simp
  moreover have "statusOf ?p ?s1 \<noteq> None" unfolding s1 by (simp add: statusOf_def AList.update_conv')
  ultimately show ?thesis by (cases x) (auto simp: storeInvalidLegacy_def Let_def w e)
qed

lemma migrate_safe:
  assumes "goodIDs env" "storeOk env s"
  shows "safeStep env io s (failed (fst (MigrateWireGuardTransportProfile env io now path text s)))
      (snd (MigrateWireGuardTransportProfile env io now path text s))"
proof -
  have "safeStep env io s (failed (fst (storeParsed env io now legacyRequest w ''legacy_path'' True s)))
      (snd (storeParsed env io now legacyRequest w ''legacy_path'' True s))" if "parseProfile t = Inr w" for t w
    by (rule storeParsed_safe [OF assms]) (use that in \<open>simp_all add: legacyRequest_def parsed_normal\<close>)
  then show ?thesis
    using assms legacy_safe [OF assms]
    by (auto simp: MigrateWireGuardTransportProfile_def prod.case_eq_if split: option.splits sum.splits)
qed

section \<open>Opening the store\<close>

lemma loadRecord_raw:
  assumes "\<And>k m. map_of ps k = Some m \<Longrightarrow> rawOk k m" "map_of (loadRecord env r ps) k = Some m"
  shows "rawOk k m"
  using assms fromDisk_normal [of "snd r"]
  by (auto simp: loadRecord_def rawOk_def Let_def prod.case_eq_if isKnownTransportProfileKind_def wireGuardKind_def
      AList.update_conv' normalMaterial_def simp del: fromDisk_normal split: if_splits)

lemma loadRecords_raw:
  "(\<And>k m. map_of ps k = Some m \<Longrightarrow> rawOk k m) \<Longrightarrow>
     map_of (foldl (\<lambda>ps r. loadRecord env r ps) ps rs) k = Some m \<Longrightarrow> rawOk k m"
proof (induction rs arbitrary: ps)
  case (Cons r rs)
  have "rawOk j x" if "map_of (loadRecord env r ps) j = Some x" for j x
    by (rule loadRecord_raw [OF _ that]) (rule Cons.prems(1))
  then show ?case using Cons.IH [of "loadRecord env r ps"] Cons.prems(2) by simp
qed simp

lemma loadRecords_distinct:
  "distinct (List.map fst ps) \<Longrightarrow> distinct (List.map fst (foldl (\<lambda>ps r. loadRecord env r ps) ps rs))"
proof (induction rs arbitrary: ps)
  case (Cons r rs)
  have "distinct (List.map fst (loadRecord env r ps))"
    using Cons.prems by (simp add: loadRecord_def Let_def prod.case_eq_if AList.distinct_update)
  then show ?case using Cons.IH [of "loadRecord env r ps"] by simp
qed simp

lemma openStore_fields [simp]:
  "tsEnabled (openStore env on path cs n disk) = on" "tsPath (openStore env on path cs n disk) = TrimSpace path"
  "tsTunnels (openStore env on path cs n disk) = cs" "tsDisk (openStore env on path cs n disk) = disk"
  by (simp_all add: openStore_def loadTransportProfileStore_def Let_def split: option.split)

lemma openStore_ok: "storeOk env (openStore env on path cs n disk)"
proof -
  have empty: "storeOk env \<lparr>tsEnabled = on, tsPath = TrimSpace path, tsTunnels = cs, tsProfiles = [], tsDefaults = Map.empty,
      tsNextID = n, tsDisk = disk\<rparr>" by (simp add: storeOk_def)
  have raw: "rawOk k m" if "map_of (foldl (\<lambda>ps r. loadRecord env r ps) [] rs) k = Some m" for k m rs
    by (rule loadRecords_raw [OF _ that]) simp
  show ?thesis using empty unfolding openStore_def loadTransportProfileStore_def Let_def
    by (auto intro!: refreshAll_ok loadRecords_distinct raw split: option.splits if_splits)
qed

section \<open>Runs\<close>

definition candidateOk :: "importCandidate \<Rightarrow> bool" where
  "candidateOk c \<longleftrightarrow> cnProfileKind c = wireGuardKind \<and> normalMaterial (Some (cnWireGuard c))"

lemma resolved_candidate: "resolveImportCandidate env pe e p s = Inr c \<Longrightarrow> candidateOk c"
  by (auto simp: resolveImportCandidate_def candidateOf_def candidateOk_def Let_def prod.case_eq_if
      dest: payload_normal split: if_splits sum.splits)

text \<open>The outcome of the write of a call, if it has one.\<close>

fun callWrite :: "storeCall \<Rightarrow> writeOutcome" where
  "callWrite (CallImport io _ _) = io"
| "callWrite (CallSelect io _ _) = io"
| "callWrite (CallMigrate io _ _ _) = io"
| "callWrite (CallForget io _) = io"
| "callWrite (CallCreate io _ _ _) = io"
| "callWrite (CallUpdate io _ _ _ _) = io"
| "callWrite (CallConfirm io _ _) = io"
| "callWrite _ = Written"

definition runOk :: "storeEnv \<Rightarrow> bool \<Rightarrow> string \<Rightarrow> storeRun \<Rightarrow> bool" where
  "runOk env on path r \<longleftrightarrow>
     (case r of (s, cs, _) \<Rightarrow> storeOk env s \<and> tsEnabled s = on \<and> tsPath s = TrimSpace path \<and> list_all candidateOk cs)"

lemma doCall_safe:
  assumes "goodIDs env" "storeOk env s" "list_all candidateOk cs" "\<forall>ts. call \<noteq> RestartHost ts"
  shows "safeStep env (callWrite call) s (snd (snd (doCall env pe (s, cs, b) call))) (fst (doCall env pe (s, cs, b) call))"
proof -
  note ops = import_safe [OF assms(1,2)] validate_safe [OF assms(2)] select_safe [OF assms(2)] migrate_safe [OF assms(1,2)]
    forget_safe [OF assms(2)] draft_ops_safe [OF assms(1,2)]
  show ?thesis
  proof (cases call)
    case (CallForget io pid)
    show ?thesis unfolding CallForget by (simp add: prod.case_eq_if ops(5) del: not_None_eq)
  next
    case (CallResolveImport e p)
    then show ?thesis using assms(2) by (simp split: sum.split)
  next
    case (CallConfirm io now i)
    show ?thesis
    proof (cases "length cs \<le> i")
      case False
      then have "candidateOk (cs ! i)" using assms(3) by (simp add: list_all_length)
      then show ?thesis using False CallConfirm confirm_safe [OF assms(1,2), of "cs ! i" io now]
        by (simp add: prod.case_eq_if candidateOk_def)
    qed (use CallConfirm assms(2) in simp)
  qed (use assms(4) in \<open>simp_all add: prod.case_eq_if ops\<close>)
qed

lemma call_safe:
  assumes "goodIDs env" "storeOk env s" "list_all candidateOk cs" "\<forall>ts. call \<noteq> RestartHost ts"
    and r: "doCall env pe (s, cs, b) call = (s', cs', b')"
  shows "safeStep env (callWrite call) s b' s'" "list_all candidateOk cs'" "b' \<Longrightarrow> cs' = cs"
proof -
  show "safeStep env (callWrite call) s b' s'" using doCall_safe [OF assms(1-4), of pe b] unfolding r by simp
  show "list_all candidateOk cs'" "b' \<Longrightarrow> cs' = cs"
    using assms(3-5) resolved_candidate by (cases call; auto simp: prod.case_eq_if split: sum.splits if_splits)+
qed

lemma call_ok:
  assumes "goodIDs env" "runOk env on path r"
  shows "runOk env on path (doCall env pe r call)"
proof -
  obtain s cs b where r: "r = (s, cs, b)" by (metis prod_cases3)
  show ?thesis
  proof (cases "\<exists>ts. call = RestartHost ts")
    case True
    then show ?thesis using assms(2) by (auto simp: r runOk_def openStore_ok)
  next
    case False
    obtain s' cs' b' where c: "doCall env pe (s, cs, b) call = (s', cs', b')" by (metis prod_cases3)
    show ?thesis unfolding r c
      using call_safe(1,2) [OF assms(1) _ _ _ c] assms(2) False by (simp add: runOk_def r safeStep_def keepsOrder_def)
  qed
qed

lemma runs_ok:
  assumes "goodIDs env"
  shows "runOk env on path (runStore env pe on path tunnels disk calls)"
proof -
  have "runOk env on path r \<Longrightarrow> runOk env on path (foldl (doCall env pe) r calls)" for r
    by (induction calls arbitrary: r) (simp_all add: call_ok assms)
  then show ?thesis by (simp add: runStore_def runOk_def openStore_ok)
qed

text \<open>What the file says is what the store is, if JSON can carry it.\<close>

definition filed :: "storeEnv \<Rightarrow> transportStore \<Rightarrow> bool" where
  "filed env s \<longleftrightarrow> (jsonStore s \<longrightarrow> sameStore s (reopen env s))"

lemma sameStore_json: "sameStore s s' \<Longrightarrow> jsonStore s = jsonStore s'"
  by (simp add: sameStore_def jsonStore_def)

lemma openStore_number: "openStore env on path cs n disk = (openStore env on path cs m disk)\<lparr>tsNextID := n\<rparr>"
  by (simp add: openStore_def loadTransportProfileStore_def refreshAll_def Let_def split: option.split)

lemma sameStore_number: "sameStore (openStore env on path cs n disk) (openStore env on path cs m disk)"
  using openStore_number [of env on path cs n disk m] by (simp add: sameStore_def)

lemma openStore_path: "openStore env on (TrimSpace path) cs n disk = openStore env on path cs n disk"
  by (simp add: openStore_def)

lemma opened_filed: "filed env (openStore env on path cs n disk)"
  by (simp add: filed_def reopen_def openStore_path sameStore_number)

lemma settled_filed:
  assumes "filed env s" "settled s s'" "storeOk env s'" "tsEnabled s'" "trimmed (tsPath s')" "tsPath s' \<noteq> []"
    and json: "faithfulJSON env"
  shows "filed env s'"
proof (cases "sameStore s s' \<and> tsDisk s' = tsDisk s")
  case True
  then have "sameStore (reopen env s) (reopen env s')"
    unfolding reopen_def using sameStore_number by (simp add: sameStore_def [of s])
  then show ?thesis using True assms(1) sameStore_trans sameStore_json unfolding filed_def by metis
next
  case False
  then have "tsDisk s' = Some (storeToDisk s')" using assms(2,5,6) by (auto simp: settled_def trimmed_def)
  then show ?thesis unfolding filed_def using reopen_written [OF assms(3-6) _ json] by blast
qed

lemma runs_filed:
  assumes ids: "goodIDs env" and json: "faithfulJSON env" and path: "TrimSpace path \<noteq> []"
    and writes: "list_all (\<lambda>c. callWrite c \<noteq> WrittenUnprotected) calls"
  shows "filed env (fst (runStore env pe True path tunnels disk calls))"
proof -
  have "runOk env True path r \<Longrightarrow> filed env (fst r) \<Longrightarrow> filed env (fst (foldl (doCall env pe) r calls))" for r
    using writes
  proof (induction calls arbitrary: r)
    case (Cons c calls)
    obtain s cs b s' cs' b' where r: "r = (s, cs, b)" "doCall env pe r c = (s', cs', b')" by (metis prod_cases3)
    have ok: "runOk env True path (s', cs', b')" using call_ok [OF ids Cons.prems(1), of pe c] r by simp
    have "filed env s'"
    proof (cases "\<exists>ts. c = RestartHost ts")
      case True
      then show ?thesis using r opened_filed by auto
    next
      case False
      then have "safeStep env (callWrite c) s b' s'"
        using call_safe(1) [OF ids _ _ _ r(2) [unfolded r(1)]] Cons.prems(1) r(1) by (auto simp: runOk_def)
      then show ?thesis using settled_filed [of env s s', OF _ _ _ _ _ _ json] Cons.prems r(1) ok path
        by (auto simp: safeStep_def runOk_def trimmed_def)
    qed
    then show ?case using Cons.IH [OF ok] Cons.prems r by simp
  qed simp
  then show ?thesis unfolding runStore_def by (simp add: runOk_def openStore_ok opened_filed)
qed

end
