(* ===== verification/TransportSample.thy ===== *)
theory TransportSample
  imports TransportRuns
begin

text \<open>
  A small store to run: one tunnel with the WireGuard plan, identifiers that are a counter in unary,
  and a hash that is the identity.
\<close>

definition sampleStoreEnv :: storeEnv where
  "sampleStoreEnv =
     \<lparr>teHash = (\<lambda>s. s), teNewID = (\<lambda>n. replicate (Suc n) (CHR ''i'')), tePublicKey = (\<lambda>k. k), teIntOverflow = 0, teJSON = (\<lambda>d. d)\<rparr>"

definition samplePlan :: executionPlan where
  "samplePlan =
     \<lparr>xpAccessMethod = ''turn_credentials'', xpCarrierFamily = ''turn_datagram'', xpEngineFamily = ''wireguard_native'',
      xpHostAdapter = ''linux_tun''\<rparr>"

definition sampleTunnel :: tunnelCapability where
  "sampleTunnel =
     \<lparr>pcMode = ''m'', pcAvailable = True, pcSatisfied = [], pcUnderlayPolicies = [],
      pcPlans =
        [\<lparr>xdPlan = samplePlan, xdSupportState = ''supported'', xdEndpointFamily = [], xdEndpointRole = [], xdDefault = True,
          xdRequiresCapability = [], xdRequiredKinds = [], xdTransportProfile = None, xdMessage = []\<rparr>],
      pcMissing = []\<rparr>"

definition sampleConf :: string where
  "sampleConf =
     joinWith [CHR 0x0A]
       [''[Interface]'', ''PrivateKey = k'', ''Address = 10.0.0.2/32'', ''[Peer]'', ''PublicKey = p'',
        ''AllowedIPs = 0.0.0.0/0'', ''Endpoint = 1.2.3.4:5'']"

definition sampleImport :: importRequest where
  "sampleImport =
     \<lparr>iqAdapter = ''wireguard_conf'', iqKind = wireGuardKind, iqDisplayName = ''n'', iqMaterial = sampleConf,
      iqReplaceID = [], iqDefaultFor = None\<rparr>"

definition sampleWireGuard :: wgProfile where
  "sampleWireGuard =
     \<lparr>wgPrivateKey = ''k'', wgAddresses = [''10.0.0.2/32''], wgDNSServers = [], wgMTU = 1280, wgPeerPublicKey = ''p'',
      wgPresharedKey = [], wgAllowedIPs = [''0.0.0.0/0''], wgEndpoint = ''1.2.3.4:5'', wgKeepalive = 0\<rparr>"

lemma sample_parsed: "parseProfile sampleConf = Inr sampleWireGuard"
  by code_simp

text \<open>
  A cipher that writes the key in front, every byte of it marked; the JSON of one payload and of one
  envelope.
\<close>

fun markKey :: "byte list \<Rightarrow> byte list" where
  "markKey [] = [0]"
| "markKey (b # bs) = 1 # b # markKey bs"

definition sampleCipher :: portableEnv where
  "sampleCipher =
     \<lparr>ptKey = (\<lambda>p salt i m l. bytes_of p),
      ptSeal = (\<lambda>k n t a. markKey k @ bytes_of t),
      ptOpen = (\<lambda>k n c a. if prefix (markKey k) c then Some (string_of (drop (length (markKey k)) c)) else None),
      ptEncodePayload = (\<lambda>_. ''p''),
      ptDecodePayload = (\<lambda>_. Some \<lparr>plKind = wireGuardKind, plDisplayName = ''n'', plWireGuard = Some sampleWireGuard\<rparr>),
      ptEncodeEnvelope = (\<lambda>_. ''e''), ptDecodeEnvelope = (\<lambda>_. None), ptAAD = (\<lambda>_ _ _ _. []), ptEqualFold = (=)\<rparr>"

definition sampleNonce :: "byte list" where "sampleNonce = replicate 24 0"

definition samplePayload :: portablePayload where
  "samplePayload = \<lparr>plKind = wireGuardKind, plDisplayName = ''n'', plWireGuard = Some sampleWireGuard\<rparr>"

definition samplePortable :: portableEnv where
  "samplePortable = sampleCipher\<lparr>ptDecodeEnvelope := (\<lambda>_. Some (sealEnvelope sampleCipher [1] sampleNonce samplePayload ''w''))\<rparr>"

definition sampleRun :: "storeCall list \<Rightarrow> storeRun" where
  "sampleRun calls = runStore sampleStoreEnv samplePortable True ''/f'' [sampleTunnel] None calls"

definition sampleDraft :: "string \<Rightarrow> structuredDraft" where
  "sampleDraft key =
     \<lparr>sdKind = wireGuardKind, sdSchemaVersion = [], sdDisplayName = ''n'', sdFields = [(''mtu'', DraftText ''1400'')],
      sdSecretActions = [(''interface_private_key'', ''generate_host'')], sdPrivateKey = [], sdPrivateKeyAction = [],
      sdAddresses = [''10.0.0.2/32''], sdDNSServers = [''1.1.1.1''], sdMTU = 0,
      sdPeerPublicKey = key, sdPresharedKey = [], sdPresharedKeyAction = [],
      sdAllowedIPs = [''0.0.0.0/0''], sdEndpoint = ''h:5'', sdKeepalive = 25, sdDefaultFor = None\<rparr>"

text \<open>The marks tell keys apart.\<close>

lemma markKey_prefix: "prefix (markKey k') (markKey k @ t) \<Longrightarrow> k' = k"
proof (induction k arbitrary: k')
  case Nil
  then show ?case by (cases k') simp_all
next
  case (Cons b k)
  then show ?case by (cases k') auto
qed

lemma sample_cipher:
  "ptOpen samplePortable k n (ptSeal samplePortable k n t a) a = Some t" "ptSeal samplePortable k n t a \<noteq> []"
  "k \<noteq> k' \<Longrightarrow> ptOpen samplePortable k' n (ptSeal samplePortable k n t a) a = None"
proof -
  show "ptOpen samplePortable k n (ptSeal samplePortable k n t a) a = Some t"
    by (simp add: samplePortable_def sampleCipher_def)
  show "ptSeal samplePortable k n t a \<noteq> []" by (cases k) (simp_all add: samplePortable_def sampleCipher_def)
  show "k \<noteq> k' \<Longrightarrow> ptOpen samplePortable k' n (ptSeal samplePortable k n t a) a = None"
    using markKey_prefix [of k' k] by (auto simp: samplePortable_def sampleCipher_def)
qed

lemma sample_run: "sampleRun calls = (fst (sampleRun calls), fst (snd (sampleRun calls)), snd (snd (sampleRun calls)))"
  by simp

section \<open>What an import leaves\<close>

definition sampleEmpty :: transportStore where
  "sampleEmpty =
     \<lparr>tsEnabled = True, tsPath = ''/f'', tsTunnels = [sampleTunnel], tsProfiles = [], tsDefaults = Map.empty, tsNextID = 0,
      tsDisk = None\<rparr>"

lemma sampleEmpty_simps [simp]:
  "tsEnabled sampleEmpty" "tsPath sampleEmpty = ''/f''" "tsTunnels sampleEmpty = [sampleTunnel]" "tsProfiles sampleEmpty = []"
  "tsDefaults sampleEmpty = Map.empty" "tsNextID sampleEmpty = 0" "tsDisk sampleEmpty = None"
  by (simp_all add: sampleEmpty_def)

definition storedProfile :: "wgProfile \<Rightarrow> managedProfile" where
  "storedProfile w =
     \<lparr>mpStatus = (newStatus sampleStoreEnv 5 (sampleEmpty\<lparr>tsNextID := Suc 0\<rparr>) sampleImport w ''import_adapter'' ''i'')
        \<lparr>tpDefaultFor := [bindingFor ''i'' wireGuardKind samplePlan]\<rparr>,
      mpWireGuard = Some w\<rparr>"

definition sampleStored :: "wgProfile \<Rightarrow> transportStore" where
  "sampleStored w =
     (let s = refreshAll sampleStoreEnv (sampleEmpty\<lparr>tsNextID := Suc 0, tsProfiles := [(''i'', storedProfile w)],
            tsDefaults := [transportProfileDefaultScopeID samplePlan \<mapsto> ''i'']\<rparr>)
      in s\<lparr>tsDisk := Some (storeToDisk s)\<rparr>)"

lemma plain_words [simp]:
  "TrimSpace ''/f'' = ''/f''" "TrimSpace ''i'' = ''i''" "TrimSpace ''n'' = ''n''" "TrimSpace ''wireguard_conf'' = ''wireguard_conf''"
  "TrimSpace ''linux_tun'' = ''linux_tun''" "TrimSpace ''w'' = ''w''" "TrimSpace ''v'' = ''v''" "TrimSpace ''e'' = ''e''" "TrimSpace [] = []"
  by (rule TrimSpace_plain, simp add: go_spaces_def)+

lemma plain_constants [simp]:
  "TrimSpace ''portable_transport_profile'' = ''portable_transport_profile''"
  "TrimSpace ''argon2id_xchacha20poly1305_v1'' = ''argon2id_xchacha20poly1305_v1''" "TrimSpace ''argon2id'' = ''argon2id''"
  "TrimSpace wireGuardKind = wireGuardKind"
  unfolding wireGuardKind_def by (rule TrimSpace_plain, simp add: go_spaces_def)+

lemma sample_opened: "openStore sampleStoreEnv True ''/f'' [sampleTunnel] 0 None = sampleEmpty"
  by (simp add: openStore_def loadTransportProfileStore_def sampleEmpty_def)

lemma sample_strict [simp]: "isStrictWireGuardTurnExecutionPlan samplePlan"
  by (simp add: isStrictWireGuardTurnExecutionPlan_def samplePlan_def)

lemma sample_plans [simp]: "compatiblePlansForKind wireGuardKind [sampleTunnel] = [samplePlan]"
  by (simp add: compatiblePlansForKind_def sampleTunnel_def transportProfileCompatibleWithPlan_def)

lemma sample_newStatus:
  "tpValidation (newStatus env now s rq w src pid) = fst (transportProfileValidation env (iqKind rq) (Some w))"
  "tpID (newStatus env now s rq w src pid) = pid" "tpKind (newStatus env now s rq w src pid) = iqKind rq"
  by (simp_all add: newStatus_def prod.case_eq_if)

lemma sample_store:
  assumes "parseProfile text = Inr w" "TrimSpace text \<noteq> []" "fst (wireGuardValidation sampleStoreEnv (Some w)) = StateValid"
  shows "sampleRun [CallImport Written 5 (sampleImport\<lparr>iqMaterial := text\<rparr>)] = (sampleStored w, [], False)"
proof -
  let ?rq = "sampleImport\<lparr>iqMaterial := text\<rparr>"
  have n: "normalizeTransportProfileImportRequest ?rq = Inr (?rq, w)"
    using assms(1,2) by (simp add: normalizeTransportProfileImportRequest_def sampleImport_def Let_def)
  let ?s = "sampleEmpty\<lparr>tsNextID := Suc 0\<rparr>"
  let ?st = "newStatus sampleStoreEnv 5 ?s ?rq w ''import_adapter'' ''i''"
  have st: "?st = newStatus sampleStoreEnv 5 ?s sampleImport w ''import_adapter'' ''i''" by (simp add: newStatus_def)
  have k: "iqKind sampleImport = wireGuardKind" "iqReplaceID sampleImport = []" "iqDefaultFor sampleImport = None"
    by (simp_all add: sampleImport_def)
  have b: "bindsDefaults ?s ?rq ?st True"
    using assms(3) by (simp add: bindsDefaults_def sample_newStatus k transportProfileValidation_def)
  have i: "importedBindings ?s ?rq ?st True = [bindingFor ''i'' wireGuardKind samplePlan]"
    using assms(3) b by (simp add: importedBindings_def defaultBindingsForImported_def sample_newStatus k
        transportProfileValidation_def transportProfileCompatibleWithPlan_def)
  have d: "importedDefaults ?s ?rq ?st True = [transportProfileDefaultScopeID samplePlan \<mapsto> ''i'']"
    using b by (simp add: importedDefaults_def i sample_newStatus bindingFor_def)
  have c: "chosenID sampleStoreEnv sampleEmpty ?rq = (''i'', ?s)"
    by (simp add: chosenID_def k sampleStoreEnv_def)
  have "storeParsed sampleStoreEnv Written 5 ?rq w ''import_adapter'' True sampleEmpty = commitProfile sampleStoreEnv Written ''i'' ?s
     (refreshAll sampleStoreEnv (sampleEmpty\<lparr>tsNextID := Suc 0, tsProfiles := [(''i'', storedProfile w)],
            tsDefaults := [transportProfileDefaultScopeID samplePlan \<mapsto> ''i'']\<rparr>))"
    unfolding storeParsed_def c Let_def prod.case i d by (simp add: storedProfile_def st)
  moreover have "commitProfile sampleStoreEnv Written ''i'' ?s
     (refreshAll sampleStoreEnv (sampleEmpty\<lparr>tsNextID := Suc 0, tsProfiles := [(''i'', storedProfile w)],
            tsDefaults := [transportProfileDefaultScopeID samplePlan \<mapsto> ''i'']\<rparr>)) = (Inr x, sampleStored w)"
    if "x = mpStatus (refreshManaged sampleStoreEnv [sampleTunnel] [transportProfileDefaultScopeID samplePlan \<mapsto> ''i''] (storedProfile w))" for x
    using that by (simp add: commitProfile_def persistTransportProfileStore_def sampleStored_def statusOf_def Let_def)
  ultimately show ?thesis
    by (simp add: sampleRun_def runStore_def sample_opened ImportTransportProfile_def n)
qed

lemma sampleStored_simps [simp]:
  "tsEnabled (sampleStored w)" "tsPath (sampleStored w) = ''/f''" "tsTunnels (sampleStored w) = [sampleTunnel]"
  "tsDefaults (sampleStored w) = [transportProfileDefaultScopeID samplePlan \<mapsto> ''i'']"
  "tsProfiles (sampleStored w) =
     [(''i'', refreshManaged sampleStoreEnv [sampleTunnel] [transportProfileDefaultScopeID samplePlan \<mapsto> ''i''] (storedProfile w))]"
  by (simp_all add: sampleStored_def Let_def) (simp add: refreshAll_def)

lemma storedProfile_simps [simp]:
  "mpWireGuard (storedProfile w) = Some w" "tpID (mpStatus (storedProfile w)) = ''i''"
  "tpKind (mpStatus (storedProfile w)) = wireGuardKind"
  by (simp_all add: storedProfile_def sample_newStatus) (simp add: sampleImport_def)

text \<open>Two configurations that differ in their private key.\<close>

definition otherWireGuard :: wgProfile where
  "otherWireGuard = sampleWireGuard\<lparr>wgPrivateKey := ''j''\<rparr>"

definition otherConf :: string where
  "otherConf =
     joinWith [CHR 0x0A]
       [''[Interface]'', ''PrivateKey = j'', ''Address = 10.0.0.2/32'', ''[Peer]'', ''PublicKey = p'',
        ''AllowedIPs = 0.0.0.0/0'', ''Endpoint = 1.2.3.4:5'']"

lemma other_parsed: "parseProfile otherConf = Inr otherWireGuard"
  by code_simp

lemma sample_endpoint: "rawIngressEndpointOk ''1.2.3.4:5''"
  by code_simp

lemma sample_valid:
  "fst (wireGuardValidation sampleStoreEnv (Some sampleWireGuard)) = StateValid"
  "fst (wireGuardValidation sampleStoreEnv (Some otherWireGuard)) = StateValid"
proof -
  have t: "TrimSpace ''1.2.3.4:5'' = ''1.2.3.4:5''" "TrimSpace ''k'' = ''k''" "TrimSpace ''j'' = ''j''" "TrimSpace ''p'' = ''p''"
    by (rule TrimSpace_plain, simp add: go_spaces_def)+
  show "fst (wireGuardValidation sampleStoreEnv (Some sampleWireGuard)) = StateValid"
    "fst (wireGuardValidation sampleStoreEnv (Some otherWireGuard)) = StateValid"
    using sample_endpoint
    by (simp_all add: wireGuardValidation_def wireGuardProfileComplete_def sampleWireGuard_def otherWireGuard_def t)
qed

lemma conf_not_blank: "TrimSpace sampleConf \<noteq> []" "TrimSpace otherConf \<noteq> []"
  by code_simp+

lemma sample_runs:
  "sampleRun [CallImport Written 5 sampleImport] = (sampleStored sampleWireGuard, [], False)"
  "sampleRun [CallImport Written 5 (sampleImport\<lparr>iqMaterial := otherConf\<rparr>)] = (sampleStored otherWireGuard, [], False)"
proof -
  have "sampleImport\<lparr>iqMaterial := sampleConf\<rparr> = sampleImport" by (simp add: sampleImport_def)
  then show "sampleRun [CallImport Written 5 sampleImport] = (sampleStored sampleWireGuard, [], False)"
    using sample_store [OF sample_parsed conf_not_blank(1) sample_valid(1)] by simp
  show "sampleRun [CallImport Written 5 (sampleImport\<lparr>iqMaterial := otherConf\<rparr>)] = (sampleStored otherWireGuard, [], False)"
    by (rule sample_store [OF other_parsed conf_not_blank(2) sample_valid(2)])
qed

end
