(* ===== verification/TransportProperties.thy ===== *)
theory TransportProperties
  imports TransportSample
begin

text \<open>
  What the store of transport profiles promises its clients, in every state that calls, failing
  writes and restarts can lead to.
\<close>

section \<open>The listing\<close>

lemma sort_same:
  fixes f :: "'a \<Rightarrow> 'b :: linorder"
  assumes "distinct (List.map f xs)" "distinct (List.map f ys)" "set xs = set ys"
  shows "sort_key f xs = sort_key f ys"
proof (rule map_sorted_distinct_set_unique [where f = f])
  show "inj_on f (set (sort_key f xs) \<union> set (sort_key f ys))" using assms by (simp add: distinct_map)
  show "distinct (List.map f (sort_key f xs))" "distinct (List.map f (sort_key f ys))"
    using assms by (simp_all add: distinct_map)
qed (use assms in simp_all)

lemma listed_ids: "storeOk env s \<Longrightarrow> List.map (tpID \<circ> mpStatus \<circ> snd) (tsProfiles s) = List.map fst (tsProfiles s)"
proof -
  assume ok: "storeOk env s"
  have "tpID (mpStatus m) = k" if "(k, m) \<in> set (tsProfiles s)" for k m
  proof -
    have "map_of (tsProfiles s) k = Some m" using that ok by (simp add: storeOk_def)
    then show ?thesis using storeOk_raw(1) [OF ok, of k m] by (simp add: rawOk_def)
  qed
  then show ?thesis by auto
qed

text \<open>Two stores list the same statuses when they have the same ones under the same identifiers.\<close>

lemma listing_eq:
  assumes "storeOk env s" "storeOk env s'" "tsEnabled s = tsEnabled s'" "\<And>k. statusOf k s = statusOf k s'"
  shows "TransportProfiles s = TransportProfiles s'"
proof -
  let ?l = "\<lambda>s. List.map (mpStatus \<circ> snd) (tsProfiles s)"
  have d: "distinct (List.map fst (tsProfiles t)) \<and> distinct (List.map tpID (?l t))" if "storeOk env t" for t
  proof -
    have "List.map tpID (?l t) = List.map fst (tsProfiles t)" using listed_ids [OF that] by (simp only: List.map_map comp_assoc)
    then show ?thesis using that by (simp only: storeOk_def)
  qed
  have "set (?l t) = ran (\<lambda>k. statusOf k t)" if "storeOk env t" for t
  proof -
    have "x \<in> set (?l t) \<longleftrightarrow> (\<exists>k. statusOf k t = Some x)" for x
      using d [OF that] by (force simp: statusOf_def image_iff)
    then show ?thesis by (auto simp: ran_def)
  qed
  then have "set (?l s) = set (?l s')" using assms(1,2,4) by simp
  then have "sort_key tpID (?l s) = sort_key tpID (?l s')" using d [OF assms(1)] d [OF assms(2)] by (intro sort_same) auto
  then show ?thesis using assms(3) by (simp add: TransportProfiles_def)
qed

lemma listing_same: "storeOk env s \<Longrightarrow> storeOk env s' \<Longrightarrow> sameStore s s' \<Longrightarrow> TransportProfiles s = TransportProfiles s'"
  by (rule listing_eq) (simp_all add: sameStore_def statusOf_def)

lemma run_state: "goodIDs env \<Longrightarrow> runStore env pe on path tunnels disk calls = (s, cs, b) \<Longrightarrow>
    storeOk env s \<and> tsEnabled s = on \<and> tsPath s = TrimSpace path \<and> list_all candidateOk cs"
  using runs_ok [of env on path pe tunnels disk calls] by (simp add: runOk_def)

lemma sample_ids: "goodIDs sampleStoreEnv"
  unfolding goodIDs_def trimmed_def sampleStoreEnv_def
  by (auto intro!: TrimSpace_plain simp: go_spaces_def)

section \<open>Failing and restarting\<close>

text \<open>
  C15: in every state of a run, a call that fails leaves the store as it was: the same profiles and
  defaults, the same listing, the same resolved imports.  The file is the same too, unless the write
  failed after the rename.
\<close>
theorem failed_call_changes_nothing:
  assumes "goodIDs env" "runStore env pe on path tunnels disk calls = (s, cs, b)"
    and "doCall env pe (s, cs, b) call = (s', cs', True)"
  shows "sameStore s s' \<and> TransportProfiles s' = TransportProfiles s \<and> cs' = cs \<and>
    (callWrite call \<noteq> WrittenUnprotected \<longrightarrow> tsDisk s' = tsDisk s)"
proof -
  have ok: "storeOk env s" "list_all candidateOk cs" using run_state [OF assms(1,2)] by auto
  have "\<forall>ts. call \<noteq> RestartHost ts" using assms(3) by auto
  note c = call_safe [OF assms(1) ok this assms(3)]
  then have "sameStore s s'" "storeOk env s'" by (simp_all add: safeStep_def keepsOrder_def)
  then show ?thesis using c listing_same [OF ok(1)] by (simp add: safeStep_def)
qed

lemma failed_call_changes_nothing_witness:
  "\<exists>s s' cs'. sampleRun [CallImport Written 5 sampleImport] = (s, [], False) \<and>
     doCall sampleStoreEnv samplePortable (s, [], False) (CallForget NotWritten ''i'') = (s', cs', True) \<and>
     statusOf ''i'' s \<noteq> None \<and> sameStore s s' \<and> TransportProfiles s' = TransportProfiles s \<and> tsDisk s' = tsDisk s"
proof -
  let ?s = "sampleStored sampleWireGuard"
  obtain s' cs' where c: "doCall sampleStoreEnv samplePortable (?s, [], False) (CallForget NotWritten ''i'') = (s', cs', True)"
    by (simp add: ForgetTransportProfile_def persistTransportProfileStore_def Let_def)
  have "statusOf ''i'' ?s \<noteq> None" by (simp add: statusOf_def)
  then show ?thesis
    using c sample_runs(1) failed_call_changes_nothing [OF sample_ids sample_runs(1) [unfolded sampleRun_def] c] by simp
qed

text \<open>
  C16: a restart of a host that keeps its store in a file, with the same tunnels, finds the store as it was
  after any run in which no write failed after the rename, if JSON can carry the store: its texts are valid
  UTF-8 and its times of the years 0 to 9999.  Of JSON it is used that such texts and times come back as
  they were.
\<close>
theorem restart_loses_nothing:
  assumes "goodIDs env" "faithfulJSON env" "TrimSpace path \<noteq> []" "list_all (\<lambda>c. callWrite c \<noteq> WrittenUnprotected) calls"
    and "runStore env pe True path tunnels disk calls = (s, cs, b)" "jsonStore s"
    and "doCall env pe (s, cs, b) (RestartHost (tsTunnels s)) = (s', cs', b')"
  shows "sameStore s s' \<and> TransportProfiles s' = TransportProfiles s"
proof -
  have on: "tsEnabled s" "tsPath s = TrimSpace path" "storeOk env s" using run_state [OF assms(1,5)] by auto
  have "s' = reopen env s" using assms(7) by (simp add: reopen_def)
  then have "sameStore s s'" "storeOk env s'"
    using runs_filed [OF assms(1-4), of pe tunnels disk] assms(5,6) openStore_ok by (simp_all add: filed_def reopen_def)
  then show ?thesis using listing_same [OF on(3)] by simp
qed

lemma sample_faithful: "faithfulJSON sampleStoreEnv"
  by (simp add: faithfulJSON_def sameDocument_def sampleStoreEnv_def)

lemma sample_json: "jsonStore (sampleStored sampleWireGuard)"
proof -
  let ?m = "refreshManaged sampleStoreEnv [sampleTunnel] [transportProfileDefaultScopeID samplePlan \<mapsto> ''i''] (storedProfile sampleWireGuard)"
  have "jsonRecord (mpStatus ?m, mpWireGuard ?m)"
    by code_simp
  moreover have "ValidString (transportProfileDefaultScopeID samplePlan)" "ValidString ''i''" by code_simp+
  ultimately show ?thesis by (auto simp: jsonStore_def split: if_splits)
qed

lemma restart_loses_nothing_witness:
  "\<exists>s s'. sampleRun [CallImport Written 5 sampleImport] = (s, [], False) \<and>
     doCall sampleStoreEnv samplePortable (s, [], False) (RestartHost [sampleTunnel]) = (s', [], False) \<and>
     statusOf ''i'' s \<noteq> None \<and> sameStore s s' \<and> TransportProfiles s' = TransportProfiles s"
proof -
  let ?s = "sampleStored sampleWireGuard"
  obtain s' where c: "doCall sampleStoreEnv samplePortable (?s, [], False) (RestartHost (tsTunnels ?s)) = (s', [], False)" by simp
  have "statusOf ''i'' ?s \<noteq> None" by (simp add: statusOf_def)
  then show ?thesis
    using c sample_runs(1)
      restart_loses_nothing [OF sample_ids sample_faithful _ _ sample_runs(1) [unfolded sampleRun_def] sample_json c] by simp
qed

section \<open>Keys\<close>

text \<open>What a client may know of a profile: its identity and its material, and of a key that there is one.\<close>

definition maskKey :: "string \<Rightarrow> string" where
  "maskKey k = (if TrimSpace k = [] then [] else ''*'')"

definition maskKeys :: "wgProfile \<Rightarrow> wgProfile" where
  "maskKeys w = w\<lparr>wgPrivateKey := maskKey (wgPrivateKey w), wgPresharedKey := maskKey (wgPresharedKey w)\<rparr>"

definition statusIdentity :: "profileStatus \<Rightarrow> profileStatus" where
  "statusIdentity st =
     st\<lparr>tpValidation := StateInvalid, tpFingerprint := [], tpCompatibility := CompatUnknown, tpPlans := [],
       tpMaterialRef := [], tpActions := [], tpDefaultFor := [], tpDraft := None\<rparr>"

definition publicPart :: "managedProfile \<Rightarrow> profileStatus \<times> wgProfile option" where
  "publicPart m = (statusIdentity (mpStatus m), map_option maskKeys (mpWireGuard m))"

lemma mask_blank [simp]: "TrimSpace (maskKey k) = [] \<longleftrightarrow> TrimSpace k = []"
proof -
  have "TrimSpace ''*'' = ''*''" by (rule TrimSpace_plain) (auto simp: go_spaces_def)
  then show ?thesis by (simp add: maskKey_def)
qed

lemma mask_fields [simp]:
  "wgAddresses (maskKeys w) = wgAddresses w" "wgDNSServers (maskKeys w) = wgDNSServers w" "wgMTU (maskKeys w) = wgMTU w"
  "wgPeerPublicKey (maskKeys w) = wgPeerPublicKey w" "wgAllowedIPs (maskKeys w) = wgAllowedIPs w"
  "wgEndpoint (maskKeys w) = wgEndpoint w" "wgKeepalive (maskKeys w) = wgKeepalive w"
  "TrimSpace (wgPrivateKey (maskKeys w)) = [] \<longleftrightarrow> TrimSpace (wgPrivateKey w) = []"
  "TrimSpace (wgPresharedKey (maskKeys w)) = [] \<longleftrightarrow> TrimSpace (wgPresharedKey w) = []"
  by (simp_all add: maskKeys_def)

lemma mask_derived [simp]:
  "wireGuardProfileComplete (map_option maskKeys w) = wireGuardProfileComplete w"
  "transportProfileValidation env kind (map_option maskKeys w) = transportProfileValidation env kind w"
  "statusActions kind v (map_option maskKeys w) = statusActions kind v w"
  "redactedDraft kind name (map_option maskKeys w) = redactedDraft kind name w"
proof -
  show c: "wireGuardProfileComplete (map_option maskKeys w) = wireGuardProfileComplete w"
    by (cases w) (simp_all add: wireGuardProfileComplete_def)
  show "transportProfileValidation env kind (map_option maskKeys w) = transportProfileValidation env kind w"
    using c by (cases w) (simp_all add: transportProfileValidation_def wireGuardValidation_def wireGuardProfileFingerprint_def)
  show "statusActions kind v (map_option maskKeys w) = statusActions kind v w"
    by (simp add: statusActions_def portableExportAvailable_def c)
  show "redactedDraft kind name (map_option maskKeys w) = redactedDraft kind name w"
    by (cases w) (simp_all add: redactedDraft_def)
qed

lemma refresh_public:
  "refreshStatus env cs d (map_option maskKeys w) (statusIdentity st) = refreshStatus env cs d w st"
  by (simp add: refreshStatus_def statusIdentity_def Let_def prod.case_eq_if defaultBindingsFor_def)

lemma status_public:
  assumes "storeOk env s" "map_of (tsProfiles s) k = Some m"
  shows "mpStatus m = refreshStatus env (tsTunnels s) (tsDefaults s) (snd (publicPart m)) (fst (publicPart m))"
proof -
  have "refreshStatus env (tsTunnels s) (tsDefaults s) (mpWireGuard m) (mpStatus m) = mpStatus m"
    using storeOk_raw(2) [OF assms] by (metis refreshManaged_def managedProfile.select_convs(1) managedProfile.update_convs(1) managedProfile.surjective)
  then show ?thesis by (simp add: publicPart_def refresh_public)
qed

text \<open>
  C17: what a client can list does not depend on the keys.  Two reachable stores with the same tunnels
  and defaults, whose profiles agree in their identities and in their material with the keys masked,
  give the same listing.
\<close>
theorem listing_hides_keys:
  assumes "goodIDs env" "runStore env pe on path tunnels disk calls = (s, cs, b)"
    and "runStore env pe' on path' tunnels' disk' calls' = (s', cs', b')"
    and "tsTunnels s = tsTunnels s'" "tsDefaults s = tsDefaults s'"
    and "\<forall>k. map_option publicPart (map_of (tsProfiles s) k) = map_option publicPart (map_of (tsProfiles s') k)"
  shows "TransportProfiles s = TransportProfiles s'"
proof (rule listing_eq)
  note ok = run_state [OF assms(1,2)] run_state [OF assms(1,3)]
  show "storeOk env s" "storeOk env s'" "tsEnabled s = tsEnabled s'" using ok by simp_all
  fix k
  show "statusOf k s = statusOf k s'"
  proof (cases "map_of (tsProfiles s) k")
    case None
    then show ?thesis using spec [OF assms(6), of k] by (simp add: statusOf_def)
  next
    case (Some m)
    then obtain m' where m': "map_of (tsProfiles s') k = Some m'" "publicPart m = publicPart m'"
      using assms(6) by (cases "map_of (tsProfiles s') k") (metis option.distinct(1) option.map(2) option.map(1), metis option.inject option.map(2))
    then show ?thesis
      using status_public [of env s k m] status_public [of env s' k m'] ok Some assms(4,5) by (simp add: statusOf_def)
  qed
qed

lemma listing_hides_keys_witness:
  "\<exists>s s'. sampleRun [CallImport Written 5 sampleImport] = (s, [], False) \<and>
     sampleRun [CallImport Written 5 (sampleImport\<lparr>iqMaterial := otherConf\<rparr>)] = (s', [], False) \<and>
     materialOf ''i'' s \<noteq> materialOf ''i'' s' \<and> TransportProfiles s = TransportProfiles s'"
proof -
  let ?s = "sampleStored sampleWireGuard" and ?s' = "sampleStored otherWireGuard"
  have "map_option maskKeys (Some sampleWireGuard) = map_option maskKeys (Some otherWireGuard)"
    using mask_blank by (simp add: maskKeys_def maskKey_def sampleWireGuard_def otherWireGuard_def) code_simp
  then have p: "publicPart (refreshManaged env cs d (storedProfile sampleWireGuard)) = publicPart (refreshManaged env cs d (storedProfile otherWireGuard))" for env cs d
    by (simp add: publicPart_def refreshManaged_def refreshStatus_def statusIdentity_def storedProfile_def newStatus_def Let_def prod.case_eq_if)
  have "materialOf ''i'' ?s \<noteq> materialOf ''i'' ?s'"
    by (simp add: materialOf_def sampleWireGuard_def otherWireGuard_def)
  then show ?thesis
    using sample_runs listing_hides_keys [OF sample_ids sample_runs(1,2) [unfolded sampleRun_def]] p by simp
qed

section \<open>Startups\<close>

lemma validated_ref:
  assumes "storeOk env s" "validateTransportProfileRef s ref p req = Inr r"
  shows "\<exists>w. materialOf (rfProfileID r) s = Some w \<and> rfKind r = wireGuardKind \<and> wireGuardKind \<in> set req \<and>
    wireGuardProfileComplete (Some w) \<and> rawIngressEndpointOk (wgEndpoint w) \<and> isStrictWireGuardTurnExecutionPlan p"
proof -
  let ?pid = "TrimSpace (rfProfileID ref)"
  obtain m where m: "map_of (tsProfiles s) ?pid = Some m" "tpKind (mpStatus m) \<in> set req" "tpValidation (mpStatus m) = StateValid"
    "transportProfileCompatibleWithPlan (tpKind (mpStatus m)) p" "validateTransportProfileMaterialForPlan m p"
    "rfProfileID r = ?pid" "rfKind r = tpKind (mpStatus m)"
    using assms(2) by (auto simp: validateTransportProfileRef_def Let_def split: option.splits if_splits)
  have raw: "tpKind (mpStatus m) = wireGuardKind" using storeOk_raw(1) [OF assms(1) m(1)] by (simp add: rawOk_def)
  have "refreshStatus env (tsTunnels s) (tsDefaults s) (mpWireGuard m) (mpStatus m) = mpStatus m"
    using status_public [OF assms(1) m(1)] by (simp add: publicPart_def refresh_public)
  then have "fst (wireGuardValidation env (mpWireGuard m)) = StateValid"
    using m(3) raw refresh_fields(3) [of env "tsTunnels s" "tsDefaults s" "mpWireGuard m" "mpStatus m"]
    by (simp add: transportProfileValidation_def)
  then obtain w where "mpWireGuard m = Some w" "wireGuardProfileComplete (Some w)"
    by (cases "mpWireGuard m") (auto simp: wireGuardValidation_def split: if_splits)
  then show ?thesis using m raw
    by (auto simp: materialOf_def transportProfileCompatibleWithPlan_def validateTransportProfileMaterialForPlan_def)
qed

text \<open>
  C18: whatever profile a startup gets, by an explicit reference or as the default, is stored, has
  complete material of the kind the plan requires and an endpoint that is not the device itself, and
  the plan is the WireGuard one.  A startup gets no profile exactly when its plan requires none.
\<close>
theorem startup_profile_valid:
  assumes "goodIDs env" "runStore env pe on path tunnels disk calls = (s, cs, b)"
  shows "case resolveTransportProfileForStartup s explicit p required of
      Inl e \<Rightarrow> required \<noteq> [] \<or> isStrictWireGuardTurnExecutionPlan p
    | Inr None \<Rightarrow> required = [] \<and> \<not> isStrictWireGuardTurnExecutionPlan p
    | Inr (Some ref) \<Rightarrow> (\<exists>w. materialOf (rfProfileID ref) s = Some w \<and> rfKind ref = wireGuardKind \<and>
        (required = [] \<or> wireGuardKind \<in> set required) \<and> wireGuardProfileComplete (Some w) \<and>
        rawIngressEndpointOk (wgEndpoint w) \<and> isStrictWireGuardTurnExecutionPlan p)"
proof -
  have ok: "storeOk env s" using run_state [OF assms] by simp
  define req where "req = (if required = [] then requiredTransportProfileKindsForPlan p else required)"
  let ?r = "resolveTransportProfileForStartup s explicit p required"
  have none: "req = [] \<longleftrightarrow> required = [] \<and> \<not> isStrictWireGuardTurnExecutionPlan p"
    by (simp add: req_def requiredTransportProfileKindsForPlan_def)
  have sum: "map_sum id Some x = Inr y \<longleftrightarrow> (\<exists>r. x = Inr r \<and> y = Some r)" for x :: "storeError + profileReference" and y
    by (cases x) auto
  have ref: "\<exists>w. materialOf (rfProfileID r) s = Some w \<and> rfKind r = wireGuardKind \<and> wireGuardKind \<in> set req \<and>
    wireGuardProfileComplete (Some w) \<and> rawIngressEndpointOk (wgEndpoint w) \<and> isStrictWireGuardTurnExecutionPlan p"
    if r: "?r = Inr (Some r)" for r
  proof -
    from r obtain ref where "validateTransportProfileRef s ref p req = Inr r"
      by (auto simp: resolveTransportProfileForStartup_def Let_def sum req_def [symmetric] split: if_splits option.splits)
    then show ?thesis by (rule validated_ref [OF ok])
  qed
  have "?r = Inr None \<longleftrightarrow> req = []"
    by (auto simp: resolveTransportProfileForStartup_def Let_def sum req_def [symmetric] split: option.splits)
  moreover have "req = [] \<Longrightarrow> ?r = Inr None" by (simp add: resolveTransportProfileForStartup_def Let_def req_def [symmetric])
  moreover have "required \<noteq> [] \<Longrightarrow> req = required" by (simp add: req_def)
  ultimately show ?thesis using none ref by (auto split: sum.split option.split)
qed

lemma startup_profile_valid_witness:
  "\<exists>s ref w. sampleRun [CallImport Written 5 sampleImport] = (s, [], False) \<and>
     resolveTransportProfileForStartup s None samplePlan [] = Inr (Some ref) \<and> materialOf (rfProfileID ref) s = Some w \<and>
     wireGuardProfileComplete (Some w) \<and> rawIngressEndpointOk (wgEndpoint w)"
proof -
  let ?s = "sampleStored sampleWireGuard"
  have v: "tpValidation (mpStatus (refreshManaged sampleStoreEnv cs d (storedProfile sampleWireGuard))) = StateValid" for cs d
    using sample_valid(1) by (simp add: refreshManaged_def refresh_fields transportProfileValidation_def)
  have e: "rawIngressEndpointOk (wgEndpoint sampleWireGuard)" using sample_endpoint by (simp add: sampleWireGuard_def)
  have "\<exists>ref. resolveTransportProfileForStartup ?s None samplePlan [] = Inr (Some ref)"
    using e by (simp add: resolveTransportProfileForStartup_def requiredTransportProfileKindsForPlan_def validateTransportProfileRef_def
        defaultReference_def v transportProfileCompatibleWithPlan_def validateTransportProfileMaterialForPlan_def Let_def)
  then obtain ref where r: "resolveTransportProfileForStartup ?s None samplePlan [] = Inr (Some ref)" by blast
  show ?thesis
    using startup_profile_valid [where explicit = None and p = samplePlan and required = "[]", OF sample_ids sample_runs(1) [unfolded sampleRun_def]] r sample_runs(1) by auto
qed

lemma resolve_same: "sameStore s s' \<Longrightarrow> resolveTransportProfileForStartup s e p r = resolveTransportProfileForStartup s' e p r"
proof -
  assume same: "sameStore s s'"
  then have v: "validateTransportProfileRef s = validateTransportProfileRef s'"
    by (intro ext) (simp add: sameStore_def validateTransportProfileRef_def Let_def)
  have f: "tsDefaults s = tsDefaults s'" "tsEnabled s = tsEnabled s'" using same by (simp_all add: sameStore_def)
  show ?thesis unfolding resolveTransportProfileForStartup_def v f by (rule refl)
qed

lemma select_written:
  assumes ok: "storeOk env s" and sel: "SelectTransportProfileForStartup env io pid p s = (Inr st, s')"
  obtains m where "TrimSpace pid \<noteq> []" "tsEnabled s" "map_of (tsProfiles s) (TrimSpace pid) = Some m"
    "requiredKindsForPlan s p \<noteq> []"
    "validateTransportProfileRef s (planReference (TrimSpace pid) (tpKind (mpStatus m))) p (requiredKindsForPlan s p) =
       Inr (planReference (TrimSpace pid) (tpKind (mpStatus m)))"
    "persistTransportProfileStore io
       (refreshAll env (s\<lparr>tsDefaults := (tsDefaults s)(transportProfileDefaultScopeID p \<mapsto> TrimSpace pid)\<rparr>)) = (None, s')"
proof -
  obtain m where m: "TrimSpace pid \<noteq> []" "tsEnabled s" "map_of (tsProfiles s) (TrimSpace pid) = Some m"
    "requiredKindsForPlan s p \<noteq> []"
    "\<exists>r. validateTransportProfileRef s (planReference (TrimSpace pid) (tpKind (mpStatus m))) p (requiredKindsForPlan s p) = Inr r"
    "persistTransportProfileStore io
       (refreshAll env (s\<lparr>tsDefaults := (tsDefaults s)(transportProfileDefaultScopeID p \<mapsto> TrimSpace pid)\<rparr>)) = (None, s')"
    using sel by (auto simp: SelectTransportProfileForStartup_def Let_def split: if_splits option.splits sum.splits prod.splits)
  from m(3,5) have "validateTransportProfileRef s (planReference (TrimSpace pid) (tpKind (mpStatus m))) p (requiredKindsForPlan s p) =
       Inr (planReference (TrimSpace pid) (tpKind (mpStatus m)))"
    by (auto simp: validateTransportProfileRef_def planReference_def Let_def split: if_splits)
  then show thesis using that m by blast
qed

text \<open>
  The profile that is selected for a plan is the one its startups get, and it still is after a
  restart of a host that keeps its store in a file, if JSON can carry the store.
\<close>
theorem selection_is_used:
  assumes "goodIDs env" "runStore env pe on path tunnels disk calls = (s, cs, b)"
    and sel: "SelectTransportProfileForStartup env io pid p s = (Inr st, s')"
  defines "resolved \<equiv> \<lambda>t. resolveTransportProfileForStartup t None p (requiredKindsForPlan s p)"
  defines "selected \<equiv> \<lparr>rfProfileID = TrimSpace pid, rfKind = wireGuardKind, rfUseDefault = True,
      rfDefaultScopeID = TrimSpace (transportProfileDefaultScopeID p)\<rparr>"
  shows "resolved s' = Inr (Some selected) \<and>
    (TrimSpace path \<noteq> [] \<and> faithfulJSON env \<and> jsonStore s' \<longrightarrow> resolved (reopen env s') = Inr (Some selected))"
proof -
  note ok = run_state [OF assms(1,2)]
  have okS: "storeOk env s" using ok by simp
  obtain m where m: "TrimSpace pid \<noteq> []" "tsEnabled s" "map_of (tsProfiles s) (TrimSpace pid) = Some m"
    "requiredKindsForPlan s p \<noteq> []"
    "validateTransportProfileRef s (planReference (TrimSpace pid) (tpKind (mpStatus m))) p (requiredKindsForPlan s p) =
       Inr (planReference (TrimSpace pid) (tpKind (mpStatus m)))"
    "persistTransportProfileStore io
       (refreshAll env (s\<lparr>tsDefaults := (tsDefaults s)(transportProfileDefaultScopeID p \<mapsto> TrimSpace pid)\<rparr>)) = (None, s')"
    by (rule select_written [OF okS sel]) blast
  let ?d = "(tsDefaults s)(transportProfileDefaultScopeID p \<mapsto> TrimSpace pid)"
  let ?s1 = "refreshAll env (s\<lparr>tsDefaults := ?d\<rparr>)"
  note f = persist_fields [of io ?s1, unfolded m(6) snd_conv]
  have kind: "tpKind (mpStatus m) = wireGuardKind" using storeOk_raw(1) [OF okS m(3)] by (simp add: rawOk_def)
  have valid: "tpValidation (mpStatus (refreshManaged env (tsTunnels s) ?d m)) = tpValidation (mpStatus m)"
    using status_public [OF okS m(3)] refresh_fields(3) [of env "tsTunnels s" _ "mpWireGuard m" "mpStatus m"]
    by (metis refreshManaged_def managedProfile.select_convs(1) managedProfile.update_convs(1) managedProfile.surjective
        storeOk_raw(2) [OF okS m(3)])
  have "validateTransportProfileRef s' (defaultReference (TrimSpace pid) (transportProfileDefaultScopeID p)) p (requiredKindsForPlan s p) =
      Inr selected"
    using m(3,5) kind valid
    by (auto simp: validateTransportProfileRef_def validateTransportProfileMaterialForPlan_def f planReference_def
        defaultReference_def selected_def Let_def split: if_splits)
  then have now: "resolved s' = Inr (Some selected)"
    using m(1,2,4) by (simp add: resolved_def resolveTransportProfileForStartup_def f Let_def)
  have "sameStore s' (reopen env s')" if "TrimSpace path \<noteq> []" "faithfulJSON env" "jsonStore s'"
  proof (rule reopen_written)
    have "safeStep env io s False s'" using select_safe [OF okS, of io pid p] sel by simp
    then show "storeOk env s'" by (simp add: safeStep_def keepsOrder_def)
    show "faithfulJSON env" "jsonStore s'" using that by simp_all
    show "tsEnabled s'" "trimmed (tsPath s')" "tsPath s' \<noteq> []" using m(2) ok that by (simp_all add: f trimmed_def)
    then show "tsDisk s' = Some (storeToDisk s')" using persist_ok [OF m(6)] by (simp add: trimmed_def)
  qed
  then show ?thesis using now resolve_same unfolding resolved_def by metis
qed

end
