(* ===== verification/PortableProperties.thy ===== *)
theory PortableProperties
  imports TransportProperties
begin

text \<open>
  Portable transfer from one host to another, and what a draft must be to be accepted.
\<close>

section \<open>Transfer\<close>

text \<open>
  What the cipher and JSON do: what is sealed opens under its key and associated data and is not
  empty, and an envelope and the payload read back as they are written, the envelope without blanks
  around it.
\<close>

definition portableLaws :: "portableEnv \<Rightarrow> portablePayload \<Rightarrow> portableEnvelope \<Rightarrow> bool" where
  "portableLaws pe pl e \<longleftrightarrow>
     (\<forall>k n t a. ptOpen pe k n (ptSeal pe k n t a) a = Some t \<and> ptSeal pe k n t a \<noteq> []) \<and>
     ptDecodeEnvelope pe (ptEncodeEnvelope pe e) = Some e \<and>
     TrimSpace (ptEncodeEnvelope pe e) = ptEncodeEnvelope pe e \<and> ptEncodeEnvelope pe e \<noteq> [] \<and>
     ptDecodePayload pe (ptEncodePayload pe pl) = Some pl"

definition exportedPayload :: "managedProfile \<Rightarrow> portablePayload" where
  "exportedPayload m =
     \<lparr>plKind = tpKind (mpStatus m), plDisplayName = TrimSpace (tpDisplayName (mpStatus m)), plWireGuard = mpWireGuard m\<rparr>"

lemma open_sealed:
  assumes "portableLaws pe pl (sealEnvelope pe salt nonce pl pass)" "salt \<noteq> []" "length nonce = 24" "plKind pl = wireGuardKind"
  shows "decodeEnvelope pe (ptEncodeEnvelope pe (sealEnvelope pe salt nonce pl pass)) = Inr (sealEnvelope pe salt nonce pl pass)"
    "decryptEnvelope pe (sealEnvelope pe salt nonce pl pass) pass = Inr pl"
    "envelopeKey pe pass salt (pnKDF (sealEnvelope pe salt nonce pl pass)) \<noteq> envelopeKey pe pass' salt (pnKDF (sealEnvelope pe salt nonce pl pass)) \<Longrightarrow>
      (\<And>k k' n t a. k \<noteq> k' \<Longrightarrow> ptOpen pe k' n (ptSeal pe k n t a) a = None) \<Longrightarrow>
      decryptEnvelope pe (sealEnvelope pe salt nonce pl pass) pass' = Inl WrongPassphrase"
    "pnKind (sealEnvelope pe salt nonce pl pass) = wireGuardKind"
proof -
  have seal: "ptOpen pe k n (ptSeal pe k n t a) a = Some t" "ptSeal pe k n t a \<noteq> []" for k n t a
    using assms(1) by (auto simp: portableLaws_def)
  let ?e = "sealEnvelope pe salt nonce pl pass"
  have env: "ptDecodeEnvelope pe (ptEncodeEnvelope pe ?e) = Some ?e" using assms(1) by (simp add: portableLaws_def)
  have pay: "ptDecodePayload pe (ptEncodePayload pe pl) = Some pl" using assms(1) by (simp add: portableLaws_def)
  have n: "nonce \<noteq> []" using assms(3) by auto
  show "decodeEnvelope pe (ptEncodeEnvelope pe (sealEnvelope pe salt nonce pl pass)) = Inr (sealEnvelope pe salt nonce pl pass)"
    unfolding decodeEnvelope_def env using assms(2,4) n
    by (simp add: sealEnvelope_def seal Let_def) (simp add: wireGuardKind_def)
  show "decryptEnvelope pe (sealEnvelope pe salt nonce pl pass) pass = Inr pl"
    using assms(3) by (simp add: decryptEnvelope_def sealEnvelope_def Let_def envelopeAAD_def envelopeKey_def seal pay)
  show "decryptEnvelope pe (sealEnvelope pe salt nonce pl pass) pass' = Inl WrongPassphrase"
    if "envelopeKey pe pass salt (pnKDF (sealEnvelope pe salt nonce pl pass)) \<noteq> envelopeKey pe pass' salt (pnKDF (sealEnvelope pe salt nonce pl pass))"
      "\<And>k k' n t a. k \<noteq> k' \<Longrightarrow> ptOpen pe k' n (ptSeal pe k n t a) a = None"
    using assms(3) that by (simp add: decryptEnvelope_def sealEnvelope_def Let_def envelopeAAD_def envelopeKey_def)
  show "pnKind (sealEnvelope pe salt nonce pl pass) = wireGuardKind" using assms(4) by (simp add: sealEnvelope_def Let_def)
qed

text \<open>What an export requires of the profile.\<close>

lemma exported:
  assumes ok: "storeOk env s" and "ExportTransportProfilePortable pe salt nonce pid pass s = Inr text"
  obtains m w where "map_of (tsProfiles s) (TrimSpace pid) = Some m" "mpWireGuard m = Some w" "wireGuardProfileComplete (Some w)"
    "normalMaterial (Some w)" "fst (wireGuardValidation env (Some w)) = StateValid" "plKind (exportedPayload m) = wireGuardKind"
    "TrimSpace pass \<noteq> []" "text = ptEncodeEnvelope pe (sealEnvelope pe salt nonce (exportedPayload m) (TrimSpace pass))"
proof -
  obtain m where m: "map_of (tsProfiles s) (TrimSpace pid) = Some m" "TrimSpace pass \<noteq> []"
    "portableExportAvailable (tpKind (mpStatus m)) (tpValidation (mpStatus m)) (mpWireGuard m)"
    "text = ptEncodeEnvelope pe (sealEnvelope pe salt nonce (exportedPayload m) (TrimSpace pass))"
    using assms(2) by (auto simp: ExportTransportProfilePortable_def exportedPayload_def Let_def split: if_splits option.splits)
  obtain w where w: "mpWireGuard m = Some w" "wireGuardProfileComplete (Some w)"
    using m(3) by (cases "mpWireGuard m") (auto simp: portableExportAvailable_def wireGuardProfileComplete_def)
  note st = status_public [OF ok m(1)]
  have "tpValidation (mpStatus m) = fst (transportProfileValidation env (tpKind (mpStatus m)) (mpWireGuard m))"
    using st refresh_fields(3) [of env "tsTunnels s" "tsDefaults s" "mpWireGuard m" "mpStatus m"] by (simp add: publicPart_def refresh_public)
  then show thesis
    using that [OF m(1) w] m storeOk_raw(1) [OF ok m(1)] w
    by (auto simp: portableExportAvailable_def rawOk_def transportProfileValidation_def exportedPayload_def)
qed

lemma stored_material:
  assumes "goodIDs env" "storeOk env s0" "iqKind rq = wireGuardKind" "normalMaterial (Some w)"
    and "fst (storeParsed env io now rq w src a s0) = Inr st"
  shows "materialOf (tpID st) (snd (storeParsed env io now rq w src a s0)) = Some w"
    "tpValidation st = fst (wireGuardValidation env (Some w))"
proof -
  obtain pid s m d where c: "sameStore s0 s" "storeOk env s" "tsDisk s = tsDisk s0" "rawOk pid m" "mpWireGuard m = Some w"
    "\<And>scope q. d scope = Some q \<Longrightarrow> q = pid \<or> tsDefaults s scope = Some q"
    "storeParsed env io now rq w src a s0 = commitProfile env io pid s
       (refreshAll env (s\<lparr>tsProfiles := AList.update pid m (tsProfiles s), tsDefaults := d\<rparr>))"
    by (rule storeParsed_commit [OF assms(1-4), where io = io and now = now and src = src and a = a]) blast
  let ?s1 = "refreshAll env (s\<lparr>tsProfiles := AList.update pid m (tsProfiles s), tsDefaults := d\<rparr>)"
  have "persistTransportProfileStore io ?s1 = (None, snd (commitProfile env io pid s ?s1)) \<and> statusOf pid ?s1 = Some st"
    by (rule commit_ok(3) [OF c(2,4)]) (use c(6) assms(5) c(7) in simp_all)
  then have k: "tsProfiles (snd (commitProfile env io pid s ?s1)) = tsProfiles ?s1" "statusOf pid ?s1 = Some st"
    using persist_fields(1) [of io ?s1] by simp_all
  have id: "tpID (mpStatus m) = pid" "tpKind (mpStatus m) = wireGuardKind" using c(4) by (simp_all add: rawOk_def)
  then have st: "st = refreshStatus env (tsTunnels s) d (Some w) (mpStatus m)"
    using k(2) c(5) by (simp add: statusOf_def AList.update_conv' refreshManaged_def)
  show "materialOf (tpID st) (snd (storeParsed env io now rq w src a s0)) = Some w"
    unfolding c(7) materialOf_def k(1) by (simp add: st id AList.update_conv' c(5))
  show "tpValidation st = fst (wireGuardValidation env (Some w))"
    by (simp add: st refresh_fields id transportProfileValidation_def)
qed

lemma written_succeeds: "storeParsed env Written now rq w src a s = (r, s') \<Longrightarrow> \<exists>st. r = Inr st"
  by (auto simp: storeParsed_def commitProfile_def persistTransportProfileStore_def statusOf_def AList.update_conv' Let_def
      split: prod.splits if_splits)

text \<open>
  C19: a profile that is exported under a passphrase arrives with all its material, keys included, on
  a host that advertises a plan for it and does not have it yet, and it is valid there.
\<close>
theorem portable_round_trip:
  assumes "goodIDs env" "runStore env pe on path tunnels disk calls = (s, cs, b)"
    and "runStore env pe True path' tunnels' disk' calls' = (t, cs', b')"
    and "ExportTransportProfilePortable pe salt nonce pid pass s = Inr text" "map_of (tsProfiles s) (TrimSpace pid) = Some m"
    and "portableLaws pe (exportedPayload m) (sealEnvelope pe salt nonce (exportedPayload m) (TrimSpace pass))"
    and "salt \<noteq> []" "length nonce = 24"
    and "advertisedPlansForKind wireGuardKind (tsTunnels t) \<noteq> []"
    and "\<forall>w. mpWireGuard m = Some w \<longrightarrow> duplicateMatches env wireGuardKind (duplicateFingerprint env wireGuardKind w) t = []"
  shows "case ConfirmTransportProfilePortableImport env pe Written now text pass t t of
      (Inl _, _) \<Rightarrow> False
    | (Inr st, t') \<Rightarrow> tpValidation st = StateValid \<and> materialOf (tpID st) t' = materialOf (TrimSpace pid) s"
proof -
  note ok = run_state [OF assms(1,2)] run_state [OF assms(1,3)]
  have okS: "storeOk env s" and okT: "storeOk env t" "tsEnabled t" using ok by simp_all
  let ?e = "sealEnvelope pe salt nonce (exportedPayload m) (TrimSpace pass)"
  obtain w where x: "mpWireGuard m = Some w" "wireGuardProfileComplete (Some w)" "normalMaterial (Some w)"
    "fst (wireGuardValidation env (Some w)) = StateValid" "plKind (exportedPayload m) = wireGuardKind" "TrimSpace pass \<noteq> []"
    "text = ptEncodeEnvelope pe ?e"
    by (rule exported [OF okS assms(4)]) (use assms(5) in auto)
  note o = open_sealed [OF assms(6-8) x(5)]
  have "payloadWireGuard (exportedPayload m) = Inr w"
    using x(1-3,5) by (simp add: payloadWireGuard_def exportedPayload_def normalMaterial_def)
  then have "resolveImportCandidate env pe text pass t = candidateOf env pe t (exportedPayload m) w"
    using assms(6) okT x(6) o(1,2,4) by (simp add: resolveImportCandidate_def Let_def x(7) portableLaws_def)
  moreover obtain c k where "candidateOf env pe t (exportedPayload m) w = Inr c" "cnOutcome c = PreviewImportable k"
    "cnProfileKind c = wireGuardKind" "cnWireGuard c = w"
    using assms(9,10) x(1,5) by (auto simp: candidateOf_def Let_def prod.case_eq_if)
  moreover obtain r t' where r: "storeParsed env Written now (candidateRequest c) w ''portable_transfer'' False t = (r, t')" by force
  moreover obtain st where "r = Inr st" using written_succeeds [OF r] by blast
  ultimately have c: "ConfirmTransportProfilePortableImport env pe Written now text pass t t = (Inr st, t')"
    "iqKind (candidateRequest c) = wireGuardKind" "storeParsed env Written now (candidateRequest c) w ''portable_transfer'' False t = (Inr st, t')"
    using okT(2) by (simp_all add: ConfirmTransportProfilePortableImport_def confirmCandidate_def candidateRequest_def)
  have "fst (storeParsed env Written now (candidateRequest c) w ''portable_transfer'' False t) = Inr st" by (simp add: c(3))
  note sm = stored_material [OF assms(1) okT(1) c(2) x(3) this, unfolded c(3)]
  show ?thesis using sm x(1,4) assms(5) by (simp add: c(1) materialOf_def)
qed

text \<open>
  without the passphrase nothing is imported.  When the cipher rejects what was sealed under
  another key, a passphrase that derives another key is answered as wrong, and the store is untouched.
\<close>
theorem portable_needs_passphrase:
  assumes "goodIDs env" "runStore env pe on path tunnels disk calls = (s, cs, b)"
    and "ExportTransportProfilePortable pe salt nonce pid pass s = Inr text" "map_of (tsProfiles s) (TrimSpace pid) = Some m"
    and "portableLaws pe (exportedPayload m) (sealEnvelope pe salt nonce (exportedPayload m) (TrimSpace pass))"
    and "salt \<noteq> []" "length nonce = 24" "TrimSpace other \<noteq> []" "tsEnabled t"
    and "\<forall>k k' n x a. k \<noteq> k' \<longrightarrow> ptOpen pe k' n (ptSeal pe k n x a) a = None"
    and "ptKey pe (TrimSpace other) salt 3 65536 1 \<noteq> ptKey pe (TrimSpace pass) salt 3 65536 1"
  shows "PreviewTransportProfilePortableImport env pe text other t = Inr (PreviewBlocked WrongPassphrase) \<and>
    ConfirmTransportProfilePortableImport env pe io now text other t t' = (Inl ProfileInvalid, t')"
proof -
  have okS: "storeOk env s" using run_state [OF assms(1,2)] by simp
  let ?e = "sealEnvelope pe salt nonce (exportedPayload m) (TrimSpace pass)"
  have x: "plKind (exportedPayload m) = wireGuardKind" "text = ptEncodeEnvelope pe ?e"
    by (rule exported [OF okS assms(3)]; use assms(4) in auto)+
  note o = open_sealed [OF assms(5-7) x(1)]
  have "envelopeKey pe (TrimSpace pass) salt (pnKDF ?e) \<noteq> envelopeKey pe (TrimSpace other) salt (pnKDF ?e)"
    using assms(11) by (auto simp: envelopeKey_def sealEnvelope_def Let_def)
  then have "decryptEnvelope pe ?e (TrimSpace other) = Inl WrongPassphrase" using o(3) assms(10) by blast
  then have "resolveImportCandidate env pe text other t = Inl (PortableBlocked WrongPassphrase)"
    using assms(5,8,9) o(1,4) by (simp add: resolveImportCandidate_def Let_def x(2) portableLaws_def)
  then show ?thesis
    by (simp add: PreviewTransportProfilePortableImport_def ConfirmTransportProfilePortableImport_def)
qed

section \<open>A transfer\<close>

lemma sample_sealed: "sealEnvelope samplePortable salt nonce pl pass = sealEnvelope sampleCipher salt nonce pl pass"
  by (simp add: sealEnvelope_def samplePortable_def envelopeAAD_def envelopeKey_def Let_def)

lemma sample_exports:
  "map_of (tsProfiles (sampleStored sampleWireGuard)) ''i'' = Some m \<Longrightarrow> exportedPayload m = samplePayload"
  "ExportTransportProfilePortable samplePortable [1] sampleNonce ''i'' ''w'' (sampleStored sampleWireGuard) = Inr ''e''"
proof -
  have name: "tpDisplayName (mpStatus (refreshManaged sampleStoreEnv cs d (storedProfile sampleWireGuard))) = ''n''" for cs d
    by (simp add: refreshManaged_def storedProfile_def newStatus_def prod.case_eq_if sampleImport_def firstNonBlank_def)
  show "map_of (tsProfiles (sampleStored sampleWireGuard)) ''i'' = Some m \<Longrightarrow> exportedPayload m = samplePayload"
    by (auto simp: exportedPayload_def samplePayload_def name)
  have v: "tpValidation (mpStatus (refreshManaged sampleStoreEnv cs d (storedProfile sampleWireGuard))) = StateValid" for cs d
    using sample_valid(1) by (simp add: refreshManaged_def refresh_fields transportProfileValidation_def)
  have "wireGuardProfileComplete (Some sampleWireGuard)"
    using sample_valid(1) by (auto simp: wireGuardValidation_def split: if_splits)
  moreover have "ptEncodeEnvelope samplePortable e = ''e''" for e by (simp add: samplePortable_def sampleCipher_def)
  ultimately show "ExportTransportProfilePortable samplePortable [1] sampleNonce ''i'' ''w'' (sampleStored sampleWireGuard) = Inr ''e''"
    by (simp add: ExportTransportProfilePortable_def portableExportAvailable_def v Let_def)
qed

lemma sample_laws: "portableLaws samplePortable samplePayload (sealEnvelope samplePortable [1] sampleNonce samplePayload ''w'')"
proof -
  have "ptDecodeEnvelope samplePortable x = Some (sealEnvelope samplePortable [1] sampleNonce samplePayload ''w'')" for x
    unfolding sample_sealed by (simp add: samplePortable_def)
  moreover have "ptDecodePayload samplePortable x = Some samplePayload" "ptEncodeEnvelope samplePortable e = ''e''" for x e
    by (simp_all add: samplePortable_def sampleCipher_def samplePayload_def)
  ultimately show ?thesis using sample_cipher(1,2) by (simp add: portableLaws_def)
qed

lemma sample_empty_run: "runStore sampleStoreEnv samplePortable True ''/f'' [sampleTunnel] None [] = (sampleEmpty, [], False)"
  by (simp add: runStore_def sample_opened)

lemma portable_round_trip_witness:
  "\<exists>s text st t'. sampleRun [CallImport Written 5 sampleImport] = (s, [], False) \<and>
     ExportTransportProfilePortable samplePortable [1] sampleNonce ''i'' ''w'' s = Inr text \<and>
     ConfirmTransportProfilePortableImport sampleStoreEnv samplePortable Written 6 text ''w'' sampleEmpty sampleEmpty = (Inr st, t') \<and>
     tpValidation st = StateValid \<and> materialOf (tpID st) t' = Some sampleWireGuard"
proof -
  let ?s = "sampleStored sampleWireGuard"
  obtain m where m: "map_of (tsProfiles ?s) (TrimSpace ''i'') = Some m" by simp
  have e: "exportedPayload m = samplePayload" using sample_exports(1) m by simp
  have plans: "advertisedPlansForKind wireGuardKind (tsTunnels sampleEmpty) \<noteq> []"
    by (simp add: advertisedPlansForKind_def sampleTunnel_def isSupported_def transportProfileCompatibleWithPlan_def)
  have dup: "\<forall>w. mpWireGuard m = Some w \<longrightarrow>
      duplicateMatches sampleStoreEnv wireGuardKind (duplicateFingerprint sampleStoreEnv wireGuardKind w) sampleEmpty = []"
    by (simp add: duplicateMatches_def)
  have "materialOf ''i'' ?s = Some sampleWireGuard" by (simp add: materialOf_def)
  then show ?thesis
    using portable_round_trip [where now = 6, OF sample_ids sample_runs(1) [unfolded sampleRun_def] sample_empty_run sample_exports(2) m _ _ _ plans dup]
      sample_laws sample_runs(1) sample_exports(2) by (auto simp: e sampleNonce_def split: prod.splits sum.splits)
qed

lemma portable_needs_passphrase_witness:
  "\<exists>s text. sampleRun [CallImport Written 5 sampleImport] = (s, [], False) \<and>
     ExportTransportProfilePortable samplePortable [1] sampleNonce ''i'' ''w'' s = Inr text \<and>
     PreviewTransportProfilePortableImport sampleStoreEnv samplePortable text ''v'' sampleEmpty = Inr (PreviewBlocked WrongPassphrase)"
proof -
  let ?s = "sampleStored sampleWireGuard"
  obtain m where m: "map_of (tsProfiles ?s) (TrimSpace ''i'') = Some m" by simp
  have e: "exportedPayload m = samplePayload" using sample_exports(1) m by simp
  have k: "ptKey samplePortable (TrimSpace ''v'') [1] 3 65536 1 \<noteq> ptKey samplePortable (TrimSpace ''w'') [1] 3 65536 1"
    by (simp add: samplePortable_def sampleCipher_def bytes_of_def)
  have c: "\<forall>k k' n x a. k \<noteq> k' \<longrightarrow> ptOpen samplePortable k' n (ptSeal samplePortable k n x a) a = None"
    using sample_cipher(3) by blast
  show ?thesis
    using portable_needs_passphrase [where other = "''v''" and t = sampleEmpty, OF sample_ids sample_runs(1) [unfolded sampleRun_def] sample_exports(2) m _ _ _ _ _ c k]
      sample_laws sample_runs(1) sample_exports(2) by (auto simp: e sampleNonce_def)
qed

end
