(* ===== verification/DraftProperties.thy ===== *)
theory DraftProperties
  imports TransportSample
begin

text \<open>
  What a structured draft must be to be accepted.
\<close>

section \<open>Drafts\<close>

lemma requiredList_none: "requiredList f vs = [] \<longleftrightarrow> vs \<noteq> [] \<and> list_all isPrefixText vs"
  by (auto simp: requiredList_def validatePrefixes_def list_all_iff filter_empty_conv)

lemma requiredText_none: "requiredText f ok s = [] \<longleftrightarrow> s \<noteq> [] \<and> ok s"
  by (simp add: requiredText_def)

lemma validateAddrs_none: "validateAddrs f vs = [] \<longleftrightarrow> list_all (\<lambda>v. ParseAddr v \<noteq> None) vs"
  by (auto simp: validateAddrs_def list_all_iff filter_empty_conv)

lemma generatedKey_ok:
  assumes "length bs = 32" shows "base64KeyOk (stdEncode (clampKey bs))" "stdEncode (clampKey bs) \<noteq> []"
proof -
  have l: "length (clampKey bs) = 32" using assms by (simp add: clampKey_def Let_def)
  then show "base64KeyOk (stdEncode (clampKey bs))" by (simp add: base64KeyOk_def)
  show "stdEncode (clampKey bs) \<noteq> []" using stdDecode_stdEncode [of "clampKey bs"] stdDecode_stdEncode [of "[]"] l
    by (metis list.size(3) option.inject stdEncode_def b64Groups.simps(4) b64Padding_def mod_0 zero_neq_one zero_neq_numeral append_Nil)
qed

lemma generatedPair_ok:
  assumes "\<forall>bs. random = Some bs \<longrightarrow> length bs = 32" "generateWireGuardKeyPair env random = Some kp"
  shows "base64KeyOk (fst kp)" "fst kp \<noteq> []"
proof -
  obtain bs where "random = Some bs" "kp = (stdEncode (clampKey bs), stdEncode (tePublicKey env (clampKey bs)))"
    using assms(2) by (auto simp: generateWireGuardKeyPair_def)
  then show "base64KeyOk (fst kp)" "fst kp \<noteq> []" using assms(1) generatedKey_ok by simp_all
qed

lemma malformedKey_none [simp]: "malformedKey f k = [] \<longleftrightarrow> base64KeyOk k"
  by (simp add: malformedKey_def)

text \<open>The choice between a generated, an old and a submitted key, with its conditions abstracted.\<close>

lemma key_choice:
  assumes "mal = [] \<Longrightarrow> ok sub" "\<And>kp. g = Some kp \<Longrightarrow> ok (fst kp) \<and> fst kp \<noteq> []"
    and "r = (if c1 then (es @ [x], [], []) else if c2 then
        (case g of None \<Rightarrow> (es @ [x2], [], []) | Some kp \<Rightarrow> (es, fst kp, h kp))
      else if c3 then (if old = [] then (es @ [x], [], []) else (es, old, []))
      else if c4 then (if sub = [] then (es @ [x3], [], []) else (es @ mal, sub, []))
      else if sub \<noteq> [] then (es @ mal, sub, []) else if old \<noteq> [] then (es, old, []) else (es @ [x3], [], []))"
    and "fst r = []"
  shows "fst (snd r) \<noteq> [] \<and> (ok (fst (snd r)) \<or> fst (snd r) = old)"
  using assms by (auto split: if_splits option.splits)

lemma privateKey_accepted:
  fixes env random d w
  assumes "\<forall>bs. random = Some bs \<longrightarrow> length bs = 32"
  defines "r \<equiv> normalizeStructuredPrivateKey env random d w"
  shows "fst r = [] \<Longrightarrow> fst (snd r) \<noteq> [] \<and> (base64KeyOk (fst (snd r)) \<or> fst (snd r) = existingKey wgPrivateKey w)"
  by (rule key_choice [OF _ _ meta_eq_to_obj_eq [OF r_def [unfolded normalizeStructuredPrivateKey_def Let_def prod.case_eq_if]]])
    (use generatedPair_ok [OF assms(1), of env] in simp_all)

lemma shared_key_choice:
  assumes "mal = [] \<Longrightarrow> ok sub"
    and "r = (if c1 then (es @ [x], []) else if c2 then (es @ [x], [])
      else if c3 then (if c5 then (es @ [x], []) else (es, old))
      else if sub \<noteq> [] then (es @ mal, sub) else if c4 then (es, []) else (es, old))"
    and "fst r = []"
  shows "snd r = [] \<or> ok (snd r) \<or> snd r = old"
  using assms by (auto split: if_splits)

lemma presharedKey_accepted:
  fixes d w
  defines "r \<equiv> normalizeStructuredPresharedKey d w"
  shows "fst r = [] \<Longrightarrow> snd r = [] \<or> base64KeyOk (snd r) \<or> snd r = existingKey wgPresharedKey w"
  by (rule shared_key_choice [OF _ meta_eq_to_obj_eq [OF r_def [unfolded normalizeStructuredPresharedKey_def Let_def prod.case_eq_if]]])
    simp_all

lemma out_of_range_none: "(if a < l \<or> u < a then [e] else []) = [] \<longleftrightarrow> l \<le> a \<and> a \<le> (u :: int)"
  by auto

text \<open>
  C20: a draft that is accepted is a profile within bounds: MTU and keepalive in range, addresses and
  allowed networks present and well formed, name servers that are addresses, an endpoint with a host
  and a port, and keys of 32 bytes in base64 unless they are those the profile had already.
\<close>
theorem accepted_draft_bounds:
  assumes "normalizeStructuredWireGuardDraft env random d existing = Inr (rq, w, gen)"
    and "\<forall>bs. random = Some bs \<longrightarrow> length bs = 32"
  shows "576 \<le> wgMTU w \<and> wgMTU w \<le> 9000 \<and> 0 \<le> wgKeepalive w \<and> wgKeepalive w \<le> 65535 \<and>
    wgAddresses w \<noteq> [] \<and> list_all isPrefixText (wgAddresses w) \<and> wgAllowedIPs w \<noteq> [] \<and> list_all isPrefixText (wgAllowedIPs w) \<and>
    list_all (\<lambda>a. ParseAddr a \<noteq> None) (wgDNSServers w) \<and> base64KeyOk (wgPeerPublicKey w) \<and>
    validateWireGuardEndpoint (wgEndpoint w) \<and> wgPrivateKey w \<noteq> [] \<and>
    (base64KeyOk (wgPrivateKey w) \<or> wgPrivateKey w = existingKey wgPrivateKey existing) \<and>
    (wgPresharedKey w = [] \<or> base64KeyOk (wgPresharedKey w) \<or> wgPresharedKey w = existingKey wgPresharedKey existing) \<and>
    wireGuardProfileComplete (Some w)"
proof -
  note r = Inr_cases [OF assms(1) [unfolded normalizeStructuredWireGuardDraft_def Let_def prod.case_eq_if]]
  note none = conjunct1 [OF r, unfolded append_is_Nil_conv not_not requiredList_none requiredText_none validateAddrs_none out_of_range_none]
  note parts = conjunct2 [OF r]
  show ?thesis
    using parts none privateKey_accepted [OF assms(2), of env d existing] presharedKey_accepted [of d existing]
      privateKey_trimmed [of env random d existing] stringField_trimmed [of d "''peer_public_key''" "sdPeerPublicKey d"]
    by (simp add: wireGuardProfileComplete_def trimmed_def)
qed

section \<open>A draft\<close>

lemma draft_words:
  "TrimSpace ''generate_host'' = ''generate_host''" "TrimSpace ''10.0.0.2/32'' = ''10.0.0.2/32''" "TrimSpace ''0.0.0.0/0'' = ''0.0.0.0/0''"
  "TrimSpace ''1.1.1.1'' = ''1.1.1.1''" "TrimSpace ''h:5'' = ''h:5''" "TrimSpace ''1400'' = ''1400''"
  by (rule TrimSpace_plain, simp add: go_spaces_def)+

lemma draft_values:
  "isPrefixText ''10.0.0.2/32''" "isPrefixText ''0.0.0.0/0''" "ParseAddr ''1.1.1.1'' \<noteq> None" "validateWireGuardEndpoint ''h:5''"
  "Atoi ''1400'' = Some 1400"
  by code_simp+

lemma sample_private:
  "normalizeStructuredPrivateKey env (Some bs) (sampleDraft key) None =
     ([], stdEncode (clampKey bs), [generatedKeyOf env (stdEncode (tePublicKey env (clampKey bs)))])"
  by (simp add: normalizeStructuredPrivateKey_def secretActionForField_def normalizeSecretUpdateAction_def draft_words
      structuredStringField_def generateWireGuardKeyPair_def sampleDraft_def Let_def)

lemma sample_preshared: "normalizeStructuredPresharedKey (sampleDraft key) None = ([], [])"
  by (simp add: normalizeStructuredPresharedKey_def secretActionForField_def normalizeSecretUpdateAction_def
      structuredStringField_def existingKey_def sampleDraft_def Let_def)

lemma sample_submitted: "validateSubmittedStructuredFields (sampleDraft key) = []" "draftKind (sampleDraft key) = wireGuardKind"
proof -
  have k: "wireGuardKind \<noteq> []" by (simp add: wireGuardKind_def)
  then show d: "draftKind (sampleDraft key) = wireGuardKind" by (simp add: draftKind_def sampleDraft_def)
  show "validateSubmittedStructuredFields (sampleDraft key) = []"
    unfolding validateSubmittedStructuredFields_def d Let_def
    by (simp add: sampleDraft_def submittedFieldError_def submittedActionError_def structuredField_def structuredFields_def
        normalizeSecretUpdateAction_def draft_words)
qed

lemma sample_accepted:
  assumes "length raw = 32"
  shows "\<exists>r. normalizeStructuredWireGuardDraft env (Some bs) (sampleDraft (stdEncode raw)) None = Inr r \<and> wgMTU (fst (snd r)) = 1400"
proof -
  have ok: "base64KeyOk (stdEncode raw)" "stdEncode raw \<noteq> []"
  proof -
    show "base64KeyOk (stdEncode raw)" using assms by (simp add: base64KeyOk_def)
    then show "stdEncode raw \<noteq> []" using assms stdDecode_stdEncode [of raw] by (auto simp: stdDecode_def noBreaks_def b64Body_def b64Values_def)
  qed
  have d: "trimStringList [''10.0.0.2/32''] = [''10.0.0.2/32'']" "trimStringList [''0.0.0.0/0''] = [''0.0.0.0/0'']"
    "trimStringList [''1.1.1.1''] = [''1.1.1.1'']"
    by (simp_all add: trimStringList_def draft_words)
  have f: "sdFields (sampleDraft k) = [(''mtu'', DraftText ''1400'')]" "sdAddresses (sampleDraft k) = [''10.0.0.2/32'']"
    "sdDNSServers (sampleDraft k) = [''1.1.1.1'']" "sdPeerPublicKey (sampleDraft k) = k" "sdAllowedIPs (sampleDraft k) = [''0.0.0.0/0'']"
    "sdEndpoint (sampleDraft k) = ''h:5''" "sdKeepalive (sampleDraft k) = 25" "sdDefaultFor (sampleDraft k) = None"
    "sdSchemaVersion (sampleDraft k) = []" for k
    by (simp_all add: sampleDraft_def)
  show ?thesis
    unfolding normalizeStructuredWireGuardDraft_def Let_def prod.case_eq_if sample_private sample_preshared sample_submitted
    using ok draft_values
    by (simp add: structuredStringListField_def structuredStringField_def structuredIntField_def numberOr0_def f d draft_words
        requiredList_def requiredText_def validatePrefixes_def validateAddrs_def)
qed

lemma accepted_draft_bounds_witness:
  "\<exists>rq w gen. normalizeStructuredWireGuardDraft sampleStoreEnv (Some (replicate 32 3)) (sampleDraft (stdEncode (replicate 32 7))) None =
       Inr (rq, w, gen) \<and> wgMTU w = 1400 \<and> base64KeyOk (wgPeerPublicKey w) \<and> wireGuardProfileComplete (Some w)"
proof -
  obtain rq w gen where r: "normalizeStructuredWireGuardDraft sampleStoreEnv (Some (replicate 32 3)) (sampleDraft (stdEncode (replicate 32 7))) None =
      Inr (rq, w, gen)" "wgMTU w = 1400"
    using sample_accepted [of "replicate 32 7" sampleStoreEnv "replicate 32 3"] by auto
  then show ?thesis using accepted_draft_bounds [OF r(1)] by simp
qed

end
