(* ===== verification/TransportCompat.thy ===== *)
theory TransportCompat
  imports HostResolutions TransportOps
begin

text \<open>
  Compatibility of a provider artifact with a transport
  (\<^verbatim>\<open>pkg/clientcontrol/provider_transport_compatibility.go\<close>): the candidates a host offers for a
  resolution, the axis on which a candidate fails, and the profile it would start with.  Statuses,
  axes and reason codes are constructors; \<open>StatusOther\<close>, \<open>AxisOther\<close> and \<open>ReasonOther\<close> are texts of no
  constant, as they come from outside.  Texts for humans are left out.  The argument \<open>hash\<close> stands for
  the hexadecimal first eight bytes of a SHA-256.
\<close>

section \<open>The data\<close>

datatype compatStatus =
    StatusStartable
  | StatusSetupNeeded
  | StatusUnsupported
  | StatusStale
  | StatusDegraded
  | StatusMissingEvidence
  | StatusUnavailable
  | StatusOther string

datatype failingAxis =
    AxisNone
  | AxisProviderSource
  | AxisProviderArtifact
  | AxisArtifactAccessMethod
  | AxisCarrierFamily
  | AxisEngineFamily
  | AxisHostAdapter
  | AxisTransportProfile
  | AxisDegradedPolicy
  | AxisEvidence
  | AxisHostCapability
  | AxisOther string

datatype reasonCode =
    ReasonNone
  | ReasonReady
  | ReasonProviderSourceRequired
  | ReasonProviderSourceNotFound
  | ReasonProviderSourceNotResolved
  | ReasonProviderArtifactMissing
  | ReasonProviderArtifactStale
  | ReasonProviderArtifactDegraded
  | ReasonProviderArtifactUnavailable
  | ReasonProviderArtifactUnsupported
  | ReasonArtifactAccessMethodUnsupported
  | ReasonCarrierFamilyUnsupported
  | ReasonEngineFamilyUnsupported
  | ReasonHostAdapterUnsupported
  | ReasonHostAdapterUnavailable
  | ReasonHostCapabilityMissing
  | ReasonRuntimePlanRequired
  | ReasonRuntimePlanUnsupported
  | ReasonRuntimePlanUnavailable
  | ReasonRuntimePlanExperimental
  | ReasonTransportProfileRequired
  | ReasonTransportProfileMissing
  | ReasonTransportProfileUnselected
  | ReasonTransportProfileStale
  | ReasonTransportProfileInvalid
  | ReasonTransportProfileIncompatibleKind
  | ReasonTransportProfileStoreUnavailable
  | ReasonDegradedPolicyRequired
  | ReasonEvidenceMissing
  | ReasonOther string

record sourceRef =
  soProviderID :: string
  soSourceID :: string
  soResolutionID :: string

record artifactRef =
  afProviderID :: string
  afResolutionID :: string
  afFamily :: string
  afAccessMethods :: "string list"
  afExpiresAt :: "instant option"

record startupReference =
  suCandidateID :: string
  suSource :: "sourceRef option"
  suArtifact :: "artifactRef option"
  suPlan :: "executionPlan option"
  suProfile :: "profileReference option"

record compatRequest =
  cqResolutionID :: string
  cqCandidateID :: string
  cqSource :: "sourceRef option"
  cqArtifact :: "artifactRef option"
  cqPlan :: "executionPlan option"
  cqProfile :: "profileReference option"
  cqRequireEvidence :: bool
  cqAllowDegraded :: bool

record compatCandidate =
  ccID :: string
  ccSource :: sourceRef
  ccArtifact :: "artifactRef option"
  ccPlan :: planDescriptor
  ccRequiredKinds :: "string list"
  ccProfile :: "profileReference option"
  ccStatus :: compatStatus
  ccStartable :: bool
  ccAxis :: failingAxis
  ccReason :: reasonCode

record compatFailure =
  cfCandidateID :: string
  cfStatus :: compatStatus
  cfAxis :: failingAxis
  cfReason :: reasonCode

text \<open>Why a candidate fails.\<close>

type_synonym verdict = "compatStatus \<times> failingAxis \<times> reasonCode"

section \<open>Known values\<close>

fun isKnownStatus :: "compatStatus \<Rightarrow> bool" where
  "isKnownStatus (StatusOther _) = False"
| "isKnownStatus _ = True"

fun isKnownAxis :: "failingAxis \<Rightarrow> bool" where
  "isKnownAxis AxisNone = False"
| "isKnownAxis (AxisOther _) = False"
| "isKnownAxis _ = True"

text \<open>The text of an axis or of a reason is blank.\<close>

fun blankAxis :: "failingAxis \<Rightarrow> bool" where
  "blankAxis AxisNone = True"
| "blankAxis (AxisOther t) = (TrimSpace t = [])"
| "blankAxis _ = False"

fun blankReason :: "reasonCode \<Rightarrow> bool" where
  "blankReason ReasonNone = True"
| "blankReason (ReasonOther t) = (TrimSpace t = [])"
| "blankReason _ = False"

definition validateCompatFailure :: "compatFailure \<Rightarrow> bool" where
  "validateCompatFailure f \<longleftrightarrow>
     isKnownStatus (cfStatus f) \<and> (blankAxis (cfAxis f) \<or> isKnownAxis (cfAxis f)) \<and>
     cfStatus f \<noteq> StatusStartable \<and> \<not> blankReason (cfReason f)"

definition candidateStartable :: "compatCandidate \<Rightarrow> bool" where
  "candidateStartable c \<longleftrightarrow>
     (if \<not> isKnownStatus (ccStatus c) then False
      else if \<not> blankAxis (ccAxis c) then False
      else ccStatus c = StatusStartable)"

section \<open>The request\<close>

definition normalizeCompatRequest :: "compatRequest \<Rightarrow> compatRequest" where
  "normalizeCompatRequest q =
     q\<lparr>cqResolutionID := TrimSpace (cqResolutionID q), cqCandidateID := TrimSpace (cqCandidateID q),
       cqSource := map_option (\<lambda>s. \<lparr>soProviderID = TrimSpace (soProviderID s), soSourceID = TrimSpace (soSourceID s),
         soResolutionID = TrimSpace (soResolutionID s)\<rparr>) (cqSource q),
       cqArtifact := map_option (\<lambda>a. a\<lparr>afProviderID := TrimSpace (afProviderID a),
         afResolutionID := TrimSpace (afResolutionID a)\<rparr>) (cqArtifact q)\<rparr>"

definition compatResolutionID :: "compatRequest \<Rightarrow> string" where
  "compatResolutionID q =
     (if TrimSpace (cqResolutionID q) \<noteq> [] then TrimSpace (cqResolutionID q)
      else
        (case cqSource q of
           Some s \<Rightarrow>
             if TrimSpace (soResolutionID s) \<noteq> [] then TrimSpace (soResolutionID s)
             else (case cqArtifact q of None \<Rightarrow> [] | Some a \<Rightarrow> TrimSpace (afResolutionID a))
         | None \<Rightarrow> (case cqArtifact q of None \<Rightarrow> [] | Some a \<Rightarrow> TrimSpace (afResolutionID a))))"

definition emptySource :: sourceRef where
  "emptySource = \<lparr>soProviderID = [], soSourceID = [], soResolutionID = []\<rparr>"

definition emptyArtifact :: artifactRef where
  "emptyArtifact = \<lparr>afProviderID = [], afResolutionID = [], afFamily = [], afAccessMethods = [], afExpiresAt = None\<rparr>"

definition emptyPlan :: executionPlan where
  "emptyPlan = \<lparr>xpAccessMethod = [], xpCarrierFamily = [], xpEngineFamily = [], xpHostAdapter = []\<rparr>"

definition emptyDescriptor :: planDescriptor where
  "emptyDescriptor =
     \<lparr>xdPlan = emptyPlan, xdSupportState = [], xdEndpointFamily = [], xdEndpointRole = [], xdDefault = False,
      xdRequiresCapability = [], xdRequiredKinds = [], xdTransportProfile = None, xdMessage = []\<rparr>"

section \<open>Candidates\<close>

text \<open>\<open>strings.Join(parts, "|")\<close>\<close>

fun joinBars :: "string list \<Rightarrow> string" where
  "joinBars [] = []"
| "joinBars [p] = p"
| "joinBars (p # q # ps) = p @ ''|'' @ joinBars (q # ps)"

definition candidateIDParts :: "compatRequest \<Rightarrow> compatCandidate \<Rightarrow> string list" where
  "candidateIDParts q c =
     (let s = ccSource c; a = case_option emptyArtifact id (ccArtifact c); p = xdPlan (ccPlan c) in
      [firstNonBlank [soProviderID s, []], firstNonBlank [soResolutionID s, compatResolutionID q], afFamily a,
       xpAccessMethod p, xpCarrierFamily p, xpEngineFamily p, xpHostAdapter p] @
      (case ccProfile c of None \<Rightarrow> [] | Some r \<Rightarrow> [rfProfileID r, rfKind r]))"

definition candidateID :: "(string \<Rightarrow> string) \<Rightarrow> compatRequest \<Rightarrow> compatCandidate \<Rightarrow> string" where
  "candidateID hash q c =
     (if TrimSpace (cqCandidateID q) \<noteq> [] then TrimSpace (cqCandidateID q)
      else ''ptc-'' @ hash (joinBars (candidateIDParts q c)))"

definition finalizeCandidate :: "(string \<Rightarrow> string) \<Rightarrow> compatRequest \<Rightarrow> compatCandidate \<Rightarrow> compatCandidate" where
  "finalizeCandidate hash q c =
     (let d = (if ccID c = [] then c\<lparr>ccID := candidateID hash q c\<rparr> else c)
      in d\<lparr>ccStartable := candidateStartable d\<rparr>)"

definition setFailure :: "(string \<Rightarrow> string) \<Rightarrow> compatRequest \<Rightarrow> compatCandidate \<Rightarrow> verdict \<Rightarrow> compatCandidate" where
  "setFailure hash q c v =
     (case v of (status, axis, reason) \<Rightarrow>
        finalizeCandidate hash q (c\<lparr>ccStatus := status, ccAxis := axis, ccReason := reason\<rparr>))"

definition failureCandidate ::
    "(string \<Rightarrow> string) \<Rightarrow> compatRequest \<Rightarrow> sourceRef \<Rightarrow> artifactRef option \<Rightarrow> planDescriptor \<Rightarrow> verdict \<Rightarrow> compatCandidate" where
  "failureCandidate hash q source artifact d v =
     (case v of (status, axis, reason) \<Rightarrow>
        finalizeCandidate hash q
          \<lparr>ccID = [], ccSource = source, ccArtifact = artifact, ccPlan = d, ccRequiredKinds = [], ccProfile = None,
           ccStatus = status, ccStartable = False, ccAxis = axis, ccReason = reason\<rparr>)"

definition failureFromCandidate :: "compatCandidate \<Rightarrow> compatFailure" where
  "failureFromCandidate c =
     \<lparr>cfCandidateID = ccID c, cfStatus = ccStatus c, cfAxis = ccAxis c, cfReason = ccReason c\<rparr>"

section \<open>The artifact\<close>

definition artifactReferenceOf :: "resolutionView \<Rightarrow> artifactRef" where
  "artifactReferenceOf v =
     \<lparr>afProviderID = rvProvider v, afResolutionID = rvID v,
      afFamily = (case rvArtifact v of None \<Rightarrow> [] | Some a \<Rightarrow> rtFamily a),
      afAccessMethods = (case rvArtifact v of None \<Rightarrow> [] | Some a \<Rightarrow> rtAccessMethods a),
      afExpiresAt = xsExpiresAt (rvExport v)\<rparr>"

definition artifactSupports :: "artifactRef option \<Rightarrow> string \<Rightarrow> bool" where
  "artifactSupports artifact method \<longleftrightarrow>
     TrimSpace method \<noteq> [] \<and> (case artifact of None \<Rightarrow> False | Some a \<Rightarrow> method \<in> set (afAccessMethods a))"

definition sourceMismatch :: "sourceRef option \<Rightarrow> resolutionView \<Rightarrow> bool" where
  "sourceMismatch ref v \<longleftrightarrow>
     (case ref of
        None \<Rightarrow> False
      | Some s \<Rightarrow> soResolutionID s \<noteq> [] \<and> soResolutionID s \<noteq> rvID v \<or> soProviderID s \<noteq> [] \<and> soProviderID s \<noteq> rvProvider v)"

definition artifactMismatch :: "artifactRef option \<Rightarrow> artifactRef \<Rightarrow> bool" where
  "artifactMismatch ref actual \<longleftrightarrow>
     (case ref of
        None \<Rightarrow> False
      | Some a \<Rightarrow>
          afResolutionID a \<noteq> [] \<and> afResolutionID a \<noteq> afResolutionID actual \<or>
          afProviderID a \<noteq> [] \<and> afProviderID a \<noteq> afProviderID actual \<or>
          afFamily a \<noteq> [] \<and> afFamily a \<noteq> afFamily actual \<or>
          afExpiresAt a \<noteq> None \<and> afExpiresAt a \<noteq> afExpiresAt actual \<or>
          \<not> list_all (artifactSupports (Some actual)) (afAccessMethods a))"

definition remoteValidationFailure :: "string \<Rightarrow> verdict option" where
  "remoteValidationFailure s =
     (if s = [] \<or> s = ''valid'' then None
      else if s = ''missing_evidence'' then Some (StatusMissingEvidence, AxisEvidence, ReasonEvidenceMissing)
      else if s = ''stale'' then Some (StatusStale, AxisProviderArtifact, ReasonProviderArtifactStale)
      else if s = ''degraded'' then Some (StatusDegraded, AxisEvidence, ReasonProviderArtifactDegraded)
      else if s = ''unavailable'' then Some (StatusUnavailable, AxisProviderArtifact, ReasonProviderArtifactUnavailable)
      else Some (StatusUnsupported, AxisProviderArtifact, ReasonProviderArtifactUnsupported))"

definition remoteEvidenceFailure :: "string \<Rightarrow> verdict option" where
  "remoteEvidenceFailure s =
     (if s = [] \<or> s = ''fresh'' then None
      else if s = ''missing'' \<or> s = ''unknown_limit'' then Some (StatusMissingEvidence, AxisEvidence, ReasonEvidenceMissing)
      else if s = ''stale'' then Some (StatusStale, AxisProviderArtifact, ReasonProviderArtifactStale)
      else if s = ''degraded'' then Some (StatusDegraded, AxisEvidence, ReasonProviderArtifactDegraded)
      else if s = ''unavailable'' then Some (StatusUnavailable, AxisProviderArtifact, ReasonProviderArtifactUnavailable)
      else Some (StatusUnsupported, AxisProviderArtifact, ReasonProviderArtifactUnsupported))"

definition remoteOf :: "resolutionView \<Rightarrow> remoteSummary option" where
  "remoteOf v =
     (case rvRemoteVPS v of
        Some r \<Rightarrow> Some r
      | None \<Rightarrow>
          (case rvArtifact v of
             None \<Rightarrow> None
           | Some a \<Rightarrow> (case rtSummary a of SummaryRemote r \<Rightarrow> Some r | _ \<Rightarrow> None)))"

definition remoteArtifactFailure :: "resolutionView \<Rightarrow> instant \<Rightarrow> verdict option" where
  "remoteArtifactFailure v now =
     (case remoteOf v of
        None \<Rightarrow> None
      | Some r \<Rightarrow>
          if (case rmExpiresAt r of None \<Rightarrow> False | Some t \<Rightarrow> \<not> now < t)
          then Some (StatusStale, AxisProviderArtifact, ReasonProviderArtifactStale)
          else
            (case remoteValidationFailure (TrimSpace (rmValidation r)) of
               Some f \<Rightarrow> Some f
             | None \<Rightarrow> remoteEvidenceFailure (TrimSpace (rmEvidence r))))"

section \<open>One candidate per plan\<close>

text \<open>The plans with which the artifact can be started on this device, of all such actions.\<close>

definition startPlans :: "resolutionView \<Rightarrow> executionPlan option \<Rightarrow> planDescriptor list" where
  "startPlans v requested =
     (case rvArtifact v of
        None \<Rightarrow> []
      | Some a \<Rightarrow>
          filter (\<lambda>d. case requested of None \<Rightarrow> True | Some p \<Rightarrow> runtimeExecutionPlanEquals (xdPlan d) p)
            (concat (List.map raPlans (filter (\<lambda>c. raID c = ''start_on_this_device'') (rtActions a)))))"

fun profileErrorVerdict :: "storeError \<Rightarrow> verdict" where
  "profileErrorVerdict ProfileNotFound = (StatusStale, AxisTransportProfile, ReasonTransportProfileStale)"
| "profileErrorVerdict ProfileInvalid = (StatusSetupNeeded, AxisTransportProfile, ReasonTransportProfileInvalid)"
| "profileErrorVerdict ProfileIncompatible = (StatusUnsupported, AxisTransportProfile, ReasonTransportProfileIncompatibleKind)"
| "profileErrorVerdict StoreUnavailable = (StatusUnavailable, AxisTransportProfile, ReasonTransportProfileStoreUnavailable)"
| "profileErrorVerdict StoreNotWritten = (StatusSetupNeeded, AxisTransportProfile, ReasonTransportProfileMissing)"

definition requiredKindsOf :: "transportStore \<Rightarrow> planDescriptor \<Rightarrow> string list" where
  "requiredKindsOf s d = (if xdRequiredKinds d = [] then requiredKindsForPlan s (xdPlan d) else xdRequiredKinds d)"

text \<open>The plan itself: the first check that fails, in the order of the code.\<close>

definition planVerdict :: "compatRequest \<Rightarrow> artifactRef option \<Rightarrow> planDescriptor \<Rightarrow> verdict option" where
  "planVerdict q artifact d =
     (let p = xdPlan d in
      if \<not> artifactSupports artifact (xpAccessMethod p)
      then Some (StatusUnsupported, AxisArtifactAccessMethod, ReasonArtifactAccessMethodUnsupported)
      else if \<not> isKnownRuntimeCarrierFamily (xpCarrierFamily p)
      then Some (StatusUnsupported, AxisCarrierFamily, ReasonCarrierFamilyUnsupported)
      else if \<not> isKnownRuntimeEngineFamily (xpEngineFamily p)
      then Some (StatusUnsupported, AxisEngineFamily, ReasonEngineFamilyUnsupported)
      else if TrimSpace (xpHostAdapter p) \<noteq> [] \<and> \<not> isKnownRuntimeHostAdapter (xpHostAdapter p)
      then Some (StatusUnsupported, AxisHostAdapter, ReasonHostAdapterUnsupported)
      else if xdSupportState d = ''experimental'' \<and> \<not> cqAllowDegraded q
      then Some (StatusDegraded, AxisDegradedPolicy, ReasonRuntimePlanExperimental)
      else if xdSupportState d \<noteq> ''supported'' \<and> xdSupportState d \<noteq> ''experimental''
      then
        (if TrimSpace (xpHostAdapter p) \<noteq> []
         then Some (StatusUnavailable, AxisHostAdapter, ReasonHostAdapterUnavailable)
         else Some (StatusUnavailable, AxisHostCapability, ReasonRuntimePlanUnavailable))
      else if cqRequireEvidence q then Some (StatusMissingEvidence, AxisEvidence, ReasonEvidenceMissing)
      else None)"

text \<open>
  The profile: an explicit reference is validated, otherwise the default of the plan is taken.  The
  result carries what the descriptor of the candidate then says about its profile.
\<close>

definition selectedPrerequisite :: "string list \<Rightarrow> profileReference \<Rightarrow> profilePrerequisite" where
  "selectedPrerequisite kinds ref =
     \<lparr>xqRequiredKinds = kinds, xqState = ''compatible'', xqSelectedProfile = Some ref, xqDefaultProfile = None,
      xqMissingKind = [], xqImportAdapters = []\<rparr>"

definition firstReference :: "profileReference option list \<Rightarrow> profileReference option" where
  "firstReference rs =
     (case find (\<lambda>r. case r of None \<Rightarrow> False | Some x \<Rightarrow> TrimSpace (rfProfileID x) \<noteq> []) rs of None \<Rightarrow> None | Some r \<Rightarrow> r)"

definition defaultVerdict ::
    "transportStore \<Rightarrow> executionPlan \<Rightarrow> string list \<Rightarrow> profilePrerequisite option \<times> (verdict + profileReference)" where
  "defaultVerdict s p kinds =
     (let st = transportProfilePrerequisiteStatus s p kinds in
      (Some st,
       (case firstReference [xqSelectedProfile st, xqDefaultProfile st] of
          Some ref \<Rightarrow> Inr ref
        | None \<Rightarrow>
            Inl (StatusSetupNeeded, AxisTransportProfile,
              if xqMissingKind st = [] then ReasonTransportProfileUnselected else ReasonTransportProfileRequired))))"

definition profileVerdict ::
    "transportStore \<Rightarrow> compatRequest \<Rightarrow> executionPlan \<Rightarrow> string list \<Rightarrow>
      profilePrerequisite option \<times> (verdict + profileReference)" where
  "profileVerdict s q p kinds =
     (if \<not> tsEnabled s
      then (None, Inl (StatusUnavailable, AxisHostCapability, ReasonTransportProfileStoreUnavailable))
      else
        (case cqProfile q of
           Some r \<Rightarrow>
             if TrimSpace (rfProfileID r) \<noteq> [] then
               (case validateTransportProfileRef s r p kinds of
                  Inl e \<Rightarrow> (None, Inl (profileErrorVerdict e))
                | Inr ref \<Rightarrow> (Some (selectedPrerequisite kinds ref), Inr ref))
             else defaultVerdict s p kinds
         | None \<Rightarrow> defaultVerdict s p kinds))"

definition candidateForDescriptor ::
    "(string \<Rightarrow> string) \<Rightarrow> transportStore \<Rightarrow> compatRequest \<Rightarrow> sourceRef \<Rightarrow> artifactRef \<Rightarrow> planDescriptor \<Rightarrow>
      compatCandidate" where
  "candidateForDescriptor hash s q source artifact d0 =
     (let kinds = requiredKindsOf s d0; d = d0\<lparr>xdRequiredKinds := kinds\<rparr>;
          c = \<lparr>ccID = [], ccSource = source, ccArtifact = Some artifact, ccPlan = d, ccRequiredKinds = kinds,
            ccProfile = None, ccStatus = StatusStartable, ccStartable = False, ccAxis = AxisNone, ccReason = ReasonReady\<rparr>
      in case planVerdict q (Some artifact) d of
           Some f \<Rightarrow> setFailure hash q c f
         | None \<Rightarrow>
             if kinds = [] then finalizeCandidate hash q c
             else
               (case profileVerdict s q (xdPlan d) kinds of
                  (st, result) \<Rightarrow>
                    (let c1 = (case st of None \<Rightarrow> c | Some t \<Rightarrow> c\<lparr>ccPlan := d\<lparr>xdTransportProfile := Some t\<rparr>\<rparr>)
                     in case result of
                          Inl f \<Rightarrow> setFailure hash q c1 f
                        | Inr ref \<Rightarrow> finalizeCandidate hash q (c1\<lparr>ccProfile := Some ref\<rparr>))))"

section \<open>The candidates of a request\<close>

definition requestSource :: "compatRequest \<Rightarrow> sourceRef" where
  "requestSource q =
     (let s = case_option emptySource id (cqSource q)
      in s\<lparr>soResolutionID := firstNonBlank [soResolutionID s, compatResolutionID q]\<rparr>)"

definition sourceFor :: "compatRequest \<Rightarrow> resolutionView \<Rightarrow> sourceRef" where
  "sourceFor q v = (requestSource q)\<lparr>soProviderID := firstNonBlank [soProviderID (requestSource q), rvProvider v]\<rparr>"

definition artifactFor :: "compatRequest \<Rightarrow> resolutionView \<Rightarrow> artifactRef" where
  "artifactFor q v =
     (let a = artifactReferenceOf v in
      case cqArtifact q of
        None \<Rightarrow> a
      | Some r \<Rightarrow> a\<lparr>afProviderID := firstNonBlank [afProviderID r, afProviderID a],
          afResolutionID := firstNonBlank [afResolutionID r, afResolutionID a]\<rparr>)"

text \<open>What is wrong with the resolution before a plan is looked at.\<close>

definition resolutionVerdict :: "instant \<Rightarrow> compatRequest \<Rightarrow> resolutionView \<Rightarrow> verdict option" where
  "resolutionVerdict now q v =
     (if rvState v = ResolutionExpired then Some (StatusStale, AxisProviderArtifact, ReasonProviderArtifactStale)
      else if rvState v \<noteq> ResolutionResolved
      then Some (StatusSetupNeeded, AxisProviderSource, ReasonProviderSourceNotResolved)
      else if sourceMismatch (cqSource q) v then Some (StatusStale, AxisProviderSource, ReasonProviderSourceNotFound)
      else if artifactMismatch (cqArtifact q) (artifactReferenceOf v)
      then Some (StatusStale, AxisProviderArtifact, ReasonProviderArtifactStale)
      else if rvArtifact v = None then Some (StatusUnsupported, AxisProviderArtifact, ReasonProviderArtifactMissing)
      else remoteArtifactFailure v now)"

definition unsupportedPlan :: "compatRequest \<Rightarrow> planDescriptor" where
  "unsupportedPlan q = (case cqPlan q of None \<Rightarrow> emptyDescriptor | Some p \<Rightarrow> emptyDescriptor\<lparr>xdPlan := p\<rparr>)"

definition candidatesOf ::
    "(string \<Rightarrow> string) \<Rightarrow> transportStore \<Rightarrow> instant \<Rightarrow> compatRequest \<Rightarrow> resolutionView \<Rightarrow> compatCandidate list" where
  "candidatesOf hash s now q v =
     (case resolutionVerdict now q v of
        Some f \<Rightarrow> [failureCandidate hash q (sourceFor q v) (Some (artifactFor q v)) emptyDescriptor f]
      | None \<Rightarrow>
          (let ds = startPlans v (cqPlan q) in
           if ds = [] then
             [failureCandidate hash q (sourceFor q v) (Some (artifactFor q v)) (unsupportedPlan q)
               (StatusUnsupported, AxisEngineFamily, ReasonRuntimePlanUnsupported)]
           else
             (let cs = List.map (candidateForDescriptor hash s q (sourceFor q v) (artifactFor q v)) ds;
                  wanted = TrimSpace (cqCandidateID q)
              in if wanted \<noteq> [] then filter (\<lambda>c. ccID c = wanted) cs else cs)))"

definition ProviderTransportCompatibilityCandidates ::
    "hostConfig \<Rightarrow> (string \<Rightarrow> string) \<Rightarrow> transportStore \<Rightarrow> instant \<Rightarrow> compatRequest \<Rightarrow> controlHost \<Rightarrow>
      compatCandidate list \<times> controlHost \<times> hostTask list" where
  "ProviderTransportCompatibilityCandidates env hash s now q0 h =
     (let q = normalizeCompatRequest q0; rid = compatResolutionID q in
      if rid = [] then
        ([failureCandidate hash q (requestSource q) None emptyDescriptor
            (StatusSetupNeeded, AxisProviderSource, ReasonProviderSourceRequired)], h, [])
      else
        (case readResolution env now rid h of
           (None, h1, ts) \<Rightarrow>
             ([failureCandidate hash q (requestSource q) (cqArtifact q) emptyDescriptor
                 (StatusStale, AxisProviderSource, ReasonProviderSourceNotFound)], h1, ts)
         | (Some (v, _), h1, ts) \<Rightarrow> (candidatesOf hash s now q v, h1, ts)))"

end
