(* ===== verification/ClientSample.thy ===== *)
theory ClientSample
  imports TransportSample HostResolutions
begin

text \<open>
  A host with one resolved resolution, whose artifact can be started on the device with the plan of
  the sample store.
\<close>

definition bareConfig :: hostConfig where
  "bareConfig =
     \<lparr>hcLimit = 3, hcNewID = (\<lambda>n. replicate (Suc n) (CHR ''r'')), hcNewSessionID = (\<lambda>n. replicate (Suc n) (CHR ''s'')),
      hcDescriptors = [], hcSettings = \<lparr>seCompile = (\<lambda>_. None), seInt64Overflow = 0\<rparr>,
      hcMetadata = (\<lambda>_. \<lparr>cmCompletionMode = [], cmBrowserReturn = None, cmAllowRememberedSignIn = False,
        cmAllowAutoContinue = False\<rparr>),
      hcTunnelPlans = [], hcParseTime = (\<lambda>_. None), hcFormatLink = (\<lambda>_. ''x''), hcRedactLink = (\<lambda>_. []),
      hcRedactInput = (\<lambda>_ _. [])\<rparr>"

definition turnView :: resolutionView where
  "turnView =
     \<lparr>rvID = ''r'', rvProvider = ''p'', rvMethod = [],
      rvInput = \<lparr>inProvider = ''p'', inKind = ''link'', inLinkRedacted = [], inInteractive = False\<rparr>,
      rvArtifact = Some \<lparr>rtFamily = ''generic_turn'', rtAccessMethods = [''turn_credentials''],
        rtActions = [\<lparr>raID = ''start_on_this_device'', raOwner = ''host'', raPlans = pcPlans sampleTunnel\<rparr>],
        rtSummary = SummaryTURN \<lparr>rcAddress = ''a'', rcUsername = ''u'', rcPassword = ''x''\<rparr>\<rparr>,
      rvState = ResolutionResolved, rvCredentials = None,
      rvExport = \<lparr>xsSupported = True, xsExpiresAt = Some 100, xsExpirySource = ''t''\<rparr>,
      rvFailure = None, rvActiveChallenge = [], rvStartedAt = 0, rvUpdatedAt = 0, rvResolvedAt = Some 0, rvExpiredAt = None,
      rvRemoteVPS = None\<rparr>"

definition turnResolution :: managedResolution where
  "turnResolution =
     \<lparr>mrView = turnView,
      mrSecret = Some \<lparr>prCredentials = \<lparr>crUsername = ''u'', crPassword = ''w'', crAddress = ''h'', crTTL = 9\<rparr>,
        prMetadata = (\<lambda>_. None), prArtifact = None\<rparr>,
      mrRemoteExport = [],
      mrDescriptor = \<lparr>pdID = ''p'', pdInputKind = ''link'', pdSchema = None, pdChallengeModes = [],
        pdArtifactFamilies = [''generic_turn''], pdPotentialActions = [''start_on_this_device'']\<rparr>,
      mrCtx = None, mrDone = True,
      mrInput = \<lparr>rqProvider = ''p'', rqInput = Some (''link'', ''l''), rqSettings = [], rqLink = ''l'', rqInteractive = False\<rparr>,
      mrEvents = [], mrChallenges = []\<rparr>"

definition turnHost :: controlHost where
  "turnHost = NewHost\<lparr>hoResolutions := [(''r'', turnResolution)]\<rparr>"

end
