(* ===== verification/CompatProperties.thy ===== *)
theory CompatProperties
  imports TransportCompat TransportProperties ClientSample
begin

text \<open>
  What the candidates of \<^verbatim>\<open>pkg/clientcontrol/provider_transport_compatibility.go\<close> promise: a
  candidate is startable exactly if it names no failing axis, and a startable one has a resolution,
  an artifact, a plan and a profile that can be started.
\<close>

section \<open>Verdicts\<close>

text \<open>Every verdict of the code has a known status that is not startable, a known axis and a reason.\<close>

definition failing :: "verdict \<Rightarrow> bool" where
  "failing v \<longleftrightarrow>
     (case v of (status, axis, reason) \<Rightarrow>
        isKnownStatus status \<and> status \<noteq> StatusStartable \<and> isKnownAxis axis \<and> \<not> blankReason reason \<and> reason \<noteq> ReasonReady)"

lemma profileErrorVerdict_failing: "failing (profileErrorVerdict e)"
  by (cases e) (simp_all add: failing_def)

lemma planVerdict_failing: "planVerdict q a d = Some v \<Longrightarrow> failing v"
  by (auto simp: planVerdict_def Let_def failing_def split: if_splits)

lemma remoteValidationFailure_failing: "remoteValidationFailure t = Some v \<Longrightarrow> failing v"
  by (auto simp: remoteValidationFailure_def failing_def split: if_splits)

lemma remoteEvidenceFailure_failing: "remoteEvidenceFailure t = Some v \<Longrightarrow> failing v"
  by (auto simp: remoteEvidenceFailure_def failing_def split: if_splits)

lemma remoteArtifactFailure_failing: "remoteArtifactFailure r now = Some v \<Longrightarrow> failing v"
  by (auto simp: remoteArtifactFailure_def failing_def [of "(StatusStale, _, _)"]
      dest: remoteValidationFailure_failing remoteEvidenceFailure_failing split: option.splits if_splits)

lemma resolutionVerdict_failing: "resolutionVerdict now q r = Some v \<Longrightarrow> failing v"
  by (auto simp: resolutionVerdict_def failing_def [of "(StatusStale, _, _)"] failing_def [of "(StatusSetupNeeded, _, _)"]
      failing_def [of "(StatusUnsupported, _, _)"] dest: remoteArtifactFailure_failing split: if_splits)

lemma profileVerdict_failing: "profileVerdict s q p kinds = (st, Inl v) \<Longrightarrow> failing v"
  by (auto simp: profileVerdict_def defaultVerdict_def Let_def profileErrorVerdict_failing failing_def [of "(StatusUnavailable, _, _)"]
      failing_def [of "(StatusSetupNeeded, _, _)"] split: if_splits option.splits sum.splits)

section \<open>Judged candidates\<close>

definition judged :: "compatCandidate \<Rightarrow> bool" where
  "judged c \<longleftrightarrow>
     (if ccStartable c then ccStatus c = StatusStartable \<and> ccAxis c = AxisNone \<and> ccReason c = ReasonReady
      else failing (ccStatus c, ccAxis c, ccReason c))"

lemma finalize_simps [simp]:
  "ccStartable (finalizeCandidate hash q c) = candidateStartable c"
  "ccStatus (finalizeCandidate hash q c) = ccStatus c" "ccAxis (finalizeCandidate hash q c) = ccAxis c"
  "ccReason (finalizeCandidate hash q c) = ccReason c" "ccPlan (finalizeCandidate hash q c) = ccPlan c"
  "ccProfile (finalizeCandidate hash q c) = ccProfile c" "ccArtifact (finalizeCandidate hash q c) = ccArtifact c"
  "ccID (finalizeCandidate hash q c) = (if ccID c = [] then candidateID hash q c else ccID c)"
  by (simp_all add: finalizeCandidate_def candidateStartable_def Let_def)

lemma known_axis_not_blank: "isKnownAxis a \<Longrightarrow> \<not> blankAxis a" by (cases a) simp_all

lemma failing_judged: "failing v \<Longrightarrow> judged (setFailure hash q c v)" "failing v \<Longrightarrow> judged (failureCandidate hash q s a d v)"
  "failing v \<Longrightarrow> \<not> ccStartable (setFailure hash q c v)" "failing v \<Longrightarrow> \<not> ccStartable (failureCandidate hash q s a d v)"
  by (auto simp: judged_def setFailure_def failureCandidate_def candidateStartable_def failing_def split: prod.splits)

lemma descriptor_judged: "judged (candidateForDescriptor hash s q source a d)"
  by (auto simp: candidateForDescriptor_def Let_def judged_def [of "finalizeCandidate _ _ _"] candidateStartable_def
      intro!: failing_judged dest: planVerdict_failing profileVerdict_failing split: option.splits sum.splits prod.splits)

lemma failing_consts [simp]:
  "failing (StatusUnsupported, AxisEngineFamily, ReasonRuntimePlanUnsupported)"
  "failing (StatusSetupNeeded, AxisProviderSource, ReasonProviderSourceRequired)"
  "failing (StatusStale, AxisProviderSource, ReasonProviderSourceNotFound)"
  by (simp_all add: failing_def)

lemma candidatesOf_judged: "c \<in> set (candidatesOf hash s now q v) \<Longrightarrow> judged c"
  by (auto simp: candidatesOf_def Let_def descriptor_judged failing_judged dest: resolutionVerdict_failing
      split: option.splits if_splits)

lemma candidates_judged: "c \<in> set (fst (ProviderTransportCompatibilityCandidates env hash s now q h)) \<Longrightarrow> judged c"
  by (auto simp: ProviderTransportCompatibilityCandidates_def Let_def failing_judged candidatesOf_judged
      split: option.splits if_splits prod.splits)

text \<open>The identifier that the request asks for is the one its candidates get.\<close>

lemma descriptor_id: "ccID (candidateForDescriptor hash s q source a d) = candidateID hash q c \<or>
    (\<exists>c. ccID (candidateForDescriptor hash s q source a d) = candidateID hash q c)"
  by (auto simp: candidateForDescriptor_def setFailure_def Let_def split: option.splits sum.splits prod.splits)

lemma descriptor_wanted:
  assumes "TrimSpace (cqCandidateID q) \<noteq> []"
  shows "ccID (candidateForDescriptor hash s q source a d) = TrimSpace (cqCandidateID q)"
proof -
  have "candidateID hash q c = TrimSpace (cqCandidateID q)" for c using assms by (simp add: candidateID_def)
  with descriptor_id [of hash s q source a d] show ?thesis by auto
qed

text \<open>So the filter of the candidates by the identifier of the request keeps all of them.\<close>

lemma candidatesOf_all:
  "candidatesOf hash s now q v =
     (case resolutionVerdict now q v of
        Some f \<Rightarrow> [failureCandidate hash q (sourceFor q v) (Some (artifactFor q v)) emptyDescriptor f]
      | None \<Rightarrow>
          if startPlans v (cqPlan q) = []
          then [failureCandidate hash q (sourceFor q v) (Some (artifactFor q v)) (unsupportedPlan q)
                 (StatusUnsupported, AxisEngineFamily, ReasonRuntimePlanUnsupported)]
          else List.map (candidateForDescriptor hash s q (sourceFor q v) (artifactFor q v)) (startPlans v (cqPlan q)))"
  by (auto simp: candidatesOf_def Let_def descriptor_wanted filter_id_conv split: option.splits)

section \<open>What a startable candidate has\<close>

lemma planVerdict_kinds [simp]: "planVerdict q a (d\<lparr>xdRequiredKinds := ks\<rparr>) = planVerdict q a d"
  by (simp add: planVerdict_def Let_def)

lemma startable_descriptor:
  assumes "ccStartable (candidateForDescriptor hash s q source a d)"
  shows "planVerdict q (Some a) d = None"
    "requiredKindsOf s d = [] \<or> (\<exists>st ref. profileVerdict s q (xdPlan d) (requiredKindsOf s d) = (st, Inr ref) \<and>
       ccProfile (candidateForDescriptor hash s q source a d) = Some ref)"
  using assms
  by (auto simp: candidateForDescriptor_def Let_def failing_judged planVerdict_failing profileVerdict_failing
      split: option.splits sum.splits prod.splits if_splits)

lemma descriptor_plan [simp]: "xdPlan (ccPlan (candidateForDescriptor hash s q source a d)) = xdPlan d"
  by (auto simp: candidateForDescriptor_def setFailure_def Let_def split: option.splits sum.splits prod.splits)

lemma startPlans_in:
  "d \<in> set (startPlans v r) \<Longrightarrow> \<exists>a act. rvArtifact v = Some a \<and> act \<in> set (rtActions a) \<and>
     raID act = ''start_on_this_device'' \<and> d \<in> set (raPlans act) \<and> (\<forall>p. r = Some p \<longrightarrow> xdPlan d = p)"
  by (cases "rvArtifact v") (auto simp: startPlans_def split: option.splits)

lemma planVerdict_None:
  assumes "planVerdict q (Some a) d = None"
  shows "xpAccessMethod (xdPlan d) \<in> set (afAccessMethods a)"
    "isSupported d \<or> xdSupportState d = ''experimental'' \<and> cqAllowDegraded q" "\<not> cqRequireEvidence q"
  using assms by (auto simp: planVerdict_def Let_def artifactSupports_def isSupported_def split: if_splits)

lemma firstReference_in: "firstReference rs = Some r \<Longrightarrow> Some r \<in> set rs"
  by (auto simp: firstReference_def find_Some_iff split: option.splits) (metis nth_mem)

lemma prerequisite_valid:
  assumes "xqSelectedProfile (transportProfilePrerequisiteStatus s p kinds) = Some r \<or>
    xqDefaultProfile (transportProfilePrerequisiteStatus s p kinds) = Some r"
  shows "\<exists>ref. validateTransportProfileRef s ref p kinds = Inr r"
  using assms by (auto simp: transportProfilePrerequisiteStatus_def Let_def split: if_splits sum.splits)

lemma profileVerdict_valid:
  assumes "profileVerdict s q p kinds = (st, Inr r)"
  shows "tsEnabled s" "\<exists>ref. validateTransportProfileRef s ref p kinds = Inr r"
proof -
  have default: "\<exists>ref. validateTransportProfileRef s ref p kinds = Inr r" if "defaultVerdict s p kinds = (st, Inr r)"
    using that by (auto simp: defaultVerdict_def Let_def dest!: firstReference_in intro!: prerequisite_valid split: option.splits)
  show "tsEnabled s" using assms by (auto simp: profileVerdict_def split: if_splits)
  show "\<exists>ref. validateTransportProfileRef s ref p kinds = Inr r"
    using assms default by (auto simp: profileVerdict_def split: if_splits option.splits sum.splits)
qed

lemma candidates_of:
  assumes "c \<in> set (fst (ProviderTransportCompatibilityCandidates env hash s now q h))" "ccStartable c"
  shows "\<exists>m. theResolution (compatResolutionID (normalizeCompatRequest q)) h = Some m \<and>
    c \<in> set (candidatesOf hash s now (normalizeCompatRequest q) (mrView (fst (expireResolution env now m))))"
  using assms
  by (auto simp: ProviderTransportCompatibilityCandidates_def Let_def readResolution_def failing_judged
      split: if_splits option.splits prod.splits)

lemma startable_resolution:
  assumes "c \<in> set (candidatesOf hash s now q v)" "ccStartable c"
  shows "resolutionVerdict now q v = None"
    "\<exists>d\<in>set (startPlans v (cqPlan q)). c = candidateForDescriptor hash s q (sourceFor q v) (artifactFor q v) d"
  using assms
  by (auto simp: candidatesOf_all failing_judged resolutionVerdict_failing split: option.splits if_splits)

lemma resolutionVerdict_None:
  assumes "resolutionVerdict now q v = None"
  shows "rvState v = ResolutionResolved" "rvArtifact v \<noteq> None" "remoteArtifactFailure v now = None"
    "\<not> sourceMismatch (cqSource q) v" "\<not> artifactMismatch (cqArtifact q) (artifactReferenceOf v)"
  using assms by (auto simp: resolutionVerdict_def split: if_splits)

lemma remote_ready:
  assumes "remoteArtifactFailure v now = None" "remoteOf v = Some r"
  shows "\<forall>t. rmExpiresAt r = Some t \<longrightarrow> now < t" "TrimSpace (rmValidation r) \<in> {[], ''valid''}"
    "TrimSpace (rmEvidence r) \<in> {[], ''fresh''}"
  using assms
  by (auto simp: remoteArtifactFailure_def remoteValidationFailure_def remoteEvidenceFailure_def split: option.splits if_splits)

lemma resolved_now:
  assumes "rvState (mrView (fst (expireResolution env now m))) = ResolutionResolved"
  shows "fst (expireResolution env now m) = m" "\<forall>t. xsExpiresAt (rvExport (mrView m)) = Some t \<longrightarrow> now < t"
  using assms
  by (auto simp: expireResolution_def addResolutionEvent_def Let_def split: resolutionState.splits option.splits if_splits)

section \<open>The identifier of a request\<close>

lemma anonymous_resolution [simp]: "compatResolutionID (q\<lparr>cqCandidateID := i\<rparr>) = compatResolutionID q"
  by (simp add: compatResolutionID_def split: option.split)

lemma anonymous [simp]:
  "planVerdict (q\<lparr>cqCandidateID := i\<rparr>) a d = planVerdict q a d"
  "profileVerdict s (q\<lparr>cqCandidateID := i\<rparr>) p kinds = profileVerdict s q p kinds"
  "requestSource (q\<lparr>cqCandidateID := i\<rparr>) = requestSource q"
  "sourceFor (q\<lparr>cqCandidateID := i\<rparr>) v = sourceFor q v"
  "artifactFor (q\<lparr>cqCandidateID := i\<rparr>) v = artifactFor q v"
  "resolutionVerdict now (q\<lparr>cqCandidateID := i\<rparr>) v = resolutionVerdict now q v"
  "unsupportedPlan (q\<lparr>cqCandidateID := i\<rparr>) = unsupportedPlan q"
  by (simp_all add: planVerdict_def profileVerdict_def requestSource_def sourceFor_def artifactFor_def
      resolutionVerdict_def unsupportedPlan_def Let_def)

definition unnamed :: "compatCandidate \<Rightarrow> compatCandidate" where
  "unnamed c = c\<lparr>ccID := []\<rparr>"

lemma finalize_unnamed: "unnamed (finalizeCandidate hash q c) = unnamed (c\<lparr>ccStartable := candidateStartable c\<rparr>)"
  by (simp add: finalizeCandidate_def candidateStartable_def unnamed_def Let_def)

lemma failure_unnamed:
  "unnamed (setFailure hash q c v) = unnamed (setFailure hash q' c v)"
  "unnamed (failureCandidate hash q s a d v) = unnamed (failureCandidate hash q' s a d v)"
  by (simp_all add: setFailure_def failureCandidate_def finalize_unnamed split: prod.split)

lemma descriptor_unnamed:
  "unnamed (candidateForDescriptor hash s (q\<lparr>cqCandidateID := i\<rparr>) so a d) = unnamed (candidateForDescriptor hash s q so a d)"
  using failure_unnamed(1) [of hash "q\<lparr>cqCandidateID := i\<rparr>" _ _ q]
  by (simp add: candidateForDescriptor_def Let_def finalize_unnamed split: option.split sum.split prod.split)

lemma candidatesOf_unnamed:
  "List.map unnamed (candidatesOf hash s now (q\<lparr>cqCandidateID := i\<rparr>) v) = List.map unnamed (candidatesOf hash s now q v)"
  using failure_unnamed(2) [of hash "q\<lparr>cqCandidateID := i\<rparr>" _ _ _ _ q]
  by (simp add: candidatesOf_all descriptor_unnamed split: option.split)

lemma candidates_unnamed:
  "List.map unnamed (fst (ProviderTransportCompatibilityCandidates env hash s now (q\<lparr>cqCandidateID := []\<rparr>) h)) =
   List.map unnamed (fst (ProviderTransportCompatibilityCandidates env hash s now q h))"
proof -
  have n: "normalizeCompatRequest (q\<lparr>cqCandidateID := []\<rparr>) = (normalizeCompatRequest q)\<lparr>cqCandidateID := []\<rparr>"
    by (simp add: normalizeCompatRequest_def)
  show ?thesis
    using failure_unnamed(2) [of hash "(normalizeCompatRequest q)\<lparr>cqCandidateID := []\<rparr>" _ _ _ _ "normalizeCompatRequest q"]
    by (simp add: ProviderTransportCompatibilityCandidates_def n Let_def candidatesOf_unnamed split: option.split prod.split)
qed

lemma failure_wanted:
  "TrimSpace (cqCandidateID q) \<noteq> [] \<Longrightarrow> ccID (failureCandidate hash q s a d v) = TrimSpace (cqCandidateID q)"
  by (simp add: failureCandidate_def candidateID_def split: prod.split)

lemma candidatesOf_wanted:
  "TrimSpace (cqCandidateID q) \<noteq> [] \<Longrightarrow> c \<in> set (candidatesOf hash s now q v) \<Longrightarrow> ccID c = TrimSpace (cqCandidateID q)"
  by (auto simp: candidatesOf_all failure_wanted descriptor_wanted split: option.splits if_splits)

lemma candidatesOf_some: "candidatesOf hash s now q v \<noteq> []"
  by (simp add: candidatesOf_all split: option.split)

lemma candidates_some: "fst (ProviderTransportCompatibilityCandidates env hash s now q h) \<noteq> []"
  by (simp add: ProviderTransportCompatibilityCandidates_def Let_def candidatesOf_some split: option.split prod.split)

section \<open>The sample\<close>

definition plainRequest :: compatRequest where
  "plainRequest =
     \<lparr>cqResolutionID = ''r'', cqCandidateID = [], cqSource = None, cqArtifact = None, cqPlan = None, cqProfile = None,
      cqRequireEvidence = False, cqAllowDegraded = False\<rparr>"

definition sampleCandidates :: "compatRequest \<Rightarrow> compatCandidate list" where
  "sampleCandidates q =
     fst (ProviderTransportCompatibilityCandidates bareConfig (\<lambda>t. t) (sampleStored sampleWireGuard) 7 q turnHost)"

lemma plain_r: "TrimSpace ''r'' = ''r''" by (rule TrimSpace_plain, simp add: go_spaces_def)+

lemma plain_normal: "normalizeCompatRequest plainRequest = plainRequest"
  by (simp add: normalizeCompatRequest_def plainRequest_def plain_r)

lemma plain_resolution: "compatResolutionID plainRequest = ''r''"
  by (simp add: compatResolutionID_def plainRequest_def plain_r)

lemma turn_read: "readResolution bareConfig 7 ''r'' turnHost = (Some (turnView, mrSecret turnResolution), turnHost, [])"
  by (simp add: readResolution_def turnHost_def theResolution_def expireResolution_def turnResolution_def turnView_def
      putResolution_def)

lemma sample_ref:
  assumes "rfProfileID ref = ''i''"
  shows "\<exists>r. validateTransportProfileRef (sampleStored sampleWireGuard) ref samplePlan [wireGuardKind] = Inr r \<and>
    rfProfileID r = ''i''"
proof -
  have v: "tpValidation (mpStatus (refreshManaged sampleStoreEnv cs d (storedProfile sampleWireGuard))) = StateValid" for cs d
    using sample_valid(1) by (simp add: refreshManaged_def refresh_fields transportProfileValidation_def)
  have "rawIngressEndpointOk (wgEndpoint sampleWireGuard)" using sample_endpoint by (simp add: sampleWireGuard_def)
  then show ?thesis
    using assms by (simp add: validateTransportProfileRef_def v transportProfileCompatibleWithPlan_def
        validateTransportProfileMaterialForPlan_def Let_def)
qed

lemma sample_default:
  "\<exists>st r. defaultVerdict (sampleStored sampleWireGuard) samplePlan [wireGuardKind] = (Some st, Inr r)"
proof -
  let ?d = "defaultReference ''i'' (transportProfileDefaultScopeID samplePlan)"
  obtain r where r: "validateTransportProfileRef (sampleStored sampleWireGuard) ?d samplePlan [wireGuardKind] = Inr r"
    "rfProfileID r = ''i''"
    using sample_ref [of ?d] by (auto simp: defaultReference_def)
  then show ?thesis
    by (simp add: defaultVerdict_def transportProfilePrerequisiteStatus_def firstReference_def Let_def)
qed

lemma sample_candidate:
  assumes "t \<in> set (pcPlans sampleTunnel)"
  shows "ccStartable (candidateForDescriptor hash (sampleStored sampleWireGuard) plainRequest source
    (artifactFor plainRequest turnView) t)"
proof -
  have k: "requiredKindsOf (sampleStored sampleWireGuard) t = [wireGuardKind]" and p: "xdPlan t = samplePlan"
    and u: "xdSupportState t = ''supported''"
    using assms by (auto simp: requiredKindsOf_def requiredKindsForPlan_def requiredTransportProfileKindsForPlan_def sampleTunnel_def)
  have acc: "artifactSupports (Some (artifactFor plainRequest turnView)) ''turn_credentials''"
    by code_simp
  have v: "planVerdict plainRequest (Some (artifactFor plainRequest turnView)) t = None"
    using acc by (simp add: planVerdict_def p u samplePlan_def isKnownRuntimeCarrierFamily_def isKnownRuntimeEngineFamily_def
        isKnownRuntimeHostAdapter_def plainRequest_def)
  obtain st r where "profileVerdict (sampleStored sampleWireGuard) plainRequest samplePlan [wireGuardKind] = (Some st, Inr r)"
    using sample_default by (auto simp: profileVerdict_def plainRequest_def)
  then show ?thesis
    using v by (simp add: candidateForDescriptor_def k p Let_def candidateStartable_def)
qed

lemma sample_startable: "list_all ccStartable (sampleCandidates plainRequest)" "sampleCandidates plainRequest \<noteq> []"
proof -
  have r: "resolutionVerdict 7 plainRequest turnView = None"
    by (simp add: resolutionVerdict_def plainRequest_def turnView_def sourceMismatch_def artifactMismatch_def
        remoteArtifactFailure_def remoteOf_def)
  have d: "startPlans turnView (cqPlan plainRequest) = pcPlans sampleTunnel"
    by (simp add: startPlans_def turnView_def plainRequest_def)
  have s: "list_all ccStartable
      (candidatesOf (\<lambda>t. t) (sampleStored sampleWireGuard) 7 plainRequest turnView)"
    "candidatesOf (\<lambda>t. t) (sampleStored sampleWireGuard) 7 plainRequest turnView \<noteq> []"
    using sample_candidate by (simp_all add: candidatesOf_all r d list_all_iff) (simp_all add: sampleTunnel_def)
  have "sampleCandidates plainRequest = candidatesOf (\<lambda>t. t) (sampleStored sampleWireGuard) 7 plainRequest turnView"
    by (simp add: sampleCandidates_def ProviderTransportCompatibilityCandidates_def plain_normal plain_resolution turn_read)
  with s show "list_all ccStartable (sampleCandidates plainRequest)" "sampleCandidates plainRequest \<noteq> []" by simp_all
qed

section \<open>Properties\<close>

text \<open>
  C22: Whatever a candidate is, it is startable exactly if no axis fails, exactly if its status is
  startable and exactly if its reason is that it is ready; and one that is not startable makes a
  failure that a host accepts as one.
\<close>
theorem candidate_verdicts_agree:
  assumes "c \<in> set (fst (ProviderTransportCompatibilityCandidates env hash s now q h))"
  shows "ccStartable c = (ccAxis c = AxisNone) \<and> ccStartable c = (ccStatus c = StatusStartable) \<and>
    ccStartable c = (ccReason c = ReasonReady) \<and>
    (\<not> ccStartable c \<longrightarrow> validateCompatFailure (failureFromCandidate c))"
  using candidates_judged [OF assms]
  by (auto simp: judged_def failing_def validateCompatFailure_def failureFromCandidate_def split: if_splits)

theorem candidate_verdicts_agree_witness:
  "\<exists>c\<in>set (sampleCandidates plainRequest). ccStartable c \<and> ccAxis c = AxisNone"
proof -
  obtain c where c: "c \<in> set (sampleCandidates plainRequest)" using sample_startable(2) by (cases "sampleCandidates plainRequest") auto
  with sample_startable(1) have "ccStartable c" by (simp add: list_all_iff)
  with candidate_verdicts_agree [OF c [unfolded sampleCandidates_def]] c show ?thesis by blast
qed

text \<open>
  C21: A startable candidate, after any calls on the profile store, is a plan of an action that starts
  the artifact on this device, the requested one if a plan is requested; the resolution is resolved
  and has not expired; the artifact gives the access method of the plan; the plan is supported, or
  experimental and allowed; what a VPS issued has not expired, is valid and has fresh evidence; and
  if the plan requires a profile, the candidate names a stored one with complete material and an
  endpoint that is not the device itself.
\<close>
theorem startable_candidate_sound:
  assumes "goodIDs se" "runStore se pe on path tunnels disk calls = (s, cs, b)"
    "c \<in> set (fst (ProviderTransportCompatibilityCandidates env hash s now q h))" "ccStartable c"
  shows "\<exists>m a act d. theResolution (compatResolutionID (normalizeCompatRequest q)) h = Some m \<and>
    rvState (mrView m) = ResolutionResolved \<and> (\<forall>t. xsExpiresAt (rvExport (mrView m)) = Some t \<longrightarrow> now < t) \<and>
    rvArtifact (mrView m) = Some a \<and> act \<in> set (rtActions a) \<and> raID act = ''start_on_this_device'' \<and>
    d \<in> set (raPlans act) \<and> xdPlan (ccPlan c) = xdPlan d \<and> (\<forall>p. cqPlan q = Some p \<longrightarrow> xdPlan d = p) \<and>
    xpAccessMethod (xdPlan d) \<in> set (rtAccessMethods a) \<and>
    (isSupported d \<or> xdSupportState d = ''experimental'' \<and> cqAllowDegraded q) \<and>
    (\<forall>r. rvRemoteVPS (mrView m) = Some r \<longrightarrow> (\<forall>t. rmExpiresAt r = Some t \<longrightarrow> now < t) \<and>
      TrimSpace (rmValidation r) \<in> {[], ''valid''} \<and> TrimSpace (rmEvidence r) \<in> {[], ''fresh''}) \<and>
    (requiredKindsOf s d = [] \<or> (\<exists>ref w. ccProfile c = Some ref \<and> materialOf (rfProfileID ref) s = Some w \<and>
      wireGuardProfileComplete (Some w) \<and> rawIngressEndpointOk (wgEndpoint w) \<and>
      isStrictWireGuardTurnExecutionPlan (xdPlan d)))"
proof -
  let ?q = "normalizeCompatRequest q"
  have ok: "storeOk se s" using run_state [OF assms(1,2)] by simp
  obtain m where m: "theResolution (compatResolutionID ?q) h = Some m"
    "c \<in> set (candidatesOf hash s now ?q (mrView (fst (expireResolution env now m))))"
    using candidates_of [OF assms(3,4)] by blast
  note r = startable_resolution [OF m(2) assms(4)]
  note v = resolutionVerdict_None [OF r(1)]
  note e = resolved_now [OF v(1)]
  obtain d where d: "d \<in> set (startPlans (mrView m) (cqPlan q))"
    "c = candidateForDescriptor hash s ?q (sourceFor ?q (mrView m)) (artifactFor ?q (mrView m)) d"
    using r(2) by (auto simp: e(1) normalizeCompatRequest_def)
  obtain a act where a: "rvArtifact (mrView m) = Some a" "act \<in> set (rtActions a)" "raID act = ''start_on_this_device''"
    "d \<in> set (raPlans act)" "\<forall>p. cqPlan q = Some p \<longrightarrow> xdPlan d = p"
    using startPlans_in [OF d(1)] by blast
  note c = startable_descriptor [OF assms(4) [unfolded d(2)]]
  note p = planVerdict_None [OF c(1)]
  have acc: "afAccessMethods (artifactFor ?q (mrView m)) = rtAccessMethods a"
    by (simp add: artifactFor_def artifactReferenceOf_def a(1) Let_def split: option.split)
  have remote: "(\<forall>t. rmExpiresAt r = Some t \<longrightarrow> now < t) \<and> TrimSpace (rmValidation r) \<in> {[], ''valid''} \<and>
      TrimSpace (rmEvidence r) \<in> {[], ''fresh''}" if "rvRemoteVPS (mrView m) = Some r" for r
    using remote_ready [of "mrView m" now r] v(3) that by (simp add: e(1) remoteOf_def)
  have profile: "requiredKindsOf s d = [] \<or> (\<exists>ref w. ccProfile c = Some ref \<and> materialOf (rfProfileID ref) s = Some w \<and>
      wireGuardProfileComplete (Some w) \<and> rawIngressEndpointOk (wgEndpoint w) \<and> isStrictWireGuardTurnExecutionPlan (xdPlan d))"
    using c(2) profileVerdict_valid(2) validated_ref [OF ok] unfolding d(2) [symmetric] by metis
  show ?thesis
    using m(1) v(1) e a p acc remote profile d(2)
    by (intro exI [of _ m] exI [of _ a] exI [of _ act] exI [of _ d]) (auto simp: normalizeCompatRequest_def)
qed

theorem startable_candidate_sound_witness:
  "\<exists>c m. c \<in> set (sampleCandidates plainRequest) \<and> ccStartable c \<and> theResolution ''r'' turnHost = Some m \<and>
     rvState (mrView m) = ResolutionResolved"
proof -
  obtain c where c: "c \<in> set (sampleCandidates plainRequest)" using sample_startable(2) by (cases "sampleCandidates plainRequest") auto
  with sample_startable(1) have s: "ccStartable c" by (simp add: list_all_iff)
  show ?thesis
    using startable_candidate_sound [OF sample_ids sample_runs(1) [unfolded sampleRun_def] c [unfolded sampleCandidates_def] s] c s
    unfolding plain_normal plain_resolution by blast
qed

text \<open>
  A request always gets a candidate, and every candidate of a request that names one gets the
  identifier the request names; apart from the identifiers the answer is that of the request that
  names none.  So the identifier selects nothing, and one of an earlier answer is taken for any plan.
\<close>
theorem candidate_id_selects_nothing:
  "fst (ProviderTransportCompatibilityCandidates env hash s now q h) \<noteq> [] \<and>
   (TrimSpace (cqCandidateID q) \<noteq> [] \<longrightarrow>
     (\<forall>c\<in>set (fst (ProviderTransportCompatibilityCandidates env hash s now q h)). ccID c = TrimSpace (cqCandidateID q)) \<and>
     List.map unnamed (fst (ProviderTransportCompatibilityCandidates env hash s now q h)) =
       List.map unnamed (fst (ProviderTransportCompatibilityCandidates env hash s now (q\<lparr>cqCandidateID := []\<rparr>) h)))"
proof -
  have t: "TrimSpace (cqCandidateID (normalizeCompatRequest q)) = TrimSpace (cqCandidateID q)"
    by (simp add: normalizeCompatRequest_def)
  have "ccID c = TrimSpace (cqCandidateID q)"
    if "TrimSpace (cqCandidateID q) \<noteq> []" "c \<in> set (fst (ProviderTransportCompatibilityCandidates env hash s now q h))" for c
    using that candidatesOf_wanted [of "normalizeCompatRequest q" c hash s now]
    by (auto simp: ProviderTransportCompatibilityCandidates_def Let_def failure_wanted t
        split: option.splits prod.splits if_splits)
  then show ?thesis using candidates_some candidates_unnamed by metis
qed

theorem candidate_id_selects_nothing_witness:
  "\<exists>c. c \<in> set (sampleCandidates (plainRequest\<lparr>cqCandidateID := ''i''\<rparr>)) \<and> ccID c = ''i''"
proof -
  have "TrimSpace (cqCandidateID (plainRequest\<lparr>cqCandidateID := ''i''\<rparr>)) = ''i''" by simp
  then show ?thesis
    using candidate_id_selects_nothing [of bareConfig "\<lambda>t. t" "sampleStored sampleWireGuard" 7 "plainRequest\<lparr>cqCandidateID := ''i''\<rparr>" turnHost]
    unfolding sampleCandidates_def by (metis list.distinct(1) list.set_sel(1))
qed

end
