(* ===== verification/RemoteCatalog.thy ===== *)
theory RemoteCatalog
  imports HostResolutions TransportStore VpsService
begin

text \<open>
  The client of provider catalogs that are published by a VPS
  (\<^verbatim>\<open>pkg/clientcontrol/vps_provider_catalog.go\<close>): synchronising the catalogs of the configured
  endpoints, the cache and the highest generation accepted, in memory and on disk, and the issue of
  an artifact as a resolution of the host.  The answers of the network are arguments; texts for
  humans are left out.  A sync takes the lock twice, so it is two steps.
\<close>

section \<open>The data\<close>

record catalogEndpoint =
  cpID :: string
  cpURL :: string
  cpIssuer :: string
  cpAudience :: string
  cpReadToken :: string
  cpIssueToken :: string
  cpAllowUnsigned :: bool

record catalogStatus =
  vtEndpointID :: string
  vtEndpointURL :: string
  vtIssuer :: string
  vtAudience :: string
  vtGeneration :: "64 word"
  vtGeneratedAt :: "goTime option"
  vtExpiresAt :: "goTime option"
  vtLastSyncAt :: "goTime option"
  vtStatus :: string
  vtReason :: string
  vtSourceCount :: nat

record cachedCatalog =
  kcEndpoint :: catalogEndpoint
  kcSnapshot :: catalogSnapshot
  kcStatus :: catalogStatus

record catalogDisk =
  kdVersion :: int
  kdHighest :: "string \<rightharpoonup> 64 word"
  kdCatalogs :: "(string \<times> catalogStatus \<times> catalogSnapshot) list"

record catalogClient =
  kaEndpoints :: "catalogEndpoint list"
  kaPath :: string
  kaCache :: "string \<rightharpoonup> cachedCatalog"
  kaHighest :: "string \<rightharpoonup> 64 word"
  kaDisk :: "catalogDisk option"

text \<open>
  The parameters: the SHA-256 of the JSON of a snapshot, the clock behind a zero time, and whether a
  text parses as a URL with a scheme and a host.
\<close>

record catalogEnv =
  keSha :: "catalogSnapshot \<Rightarrow> string"
  keWall :: goTime
  keURLOk :: "string \<Rightarrow> bool"

text \<open>What the request for a catalog comes to.\<close>

datatype catalogAnswer =
    NoCatalogRequest
  | NoCatalogAnswer
  | CatalogRefused
  | CatalogUnreadable
  | CatalogAnswer catalogSnapshot

definition goZero :: goTime where "goZero = \<lparr>tNanos = 0, tUTC = True\<rparr>"

definition emptySnapshot :: catalogSnapshot where
  "emptySnapshot =
     \<lparr>csVersion = [], csGeneratedAt = goZero, csExpiresAt = goZero, csIssuer = [], csAudience = [], csEndpointID = [],
      csGeneration = 0, csIntegrity = noIntegrity, csSources = []\<rparr>"

text \<open>The instant of the host that a time of the catalog is.\<close>

definition instantOf :: "goTime \<Rightarrow> instant" where
  "instantOf t = tNanos t + zeroTime"

section \<open>Endpoints\<close>

definition trimSlashes :: "string \<Rightarrow> string" where
  "trimSlashes s = rev (dropWhile (\<lambda>c. c = CHR ''/'') (rev s))"

definition cloneEndpoint :: "catalogEndpoint \<Rightarrow> catalogEndpoint" where
  "cloneEndpoint e =
     e\<lparr>cpID := TrimSpace (cpID e), cpURL := trimSlashes (TrimSpace (cpURL e)), cpIssuer := TrimSpace (cpIssuer e),
       cpAudience := TrimSpace (cpAudience e), cpReadToken := TrimSpace (cpReadToken e),
       cpIssueToken := TrimSpace (cpIssueToken e)\<rparr>"

definition validateEndpoint :: "catalogEnv \<Rightarrow> catalogEndpoint \<Rightarrow> bool" where
  "validateEndpoint env e \<longleftrightarrow>
     TrimSpace (cpID e) \<noteq> [] \<and> TrimSpace (cpURL e) \<noteq> [] \<and> keURLOk env (TrimSpace (cpURL e)) \<and>
     TrimSpace (cpIssuer e) \<noteq> [] \<and> TrimSpace (cpAudience e) \<noteq> []"

text \<open>\<open>strings.Join([]string{...}, "|")\<close>\<close>

definition generationKey :: "catalogEndpoint \<Rightarrow> string" where
  "generationKey e = cpID e @ ''|'' @ cpIssuer e @ ''|'' @ cpAudience e"

definition highestOf :: "(string \<rightharpoonup> 64 word) \<Rightarrow> string \<Rightarrow> 64 word" where
  "highestOf m k = (case m k of None \<Rightarrow> 0 | Some g \<Rightarrow> g)"

section \<open>The file\<close>

definition catalogToDisk :: "catalogClient \<Rightarrow> catalogDisk" where
  "catalogToDisk s =
     \<lparr>kdVersion = 1,
      kdHighest = (\<lambda>k. case kaHighest s k of None \<Rightarrow> None | Some g \<Rightarrow> if 0 < g then Some g else None),
      kdCatalogs =
        List.map_filter (\<lambda>e. map_option (\<lambda>c. (cpID e, kcStatus c,
            if csVersion (kcSnapshot c) \<noteq> [] then CloneSnapshot (kcSnapshot c) else emptySnapshot)) (kaCache s (cpID e)))
          (sort_key cpID (List.map cloneEndpoint (kaEndpoints s)))\<rparr>"

text \<open>Returns whether it fails.\<close>

definition persistCatalogs :: "writeOutcome \<Rightarrow> catalogClient \<Rightarrow> bool \<times> catalogClient" where
  "persistCatalogs io s =
     (if TrimSpace (kaPath s) = [] then (False, s)
      else
        (case io of
           Written \<Rightarrow> (False, s\<lparr>kaDisk := Some (catalogToDisk s)\<rparr>)
         | NotWritten \<Rightarrow> (True, s)
         | WrittenUnprotected \<Rightarrow> (True, s\<lparr>kaDisk := Some (catalogToDisk s)\<rparr>)))"

definition raiseHighest :: "string \<Rightarrow> 64 word \<Rightarrow> (string \<rightharpoonup> 64 word) \<Rightarrow> (string \<rightharpoonup> 64 word)" where
  "raiseHighest k g m = (if highestOf m k < g then m(k \<mapsto> g) else m)"

definition loadCatalog ::
    "string \<times> catalogStatus \<times> catalogSnapshot \<Rightarrow> catalogClient \<Rightarrow> catalogClient" where
  "loadCatalog r s =
     (case r of (eid, st, snap) \<Rightarrow>
        (case find (\<lambda>e. cpID e = TrimSpace eid) (rev (kaEndpoints s)) of
           None \<Rightarrow> s
         | Some e \<Rightarrow>
             if csVersion snap \<noteq> [] then
               s\<lparr>kaCache := (kaCache s)(cpID e \<mapsto> \<lparr>kcEndpoint = e, kcSnapshot = CloneSnapshot snap, kcStatus = st\<rparr>),
                 kaHighest := raiseHighest (generationKey e) (csGeneration snap) (kaHighest s)\<rparr>
             else
               s\<lparr>kaCache := (kaCache s)(cpID e \<mapsto> \<lparr>kcEndpoint = e, kcSnapshot = emptySnapshot, kcStatus = st\<rparr>)\<rparr>))"

text \<open>
  A client as \<open>NewHost\<close> makes it, with empty maps; a file of another version fails to load, and the
  host goes on with the empty cache.
\<close>

definition loadCatalogCache :: "catalogClient \<Rightarrow> catalogClient" where
  "loadCatalogCache s =
     (if TrimSpace (kaPath s) = [] then s
      else
        (case kaDisk s of
           None \<Rightarrow> s
         | Some d \<Rightarrow>
             if kdVersion d \<noteq> 1 then s
             else fold loadCatalog (kdCatalogs d)
               (s\<lparr>kaCache := Map.empty,
                  kaHighest := (\<lambda>k. if k \<in> set (List.map generationKey (kaEndpoints s)) \<and> 0 < highestOf (kdHighest d) k
                    then Some (highestOf (kdHighest d) k) else None)\<rparr>)))"

definition openCatalogs :: "catalogEndpoint list \<Rightarrow> string \<Rightarrow> catalogDisk option \<Rightarrow> catalogClient" where
  "openCatalogs endpoints path disk =
     loadCatalogCache \<lparr>kaEndpoints = List.map cloneEndpoint endpoints, kaPath = TrimSpace path, kaCache = Map.empty,
       kaHighest = Map.empty, kaDisk = disk\<rparr>"

section \<open>Synchronising\<close>

definition emptyStatus :: "catalogEndpoint \<Rightarrow> catalogStatus" where
  "emptyStatus e =
     \<lparr>vtEndpointID = cpID e, vtEndpointURL = cpURL e, vtIssuer = cpIssuer e, vtAudience = cpAudience e, vtGeneration = 0,
      vtGeneratedAt = None, vtExpiresAt = None, vtLastSyncAt = None, vtStatus = statusText ValidationStatusUnavailable,
      vtReason = [], vtSourceCount = 0\<rparr>"

definition failedStatus :: "catalogEndpoint \<Rightarrow> goTime \<Rightarrow> validationStatus \<Rightarrow> catalogStatus" where
  "failedStatus e now v = (emptyStatus e)\<lparr>vtLastSyncAt := Some now, vtStatus := statusText v\<rparr>"

definition statusFromSnapshot ::
    "catalogEndpoint \<Rightarrow> catalogSnapshot \<Rightarrow> goTime \<Rightarrow> validationStatus \<times> string \<Rightarrow> catalogStatus" where
  "statusFromSnapshot e s lastSync r =
     \<lparr>vtEndpointID = cpID e, vtEndpointURL = cpURL e, vtIssuer = csIssuer s, vtAudience = csAudience s,
      vtGeneration = csGeneration s, vtGeneratedAt = Some (UTC (csGeneratedAt s)), vtExpiresAt = Some (UTC (csExpiresAt s)),
      vtLastSyncAt = Some (UTC lastSync), vtStatus = statusText (fst r), vtReason = snd r,
      vtSourceCount = length (csSources s)\<rparr>"

definition catalogOptions :: "catalogEndpoint \<Rightarrow> goTime \<Rightarrow> 64 word \<Rightarrow> validationOptions" where
  "catalogOptions e now highest =
     \<lparr>voNow = now, voExpectedIssuer = cpIssuer e, voExpectedAudience = cpAudience e, voExpectedEndpointID = cpID e,
      voHighestAcceptedGeneration = highest, voRequireSigned = (\<not> cpAllowUnsigned e)\<rparr>"

definition storeCatalogStatus ::
    "writeOutcome \<Rightarrow> catalogEndpoint \<Rightarrow> catalogStatus \<Rightarrow> catalogSnapshot option \<Rightarrow> catalogClient \<Rightarrow> bool \<times> catalogClient" where
  "storeCatalogStatus io e st snap s =
     (let old = (case kaCache s (cpID e) of None \<Rightarrow> emptySnapshot | Some c \<Rightarrow> kcSnapshot c);
          new = (case snap of
              Some sn \<Rightarrow> CloneSnapshot sn
            | None \<Rightarrow> if vtStatus st \<noteq> statusText ValidationStatusUnavailable then emptySnapshot else old);
          highest = (case snap of
              Some sn \<Rightarrow> raiseHighest (generationKey e) (csGeneration sn) (kaHighest s)
            | None \<Rightarrow> kaHighest s)
      in persistCatalogs io (s\<lparr>kaCache := (kaCache s)(cpID e \<mapsto> \<lparr>kcEndpoint = e, kcSnapshot = new, kcStatus = st\<rparr>),
           kaHighest := highest\<rparr>))"

text \<open>
  The first half of \<open>syncVPSProviderCatalog\<close>: the request, and either the status of a failure or, with
  a snapshot in hand, the highest generation accepted so far.
\<close>

definition beginSync ::
    "catalogEnv \<Rightarrow> writeOutcome \<Rightarrow> goTime \<Rightarrow> catalogEndpoint \<Rightarrow> catalogAnswer \<Rightarrow> catalogClient \<Rightarrow>
      (catalogStatus + catalogSnapshot \<times> 64 word) \<times> catalogClient" where
  "beginSync env io now e answer s =
     (let failed = (\<lambda>v. (Inl (failedStatus e now v), snd (storeCatalogStatus io e (failedStatus e now v) None s))) in
      if \<not> validateEndpoint env e then failed ValidationStatusInvalid
      else
        (case answer of
           NoCatalogRequest \<Rightarrow> failed ValidationStatusInvalid
         | NoCatalogAnswer \<Rightarrow> failed ValidationStatusUnavailable
         | CatalogRefused \<Rightarrow> failed ValidationStatusUnavailable
         | CatalogUnreadable \<Rightarrow> failed ValidationStatusInvalid
         | CatalogAnswer snap \<Rightarrow> (Inr (snap, highestOf (kaHighest s) (generationKey e)), s)))"

text \<open>The second half: validation and storing.  The flag says whether an error is returned.\<close>

definition endSync ::
    "catalogEnv \<Rightarrow> writeOutcome \<Rightarrow> goTime \<Rightarrow> catalogEndpoint \<Rightarrow> catalogSnapshot \<Rightarrow> 64 word \<Rightarrow> catalogClient \<Rightarrow>
      (catalogStatus \<times> bool) \<times> catalogClient" where
  "endSync env io now e snap highest s =
     (let r = ValidateSnapshot (keSha env) (keWall env) snap (catalogOptions e now highest);
          st = statusFromSnapshot e snap now r
      in if fst r \<noteq> ValidationStatusValid then ((st, True), snd (storeCatalogStatus io e st None s))
         else (case storeCatalogStatus io e st (Some snap) s of (failed, s') \<Rightarrow> ((st, failed), s')))"

definition syncCatalog ::
    "catalogEnv \<Rightarrow> writeOutcome \<Rightarrow> goTime \<Rightarrow> catalogEndpoint \<Rightarrow> catalogAnswer \<Rightarrow> catalogClient \<Rightarrow>
      (catalogStatus \<times> bool) \<times> catalogClient" where
  "syncCatalog env io now e answer s =
     (case beginSync env io now e answer s of
        (Inl st, s') \<Rightarrow> ((st, True), s')
      | (Inr (snap, highest), s') \<Rightarrow> endSync env io now e snap highest s')"

text \<open>
  All endpoints in turn; \<open>world\<close> gives what each meets.  The result is the statuses and whether one
  failed.
\<close>

fun syncAll ::
    "catalogEnv \<Rightarrow> (catalogEndpoint \<Rightarrow> writeOutcome \<times> goTime \<times> catalogAnswer) \<Rightarrow> catalogEndpoint list \<Rightarrow> catalogClient \<Rightarrow>
      (catalogStatus list \<times> bool) \<times> catalogClient" where
  "syncAll env world [] s = (([], False), s)"
| "syncAll env world (e # es) s =
     (case world e of (io, now, answer) \<Rightarrow>
        (case syncCatalog env io now e answer s of
           ((st, failed), s1) \<Rightarrow>
             (case syncAll env world es s1 of ((sts, later), s2) \<Rightarrow> ((st # sts, failed \<or> later), s2))))"

definition SyncVPSProviderCatalogs ::
    "catalogEnv \<Rightarrow> (catalogEndpoint \<Rightarrow> writeOutcome \<times> goTime \<times> catalogAnswer) \<Rightarrow> catalogClient \<Rightarrow>
      (catalogStatus list \<times> bool) option \<times> catalogClient" where
  "SyncVPSProviderCatalogs env world s =
     (if kaEndpoints s = [] then (None, s)
      else (case syncAll env world (List.map cloneEndpoint (kaEndpoints s)) s of (r, s') \<Rightarrow> (Some r, s')))"

end
