(* ===== verification/RemoteIssue.thy ===== *)
theory RemoteIssue
  imports RemoteCatalog
begin

text \<open>
  What a host reads from the cached catalogs of its VPS endpoints, and the artifact it has issued
  (\<^verbatim>\<open>pkg/clientcontrol/vps_provider_catalog.go\<close>).
\<close>

section \<open>Reading the catalogs\<close>

definition currentStatus :: "catalogEnv \<Rightarrow> goTime \<Rightarrow> catalogClient \<Rightarrow> cachedCatalog \<Rightarrow> catalogStatus" where
  "currentStatus env now s c =
     (if csVersion (kcSnapshot c) = [] then kcStatus c
      else
        (let highest = highestOf (kaHighest s) (generationKey (kcEndpoint c));
             r = ValidateSnapshot (keSha env) (keWall env) (kcSnapshot c) (catalogOptions (kcEndpoint c) now highest);
             last = (case vtLastSyncAt (kcStatus c) of None \<Rightarrow> UTC now | Some t \<Rightarrow> UTC t)
         in statusFromSnapshot (kcEndpoint c) (kcSnapshot c) last r))"

definition VPSProviderCatalogs :: "catalogEnv \<Rightarrow> goTime \<Rightarrow> catalogClient \<Rightarrow> catalogStatus list" where
  "VPSProviderCatalogs env now s =
     List.map (\<lambda>e. case kaCache s (cpID e) of None \<Rightarrow> emptyStatus e | Some c \<Rightarrow> currentStatus env now s c) (kaEndpoints s)"

record remoteOffer =
  roOfferID :: string
  roFamily :: string
  roAccessMethods :: "string list"
  roActions :: "string list"
  roEndpointFamily :: string
  roEndpointRole :: string
  roProfileKinds :: "string list"
  roHealth :: string
  roEvidence :: string
  roValidation :: string
  roReason :: string

record remoteSource =
  rvsEndpointID :: string
  rvsIssuer :: string
  rvsAudience :: string
  rvsGeneration :: "64 word"
  rvsProviderID :: string
  rvsSourceID :: string
  rvsDisplayName :: string
  rvsDescription :: string
  rvsFamily :: string
  rvsHealth :: string
  rvsEvidence :: string
  rvsValidation :: string
  rvsReason :: string
  rvsOffers :: "remoteOffer list"

definition firstEvidenceStatus :: "vpsEvidence list \<Rightarrow> string" where
  "firstEvidenceStatus es = (case es of [] \<Rightarrow> EvidenceStatusMissing | e # _ \<Rightarrow> evStatus e)"

definition emptyOffer :: artifactOffer where
  "emptyOffer =
     \<lparr>aoID = [], aoFamily = [], aoAccessMethods = [], aoActions = [], aoRemoteEndpointFamily = [], aoRemoteEndpointRole = [],
      aoCompatibleProfileKinds = [], aoMaxTTLSeconds = 0,
      aoHealth = \<lparr>heStatus = [], heCheckedAt = None, heExpiresAt = None, heDegradedReason = [], heMessage = [], heLimitDomain = []\<rparr>,
      aoEvidence = [], aoRedaction = emptyRedactionPolicy,
      aoProvenance = \<lparr>prEndpointID = [], prIssuer = [], prAudience = [], prGeneration = 0, prSourceID = [], prOfferID = []\<rparr>,
      aoMetadata = []\<rparr>"

definition firstOffer :: "providerSource \<Rightarrow> artifactOffer" where
  "firstOffer p = (case psArtifactOffers p of [] \<Rightarrow> emptyOffer | a # _ \<Rightarrow> a)"

text \<open>The state of an offer: that of the catalog, and its own readiness only if the catalog is valid.\<close>

definition offerState ::
    "catalogEnv \<Rightarrow> goTime \<Rightarrow> catalogStatus \<Rightarrow> providerSource \<Rightarrow> artifactOffer \<Rightarrow> string \<times> string" where
  "offerState env now st p a =
     (if vtStatus st = statusText ValidationStatusValid
      then (case ValidateOfferReadiness (keWall env) p a now of (v, why) \<Rightarrow> (statusText v, why))
      else (vtStatus st, vtReason st))"

definition remoteOfferOf :: "catalogEnv \<Rightarrow> goTime \<Rightarrow> catalogStatus \<Rightarrow> providerSource \<Rightarrow> artifactOffer \<Rightarrow> remoteOffer" where
  "remoteOfferOf env now st p a =
     \<lparr>roOfferID = aoID a, roFamily = aoFamily a, roAccessMethods = aoAccessMethods a, roActions = aoActions a,
      roEndpointFamily = aoRemoteEndpointFamily a, roEndpointRole = aoRemoteEndpointRole a,
      roProfileKinds = aoCompatibleProfileKinds a, roHealth = heStatus (aoHealth a),
      roEvidence = firstEvidenceStatus (aoEvidence a), roValidation = fst (offerState env now st p a),
      roReason = snd (offerState env now st p a)\<rparr>"

definition remoteSourceOf :: "catalogEnv \<Rightarrow> goTime \<Rightarrow> catalogSnapshot \<Rightarrow> catalogStatus \<Rightarrow> providerSource \<Rightarrow> remoteSource" where
  "remoteSourceOf env now snap st p =
     \<lparr>rvsEndpointID = csEndpointID snap, rvsIssuer = csIssuer snap, rvsAudience = csAudience snap,
      rvsGeneration = csGeneration snap, rvsProviderID = psProviderID p, rvsSourceID = psID p,
      rvsDisplayName = psDisplayName p, rvsDescription = psDescription p, rvsFamily = psSourceFamily p,
      rvsHealth = heStatus (psHealth p), rvsEvidence = firstEvidenceStatus (psEvidence p),
      rvsValidation = fst (offerState env now st p (firstOffer p)), rvsReason = snd (offerState env now st p (firstOffer p)),
      rvsOffers = List.map (remoteOfferOf env now st p) (psArtifactOffers p)\<rparr>"

definition RemoteProviderSources :: "catalogEnv \<Rightarrow> goTime \<Rightarrow> catalogClient \<Rightarrow> remoteSource list" where
  "RemoteProviderSources env now s =
     concat (List.map (\<lambda>e. case kaCache s (cpID e) of
         None \<Rightarrow> []
       | Some c \<Rightarrow> List.map (remoteSourceOf env now (kcSnapshot c) (currentStatus env now s c)) (csSources (kcSnapshot c)))
       (kaEndpoints s))"

section \<open>The issue of an artifact\<close>

record artifactRequest =
  aqEndpointID :: string
  aqSourceID :: string
  aqOfferID :: string
  aqOperationID :: string
  aqTTLSeconds :: "64 word"
  aqExportSecret :: bool

datatype issueError =
    OperationRequired
  | CatalogUnavailable
  | CatalogInvalid
  | OfferUnknown
  | ArtifactNotReady
  | IssueFailed
  | ResponseMismatch
  | ResponseRollback
  | NoResolutionID

definition trimArtifactRequest :: "artifactRequest \<Rightarrow> artifactRequest" where
  "trimArtifactRequest q =
     q\<lparr>aqEndpointID := TrimSpace (aqEndpointID q), aqSourceID := TrimSpace (aqSourceID q),
       aqOfferID := TrimSpace (aqOfferID q), aqOperationID := TrimSpace (aqOperationID q)\<rparr>"

text \<open>The loop over sources and offers is that of the service.\<close>

definition findCatalogOffer :: "catalogSnapshot \<Rightarrow> string \<Rightarrow> string \<Rightarrow> (providerSource \<times> artifactOffer) option" where
  "findCatalogOffer snap sid oid = findOfferIn (csSources snap) sid oid"

text \<open>
  What is checked under the lock, before the VPS is asked; the clock is read once for the status of
  the catalog and once for the readiness of the offer.
\<close>

definition issueCheck ::
    "catalogEnv \<Rightarrow> goTime \<Rightarrow> goTime \<Rightarrow> artifactRequest \<Rightarrow> catalogClient \<Rightarrow>
      issueError + cachedCatalog \<times> providerSource \<times> artifactOffer \<times> (validationStatus \<times> string)" where
  "issueCheck env now now' q s =
     (if aqOperationID q = [] then Inl OperationRequired
      else
        (case kaCache s (aqEndpointID q) of
           None \<Rightarrow> Inl CatalogUnavailable
         | Some c \<Rightarrow>
             if vtStatus (currentStatus env now s c) \<noteq> statusText ValidationStatusValid then Inl CatalogInvalid
             else
               (case findCatalogOffer (kcSnapshot c) (aqSourceID q) (aqOfferID q) of
                  None \<Rightarrow> Inl OfferUnknown
                | Some (p, a) \<Rightarrow>
                    (let ready = ValidateOfferReadiness (keWall env) p a now' in
                     if fst ready \<noteq> ValidationStatusValid then Inl ArtifactNotReady
                     else Inr (c, p, a, ready)))))"

text \<open>The request that goes to the VPS, without an audit context.\<close>

definition wireRequest :: "artifactRequest \<Rightarrow> artifactIssueRequest" where
  "wireRequest q =
     \<lparr>irSourceID = aqSourceID q, irOfferID = aqOfferID q, irOperationID = aqOperationID q, irTTLSeconds = aqTTLSeconds q,
      irExportSecret = aqExportSecret q, irAudit = emptyAudit\<rparr>"

definition responseError :: "artifactRequest \<Rightarrow> cachedCatalog \<Rightarrow> artifactIssueResponse \<Rightarrow> issueError option" where
  "responseError q c r =
     (if srSourceID (rsSource r) \<noteq> aqSourceID q \<or> arOfferID (rsArtifact r) \<noteq> aqOfferID q \<or>
         srEndpointID (rsSource r) \<noteq> csEndpointID (kcSnapshot c) then Some ResponseMismatch
      else if srGeneration (rsSource r) < csGeneration (kcSnapshot c) then Some ResponseRollback
      else None)"

section \<open>The resolution of an issued artifact\<close>

definition redactionLabels :: "redactionPolicy \<Rightarrow> string list" where
  "redactionLabels p = [rpOrdinaryReads p, rpEvents p, rpDiagnostics p, rpPersistedState p, rpExport p]"

definition remoteVPSArtifactSummary :: "artifactIssueResponse \<Rightarrow> validationStatus \<times> string \<Rightarrow> remoteSummary" where
  "remoteVPSArtifactSummary r ready =
     \<lparr>rmEndpointID = srEndpointID (rsSource r), rmIssuer = srIssuer (rsSource r), rmAudience = srAudience (rsSource r),
      rmGeneration = srGeneration (rsSource r), rmSourceID = srSourceID (rsSource r), rmOfferID = arOfferID (rsArtifact r),
      rmArtifactID = arID (rsArtifact r), rmHealth = heStatus (arHealth (rsArtifact r)),
      rmEvidence = firstEvidenceStatus (arEvidence (rsArtifact r)), rmValidation = statusText (fst ready),
      rmReason = snd ready, rmExpiresAt = Some (instantOf (rsExpiresAt r)), rmRedaction = redactionLabels (rsRedaction r)\<rparr>"

definition remoteVPSExportPayload :: "artifactIssueResponse \<Rightarrow> string" where
  "remoteVPSExportPayload r =
     (case rsExport r of None \<Rightarrow> [] | Some x \<Rightarrow> if axPayloadRedacted x then [] else TrimSpace (axPayload x))"

text \<open>\<open>runtimeAccessMethodsFromStrings\<close> and \<open>artifactActionsFromStrings\<close>\<close>

definition trimmedTexts :: "string list \<Rightarrow> string list" where
  "trimmedTexts vs = filter (\<lambda>v. v \<noteq> []) (List.map TrimSpace vs)"

definition vpsResolutionActions :: "string list \<Rightarrow> string \<Rightarrow> planDescriptor list list \<Rightarrow> resolutionAction list" where
  "vpsResolutionActions values family tunnels =
     (let actions = (if trimmedTexts values = [] then [''start_on_this_device''] else trimmedTexts values)
      in List.map (\<lambda>a. \<lparr>raID = a, raOwner = artifactActionExecutionOwner a,
           raPlans = resolutionExecutionPlansForAction a family tunnels\<rparr>) actions)"

definition issuedView ::
    "hostConfig \<Rightarrow> string \<Rightarrow> instant \<Rightarrow> artifactRequest \<Rightarrow> artifactIssueResponse \<Rightarrow> providerSource \<Rightarrow>
      validationStatus \<times> string \<Rightarrow> resolutionView" where
  "issuedView cfg rid now q r p ready =
     (let expires = instantOf (rsExpiresAt r); live = now < expires; summary = remoteVPSArtifactSummary r ready;
          family = arFamily (rsArtifact r)
      in \<lparr>rvID = rid, rvProvider = psProviderID p, rvMethod = ''vps_catalog_issue'',
          rvInput = \<lparr>inProvider = psProviderID p, inKind = ''remote_vps_catalog'',
            inLinkRedacted = ''vps-catalog://'' @ srEndpointID (rsSource r) @ ''/'' @ aqSourceID q @ ''/'' @ aqOfferID q,
            inInteractive = False\<rparr>,
          rvArtifact = Some \<lparr>rtFamily = family, rtAccessMethods = trimmedTexts (arAccessMethods (rsArtifact r)),
            rtActions = (if live then vpsResolutionActions (arActions (rsArtifact r)) family (hcTunnelPlans cfg) else []),
            rtSummary = SummaryRemote summary\<rparr>,
          rvState = (if live then ResolutionResolved else ResolutionExpired), rvCredentials = None,
          rvExport = \<lparr>xsSupported = (live \<and> remoteVPSExportPayload r \<noteq> []), xsExpiresAt = Some expires,
            xsExpirySource = ''vps_catalog_artifact_ttl''\<rparr>,
          rvFailure = None, rvActiveChallenge = [], rvStartedAt = now, rvUpdatedAt = now, rvResolvedAt = Some now,
          rvExpiredAt = (if live then None else Some now), rvRemoteVPS = Some summary\<rparr>)"

definition issuedEvent :: "resolutionView \<Rightarrow> hostEvent" where
  "issuedEvent v =
     (if rvState v = ResolutionExpired then resolutionSnapshotEvent v EvResolutionExpired ''expired''
      else resolutionSnapshotEvent v EvResolutionResolved [])"

definition issuedResolution ::
    "resolutionView \<Rightarrow> artifactIssueResponse \<Rightarrow> providerSource \<Rightarrow> artifactOffer \<Rightarrow> managedResolution" where
  "issuedResolution v r p a =
     \<lparr>mrView = v, mrSecret = None, mrRemoteExport = remoteVPSExportPayload r,
      mrDescriptor = \<lparr>pdID = psProviderID p, pdInputKind = ''remote_vps_catalog'', pdSchema = None, pdChallengeModes = [],
        pdArtifactFamilies = [aoFamily a], pdPotentialActions = trimmedTexts (aoActions a)\<rparr>,
      mrCtx = None, mrDone = True,
      mrInput = \<lparr>rqProvider = psProviderID p, rqInput = Some (''remote_vps_catalog'', []), rqSettings = [], rqLink = [],
        rqInteractive = False\<rparr>,
      mrEvents = [issuedEvent v], mrChallenges = []\<rparr>"

text \<open>\<open>allocateResolutionID\<close> in one go: an identifier that is free, of the first \<open>n\<close> drawn.\<close>

fun pickResolutionID :: "hostConfig \<Rightarrow> nat \<Rightarrow> controlHost \<Rightarrow> string option \<times> controlHost" where
  "pickResolutionID cfg 0 h = (None, h)"
| "pickResolutionID cfg (Suc n) h =
     (case drawID cfg h of
        (drawn, h1) \<Rightarrow>
          if TrimSpace drawn \<noteq> [] \<and> theResolution (TrimSpace drawn) h1 = None then (Some (TrimSpace drawn), h1)
          else pickResolutionID cfg n h1)"

definition recordVPSIssuedResolution ::
    "hostConfig \<Rightarrow> goTime \<Rightarrow> artifactRequest \<Rightarrow> artifactIssueResponse \<Rightarrow> providerSource \<Rightarrow> artifactOffer \<Rightarrow>
      validationStatus \<times> string \<Rightarrow> controlHost \<Rightarrow> (issueError + resolutionView) \<times> controlHost \<times> hostTask list" where
  "recordVPSIssuedResolution cfg now q r p a ready h =
     (case pickResolutionID cfg 8 h of
        (None, h1) \<Rightarrow> (Inl NoResolutionID, h1, [])
      | (Some rid, h1) \<Rightarrow>
          (let v = issuedView cfg rid (instantOf now) q r p ready in
           (Inr v, putResolution rid (issuedResolution v r p a) h1, [PublishEvent (issuedEvent v)])))"

text \<open>
  The issue: the check, the request to the VPS, the check of its response, and the resolution.  The
  clock is read three times.  The lock is not held while the VPS answers, and the catalogs are not read
  again afterwards: \<open>s\<close> is the client at the check, \<open>h\<close> the host when the resolution is recorded.
\<close>

definition IssueVPSProviderArtifact ::
    "catalogEnv \<Rightarrow> hostConfig \<Rightarrow> goTime \<times> goTime \<times> goTime \<Rightarrow>
      (catalogEndpoint \<Rightarrow> artifactIssueRequest \<Rightarrow> artifactIssueResponse option) \<Rightarrow> artifactRequest \<Rightarrow> catalogClient \<Rightarrow>
      controlHost \<Rightarrow> (issueError + resolutionView) \<times> controlHost \<times> hostTask list" where
  "IssueVPSProviderArtifact env cfg clock answer q0 s h =
     (case clock of (now1, now2, now3) \<Rightarrow>
        (let q = trimArtifactRequest q0 in
         (case issueCheck env now1 now2 q s of
            Inl e \<Rightarrow> (Inl e, h, [])
          | Inr (c, p, a, ready) \<Rightarrow>
              (case answer (kcEndpoint c) (wireRequest q) of
                 None \<Rightarrow> (Inl IssueFailed, h, [])
               | Some r \<Rightarrow>
                   (case responseError q c r of
                      Some e \<Rightarrow> (Inl e, h, [])
                    | None \<Rightarrow> recordVPSIssuedResolution cfg now3 q r p a ready h)))))"

end
