(* ===== verification/RemoteRuns.thy ===== *)
theory RemoteRuns
  imports RemoteIssue
begin

text \<open>
  Runs of the catalog client: syncs whose two halves interleave, with whatever the network answers and
  however writing the file ends, and restarts that find the file.  The highest generation that has
  reached the file is never lost.
\<close>

section \<open>Runs\<close>

type_synonym pendingSync = "catalogEndpoint \<times> goTime \<times> catalogSnapshot \<times> 64 word"

type_synonym catalogRun = "catalogClient \<times> pendingSync list"

datatype catalogAct =
    BeginSync nat writeOutcome goTime catalogAnswer
  | EndSync nat writeOutcome
  | Reopen

fun catalogDo :: "catalogEnv \<Rightarrow> catalogRun \<Rightarrow> catalogAct \<Rightarrow> catalogRun" where
  "catalogDo env (s, ps) (BeginSync i io now answer) =
     (if i < length (kaEndpoints s) then
        (let e = cloneEndpoint (kaEndpoints s ! i) in
         case beginSync env io now e answer s of
           (Inl _, s') \<Rightarrow> (s', ps)
         | (Inr (snap, highest), s') \<Rightarrow> (s', ps @ [(e, now, snap, highest)]))
      else (s, ps))"
| "catalogDo env (s, ps) (EndSync j io) =
     (if j < length ps then
        (case ps ! j of (e, now, snap, highest) \<Rightarrow>
           (snd (endSync env io now e snap highest s), take j ps @ drop (Suc j) ps))
      else (s, ps))"
| "catalogDo env (s, ps) Reopen = (openCatalogs (kaEndpoints s) (kaPath s) (kaDisk s), [])"

definition runCatalogs :: "catalogEnv \<Rightarrow> catalogRun \<Rightarrow> catalogAct list \<Rightarrow> catalogRun" where
  "runCatalogs env r acts = foldl (catalogDo env) r acts"

lemma runCatalogs_simps [simp]:
  "runCatalogs env r [] = r" "runCatalogs env r (a # acts) = runCatalogs env (catalogDo env r a) acts"
  by (simp_all add: runCatalogs_def)

section \<open>Endpoints\<close>

lemma clone_endpoint [simp]:
  "cpID (cloneEndpoint (cloneEndpoint e)) = cpID (cloneEndpoint e)"
  "generationKey (cloneEndpoint (cloneEndpoint e)) = generationKey (cloneEndpoint e)"
  by (simp_all add: cloneEndpoint_def generationKey_def)

lemma clone_id: "TrimSpace (cpID (cloneEndpoint e)) = cpID (cloneEndpoint e)"
  by (simp add: cloneEndpoint_def)

definition configured :: "catalogClient \<Rightarrow> string set" where
  "configured s = generationKey ` set (kaEndpoints s)"

text \<open>The highest generation of a key in the file, if there is a file that is read.\<close>

definition secured :: "catalogClient \<Rightarrow> string \<Rightarrow> 64 word" where
  "secured s k =
     (case kaDisk s of
        None \<Rightarrow> 0
      | Some d \<Rightarrow> if TrimSpace (kaPath s) = [] \<or> kdVersion d \<noteq> 1 then 0 else highestOf (kdHighest d) k)"

text \<open>
  The invariant: the endpoints are trimmed, what is in flight or cached belongs to one of them, a
  snapshot without a version is empty, and the file holds no higher generation than the memory.
\<close>

definition cloned :: "catalogEndpoint \<Rightarrow> bool" where
  "cloned e \<longleftrightarrow> cpID (cloneEndpoint e) = cpID e \<and> generationKey (cloneEndpoint e) = generationKey e"

definition filled :: "catalogSnapshot \<Rightarrow> bool" where
  "filled sn \<longleftrightarrow> csVersion sn = [] \<longrightarrow> csSources sn = []"

definition catalogsOk :: "catalogRun \<Rightarrow> bool" where
  "catalogsOk r \<longleftrightarrow>
     (case r of (s, ps) \<Rightarrow>
        (\<forall>e\<in>set (kaEndpoints s). cloned e) \<and>
        (\<forall>p\<in>set ps. generationKey (fst p) \<in> configured s) \<and>
        (\<forall>i c. kaCache s i = Some c \<longrightarrow> generationKey (kcEndpoint c) \<in> configured s \<and> filled (kcSnapshot c)) \<and>
        (\<forall>k\<in>configured s. secured s k \<le> highestOf (kaHighest s) k))"

text \<open>What a step keeps: the configuration, and the generations in the file.\<close>

definition advances :: "catalogClient \<Rightarrow> catalogClient \<Rightarrow> bool" where
  "advances s s' \<longleftrightarrow> configured s' = configured s \<and> (\<forall>k\<in>configured s. secured s k \<le> secured s' k)"

section \<open>The steps\<close>

lemma not_positive [simp]: "\<not> 0 < (g :: 64 word) \<longleftrightarrow> g = 0"
  by (simp add: word_gt_0)

lemma secured_same: "kaDisk s' = kaDisk s \<Longrightarrow> kaPath s' = kaPath s \<Longrightarrow> secured s' k = secured s k"
  by (cases "kaDisk s") (simp_all add: secured_def)

lemma highest_raise [simp]:
  "highestOf (raiseHighest k g m) k' = (if k' = k then max g (highestOf m k) else highestOf m k')"
  by (auto simp: raiseHighest_def highestOf_def max_def not_less split: option.split)

lemma highest_disk [simp]: "highestOf (kdHighest (catalogToDisk s)) k = highestOf (kaHighest s) k"
  by (auto simp: catalogToDisk_def highestOf_def split: option.split)

lemma version_disk [simp]: "kdVersion (catalogToDisk s) = 1"
  by (simp add: catalogToDisk_def)

lemma secured_written:
  "kaDisk s' = Some (catalogToDisk s) \<Longrightarrow> TrimSpace (kaPath s') \<noteq> [] \<Longrightarrow> secured s' k = highestOf (kaHighest s) k"
  by (simp add: secured_def)

lemma persistCatalogs_fields [simp]:
  "kaEndpoints (snd (persistCatalogs io s)) = kaEndpoints s" "kaPath (snd (persistCatalogs io s)) = kaPath s"
  "kaCache (snd (persistCatalogs io s)) = kaCache s" "kaHighest (snd (persistCatalogs io s)) = kaHighest s"
  by (simp_all add: persistCatalogs_def split: writeOutcome.split)

lemma persist_secured:
  "secured (snd (persistCatalogs io s)) k =
     (if TrimSpace (kaPath s) \<noteq> [] \<and> io \<noteq> NotWritten then highestOf (kaHighest s) k else secured s k)"
proof (cases "TrimSpace (kaPath s) \<noteq> [] \<and> io \<noteq> NotWritten")
  case True
  then have "kaDisk (snd (persistCatalogs io s)) = Some (catalogToDisk s)" by (cases io) (simp_all add: persistCatalogs_def)
  with True show ?thesis by (simp add: secured_written)
next
  case False
  then have "snd (persistCatalogs io s) = s" by (auto simp: persistCatalogs_def)
  with False show ?thesis by auto
qed

lemma store_fields [simp]:
  "kaEndpoints (snd (storeCatalogStatus io e st snap s)) = kaEndpoints s"
  "kaPath (snd (storeCatalogStatus io e st snap s)) = kaPath s"
  by (simp_all add: storeCatalogStatus_def Let_def)

lemma store_highest:
  "highestOf (kaHighest s) k \<le> highestOf (kaHighest (snd (storeCatalogStatus io e st snap s))) k"
  by (simp add: storeCatalogStatus_def Let_def split: option.split)

lemma filled_clone [simp]: "filled emptySnapshot" "csVersion sn \<noteq> [] \<Longrightarrow> filled (CloneSnapshot sn)"
  by (simp_all add: filled_def emptySnapshot_def CloneSnapshot_def)

lemma store_ok:
  assumes "catalogsOk (s, ps)" "generationKey e \<in> configured s" "\<And>sn. snap = Some sn \<Longrightarrow> csVersion sn \<noteq> []"
  shows "catalogsOk (snd (storeCatalogStatus io e st snap s), ps)" "advances s (snd (storeCatalogStatus io e st snap s))"
proof -
  let ?s = "snd (storeCatalogStatus io e st snap s)"
  have c: "configured ?s = configured s" by (simp add: configured_def)
  obtain s1 where s1: "?s = snd (persistCatalogs io s1)" "kaDisk s1 = kaDisk s" "kaPath s1 = kaPath s"
    "\<forall>k. highestOf (kaHighest s) k \<le> highestOf (kaHighest s1) k"
    "\<forall>i c. kaCache s1 i = Some c \<longrightarrow> kcEndpoint c = e \<and> filled (kcSnapshot c) \<or> kaCache s i = Some c"
  proof
    define s1 where "s1 = s\<lparr>kaCache := (kaCache s)(cpID e \<mapsto> \<lparr>kcEndpoint = e,
        kcSnapshot = (case snap of Some sn \<Rightarrow> CloneSnapshot sn | None \<Rightarrow>
          if vtStatus st \<noteq> statusText ValidationStatusUnavailable then emptySnapshot
          else (case kaCache s (cpID e) of None \<Rightarrow> emptySnapshot | Some c \<Rightarrow> kcSnapshot c)), kcStatus = st\<rparr>),
      kaHighest := (case snap of Some sn \<Rightarrow> raiseHighest (generationKey e) (csGeneration sn) (kaHighest s) | None \<Rightarrow> kaHighest s)\<rparr>"
    show "?s = snd (persistCatalogs io s1)" "kaDisk s1 = kaDisk s" "kaPath s1 = kaPath s"
      "\<forall>k. highestOf (kaHighest s) k \<le> highestOf (kaHighest s1) k"
      by (simp_all add: s1_def storeCatalogStatus_def Let_def split: option.split)
    show "\<forall>i c. kaCache s1 i = Some c \<longrightarrow> kcEndpoint c = e \<and> filled (kcSnapshot c) \<or> kaCache s i = Some c"
      using assms(1,3) by (auto simp: s1_def catalogsOk_def split: option.split)
  qed
  have sec: "secured s1 k = secured s k" for k using s1(2,3) by (rule secured_same)
  have up: "secured s k \<le> secured ?s k" "secured ?s k \<le> highestOf (kaHighest ?s) k" if "k \<in> configured s" for k
  proof -
    have "secured s k \<le> highestOf (kaHighest s) k" using assms(1) that by (simp add: catalogsOk_def)
    then have "secured s k \<le> highestOf (kaHighest s1) k" using s1(4) order_trans by blast
    then show "secured s k \<le> secured ?s k" "secured ?s k \<le> highestOf (kaHighest ?s) k"
      by (simp_all add: s1(1) persist_secured sec)
  qed
  show "advances s ?s" using up(1) c by (simp add: advances_def)
  show "catalogsOk (?s, ps)"
    unfolding catalogsOk_def prod.case c
  proof (intro conjI allI impI)
    show "\<forall>x\<in>set (kaEndpoints ?s). cloned x" "\<forall>p\<in>set ps. generationKey (fst p) \<in> configured s"
      using assms(1) by (simp_all add: catalogsOk_def)
    show "\<forall>k\<in>configured s. secured ?s k \<le> highestOf (kaHighest ?s) k" using up(2) by blast
    fix i c assume "kaCache ?s i = Some c"
    then have "kcEndpoint c = e \<and> filled (kcSnapshot c) \<or> kaCache s i = Some c" using s1(5) by (simp add: s1(1))
    then show "generationKey (kcEndpoint c) \<in> configured s" "filled (kcSnapshot c)"
      using assms(1,2) by (auto simp: catalogsOk_def)
  qed
qed

lemma advances_refl [simp]: "advances s s" by (simp add: advances_def)

lemma advances_trans: "advances s s' \<Longrightarrow> advances s' s'' \<Longrightarrow> advances s s''"
  unfolding advances_def by (metis order_trans)

lemma begin_ok:
  assumes "catalogsOk (s, ps)" "generationKey e \<in> configured s" "beginSync env io now e answer s = (r, s')"
  shows "catalogsOk (s', ps)" "advances s s'"
  using assms(3) store_ok [OF assms(1,2), where snap = None] assms(1)
  by (auto simp: beginSync_def Let_def split: if_splits catalogAnswer.splits)

lemma valid_version:
  "fst (ValidateSnapshot sha wall sn opts) = ValidationStatusValid \<Longrightarrow> csVersion sn \<noteq> []"
  unfolding validate_valid by (auto simp: snapshotChecks_def Let_def SchemaVersion_def TrimSpace_Nil)

lemma end_ok:
  assumes "catalogsOk (s, ps)" "generationKey e \<in> configured s"
  shows "catalogsOk (snd (endSync env io now e snap highest s), ps)" "advances s (snd (endSync env io now e snap highest s))"
  using store_ok [OF assms, where snap = None] store_ok [OF assms, where snap = "Some snap"]
    valid_version [of "keSha env" "keWall env" snap "catalogOptions e now highest"]
  by (auto simp: endSync_def Let_def split: prod.split) (metis snd_conv)+

lemma load_fields [simp]:
  "kaEndpoints (loadCatalog r s) = kaEndpoints s" "kaPath (loadCatalog r s) = kaPath s" "kaDisk (loadCatalog r s) = kaDisk s"
  by (auto simp: loadCatalog_def split: prod.split option.split)

lemma load_highest: "highestOf (kaHighest s) k \<le> highestOf (kaHighest (loadCatalog r s)) k"
  by (auto simp: loadCatalog_def split: prod.split option.split)

lemma load_cache:
  assumes "\<forall>i c. kaCache s i = Some c \<longrightarrow> kcEndpoint c \<in> set (kaEndpoints s) \<and> filled (kcSnapshot c)"
    "kaCache (loadCatalog r s) i = Some c"
  shows "kcEndpoint c \<in> set (kaEndpoints s) \<and> filled (kcSnapshot c)"
  using assms by (auto simp: loadCatalog_def find_Some_iff split: prod.splits option.splits if_splits) (metis nth_mem set_rev length_rev)+

lemma fold_load:
  "kaEndpoints (fold loadCatalog rs s) = kaEndpoints s \<and> kaPath (fold loadCatalog rs s) = kaPath s \<and>
   kaDisk (fold loadCatalog rs s) = kaDisk s \<and> highestOf (kaHighest s) k \<le> highestOf (kaHighest (fold loadCatalog rs s)) k"
proof (induction rs arbitrary: s)
  case (Cons r rs)
  then show ?case using load_highest [of s k r] order_trans by (metis fold_simps(2) load_fields)
qed simp

lemma fold_load_cache:
  assumes "\<forall>i c. kaCache s i = Some c \<longrightarrow> kcEndpoint c \<in> set (kaEndpoints s) \<and> filled (kcSnapshot c)"
    "kaCache (fold loadCatalog rs s) i = Some c"
  shows "kcEndpoint c \<in> set (kaEndpoints s) \<and> filled (kcSnapshot c)"
  using assms
proof (induction rs arbitrary: s)
  case (Cons r rs)
  have "\<forall>i c. kaCache (loadCatalog r s) i = Some c \<longrightarrow>
      kcEndpoint c \<in> set (kaEndpoints (loadCatalog r s)) \<and> filled (kcSnapshot c)"
    using load_cache [OF Cons.prems(1)] by simp
  then show ?case using Cons.IH [of "loadCatalog r s"] Cons.prems(2) by simp
qed simp

lemma open_fields:
  "kaEndpoints (openCatalogs es path disk) = List.map cloneEndpoint es" "kaPath (openCatalogs es path disk) = TrimSpace path"
  "kaDisk (openCatalogs es path disk) = disk"
  by (auto simp: openCatalogs_def loadCatalogCache_def fold_load split: option.split)

lemma open_highest:
  assumes "k \<in> generationKey ` cloneEndpoint ` set es"
  shows "secured (openCatalogs es path disk) k \<le> highestOf (kaHighest (openCatalogs es path disk)) k"
proof (cases "TrimSpace path = [] \<or> disk = None")
  case True
  then show ?thesis by (cases disk) (auto simp: secured_def open_fields)
next
  case False
  then obtain d where d: "disk = Some d" by blast
  show ?thesis
  proof (cases "kdVersion d = 1")
    case True
    let ?s = "\<lparr>kaEndpoints = List.map cloneEndpoint es, kaPath = TrimSpace path, kaCache = Map.empty,
       kaHighest = (\<lambda>k. if k \<in> set (List.map generationKey (List.map cloneEndpoint es)) \<and> 0 < highestOf (kdHighest d) k
                    then Some (highestOf (kdHighest d) k) else None), kaDisk = disk\<rparr>"
    have o: "openCatalogs es path disk = fold loadCatalog (kdCatalogs d) ?s"
      using False True d by (simp add: openCatalogs_def loadCatalogCache_def)
    have "highestOf (kaHighest ?s) k = highestOf (kdHighest d) k"
      using assms by (auto simp: highestOf_def [where m = "\<lambda>k. if _ k then _ k else _"] image_image)
    then have "highestOf (kdHighest d) k \<le> highestOf (kaHighest (openCatalogs es path disk)) k"
      unfolding o using fold_load [of "kdCatalogs d" ?s k] by simp
    then show ?thesis using False True by (simp add: secured_def open_fields d)
  qed (simp add: secured_def open_fields d)
qed

lemma open_cache: "kaCache (openCatalogs es path disk) i = Some c \<Longrightarrow>
     kcEndpoint c \<in> cloneEndpoint ` set es \<and> filled (kcSnapshot c)"
  by (auto simp: openCatalogs_def loadCatalogCache_def dest!: fold_load_cache [rotated] split: option.splits if_splits)

lemma open_ok: "catalogsOk (openCatalogs es path disk, [])"
  using open_highest open_cache
  by (fastforce simp: catalogsOk_def configured_def open_fields image_image cloned_def)

lemma reopen_ok:
  assumes "catalogsOk (s, ps)"
  shows "advances s (openCatalogs (kaEndpoints s) (kaPath s) (kaDisk s))"
proof -
  let ?s = "openCatalogs (kaEndpoints s) (kaPath s) (kaDisk s)"
  have "configured ?s = configured s"
    using assms by (auto simp: configured_def open_fields catalogsOk_def cloned_def image_image)
  moreover have "secured ?s k = secured s k" for k
    by (cases "kaDisk s") (simp_all add: secured_def open_fields)
  ultimately show ?thesis by (simp add: advances_def)
qed

lemma do_ok:
  assumes "catalogsOk (s, ps)" "catalogDo env (s, ps) a = (s', ps')"
  shows "catalogsOk (s', ps') \<and> advances s s'"
proof (cases a)
  case (BeginSync i io now answer)
  show ?thesis
  proof (cases "i < length (kaEndpoints s)")
    case True
    let ?e = "cloneEndpoint (kaEndpoints s ! i)"
    have e: "generationKey ?e \<in> configured s"
      using assms(1) True by (auto simp: catalogsOk_def cloned_def configured_def)
    obtain r s1 where b: "beginSync env io now ?e answer s = (r, s1)" by fastforce
    note ok = begin_ok [OF assms(1) e b]
    have "generationKey ?e \<in> configured s1" using e ok(2) by (simp add: advances_def)
    then show ?thesis
      using assms(2) ok BeginSync True b by (auto simp: catalogsOk_def Let_def split: sum.splits)
  qed (use assms BeginSync in auto)
next
  case (EndSync j io)
  show ?thesis
  proof (cases "j < length ps")
    case True
    obtain e now snap highest where p: "ps ! j = (e, now, snap, highest)" by (metis surj_pair)
    have e: "generationKey e \<in> configured s"
      using assms(1) True p nth_mem [OF True] by (fastforce simp: catalogsOk_def)
    have "set (take j ps @ drop (Suc j) ps) \<subseteq> set ps" by (auto dest: in_set_takeD in_set_dropD)
    then have "catalogsOk (s, take j ps @ drop (Suc j) ps)" using assms(1) by (auto simp: catalogsOk_def)
    from end_ok [OF this e] show ?thesis using assms(2) EndSync True p by auto
  qed (use assms EndSync in auto)
next
  case Reopen
  then show ?thesis using assms open_ok reopen_ok by auto
qed

lemma run_ok:
  "catalogsOk r \<Longrightarrow> catalogsOk (runCatalogs env r acts) \<and> advances (fst r) (fst (runCatalogs env r acts))"
proof (induction acts arbitrary: r)
  case (Cons a acts)
  obtain s ps s' ps' where r: "r = (s, ps)" "catalogDo env r a = (s', ps')" by (metis surj_pair)
  show ?case using do_ok [of s ps env a s' ps'] Cons r advances_trans by fastforce
qed simp

end
