(* ===== verification/RemoteSample.thy ===== *)
theory RemoteSample
  imports RemoteRuns VpsServiceInv ClientSample
begin

text \<open>
  A small run of the catalog client: one endpoint, the sample snapshot synchronised and written, and an
  artifact that the VPS answers with.
\<close>

definition sampleEndpoint :: catalogEndpoint where
  "sampleEndpoint =
     \<lparr>cpID = ''e'', cpURL = ''h'', cpIssuer = ''i'', cpAudience = ''u'', cpReadToken = [], cpIssueToken = ''t'',
      cpAllowUnsigned = True\<rparr>"

definition sampleCatalogEnv :: catalogEnv where
  "sampleCatalogEnv = \<lparr>keSha = (\<lambda>_. []), keWall = sampleTime, keURLOk = (\<lambda>_. True)\<rparr>"

definition sampleSync :: "catalogAct list" where
  "sampleSync = [BeginSync 0 Written sampleTime (CatalogAnswer sampleSnapshot), EndSync 0 Written]"

definition sampleClient :: catalogRun where
  "sampleClient = runCatalogs sampleCatalogEnv (openCatalogs [sampleEndpoint] ''/c'' None, []) sampleSync"

definition sampleResponse :: artifactIssueResponse where
  "sampleResponse =
     \<lparr>rsOperationID = ''op'', rsIssuedAt = sampleTime, rsExpiresAt = \<lparr>tNanos = 50, tUTC = True\<rparr>,
      rsSource = \<lparr>srEndpointID = ''e'', srIssuer = ''i'', srAudience = ''u'', srGeneration = 8, srProviderID = ''p'', srSourceID = ''s''\<rparr>,
      rsArtifact = \<lparr>arID = ''x'', arSourceID = ''s'', arOfferID = ''o'', arFamily = ''generic_turn'',
        arAccessMethods = [''turn_credentials''], arActions = [], arRemoteEndpointFamily = [], arRemoteEndpointRole = [],
        arCompatibleProfileKinds = [], arHealth = sampleHealth None, arEvidence = [sampleEvidence],
        arExpiresAt = \<lparr>tNanos = 50, tUTC = True\<rparr>\<rparr>,
      rsExport = None, rsRedaction = emptyRedactionPolicy,
      rsProvenance = \<lparr>prEndpointID = [], prIssuer = [], prAudience = [], prGeneration = 0, prSourceID = [], prOfferID = []\<rparr>\<rparr>"

definition sampleAsk :: artifactRequest where
  "sampleAsk =
     \<lparr>aqEndpointID = ''e'', aqSourceID = ''s'', aqOfferID = ''o'', aqOperationID = ''op'', aqTTLSeconds = 30,
      aqExportSecret = True\<rparr>"

definition sampleIssued :: "(issueError + resolutionView) \<times> controlHost \<times> hostTask list" where
  "sampleIssued =
     IssueVPSProviderArtifact sampleCatalogEnv bareConfig (sampleTime, sampleTime, sampleTime)
       (\<lambda>_ _. Some sampleResponse) sampleAsk (fst sampleClient) NewHost"

lemma sample_client:
  "map_option (\<lambda>c. (kcEndpoint c = sampleEndpoint, csGeneration (kcSnapshot c))) (kaCache (fst sampleClient) ''e'') = Some (True, 7)"
  "secured (fst sampleClient) (generationKey sampleEndpoint) = 7"
  by code_simp+

lemma sample_issued:
  "case sampleIssued of
     (Inr v, h, ts) \<Rightarrow> rvID v = ''r'' \<and> rvState v = ResolutionResolved \<and>
       map_option (\<lambda>m. (rmExpiresAt m, rmEvidence m)) (rvRemoteVPS v) = Some (Some (50 + zeroTime), ''fresh'')
   | _ \<Rightarrow> False"
  by code_simp

lemma sample_issued_some:
  obtains v h ts summary where "sampleIssued = (Inr v, h, ts)" "rvID v = ''r''" "rvRemoteVPS v = Some summary"
    "rmExpiresAt summary = Some (50 + zeroTime)" "rmEvidence summary = ''fresh''"
proof -
  obtain x h ts where x: "sampleIssued = (x, h, ts)" by (metis surj_pair)
  show thesis
  proof (cases x)
    case (Inl e)
    then show thesis using sample_issued unfolding x by simp
  next
    case (Inr v)
    then show thesis using sample_issued that [of v h ts] unfolding x by (auto simp: map_option_eq_Some)
  qed
qed

end
