(* ===== verification/RemoteProperties.thy ===== *)
theory RemoteProperties
  imports RemoteSample CompatProperties
begin

text \<open>
  What the catalog client of \<^verbatim>\<open>pkg/clientcontrol/vps_provider_catalog.go\<close> promises: no artifact is
  issued under a catalog older than one that has reached the file, an issued artifact is what a valid
  catalog offers, it can be started until it expires, and it is what the service of
  \<^verbatim>\<open>internal/vpscatalog\<close> answers.
\<close>

section \<open>A valid snapshot\<close>

lemma valid_snapshot:
  assumes "fst (ValidateSnapshot sha wall sn (catalogOptions e now highest)) = ValidationStatusValid"
  shows "highest \<le> csGeneration sn" "csVersion sn \<noteq> []"
    "cpIssuer e \<noteq> [] \<Longrightarrow> csIssuer sn = cpIssuer e" "cpAudience e \<noteq> [] \<Longrightarrow> csAudience sn = cpAudience e"
    "cpID e \<noteq> [] \<Longrightarrow> csEndpointID sn = cpID e" "\<not> IsZero now \<Longrightarrow> After (csExpiresAt sn) now"
    "cpAllowUnsigned e \<or> siDigest (csIntegrity sn) = SnapshotDigest sha sn"
  using assms valid_version [OF assms] unfolding validate_valid
  by (auto simp: snapshotChecks_def Let_def catalogOptions_def not_less)

lemma valid_text [simp]: "statusText v = ''valid'' \<longleftrightarrow> v = ValidationStatusValid"
  by (cases v) simp_all

lemma current_valid:
  assumes "vtStatus (currentStatus env now s c) = statusText ValidationStatusValid" "csVersion (kcSnapshot c) \<noteq> []"
  shows "fst (ValidateSnapshot (keSha env) (keWall env) (kcSnapshot c)
    (catalogOptions (kcEndpoint c) now (highestOf (kaHighest s) (generationKey (kcEndpoint c))))) = ValidationStatusValid"
  using assms by (simp add: currentStatus_def statusFromSnapshot_def Let_def)

lemma findOfferIn_some:
  "findOfferIn ss sid oid = Some (p, a) \<Longrightarrow>
     \<exists>p0\<in>set ss. p = CloneSource p0 \<and> psID p0 = sid \<and> (\<exists>a0\<in>set (psArtifactOffers p0). a = CloneOffer a0 \<and> aoID a0 = oid)"
  by (induction ss) (auto simp: find_Some_iff split: if_splits option.splits)

lemma pick_fresh:
  "pickResolutionID cfg n h = (Some rid, h1) \<Longrightarrow>
     theResolution rid h = None \<and> hoResolutions h1 = hoResolutions h \<and> TrimSpace rid = rid \<and> rid \<noteq> []"
proof (induction n arbitrary: h)
  case (Suc n)
  then show ?case by (fastforce simp: drawID_def theResolution_def split: if_splits)
qed simp

section \<open>An issue that succeeds\<close>

lemma issueCheck_some:
  assumes "issueCheck env now now' q s = Inr (c, p, a, ready)"
  shows "kaCache s (aqEndpointID q) = Some c" "vtStatus (currentStatus env now s c) = statusText ValidationStatusValid"
    "findCatalogOffer (kcSnapshot c) (aqSourceID q) (aqOfferID q) = Some (p, a)"
    "ready = ValidateOfferReadiness (keWall env) p a now'" "fst ready = ValidationStatusValid"
  using assms by (auto simp: issueCheck_def Let_def split: if_splits option.splits)

lemma issue_some:
  assumes "IssueVPSProviderArtifact env cfg (now1, now2, now3) answer q s h = (Inr v, h', ts)"
  obtains c p a ready r rid where "issueCheck env now1 now2 (trimArtifactRequest q) s = Inr (c, p, a, ready)"
    "answer (kcEndpoint c) (wireRequest (trimArtifactRequest q)) = Some r" "responseError (trimArtifactRequest q) c r = None"
    "v = issuedView cfg rid (instantOf now3) (trimArtifactRequest q) r p ready" "theResolution rid h = None"
    "hoResolutions h' = AList.update rid (issuedResolution v r p a) (hoResolutions h)" "TrimSpace rid = rid" "rid \<noteq> []"
proof -
  let ?q = "trimArtifactRequest q"
  obtain c p a ready where 1: "issueCheck env now1 now2 ?q s = Inr (c, p, a, ready)"
    using assms by (auto simp: IssueVPSProviderArtifact_def Let_def split: sum.splits)
  then obtain r where 2: "answer (kcEndpoint c) (wireRequest ?q) = Some r" "responseError ?q c r = None"
    "recordVPSIssuedResolution cfg now3 ?q r p a ready h = (Inr v, h', ts)"
    using assms by (auto simp: IssueVPSProviderArtifact_def Let_def split: option.splits)
  then obtain rid h1 where 3: "pickResolutionID cfg 8 h = (Some rid, h1)"
    "v = issuedView cfg rid (instantOf now3) ?q r p ready" "h' = putResolution rid (issuedResolution v r p a) h1"
    by (auto simp: recordVPSIssuedResolution_def Let_def split: prod.splits option.splits)
  show thesis using that [OF 1 2(1,2) 3(2)] pick_fresh [OF 3(1)] 3(3) by (simp add: putResolution_def)
qed

lemma issue_snapshot:
  assumes "catalogsOk (s, ps)" "issueCheck env now now' q s = Inr (c, p, a, ready)"
  shows "fst (ValidateSnapshot (keSha env) (keWall env) (kcSnapshot c)
    (catalogOptions (kcEndpoint c) now (highestOf (kaHighest s) (generationKey (kcEndpoint c))))) = ValidationStatusValid"
proof -
  note i = issueCheck_some [OF assms(2)]
  have "csSources (kcSnapshot c) \<noteq> []" using i(3) by (auto simp: findCatalogOffer_def)
  then have "csVersion (kcSnapshot c) \<noteq> []" using assms(1) i(1) by (auto simp: catalogsOk_def filled_def)
  with i(2) show ?thesis by (rule current_valid)
qed

section \<open>Candidates of an issued artifact\<close>

definition sourceAxes :: "failingAxis set" where
  "sourceAxes = {AxisProviderSource, AxisProviderArtifact}"

lemma plan_axes: "planVerdict q a d = Some v \<Longrightarrow> fst (snd v) \<notin> sourceAxes"
  by (auto simp: planVerdict_def Let_def sourceAxes_def split: if_splits)

lemma profile_axes: "profileVerdict s q p kinds = (st, Inl v) \<Longrightarrow> fst (snd v) \<notin> sourceAxes"
proof -
  have "fst (snd (profileErrorVerdict e)) \<notin> sourceAxes" for e by (cases e) (simp_all add: sourceAxes_def)
  then show "profileVerdict s q p kinds = (st, Inl v) \<Longrightarrow> fst (snd v) \<notin> sourceAxes"
    by (auto simp: profileVerdict_def defaultVerdict_def Let_def sourceAxes_def split: if_splits option.splits sum.splits)
qed

lemma failure_axis [simp]:
  "ccAxis (setFailure hash q c v) = fst (snd v)" "ccAxis (failureCandidate hash q s a d v) = fst (snd v)"
  "ccStatus (setFailure hash q c v) = fst v" "ccStatus (failureCandidate hash q s a d v) = fst v"
  by (simp_all add: setFailure_def failureCandidate_def split: prod.split)

lemma descriptor_axes: "ccAxis (candidateForDescriptor hash s q source a d) \<notin> sourceAxes"
  by (auto simp: candidateForDescriptor_def Let_def plan_axes profile_axes split: option.split sum.split prod.split)
    (simp_all add: sourceAxes_def)

lemma candidatesOf_axes:
  assumes "c \<in> set (candidatesOf hash s now q v)"
  shows "case resolutionVerdict now q v of
      None \<Rightarrow> ccAxis c \<notin> sourceAxes
    | Some f \<Rightarrow> ccAxis c = fst (snd f) \<and> ccStatus c = fst f \<and> \<not> ccStartable c"
proof (cases "resolutionVerdict now q v")
  case None
  then show ?thesis
    using assms descriptor_axes by (auto simp: candidatesOf_all split: if_splits) (auto simp: sourceAxes_def)
next
  case (Some f)
  then show ?thesis using assms by (simp add: candidatesOf_all failing_judged(4) [OF resolutionVerdict_failing [OF Some]])
qed

lemma plain_valid: "TrimSpace ''valid'' = ''valid''"
  by (rule TrimSpace_plain) (simp add: go_spaces_def)

lemma issued_verdict:
  assumes "rvRemoteVPS v = Some summary" "rmExpiresAt summary = Some t" "TrimSpace (rmEvidence summary) \<in> {[], ''fresh''}"
    "v = issuedView cfg rid now3 aq r p ready" "fst ready = ValidationStatusValid" "cqSource q = None" "cqArtifact q = None"
    "mrView m = v"
  shows "resolutionVerdict now q (mrView (fst (expireResolution cfg now m))) =
    (if now3 < t \<and> now < t then None else Some (StatusStale, AxisProviderArtifact, ReasonProviderArtifactStale))"
proof -
  have v: "rvRemoteVPS v = Some (remoteVPSArtifactSummary r ready)" "rvArtifact v \<noteq> None" "t = instantOf (rsExpiresAt r)"
    "rvState v = (if now3 < t then ResolutionResolved else ResolutionExpired)" "xsExpiresAt (rvExport v) = Some t"
    "summary = remoteVPSArtifactSummary r ready"
    using assms(1,2) by (auto simp: assms(4) issuedView_def remoteVPSArtifactSummary_def Let_def)
  have e: "remoteEvidenceFailure (TrimSpace (rmEvidence summary)) = None"
    using assms(3) by (auto simp: remoteEvidenceFailure_def)
  have w: "remoteValidationFailure (TrimSpace (rmValidation summary)) = None"
    using assms(5) by (simp add: v(6) remoteVPSArtifactSummary_def remoteValidationFailure_def plain_valid)
  show ?thesis
  proof (cases "now3 < t \<and> now < t")
    case True
    then have "fst (expireResolution cfg now m) = m"
      using v assms(8) by (simp add: expireResolution_def)
    then show ?thesis
      using True v(1,2,4,6) e w assms(2,6,7,8)
      by (simp add: resolutionVerdict_def sourceMismatch_def artifactMismatch_def remoteArtifactFailure_def remoteOf_def)
  next
    case False
    then have "rvState (mrView (fst (expireResolution cfg now m))) = ResolutionExpired"
      using v assms(8) by (auto simp: expireResolution_def addResolutionEvent_def Let_def)
    then show ?thesis using False by (auto simp: resolutionVerdict_def)
  qed
qed

section \<open>Requests of the client at the service\<close>

text \<open>The answer of the service to a request of the client.\<close>

definition askService :: "vpsEnv \<Rightarrow> goTime \<Rightarrow> vpsService \<Rightarrow> catalogEndpoint \<Rightarrow> artifactIssueRequest \<Rightarrow> artifactIssueResponse option" where
  "askService venv now svc e w =
     (case fst (handleArtifactIssue venv now
          \<lparr>rqMethod = ''POST'', rqAuthorization = (if cpIssueToken e = [] then [] else ''Bearer '' @ cpIssueToken e), rqActor = [],
           rqBody = Some w\<rparr> svc) of
        (code, body) \<Rightarrow> if code = 200 then (case body of BodyIssue r \<Rightarrow> Some r | _ \<Rightarrow> None) else None)"

section \<open>Properties\<close>

text \<open>
  C30: Whatever syncs, failed writes, interleavings and restarts come between, an artifact that is
  issued is of a generation at least as high as every generation that had reached the file of the
  client before, for the endpoint, issuer and audience whose catalog offers it.
\<close>
theorem issued_generation_never_rolls_back:
  assumes "runCatalogs env (openCatalogs endpoints path disk, []) acts = (s, ps)"
    "runCatalogs env (s, ps) later = (s', ps')" "kaCache s' (TrimSpace (aqEndpointID q)) = Some c"
    "IssueVPSProviderArtifact env cfg (now1, now2, now3) answer q s' h = (Inr v, h', ts)"
  shows "\<exists>summary. rvRemoteVPS v = Some summary \<and> secured s (generationKey (kcEndpoint c)) \<le> csGeneration (kcSnapshot c) \<and>
    csGeneration (kcSnapshot c) \<le> rmGeneration summary"
proof -
  have s: "catalogsOk (s, ps)" using run_ok [OF open_ok, of env endpoints path disk acts] assms(1) by simp
  have s': "catalogsOk (s', ps')" "advances s s'" using run_ok [OF s, of env later] assms(2) by simp_all
  obtain c' p a ready r rid where i: "issueCheck env now1 now2 (trimArtifactRequest q) s' = Inr (c', p, a, ready)"
    "responseError (trimArtifactRequest q) c' r = None"
    "v = issuedView cfg rid (instantOf now3) (trimArtifactRequest q) r p ready"
    using issue_some [OF assms(4)] by metis
  have c: "c' = c" using issueCheck_some(1) [OF i(1)] assms(3) by (simp add: trimArtifactRequest_def)
  let ?k = "generationKey (kcEndpoint c)"
  have k: "?k \<in> configured s'" using s'(1) assms(3) by (auto simp: catalogsOk_def)
  then have "secured s ?k \<le> secured s' ?k" using s'(2) by (auto simp: advances_def)
  also have "\<dots> \<le> highestOf (kaHighest s') ?k" using s'(1) k by (auto simp: catalogsOk_def)
  also have "\<dots> \<le> csGeneration (kcSnapshot c)"
    using valid_snapshot(1) [OF issue_snapshot [OF s'(1) i(1)]] by (simp add: c)
  finally show ?thesis
    using i(2) by (auto simp: i(3) c issuedView_def remoteVPSArtifactSummary_def responseError_def Let_def split: if_splits)
qed

text \<open>
  C31: An artifact is issued only for an offer that the cached catalog has under the names of the
  request and that is ready; the catalog has not expired, is that of the configured issuer and
  audience, and carries the digest of its content unless the endpoint allows unsigned catalogs; and
  what comes of it is one new resolution, whose source and offer are those of the request.
\<close>
theorem issued_artifact_sound:
  assumes "runCatalogs env (openCatalogs endpoints path disk, []) acts = (s, ps)"
    "IssueVPSProviderArtifact env cfg (now1, now2, now3) answer q s h = (Inr v, h', ts)" "\<not> IsZero now1" "\<not> IsZero now2"
  shows "\<exists>c p a m summary. kaCache s (TrimSpace (aqEndpointID q)) = Some c \<and>
    After (csExpiresAt (kcSnapshot c)) now1 \<and>
    (cpIssuer (kcEndpoint c) = [] \<or> csIssuer (kcSnapshot c) = cpIssuer (kcEndpoint c)) \<and>
    (cpAudience (kcEndpoint c) = [] \<or> csAudience (kcSnapshot c) = cpAudience (kcEndpoint c)) \<and>
    (cpAllowUnsigned (kcEndpoint c) \<or> siDigest (csIntegrity (kcSnapshot c)) = SnapshotDigest (keSha env) (kcSnapshot c)) \<and>
    p \<in> set (csSources (kcSnapshot c)) \<and> psID p = TrimSpace (aqSourceID q) \<and>
    a \<in> set (psArtifactOffers p) \<and> aoID a = TrimSpace (aqOfferID q) \<and>
    fst (ValidateOfferReadiness (keWall env) (CloneSource p) (CloneOffer a) now2) = ValidationStatusValid \<and>
    theResolution (rvID v) h = None \<and> hoResolutions h' = AList.update (rvID v) m (hoResolutions h) \<and> mrView m = v \<and>
    rvRemoteVPS v = Some summary \<and> rmSourceID summary = psID p \<and> rmOfferID summary = aoID a"
proof -
  let ?q = "trimArtifactRequest q"
  have ok: "catalogsOk (s, ps)" using run_ok [OF open_ok, of env endpoints path disk acts] assms(1) by simp
  obtain c p a ready r rid where i: "issueCheck env now1 now2 ?q s = Inr (c, p, a, ready)"
    "responseError ?q c r = None" "v = issuedView cfg rid (instantOf now3) ?q r p ready" "theResolution rid h = None"
    "hoResolutions h' = AList.update rid (issuedResolution v r p a) (hoResolutions h)"
    using issue_some [OF assms(2)] by metis
  note k = issueCheck_some [OF i(1)] and sn = valid_snapshot [OF issue_snapshot [OF ok i(1)]]
  obtain p0 a0 where p: "p0 \<in> set (csSources (kcSnapshot c))" "p = CloneSource p0" "psID p0 = aqSourceID ?q"
    "a0 \<in> set (psArtifactOffers p0)" "a = CloneOffer a0" "aoID a0 = aqOfferID ?q"
    using findOfferIn_some [OF k(3) [unfolded findCatalogOffer_def]] by blast
  have v: "rvID v = rid" "rvRemoteVPS v = Some (remoteVPSArtifactSummary r ready)"
    "rmSourceID (remoteVPSArtifactSummary r ready) = aqSourceID ?q" "rmOfferID (remoteVPSArtifactSummary r ready) = aqOfferID ?q"
    using i(2) by (auto simp: i(3) issuedView_def remoteVPSArtifactSummary_def responseError_def Let_def split: if_splits)
  show ?thesis
    using k(1,4,5) sn(3,4,6,7) assms(3) p i(4,5) v
    by (intro exI [of _ c] exI [of _ p0] exI [of _ a0] exI [of _ "issuedResolution v r p a"]
        exI [of _ "remoteVPSArtifactSummary r ready"]) (auto simp: trimArtifactRequest_def issuedResolution_def)
qed

theorem issued_generation_never_rolls_back_witness:
  "\<exists>v h ts summary. sampleIssued = (Inr v, h, ts) \<and> rvRemoteVPS v = Some summary \<and> 7 \<le> rmGeneration summary"
proof -
  obtain v h ts where i: "sampleIssued = (Inr v, h, ts)" using sample_issued_some by metis
  obtain c where c: "kaCache (fst sampleClient) ''e'' = Some c" "kcEndpoint c = sampleEndpoint"
    using sample_client(1) by (auto simp: map_option_eq_Some)
  have e: "TrimSpace (aqEndpointID sampleAsk) = ''e''" by (simp add: sampleAsk_def)
  have "\<exists>summary. rvRemoteVPS v = Some summary \<and> secured (fst sampleClient) (generationKey (kcEndpoint c)) \<le> csGeneration (kcSnapshot c) \<and>
      csGeneration (kcSnapshot c) \<le> rmGeneration summary"
    by (rule issued_generation_never_rolls_back [where later = "[]" and q = sampleAsk, OF _ _ _ i [unfolded sampleIssued_def]])
      (use c e in \<open>simp_all add: sampleClient_def prod_eq_iff\<close>)
  then show ?thesis using i c(2) sample_client(2) by (metis order_trans)
qed

theorem issued_artifact_sound_witness:
  "\<exists>v h ts m. sampleIssued = (Inr v, h, ts) \<and> theResolution (rvID v) NewHost = None \<and>
     hoResolutions h = AList.update (rvID v) m (hoResolutions NewHost)"
proof -
  obtain v h ts where i: "sampleIssued = (Inr v, h, ts)" using sample_issued_some by metis
  have r: "runCatalogs sampleCatalogEnv (openCatalogs [sampleEndpoint] ''/c'' None, []) sampleSync = (fst sampleClient, snd sampleClient)"
    by (simp add: sampleClient_def)
  show ?thesis
    using issued_artifact_sound [OF r i [unfolded sampleIssued_def]] i by (auto simp: IsZero_def)
qed

text \<open>
  As long as its evidence is fresh and it has not expired, an issued artifact is never why a
  candidate fails; once it has expired, it is why every candidate fails, and nothing can be started.
\<close>
theorem issued_artifact_until_expiry:
  assumes "IssueVPSProviderArtifact env cfg (now1, now2, now3) answer aq s h = (Inr v, h', ts)"
    "rvRemoteVPS v = Some summary" "rmExpiresAt summary = Some t" "TrimSpace (rmEvidence summary) \<in> {[], ''fresh''}"
    "cqResolutionID q = rvID v" "cqSource q = None" "cqArtifact q = None"
    "c \<in> set (fst (ProviderTransportCompatibilityCandidates cfg hash st now q h'))"
  shows "if instantOf now3 < t \<and> now < t then ccAxis c \<notin> {AxisProviderSource, AxisProviderArtifact}
    else ccAxis c = AxisProviderArtifact \<and> ccStatus c = StatusStale \<and> \<not> ccStartable c"
proof -
  obtain c' p a ready r rid where i: "issueCheck env now1 now2 (trimArtifactRequest aq) s = Inr (c', p, a, ready)"
    "v = issuedView cfg rid (instantOf now3) (trimArtifactRequest aq) r p ready"
    "hoResolutions h' = AList.update rid (issuedResolution v r p a) (hoResolutions h)" "TrimSpace rid = rid" "rid \<noteq> []"
    using issue_some [OF assms(1)] by metis
  have id: "rvID v = rid" by (simp add: i(2) issuedView_def Let_def)
  let ?q = "normalizeCompatRequest q"
  have q: "cqSource ?q = None" "cqArtifact ?q = None" "compatResolutionID ?q = rid"
    using assms(5-7) i(4,5) by (simp_all add: normalizeCompatRequest_def compatResolutionID_def id)
  have m: "theResolution rid h' = Some (issuedResolution v r p a)" by (simp add: theResolution_def i(3) update_conv)
  have "c \<in> set (candidatesOf hash st now ?q (mrView (fst (expireResolution cfg now (issuedResolution v r p a)))))"
    using assms(8) i(5) by (simp add: ProviderTransportCompatibilityCandidates_def q(3) readResolution_def m prod.case_eq_if)
  from candidatesOf_axes [OF this] show ?thesis
    unfolding issued_verdict [OF assms(2-4) i(2) issueCheck_some(5) [OF i(1)] q(1,2), where m = "issuedResolution v r p a",
        simplified issuedResolution_def, simplified, folded issuedResolution_def]
    by (auto simp: sourceAxes_def)
qed

theorem issued_artifact_until_expiry_witness:
  "\<exists>v h ts c. sampleIssued = (Inr v, h, ts) \<and> ccAxis c = AxisProviderArtifact \<and>
     c \<in> set (fst (ProviderTransportCompatibilityCandidates bareConfig (\<lambda>t. t) (sampleStored sampleWireGuard) 0
       (plainRequest\<lparr>cqResolutionID := rvID v\<rparr>) h))"
proof -
  obtain v h ts summary where i: "sampleIssued = (Inr v, h, ts)" "rvRemoteVPS v = Some summary"
    "rmExpiresAt summary = Some (50 + zeroTime)" "rmEvidence summary = ''fresh''"
    using sample_issued_some by metis
  let ?q = "plainRequest\<lparr>cqResolutionID := rvID v\<rparr>"
  obtain c where c: "c \<in> set (fst (ProviderTransportCompatibilityCandidates bareConfig (\<lambda>t. t) (sampleStored sampleWireGuard) 0 ?q h))"
    using candidates_some by (meson list.set_sel(1))
  have e: "TrimSpace (rmEvidence summary) \<in> {[], ''fresh''}"
    unfolding i(4) using TrimSpace_plain [of "''fresh''"] by (simp add: go_spaces_def)
  have "ccAxis c = AxisProviderArtifact"
    using issued_artifact_until_expiry [OF i(1) [unfolded sampleIssued_def] i(2,3) e, of ?q c "\<lambda>t. t" "sampleStored sampleWireGuard" 0] c
    by (simp add: plainRequest_def zeroTime_def)
  then show ?thesis using i(1) c by blast
qed

text \<open>
  C32: The answer of the service of \<^verbatim>\<open>internal/vpscatalog\<close> to a request of the client is accepted
  exactly if the service answers for the endpoint of the cached catalog with one that is not older,
  unless the operation has been used before: then the answer is that of the earlier operation, and it
  is accepted exactly if it names the same source, offer and endpoint and its generation is not lower
  than the one cached by now.
\<close>
theorem service_answer_accepted:
  assumes "askService venv now svc (kcEndpoint c) (wireRequest (trimArtifactRequest q)) = Some r"
  shows "case vsIssues svc (TrimSpace (aqOperationID q)) of
      None \<Rightarrow> responseError (trimArtifactRequest q) c r = None \<longleftrightarrow>
        csEndpointID (currentSnapshot venv now svc) = csEndpointID (kcSnapshot c) \<and>
        csGeneration (kcSnapshot c) \<le> csGeneration (currentSnapshot venv now svc)
    | Some earlier \<Rightarrow> r = earlier \<and> (responseError (trimArtifactRequest q) c r = None \<longleftrightarrow>
        srSourceID (rsSource earlier) = TrimSpace (aqSourceID q) \<and> arOfferID (rsArtifact earlier) = TrimSpace (aqOfferID q) \<and>
        srEndpointID (rsSource earlier) = csEndpointID (kcSnapshot c) \<and>
        csGeneration (kcSnapshot c) \<le> srGeneration (rsSource earlier))"
proof -
  let ?q = "trimArtifactRequest q"
  let ?r = "\<lparr>rqMethod = ''POST'', rqAuthorization = (if cpIssueToken (kcEndpoint c) = [] then [] else ''Bearer '' @ cpIssueToken (kcEndpoint c)),
     rqActor = [], rqBody = Some (wireRequest ?q)\<rparr>"
  have r: "fst (handleArtifactIssue venv now ?r svc) = (200, BodyIssue r)"
    using assms by (auto simp: askService_def split: prod.splits if_splits httpBody.splits)
  obtain req where q: "issueRequest venv ?r = Some req"
    using handle_issue_cases [where env = venv and r = ?r and now = now and s = svc] r by (cases "issueRequest venv ?r") auto
  obtain s1 actor where s1: "vsIssues s1 = vsIssues svc" "vsSnapshot s1 = vsSnapshot svc"
    "handleArtifactIssue venv now ?r svc = issueAuthorized venv now req actor s1"
    using handle_issue_cases [where env = venv and r = ?r and now = now and s = svc] q by auto
  obtain s' where s': "issueAuthorized venv now req actor s1 = ((200, BodyIssue r), s')"
    using r s1(3) by (cases "issueAuthorized venv now req actor s1") auto
  have f: "irOperationID req = TrimSpace (aqOperationID q)" "irSourceID req = TrimSpace (aqSourceID q)"
    "irOfferID req = TrimSpace (aqOfferID q)"
    using q by (auto simp: issueRequest_def trimRequest_def wireRequest_def trimArtifactRequest_def split: if_splits)
  have t: "aqSourceID ?q = TrimSpace (aqSourceID q)" "aqOfferID ?q = TrimSpace (aqOfferID q)"
    by (simp_all add: trimArtifactRequest_def)
  have snap: "currentSnapshot venv now s1 = currentSnapshot venv now svc"
    using snapshotForRequest_cong [OF s1(2)] by (simp add: currentSnapshot_def)
  note a = issue_authorized(2) [OF s', unfolded f(1) s1(1) snap]
  show ?thesis
  proof (cases "vsIssues svc (TrimSpace (aqOperationID q))")
    case None
    then obtain p o1 where o1: "readyOffer venv now req (currentSnapshot venv now svc) = Some (p, o1)"
      "r = issueResponse venv (currentSnapshot venv now svc) req p o1 (UTC now)"
      using a by (auto simp: Let_def split: option.splits)
    have "psID p = irSourceID req" "aoID o1 = irOfferID req"
      using o1(1) findOfferIn_some by (fastforce simp: readyOffer_def findOffer_def CloneSource_def CloneOffer_def split: option.splits if_splits)+
    then show ?thesis
      using None by (auto simp: o1(2) responseError_def issueResponse_def Let_def f t not_less)
  next
    case (Some earlier)
    then show ?thesis using a by (auto simp: responseError_def t not_less)
  qed
qed

theorem service_answer_accepted_witness:
  "\<exists>r c. askService sampleEnv sampleTime sampleService sampleEndpoint (wireRequest (trimArtifactRequest sampleAsk)) = Some r \<and>
     kcSnapshot c = sampleSnapshot \<and> responseError (trimArtifactRequest sampleAsk) c r = None"
proof -
  let ?c = "\<lparr>kcEndpoint = sampleEndpoint, kcSnapshot = sampleSnapshot, kcStatus = emptyStatus sampleEndpoint\<rparr>"
  have "case askService sampleEnv sampleTime sampleService sampleEndpoint (wireRequest (trimArtifactRequest sampleAsk)) of
      None \<Rightarrow> False | Some r \<Rightarrow> True"
    by code_simp
  then obtain r where r: "askService sampleEnv sampleTime sampleService (kcEndpoint ?c) (wireRequest (trimArtifactRequest sampleAsk)) = Some r"
    by (auto split: option.splits)
  have "vsIssues sampleService = Map.empty" "currentSnapshot sampleEnv sampleTime sampleService = CloneSnapshot sampleSnapshot"
    by (simp_all add: sampleService_def NewService_def sampleEnv_def currentSnapshot_def snapshotForRequest_def)
  then have "responseError (trimArtifactRequest sampleAsk) ?c r = None"
    using service_answer_accepted [OF r] by (simp add: CloneSnapshot_def)
  with r show ?thesis by (metis cachedCatalog.select_convs(1,2))
qed

end
