(* ===== verification/HostIssued.thy ===== *)
theory HostIssued
  imports HostProperties RemoteSample
begin

text \<open>
  Runs of the control host in which artifacts of a VPS are issued as well
  (\<open>recordVPSIssuedResolution\<close> of \<^verbatim>\<open>pkg/clientcontrol/vps_provider_catalog.go\<close>): a resolution that is
  resolved from the start, for which the host holds no credentials.
\<close>

section \<open>Runs\<close>




section \<open>The identifier of an issued resolution\<close>





section \<open>The invariant\<close>









section \<open>Properties\<close>





end
