(* ===== verification/PlatformTunnel.thy ===== *)
theory PlatformTunnel
  imports TransportCompat
begin

text \<open>
  The contract of platform tunnels (\<^verbatim>\<open>pkg/clientcontrol/platform_tunnel.go\<close>): what a host may
  advertise, the normalization of requests, and what a result of a start must say.  The string types
  of Go are strings; texts for humans are left out.  Deltas of byte counters are integers, since
  nothing computes with them.
\<close>

section \<open>Data\<close>

record tunnelRequest =
  tqResolutionID :: string
  tqDefaults :: "runtimeDefaults option"
  tqMode :: string
  tqPlan :: "executionPlan option"
  tqProfile :: "profileReference option"
  tqCompat :: "startupReference option"
  tqAppPolicy :: string
  tqUnderlay :: string
  tqAllowed :: "string list"
  tqDisallowed :: "string list"

record dataplaneEvidence =
  dvHostAttached :: bool
  dvHandshakeFresh :: bool
  dvRxDelta :: int
  dvTxDelta :: int
  dvWintunDelta :: int
  dvEgressIP :: string
  dvExpectedEgressIP :: string
  dvVerified :: bool

record tunnelResult =
  tuMode :: string
  tuPlan :: "executionPlan option"
  tuProfile :: "profileReference option"
  tuCompat :: "compatFailure option"
  tuIngress :: "remoteIngress option"
  tuDataplane :: "dataplaneEvidence option"
  tuReady :: bool
  tuSessionID :: string
  tuStage :: string
  tuMissing :: string
  tuAttemptID :: string
  tuUnderlay :: string
  tuExclusions :: "string list"

datatype tunnelError =
    AppRoutingPolicyInvalid
  | UnderlayPolicyInvalid
  | TunnelModeRequired
  | TunnelModeUnknown
  | TunnelNotConfigured
  | StartupAttemptRequired
  | StartResultInvalid
  | StarterFailed
  | StartFailed tunnelResult
  | StopperFailed
  | StopResultInvalid

section \<open>Known values\<close>

definition isKnownTunnelMode :: "string \<Rightarrow> bool" where
  "isKnownTunnelMode m \<longleftrightarrow> m \<in> {''android_vpn_service'', ''apple_network_extension'', ''windows_wintun'', ''linux_tun''}"

definition isKnownPrerequisite :: "string \<Rightarrow> bool" where
  "isKnownPrerequisite p \<longleftrightarrow>
     p \<in> {''permission'', ''entitlement'', ''privileged_extension'', ''driver'', ''route_exclusion'', ''dns_bypass'',
       ''app_routing_policy'', ''host_implementation'', ''transport_profile'', ''dataplane_evidence''}"

definition isKnownAppPolicy :: "string \<Rightarrow> bool" where
  "isKnownAppPolicy p \<longleftrightarrow> p \<in> {''all_apps'', ''allowed_packages'', ''disallowed_packages''}"

definition isKnownUnderlayPolicy :: "string \<Rightarrow> bool" where
  "isKnownUnderlayPolicy p \<longleftrightarrow> p \<in> {''standard'', ''preserve_active_local_network''}"

definition isKnownStartupStage :: "string \<Rightarrow> bool" where
  "isKnownStartupStage s \<longleftrightarrow>
     s \<in> {''capability_check'', ''permission_acquire'', ''entitlement_acquire'', ''driver_check'', ''profile_validate'',
       ''route_validate'', ''host_bringup'', ''runtime_attach'', ''dataplane_verify''}"

section \<open>Capabilities\<close>

text \<open>\<open>goos\<close> is the operating system the host was built for.\<close>

definition defaultTunnelMode :: "string \<Rightarrow> string \<Rightarrow> string option" where
  "defaultTunnelMode goos build =
     (let t = ToLower (TrimSpace build) in
      if prefix ''android/'' t then Some ''android_vpn_service''
      else if prefix ''ios/'' t \<or> prefix ''darwin/'' t \<or> prefix ''macos/'' t then Some ''apple_network_extension''
      else if prefix ''windows/'' t then Some ''windows_wintun''
      else if prefix ''linux/'' t then Some ''linux_tun''
      else if goos = ''android'' then Some ''android_vpn_service''
      else if goos = ''darwin'' then Some ''apple_network_extension''
      else if goos = ''windows'' then Some ''windows_wintun''
      else if goos = ''linux'' then Some ''linux_tun''
      else None)"

definition hostAdapterForMode :: "string \<Rightarrow> string" where
  "hostAdapterForMode m = (if isKnownTunnelMode m then m else [])"

definition defaultPlansForTunnel :: "tunnelCapability \<Rightarrow> planDescriptor list" where
  "defaultPlansForTunnel c =
     (if hostAdapterForMode (pcMode c) = [] then []
      else
        [\<lparr>xdPlan = \<lparr>xpAccessMethod = ''turn_credentials'', xpCarrierFamily = ''turn_datagram'',
            xpEngineFamily = ''wireguard_native'', xpHostAdapter = hostAdapterForMode (pcMode c)\<rparr>,
          xdSupportState = (if pcAvailable c then ''supported'' else ''unavailable''),
          xdEndpointFamily = ''turn_server'', xdEndpointRole = ''wireguard_raw_datagram'', xdDefault = True,
          xdRequiresCapability = [], xdRequiredKinds = [wireGuardKind], xdTransportProfile = None, xdMessage = []\<rparr>])"

definition withDefaultPlans :: "tunnelCapability \<Rightarrow> tunnelCapability" where
  "withDefaultPlans c = c\<lparr>pcPlans := defaultPlansForTunnel c\<rparr>"

definition defaultTunnelCapabilities :: "string \<Rightarrow> string \<Rightarrow> tunnelCapability list" where
  "defaultTunnelCapabilities goos build =
     (let c = (\<lambda>mode policies. \<lparr>pcMode = mode, pcAvailable = False, pcSatisfied = [], pcUnderlayPolicies = policies,
        pcPlans = [], pcMissing = ''host_implementation''\<rparr>)
      in case defaultTunnelMode goos build of
           None \<Rightarrow> [withDefaultPlans (c ''linux_tun'' [])]
         | Some mode \<Rightarrow> [withDefaultPlans (c mode (if mode = ''android_vpn_service'' then [''standard''] else []))])"

definition validateTunnelCapability :: "tunnelCapability \<Rightarrow> bool" where
  "validateTunnelCapability c \<longleftrightarrow>
     (let plans = (if pcPlans c = [] then defaultPlansForTunnel c else pcPlans c) in
      isKnownTunnelMode (pcMode c) \<and>
      list_all isKnownPrerequisite (pcSatisfied c) \<and> distinct (pcSatisfied c) \<and>
      list_all isKnownUnderlayPolicy (pcUnderlayPolicies c) \<and> distinct (pcUnderlayPolicies c) \<and>
      list_all (\<lambda>d. validateRuntimeExecutionPlanDescriptor d = None \<and>
        xpHostAdapter (xdPlan d) = hostAdapterForMode (pcMode c) \<and> (isSupported d \<longrightarrow> pcAvailable c)) plans \<and>
      length (filter (\<lambda>d. xdDefault d \<and> isSupported d) plans) \<le> 1 \<and>
      (if pcAvailable c then pcSatisfied c \<noteq> [] \<and> TrimSpace (pcMissing c) = [] else isKnownPrerequisite (pcMissing c)))"

definition validateTunnelCapabilities :: "string \<Rightarrow> string \<Rightarrow> tunnelCapability list \<Rightarrow> bool" where
  "validateTunnelCapabilities goos build cs \<longleftrightarrow>
     list_all validateTunnelCapability cs \<and>
     (case defaultTunnelMode goos build of None \<Rightarrow> True | Some mode \<Rightarrow> list_all (\<lambda>c. pcMode c = mode) cs) \<and>
     distinct (List.map pcMode cs)"

definition fillCapability :: "tunnelCapability \<Rightarrow> tunnelCapability" where
  "fillCapability c =
     (let c1 = (if pcUnderlayPolicies c = [] \<and> pcMode c = ''android_vpn_service''
          then c\<lparr>pcUnderlayPolicies := [''standard'']\<rparr> else c)
      in if pcPlans c1 = [] then withDefaultPlans c1 else c1)"

text \<open>A report that is not valid is replaced by the default one.\<close>

definition normalizeTunnelCapabilities :: "string \<Rightarrow> string \<Rightarrow> tunnelCapability list \<Rightarrow> tunnelCapability list" where
  "normalizeTunnelCapabilities goos build cs =
     (let snapshot = (if cs = [] then defaultTunnelCapabilities goos build else List.map fillCapability cs)
      in if validateTunnelCapabilities goos build snapshot then snapshot else defaultTunnelCapabilities goos build)"

section \<open>Results\<close>

definition validateDataplaneEvidence :: "dataplaneEvidence \<Rightarrow> bool" where
  "validateDataplaneEvidence e \<longleftrightarrow>
     0 \<le> dvRxDelta e \<and> 0 \<le> dvTxDelta e \<and> 0 \<le> dvWintunDelta e \<and>
     (dvVerified e \<longrightarrow> dvHostAttached e \<and> dvHandshakeFresh e \<and> TrimSpace (dvEgressIP e) \<noteq> [])"

definition completeEvidence :: "dataplaneEvidence option \<Rightarrow> bool" where
  "completeEvidence e \<longleftrightarrow>
     (case e of None \<Rightarrow> False | Some x \<Rightarrow> dvHostAttached x \<and> dvHandshakeFresh x \<and> dvVerified x)"

text \<open>\<open>validatePlatformTunnelStartResult\<close> reads only the mode of the request.\<close>

definition validateTunnelStartResult :: "string \<Rightarrow> tunnelResult \<Rightarrow> bool" where
  "validateTunnelStartResult mode r \<longleftrightarrow>
     isKnownTunnelMode (tuMode r) \<and> tuMode r = mode \<and>
     (TrimSpace (tuStage r) \<noteq> [] \<longrightarrow> isKnownStartupStage (tuStage r)) \<and>
     (TrimSpace (tuMissing r) \<noteq> [] \<longrightarrow> isKnownPrerequisite (tuMissing r)) \<and>
     (TrimSpace (tuUnderlay r) \<noteq> [] \<longrightarrow> isKnownUnderlayPolicy (tuUnderlay r)) \<and>
     \<not> (TrimSpace (tuSessionID r) \<noteq> [] \<and> tuAttemptID r \<noteq> []) \<and>
     (tuExclusions r \<noteq> [] \<longrightarrow> tuUnderlay r = ''preserve_active_local_network'') \<and>
     (case tuPlan r of None \<Rightarrow> True | Some p \<Rightarrow> validateRuntimeExecutionPlan p = None) \<and>
     (case tuCompat r of None \<Rightarrow> True | Some f \<Rightarrow> validateCompatFailure f) \<and>
     (case tuIngress r of None \<Rightarrow> True | Some i \<Rightarrow> validateRemoteIngress i = None) \<and>
     (case tuDataplane r of None \<Rightarrow> True | Some e \<Rightarrow> validateDataplaneEvidence e) \<and>
     (TrimSpace (tuAttemptID r) \<noteq> [] \<longrightarrow>
       \<not> tuReady r \<and> tuStage r = ''permission_acquire'' \<and> tuMissing r = ''permission'') \<and>
     (if tuReady r
      then TrimSpace (tuMissing r) = [] \<and> TrimSpace (tuSessionID r) \<noteq> [] \<and>
        (tuMode r = ''windows_wintun'' \<longrightarrow> completeEvidence (tuDataplane r))
      else TrimSpace (tuSessionID r) = [] \<and> isKnownStartupStage (tuStage r) \<and> TrimSpace (tuMissing r) \<noteq> [])"

definition emptyResult :: tunnelResult where
  "emptyResult =
     \<lparr>tuMode = [], tuPlan = None, tuProfile = None, tuCompat = None, tuIngress = None, tuDataplane = None, tuReady = False,
      tuSessionID = [], tuStage = [], tuMissing = [], tuAttemptID = [], tuUnderlay = [], tuExclusions = []\<rparr>"

text \<open>The starter of a host that has none: it documents the plan and starts nothing.\<close>

definition defaultTunnelStarter :: "tunnelCapability list \<Rightarrow> tunnelRequest \<Rightarrow> tunnelResult" where
  "defaultTunnelStarter cs q =
     (let r = emptyResult\<lparr>tuMode := tqMode q, tuPlan := tqPlan q, tuStage := ''capability_check'',
        tuMissing := ''host_implementation'', tuUnderlay := tqUnderlay q\<rparr>
      in case find (\<lambda>c. pcMode c = tqMode q) cs of
           None \<Rightarrow> r
         | Some c \<Rightarrow>
             (case selectPlatformTunnelExecutionPlanDescriptor (pcPlans c) (tqPlan q) of
                Inl _ \<Rightarrow> r
              | Inr d \<Rightarrow>
                  if \<not> isSupported d \<or> \<not> pcAvailable c then r\<lparr>tuPlan := Some (xdPlan d), tuMissing := pcMissing c\<rparr>
                  else r\<lparr>tuPlan := Some (xdPlan d), tuStage := ''host_bringup''\<rparr>))"

section \<open>Requests\<close>

definition trimSourceRef :: "sourceRef \<Rightarrow> sourceRef" where
  "trimSourceRef s =
     \<lparr>soProviderID = TrimSpace (soProviderID s), soSourceID = TrimSpace (soSourceID s),
      soResolutionID = TrimSpace (soResolutionID s)\<rparr>"

definition trimArtifactRef :: "artifactRef \<Rightarrow> artifactRef" where
  "trimArtifactRef a = a\<lparr>afProviderID := TrimSpace (afProviderID a), afResolutionID := TrimSpace (afResolutionID a)\<rparr>"

definition trimStartupReference :: "startupReference \<Rightarrow> startupReference" where
  "trimStartupReference r =
     r\<lparr>suCandidateID := TrimSpace (suCandidateID r), suSource := map_option trimSourceRef (suSource r),
       suArtifact := map_option trimArtifactRef (suArtifact r)\<rparr>"

definition trimProfileReference :: "profileReference \<Rightarrow> profileReference" where
  "trimProfileReference r =
     r\<lparr>rfProfileID := TrimSpace (rfProfileID r), rfKind := TrimSpace (rfKind r),
       rfDefaultScopeID := TrimSpace (rfDefaultScopeID r)\<rparr>"

definition trimRuntimeDefaults :: "runtimeDefaults \<Rightarrow> runtimeDefaults" where
  "trimRuntimeDefaults d =
     d\<lparr>rdListenAddr := TrimSpace (rdListenAddr d), rdPeerAddr := TrimSpace (rdPeerAddr d),
       rdTURNServer := TrimSpace (rdTURNServer d), rdTURNPort := TrimSpace (rdTURNPort d),
       rdBindInterface := TrimSpace (rdBindInterface d), rdLogLevel := TrimSpace (rdLogLevel d)\<rparr>"

text \<open>What the reference to a candidate adds where the request itself is silent.\<close>

definition withStartupReference :: "tunnelRequest \<Rightarrow> tunnelRequest" where
  "withStartupReference q =
     (case tqCompat q of
        None \<Rightarrow> q
      | Some r0 \<Rightarrow>
          (let r = trimStartupReference r0;
               rid1 = (if tqResolutionID q \<noteq> [] then tqResolutionID q
                 else (case suSource r of None \<Rightarrow> [] | Some s \<Rightarrow> soResolutionID s));
               rid2 = (if rid1 \<noteq> [] then rid1 else (case suArtifact r of None \<Rightarrow> [] | Some a \<Rightarrow> afResolutionID a))
           in q\<lparr>tqResolutionID := rid2,
                tqPlan := (case tqPlan q of None \<Rightarrow> suPlan r | Some p \<Rightarrow> Some p),
                tqProfile := (case tqProfile q of None \<Rightarrow> suProfile r | Some p \<Rightarrow> Some p),
                tqCompat := Some r\<rparr>))"

definition trimTunnelRequest :: "tunnelRequest \<Rightarrow> tunnelRequest" where
  "trimTunnelRequest q =
     (let q1 = withStartupReference (q\<lparr>tqResolutionID := TrimSpace (tqResolutionID q),
        tqProfile := map_option trimProfileReference (tqProfile q)\<rparr>)
      in q1\<lparr>tqDefaults := map_option trimRuntimeDefaults (tqDefaults q1)\<rparr>)"

definition normalizePackageNames :: "string list \<Rightarrow> string list" where
  "normalizePackageNames ps =
     fold (\<lambda>p out. if TrimSpace p = [] \<or> TrimSpace p \<in> set out then out else out @ [TrimSpace p]) ps []"

definition asksAppRouting :: "tunnelRequest \<Rightarrow> bool" where
  "asksAppRouting q \<longleftrightarrow> TrimSpace (tqAppPolicy q) \<noteq> [] \<or> tqAllowed q \<noteq> [] \<or> tqDisallowed q \<noteq> []"

definition normalizeUnderlay :: "string \<Rightarrow> tunnelRequest \<Rightarrow> tunnelError + tunnelRequest" where
  "normalizeUnderlay fallback q =
     (let u = (if TrimSpace (tqUnderlay q) = [] then fallback else tqUnderlay q)
      in if isKnownUnderlayPolicy u then Inr (q\<lparr>tqUnderlay := u\<rparr>) else Inl UnderlayPolicyInvalid)"

definition appRoutingOk :: "tunnelRequest \<Rightarrow> bool" where
  "appRoutingOk q \<longleftrightarrow>
     \<not> (tqAllowed q \<noteq> [] \<and> tqDisallowed q \<noteq> []) \<and>
     (if tqAppPolicy q = ''all_apps'' then tqAllowed q = [] \<and> tqDisallowed q = []
      else if tqAppPolicy q = ''allowed_packages'' then tqAllowed q \<noteq> [] \<and> tqDisallowed q = []
      else if tqAppPolicy q = ''disallowed_packages'' then tqDisallowed q \<noteq> [] \<and> tqAllowed q = []
      else False)"

text \<open>An Android tunnel routes all applications unless it is told otherwise.\<close>

definition withAppDefaults :: "tunnelRequest \<Rightarrow> tunnelRequest" where
  "withAppDefaults q =
     q\<lparr>tqAppPolicy := (if TrimSpace (tqAppPolicy q) = [] then ''all_apps'' else tqAppPolicy q),
       tqAllowed := normalizePackageNames (tqAllowed q), tqDisallowed := normalizePackageNames (tqDisallowed q)\<rparr>"

definition normalizePolicies :: "tunnelRequest \<Rightarrow> tunnelError + tunnelRequest" where
  "normalizePolicies q =
     (if tqMode q \<notin> {''android_vpn_service'', ''windows_wintun'', ''linux_tun''} then
        (if asksAppRouting q then Inl AppRoutingPolicyInvalid
         else if TrimSpace (tqUnderlay q) \<noteq> [] then Inl UnderlayPolicyInvalid
         else Inr q)
      else if tqMode q \<noteq> ''android_vpn_service'' then
        (if asksAppRouting q then Inl AppRoutingPolicyInvalid
         else normalizeUnderlay ''preserve_active_local_network'' q)
      else
        (let q1 = withAppDefaults q
         in if isKnownAppPolicy (tqAppPolicy q1) \<and> appRoutingOk q1 then normalizeUnderlay ''standard'' q1
            else Inl AppRoutingPolicyInvalid))"

definition normalizeTunnelRequest :: "tunnelRequest \<Rightarrow> tunnelError + tunnelRequest" where
  "normalizeTunnelRequest q = normalizePolicies (trimTunnelRequest q)"

definition normalizeResumeRequest :: "string \<Rightarrow> tunnelError + string" where
  "normalizeResumeRequest attempt =
     (if TrimSpace attempt = [] then Inl StartupAttemptRequired else Inr (TrimSpace attempt))"

definition normalizeStopRequest :: "string \<Rightarrow> tunnelError + string" where
  "normalizeStopRequest mode =
     (if TrimSpace mode = [] then Inl TunnelModeRequired
      else if \<not> isKnownTunnelMode (TrimSpace mode) then Inl TunnelModeUnknown
      else Inr (TrimSpace mode))"

end
