(* ===== verification/PlatformHost.thy ===== *)
theory PlatformHost
  imports PlatformTunnel
begin

text \<open>
  Starting, resuming and stopping a platform tunnel (\<^verbatim>\<open>StartPlatformTunnel\<close>, \<^verbatim>\<open>ResumePlatformTunnel\<close>
  and \<^verbatim>\<open>StopPlatformTunnel\<close> of \<^verbatim>\<open>pkg/clientcontrol/host.go\<close>, and the check of a startup in
  \<^verbatim>\<open>provider_transport_compatibility.go\<close>).  What the platform answers is an argument.  A start and a
  resume are two steps, before and after the platform is called, since no lock is held then.
\<close>

section \<open>State\<close>

text \<open>
  The part of the host that platform tunnels use; \<open>thAttempts\<close> are the starts that wait for a
  permission, \<open>thResults\<close> and \<open>thStops\<close> the last result and stop of each mode.
\<close>

record tunnelHost =
  thHost :: controlHost
  thStore :: transportStore
  thAttempts :: "(string \<times> tunnelRequest) list"
  thResults :: "(string \<times> tunnelRequest \<times> tunnelResult \<times> instant) list"
  thStops :: "(string \<times> instant) list"

text \<open>What the starter or the resumer of the platform returns; an error may carry a result.\<close>

datatype starterAnswer =
    StarterReturns tunnelResult
  | StarterRefuses tunnelResult
  | StarterFails

text \<open>What its stopper returns: the mode it has stopped, and whether it confirms that.\<close>

datatype stopperAnswer =
    NoStopper
  | StopperFails
  | StopperReturns string bool

definition emptyTunnelRequest :: tunnelRequest where
  "emptyTunnelRequest =
     \<lparr>tqResolutionID = [], tqDefaults = None, tqMode = [], tqPlan = None, tqProfile = None, tqCompat = None,
      tqAppPolicy = [], tqUnderlay = [], tqAllowed = [], tqDisallowed = []\<rparr>"

definition rememberAttempt :: "string \<Rightarrow> tunnelRequest \<Rightarrow> tunnelHost \<Rightarrow> tunnelHost" where
  "rememberAttempt attempt q t =
     (if TrimSpace attempt = [] then t else t\<lparr>thAttempts := AList.update (TrimSpace attempt) q (thAttempts t)\<rparr>)"

definition takeAttempt :: "string \<Rightarrow> tunnelHost \<Rightarrow> tunnelRequest option \<times> tunnelHost" where
  "takeAttempt attempt t =
     (if TrimSpace attempt = [] then (None, t)
      else (map_of (thAttempts t) (TrimSpace attempt), t\<lparr>thAttempts := AList.delete (TrimSpace attempt) (thAttempts t)\<rparr>))"

definition clearAttempts :: "string \<Rightarrow> tunnelHost \<Rightarrow> tunnelHost" where
  "clearAttempts mode t = t\<lparr>thAttempts := filter (\<lambda>(_, q). tqMode q \<noteq> mode) (thAttempts t)\<rparr>"

definition rememberResult :: "instant \<Rightarrow> tunnelRequest \<Rightarrow> tunnelResult \<Rightarrow> tunnelHost \<Rightarrow> tunnelHost" where
  "rememberResult now q r t =
     (if tuMode r = [] then t else t\<lparr>thResults := AList.update (tuMode r) (q, r, now) (thResults t)\<rparr>)"

definition rememberStop :: "instant \<Rightarrow> string \<Rightarrow> tunnelHost \<Rightarrow> tunnelHost" where
  "rememberStop now mode t = (if mode = [] then t else t\<lparr>thStops := AList.update mode now (thStops t)\<rparr>)"

definition onHost :: "controlHost \<times> hostTask list \<Rightarrow> tunnelHost \<Rightarrow> tunnelHost \<times> hostTask list" where
  "onHost r t = (t\<lparr>thHost := fst r\<rparr>, snd r)"

section \<open>The check of a startup\<close>

definition startupReferenceFailure :: "tunnelRequest \<Rightarrow> compatFailure option" where
  "startupReferenceFailure q =
     (case tqCompat q of
        None \<Rightarrow> Some \<lparr>cfCandidateID = [], cfStatus = StatusSetupNeeded, cfAxis = AxisProviderArtifact,
          cfReason = ReasonProviderArtifactMissing\<rparr>
      | Some ref \<Rightarrow>
          if (case suSource ref of None \<Rightarrow> True | Some s \<Rightarrow> TrimSpace (soResolutionID s) = [])
          then Some \<lparr>cfCandidateID = TrimSpace (suCandidateID ref), cfStatus = StatusSetupNeeded,
            cfAxis = AxisProviderSource, cfReason = ReasonProviderSourceRequired\<rparr>
          else if (case suArtifact ref of
              None \<Rightarrow> True
            | Some a \<Rightarrow> TrimSpace (afResolutionID a) = [] \<or> TrimSpace (afFamily a) = [] \<or> afAccessMethods a = [])
          then Some \<lparr>cfCandidateID = TrimSpace (suCandidateID ref), cfStatus = StatusSetupNeeded,
            cfAxis = AxisProviderArtifact, cfReason = ReasonProviderArtifactMissing\<rparr>
          else None)"

definition selectedStartupDescriptor :: "transportStore \<Rightarrow> tunnelRequest \<Rightarrow> planError + planDescriptor" where
  "selectedStartupDescriptor s q =
     (case find (\<lambda>c. pcMode c = tqMode q) (tsTunnels s) of
        Some c \<Rightarrow> selectPlatformTunnelExecutionPlanDescriptor (pcPlans c) (tqPlan q)
      | None \<Rightarrow> (case tqPlan q of Some p \<Rightarrow> Inr (emptyDescriptor\<lparr>xdPlan := p\<rparr>) | None \<Rightarrow> Inl PlanUnavailable))"

definition startupFailureStage :: "failingAxis \<Rightarrow> string \<times> string" where
  "startupFailureStage axis =
     (if axis = AxisTransportProfile then (''profile_validate'', ''transport_profile'')
      else if axis = AxisProviderSource \<or> axis = AxisProviderArtifact \<or> axis = AxisArtifactAccessMethod
      then (''runtime_attach'', ''host_implementation'')
      else if axis = AxisEvidence then (''dataplane_verify'', ''dataplane_evidence'')
      else (''capability_check'', ''host_implementation''))"

definition startupCompatFailure :: "tunnelRequest \<Rightarrow> compatFailure \<Rightarrow> tunnelResult" where
  "startupCompatFailure q f =
     emptyResult\<lparr>tuMode := tqMode q, tuPlan := tqPlan q, tuProfile := tqProfile q, tuCompat := Some f,
       tuStage := fst (startupFailureStage (cfAxis f)), tuMissing := snd (startupFailureStage (cfAxis f)),
       tuUnderlay := tqUnderlay q\<rparr>"

definition startupKinds :: "transportStore \<Rightarrow> tunnelRequest \<Rightarrow> string list" where
  "startupKinds s q =
     (case selectedStartupDescriptor s q of
        Inr d \<Rightarrow> requiredKindsOf s d
      | Inl _ \<Rightarrow> (case tqPlan q of Some p \<Rightarrow> requiredKindsForPlan s p | None \<Rightarrow> []))"

text \<open>The startups the check says nothing about.\<close>

definition startupExempt :: "transportStore \<Rightarrow> tunnelRequest \<Rightarrow> bool" where
  "startupExempt s q \<longleftrightarrow>
     TrimSpace (tqResolutionID q) = [] \<and> tqCompat q = None \<or>
     \<not> tsEnabled s \<and> tqCompat q = None \<and> tqProfile q = None \<or>
     isl (selectedStartupDescriptor s q) \<and> tqPlan q = None \<or>
     startupKinds s q = [] \<and> tqProfile q = None"

definition startupCompatRequest :: "tunnelRequest \<Rightarrow> compatRequest" where
  "startupCompatRequest q =
     (let base = \<lparr>cqResolutionID = tqResolutionID q, cqCandidateID = [], cqSource = None, cqArtifact = None,
        cqPlan = tqPlan q, cqProfile = tqProfile q, cqRequireEvidence = False, cqAllowDegraded = False\<rparr>
      in case tqCompat q of
           None \<Rightarrow> base
         | Some ref \<Rightarrow> base\<lparr>cqCandidateID := suCandidateID ref, cqSource := suSource ref, cqArtifact := suArtifact ref\<rparr>)"

definition startupFailureOf :: "compatStatus \<Rightarrow> failingAxis \<Rightarrow> reasonCode \<Rightarrow> compatFailure" where
  "startupFailureOf status axis reason =
     \<lparr>cfCandidateID = [], cfStatus = status, cfAxis = axis, cfReason = reason\<rparr>"

definition validateCompatForStartup ::
    "hostConfig \<Rightarrow> (string \<Rightarrow> string) \<Rightarrow> instant \<Rightarrow> tunnelRequest \<Rightarrow> tunnelHost \<Rightarrow>
      tunnelResult option \<times> tunnelHost \<times> hostTask list" where
  "validateCompatForStartup cfg hash now q t =
     (let fail = (\<lambda>f. (Some (startupCompatFailure q f), t, [])) in
      if startupExempt (thStore t) q then (None, t, [])
      else if TrimSpace (tqResolutionID q) = []
      then fail (startupFailureOf StatusSetupNeeded AxisProviderSource ReasonProviderSourceRequired)
      else if tqPlan q = None then fail (startupFailureOf StatusSetupNeeded AxisHostAdapter ReasonRuntimePlanRequired)
      else if (case tqProfile q of None \<Rightarrow> True | Some p \<Rightarrow> TrimSpace (rfProfileID p) = [])
      then fail (startupFailureOf StatusSetupNeeded AxisTransportProfile ReasonTransportProfileRequired)
      else
        (case startupReferenceFailure q of
           Some f \<Rightarrow> fail f
         | None \<Rightarrow>
             (case ProviderTransportCompatibilityCandidates cfg hash (thStore t) now (startupCompatRequest q) (thHost t) of
                (cs, h, ts) \<Rightarrow>
                  (case cs of
                     [] \<Rightarrow> (Some (startupCompatFailure q
                         (startupFailureOf StatusUnsupported AxisEngineFamily ReasonRuntimePlanUnsupported)), t\<lparr>thHost := h\<rparr>, ts)
                   | c # _ \<Rightarrow>
                       if candidateStartable c then (None, t\<lparr>thHost := h\<rparr>, ts)
                       else (Some (startupCompatFailure q (failureFromCandidate c)), t\<lparr>thHost := h\<rparr>, ts)))))"

section \<open>The profile of a startup\<close>

definition attachProfile :: "tunnelRequest \<Rightarrow> transportStore \<Rightarrow> tunnelResult + tunnelRequest" where
  "attachProfile q s =
     (if \<not> tsEnabled s \<or> TrimSpace (tqResolutionID q) \<noteq> [] \<and> tqProfile q = None then Inr q
      else
        (case find (\<lambda>c. pcMode c = tqMode q) (tsTunnels s) of
           None \<Rightarrow> Inr q
         | Some c \<Rightarrow>
             if \<not> pcAvailable c then Inr q
             else
               (case selectPlatformTunnelExecutionPlanDescriptor (pcPlans c) (tqPlan q) of
                  Inl _ \<Rightarrow> Inr q
                | Inr d \<Rightarrow>
                    (let kinds = (if xdRequiredKinds d = [] then requiredTransportProfileKindsForPlan (xdPlan d)
                       else xdRequiredKinds d)
                     in if \<not> isSupported d \<or> kinds = [] then Inr q
                        else
                          (case resolveTransportProfileForStartup s (tqProfile q) (xdPlan d) kinds of
                             Inl _ \<Rightarrow> Inl (emptyResult\<lparr>tuMode := tqMode q, tuPlan := Some (xdPlan d),
                               tuStage := ''profile_validate'', tuMissing := ''transport_profile'', tuUnderlay := tqUnderlay q\<rparr>)
                           | Inr ref \<Rightarrow> Inr (q\<lparr>tqProfile := ref\<rparr>))))))"

text \<open>\<open>attachPlatformTunnelResultRequestContext\<close>\<close>

definition attachContext :: "tunnelRequest \<Rightarrow> tunnelResult \<Rightarrow> tunnelResult" where
  "attachContext q r =
     r\<lparr>tuMode := (if TrimSpace (tuMode r) = [] then tqMode q else tuMode r),
       tuPlan := (case tuPlan r of None \<Rightarrow> tqPlan q | Some p \<Rightarrow> Some p),
       tuProfile := (case tuProfile r of None \<Rightarrow> tqProfile q | Some p \<Rightarrow> Some p),
       tuUnderlay := (if TrimSpace (tuUnderlay r) = [] then tqUnderlay q else tuUnderlay r)\<rparr>"

section \<open>Cleaning up\<close>

definition failureNeedsCleanup :: "tunnelResult \<Rightarrow> bool" where
  "failureNeedsCleanup r \<longleftrightarrow> tuStage r \<in> {''route_validate'', ''host_bringup'', ''runtime_attach'', ''dataplane_verify''}"

definition cleanupTunnel ::
    "hostConfig \<Rightarrow> instant \<Rightarrow> stopperAnswer \<Rightarrow> string \<Rightarrow> tunnelHost \<Rightarrow> tunnelHost \<times> hostTask list" where
  "cleanupTunnel cfg now stop mode t =
     (case stop of
        StopperReturns _ _ \<Rightarrow>
          if TrimSpace mode = [] then (t, [])
          else onHost (publishPlatformTunnelStop cfg now mode ''stopped'' (thHost t)) (clearAttempts mode t)
      | _ \<Rightarrow> (t, []))"

definition finalizeFailure ::
    "hostConfig \<Rightarrow> instant \<Rightarrow> stopperAnswer \<Rightarrow> tunnelRequest \<Rightarrow> tunnelResult \<Rightarrow> tunnelHost \<Rightarrow> tunnelHost \<times> hostTask list" where
  "finalizeFailure cfg now stop q r t =
     (let t1 = rememberAttempt (tuAttemptID r) q t in
      if failureNeedsCleanup r then cleanupTunnel cfg now stop (tqMode q) t1 else (t1, []))"

text \<open>The same after a resume; the request of the start is \<open>None\<close> if the attempt is not known.\<close>

definition finalizeResumedFailure ::
    "hostConfig \<Rightarrow> instant \<Rightarrow> stopperAnswer \<Rightarrow> tunnelRequest option \<Rightarrow> tunnelResult \<Rightarrow> tunnelHost \<Rightarrow>
      tunnelHost \<times> hostTask list" where
  "finalizeResumedFailure cfg now stop q r t =
     (let t1 = (case q of None \<Rightarrow> t | Some q' \<Rightarrow> rememberAttempt (tuAttemptID r) q' t);
          mode = (if TrimSpace (tuMode r) = [] then tqMode (case_option emptyTunnelRequest id q) else tuMode r)
      in if failureNeedsCleanup r then cleanupTunnel cfg now stop mode t1 else (t1, []))"

section \<open>The session of a tunnel\<close>

definition tunnelProfileSpec :: "profileSpec \<Rightarrow> tunnelResult \<Rightarrow> profileSpec" where
  "tunnelProfileSpec spec r =
     (case tuIngress r of
        None \<Rightarrow> spec
      | Some i \<Rightarrow>
          if TrimSpace (riAddress i) = [] then spec
          else if riProtocol i = ''raw_wireguard_datagram'' \<or> riProtocol i = ''udp_protocol_multiplexer''
          then spec\<lparr>psPeerAddr := TrimSpace (riAddress i), psMode := ''udp'', psUseDTLS := Some False\<rparr>
          else spec)"

definition materializedFrom ::
    "hostConfig \<Rightarrow> resolutionView \<Rightarrow> providerResolution option \<Rightarrow> runtimeDefaults \<Rightarrow> hostError + profileSpec" where
  "materializedFrom cfg v secret defaults =
     (if rvState v = ResolutionExpired then Inl ResolutionHasExpired
      else if rvState v \<noteq> ResolutionResolved then Inl NotTransportReady
      else if \<not> resolutionSupportsAction v ''start_on_this_device'' then Inl (ActionUnavailable ''start_on_this_device'')
      else buildMaterializedProfileSpec cfg (secretCredentials secret) defaults)"

definition materializedProfileSpec ::
    "hostConfig \<Rightarrow> instant \<Rightarrow> string \<Rightarrow> runtimeDefaults \<Rightarrow> controlHost \<Rightarrow>
      (hostError + profileSpec) \<times> controlHost \<times> hostTask list" where
  "materializedProfileSpec cfg now rid defaults h =
     (case readResolution cfg now rid h of
        (None, h1, ts) \<Rightarrow> (Inl ResolutionNotFound, h1, ts)
      | (Some (v, secret), h1, ts) \<Rightarrow> (materializedFrom cfg v secret defaults, h1, ts))"

text \<open>\<open>allocateSessionID\<close> in one go: an identifier that is free, of the first \<open>n\<close> drawn.\<close>

fun pickSessionID :: "hostConfig \<Rightarrow> nat \<Rightarrow> controlHost \<Rightarrow> string option \<times> controlHost" where
  "pickSessionID cfg 0 h = (None, h)"
| "pickSessionID cfg (Suc n) h =
     (case drawSessionID cfg h of
        (drawn, h1) \<Rightarrow>
          if TrimSpace drawn \<noteq> [] \<and> theSession (TrimSpace drawn) h1 = None then (Some (TrimSpace drawn), h1)
          else pickSessionID cfg n h1)"

definition startTunnelSession ::
    "hostConfig \<Rightarrow> instant \<Rightarrow> string \<Rightarrow> profileSpec \<Rightarrow> string \<Rightarrow> controlHost \<Rightarrow>
      string option \<times> controlHost \<times> hostTask list" where
  "startTunnelSession cfg now mode spec src h =
     (case pickSessionID cfg 8 h of
        (None, h1) \<Rightarrow> (None, h1, [])
      | (Some sid, h1) \<Rightarrow>
          (Some sid, insertPlatformSession cfg sid
            \<lparr>ssPlatformMode = mode, ssProfileID = [], ssProfileName = [], ssSpec = spec, ssSource = src,
             ssStartedAt = now\<rparr> h1))"

text \<open>\<open>None\<close> if no session could be published.\<close>

definition publishTunnelSession ::
    "hostConfig \<Rightarrow> instant \<Rightarrow> tunnelRequest \<Rightarrow> tunnelResult \<Rightarrow> controlHost \<Rightarrow>
      string option \<times> controlHost \<times> hostTask list" where
  "publishTunnelSession cfg now q r h =
     (case tqDefaults q of
        None \<Rightarrow> (None, h, [])
      | Some defaults \<Rightarrow>
          if TrimSpace (tqResolutionID q) = [] then (None, h, [])
          else
            (case materializedProfileSpec cfg now (tqResolutionID q) defaults h of
               (Inl _, h1, ts) \<Rightarrow> (None, h1, ts)
             | (Inr spec, h1, ts) \<Rightarrow>
                 (case startTunnelSession cfg now (tqMode q) (tunnelProfileSpec spec r) (tqResolutionID q) h1 of
                    (sid, h2, ts') \<Rightarrow> (sid, h2, ts @ ts'))))"

definition publicationFailure ::
    "hostConfig \<Rightarrow> instant \<Rightarrow> stopperAnswer \<Rightarrow> string \<Rightarrow> string \<Rightarrow> tunnelResult \<Rightarrow> tunnelHost \<Rightarrow>
      tunnelResult \<times> tunnelHost \<times> hostTask list" where
  "publicationFailure cfg now stop mode underlay r t =
     (emptyResult\<lparr>tuMode := tuMode r, tuPlan := tuPlan r, tuIngress := tuIngress r, tuDataplane := tuDataplane r,
        tuStage := ''runtime_attach'', tuMissing := ''host_implementation'', tuUnderlay := underlay\<rparr>,
      cleanupTunnel cfg now stop mode t)"

definition publishReady ::
    "hostConfig \<Rightarrow> instant \<Rightarrow> stopperAnswer \<Rightarrow> tunnelRequest \<Rightarrow> tunnelResult \<Rightarrow> tunnelHost \<Rightarrow>
      tunnelResult \<times> tunnelHost \<times> hostTask list" where
  "publishReady cfg now stop q r t =
     (case publishTunnelSession cfg now q r (thHost t) of
        (None, h, ts) \<Rightarrow>
          (case publicationFailure cfg now stop (tqMode q) (tqUnderlay q) r (t\<lparr>thHost := h\<rparr>) of
             (r', t', ts') \<Rightarrow> (r', t', ts @ ts'))
      | (Some sid, h, ts) \<Rightarrow> (r\<lparr>tuSessionID := sid\<rparr>, t\<lparr>thHost := h\<rparr>, ts))"

section \<open>Finishing a start\<close>

definition readyEvidence :: "string \<Rightarrow> dataplaneEvidence option \<Rightarrow> bool" where
  "readyEvidence mode e \<longleftrightarrow> mode \<notin> {''windows_wintun'', ''linux_tun''} \<or> completeEvidence e"

definition withoutEvidence :: "tunnelResult \<Rightarrow> tunnelResult" where
  "withoutEvidence r =
     r\<lparr>tuReady := False, tuSessionID := [], tuStage := ''dataplane_verify'', tuMissing := ''dataplane_evidence''\<rparr>"

definition finalizeStart ::
    "hostConfig \<Rightarrow> instant \<Rightarrow> stopperAnswer \<Rightarrow> tunnelRequest \<Rightarrow> tunnelResult \<Rightarrow> tunnelHost \<Rightarrow>
      tunnelResult \<times> tunnelHost \<times> hostTask list" where
  "finalizeStart cfg now stop q r t =
     (if \<not> tuReady r then (r, finalizeFailure cfg now stop q r t)
      else if \<not> readyEvidence (tqMode q) (tuDataplane r)
      then (withoutEvidence r, finalizeFailure cfg now stop q (withoutEvidence r) t)
      else publishReady cfg now stop q r t)"

definition finalizeResumed ::
    "hostConfig \<Rightarrow> instant \<Rightarrow> stopperAnswer \<Rightarrow> tunnelRequest option \<Rightarrow> tunnelResult \<Rightarrow> tunnelHost \<Rightarrow>
      tunnelResult \<times> tunnelHost \<times> hostTask list" where
  "finalizeResumed cfg now stop q r t =
     (if \<not> tuReady r then (r, finalizeResumedFailure cfg now stop q r t)
      else
        (case q of
           None \<Rightarrow> publicationFailure cfg now stop (tuMode r) [] r t
         | Some q' \<Rightarrow>
             if \<not> readyEvidence (tqMode q') (tuDataplane r)
             then (withoutEvidence r, finalizeResumedFailure cfg now stop q (withoutEvidence r) t)
             else publishReady cfg now stop q' r t))"

section \<open>The calls\<close>

datatype startStep =
    StartRefused tunnelError
  | StartAnswered tunnelResult
  | StartCalls tunnelRequest

text \<open>A result is remembered only if it is valid.\<close>

definition answerResult ::
    "instant \<Rightarrow> string \<Rightarrow> tunnelRequest \<Rightarrow> tunnelResult \<Rightarrow> tunnelHost \<Rightarrow> (tunnelError + tunnelResult) \<times> tunnelHost" where
  "answerResult now mode q r t =
     (if validateTunnelStartResult mode r then (Inr r, rememberResult now q r t) else (Inl StartResultInvalid, t))"

definition stepOf :: "tunnelError + tunnelResult \<Rightarrow> startStep" where
  "stepOf a = (case a of Inl e \<Rightarrow> StartRefused e | Inr r \<Rightarrow> StartAnswered r)"

text \<open>\<open>StartPlatformTunnel\<close> up to the call of the starter.\<close>

definition beginStart ::
    "hostConfig \<Rightarrow> (string \<Rightarrow> string) \<Rightarrow> instant \<Rightarrow> tunnelRequest \<Rightarrow> tunnelHost \<Rightarrow> startStep \<times> tunnelHost \<times> hostTask list" where
  "beginStart cfg hash now q0 t =
     (case normalizeTunnelRequest q0 of
        Inl e \<Rightarrow> (StartRefused e, t, [])
      | Inr q \<Rightarrow>
          if \<not> isKnownTunnelMode (tqMode q0)
          then (StartRefused (if TrimSpace (tqMode q0) = [] then TunnelModeRequired else TunnelModeUnknown), t, [])
          else
            (case validateCompatForStartup cfg hash now q t of
               (Some r, t1, ts) \<Rightarrow>
                 (case answerResult now (tqMode q) q (attachContext q r) t1 of (a, t2) \<Rightarrow> (stepOf a, t2, ts))
             | (None, t1, ts) \<Rightarrow>
                 (case attachProfile q (thStore t1) of
                    Inl r \<Rightarrow>
                      (case answerResult now (tqMode q) q (attachContext q r) t1 of (a, t2) \<Rightarrow> (stepOf a, t2, ts))
                  | Inr q' \<Rightarrow> (StartCalls q', t1, ts))))"

text \<open>And after it.\<close>

definition endStart ::
    "hostConfig \<Rightarrow> instant \<Rightarrow> starterAnswer \<Rightarrow> stopperAnswer \<Rightarrow> tunnelRequest \<Rightarrow> tunnelHost \<Rightarrow>
      (tunnelError + tunnelResult) \<times> tunnelHost \<times> hostTask list" where
  "endStart cfg now answer stop q t =
     (case answer of
        StarterFails \<Rightarrow> (Inl StarterFailed, t, [])
      | StarterRefuses r \<Rightarrow>
          (case finalizeFailure cfg now stop q r t of
             (t1, ts) \<Rightarrow>
               (case answerResult now (tqMode q) q (attachContext q r) t1 of
                  (a, t2) \<Rightarrow> (case a of Inl e \<Rightarrow> Inl e | Inr r' \<Rightarrow> Inl (StartFailed r'), t2, ts)))
      | StarterReturns r \<Rightarrow>
          (case finalizeStart cfg now stop q r t of
             (r1, t1, ts) \<Rightarrow>
               (case answerResult now (tqMode q) q (attachContext q r1) t1 of (a, t2) \<Rightarrow> (a, t2, ts))))"

text \<open>
  \<open>ResumePlatformTunnel\<close>: it takes the request of the attempt, whether or not the host has a resumer.
\<close>

definition beginResume :: "string \<Rightarrow> tunnelHost \<Rightarrow> (tunnelError + tunnelRequest option) \<times> tunnelHost" where
  "beginResume attempt t =
     (case normalizeResumeRequest attempt of
        Inl e \<Rightarrow> (Inl e, t)
      | Inr a \<Rightarrow> (case takeAttempt a t of (q, t1) \<Rightarrow> (Inr q, t1)))"

definition resumedContext :: "tunnelRequest option \<Rightarrow> tunnelResult \<Rightarrow> tunnelResult" where
  "resumedContext q r = (case q of None \<Rightarrow> r | Some q' \<Rightarrow> attachContext q' r)"

text \<open>
  \<open>None\<close> stands for a host without a resumer.  When the resumer returns an error with a result, the
  \<^verbatim>\<open>ok\<close> of that result hides the one of the attempt, so that an attempt that is not known counts as
  known, with an empty request.
\<close>

definition endResume ::
    "hostConfig \<Rightarrow> instant \<Rightarrow> starterAnswer option \<Rightarrow> stopperAnswer \<Rightarrow> tunnelRequest option \<Rightarrow> tunnelHost \<Rightarrow>
      (tunnelError + tunnelResult) \<times> tunnelHost \<times> hostTask list" where
  "endResume cfg now answer stop q t =
     (let q0 = case_option emptyTunnelRequest id q in
      case answer of
        None \<Rightarrow> (Inl TunnelNotConfigured, t, [])
      | Some StarterFails \<Rightarrow> (Inl StarterFailed, t, [])
      | Some (StarterRefuses r) \<Rightarrow>
          (case finalizeResumedFailure cfg now stop (Some q0) r t of
             (t1, ts) \<Rightarrow>
               (let r1 = attachContext q0 r in
                case answerResult now (tuMode r1) q0 r1 t1 of
                  (a, t2) \<Rightarrow> (case a of Inl e \<Rightarrow> Inl e | Inr r' \<Rightarrow> Inl (StartFailed r'), t2, ts)))
      | Some (StarterReturns r) \<Rightarrow>
          (case finalizeResumed cfg now stop q r t of
             (r0, t1, ts) \<Rightarrow>
               (let r1 = resumedContext q r0 in
                case answerResult now (tuMode r1) q0 r1 t1 of (a, t2) \<Rightarrow> (a, t2, ts))))"

text \<open>\<open>StopPlatformTunnel\<close>; the result is the mode that was stopped.\<close>

definition StopPlatformTunnel ::
    "hostConfig \<Rightarrow> instant \<Rightarrow> stopperAnswer \<Rightarrow> string \<Rightarrow> tunnelHost \<Rightarrow>
      (tunnelError + string) \<times> tunnelHost \<times> hostTask list" where
  "StopPlatformTunnel cfg now stop mode0 t =
     (case normalizeStopRequest mode0 of
        Inl e \<Rightarrow> (Inl e, t, [])
      | Inr mode \<Rightarrow>
          (case stop of
             NoStopper \<Rightarrow> (Inl TunnelNotConfigured, t, [])
           | StopperFails \<Rightarrow> (Inl StopperFailed, t, [])
           | StopperReturns m stopped \<Rightarrow>
               (let m' = (if TrimSpace m = [] then mode else m) in
                if m' \<noteq> mode \<or> \<not> stopped then (Inl StopResultInvalid, t, [])
                else
                  (case onHost (publishPlatformTunnelStop cfg now m' ''stopped'' (thHost t)) (clearAttempts m' t) of
                     (t1, ts) \<Rightarrow> (Inr m', rememberStop now m' t1, ts)))))"

end
