(* ===== verification/PlatformRuns.thy ===== *)
theory PlatformRuns
  imports PlatformHost HostViews
begin

text \<open>
  Runs of the platform tunnels of a host: starts and resumes in their two halves, stops, and whatever
  else the host does in between; and what each half leaves behind.
\<close>

section \<open>Runs\<close>

text \<open>A run: the state, the starts and the resumes for which the platform has been called.\<close>

type_synonym tunnelRun = "tunnelHost \<times> tunnelRequest list \<times> tunnelRequest option list"

datatype tunnelAct =
    ActStart instant tunnelRequest
  | ActStarted nat instant starterAnswer stopperAnswer
  | ActResume string
  | ActResumed nat instant "starterAnswer option" stopperAnswer
  | ActStop instant stopperAnswer string
  | ActOther controlHost transportStore

definition newTunnels :: "controlHost \<Rightarrow> transportStore \<Rightarrow> tunnelHost" where
  "newTunnels h s = \<lparr>thHost = h, thStore = s, thAttempts = [], thResults = [], thStops = []\<rparr>"

definition dropAt :: "nat \<Rightarrow> 'a list \<Rightarrow> 'a list" where
  "dropAt i xs = take i xs @ drop (Suc i) xs"

fun tunnelDo :: "hostConfig \<Rightarrow> (string \<Rightarrow> string) \<Rightarrow> tunnelRun \<Rightarrow> tunnelAct \<Rightarrow> tunnelRun" where
  "tunnelDo cfg hash (t, ss, rs) (ActStart now q) =
     (case beginStart cfg hash now q t of
        (StartCalls q', t', _) \<Rightarrow> (t', ss @ [q'], rs)
      | (_, t', _) \<Rightarrow> (t', ss, rs))"
| "tunnelDo cfg hash (t, ss, rs) (ActStarted i now answer stop) =
     (if i < length ss then (fst (snd (endStart cfg now answer stop (ss ! i) t)), dropAt i ss, rs) else (t, ss, rs))"
| "tunnelDo cfg hash (t, ss, rs) (ActResume attempt) =
     (case beginResume attempt t of (Inl _, t') \<Rightarrow> (t', ss, rs) | (Inr q, t') \<Rightarrow> (t', ss, rs @ [q]))"
| "tunnelDo cfg hash (t, ss, rs) (ActResumed i now answer stop) =
     (if i < length rs then (fst (snd (endResume cfg now answer stop (rs ! i) t)), ss, dropAt i rs) else (t, ss, rs))"
| "tunnelDo cfg hash (t, ss, rs) (ActStop now stop mode) = (fst (snd (StopPlatformTunnel cfg now stop mode t)), ss, rs)"
| "tunnelDo cfg hash (t, ss, rs) (ActOther h s) = (t\<lparr>thHost := h, thStore := s\<rparr>, ss, rs)"

definition runTunnels :: "hostConfig \<Rightarrow> (string \<Rightarrow> string) \<Rightarrow> tunnelRun \<Rightarrow> tunnelAct list \<Rightarrow> tunnelRun" where
  "runTunnels cfg hash r acts = foldl (tunnelDo cfg hash) r acts"

lemma runTunnels_simps [simp]:
  "runTunnels cfg hash r [] = r" "runTunnels cfg hash r (a # acts) = runTunnels cfg hash (tunnelDo cfg hash r a) acts"
  by (simp_all add: runTunnels_def)

lemma set_dropAt: "set (dropAt i xs) \<subseteq> set xs"
  by (auto simp: dropAt_def dest: in_set_takeD in_set_dropD)

section \<open>Requests\<close>

text \<open>A request the host has accepted: its mode is known and its policies are those of the mode.\<close>

definition requestOk :: "tunnelRequest \<Rightarrow> bool" where
  "requestOk q \<longleftrightarrow> isKnownTunnelMode (tqMode q) \<and> normalizePolicies q = Inr q"

definition cleanText :: "string \<Rightarrow> bool" where
  "cleanText p \<longleftrightarrow> TrimSpace p = p \<and> p \<noteq> []"

lemma clean_trimmed [simp]: "TrimSpace p \<noteq> [] \<Longrightarrow> cleanText (TrimSpace p)"
  by (simp add: cleanText_def)

lemma clean_same: "cleanText p \<Longrightarrow> TrimSpace p = p" "cleanText p \<Longrightarrow> p \<noteq> []"
  by (simp_all add: cleanText_def)

lemma packages_step:
  "distinct out \<Longrightarrow> list_all cleanText out \<Longrightarrow>
   res = fold (\<lambda>p out. if TrimSpace p = [] \<or> TrimSpace p \<in> set out then out else out @ [TrimSpace p]) ps out \<Longrightarrow>
    distinct res \<and> list_all cleanText res"
  by (induction ps arbitrary: out) (simp_all split: if_splits)

lemma packages_clean: "distinct (normalizePackageNames ps)" "list_all cleanText (normalizePackageNames ps)"
  using packages_step [of "[]" "normalizePackageNames ps" ps] by (simp_all add: normalizePackageNames_def)

lemma packages_keep:
  "distinct (out @ ps) \<Longrightarrow> list_all cleanText ps \<Longrightarrow>
   fold (\<lambda>p out. if TrimSpace p = [] \<or> TrimSpace p \<in> set out then out else out @ [TrimSpace p]) ps out = out @ ps"
  by (induction ps arbitrary: out) (simp_all add: clean_same)

lemma packages_idem [simp]: "normalizePackageNames (normalizePackageNames ps) = normalizePackageNames ps"
  using packages_keep [of "[]" "normalizePackageNames ps"] packages_clean [of ps]
  by (simp add: normalizePackageNames_def [of "normalizePackageNames ps"])

lemma underlay_known: "isKnownUnderlayPolicy u \<Longrightarrow> cleanText u"
  unfolding isKnownUnderlayPolicy_def cleanText_def by (elim insertE emptyE) (simp_all add: TrimSpace_plain go_spaces_def)

lemma app_known: "isKnownAppPolicy p \<Longrightarrow> cleanText p"
  unfolding isKnownAppPolicy_def cleanText_def by (elim insertE emptyE) (simp_all add: TrimSpace_plain go_spaces_def)

lemma mode_known: "isKnownTunnelMode m \<Longrightarrow> cleanText m"
  unfolding isKnownTunnelMode_def cleanText_def by (elim insertE emptyE) (simp_all add: TrimSpace_plain go_spaces_def)

lemma underlay_Inr:
  assumes "normalizeUnderlay f q = Inr q'"
  obtains u where "q' = q\<lparr>tqUnderlay := u\<rparr>" "isKnownUnderlayPolicy u" "normalizeUnderlay f' q' = Inr q'"
proof -
  define u where "u = (if TrimSpace (tqUnderlay q) = [] then f else tqUnderlay q)"
  have u: "q' = q\<lparr>tqUnderlay := u\<rparr>" "isKnownUnderlayPolicy u"
    using assms unfolding normalizeUnderlay_def u_def [symmetric] Let_def by (cases "isKnownUnderlayPolicy u"; simp)+
  moreover have "normalizeUnderlay f' q' = Inr q'"
    using clean_same [OF underlay_known [OF u(2)]] u(2) by (simp add: normalizeUnderlay_def u(1))
  ultimately show thesis using that by blast
qed

text \<open>The three cases of \<open>normalizePolicies\<close>.\<close>

lemma policies_other:
  "tqMode q \<notin> {''android_vpn_service'', ''windows_wintun'', ''linux_tun''} \<Longrightarrow>
   normalizePolicies q = Inr q' \<longleftrightarrow> q' = q \<and> \<not> asksAppRouting q \<and> TrimSpace (tqUnderlay q) = []"
  by (auto simp: normalizePolicies_def)

lemma policies_desktop:
  "tqMode q \<in> {''windows_wintun'', ''linux_tun''} \<Longrightarrow>
   normalizePolicies q = Inr q' \<longleftrightarrow> \<not> asksAppRouting q \<and> normalizeUnderlay ''preserve_active_local_network'' q = Inr q'"
  by (auto simp: normalizePolicies_def)

lemma policies_android:
  "tqMode q = ''android_vpn_service'' \<Longrightarrow>
   normalizePolicies q = Inr q' \<longleftrightarrow>
     isKnownAppPolicy (tqAppPolicy (withAppDefaults q)) \<and> appRoutingOk (withAppDefaults q) \<and>
     normalizeUnderlay ''standard'' (withAppDefaults q) = Inr q'"
  by (auto simp: normalizePolicies_def Let_def)

lemma appDefaults_idem:
  "isKnownAppPolicy (tqAppPolicy (withAppDefaults q)) \<Longrightarrow>
   withAppDefaults (withAppDefaults q\<lparr>tqUnderlay := u\<rparr>) = withAppDefaults q\<lparr>tqUnderlay := u\<rparr>"
  using clean_same [OF app_known] by (simp add: withAppDefaults_def)

lemma policies_mode: "normalizePolicies q = Inr q' \<Longrightarrow> tqMode q' = tqMode q"
  by (cases "tqMode q = ''android_vpn_service''"; cases "tqMode q \<in> {''windows_wintun'', ''linux_tun''}")
    (auto simp: policies_other policies_desktop policies_android withAppDefaults_def elim: underlay_Inr)

lemma policies_idem:
  assumes "normalizePolicies q = Inr q'"
  shows "normalizePolicies q' = Inr q'"
proof -
  note m = policies_mode [OF assms]
  consider "tqMode q \<notin> {''android_vpn_service'', ''windows_wintun'', ''linux_tun''}"
    | "tqMode q \<in> {''windows_wintun'', ''linux_tun''}" | "tqMode q = ''android_vpn_service''" by blast
  then show ?thesis
  proof cases
    case 1
    then show ?thesis using assms policies_other m by metis
  next
    case 2
    with assms have n: "\<not> asksAppRouting q" "normalizeUnderlay ''preserve_active_local_network'' q = Inr q'"
      using policies_desktop by blast+
    obtain u where u: "q' = q\<lparr>tqUnderlay := u\<rparr>" "normalizeUnderlay ''preserve_active_local_network'' q' = Inr q'"
      using underlay_Inr [OF n(2)] by metis
    have "\<not> asksAppRouting q'" using n(1) by (simp add: u(1) asksAppRouting_def)
    then show ?thesis using 2 m u(2) policies_desktop [of q' q'] by simp
  next
    case 3
    with assms have n: "isKnownAppPolicy (tqAppPolicy (withAppDefaults q))" "appRoutingOk (withAppDefaults q)"
      "normalizeUnderlay ''standard'' (withAppDefaults q) = Inr q'"
      using policies_android by blast+
    obtain u where u: "q' = withAppDefaults q\<lparr>tqUnderlay := u\<rparr>" "normalizeUnderlay ''standard'' q' = Inr q'"
      using underlay_Inr [OF n(3)] by metis
    have "withAppDefaults q' = q'" using appDefaults_idem [OF n(1)] u(1) by simp
    moreover have "appRoutingOk q' = appRoutingOk (withAppDefaults q)" "tqAppPolicy q' = tqAppPolicy (withAppDefaults q)"
      by (simp_all add: u(1) appRoutingOk_def)
    ultimately show ?thesis using policies_android [of q' q'] 3 m n(1,2) u(2) by simp
  qed
qed


lemma trim_mode [simp]: "tqMode (trimTunnelRequest q) = tqMode q"
  by (simp add: trimTunnelRequest_def withStartupReference_def Let_def split: option.split)

lemma begin_policies:
  assumes "normalizeTunnelRequest q0 = Inr q" "isKnownTunnelMode (tqMode q0)"
  shows "requestOk q"
  using policies_mode [of "trimTunnelRequest q0" q] policies_idem [of "trimTunnelRequest q0" q] assms
  by (simp add: requestOk_def normalizeTunnelRequest_def)

lemma profile_parts:
  "normalizeUnderlay f (q\<lparr>tqProfile := x\<rparr>) = map_sum id (\<lambda>q. q\<lparr>tqProfile := x\<rparr>) (normalizeUnderlay f q)"
  "asksAppRouting (q\<lparr>tqProfile := x\<rparr>) = asksAppRouting q"
  "withAppDefaults (q\<lparr>tqProfile := x\<rparr>) = (withAppDefaults q)\<lparr>tqProfile := x\<rparr>"
  "appRoutingOk (q\<lparr>tqProfile := x\<rparr>) = appRoutingOk q"
  by (simp_all add: asksAppRouting_def withAppDefaults_def appRoutingOk_def normalizeUnderlay_def Let_def)

lemma policies_profile:
  "normalizePolicies (q\<lparr>tqProfile := x\<rparr>) = map_sum id (\<lambda>q. q\<lparr>tqProfile := x\<rparr>) (normalizePolicies q)"
  by (simp add: normalizePolicies_def profile_parts Let_def)

lemma request_profile: "requestOk q \<Longrightarrow> requestOk (q\<lparr>tqProfile := x\<rparr>)"
  by (simp add: requestOk_def policies_profile)

lemma attach_request: "attachProfile q s = Inr q' \<Longrightarrow> \<exists>x. q' = q\<lparr>tqProfile := x\<rparr>"
  by (auto simp: attachProfile_def Let_def intro: exI [of _ "tqProfile q"] split: if_splits option.splits sum.splits)

section \<open>What the steps change\<close>

text \<open>A step keeps the results, and adds at most one request to the attempts.\<close>

definition attemptRequests :: "tunnelHost \<Rightarrow> tunnelRequest set" where
  "attemptRequests t = snd ` set (thAttempts t)"

definition keepsTunnels :: "tunnelRequest set \<Rightarrow> tunnelHost \<Rightarrow> tunnelHost \<Rightarrow> bool" where
  "keepsTunnels Q t t' \<longleftrightarrow>
     thResults t' = thResults t \<and> attemptRequests t' \<subseteq> Q \<union> attemptRequests t"

lemma update_values: "snd ` set (AList.update k v xs) \<subseteq> insert v (snd ` set xs)"
  by (induction xs) auto

lemma update_entries: "set (AList.update k v xs) \<subseteq> insert (k, v) (set xs)"
  by (induction xs) auto

lemma keeps_remember: "q \<in> Q \<Longrightarrow> keepsTunnels Q t (rememberAttempt a q t)"
  using update_values [of "TrimSpace a" q "thAttempts t"] by (auto simp: keepsTunnels_def attemptRequests_def rememberAttempt_def)

lemma keeps_clear: "keepsTunnels Q t (clearAttempts mode t)"
  by (auto simp: keepsTunnels_def attemptRequests_def clearAttempts_def)

lemma keeps_host: "keepsTunnels Q t (t\<lparr>thHost := h\<rparr>)" "keepsTunnels Q t t"
  by (simp_all add: keepsTunnels_def attemptRequests_def)

lemma keepsTunnels_trans: "keepsTunnels Q t t1 \<Longrightarrow> keepsTunnels Q t1 t2 \<Longrightarrow> keepsTunnels Q t t2"
  by (auto simp: keepsTunnels_def)

lemma keeps_cleanup: "keepsTunnels Q t (fst (cleanupTunnel cfg now stop mode t))"
  by (auto simp: cleanupTunnel_def onHost_def keepsTunnels_def attemptRequests_def clearAttempts_def split: stopperAnswer.split)

lemma keeps_failure: "q \<in> Q \<Longrightarrow> keepsTunnels Q t (fst (finalizeFailure cfg now stop q r t))"
  using keepsTunnels_trans [OF keeps_remember keeps_cleanup] keeps_remember by (auto simp: finalizeFailure_def Let_def)

lemma keeps_resumed_failure:
  "q = None \<or> the q \<in> Q \<Longrightarrow> keepsTunnels Q t (fst (finalizeResumedFailure cfg now stop q r t))"
  using keepsTunnels_trans [OF keeps_remember keeps_cleanup] keeps_remember keeps_cleanup keeps_host(2)
  by (auto simp: finalizeResumedFailure_def Let_def split: option.split)

lemma keeps_publish: "keepsTunnels Q t (fst (snd (publishReady cfg now stop q r t)))"
  using keepsTunnels_trans [OF keeps_host(1) keeps_cleanup] keeps_host(1)
  by (auto simp: publishReady_def publicationFailure_def split: option.split prod.split) (metis fst_conv)+

lemma keeps_finalize: "q \<in> Q \<Longrightarrow> keepsTunnels Q t (fst (snd (finalizeStart cfg now stop q r t)))"
  using keeps_failure keeps_publish by (simp add: finalizeStart_def)

lemma keeps_resumed: "q = None \<or> the q \<in> Q \<Longrightarrow> keepsTunnels Q t (fst (snd (finalizeResumed cfg now stop q r t)))"
  using keeps_resumed_failure keeps_publish keeps_cleanup
  by (auto simp: finalizeResumed_def publicationFailure_def split: option.split)

lemma keeps_compat: "keepsTunnels Q t (fst (snd (validateCompatForStartup cfg hash now q t)))"
  by (auto simp: validateCompatForStartup_def Let_def keepsTunnels_def attemptRequests_def split: option.split prod.split list.split)

section \<open>The invariant\<close>

text \<open>
  A request that waits for a permission was accepted, unless it is the empty one of an attempt that was
  not known.  And what is a result the host may remember for a mode, with the request that led to it.
\<close>

definition heldRequest :: "tunnelRequest \<Rightarrow> bool" where
  "heldRequest q \<longleftrightarrow> requestOk q \<or> q = emptyTunnelRequest"

definition soundResult :: "string \<times> tunnelRequest \<times> tunnelResult \<times> instant \<Rightarrow> bool" where
  "soundResult e \<longleftrightarrow>
     (case e of (mode, q, r, at) \<Rightarrow>
        validateTunnelStartResult mode r \<and> (tuReady r \<longrightarrow> requestOk q \<and> readyEvidence (tqMode q) (tuDataplane r)))"

text \<open>
  The requests in flight are accepted ones, those that wait for a permission are held, and the results
  are sound.
\<close>

definition tunnelsOk :: "tunnelRun \<Rightarrow> bool" where
  "tunnelsOk run \<longleftrightarrow>
     (case run of (t, ss, rs) \<Rightarrow>
        (\<forall>q\<in>set ss. requestOk q) \<and> (\<forall>q. Some q \<in> set rs \<longrightarrow> heldRequest q) \<and>
        (\<forall>q\<in>attemptRequests t. heldRequest q) \<and>
        (\<forall>e\<in>set (thResults t). soundResult e) \<and> distinct (List.map fst (thResults t)))"

text \<open>An error of the platform does not carry a result that says ready.\<close>

fun refusesFairly :: "tunnelAct \<Rightarrow> bool" where
  "refusesFairly (ActStarted i now (StarterRefuses r) stop) = (\<not> tuReady r)"
| "refusesFairly (ActResumed i now (Some (StarterRefuses r)) stop) = (\<not> tuReady r)"
| "refusesFairly _ = True"

definition hostOk :: "tunnelHost \<Rightarrow> bool" where
  "hostOk t \<longleftrightarrow> tunnelsOk (t, [], [])"

lemma ok_split: "tunnelsOk (t, ss, rs) \<longleftrightarrow> hostOk t \<and> list_all requestOk ss \<and> list_all (case_option True heldRequest) rs"
  by (auto simp: hostOk_def tunnelsOk_def list_all_iff split: option.split)

lemma keeps_ok: "keepsTunnels Q t t' \<Longrightarrow> \<forall>q\<in>Q. heldRequest q \<Longrightarrow> hostOk t \<Longrightarrow> hostOk t'"
  by (auto simp: hostOk_def tunnelsOk_def keepsTunnels_def)

lemma answer_ok:
  assumes "hostOk t" "tuReady r \<Longrightarrow> requestOk q \<and> readyEvidence (tqMode q) (tuDataplane r)"
  shows "hostOk (snd (answerResult now mode q r t))"
proof (cases "validateTunnelStartResult mode r")
  case True
  then have "tuMode r = mode" unfolding validateTunnelStartResult_def by blast
  moreover have "soundResult (mode, q, r, now)" using True assms(2) by (simp add: soundResult_def)
  moreover have "attemptRequests (rememberResult now q r t) = attemptRequests t"
    "set (thResults (rememberResult now q r t)) \<subseteq> insert (tuMode r, q, r, now) (set (thResults t))"
    using update_entries [of "tuMode r" "(q, r, now)" "thResults t"] by (simp_all add: rememberResult_def attemptRequests_def) (simp add: subset_insertI)?
  moreover have "distinct (List.map fst (thResults (rememberResult now q r t)))"
    using assms(1) by (simp add: rememberResult_def hostOk_def tunnelsOk_def distinct_update)
  ultimately show ?thesis using assms(1) True unfolding hostOk_def tunnelsOk_def by (auto simp: answerResult_def)
qed (use assms(1) in \<open>simp add: answerResult_def\<close>)

lemma attach_fields [simp]:
  "tuReady (attachContext q r) = tuReady r" "tuDataplane (attachContext q r) = tuDataplane r"
  "tuSessionID (attachContext q r) = tuSessionID r" "tuStage (attachContext q r) = tuStage r"
  by (simp_all add: attachContext_def)

lemma publishReady_ready:
  "tuReady (fst (publishReady cfg now stop q r t)) \<Longrightarrow> tuDataplane (fst (publishReady cfg now stop q r t)) = tuDataplane r"
  by (simp add: publishReady_def publicationFailure_def emptyResult_def split: option.splits prod.splits)

lemma finalize_ready:
  "tuReady (fst (finalizeStart cfg now stop q r t)) \<Longrightarrow>
   readyEvidence (tqMode q) (tuDataplane (fst (finalizeStart cfg now stop q r t)))"
  using publishReady_ready [of cfg now stop q r t] by (simp add: finalizeStart_def withoutEvidence_def split: if_splits)

lemma publishReady_defaults: "tuReady (fst (publishReady cfg now stop q r t)) \<Longrightarrow> tqDefaults q \<noteq> None"
  by (auto simp: publishReady_def publishTunnelSession_def publicationFailure_def emptyResult_def split: option.splits prod.splits)

lemma resumed_ready:
  "tuReady (fst (finalizeResumed cfg now stop q r t)) \<Longrightarrow>
   \<exists>q'. q = Some q' \<and> tqDefaults q' \<noteq> None \<and> readyEvidence (tqMode q') (tuDataplane (fst (finalizeResumed cfg now stop q r t)))"
  using publishReady_ready [of cfg now stop "the q" r t] publishReady_defaults [of cfg now stop "the q" r t]
  by (cases q) (simp_all add: finalizeResumed_def withoutEvidence_def publicationFailure_def emptyResult_def split: if_splits)

lemma held_started: "heldRequest q \<Longrightarrow> tqDefaults q \<noteq> None \<Longrightarrow> requestOk q"
  by (auto simp: heldRequest_def emptyTunnelRequest_def)

lemma resumedContext_fields [simp]:
  "tuReady (resumedContext q r) = tuReady r" "tuDataplane (resumedContext q r) = tuDataplane r"
  by (simp_all add: resumedContext_def split: option.split)

section \<open>The steps keep the invariant\<close>

lemma endStart_ok:
  assumes "hostOk t" "requestOk q" "\<And>r. answer = StarterRefuses r \<Longrightarrow> \<not> tuReady r"
  shows "hostOk (fst (snd (endStart cfg now answer stop q t)))"
proof (cases answer)
  case (StarterReturns r)
  have "hostOk (fst (snd (finalizeStart cfg now stop q r t)))"
    using keeps_ok [OF keeps_finalize [of q "{q}"]] assms(1,2) by (simp add: heldRequest_def)
  from answer_ok [OF this, of "attachContext q (fst (finalizeStart cfg now stop q r t))" q now "tqMode q"] finalize_ready
  show ?thesis using assms(2) by (simp add: endStart_def StarterReturns prod.case_eq_if)
next
  case (StarterRefuses r)
  have "hostOk (fst (finalizeFailure cfg now stop q r t))"
    using keeps_ok [OF keeps_failure [of q "{q}"]] assms(1,2) by (simp add: heldRequest_def)
  from answer_ok [OF this, of "attachContext q r" q] show ?thesis
    using assms(3) by (simp add: endStart_def StarterRefuses prod.case_eq_if)
qed (use assms(1) in \<open>simp add: endStart_def\<close>)

lemma endResume_ok:
  assumes "hostOk t" "case_option True heldRequest q" "\<And>r. answer = Some (StarterRefuses r) \<Longrightarrow> \<not> tuReady r"
  shows "hostOk (fst (snd (endResume cfg now answer stop q t)))"
proof -
  let ?q = "case_option emptyTunnelRequest id q"
  have Q: "q = None \<or> the q \<in> set_option q" "\<forall>x\<in>set_option q. heldRequest x" "heldRequest ?q"
    using assms(2) by (cases q; simp add: heldRequest_def)+
  show ?thesis
  proof (cases answer)
    case (Some a)
    show ?thesis
    proof (cases a)
      case (StarterReturns r)
      have "hostOk (fst (snd (finalizeResumed cfg now stop q r t)))"
        using keeps_ok [OF keeps_resumed [OF Q(1)] Q(2) assms(1)] .
      moreover have "requestOk ?q \<and> readyEvidence (tqMode ?q) (tuDataplane (fst (finalizeResumed cfg now stop q r t)))"
        if "tuReady (fst (finalizeResumed cfg now stop q r t))"
        using resumed_ready [OF that] assms(2) held_started by auto
      ultimately show ?thesis
        using answer_ok [of "fst (snd (finalizeResumed cfg now stop q r t))"
            "resumedContext q (fst (finalizeResumed cfg now stop q r t))" ?q]
        by (simp add: endResume_def Some StarterReturns prod.case_eq_if Let_def)
    next
      case (StarterRefuses r)
      have "hostOk (fst (finalizeResumedFailure cfg now stop (Some ?q) r t))"
        using keeps_ok [OF keeps_resumed_failure [of "Some ?q" "{?q}"]] Q(3) assms(1) by simp
      from answer_ok [OF this, of "attachContext ?q r" ?q] show ?thesis
        using assms(3) by (simp add: endResume_def Some StarterRefuses prod.case_eq_if Let_def)
    qed (use assms(1) in \<open>simp add: endResume_def Some Let_def\<close>)
  qed (use assms(1) in \<open>simp add: endResume_def Let_def\<close>)
qed

lemma beginStart_ok:
  assumes "hostOk t"
  shows "hostOk (fst (snd (beginStart cfg hash now q0 t))) \<and>
    (\<forall>q. fst (beginStart cfg hash now q0 t) = StartCalls q \<longrightarrow> requestOk q)"
proof (cases "normalizeTunnelRequest q0")
  case (Inr q)
  show ?thesis
  proof (cases "isKnownTunnelMode (tqMode q0)")
    case True
    obtain v t1 ts where v: "validateCompatForStartup cfg hash now q t = (v, t1, ts)" by (metis prod_cases3)
    have ok: "hostOk t1" using keeps_ok [OF keeps_compat [of "{}"]] assms v by (metis empty_iff fst_conv snd_conv)
    have answer: "hostOk (snd (answerResult now m q (attachContext q r) t1))" if "\<not> tuReady r" for m r
      using answer_ok [OF ok, of "attachContext q r"] that by simp
    have "\<not> tuReady r" if "v = Some r" for r
      using v that by (auto simp: validateCompatForStartup_def startupCompatFailure_def emptyResult_def Let_def
          split: if_splits option.splits prod.splits list.splits)
    moreover have "\<not> tuReady r" if "attachProfile q (thStore t1) = Inl r" for r
      using that by (auto simp: attachProfile_def emptyResult_def Let_def split: if_splits option.splits sum.splits)
    moreover have "requestOk q'" if "attachProfile q (thStore t1) = Inr q'" for q'
      using attach_request [OF that] request_profile begin_policies [OF Inr True] by auto
    ultimately show ?thesis
      using True Inr v ok answer
      by (auto simp: beginStart_def stepOf_def prod.case_eq_if split: option.split sum.split)
  qed (use assms Inr in \<open>simp add: beginStart_def\<close>)
qed (use assms in \<open>simp add: beginStart_def\<close>)

lemma take_ok:
  assumes "hostOk t"
  shows "hostOk (snd (takeAttempt a t)) \<and> case_option True heldRequest (fst (takeAttempt a t))"
  using assms by (fastforce simp: takeAttempt_def AList.delete_eq hostOk_def tunnelsOk_def attemptRequests_def
      split: option.split dest: map_of_SomeD)

lemma nth_ok: "list_all P xs \<Longrightarrow> i < length xs \<Longrightarrow> P (xs ! i)"
  by (simp add: list_all_length)

lemma stop_ok: "hostOk t \<Longrightarrow> hostOk (fst (snd (StopPlatformTunnel cfg now stop mode t)))"
  by (auto simp: StopPlatformTunnel_def Let_def onHost_def rememberStop_def clearAttempts_def hostOk_def tunnelsOk_def
      attemptRequests_def split: sum.split stopperAnswer.split)

lemma list_all_dropAt: "list_all P xs \<Longrightarrow> list_all P (dropAt i xs)"
  using set_dropAt by (fastforce simp: list_all_iff)

lemma tunnelDo_ok:
  assumes "tunnelsOk run" "refusesFairly a"
  shows "tunnelsOk (tunnelDo cfg hash run a)"
proof -
  obtain t ss rs where r: "run = (t, ss, rs)" by (metis prod_cases3)
  have ok: "hostOk t" "list_all requestOk ss" "list_all (case_option True heldRequest) rs" using assms(1) r ok_split by auto
  show ?thesis
  proof (cases a)
    case (ActStart now q)
    then show ?thesis
      using ok beginStart_ok [OF ok(1), of cfg hash now q] by (auto simp: r ok_split split: prod.split startStep.split)
  next
    case (ActStarted i now answer stop)
    with assms(2) have "\<And>x. answer = StarterRefuses x \<Longrightarrow> \<not> tuReady x" by simp
    then show ?thesis
      using ok endStart_ok [OF ok(1) nth_ok [OF ok(2)], of i answer] ActStarted by (simp add: r ok_split list_all_dropAt)
  next
    case (ActResume attempt)
    then show ?thesis
      using ok take_ok [OF ok(1)] by (auto simp: r ok_split beginResume_def prod.case_eq_if split: sum.split)
  next
    case (ActResumed i now answer stop)
    with assms(2) have "\<And>x. answer = Some (StarterRefuses x) \<Longrightarrow> \<not> tuReady x" by simp
    then show ?thesis
      using ok endResume_ok [OF ok(1) nth_ok [OF ok(3)], of i answer] ActResumed by (simp add: r ok_split list_all_dropAt)
  next
    case (ActStop now stop mode)
    then show ?thesis using ok stop_ok by (simp add: r ok_split)
  next
    case (ActOther h s)
    then show ?thesis using ok by (simp add: r ok_split) (simp add: hostOk_def tunnelsOk_def attemptRequests_def)
  qed
qed

lemma run_tunnels_ok: "tunnelsOk run \<Longrightarrow> list_all refusesFairly acts \<Longrightarrow> tunnelsOk (runTunnels cfg hash run acts)"
  by (induction acts arbitrary: run) (simp_all add: tunnelDo_ok)

lemma new_tunnels_ok: "tunnelsOk (newTunnels h s, [], [])"
  by (simp add: tunnelsOk_def newTunnels_def attemptRequests_def)

end
