(* ===== verification/PlatformSessions.thy ===== *)
theory PlatformSessions
  imports PlatformRuns CompatProperties
begin

text \<open>
  The sessions of platform tunnels: which of a mode are running after a tunnel has been stopped,
  cleaned up or published.
\<close>

definition runningTunnels :: "string \<Rightarrow> controlHost \<Rightarrow> string set" where
  "runningTunnels mode h = {sid. \<exists>l. sessV h sid = Some l \<and> slMode l = mode \<and> \<not> slEnded l}"

lemma stopMode_ends:
  assumes "stopMode mode v s = Some l" "slMode l = mode"
  shows "slEnded l"
proof -
  obtain z where z: "v s = Some z" using assms(1) by (cases "v s") (simp_all add: stopMode_def)
  then have "(if slMode z = mode \<and> \<not> slEnded z then z\<lparr>slDone := True, slEnded := True\<rparr> else z) = l"
    using assms(1) by (simp add: stopMode_def)
  then show ?thesis using assms(2) by (cases z; cases l) (simp split: if_splits)
qed

lemma running_stopped: "runningTunnels mode (fst (publishPlatformTunnelStop cfg now mode msg h)) = {}"
  by (auto simp: runningTunnels_def sessV_publishStop dest: stopMode_ends)

lemma cleanup_done:
  assumes "cleanupTunnel cfg now (StopperReturns m b) mode t = (t', ts)" "TrimSpace mode \<noteq> []"
  shows "runningTunnels mode (thHost t') = {} \<and> (\<forall>q\<in>attemptRequests t'. tqMode q \<noteq> mode)"
  using assms running_stopped [of mode cfg now "''stopped''" "thHost t"]
  by (auto simp: cleanupTunnel_def onHost_def clearAttempts_def attemptRequests_def)

lemma answer_frame [simp]:
  "thHost (snd (answerResult now mode q r t)) = thHost t"
  "attemptRequests (snd (answerResult now mode q r t)) = attemptRequests t"
  by (simp_all add: answerResult_def rememberResult_def attemptRequests_def)

section \<open>Publishing a session\<close>

lemma pick_sessions: "hoSessions (snd (pickSessionID cfg n h)) = hoSessions h"
  by (induction cfg n h rule: pickSessionID.induct) (simp_all add: drawSessionID_def)

lemma pickID_fresh:
  "fst (pickSessionID cfg n h) = Some sid \<Longrightarrow> theSession sid h = None \<and> TrimSpace sid = sid \<and> sid \<noteq> []"
proof (induction cfg n h rule: pickSessionID.induct)
  case (2 cfg n h)
  obtain drawn h1 where d: "drawSessionID cfg h = (drawn, h1)" by (metis surj_pair)
  then have s: "theSession x h1 = theSession x h" for x by (auto simp: drawSessionID_def theSession_def)
  show ?case
  proof (cases "TrimSpace drawn \<noteq> [] \<and> theSession (TrimSpace drawn) h1 = None")
    case True
    then have "sid = TrimSpace drawn" using 2(2) d by simp
    with True s show ?thesis by simp
  next
    case False
    then have "pickSessionID cfg (Suc n) h = pickSessionID cfg n h1" using d by auto
    then show ?thesis using 2(1) [OF d [symmetric] False] 2(2) s by simp
  qed
qed simp

text \<open>A session that carries a tunnel: of its mode, from its resolution, and ready.\<close>

definition readyTunnel :: "tunnelRequest \<Rightarrow> managedSession \<Rightarrow> bool" where
  "readyTunnel q m \<longleftrightarrow>
     mgPlatformMode m = tqMode q \<and> svState (mgView m) = SessionReady \<and> \<not> mgDone m \<and>
     svSourceResolutionID (mgView m) = tqResolutionID q"

lemma insert_ready:
  assumes "insertPlatformSession cfg sid st h = (h', ts)" "ssPlatformMode st = tqMode q" "ssSource st = tqResolutionID q"
  shows "\<exists>m. theSession sid h' = Some m \<and> readyTunnel q m"
  using assms
  by (auto simp: insertPlatformSession_def Let_def newManagedSession_def startView_def readyTunnel_def prod.case_eq_if)

lemma insert_running:
  assumes "insertPlatformSession cfg sid st h = (h', ts)" "ssPlatformMode st \<noteq> []"
  shows "runningTunnels (ssPlatformMode st) h' = {sid}"
proof -
  have "sessV h' = (stopMode (ssPlatformMode st) (sessV h))
      (sid \<mapsto> \<lparr>slMode = ssPlatformMode st, slDone = False, slEnded = False\<rparr>)"
    using sessV_insertSession [of cfg sid st h] assms by (simp add: insertSession_def)
  then show ?thesis by (auto simp: runningTunnels_def dest: stopMode_ends)
qed

text \<open>Publishing succeeds only from a live resolution, and its session is the only one of the mode.\<close>

lemma publish_session:
  assumes "publishTunnelSession cfg now q r h = (Some sid, h', ts)" "tqMode q \<noteq> []"
  shows "theSession sid h = None \<and> TrimSpace sid = sid \<and> sid \<noteq> [] \<and> (\<exists>m. theSession sid h' = Some m \<and> readyTunnel q m) \<and>
    runningTunnels (tqMode q) h' = {sid} \<and>
    (\<exists>n. theResolution (tqResolutionID q) h = Some n \<and> rvState (mrView n) = ResolutionResolved \<and>
      (\<forall>e. xsExpiresAt (rvExport (mrView n)) = Some e \<longrightarrow> now < e) \<and>
      resolutionSupportsAction (mrView n) ''start_on_this_device'')"
proof -
  obtain d spec h1 ts1 where d: "tqDefaults q = Some d"
    "materializedProfileSpec cfg now (tqResolutionID q) d h = (Inr spec, h1, ts1)"
    "\<exists>ts2. startTunnelSession cfg now (tqMode q) (tunnelProfileSpec spec r) (tqResolutionID q) h1 = (Some sid, h', ts2)"
    using assms(1) by (auto simp: publishTunnelSession_def split: option.splits if_splits prod.splits sum.splits)
  obtain n where n: "theResolution (tqResolutionID q) h = Some n"
    "materializedFrom cfg (mrView (fst (expireResolution cfg now n))) (mrSecret (fst (expireResolution cfg now n))) d = Inr spec"
    "hoSessions h1 = hoSessions h"
    using d(2) by (auto simp: materializedProfileSpec_def readResolution_def putResolution_def prod.case_eq_if split: option.splits)
  have v: "rvState (mrView (fst (expireResolution cfg now n))) = ResolutionResolved"
    "resolutionSupportsAction (mrView (fst (expireResolution cfg now n))) ''start_on_this_device''"
    using n(2) by (auto simp: materializedFrom_def split: if_splits)
  obtain h2 ts2 where p: "pickSessionID cfg 8 h1 = (Some sid, h2)"
    "insertPlatformSession cfg sid \<lparr>ssPlatformMode = tqMode q, ssProfileID = [], ssProfileName = [],
       ssSpec = tunnelProfileSpec spec r, ssSource = tqResolutionID q, ssStartedAt = now\<rparr> h2 = (h', ts2)"
    using d(3) by (auto simp: startTunnelSession_def split: option.splits prod.splits)
  have f: "theSession sid h1 = None \<and> TrimSpace sid = sid \<and> sid \<noteq> []" using pickID_fresh [of cfg 8 h1 sid] p(1) by simp
  then have "theSession sid h = None" using n(3) by (simp add: theSession_def)
  then show ?thesis
    using f insert_ready [OF p(2), of q] insert_running [OF p(2)] assms(2) n(1) v resolved_now [OF v(1)]
    by simp
qed

lemma publishReady_cases:
  assumes "publishReady cfg now stop q r t = (r', t', ts)"
  obtains sid h where "publishTunnelSession cfg now q r (thHost t) = (Some sid, h, ts)" "r' = r\<lparr>tuSessionID := sid\<rparr>"
      "t' = t\<lparr>thHost := h\<rparr>"
  | h ts1 ts2 where "publishTunnelSession cfg now q r (thHost t) = (None, h, ts1)" "\<not> tuReady r'" "tuStage r' = ''runtime_attach''"
      "cleanupTunnel cfg now stop (tqMode q) (t\<lparr>thHost := h\<rparr>) = (t', ts2)"
  using assms
  by (auto simp: publishReady_def publicationFailure_def emptyResult_def split: option.splits prod.splits)

section \<open>Failures\<close>

lemma answer_same:
  assumes "answerResult now mode q r t = (a, t')"
  shows "thHost t' = thHost t" "attemptRequests t' = attemptRequests t" "\<forall>r'. a = Inr r' \<longrightarrow> r' = r"
  using answer_frame [of now mode q r t] assms by (auto simp: answerResult_def split: if_splits)

lemma failed_finalize:
  assumes "if tuReady r then readyEvidence (tqMode q) (tuDataplane r) \<longrightarrow> fst (publishTunnelSession cfg now q r (thHost t)) = None
    else failureNeedsCleanup r"
  shows "\<exists>r1 t0 t1 ts1 ts2. finalizeStart cfg now stop q r t = (r1, t1, ts2) \<and> \<not> tuReady r1 \<and>
    cleanupTunnel cfg now stop (tqMode q) t0 = (t1, ts1)"
proof -
  have failure: "\<exists>t0 t1 ts1 ts2. finalizeFailure cfg now stop q x t = (t1, ts2) \<and> cleanupTunnel cfg now stop (tqMode q) t0 = (t1, ts1)"
    if "failureNeedsCleanup x" for x
    using that by (simp add: finalizeFailure_def Let_def) (metis surj_pair)
  consider "\<not> tuReady r" | "tuReady r" "\<not> readyEvidence (tqMode q) (tuDataplane r)"
    | "tuReady r" "readyEvidence (tqMode q) (tuDataplane r)" by blast
  then show ?thesis
  proof cases
    case 1
    then show ?thesis using failure [of r] assms by (auto simp: finalizeStart_def)
  next
    case 2
    then show ?thesis using failure [of "withoutEvidence r"] by (auto simp: finalizeStart_def withoutEvidence_def failureNeedsCleanup_def)
  next
    case 3
    then obtain r1 t1 ts where p: "publishReady cfg now stop q r t = (r1, t1, ts)" by (metis prod_cases3)
    then have "finalizeStart cfg now stop q r t = (r1, t1, ts)" using 3 by (simp add: finalizeStart_def)
    moreover have "\<not> tuReady r1 \<and> (\<exists>t0 ts1. cleanupTunnel cfg now stop (tqMode q) t0 = (t1, ts1))"
      using p assms 3 by (cases rule: publishReady_cases) auto
    ultimately show ?thesis by blast
  qed
qed

end
