(* ===== verification/PlatformProperties.thy ===== *)
theory PlatformProperties
  imports PlatformSessions
begin

text \<open>
  What clients rely on of the platform tunnels of a host: what is reported as a result, the session
  behind a tunnel that is ready, what a start that failed leaves, and what a start has checked.
\<close>

section \<open>Samples\<close>

definition tunnelDefaults :: runtimeDefaults where
  "tunnelDefaults =
     \<lparr>rdListenAddr = ''127.0.0.1:9000'', rdPeerAddr = ''10.0.0.2:9001'', rdIngress = AdapterUDP, rdConnections = 1,
      rdTURNServer = [], rdTURNPort = [], rdBindInterface = [], rdMode = ''udp'', rdUseDTLS = None, rdLogLevel = []\<rparr>"

definition linuxRequest :: tunnelRequest where
  "linuxRequest = emptyTunnelRequest\<lparr>tqResolutionID := ''r'', tqDefaults := Some tunnelDefaults, tqMode := ''linux_tun'',
     tqUnderlay := ''standard''\<rparr>"

definition seenTraffic :: dataplaneEvidence where
  "seenTraffic = \<lparr>dvHostAttached = True, dvHandshakeFresh = True, dvRxDelta = 1, dvTxDelta = 1, dvWintunDelta = 0,
     dvEgressIP = ''a'', dvExpectedEgressIP = [], dvVerified = True\<rparr>"

definition linuxReady :: tunnelResult where
  "linuxReady = emptyResult\<lparr>tuMode := ''linux_tun'', tuReady := True, tuDataplane := Some seenTraffic\<rparr>"

definition disabledStore :: transportStore where
  "disabledStore = openStore sampleStoreEnv False [] [] 0 None"

lemma sample_publish:
  "fst (publishTunnelSession bareConfig 7 linuxRequest linuxReady turnHost) = Some ''s''"
  by code_simp


definition linuxRun :: tunnelRun where
  "linuxRun = runTunnels bareConfig (\<lambda>t. t) (newTunnels turnHost disabledStore, [], [])
     [ActStart 7 linuxRequest, ActStarted 0 7 (StarterReturns linuxReady) NoStopper]"

lemma linux_begins:
  "fst (beginStart bareConfig (\<lambda>t. t) 7 linuxRequest (newTunnels turnHost disabledStore)) = StartCalls linuxRequest"
  by code_simp

lemma linux_request: "requestOk linuxRequest"
  by code_simp

lemma linux_mode: "tqMode linuxRequest = ''linux_tun''"
  by code_simp

definition linuxSilent :: tunnelResult where
  "linuxSilent = linuxReady\<lparr>tuDataplane := None\<rparr>"

lemma linux_silent: "tuReady linuxSilent" "\<not> readyEvidence (tqMode linuxRequest) (tuDataplane linuxSilent)"
  by code_simp+

definition linuxInvalid :: tunnelResult where
  "linuxInvalid = linuxReady\<lparr>tuMissing := ''permission''\<rparr>"

lemma linux_invalid:
  "fst (publishTunnelSession bareConfig 7 linuxRequest linuxInvalid turnHost) = Some ''s''" "tuReady linuxInvalid"
  "readyEvidence (tqMode linuxRequest) (tuDataplane linuxInvalid)"
  "\<not> validateTunnelStartResult (tqMode linuxRequest) (attachContext linuxRequest (linuxInvalid\<lparr>tuSessionID := ''s''\<rparr>))"
  by code_simp+

definition linuxAsks :: tunnelResult where
  "linuxAsks = emptyResult\<lparr>tuMode := ''linux_tun'', tuStage := ''permission_acquire'', tuMissing := ''permission'',
     tuAttemptID := ''a''\<rparr>"

lemma linux_asks: "TrimSpace (tuAttemptID linuxAsks) \<noteq> []" "\<not> failureNeedsCleanup linuxAsks" "tuReady linuxReady"
  "TrimSpace (tuMode linuxReady) \<noteq> []" "tuAttemptID linuxAsks = ''a''"
  by code_simp+

lemma linux_run: "case thResults (fst linuxRun) of [(m, q, r, at)] \<Rightarrow> m = ''linux_tun'' \<and> tuReady r | _ \<Rightarrow> False"
  by code_simp

lemma linux_ends:
  "case endStart bareConfig 7 (StarterReturns linuxReady) NoStopper linuxRequest (newTunnels turnHost disabledStore) of
     (Inr r, _, _) \<Rightarrow> tuReady r \<and> tuSessionID r = ''s'' | _ \<Rightarrow> False"
  by code_simp

section \<open>Properties\<close>

text \<open>
  C24: After any calls on a new host, each result it remembers is of the mode it is remembered for and
  is one a client is told of.  If it says ready it names its session, misses nothing, waits for no
  permission and, if the request it answers is for Windows Wintun or Linux tun, carries the evidence that
  the tunnel passes traffic; other modes need none, and a resume whose result is of another mode than its
  start is asked for the evidence of the start's.  If not it names the stage that failed and what is
  missing, and no session.  The platform must not report an error together with a result that says ready.
\<close>
theorem tunnel_results_sound:
  assumes "list_all refusesFairly acts"
    "(mode, q, r, at) \<in> set (thResults (fst (runTunnels cfg hash (newTunnels h s, [], []) acts)))"
  shows "tuMode r = mode \<and> isKnownTunnelMode mode \<and>
    (if tuReady r
     then TrimSpace (tuSessionID r) \<noteq> [] \<and> TrimSpace (tuMissing r) = [] \<and> TrimSpace (tuAttemptID r) = [] \<and>
       isKnownTunnelMode (tqMode q) \<and> (tqMode q \<in> {''windows_wintun'', ''linux_tun''} \<longrightarrow> completeEvidence (tuDataplane r))
     else TrimSpace (tuSessionID r) = [] \<and> isKnownStartupStage (tuStage r) \<and> isKnownPrerequisite (tuMissing r))"
proof -
  have "tunnelsOk (runTunnels cfg hash (newTunnels h s, [], []) acts)"
    using run_tunnels_ok [OF new_tunnels_ok assms(1)] .
  then have "soundResult (mode, q, r, at)"
    using assms(2) by (auto simp: tunnelsOk_def split: prod.splits)
  then show ?thesis
    by (auto simp: soundResult_def requestOk_def validateTunnelStartResult_def readyEvidence_def split: if_splits)
qed

theorem tunnel_results_sound_witness:
  "\<exists>q r at. thResults (fst linuxRun) = [(''linux_tun'', q, r, at)] \<and> tuReady r \<and> TrimSpace (tuSessionID r) \<noteq> []"
proof -
  obtain q r at where e: "thResults (fst linuxRun) = [(''linux_tun'', q, r, at)]" "tuReady r"
    using linux_run by (auto split: list.splits prod.splits)
  then have "(''linux_tun'', q, r, at) \<in> set (thResults (fst linuxRun))" by simp
  from tunnel_results_sound [OF _ this [unfolded linuxRun_def]] e show ?thesis by simp
qed

text \<open>
  C25: A start that says ready has published a session: it was not there before, it is of the mode and
  the resolution of the request and ready, and it is the only one of the mode that runs.  The resolution
  was resolved, had not expired and could be started on this device, and the host remembers the result.
\<close>
theorem started_tunnel_has_session:
  assumes "requestOk q" "endStart cfg now (StarterReturns r0) stop q t = (Inr r, t', ts)" "tuReady r"
  shows "theSession (tuSessionID r) (thHost t) = None \<and>
    (\<exists>m. theSession (tuSessionID r) (thHost t') = Some m \<and> readyTunnel q m) \<and>
    runningTunnels (tqMode q) (thHost t') = {tuSessionID r} \<and>
    (\<exists>n. theResolution (tqResolutionID q) (thHost t) = Some n \<and> rvState (mrView n) = ResolutionResolved \<and>
      (\<forall>e. xsExpiresAt (rvExport (mrView n)) = Some e \<longrightarrow> now < e) \<and>
      resolutionSupportsAction (mrView n) ''start_on_this_device'') \<and>
    map_of (thResults t') (tqMode q) = Some (q, r, now)"
proof -
  have mode: "tqMode q \<noteq> []" using assms(1) clean_same(2) [OF mode_known] by (simp add: requestOk_def)
  obtain r1 t1 ts1 where f: "finalizeStart cfg now stop q r0 t = (r1, t1, ts1)" by (metis prod_cases3)
  have a: "answerResult now (tqMode q) q (attachContext q r1) t1 = (Inr r, t')"
    using assms(2) f by (auto simp: endStart_def split: prod.splits)
  have r: "r = attachContext q r1" "tuMode r = tqMode q" "t' = rememberResult now q r t1"
    using a by (auto simp: answerResult_def validateTunnelStartResult_def split: if_splits)
  have "publishReady cfg now stop q r0 t = (r1, t1, ts1)"
    using f assms(3) r(1) by (auto simp: finalizeStart_def withoutEvidence_def split: if_splits)
  then show ?thesis
  proof (cases rule: publishReady_cases)
    case (1 sid h)
    have "tuSessionID r = sid" "thHost t' = h" using 1(2,3) r(1,3) by (simp_all add: rememberResult_def)
    moreover have "map_of (thResults t') (tqMode q) = Some (q, r, now)"
      using r(2,3) mode by (simp add: rememberResult_def update_conv)
    ultimately show ?thesis using publish_session [OF 1(1) mode] by simp
  next
    case (2 h ts1 ts2)
    then show ?thesis using assms(3) r(1) by simp
  qed
qed

theorem started_tunnel_has_session_witness:
  "case endStart bareConfig 7 (StarterReturns linuxReady) NoStopper linuxRequest (newTunnels turnHost disabledStore) of
     (Inr r, t', _) \<Rightarrow> tuSessionID r = ''s'' \<and> runningTunnels ''linux_tun'' (thHost t') = {''s''} | _ \<Rightarrow> False"
proof -
  obtain r t' ts where e: "endStart bareConfig 7 (StarterReturns linuxReady) NoStopper linuxRequest (newTunnels turnHost disabledStore) =
      (Inr r, t', ts)" "tuReady r" "tuSessionID r = ''s''"
    using linux_ends by (auto split: prod.splits sum.splits)
  have "runningTunnels (tqMode linuxRequest) (thHost t') = {tuSessionID r}"
    using started_tunnel_has_session [OF linux_request e(1,2)] by blast
  then show ?thesis using e(3) unfolding e(1) linux_mode by simp
qed

text \<open>
  C26: When a start fails at a stage that may have brought something up, or says ready without the
  evidence its mode needs, or its session cannot be published, and the platform can be stopped, then
  no session of the mode runs afterwards, no start of the mode waits for a permission any more, and
  the caller is not told that it is ready.
\<close>
theorem failed_start_leaves_nothing:
  assumes "requestOk q" "endStart cfg now answer (StopperReturns m b) q t = (a, t', ts)"
    "case answer of
       StarterFails \<Rightarrow> False
     | StarterRefuses r \<Rightarrow> failureNeedsCleanup r
     | StarterReturns r \<Rightarrow>
         if tuReady r then readyEvidence (tqMode q) (tuDataplane r) \<longrightarrow> fst (publishTunnelSession cfg now q r (thHost t)) = None
         else failureNeedsCleanup r"
  shows "runningTunnels (tqMode q) (thHost t') = {} \<and> (\<forall>q'\<in>attemptRequests t'. tqMode q' \<noteq> tqMode q) \<and>
    (\<forall>r. a = Inr r \<longrightarrow> \<not> tuReady r)"
proof -
  have mode: "TrimSpace (tqMode q) \<noteq> []" using assms(1) clean_same [OF mode_known] by (simp add: requestOk_def)
  obtain t0 t1 ts1 where c: "cleanupTunnel cfg now (StopperReturns m b) (tqMode q) t0 = (t1, ts1)"
    "thHost t' = thHost t1" "attemptRequests t' = attemptRequests t1" "\<forall>r. a = Inr r \<longrightarrow> \<not> tuReady r"
  proof (cases answer)
    case (StarterRefuses r)
    let ?t = "rememberAttempt (tuAttemptID r) q t"
    obtain t1 ts1 where k: "cleanupTunnel cfg now (StopperReturns m b) (tqMode q) ?t = (t1, ts1)" by (metis surj_pair)
    obtain a1 where "answerResult now (tqMode q) q (attachContext q r) t1 = (a1, t')"
      "a = (case a1 of Inl e \<Rightarrow> Inl e | Inr r' \<Rightarrow> Inl (StartFailed r'))"
      using assms(2,3) k by (auto simp: StarterRefuses endStart_def finalizeFailure_def Let_def split: prod.splits)
    then show thesis using that [OF k] answer_same by (auto split: sum.splits)
  next
    case (StarterReturns r)
    then have "if tuReady r then readyEvidence (tqMode q) (tuDataplane r) \<longrightarrow> fst (publishTunnelSession cfg now q r (thHost t)) = None
      else failureNeedsCleanup r" using assms(3) by simp
    then obtain r1 t0 t1 ts1 ts2 where f: "finalizeStart cfg now (StopperReturns m b) q r t = (r1, t1, ts2)" "\<not> tuReady r1"
      "cleanupTunnel cfg now (StopperReturns m b) (tqMode q) t0 = (t1, ts1)"
      using failed_finalize [of r q cfg now t "StopperReturns m b"] by blast
    have a: "answerResult now (tqMode q) q (attachContext q r1) t1 = (a, t')"
      using f(1) assms(2) by (auto simp: StarterReturns endStart_def split: prod.splits)
    have "\<forall>r. a = Inr r \<longrightarrow> \<not> tuReady r" using answer_same(3) [OF a] f(2) attach_fields(1) by metis
    from that [OF f(3) answer_same(1,2) [OF a] this] show thesis .
  qed (use assms(3) in simp)
  show ?thesis using cleanup_done [OF c(1) mode] c(2-4) by simp
qed

theorem failed_start_leaves_nothing_witness:
  "case endStart bareConfig 7 (StarterReturns linuxSilent) (StopperReturns [] False) linuxRequest
      (newTunnels turnHost disabledStore) of
     (a, t', _) \<Rightarrow> runningTunnels ''linux_tun'' (thHost t') = {} \<and> (\<forall>r. a = Inr r \<longrightarrow> \<not> tuReady r)"
proof -
  obtain a t' ts where e: "endStart bareConfig 7 (StarterReturns linuxSilent) (StopperReturns [] False) linuxRequest
      (newTunnels turnHost disabledStore) = (a, t', ts)" by (metis prod_cases3)
  have "runningTunnels (tqMode linuxRequest) (thHost t') = {} \<and> (\<forall>r. a = Inr r \<longrightarrow> \<not> tuReady r)"
    using failed_start_leaves_nothing [OF linux_request e] linux_silent by simp
  then show ?thesis unfolding e linux_mode by simp
qed

text \<open>
  A result that says ready is published as a session before it is checked: if it is then found
  to be invalid, the caller gets an error and the result is not remembered, but the new session is
  there, ready, and the only one of the mode that runs.
\<close>
theorem invalid_ready_result_keeps_session:
  assumes "requestOk q" "tuReady r" "readyEvidence (tqMode q) (tuDataplane r)"
    "publishTunnelSession cfg now q r (thHost t) = (Some sid, h, ts)"
    "\<not> validateTunnelStartResult (tqMode q) (attachContext q (r\<lparr>tuSessionID := sid\<rparr>))"
  shows "endStart cfg now (StarterReturns r) stop q t = (Inl StartResultInvalid, t\<lparr>thHost := h\<rparr>, ts) \<and>
    (\<exists>m. theSession sid h = Some m \<and> readyTunnel q m) \<and> runningTunnels (tqMode q) h = {sid}"
proof -
  have "tqMode q \<noteq> []" using assms(1) clean_same [OF mode_known] by (simp add: requestOk_def)
  then show ?thesis
    using publish_session [OF assms(4)] assms(2-5)
    by (simp add: endStart_def finalizeStart_def publishReady_def answerResult_def)
qed

theorem invalid_ready_result_keeps_session_witness:
  "case endStart bareConfig 7 (StarterReturns linuxInvalid) NoStopper linuxRequest (newTunnels turnHost disabledStore) of
     (a, t', _) \<Rightarrow> a = Inl StartResultInvalid \<and> runningTunnels ''linux_tun'' (thHost t') = {''s''}"
proof -
  let ?t = "newTunnels turnHost disabledStore"
  have h: "thHost ?t = turnHost" by (simp add: newTunnels_def)
  obtain h ts where p: "publishTunnelSession bareConfig 7 linuxRequest linuxInvalid (thHost ?t) = (Some ''s'', h, ts)"
    using linux_invalid(1) unfolding h by (metis prod.collapse)
  note i = invalid_ready_result_keeps_session [OF linux_request linux_invalid(2,3) p linux_invalid(4), of NoStopper]
  have e: "endStart bareConfig 7 (StarterReturns linuxInvalid) NoStopper linuxRequest ?t = (Inl StartResultInvalid, ?t\<lparr>thHost := h\<rparr>, ts)"
    and r: "runningTunnels ''linux_tun'' h = {''s''}"
    using i unfolding linux_mode by blast+
  show ?thesis unfolding e using r by simp
qed

text \<open>
  C27: A resumer that answers an attempt the host does not know with an error that waits for a permission
  leaves an empty request for that attempt.  When it is then resumed and the tunnel is ready, the host
  takes that request for the start's: it publishes nothing and stops nothing, although it stops the
  tunnel of an attempt it does not know.
\<close>
theorem unknown_resume_is_not_cleaned_up:
  fixes later :: instant and m :: string and b :: bool
  assumes "endResume cfg now (Some (StarterRefuses r)) stop None t = (a, t1, ts)" "TrimSpace (tuAttemptID r) \<noteq> []"
    "\<not> failureNeedsCleanup r" "tuReady r2" "TrimSpace (tuMode r2) \<noteq> []"
  defines "resumed \<equiv> \<lambda>q t. fst (snd (endResume cfg later (Some (StarterReturns r2)) (StopperReturns m b) q t))"
  shows "fst (takeAttempt (tuAttemptID r) t1) = Some emptyTunnelRequest \<and>
    thHost (resumed (Some emptyTunnelRequest) t2) = thHost t2 \<and>
    runningTunnels (tuMode r2) (thHost (resumed None t2)) = {}"
proof -
  obtain a1 where "answerResult now (tuMode (attachContext emptyTunnelRequest r)) emptyTunnelRequest
      (attachContext emptyTunnelRequest r) (rememberAttempt (tuAttemptID r) emptyTunnelRequest t) = (a1, t1)"
    using assms(1,3) by (auto simp: endResume_def finalizeResumedFailure_def Let_def split: prod.splits)
  then have "thAttempts t1 = thAttempts (rememberAttempt (tuAttemptID r) emptyTunnelRequest t)"
    by (auto simp: answerResult_def rememberResult_def split: if_splits)
  then have take: "fst (takeAttempt (tuAttemptID r) t1) = Some emptyTunnelRequest"
    using assms(2) by (simp add: takeAttempt_def rememberAttempt_def update_conv)
  have empty: "thHost (resumed (Some emptyTunnelRequest) t2) = thHost t2"
    using assms(4) by (simp add: resumed_def endResume_def finalizeResumed_def readyEvidence_def publishReady_def
        publishTunnelSession_def publicationFailure_def cleanupTunnel_def emptyTunnelRequest_def Let_def prod.case_eq_if)
  obtain t3 ts3 where k: "cleanupTunnel cfg later (StopperReturns m b) (tuMode r2) t2 = (t3, ts3)" by (metis surj_pair)
  then have "thHost (resumed None t2) = thHost t3"
    using assms(4) by (simp add: resumed_def endResume_def finalizeResumed_def publicationFailure_def Let_def prod.case_eq_if)
  with take empty cleanup_done [OF k assms(5)] show ?thesis by simp
qed

theorem unknown_resume_is_not_cleaned_up_witness:
  "fst (takeAttempt ''a'' (fst (snd (endResume bareConfig 7 (Some (StarterRefuses linuxAsks)) NoStopper None
     (newTunnels turnHost disabledStore))))) = Some emptyTunnelRequest"
proof -
  obtain a t1 ts where e: "endResume bareConfig 7 (Some (StarterRefuses linuxAsks)) NoStopper None (newTunnels turnHost disabledStore) =
      (a, t1, ts)" by (metis prod_cases3)
  have "fst (takeAttempt (tuAttemptID linuxAsks) t1) = Some emptyTunnelRequest"
    using unknown_resume_is_not_cleaned_up [OF e linux_asks(1,2) linux_asks(3,4)] by blast
  then show ?thesis unfolding e linux_asks(5) by simp
qed

section \<open>The starter of a host without tunnels\<close>

lemma select_in:
  assumes "selectPlatformTunnelExecutionPlanDescriptor ds requested = Inr d"
  shows "d \<in> set ds"
  using assms by (auto simp: selectPlatformTunnelExecutionPlanDescriptor_def find_Some_iff split: if_splits option.splits list.splits)

lemma prerequisite_known: "isKnownPrerequisite p \<Longrightarrow> cleanText p"
  unfolding isKnownPrerequisite_def cleanText_def by (elim insertE emptyE) (simp_all add: TrimSpace_plain go_spaces_def)

lemma underlay_result: "normalizeUnderlay f x = Inr q \<Longrightarrow> isKnownUnderlayPolicy (tqUnderlay q)"
  by (auto simp: normalizeUnderlay_def Let_def split: if_splits)

lemma request_underlay:
  assumes "requestOk q" "TrimSpace (tqUnderlay q) \<noteq> []"
  shows "isKnownUnderlayPolicy (tqUnderlay q)"
proof -
  have n: "normalizePolicies q = Inr q" using assms(1) by (simp add: requestOk_def)
  consider "tqMode q \<notin> {''android_vpn_service'', ''windows_wintun'', ''linux_tun''}"
    | "tqMode q \<in> {''windows_wintun'', ''linux_tun''}" | "tqMode q = ''android_vpn_service''" by blast
  then show ?thesis
  proof cases
    case 1
    then show ?thesis using policies_other [of q q] n assms(2) by blast
  next
    case 2
    then have "normalizeUnderlay ''preserve_active_local_network'' q = Inr q" using policies_desktop [of q q] n by blast
    then show ?thesis by (rule underlay_result)
  next
    case 3
    then have "normalizeUnderlay ''standard'' (withAppDefaults q) = Inr q" using policies_android [of q q] n by blast
    then show ?thesis by (rule underlay_result)
  qed
qed

lemma capability_missing:
  "validateTunnelCapability c \<Longrightarrow> isKnownPrerequisite (pcMissing c) \<longleftrightarrow> \<not> pcAvailable c"
  using prerequisite_known clean_same by (auto simp: validateTunnelCapability_def Let_def split: if_splits)

lemma capability_plan:
  assumes "validateTunnelCapability c" "d \<in> set (pcPlans c)"
  shows "validateRuntimeExecutionPlan (xdPlan d) = None"
proof -
  have "pcPlans c \<noteq> []" using assms(2) by auto
  then have "validateRuntimeExecutionPlanDescriptor d = None"
    using assms by (auto simp: validateTunnelCapability_def Let_def list_all_iff)
  then show ?thesis by (simp add: validateRuntimeExecutionPlanDescriptor_def split: option.splits)
qed

text \<open>The results that start nothing, and when they are valid.\<close>

definition idleResult :: "tunnelRequest \<Rightarrow> executionPlan option \<Rightarrow> string \<Rightarrow> string \<Rightarrow> tunnelResult" where
  "idleResult q x st ms =
     emptyResult\<lparr>tuMode := tqMode q, tuPlan := x, tuStage := st, tuMissing := ms, tuUnderlay := tqUnderlay q\<rparr>"

lemma starter_idle:
  "defaultTunnelStarter cs q =
     (let none = idleResult q (tqPlan q) ''capability_check'' ''host_implementation'' in
      case find (\<lambda>c. pcMode c = tqMode q) cs of
        None \<Rightarrow> none
      | Some c \<Rightarrow>
          (case selectPlatformTunnelExecutionPlanDescriptor (pcPlans c) (tqPlan q) of
             Inl _ \<Rightarrow> none
           | Inr d \<Rightarrow>
               if \<not> isSupported d \<or> \<not> pcAvailable c then idleResult q (Some (xdPlan d)) ''capability_check'' (pcMissing c)
               else idleResult q (Some (xdPlan d)) ''host_bringup'' ''host_implementation''))"
  by (simp add: defaultTunnelStarter_def idleResult_def emptyResult_def Let_def split: option.split sum.split)

lemma idle_result:
  assumes "requestOk q" "isKnownStartupStage st"
  shows "validateTunnelStartResult (tqMode q) (attachContext q (idleResult q x st ms)) \<longleftrightarrow>
    isKnownPrerequisite ms \<and>
    (case (case x of None \<Rightarrow> tqPlan q | Some p \<Rightarrow> Some p) of None \<Rightarrow> True | Some p \<Rightarrow> validateRuntimeExecutionPlan p = None)"
  using assms request_underlay [OF assms(1)] clean_same [OF prerequisite_known, of ms] clean_same [OF mode_known, of "tqMode q"]
  by (auto simp: validateTunnelStartResult_def attachContext_def idleResult_def emptyResult_def requestOk_def split: option.split)

lemma known_words [simp]:
  "isKnownStartupStage ''capability_check''" "isKnownStartupStage ''host_bringup''" "isKnownPrerequisite ''host_implementation''"
  by (simp_all add: isKnownStartupStage_def isKnownPrerequisite_def)

definition offeredOnly :: tunnelCapability where
  "offeredOnly =
     \<lparr>pcMode = ''linux_tun'', pcAvailable = True, pcSatisfied = [''driver''], pcUnderlayPolicies = [],
      pcPlans = List.map (\<lambda>d. d\<lparr>xdSupportState := ''unavailable''\<rparr>)
        (defaultPlansForTunnel (hd (defaultTunnelCapabilities ''linux'' []))), pcMissing = []\<rparr>"

lemma offered_valid:
  "list_all validateTunnelCapability (defaultTunnelCapabilities ''linux'' [])" "list_all validateTunnelCapability [offeredOnly]"
  by code_simp+

definition selectedOf :: "tunnelCapability list \<Rightarrow> tunnelRequest \<Rightarrow> (tunnelCapability \<times> planDescriptor) option" where
  "selectedOf cs q =
     (case find (\<lambda>c. pcMode c = tqMode q) cs of
        None \<Rightarrow> None
      | Some c \<Rightarrow>
          (case selectPlatformTunnelExecutionPlanDescriptor (pcPlans c) (tqPlan q) of
             Inl _ \<Rightarrow> None | Inr d \<Rightarrow> Some (c, d)))"

lemma offered_selects:
  "case selectedOf (defaultTunnelCapabilities ''linux'' []) linuxRequest of
     None \<Rightarrow> tqPlan linuxRequest = None | Some (c, d) \<Rightarrow> isSupported d \<or> \<not> pcAvailable c"
  "case selectedOf [offeredOnly] linuxRequest of None \<Rightarrow> False | Some (c, d) \<Rightarrow> \<not> (isSupported d \<or> \<not> pcAvailable c)"
  by code_simp+

text \<open>
  On a host that only documents its tunnels, a start gets a result exactly if the plan that is
  selected is supported or its capability is unavailable, and if no plan is selected, exactly if the one
  requested is valid.  So a plan that an available capability offers as experimental or unavailable
  makes the start fail with an internal error instead of a result.
\<close>
theorem default_start_result:
  assumes "list_all validateTunnelCapability cs" "requestOk q"
  shows "validateTunnelStartResult (tqMode q) (attachContext q (defaultTunnelStarter cs q)) \<longleftrightarrow>
    (case selectedOf cs q of
       None \<Rightarrow> (case tqPlan q of None \<Rightarrow> True | Some p \<Rightarrow> validateRuntimeExecutionPlan p = None)
     | Some (c, d) \<Rightarrow> isSupported d \<or> \<not> pcAvailable c)"
proof (cases "find (\<lambda>c. pcMode c = tqMode q) cs")
  case None
  then show ?thesis using idle_result [OF assms(2)] by (simp add: starter_idle selectedOf_def Let_def split: option.split)
next
  case (Some c)
  have "c \<in> set cs" using Some by (auto simp: find_Some_iff)
  then have c: "validateTunnelCapability c" using assms(1) by (auto simp: list_all_iff)
  show ?thesis
  proof (cases "selectPlatformTunnelExecutionPlanDescriptor (pcPlans c) (tqPlan q)")
    case (Inl e)
    then show ?thesis using Some idle_result [OF assms(2)] by (simp add: starter_idle selectedOf_def Let_def split: option.split)
  next
    case (Inr d)
    have d: "d \<in> set (pcPlans c)" by (rule select_in [OF Inr])
    have a: "isSupported d \<Longrightarrow> pcAvailable c"
      using c d by (auto simp: validateTunnelCapability_def Let_def list_all_iff split: if_splits)
    show ?thesis
      using Some Inr a idle_result [OF assms(2)] capability_missing [OF c] capability_plan [OF c d]
      by (auto simp: starter_idle selectedOf_def Let_def)
  qed
qed

theorem default_start_result_witness:
  "validateTunnelStartResult ''linux_tun''
     (attachContext linuxRequest (defaultTunnelStarter (defaultTunnelCapabilities ''linux'' []) linuxRequest)) \<and>
   \<not> validateTunnelStartResult ''linux_tun'' (attachContext linuxRequest (defaultTunnelStarter [offeredOnly] linuxRequest))"
proof -
  note d = default_start_result [OF _ linux_request, unfolded linux_mode]
  show ?thesis
    using d [OF offered_valid(1)] d [OF offered_valid(2)] offered_selects by (simp split: option.splits prod.splits)
qed

end
