(* ===== verification/PlatformStartup.thy ===== *)
theory PlatformStartup
  imports PlatformSessions
begin

text \<open>
  What the calls of a platform's starter rest on: the check of a startup against the candidates of
  \<^verbatim>\<open>provider_transport_compatibility.go\<close> and the profile that is attached to the request.
\<close>

section \<open>The check of a startup\<close>

lemma compat_store: "validateCompatForStartup cfg hash now q t = (v, t1, ts) \<Longrightarrow> thStore t1 = thStore t"
  by (auto simp: validateCompatForStartup_def Let_def split: if_splits option.splits prod.splits list.splits)

lemma startable_head:
  assumes "c \<in> set (fst (ProviderTransportCompatibilityCandidates env hash s now q h))" "candidateStartable c"
  shows "ccStartable c"
  using candidates_judged [OF assms(1)] assms(2) by (auto simp: judged_def failing_def candidateStartable_def split: if_splits)

text \<open>A start that is not exempt goes on only with a candidate that is startable.\<close>

lemma startup_checked:
  assumes "validateCompatForStartup cfg hash now q t = (None, t1, ts)" "\<not> startupExempt (thStore t) q"
  obtains p ref c where "TrimSpace (tqResolutionID q) \<noteq> []" "tqPlan q = Some p" "tqProfile q = Some ref"
    "TrimSpace (rfProfileID ref) \<noteq> []" "ccStartable c"
    "c \<in> set (fst (ProviderTransportCompatibilityCandidates cfg hash (thStore t) now (startupCompatRequest q) (thHost t)))"
proof -
  obtain c cs h ts1 where c: "ProviderTransportCompatibilityCandidates cfg hash (thStore t) now (startupCompatRequest q) (thHost t) =
      (c # cs, h, ts1)" "candidateStartable c"
    and q: "TrimSpace (tqResolutionID q) \<noteq> []" "tqPlan q \<noteq> None"
      "\<exists>ref. tqProfile q = Some ref \<and> TrimSpace (rfProfileID ref) \<noteq> []"
    using assms by (auto simp: validateCompatForStartup_def Let_def split: if_splits option.splits prod.splits list.splits)
  then have "c \<in> set (fst (ProviderTransportCompatibilityCandidates cfg hash (thStore t) now (startupCompatRequest q) (thHost t)))"
    by simp
  from that [OF q(1) _ _ _ startable_head [OF this c(2)] this] q(2,3) show thesis by blast
qed

lemma startup_request [simp]:
  "cqPlan (startupCompatRequest q) = tqPlan q" "cqProfile (startupCompatRequest q) = tqProfile q"
  "cqAllowDegraded (startupCompatRequest q) = False" "cqResolutionID (startupCompatRequest q) = tqResolutionID q"
  by (simp_all add: startupCompatRequest_def Let_def split: option.split)

lemma normal_request [simp]:
  "cqPlan (normalizeCompatRequest q) = cqPlan q" "cqProfile (normalizeCompatRequest q) = cqProfile q"
  "cqAllowDegraded (normalizeCompatRequest q) = cqAllowDegraded q"
  by (simp_all add: normalizeCompatRequest_def)

lemma startup_resolution:
  "TrimSpace (tqResolutionID q) \<noteq> [] \<Longrightarrow>
   compatResolutionID (normalizeCompatRequest (startupCompatRequest q)) = TrimSpace (tqResolutionID q)"
  by (simp add: compatResolutionID_def normalizeCompatRequest_def)

lemma profileVerdict_named:
  assumes "profileVerdict s q p kinds = (st, Inr r)" "cqProfile q = Some ref" "TrimSpace (rfProfileID ref) \<noteq> []"
  shows "validateTransportProfileRef s ref p kinds = Inr r \<and> rfProfileID r = TrimSpace (rfProfileID ref)"
  using assms by (auto simp: profileVerdict_def validateTransportProfileRef_def Let_def split: if_splits sum.splits option.splits)

text \<open>The profile that is attached is the one the request names.\<close>

lemma attach_named:
  assumes "attachProfile q s = Inr q'" "tqProfile q = Some ref" "TrimSpace (rfProfileID ref) \<noteq> []"
  shows "\<exists>ref'. tqProfile q' = Some ref' \<and> TrimSpace (rfProfileID ref') = TrimSpace (rfProfileID ref) \<and> tqPlan q' = tqPlan q"
proof -
  have "\<exists>r'. x = Some r' \<and> rfProfileID r' = TrimSpace (rfProfileID ref)"
    if "resolveTransportProfileForStartup s (Some ref) p kinds = Inr x" "kinds \<noteq> []" for x p kinds
    using that assms(3)
    by (auto simp: resolveTransportProfileForStartup_def validateTransportProfileRef_def Let_def split: if_splits option.splits)
  then show ?thesis
    using assms by (auto simp: attachProfile_def Let_def split: if_splits option.splits sum.splits) fastforce+
qed

section \<open>The sample\<close>

definition offeredRequest :: tunnelRequest where
  "offeredRequest = emptyTunnelRequest\<lparr>tqResolutionID := ''r'', tqMode := ''linux_tun'', tqPlan := Some samplePlan,
     tqProfile := Some \<lparr>rfProfileID = ''i'', rfKind = [], rfUseDefault = False, rfDefaultScopeID = []\<rparr>,
     tqUnderlay := ''standard'',
     tqCompat := Some \<lparr>suCandidateID = [], suSource = Some \<lparr>soProviderID = [], soSourceID = [], soResolutionID = ''r''\<rparr>,
       suArtifact = Some \<lparr>afProviderID = [], afResolutionID = ''r'', afFamily = ''generic_turn'',
         afAccessMethods = [''turn_credentials''], afExpiresAt = None\<rparr>,
       suPlan = None, suProfile = None\<rparr>\<rparr>"

lemma offered_normal: "normalizeTunnelRequest offeredRequest = Inr offeredRequest"
  by code_simp

definition offeredTunnels :: tunnelHost where
  "offeredTunnels = newTunnels turnHost (sampleStored sampleWireGuard)"

lemma offered_simps [simp]: "thStore offeredTunnels = sampleStored sampleWireGuard" "thHost offeredTunnels = turnHost"
  by (simp_all add: offeredTunnels_def newTunnels_def)

lemma offered_verdict:
  "resolutionVerdict 7 (normalizeCompatRequest (startupCompatRequest offeredRequest)) turnView = None"
  "artifactSupports (Some (artifactFor (normalizeCompatRequest (startupCompatRequest offeredRequest)) turnView)) ''turn_credentials''"
  "startPlans turnView (cqPlan (startupCompatRequest offeredRequest)) = pcPlans sampleTunnel"
  "compatResolutionID (normalizeCompatRequest (startupCompatRequest offeredRequest)) = ''r''"
  by code_simp+

lemma offered_reference:
  "startupReferenceFailure offeredRequest = None" "TrimSpace (tqResolutionID offeredRequest) = ''r''" "tqPlan offeredRequest = Some samplePlan"
  "tqProfile offeredRequest = Some \<lparr>rfProfileID = ''i'', rfKind = [], rfUseDefault = False, rfDefaultScopeID = []\<rparr>"
  "tqCompat offeredRequest \<noteq> None" "tqMode offeredRequest = ''linux_tun''" "pcMode sampleTunnel = ''m''"
  "isKnownTunnelMode (tqMode offeredRequest)"
  by code_simp+

lemma offered_fields: "\<not> cqRequireEvidence (normalizeCompatRequest (startupCompatRequest offeredRequest))"
  by code_simp

lemma offered_candidate:
  assumes "d \<in> set (pcPlans sampleTunnel)"
  shows "ccStartable (candidateForDescriptor hash (sampleStored sampleWireGuard)
    (normalizeCompatRequest (startupCompatRequest offeredRequest)) source
    (artifactFor (normalizeCompatRequest (startupCompatRequest offeredRequest)) turnView) d)"
proof -
  let ?q = "normalizeCompatRequest (startupCompatRequest offeredRequest)"
  let ?ref = "\<lparr>rfProfileID = ''i'', rfKind = [], rfUseDefault = False, rfDefaultScopeID = []\<rparr>"
  have k: "requiredKindsOf (sampleStored sampleWireGuard) d = [wireGuardKind]" and p: "xdPlan d = samplePlan"
    and u: "xdSupportState d = ''supported''"
    using assms by (auto simp: requiredKindsOf_def requiredKindsForPlan_def requiredTransportProfileKindsForPlan_def sampleTunnel_def)
  have v: "planVerdict ?q (Some (artifactFor ?q turnView)) d = None"
    using offered_verdict(2) offered_fields
    by (simp add: planVerdict_def p u samplePlan_def isKnownRuntimeCarrierFamily_def isKnownRuntimeEngineFamily_def
        isKnownRuntimeHostAdapter_def)
  obtain r where "validateTransportProfileRef (sampleStored sampleWireGuard) ?ref samplePlan [wireGuardKind] = Inr r"
    using sample_ref [of ?ref] by auto
  then have "profileVerdict (sampleStored sampleWireGuard) ?q samplePlan [wireGuardKind] = (Some (selectedPrerequisite [wireGuardKind] r), Inr r)"
    by (simp add: profileVerdict_def offered_reference(4))
  then show ?thesis using v by (simp add: candidateForDescriptor_def k p Let_def candidateStartable_def)
qed

lemma offered_startable: "\<not> startupExempt (sampleStored sampleWireGuard) offeredRequest"
  using offered_reference(2-5) by (simp add: startupExempt_def)

lemma offered_candidates:
  "\<exists>c cs. ProviderTransportCompatibilityCandidates bareConfig hash (sampleStored sampleWireGuard) 7
     (startupCompatRequest offeredRequest) turnHost = (c # cs, turnHost, []) \<and> ccStartable c"
proof -
  let ?q = "normalizeCompatRequest (startupCompatRequest offeredRequest)"
  have "pcPlans sampleTunnel \<noteq> []" by (simp add: sampleTunnel_def)
  then obtain d ds where d: "pcPlans sampleTunnel = d # ds" by (cases "pcPlans sampleTunnel") auto
  have "candidatesOf hash (sampleStored sampleWireGuard) 7 ?q turnView =
      List.map (candidateForDescriptor hash (sampleStored sampleWireGuard) ?q (sourceFor ?q turnView) (artifactFor ?q turnView)) (d # ds)"
    using offered_verdict(1,3) d by (simp add: candidatesOf_all)
  moreover have "ProviderTransportCompatibilityCandidates bareConfig hash (sampleStored sampleWireGuard) 7
      (startupCompatRequest offeredRequest) turnHost =
      (candidatesOf hash (sampleStored sampleWireGuard) 7 ?q turnView, turnHost, [])"
    by (simp add: ProviderTransportCompatibilityCandidates_def offered_verdict(4) turn_read)
  ultimately show ?thesis using offered_candidate [of d] d by simp
qed

lemma offered_checked: "validateCompatForStartup bareConfig hash 7 offeredRequest offeredTunnels = (None, offeredTunnels, [])"
proof -
  obtain c cs where c: "ProviderTransportCompatibilityCandidates bareConfig hash (sampleStored sampleWireGuard) 7
      (startupCompatRequest offeredRequest) turnHost = (c # cs, turnHost, [])" "ccStartable c"
    using offered_candidates by blast
  have "c \<in> set (fst (ProviderTransportCompatibilityCandidates bareConfig hash (sampleStored sampleWireGuard) 7
      (startupCompatRequest offeredRequest) turnHost))" by (simp add: c(1))
  then have "candidateStartable c" using candidates_judged [of c] c(2) by (fastforce simp: judged_def candidateStartable_def)
  moreover have "offeredTunnels\<lparr>thHost := turnHost\<rparr> = offeredTunnels" by (simp add: offeredTunnels_def newTunnels_def)
  ultimately show ?thesis
    using offered_startable by (simp add: validateCompatForStartup_def offered_reference c(1) Let_def)
qed

lemma offered_begins:
  "beginStart bareConfig hash 7 offeredRequest offeredTunnels = (StartCalls offeredRequest, offeredTunnels, [])"
proof -
  have "attachProfile offeredRequest (thStore offeredTunnels) = Inr offeredRequest"
    by (simp add: attachProfile_def offered_reference)
  then show ?thesis by (simp add: beginStart_def offered_normal offered_reference(8) offered_checked)
qed

section \<open>Properties\<close>

text \<open>
  C23: When the platform is called to start a tunnel that is not exempt from the check, after any calls
  on the profile store, the resolution is resolved and has not expired, its artifact offers the plan of
  the request for this device and gives its access method, the plan is supported, and if it requires a
  profile, the request names a stored one with complete material and an endpoint that is not the device
  itself.  Exempt (\<open>startupExempt\<close>) is a start with neither a resolution nor a compatibility reference,
  one with neither a profile nor a compatibility reference on a host without a profile store, one
  without a plan for which none can be selected, and one without a profile whose plan requires none.
\<close>
theorem accepted_start_is_startable:
  assumes "goodIDs se" "runStore se pe on path tunnels disk calls = (thStore t, cs, b)"
    "normalizeTunnelRequest q0 = Inr q" "\<not> startupExempt (thStore t) q"
    "beginStart cfg hash now q0 t = (StartCalls q', t', ts)"
  shows "\<exists>m a act d ref. theResolution (TrimSpace (tqResolutionID q)) (thHost t) = Some m \<and>
    rvState (mrView m) = ResolutionResolved \<and> (\<forall>e. xsExpiresAt (rvExport (mrView m)) = Some e \<longrightarrow> now < e) \<and>
    rvArtifact (mrView m) = Some a \<and> act \<in> set (rtActions a) \<and> raID act = ''start_on_this_device'' \<and>
    d \<in> set (raPlans act) \<and> isSupported d \<and> xpAccessMethod (xdPlan d) \<in> set (rtAccessMethods a) \<and>
    tqPlan q' = Some (xdPlan d) \<and> tqProfile q' = Some ref \<and>
    (requiredKindsOf (thStore t) d = [] \<or>
      (\<exists>w. materialOf (TrimSpace (rfProfileID ref)) (thStore t) = Some w \<and> wireGuardProfileComplete (Some w) \<and>
        rawIngressEndpointOk (wgEndpoint w)))"
proof -
  let ?q = "normalizeCompatRequest (startupCompatRequest q)" and ?s = "thStore t"
  have ok: "storeOk se ?s" using run_state [OF assms(1,2)] by simp
  obtain t1 ts1 where v: "validateCompatForStartup cfg hash now q t = (None, t1, ts1)" "attachProfile q (thStore t1) = Inr q'"
    using assms(3,5) by (auto simp: beginStart_def stepOf_def split: if_splits prod.splits option.splits sum.splits)
  obtain p ref c where c: "TrimSpace (tqResolutionID q) \<noteq> []" "tqPlan q = Some p" "tqProfile q = Some ref"
    "TrimSpace (rfProfileID ref) \<noteq> []" "ccStartable c"
    "c \<in> set (fst (ProviderTransportCompatibilityCandidates cfg hash ?s now (startupCompatRequest q) (thHost t)))"
    by (rule startup_checked [OF v(1) assms(4)]) blast
  obtain m where m: "theResolution (TrimSpace (tqResolutionID q)) (thHost t) = Some m"
    "c \<in> set (candidatesOf hash ?s now ?q (mrView (fst (expireResolution cfg now m))))"
    using candidates_of [OF c(6,5)] startup_resolution [OF c(1)] by auto
  note r = startable_resolution [OF m(2) c(5)]
  note rv = resolutionVerdict_None [OF r(1)]
  note e = resolved_now [OF rv(1)]
  obtain d where d: "d \<in> set (startPlans (mrView m) (Some p))"
    "c = candidateForDescriptor hash ?s ?q (sourceFor ?q (mrView m)) (artifactFor ?q (mrView m)) d"
    using r(2) c(2) by (auto simp: e(1))
  obtain a act where a: "rvArtifact (mrView m) = Some a" "act \<in> set (rtActions a)" "raID act = ''start_on_this_device''"
    "d \<in> set (raPlans act)" "xdPlan d = p"
    using startPlans_in [OF d(1)] by blast
  note s = startable_descriptor [OF c(5) [unfolded d(2)]]
  note pl = planVerdict_None [OF s(1)]
  have acc: "afAccessMethods (artifactFor ?q (mrView m)) = rtAccessMethods a"
    by (simp add: artifactFor_def artifactReferenceOf_def a(1) Let_def split: option.split)
  have profile: "requiredKindsOf ?s d = [] \<or> (\<exists>w. materialOf (TrimSpace (rfProfileID ref)) ?s = Some w \<and>
      wireGuardProfileComplete (Some w) \<and> rawIngressEndpointOk (wgEndpoint w))"
    using s(2) profileVerdict_named [of ?s ?q _ _ _ _ ref] c(3,4) validated_ref [OF ok] by (metis normal_request(2) startup_request(2))
  obtain ref' where "tqProfile q' = Some ref'" "TrimSpace (rfProfileID ref') = TrimSpace (rfProfileID ref)" "tqPlan q' = Some p"
    using attach_named [OF v(2) c(3,4)] c(2) by auto
  then show ?thesis
    using m(1) rv(1) e a pl acc profile
    by (intro exI [of _ m] exI [of _ a] exI [of _ act] exI [of _ d] exI [of _ ref']) auto
qed


theorem accepted_start_is_startable_witness:
  "\<exists>t ts m. beginStart bareConfig (\<lambda>x. x) 7 offeredRequest offeredTunnels = (StartCalls offeredRequest, t, ts) \<and>
     theResolution ''r'' turnHost = Some m \<and> rvState (mrView m) = ResolutionResolved"
proof -
  have run: "runStore sampleStoreEnv samplePortable True ''/f'' [sampleTunnel] None [CallImport Written 5 sampleImport] =
      (thStore offeredTunnels, [], False)" using sample_runs(1) by (simp add: sampleRun_def)
  have s: "\<not> startupExempt (thStore offeredTunnels) offeredRequest" using offered_startable by simp
  show ?thesis
    using accepted_start_is_startable [OF sample_ids run offered_normal s offered_begins [of "\<lambda>x. x"]] offered_begins [of "\<lambda>x. x"]
    unfolding offered_reference(2) offered_simps by blast
qed

end
