(* ===== verification/PlatformStatus.thy ===== *)
theory PlatformStatus
  imports PlatformSessions
begin

text \<open>
  The lifecycle status of platform tunnels (\<^verbatim>\<open>PlatformTunnelStatuses\<close> of
  \<^verbatim>\<open>pkg/clientcontrol/host.go\<close>), with the capabilities it starts from
  (\<^verbatim>\<open>platformTunnelCapabilitiesWithTransportProfileStateLocked\<close> of
  \<^verbatim>\<open>transport_profile_store.go\<close>).  The messages for people are left out.
\<close>

section \<open>Capabilities\<close>

text \<open>What the profile store adds to a plan: a plan whose profile is missing is not available.\<close>

definition withProfileState :: "transportStore \<Rightarrow> planDescriptor \<Rightarrow> planDescriptor" where
  "withProfileState s d =
     (let required = (if xdRequiredKinds d = [] then requiredTransportProfileKindsForPlan (xdPlan d) else xdRequiredKinds d);
          st = transportProfilePrerequisiteStatus s (xdPlan d) required;
          d1 = d\<lparr>xdRequiredKinds := required\<rparr>; d2 = d1\<lparr>xdTransportProfile := Some st\<rparr>
      in if required = [] then d1
         else if xqState st \<noteq> ''compatible'' \<or> firstReference [xqSelectedProfile st, xqDefaultProfile st] = None
         then d2\<lparr>xdSupportState := ''unavailable''\<rparr>
         else d2)"

definition tunnelsWithProfileState :: "transportStore \<Rightarrow> tunnelCapability list" where
  "tunnelsWithProfileState s =
     (if \<not> tsEnabled s then tsTunnels s
      else List.map (\<lambda>c. c\<lparr>pcPlans := List.map (withProfileState s) (pcPlans c)\<rparr>) (tsTunnels s))"

section \<open>Statuses\<close>

datatype tunnelState =
    TunnelSetupNeeded
  | TunnelPermission
  | TunnelStarting
  | TunnelReady
  | TunnelStopping
  | TunnelStopped
  | TunnelFailed

record tunnelStatus =
  lsMode :: string
  lsState :: tunnelState
  lsReady :: bool
  lsSessionID :: string
  lsResolutionID :: string
  lsPlan :: "executionPlan option"
  lsProfile :: "profileReference option"
  lsCompat :: "compatFailure option"
  lsIngress :: "remoteIngress option"
  lsDataplane :: "dataplaneEvidence option"
  lsAppPolicy :: string
  lsUnderlay :: string
  lsAllowed :: "string list"
  lsDisallowed :: "string list"
  lsStage :: string
  lsMissing :: string
  lsAttemptID :: string
  lsUpdatedAt :: "instant option"

definition stoppedStatus :: "string \<Rightarrow> tunnelStatus" where
  "stoppedStatus mode =
     \<lparr>lsMode = mode, lsState = TunnelStopped, lsReady = False, lsSessionID = [], lsResolutionID = [], lsPlan = None,
      lsProfile = None, lsCompat = None, lsIngress = None, lsDataplane = None, lsAppPolicy = [], lsUnderlay = [],
      lsAllowed = [], lsDisallowed = [], lsStage = [], lsMissing = [], lsAttemptID = [], lsUpdatedAt = None\<rparr>"

definition preferredDescriptor :: "tunnelCapability \<Rightarrow> planDescriptor option" where
  "preferredDescriptor c =
     (case selectRuntimeExecutionPlanDescriptor (pcPlans c) None of
        Inr d \<Rightarrow> Some d
      | Inl _ \<Rightarrow>
          (case selectPlatformTunnelExecutionPlanDescriptor (pcPlans c) None of
             Inr d \<Rightarrow> Some d
           | Inl _ \<Rightarrow> (case pcPlans c of [] \<Rightarrow> None | d # _ \<Rightarrow> Some d)))"

definition statusUnavailable :: "tunnelCapability \<Rightarrow> tunnelStatus \<Rightarrow> tunnelStatus" where
  "statusUnavailable c st =
     (if pcAvailable c then st
      else st\<lparr>lsState := TunnelFailed, lsStage := ''capability_check'',
        lsMissing := (if pcMissing c = [] then ''host_implementation'' else pcMissing c)\<rparr>)"

definition statusFromCapability :: "tunnelCapability \<Rightarrow> tunnelStatus" where
  "statusFromCapability c =
     (let st = stoppedStatus (pcMode c) in
      case preferredDescriptor c of
        None \<Rightarrow> statusUnavailable c st
      | Some d \<Rightarrow>
          (let ref = (case xdTransportProfile d of None \<Rightarrow> None
                 | Some x \<Rightarrow> firstReference [xqSelectedProfile x, xqDefaultProfile x]);
               st1 = st\<lparr>lsPlan := Some (xdPlan d), lsProfile := ref\<rparr>
           in if (case xdTransportProfile d of None \<Rightarrow> False | Some x \<Rightarrow> xqState x \<noteq> ''compatible'' \<or> ref = None)
              then st1\<lparr>lsState := TunnelSetupNeeded, lsStage := ''profile_validate'', lsMissing := ''transport_profile''\<rparr>
              else if \<not> isSupported d
              then st1\<lparr>lsState := TunnelFailed, lsStage := ''capability_check'', lsMissing := ''host_implementation''\<rparr>
              else statusUnavailable c st1))"

definition orElse :: "'a option \<Rightarrow> 'a option \<Rightarrow> 'a option" where
  "orElse a b = (case a of None \<Rightarrow> b | Some x \<Rightarrow> Some x)"

definition applyRequest :: "tunnelRequest \<Rightarrow> tunnelStatus \<Rightarrow> tunnelStatus" where
  "applyRequest q st =
     st\<lparr>lsMode := (if tqMode q \<noteq> [] then tqMode q else lsMode st),
        lsResolutionID := (if TrimSpace (tqResolutionID q) \<noteq> [] then tqResolutionID q else lsResolutionID st),
        lsPlan := orElse (tqPlan q) (lsPlan st), lsProfile := orElse (tqProfile q) (lsProfile st),
        lsAppPolicy := (if tqAppPolicy q \<noteq> [] then tqAppPolicy q else lsAppPolicy st),
        lsUnderlay := (if tqUnderlay q \<noteq> [] then tqUnderlay q else lsUnderlay st),
        lsAllowed := tqAllowed q, lsDisallowed := tqDisallowed q\<rparr>"

definition resultState :: "tunnelResult \<Rightarrow> tunnelState" where
  "resultState r =
     (if tuReady r then TunnelReady
      else if tuStage r = ''permission_acquire'' \<and> tuMissing r = ''permission'' \<and> TrimSpace (tuAttemptID r) \<noteq> []
      then TunnelPermission
      else if tuStage r = ''profile_validate'' \<or> tuMissing r = ''transport_profile'' then TunnelSetupNeeded
      else TunnelFailed)"

definition applyResult :: "tunnelResult \<Rightarrow> tunnelStatus \<Rightarrow> tunnelStatus" where
  "applyResult r st =
     st\<lparr>lsMode := (if tuMode r \<noteq> [] then tuMode r else lsMode st),
        lsPlan := orElse (tuPlan r) (lsPlan st), lsProfile := orElse (tuProfile r) (lsProfile st),
        lsCompat := orElse (tuCompat r) (lsCompat st), lsIngress := orElse (tuIngress r) (lsIngress st),
        lsDataplane := orElse (tuDataplane r) (lsDataplane st),
        lsUnderlay := (if tuUnderlay r \<noteq> [] then tuUnderlay r else lsUnderlay st),
        lsStage := tuStage r, lsMissing := (if tuReady r then [] else tuMissing r),
        lsAttemptID := (if tuReady r then [] else tuAttemptID r), lsSessionID := tuSessionID r,
        lsReady := tuReady r, lsState := resultState r\<rparr>"

definition startupStageFromString :: "string \<Rightarrow> string" where
  "startupStageFromString s = (if isKnownStartupStage (TrimSpace s) then TrimSpace s else [])"

text \<open>A session that waits for a challenge changes neither the state nor whether the tunnel is ready.\<close>

definition applySession :: "sessionView \<Rightarrow> tunnelStatus \<Rightarrow> tunnelStatus" where
  "applySession v st0 =
     (let st = st0\<lparr>lsSessionID := svID v, lsResolutionID := svSourceResolutionID v, lsUpdatedAt := Some (svUpdatedAt v),
        lsAttemptID := []\<rparr>
      in case svState v of
           SessionReady \<Rightarrow> st\<lparr>lsState := TunnelReady, lsReady := True,
             lsStage := (if case lsDataplane st of None \<Rightarrow> False | Some e \<Rightarrow> dvVerified e then ''dataplane_verify''
               else ''runtime_attach''), lsMissing := []\<rparr>
         | SessionStarting \<Rightarrow> st\<lparr>lsState := TunnelStarting, lsReady := False\<rparr>
         | SessionRetrying \<Rightarrow> st\<lparr>lsState := TunnelStarting, lsReady := False\<rparr>
         | SessionStopping \<Rightarrow> st\<lparr>lsState := TunnelStopping, lsReady := False\<rparr>
         | SessionStopped \<Rightarrow> st\<lparr>lsState := TunnelStopped, lsReady := False, lsStage := [], lsMissing := []\<rparr>
         | SessionFailed \<Rightarrow> st\<lparr>lsState := TunnelFailed, lsReady := False,
             lsStage := (case svFailure v of None \<Rightarrow> lsStage st | Some f \<Rightarrow> startupStageFromString (fiStage f)),
             lsMissing := (if lsMissing st = [] then ''host_implementation'' else lsMissing st)\<rparr>
         | SessionChallengeRequired \<Rightarrow> st)"

definition applyStop :: "string \<Rightarrow> instant \<Rightarrow> tunnelStatus \<Rightarrow> tunnelStatus" where
  "applyStop mode at st =
     st\<lparr>lsMode := (if mode \<noteq> [] then mode else lsMode st), lsState := TunnelStopped, lsReady := False, lsStage := [],
        lsMissing := [], lsAttemptID := [], lsUpdatedAt := Some at\<rparr>"

section \<open>The table\<close>

type_synonym statusTable = "(string \<times> tunnelStatus) list"

definition ensureStatus :: "string \<Rightarrow> statusTable \<Rightarrow> tunnelStatus" where
  "ensureStatus mode tbl = (case map_of tbl mode of Some st \<Rightarrow> st | None \<Rightarrow> stoppedStatus mode)"

definition onStatus :: "string \<Rightarrow> (tunnelStatus \<Rightarrow> tunnelStatus) \<Rightarrow> statusTable \<Rightarrow> statusTable" where
  "onStatus mode f tbl = AList.update mode (f (ensureStatus mode tbl)) tbl"

text \<open>An update that is at least as late as the status.\<close>

definition notBefore :: "instant \<Rightarrow> tunnelStatus \<Rightarrow> bool" where
  "notBefore at st \<longleftrightarrow> (case lsUpdatedAt st of None \<Rightarrow> True | Some u \<Rightarrow> u \<le> at)"

definition capabilityStep :: "tunnelCapability \<Rightarrow> statusTable \<Rightarrow> statusTable" where
  "capabilityStep c tbl = (if pcMode c = [] then tbl else AList.update (pcMode c) (statusFromCapability c) tbl)"

definition attemptStep :: "instant \<Rightarrow> string \<times> tunnelRequest \<Rightarrow> statusTable \<Rightarrow> statusTable" where
  "attemptStep now a =
     onStatus (tqMode (snd a)) (\<lambda>st. (applyRequest (snd a) st)\<lparr>lsState := TunnelPermission, lsReady := False,
       lsStage := ''permission_acquire'', lsMissing := ''permission'', lsAttemptID := fst a, lsUpdatedAt := Some now\<rparr>)"

definition resultStep :: "string \<times> tunnelRequest \<times> tunnelResult \<times> instant \<Rightarrow> statusTable \<Rightarrow> statusTable" where
  "resultStep e =
     (case e of (mode, q, r, at) \<Rightarrow>
        onStatus mode (\<lambda>st. (applyResult r (applyRequest q st))\<lparr>lsUpdatedAt := Some at\<rparr>))"

definition sessionStep :: "managedSession \<Rightarrow> statusTable \<Rightarrow> statusTable" where
  "sessionStep m tbl =
     (if mgPlatformMode m = [] then tbl
      else onStatus (mgPlatformMode m)
        (\<lambda>st. if notBefore (svUpdatedAt (mgView m)) st then applySession (mgView m) st else st) tbl)"

definition stopStep :: "string \<times> instant \<Rightarrow> statusTable \<Rightarrow> statusTable" where
  "stopStep s = onStatus (fst s) (\<lambda>st. if notBefore (snd s) st then applyStop (fst s) (snd s) st else st)"

text \<open>
  The host walks over its maps in an order of its own: \<open>attempts\<close> and \<open>sessions\<close> are the entries in that
  order.  The order of the results and of the stops makes no difference, as each has a mode of its own.
\<close>

definition statusTableOf ::
    "instant \<Rightarrow> (string \<times> tunnelRequest) list \<Rightarrow> managedSession list \<Rightarrow> tunnelHost \<Rightarrow> statusTable" where
  "statusTableOf now attempts sessions t =
     fold stopStep (thStops t)
       (fold sessionStep sessions
         (fold resultStep (thResults t)
           (fold (attemptStep now) attempts
             (fold capabilityStep (tunnelsWithProfileState (thStore t)) []))))"

definition PlatformTunnelStatuses ::
    "instant \<Rightarrow> (string \<times> tunnelRequest) list \<Rightarrow> managedSession list \<Rightarrow> tunnelHost \<Rightarrow> tunnelStatus list" where
  "PlatformTunnelStatuses now attempts sessions t =
     List.map (\<lambda>e. (snd e)\<lparr>lsUpdatedAt := Some (case lsUpdatedAt (snd e) of None \<Rightarrow> now | Some u \<Rightarrow> u)\<rparr>)
       (sort_key fst (statusTableOf now attempts sessions t))"

end
