(* ===== verification/PlatformStatusProperties.thy ===== *)
theory PlatformStatusProperties
  imports PlatformStatus PlatformProperties
begin

text \<open>
  What clients rely on of the statuses of platform tunnels, and when a status does not tell of a tunnel
  that runs.
\<close>

section \<open>The table\<close>

lemma onStatus_of: "map_of (onStatus m f tbl) k = (if k = m then Some (f (ensureStatus m tbl)) else map_of tbl k)"
  by (simp add: onStatus_def update_conv)

lemma onStatus_keys [simp]: "fst ` set (onStatus m f tbl) = insert m (fst ` set tbl)"
proof -
  have "dom (map_of (onStatus m f tbl)) = insert m (dom (map_of tbl))" by (auto simp: onStatus_of dom_def)
  then show ?thesis unfolding dom_map_of_conv_image_fst .
qed

lemma onStatus_distinct: "distinct (List.map fst tbl) \<Longrightarrow> distinct (List.map fst (onStatus m f tbl))"
  by (simp add: onStatus_def distinct_update)

lemma ensure_other [simp]: "k \<noteq> m \<Longrightarrow> ensureStatus k (onStatus m f tbl) = ensureStatus k tbl"
  by (simp add: ensureStatus_def onStatus_of)

lemma ensure_same [simp]: "ensureStatus m (onStatus m f tbl) = f (ensureStatus m tbl)"
  by (simp add: ensureStatus_def [of m "onStatus m f tbl"] onStatus_of)

text \<open>A status of the table: it is of its mode, and ready or not as its state says.\<close>

definition statusOk :: "string \<Rightarrow> tunnelStatus \<Rightarrow> bool" where
  "statusOk mode st \<longleftrightarrow>
     lsMode st = mode \<and> (lsState st = TunnelReady \<longleftrightarrow> lsReady st) \<and> (lsReady st \<longrightarrow> lsMissing st = [] \<and> lsAttemptID st = [])"

definition tableOk :: "statusTable \<Rightarrow> bool" where
  "tableOk tbl \<longleftrightarrow> distinct (List.map fst tbl) \<and> (\<forall>mode. statusOk mode (ensureStatus mode tbl))"

lemma table_step:
  assumes "tableOk tbl" "\<And>st. statusOk m st \<Longrightarrow> statusOk m (f st)"
  shows "tableOk (onStatus m f tbl)"
  using assms onStatus_distinct [of tbl m f] unfolding tableOk_def by (metis ensure_other ensure_same)

lemma stopped_ok: "statusOk m (stoppedStatus m)"
  by (simp add: statusOk_def stoppedStatus_def)

lemma capability_ok: "statusOk (pcMode c) (statusFromCapability c)"
  by (auto simp: statusFromCapability_def statusUnavailable_def statusOk_def stoppedStatus_def Let_def split: option.split)

lemma capability_step: "capabilityStep c tbl = (if pcMode c = [] then tbl else onStatus (pcMode c) (\<lambda>_. statusFromCapability c) tbl)"
  by (simp add: capabilityStep_def onStatus_def)

lemma capability_table: "tableOk tbl \<Longrightarrow> tableOk (capabilityStep c tbl)"
  by (simp add: capability_step table_step capability_ok)

lemma attempt_table: "tableOk tbl \<Longrightarrow> tableOk (attemptStep now a tbl)"
  unfolding attemptStep_def by (rule table_step) (auto simp: statusOk_def applyRequest_def)

lemma result_table:
  assumes "tableOk tbl" "tuMode r = mode" "mode \<noteq> []"
  shows "tableOk (resultStep (mode, q, r, at) tbl)"
  unfolding resultStep_def prod.case
  by (rule table_step [OF assms(1)]) (use assms(2,3) in \<open>auto simp: statusOk_def applyResult_def resultState_def\<close>)

lemma session_ok: "statusOk m st \<Longrightarrow> statusOk m (applySession v st)"
  by (cases "svState v") (auto simp: statusOk_def applySession_def Let_def)

lemma session_table: "tableOk tbl \<Longrightarrow> tableOk (sessionStep x tbl)"
  unfolding sessionStep_def by (auto intro!: table_step session_ok)

lemma stop_table: "tableOk tbl \<Longrightarrow> tableOk (stopStep x tbl)"
  unfolding stopStep_def by (rule table_step) (auto simp: statusOk_def applyStop_def)

lemma fold_table: "tableOk tbl \<Longrightarrow> (\<And>x tbl. x \<in> set xs \<Longrightarrow> tableOk tbl \<Longrightarrow> tableOk (f x tbl)) \<Longrightarrow> tableOk (fold f xs tbl)"
  by (induction xs arbitrary: tbl) auto

lemma sound_mode: "hostOk t \<Longrightarrow> (mode, q, r, at) \<in> set (thResults t) \<Longrightarrow> tuMode r = mode \<and> mode \<noteq> []"
proof -
  assume "hostOk t" "(mode, q, r, at) \<in> set (thResults t)"
  then have "validateTunnelStartResult mode r" by (auto simp: hostOk_def tunnelsOk_def soundResult_def)
  then show ?thesis using clean_same(2) [OF mode_known, of mode] by (auto simp: validateTunnelStartResult_def)
qed

lemma statuses_table:
  assumes "hostOk t"
  shows "tableOk (statusTableOf now attempts sessions t)"
proof -
  have "tableOk []" using stopped_ok by (simp add: tableOk_def ensureStatus_def)
  then have "tableOk (fold capabilityStep (tunnelsWithProfileState (thStore t)) [])" by (rule fold_table) (rule capability_table)
  then have "tableOk (fold (attemptStep now) attempts (fold capabilityStep (tunnelsWithProfileState (thStore t)) []))"
    by (rule fold_table) (rule attempt_table)
  then have "tableOk (fold resultStep (thResults t)
      (fold (attemptStep now) attempts (fold capabilityStep (tunnelsWithProfileState (thStore t)) [])))"
    by (rule fold_table) (use sound_mode [OF assms] result_table in auto)
  then have "tableOk (fold sessionStep sessions (fold resultStep (thResults t)
      (fold (attemptStep now) attempts (fold capabilityStep (tunnelsWithProfileState (thStore t)) []))))"
    by (rule fold_table) (rule session_table)
  then show ?thesis unfolding statusTableOf_def by (rule fold_table) (rule stop_table)
qed

text \<open>The modes of the table.\<close>

definition statusModes :: "transportStore \<Rightarrow> (string \<times> tunnelRequest) list \<Rightarrow> managedSession list \<Rightarrow> tunnelHost \<Rightarrow> string set" where
  "statusModes s attempts sessions t =
     pcMode ` {c \<in> set (tsTunnels s). pcMode c \<noteq> []} \<union> tqMode ` snd ` set attempts \<union> fst ` set (thResults t) \<union>
     mgPlatformMode ` {m \<in> set sessions. mgPlatformMode m \<noteq> []} \<union> fst ` set (thStops t)"

lemma fold_keys:
  assumes "\<And>x tbl. x \<in> set xs \<Longrightarrow> fst ` set (f x tbl) = g x \<union> fst ` set tbl"
  shows "fst ` set (fold f xs tbl) = (\<Union>x\<in>set xs. g x) \<union> fst ` set tbl"
  using assms by (induction xs arbitrary: tbl) auto

lemma statuses_modes: "fst ` set (statusTableOf now attempts sessions t) = statusModes (thStore t) attempts sessions t"
proof -
  have c: "fst ` set (capabilityStep c tbl) = (if pcMode c = [] then {} else {pcMode c}) \<union> fst ` set tbl" for c tbl
    by (simp add: capability_step)
  have a: "fst ` set (attemptStep now a tbl) = {tqMode (snd a)} \<union> fst ` set tbl" for a tbl
    by (simp add: attemptStep_def)
  have r: "fst ` set (resultStep e tbl) = {fst e} \<union> fst ` set tbl" for e tbl
    by (simp add: resultStep_def split: prod.split)
  have s: "fst ` set (sessionStep m tbl) = (if mgPlatformMode m = [] then {} else {mgPlatformMode m}) \<union> fst ` set tbl"
    for m tbl by (simp add: sessionStep_def)
  have p: "fst ` set (stopStep x tbl) = {fst x} \<union> fst ` set tbl" for x tbl
    by (simp add: stopStep_def)
  have m: "List.map pcMode (tunnelsWithProfileState (thStore t)) = List.map pcMode (tsTunnels (thStore t))"
    by (simp add: tunnelsWithProfileState_def)
  have "(\<Union>c\<in>set (tunnelsWithProfileState (thStore t)). if pcMode c = [] then {} else {pcMode c}) =
      set (List.map pcMode (tunnelsWithProfileState (thStore t))) - {[]}" by (auto split: if_splits)
  also have "\<dots> = pcMode ` {c \<in> set (tsTunnels (thStore t)). pcMode c \<noteq> []}" unfolding m by auto
  finally show ?thesis
    unfolding statusTableOf_def fold_keys [of _ stopStep, OF p] fold_keys [of _ sessionStep, OF s] fold_keys [of _ resultStep, OF r]
      fold_keys [of _ "attemptStep now", OF a] fold_keys [of _ capabilityStep, OF c] statusModes_def
    by (auto split: if_splits)
qed

section \<open>The statuses\<close>

lemma table_entry:
  assumes "tableOk tbl" "(k, st) \<in> set tbl"
  shows "ensureStatus k tbl = st" "statusOk k st"
proof -
  show e: "ensureStatus k tbl = st" using assms by (simp add: tableOk_def ensureStatus_def)
  then show "statusOk k st" using assms(1) unfolding tableOk_def by metis
qed

lemma statuses_entry:
  assumes "hostOk t" "st \<in> set (PlatformTunnelStatuses now attempts sessions t)"
  defines "listed \<equiv> ensureStatus (lsMode st) (statusTableOf now attempts sessions t)"
  shows "lsReady st = lsReady listed" "lsSessionID st = lsSessionID listed" "statusOk (lsMode st) st"
proof -
  let ?tbl = "statusTableOf now attempts sessions t"
  obtain k st0 u where e: "(k, st0) \<in> set ?tbl" "st = st0\<lparr>lsUpdatedAt := u\<rparr>"
    using assms(2) by (auto simp: PlatformTunnelStatuses_def)
  note ok = table_entry [OF statuses_table [OF assms(1)] e(1)]
  then have "lsMode st = k" "statusOk k st" using e(2) by (simp_all add: statusOk_def)
  then show "lsReady st = lsReady listed" "lsSessionID st = lsSessionID listed" "statusOk (lsMode st) st"
    using ok(1) e(2) by (simp_all add: listed_def)
qed

lemma statuses_sorted:
  assumes "hostOk t"
  shows "List.map lsMode (PlatformTunnelStatuses now attempts sessions t) =
    List.map fst (sort_key fst (statusTableOf now attempts sessions t))"
  using table_entry(2) [OF statuses_table [OF assms]]
  by (auto simp: PlatformTunnelStatuses_def statusOk_def)

text \<open>The status of a mode, from the last result on.\<close>

lemma result_step:
  "resultStep (mode, q, r, at) tbl = onStatus mode (\<lambda>st. (applyResult r (applyRequest q st))\<lparr>lsUpdatedAt := Some at\<rparr>) tbl"
  by (simp add: resultStep_def)

lemma results_status:
  assumes "distinct (List.map fst rs)" "(mode, q, r, at) \<in> set rs"
  shows "ensureStatus mode (fold resultStep rs tbl) = (applyResult r (applyRequest q (ensureStatus mode tbl)))\<lparr>lsUpdatedAt := Some at\<rparr>"
proof -
  have other: "ensureStatus mode (fold resultStep xs tbl) = ensureStatus mode tbl" if "mode \<notin> fst ` set xs" for xs tbl
    using that by (induction xs arbitrary: tbl) (auto simp: result_step)
  show ?thesis
    using assms
  proof (induction rs arbitrary: tbl)
    case (Cons x xs)
    show ?case
    proof (cases "x = (mode, q, r, at)")
      case True
      then have "mode \<notin> fst ` set xs" using Cons.prems by auto
      then show ?thesis using other True by (simp add: result_step)
    next
      case False
      then have x: "(mode, q, r, at) \<in> set xs" using Cons.prems(2) by simp
      then have "mode \<in> fst ` set xs" by force
      then have "fst x \<noteq> mode" using Cons.prems(1) by auto
      with x have "(mode, q, r, at) \<in> set xs" "fst x \<noteq> mode" by simp_all
      then show ?thesis using Cons by (cases x) (simp add: result_step)
    qed
  qed simp
qed

lemma sessions_older:
  assumes "\<forall>m\<in>set ms. mgPlatformMode m = mode \<longrightarrow> svUpdatedAt (mgView m) < at" "lsUpdatedAt (ensureStatus mode tbl) = Some at"
  shows "ensureStatus mode (fold sessionStep ms tbl) = ensureStatus mode tbl"
  using assms
proof (induction ms arbitrary: tbl)
  case (Cons m ms)
  have "ensureStatus mode (sessionStep m tbl) = ensureStatus mode tbl"
    using Cons.prems by (cases "mgPlatformMode m = mode") (auto simp: sessionStep_def notBefore_def)
  then show ?case using Cons by simp
qed simp

lemma stops_not_ready:
  "\<not> lsReady (ensureStatus mode tbl) \<Longrightarrow>
   \<not> lsReady (ensureStatus mode (fold stopStep ss tbl)) \<and>
   lsSessionID (ensureStatus mode (fold stopStep ss tbl)) = lsSessionID (ensureStatus mode tbl)"
proof (induction ss arbitrary: tbl)
  case (Cons x ss)
  have "\<not> lsReady (ensureStatus mode (stopStep x tbl)) \<and>
      lsSessionID (ensureStatus mode (stopStep x tbl)) = lsSessionID (ensureStatus mode tbl)"
    using Cons.prems by (cases "fst x = mode") (auto simp: stopStep_def applyStop_def)
  then show ?case using Cons.IH [of "stopStep x tbl"] by simp
qed simp

lemma failed_status:
  assumes "hostOk t" "(mode, q, r, at) \<in> set (thResults t)" "\<not> tuReady r"
    "\<forall>m\<in>set sessions. mgPlatformMode m = mode \<longrightarrow> svUpdatedAt (mgView m) < at"
  shows "\<exists>st\<in>set (PlatformTunnelStatuses now attempts sessions t). lsMode st = mode \<and> \<not> lsReady st \<and> lsSessionID st = tuSessionID r"
proof -
  let ?tbl = "statusTableOf now attempts sessions t"
  let ?one = "fold (attemptStep now) attempts (fold capabilityStep (tunnelsWithProfileState (thStore t)) [])"
  have d: "distinct (List.map fst (thResults t))" using assms(1) by (simp add: hostOk_def tunnelsOk_def)
  note r = results_status [OF d assms(2), of ?one]
  have u: "lsUpdatedAt (ensureStatus mode (fold resultStep (thResults t) ?one)) = Some at" by (simp add: r)
  have "\<not> lsReady (ensureStatus mode (fold sessionStep sessions (fold resultStep (thResults t) ?one)))"
    "lsSessionID (ensureStatus mode (fold sessionStep sessions (fold resultStep (thResults t) ?one))) = tuSessionID r"
    using sessions_older [OF assms(4) u] assms(3) r by (simp_all add: applyResult_def)
  then have e: "\<not> lsReady (ensureStatus mode ?tbl)" "lsSessionID (ensureStatus mode ?tbl) = tuSessionID r"
    using stops_not_ready by (simp_all add: statusTableOf_def)
  have "mode \<in> fst ` set (thResults t)" using assms(2) by force
  then have "mode \<in> fst ` set ?tbl" unfolding statuses_modes statusModes_def by blast
  then have "mode \<in> set (List.map lsMode (PlatformTunnelStatuses now attempts sessions t))"
    unfolding statuses_sorted [OF assms(1)] by simp
  then obtain st where st: "st \<in> set (PlatformTunnelStatuses now attempts sessions t)" "lsMode st = mode" by auto
  then have "\<not> lsReady st" "lsSessionID st = tuSessionID r" using statuses_entry [OF assms(1) st(1)] e by simp_all
  then show ?thesis using st by blast
qed

section \<open>A start that is answered at once\<close>

lemma candidates_sessions: "hoSessions (fst (snd (ProviderTransportCompatibilityCandidates env hash s now q h))) = hoSessions h"
  by (simp add: ProviderTransportCompatibilityCandidates_def readResolution_def putResolution_def Let_def prod.case_eq_if split: option.split)

lemma compat_sessions: "hoSessions (thHost (fst (snd (validateCompatForStartup cfg hash now q t)))) = hoSessions (thHost t)"
  using candidates_sessions [of cfg hash "thStore t" now "startupCompatRequest q" "thHost t"]
  by (simp add: validateCompatForStartup_def Let_def prod.case_eq_if split: option.split list.split)

lemma begin_answered:
  assumes "hostOk t" "beginStart cfg hash now q0 t = (StartAnswered r, t', ts)" "normalizeTunnelRequest q0 = Inr q"
  shows "hostOk t' \<and> (tqMode q, q, r, now) \<in> set (thResults t') \<and> \<not> tuReady r \<and> TrimSpace (tuSessionID r) = [] \<and>
    hoSessions (thHost t') = hoSessions (thHost t)"
proof -
  obtain r0 t1 where a: "answerResult now (tqMode q) q (attachContext q r0) t1 = (Inr r, t')" "\<not> tuReady r0"
    "hoSessions (thHost t1) = hoSessions (thHost t)"
  proof -
    obtain v t1 ts1 where v: "validateCompatForStartup cfg hash now q t = (v, t1, ts1)" by (metis prod_cases3)
    have s: "hoSessions (thHost t1) = hoSessions (thHost t)" using compat_sessions [of cfg hash now q t] v by simp
    have c: "\<not> tuReady x" if "v = Some x" for x
      using v that by (auto simp: validateCompatForStartup_def startupCompatFailure_def emptyResult_def Let_def
          split: if_splits option.splits prod.splits list.splits)
    have p: "\<not> tuReady x" if "attachProfile q (thStore t1) = Inl x" for x
      using that by (auto simp: attachProfile_def emptyResult_def Let_def split: if_splits option.splits sum.splits)
    show thesis
      using that s c p assms(2,3) v
      by (auto simp: beginStart_def stepOf_def split: if_splits option.splits prod.splits sum.splits)
  qed
  have r: "r = attachContext q r0" "t' = rememberResult now q r t1" "validateTunnelStartResult (tqMode q) r"
    using a(1) by (auto simp: answerResult_def split: if_splits)
  have m: "tuMode r = tqMode q" "tqMode q \<noteq> []" "\<not> tuReady r" using r(1,3) a(2) clean_same(2) [OF mode_known, of "tqMode q"]
    by (auto simp: validateTunnelStartResult_def)
  have "map_of (thResults t') (tqMode q) = Some (q, r, now)" using m r(2) by (simp add: rememberResult_def update_conv)
  moreover have "TrimSpace (tuSessionID r) = []" using r(3) m(3) by (simp add: validateTunnelStartResult_def)
  moreover have "hostOk t'" using beginStart_ok [OF assms(1), of cfg hash now q0] assms(2) by simp
  ultimately show ?thesis using m(3) a(3) r(2) by (auto dest: map_of_SomeD simp: rememberResult_def)
qed

section \<open>Properties\<close>

text \<open>
  C28: After any calls on a new host, the statuses are sorted by mode with one of each mode that the host
  knows; and one is in the state ready exactly if it says ready, and then misses nothing and waits for
  no permission.  In what order the host walks over its maps makes no difference to that.
\<close>
theorem tunnel_statuses_consistent:
  fixes cfg :: hostConfig and hash :: "string \<Rightarrow> string" and h :: controlHost and s :: transportStore and now :: instant
    and attempts :: "(string \<times> tunnelRequest) list" and sessions :: "managedSession list"
  assumes "list_all refusesFairly acts"
  defines "t \<equiv> fst (runTunnels cfg hash (newTunnels h s, [], []) acts)"
  defines "out \<equiv> PlatformTunnelStatuses now attempts sessions t"
  shows "sorted_wrt (<) (List.map lsMode out) \<and>
    set (List.map lsMode out) = statusModes (thStore t) attempts sessions t \<and>
    (\<forall>st\<in>set out. (lsState st = TunnelReady) = lsReady st \<and> (lsReady st \<longrightarrow> lsMissing st = [] \<and> lsAttemptID st = []))"
proof -
  have "tunnelsOk (runTunnels cfg hash (newTunnels h s, [], []) acts)"
    using run_tunnels_ok [OF new_tunnels_ok assms(1)] .
  then have ok: "hostOk t" unfolding t_def by (metis ok_split prod.collapse)
  have m: "List.map lsMode out = List.map fst (sort_key fst (statusTableOf now attempts sessions t))"
    unfolding out_def by (rule statuses_sorted [OF ok])
  have "distinct (List.map fst (statusTableOf now attempts sessions t))"
    using statuses_table [OF ok] by (simp add: tableOk_def)
  then have "distinct (List.map lsMode out)" unfolding m by (simp add: distinct_map)
  moreover have "sorted (List.map lsMode out)" unfolding m by (rule sorted_sort_key)
  moreover have "set (List.map lsMode out) = statusModes (thStore t) attempts sessions t"
    unfolding m using statuses_modes by simp
  moreover have "statusOk (lsMode st) st" if "st \<in> set out" for st
    using statuses_entry(3) [OF ok that [unfolded out_def]] .
  ultimately show ?thesis by (simp add: strict_sorted_iff statusOk_def)
qed

theorem tunnel_statuses_consistent_witness:
  "\<exists>st\<in>set (PlatformTunnelStatuses 9 [] [] (fst linuxRun)). lsMode st = ''linux_tun'' \<and>
     (lsState st = TunnelReady) = lsReady st"
proof -
  let ?out = "PlatformTunnelStatuses 9 [] [] (fst linuxRun)"
  have f: "list_all refusesFairly [ActStart 7 linuxRequest, ActStarted 0 7 (StarterReturns linuxReady) NoStopper]" by simp
  note w = tunnel_statuses_consistent [OF f, of 9 "[]" "[]" bareConfig "\<lambda>t. t" turnHost disabledStore, folded linuxRun_def]
  have "''linux_tun'' \<in> fst ` set (thResults (fst linuxRun))" using linux_run by (auto split: list.splits prod.splits)
  then have "''linux_tun'' \<in> statusModes (thStore (fst linuxRun)) [] [] (fst linuxRun)" by (simp add: statusModes_def)
  then have m: "''linux_tun'' \<in> set (List.map lsMode ?out)" unfolding w [THEN conjunct2, THEN conjunct1] .
  then obtain st where "st \<in> set ?out" "lsMode st = ''linux_tun''" by auto
  with w [THEN conjunct2, THEN conjunct2] show ?thesis by blast
qed

section \<open>The sample\<close>

definition refusedRequest :: tunnelRequest where
  "refusedRequest = linuxRequest\<lparr>tqPlan := Some samplePlan,
     tqCompat := Some \<lparr>suCandidateID = [], suSource = None, suArtifact = None, suPlan = None, suProfile = None\<rparr>\<rparr>"

lemma refused_begins:
  "case beginStart bareConfig (\<lambda>t. t) 9 refusedRequest (fst linuxRun) of (StartAnswered _, _, _) \<Rightarrow> True | _ \<Rightarrow> False"
  by code_simp

lemma refused_normal: "normalizeTunnelRequest refusedRequest = Inr refusedRequest" "tqMode refusedRequest = ''linux_tun''"
  by code_simp+

lemma linux_older: "list_all (\<lambda>e. svUpdatedAt (mgView (snd e)) < 9) (hoSessions (thHost (fst linuxRun)))"
  by code_simp

lemma linux_runs:
  "case sessV (thHost (fst linuxRun)) ''s'' of None \<Rightarrow> False | Some l \<Rightarrow> slMode l = ''linux_tun'' \<and> \<not> slEnded l"
  by code_simp

lemma linux_ok: "hostOk (fst linuxRun)"
proof -
  have "tunnelsOk linuxRun" unfolding linuxRun_def by (rule run_tunnels_ok [OF new_tunnels_ok]) simp
  then show ?thesis by (metis ok_split prod.collapse)
qed

section \<open>Starts that are refused\<close>

text \<open>
  C29: A start that is answered before the platform is called stops no session, yet the status of its
  mode then says that the tunnel is not ready and names no session, even if the host has a tunnel of
  the mode that runs.
\<close>
theorem refused_start_hides_running_tunnel:
  assumes "hostOk t" "beginStart cfg hash now q0 t = (StartAnswered r, t', ts)" "normalizeTunnelRequest q0 = Inr q"
    "set sessions = snd ` set (hoSessions (thHost t'))"
    "\<forall>m\<in>snd ` set (hoSessions (thHost t)). mgPlatformMode m = tqMode q \<longrightarrow> svUpdatedAt (mgView m) < now"
  shows "runningTunnels (tqMode q) (thHost t') = runningTunnels (tqMode q) (thHost t) \<and>
    (\<exists>st\<in>set (PlatformTunnelStatuses later attempts sessions t'). lsMode st = tqMode q \<and> \<not> lsReady st \<and>
      TrimSpace (lsSessionID st) = [])"
proof -
  note b = begin_answered [OF assms(1-3)]
  then have s: "hoSessions (thHost t') = hoSessions (thHost t)" by simp
  have "runningTunnels (tqMode q) (thHost t') = runningTunnels (tqMode q) (thHost t)"
    by (simp add: runningTunnels_def sessV_def theSession_def s)
  moreover have "\<forall>m\<in>set sessions. mgPlatformMode m = tqMode q \<longrightarrow> svUpdatedAt (mgView m) < now"
    using assms(4,5) s by simp
  ultimately show ?thesis
    using failed_status [of t' "tqMode q" q r now sessions later attempts] b by force
qed

theorem refused_start_hides_running_tunnel_witness:
  "case beginStart bareConfig (\<lambda>t. t) 9 refusedRequest (fst linuxRun) of
     (_, t', _) \<Rightarrow> runningTunnels ''linux_tun'' (thHost t') \<noteq> {} \<and>
       (\<exists>st\<in>set (PlatformTunnelStatuses 9 [] (List.map snd (hoSessions (thHost t'))) t'). lsMode st = ''linux_tun'' \<and> \<not> lsReady st)"
proof -
  obtain r t' ts where b: "beginStart bareConfig (\<lambda>t. t) 9 refusedRequest (fst linuxRun) = (StartAnswered r, t', ts)"
    using refused_begins by (auto split: prod.splits startStep.splits)
  have s: "set (List.map snd (hoSessions (thHost t'))) = snd ` set (hoSessions (thHost t'))" by simp
  have o: "\<forall>m\<in>snd ` set (hoSessions (thHost (fst linuxRun))). mgPlatformMode m = tqMode refusedRequest \<longrightarrow> svUpdatedAt (mgView m) < 9"
    using linux_older by (auto simp: list_all_iff)
  have "runningTunnels ''linux_tun'' (thHost (fst linuxRun)) \<noteq> {}"
    using linux_runs by (auto simp: runningTunnels_def split: option.splits)
  then show ?thesis
    using refused_start_hides_running_tunnel [OF linux_ok b refused_normal(1) s o, of 9 "[]"] unfolding b refused_normal(2)
    by auto
qed

end
