(* ===== verification/Spec2Isabelle.thy ===== *)
theory Spec2Isabelle
  imports GoPrelude OverlayFrame OverlayWorkers GoChannels UdpIngress TcpIngress TcpIngressInv RunStage
    SessionSupervisor SessionSupervisorInv GoNet RuntimeConfig Providers SessionRun TurnSockets
    RelayTransport ServerOverlay TcpEgress TcpEgressInv StreamPipe PlainServer PlainServerInv ServerAccept VpsCatalog
    VpsService VpsServiceInv ProviderSettings ExecutionPlans ControlTypes HostState HostSessions HostResolutions ControlHost
    HostViews HostInvariants HostReach HostProgress HostHistories HostSample HostProperties
    WireGuardProfile Base64 TransportStore TransportOps TransportStructured TransportPortable TransportStoreInv TransportRuns
    TransportSample TransportProperties PortableProperties DraftProperties TransportCompat ClientSample CompatProperties
    RemoteCatalog RemoteIssue RemoteRuns RemoteSample RemoteProperties HostIssued
    PlatformTunnel PlatformHost PlatformRuns PlatformSessions PlatformProperties PlatformStartup PlatformStatus
    PlatformStatusProperties
begin

text \<open>
  A verification library for the tunnel of \<^verbatim>\<open>vk-turn-proxy-go\<close>: a client that accepts local UDP or
  TCP traffic, carries it over a TURN relay to its own server, and a server that passes it on to an
  upstream.

  The program's parts and the theories that model them.

  \<^item> \<open>GoPrelude\<close>, \<open>GoNet\<close>, \<open>GoChannels\<close>: the Go the code uses.  Strings, \<open>TrimSpace\<close>, big endian
    words, quoting; \<open>SplitHostPort\<close>, \<open>JoinHostPort\<close>, \<open>ParseIP\<close>; channels as bounded queues.
  \<^item> \<open>OverlayFrame\<close> (\<^verbatim>\<open>internal/overlay/types.go\<close>): the frames of the tunnel, their wire format, and
    the endpoint that reads and writes them.  Both round trips and the exact language accepted.
  \<^item> \<open>OverlayWorkers\<close> (\<^verbatim>\<open>internal/overlay/workers.go\<close>): the set of ready workers with its round robin
    cursor; a refinement of a map from worker to channel, stated as the locale \<open>worker_registry\<close>.
  \<^item> \<open>UdpIngress\<close>, \<open>TcpIngress\<close>, \<open>TcpIngressInv\<close> (\<^verbatim>\<open>internal/overlay/udp_ingress.go\<close>,
    \<^verbatim>\<open>internal/overlay/tcp_ingress.go\<close>): the local side.  The UDP ingress is one loop; the TCP ingress
    is a step machine whose events are blocking operations, critical sections and commits of a
    \<open>select\<close> of its goroutines, in any order.
  \<^item> \<open>RunStage\<close> (\<^verbatim>\<open>internal/runstage/stage.go\<close>): errors with the stage they are attributed to.
  \<^item> \<open>SessionSupervisor\<close>, \<open>SessionSupervisorInv\<close> (\<^verbatim>\<open>internal/session/supervisor.go\<close>): the supervised
    session as a step machine: workers that become ready, end, and are restarted within a budget.
    Its calls on the ingress are proved against \<open>worker_registry\<close>, for both ingresses.
  \<^item> \<open>RuntimeConfig\<close>, \<open>Providers\<close>, \<open>SessionRun\<close> (\<^verbatim>\<open>internal/config/config.go\<close>,
    \<^verbatim>\<open>internal/provider/provider.go\<close>, \<^verbatim>\<open>internal/session/runtime.go\<close>, \<^verbatim>\<open>plan.go\<close>, \<^verbatim>\<open>policy.go\<close>,
    \<^verbatim>\<open>netaddr.go\<close>): configurations, the provider registry, and the entry of a session up to its
    supervised part.
  \<^item> \<open>TurnSockets\<close>, \<open>RelayTransport\<close> (\<^verbatim>\<open>internal/transport\<close>): the sockets towards the TURN server, the
    startup sequence of a worker with its deferred closes, the handshake, and the forwarding loops.
  \<^item> \<open>ServerOverlay\<close>, \<open>TcpEgress\<close>, \<open>TcpEgressInv\<close> (\<^verbatim>\<open>internal/tunnelserver/overlay_session.go\<close>): the
    server's side of a session: handshake, frame loop, UDP egress, and the TCP egress as a step
    machine.
  \<^item> \<open>StreamPipe\<close>: both ends of a TCP stream together.  The locales \<open>stream_sender\<close>,
    \<open>stream_receiver\<close> and \<open>stream_pipe\<close> are interpreted on the two step machines in both directions.
  \<^item> \<open>PlainServer\<close>, \<open>PlainServerInv\<close> (\<^verbatim>\<open>internal/tunnelserver/plain_server.go\<close>): the server without
    DTLS as a step machine of its read loop and its sessions.
  \<^item> \<open>ServerAccept\<close> (\<^verbatim>\<open>internal/tunnelserver/server.go\<close>): configuration, accept loop, and what is
    reported of a connection.
  \<^item> \<open>VpsCatalog\<close>, \<open>VpsService\<close>, \<open>VpsServiceInv\<close> (\<^verbatim>\<open>internal/vpscatalog\<close>): the provider catalog, its
    validation, and the service that issues artifacts from it.
  \<^item> \<open>ProviderSettings\<close>, \<open>ExecutionPlans\<close> (\<^verbatim>\<open>pkg/clientcontrol/provider_settings_*.go\<close>,
    \<^verbatim>\<open>runtime_execution_*.go\<close>): settings of a provider against its schema, with the numbers of JSON
    (exact rationals with a power of two, and the rounding of the conversions); execution plans, their
    compatibility matrix and the choice of a plan.
  \<^item> \<open>ControlTypes\<close>, \<open>HostState\<close>, \<open>HostSessions\<close>, \<open>HostResolutions\<close>, \<open>ControlHost\<close>
    (\<^verbatim>\<open>pkg/clientcontrol/types.go\<close>, \<^verbatim>\<open>host.go\<close>, \<^verbatim>\<open>resolution.go\<close>, \<^verbatim>\<open>challenge_contract.go\<close>): the session
    host.  Its state is a record of maps and of the goroutines, each a list of tasks; a task is what a
    goroutine does between two points at which others may run (a locked section, a send, a wait).
    \<open>runHost\<close> runs a list of client calls and steps of goroutines from the empty host, so every
    interleaving is a list.
  \<^item> \<open>HostViews\<close>, \<open>HostInvariants\<close>, \<open>HostReach\<close>: the part of the state that decides who may finish a
    session or resolution, the effect of each task on it, and the invariant of every reachable state.
    \<open>HostProgress\<close>: termination between two waits, and coming to rest.  \<open>HostHistories\<close>: bounds.
    \<open>HostSample\<close>: a small host and runs of it.  \<open>HostProperties\<close>: what clients rely on.
  \<^item> \<open>WireGuardProfile\<close>, \<open>Base64\<close> (\<^verbatim>\<open>internal/wireguardprofile/profile.go\<close>): WireGuard configuration
    files, \<open>netip\<close> and \<open>encoding/base64\<close>.
  \<^item> \<open>TransportStore\<close>, \<open>TransportOps\<close>, \<open>TransportStructured\<close>, \<open>TransportPortable\<close>
    (\<^verbatim>\<open>pkg/clientcontrol/transport_profile_*.go\<close>): the store of VPN transport profiles.  A record of
    profiles, defaults and the file; every operation is one locked section and takes the outcome of
    writing the file; the hash, the cipher and the JSON are parameters, and of the JSON of the file it
    is used that texts in UTF-8 and times come back as they were.
  \<^item> \<open>TransportStoreInv\<close>, \<open>TransportRuns\<close>: the invariant of the store, what each operation keeps of it, and
    runs of any calls, failing writes and restarts.  \<open>TransportSample\<close>: a small store.
    \<open>TransportProperties\<close>, \<open>PortableProperties\<close>, \<open>DraftProperties\<close>: what clients rely on.
  \<^item> \<open>TransportCompat\<close>, \<open>CompatProperties\<close>
    (\<^verbatim>\<open>pkg/clientcontrol/provider_transport_compatibility.go\<close>): the candidates a host offers for a
    resolution, the axis on which each fails, and what a startable one guarantees.  \<open>ClientSample\<close>: a
    host with one resolution.
  \<^item> \<open>RemoteCatalog\<close>, \<open>RemoteIssue\<close> (\<^verbatim>\<open>pkg/clientcontrol/vps_provider_catalog.go\<close>): the client of
    remote provider catalogs, its cache and file, and the resolutions it makes of issued artifacts.
    \<open>RemoteRuns\<close>: runs of syncs, in halves that interleave, of failing writes and restarts.
    \<open>RemoteSample\<close>: a small catalog.  \<open>RemoteProperties\<close>: what clients rely on, also together with
    the service of \<open>VpsService\<close>.  \<open>HostIssued\<close>: runs of the session host in which artifacts are issued as
    well, and for which resolutions it has credentials.
  \<^item> \<open>PlatformTunnel\<close>, \<open>PlatformHost\<close>, \<open>PlatformStatus\<close> (\<^verbatim>\<open>pkg/clientcontrol/platform_tunnel.go\<close>,
    \<^verbatim>\<open>host.go\<close>, and the check of a startup in \<^verbatim>\<open>provider_transport_compatibility.go\<close>): the tunnels of the
    platform.  Their state is that of the host, its profile store and three maps; a start and a resume are two
    steps, before and after the platform is called, each with one reading of the clock; what the starter,
    the resumer and the stopper return is an argument.  \<open>PlatformRuns\<close>: any calls, halves and changes of
    the rest of the host, and the invariant.  \<open>PlatformSessions\<close>: which sessions run after each.
    \<open>PlatformProperties\<close>, \<open>PlatformStartup\<close>, \<open>PlatformStatusProperties\<close>: what clients rely on.

  Conventions.  Integers that index workers are \<open>int\<close>; identifiers and sequence numbers are 64 bit
  words that wrap around; bytes are 8 bit words.  Errors are values.  A loop over a connection takes
  the list of what its reads return, so it ends where the list ends; nothing depends on fuel.  The
  TURN and DTLS libraries, sockets, timers and the operating system are arguments: outcomes of
  calls, or choices of an event.  Log lines are not modelled; what is reported to the observer is a
  trace where a property is about it.

  Not modelled: the provider adapters that drive a browser, the HTTP surface of the control host, and the
  platform hosts, which are mostly calls of the platform.
\<close>

end
